(* ===== verification/Bastet_Prelude.thy ===== *)
theory Bastet_Prelude
  imports Main "HOL-Library.Word"
begin

text \<open>
  Shared vocabulary of the development: Rust's \<open>Result\<close> as a sum type with the early
  return operator, UTF-8 strings with \<open>str::trim\<close>, machine integers, the opaque typed
  identifiers, \<open>slice::iter().find\<close> with its in-place update, and the two interfaces several
  components implement: a transition system with an invariant, and a record sealed by a
  content digest.
\<close>

named_theorems ok_simps \<comment> \<open>what it means for a validation to return \<open>Ok\<close>\<close>

section \<open>Results and early return\<close>

type_synonym ('e, 'a) result = "'e + 'a"

abbreviation Err :: "'e \<Rightarrow> ('e, 'a) result" where "Err \<equiv> Inl"
abbreviation Ok :: "'a \<Rightarrow> ('e, 'a) result" where "Ok \<equiv> Inr"

fun is_ok :: "('e, 'a) result \<Rightarrow> bool" where
  "is_ok (Inl e) = False"
| "is_ok (Inr a) = True"

text \<open>\<open>and_then r f\<close> is \<open>let x = r?; f(x)\<close>.\<close>

fun and_then :: "('e, 'a) result \<Rightarrow> ('a \<Rightarrow> ('e, 'b) result) \<Rightarrow> ('e, 'b) result" where
  "and_then (Inl e) f = Inl e"
| "and_then (Inr a) f = f a"

fun ok_or :: "'a option \<Rightarrow> 'e \<Rightarrow> ('e, 'a) result" where
  "ok_or None e = Inl e"
| "ok_or (Some a) e = Inr a"

fun map_err :: "('e \<Rightarrow> 'f) \<Rightarrow> ('e, 'a) result \<Rightarrow> ('f, 'a) result" where
  "map_err f (Inl e) = Inl (f e)"
| "map_err f (Inr a) = Inr a"

text \<open>\<open>ensure b e\<close> is \<open>if !b { return Err(e) }\<close>; \<open>checks\<close> runs statements of that form one
  after the other and stops at the first error; \<open>for_each\<close> is the same for a loop.\<close>

definition ensure :: "bool \<Rightarrow> 'e \<Rightarrow> ('e, unit) result" where
  "ensure b e = (if b then Inr () else Inl e)"

fun checks :: "('e, unit) result list \<Rightarrow> ('e, unit) result" where
  "checks [] = Inr ()"
| "checks (c # cs) = and_then c (\<lambda>_. checks cs)"

definition for_each :: "'a list \<Rightarrow> ('a \<Rightarrow> ('e, unit) result) \<Rightarrow> ('e, unit) result" where
  "for_each xs f = checks (map f xs)"

lemma is_ok_iff: "is_ok r \<longleftrightarrow> (\<exists>a. r = Inr a)"
  by (cases r) auto

lemma is_ok_unit: "is_ok (r :: ('e, unit) result) \<longleftrightarrow> r = Inr ()"
  by (cases r) auto

lemma is_ok_ensure [ok_simps, simp]: "is_ok (ensure b e) \<longleftrightarrow> b"
  by (simp add: ensure_def)

lemma ensure_eq_Err [simp]: "ensure b e = Inl e' \<longleftrightarrow> \<not> b \<and> e' = e"
  by (auto simp: ensure_def)

lemma ensure_eq_Ok [simp]: "ensure b e = Inr u \<longleftrightarrow> b"
  by (auto simp: ensure_def)

lemma is_ok_and_then:
  "is_ok (and_then r f) \<longleftrightarrow> (\<exists>a. r = Inr a \<and> is_ok (f a))"
  by (cases r) auto

lemma is_ok_and_then_unit [ok_simps]:
  "is_ok (and_then (r :: ('e, unit) result) f) \<longleftrightarrow> is_ok r \<and> is_ok (f ())"
  by (cases r) auto

lemma is_ok_and_then_const [ok_simps, simp]:
  "is_ok (and_then r (\<lambda>_. q)) \<longleftrightarrow> is_ok r \<and> is_ok q"
  by (cases r) auto

lemma and_then_eq_Ok:
  "and_then r f = Inr b \<longleftrightarrow> (\<exists>a. r = Inr a \<and> f a = Inr b)"
  by (cases r) auto

lemma and_then_eq_Err:
  "and_then r f = Inl e \<longleftrightarrow> r = Inl e \<or> (\<exists>a. r = Inr a \<and> f a = Inl e)"
  by (cases r) auto

lemma and_then_cong [fundef_cong]:
  "r = r' \<Longrightarrow> (\<And>a. r' = Inr a \<Longrightarrow> f a = g a) \<Longrightarrow> and_then r f = and_then r' g"
  by (cases r') auto

lemma ok_or_eq_Ok [simp]: "ok_or x e = Inr a \<longleftrightarrow> x = Some a"
  by (cases x) auto

lemma ok_or_eq_Err [simp]: "ok_or x e = Inl e' \<longleftrightarrow> x = None \<and> e' = e"
  by (cases x) auto

lemma is_ok_map_err [ok_simps, simp]: "is_ok (map_err f r) \<longleftrightarrow> is_ok r"
  by (cases r) auto

declare checks.simps [simp del]

lemma is_ok_checks: "is_ok (checks cs) \<longleftrightarrow> list_all is_ok cs"
  by (induction cs) (auto simp: is_ok_and_then_unit checks.simps)

lemma is_ok_checks_Nil [ok_simps, simp]: "is_ok (checks [])"
  by (simp add: is_ok_checks)

lemma is_ok_checks_Cons [ok_simps, simp]: "is_ok (checks (c # cs)) \<longleftrightarrow> is_ok c \<and> is_ok (checks cs)"
  by (simp add: is_ok_checks)

lemma is_ok_for_each [ok_simps]: "is_ok (for_each xs f) \<longleftrightarrow> (\<forall>x \<in> set xs. is_ok (f x))"
  by (simp add: for_each_def is_ok_checks list_all_iff)

lemma is_ok_if_let [ok_simps, simp]:
  "is_ok (case x of None \<Rightarrow> Inr () | Some a \<Rightarrow> f a) \<longleftrightarrow> (\<forall>a. x = Some a \<longrightarrow> is_ok (f a))"
  by (cases x) auto

lemma checks_append: "checks (cs @ ds) = and_then (checks cs) (\<lambda>_. checks ds)"
proof (induction cs)
  case (Cons c cs)
  then show ?case by (cases c) (auto simp: checks.simps)
qed (simp add: checks.simps)

text \<open>
  Where the source can panic (\<open>expect\<close>, \<open>unwrap\<close>, index out of range) the error is either one
  the function returns or the panic with its message.
\<close>

datatype 'e failure = Raised 'e | Panicked string

abbreviation raising :: "('e, 'a) result \<Rightarrow> ('e failure, 'a) result" where
  "raising r \<equiv> map_err Raised r"

fun panics :: "('e failure, 'a) result \<Rightarrow> bool" where
  "panics (Inl (Panicked m)) = True"
| "panics _ = False"

text \<open>\<open>expect x m\<close> is \<open>x.expect(m)\<close> on an \<open>Option\<close>.\<close>

definition expect :: "'a option \<Rightarrow> string \<Rightarrow> ('e failure, 'a) result" where
  "expect x m = (case x of Some a \<Rightarrow> Inr a | None \<Rightarrow> Inl (Panicked m))"

lemma map_err_eq_Ok [simp]: "map_err f r = Inr a \<longleftrightarrow> r = Inr a"
  by (cases r) auto

lemma expect_eq_Ok [simp]: "expect x m = Inr a \<longleftrightarrow> x = Some a"
  by (auto simp: expect_def split: option.splits)

lemma panics_iff: "panics r \<longleftrightarrow> (\<exists>m. r = Inl (Panicked m))"
  by (cases r rule: panics.cases) auto

lemma panics_and_then: "panics (and_then r f) \<longleftrightarrow> panics r \<or> (\<exists>a. r = Inr a \<and> panics (f a))"
  by (cases r) (auto simp: panics_iff)

lemma panics_raising [simp]: "\<not> panics (raising r)"
  by (cases r) auto

section \<open>Machine integers\<close>

type_synonym u8 = "8 word"
type_synonym u16 = "16 word"
type_synonym u32 = "32 word"
type_synonym u64 = "64 word"

definition checked_add :: "'a::len word \<Rightarrow> 'a word \<Rightarrow> 'a word option" where
  "checked_add a b = (if unat a + unat b < 2 ^ LENGTH('a) then Some (a + b) else None)"

lemma checked_add_Some:
  assumes "checked_add (a :: 'a::len word) b = Some c"
  shows "unat c = unat a + unat b"
  using assms by (auto simp: checked_add_def unat_word_ariths split: if_splits)

lemma checked_add_code [code]:
  "checked_add (a :: 'a::len word) b = (if uint a + uint b < 2 ^ LENGTH('a) then Some (a + b) else None)"
proof -
  have "int (unat a + unat b) < int (2 ^ LENGTH('a)) \<longleftrightarrow> unat a + unat b < 2 ^ LENGTH('a)"
    by (rule of_nat_less_iff)
  then show ?thesis by (simp add: checked_add_def)
qed

text \<open>A wrapping increment still changes the value: what revision counters rely on.\<close>

lemma word_succ_neq [simp]: "(x :: u64) + 1 \<noteq> x"
  by simp

section \<open>Strings\<close>

text \<open>
  A Rust \<open>String\<close> is its UTF-8 bytes, so \<open>len()\<close> is \<open>length\<close>. \<open>utf8_chars\<close> cuts the bytes
  at every byte that is not a continuation byte, which gives the characters of a valid string;
  \<open>white_space\<close> is Unicode's \<open>White_Space\<close> property on the encoded characters, as
  \<open>char::is_whitespace\<close> has it.
\<close>

definition utf8_continuation :: "char \<Rightarrow> bool" where
  "utf8_continuation c \<longleftrightarrow> 128 \<le> (of_char c :: nat) \<and> (of_char c :: nat) < 192"

lemma length_dropWhile_less [termination_simp]: "length (dropWhile P xs) < Suc (length xs)"
  using length_dropWhile_le[of P xs] by simp

fun utf8_chars :: "string \<Rightarrow> string list" where
  "utf8_chars [] = []"
| "utf8_chars (c # cs) =
     (c # takeWhile utf8_continuation cs) # utf8_chars (dropWhile utf8_continuation cs)"

definition white_space_bytes :: "nat list list" where
  "white_space_bytes =
     [[9], [10], [11], [12], [13], [32], [194, 133], [194, 160], [225, 154, 128],
      [226, 128, 128], [226, 128, 129], [226, 128, 130], [226, 128, 131], [226, 128, 132],
      [226, 128, 133], [226, 128, 134], [226, 128, 135], [226, 128, 136], [226, 128, 137],
      [226, 128, 138], [226, 128, 168], [226, 128, 169], [226, 128, 175], [226, 129, 159],
      [227, 128, 128]]"

definition white_space :: "string \<Rightarrow> bool" where
  "white_space c \<longleftrightarrow> map of_char c \<in> set white_space_bytes"

definition trim :: "string \<Rightarrow> string" where
  "trim s = concat (rev (dropWhile white_space (rev (dropWhile white_space (utf8_chars s)))))"

text \<open>\<open>blank s\<close> is \<open>s.trim().is_empty()\<close>.\<close>

definition blank :: "string \<Rightarrow> bool" where
  "blank s \<longleftrightarrow> trim s = []"

lemma utf8_chars_nonempty: "c \<in> set (utf8_chars s) \<Longrightarrow> c \<noteq> []"
  by (induction s rule: utf8_chars.induct) auto

lemma concat_utf8_chars [simp]: "concat (utf8_chars s) = s"
  by (induction s rule: utf8_chars.induct) auto

lemma set_dropWhile_subset: "set (dropWhile P xs) \<subseteq> set xs"
  by (metis dropWhile_eq_drop set_drop_subset)

lemma concat_chars_eq_Nil: "set cs \<subseteq> set (utf8_chars s) \<Longrightarrow> concat cs = [] \<longleftrightarrow> cs = []"
  using utf8_chars_nonempty[of _ s] by (cases cs) auto

lemma all_dropWhile: "(\<forall>x \<in> set (dropWhile P xs). P x) \<longleftrightarrow> (\<forall>x \<in> set xs. P x)"
  by (induction xs) auto

lemma dropWhile_rev_dropWhile_Nil:
  "dropWhile P (rev (dropWhile P xs)) = [] \<longleftrightarrow> (\<forall>x \<in> set xs. P x)"
  by (simp only: dropWhile_eq_Nil_conv set_rev all_dropWhile)

lemma blank_iff: "blank s \<longleftrightarrow> (\<forall>c \<in> set (utf8_chars s). white_space c)"
proof -
  let ?d = "dropWhile white_space (rev (dropWhile white_space (utf8_chars s)))"
  have "set (rev ?d) \<subseteq> set (utf8_chars s)"
    using set_dropWhile_subset[of white_space "rev (dropWhile white_space (utf8_chars s))"]
      set_dropWhile_subset[of white_space "utf8_chars s"] by auto
  then have "trim s = [] \<longleftrightarrow> ?d = []"
    unfolding trim_def by (simp add: concat_chars_eq_Nil del: concat_eq_Nil_conv)
  then show ?thesis by (simp only: blank_def dropWhile_rev_dropWhile_Nil)
qed

text \<open>For evaluation: a string that begins with a printable ASCII character is not blank.\<close>

definition ascii_graphic :: "char \<Rightarrow> bool" where
  "ascii_graphic c \<longleftrightarrow> \<not> digit7 c \<and> (digit5 c \<or> digit6 c) \<and> c \<noteq> CHR 0x20"

lemma ascii_graphic_code: "ascii_graphic c \<Longrightarrow> 32 < (of_char c :: nat) \<and> (of_char c :: nat) < 128"
  by (cases c) (auto simp: ascii_graphic_def of_char_def)

lemma ascii_graphic_not_white: "ascii_graphic c \<Longrightarrow> \<not> white_space (c # cs)"
  by (auto simp: white_space_def white_space_bytes_def dest!: ascii_graphic_code)

lemma blank_code [code]:
  "blank s = (case s of [] \<Rightarrow> True | c # cs \<Rightarrow> \<not> ascii_graphic c \<and> list_all white_space (utf8_chars s))"
  by (auto simp: blank_iff list_all_iff ascii_graphic_not_white split: list.split)

lemma blank_Nil [simp]: "blank []"
  by (simp add: blank_iff)

text \<open>
  Trimming keeps the characters of the string that remain, so a string that is not blank stays
  so when it is stored trimmed.
\<close>

fun chunked :: "string list \<Rightarrow> bool" where
  "chunked [] = True"
| "chunked [c] = (c \<noteq> [] \<and> list_all utf8_continuation (tl c))"
| "chunked (c # d # ds) =
     (c \<noteq> [] \<and> list_all utf8_continuation (tl c) \<and> \<not> utf8_continuation (hd d) \<and> chunked (d # ds))"

lemma utf8_chars_hd: "s \<noteq> [] \<Longrightarrow> \<exists>cs ds. utf8_chars s = (hd s # cs) # ds"
  by (cases s) auto

lemma chunked_utf8_chars: "chunked (utf8_chars s)"
proof (induction s rule: utf8_chars.induct)
  case (2 c cs)
  let ?r = "dropWhile utf8_continuation cs"
  show ?case
  proof (cases "?r = []")
    case True
    then show ?thesis
      by (simp only: utf8_chars.simps) (auto simp: list_all_iff dest: set_takeWhileD)
  next
    case False
    then obtain d ds where "utf8_chars ?r = (hd ?r # d) # ds"
      using utf8_chars_hd by blast
    then show ?thesis
      using 2 False hd_dropWhile[of utf8_continuation cs]
      by (auto simp: list_all_iff dest: set_takeWhileD)
  qed
qed simp

lemma utf8_chars_concat: "chunked cs \<Longrightarrow> utf8_chars (concat cs) = cs"
proof (induction cs rule: chunked.induct)
  case (2 c)
  then obtain x xs where c: "c = x # xs" by (cases c) auto
  with 2 have "takeWhile utf8_continuation xs = xs" "dropWhile utf8_continuation xs = []"
    by (auto simp: list_all_iff dropWhile_eq_Nil_conv takeWhile_eq_all_conv)
  then show ?case by (simp only: c concat.simps utf8_chars.simps append_Nil2)
next
  case (3 c d ds)
  from 3 obtain x xs y ys where "c = x # xs" "d = y # ys" by (cases c; cases d; cases ds) auto
  with 3 show ?case
    by (simp add: list_all_iff takeWhile_append2 dropWhile_append2)
qed simp

lemma chunked_Cons: "chunked (c # cs) \<Longrightarrow> chunked cs"
  by (cases cs) auto

lemma chunked_suffix: "chunked (xs @ ys) \<Longrightarrow> chunked ys"
  by (induction xs) (auto dest: chunked_Cons)

lemma chunked_prefix: "chunked (xs @ ys) \<Longrightarrow> chunked xs"
proof (induction xs rule: chunked.induct)
  case (2 c)
  then show ?case by (cases ys) auto
qed auto

lemma utf8_chars_trim:
  "utf8_chars (trim s) = rev (dropWhile white_space (rev (dropWhile white_space (utf8_chars s))))"
proof -
  let ?d = "dropWhile white_space (utf8_chars s)"
  have "chunked ?d"
    using chunked_utf8_chars[of s] takeWhile_dropWhile_id[of white_space "utf8_chars s"]
    by (metis chunked_suffix)
  moreover have "rev (dropWhile white_space (rev ?d)) @ rev (takeWhile white_space (rev ?d)) = ?d"
    by (metis rev_append rev_swap takeWhile_dropWhile_id)
  ultimately have "chunked (rev (dropWhile white_space (rev ?d)))"
    by (metis chunked_prefix)
  then show ?thesis by (simp add: trim_def utf8_chars_concat)
qed

lemma blank_trim [simp]: "blank (trim s) \<longleftrightarrow> blank s"
  by (simp only: blank_iff utf8_chars_trim set_rev all_dropWhile)

section \<open>Identifiers\<close>

text \<open>
  Every durable entity has an opaque UUID behind a type of its own. The type argument of
  \<open>stable_id\<close> keeps the kinds of identifier apart, as the source's newtypes do; \<open>id_value\<close> is
  the UUID, written as the 128-bit number its bytes spell.
\<close>

type_synonym uuid = "128 word"

datatype 'k stable_id = StableId (id_value: uuid)

lemma id_value_inject [simp]: "id_value a = id_value b \<longleftrightarrow> a = b"
  by (cases a; cases b) simp

section \<open>Keyed vectors\<close>

text \<open>
  The program keeps its entities in vectors and reads them with \<open>iter().find(|x| key(x) == k)\<close>;
  \<open>update_first\<close> is \<open>iter_mut().find(..)\<close> followed by the assignments \<open>f\<close> to what was found.
  A vector whose keys are distinct behaves as a map from keys to entries.
\<close>

fun update_first :: "('a \<Rightarrow> bool) \<Rightarrow> ('a \<Rightarrow> 'a) \<Rightarrow> 'a list \<Rightarrow> 'a list" where
  "update_first P f [] = []"
| "update_first P f (x # xs) = (if P x then f x # xs else x # update_first P f xs)"

lemma length_update_first [simp]: "length (update_first P f xs) = length xs"
  by (induction xs) auto

lemma map_update_first:
  "(\<And>x. P x \<Longrightarrow> g (f x) = g x) \<Longrightarrow> map g (update_first P f xs) = map g xs"
  by (induction xs) auto

lemma update_first_map:
  "distinct (map key xs) \<Longrightarrow>
   update_first (\<lambda>x. key x = k) f xs = map (\<lambda>x. if key x = k then f x else x) xs"
  by (induction xs) (auto simp: image_iff intro!: map_idI[symmetric])

lemma find_key_Some:
  "distinct (map key xs) \<Longrightarrow> find (\<lambda>x. key x = k) xs = Some x \<longleftrightarrow> x \<in> set xs \<and> key x = k"
  by (induction xs) (auto simp: image_iff)

lemma find_key_None: "find (\<lambda>x. key x = k) xs = None \<longleftrightarrow> k \<notin> key ` set xs"
  by (auto simp: find_None_iff)

lemma find_SomeD: "find P xs = Some x \<Longrightarrow> x \<in> set xs \<and> P x"
  by (induction xs) (auto split: if_splits)

lemma find_exists: "k \<in> key ` set xs \<Longrightarrow> \<exists>x. find (\<lambda>x. key x = k) xs = Some x"
  by (metis find_key_None not_Some_eq)

lemma key_mem_iff: "k \<in> key ` set xs \<longleftrightarrow> (\<exists>x \<in> set xs. key x = k)"
  by auto

lemma distinct_key_eq:
  "distinct (map key xs) \<Longrightarrow> x \<in> set xs \<Longrightarrow> y \<in> set xs \<Longrightarrow> key x = key y \<Longrightarrow> x = y"
  by (metis inj_onD distinct_map)

text \<open>\<open>collect::<HashSet<_>>().len() == len()\<close> tests that a vector has no duplicates.\<close>

lemma card_set_length_iff [ok_simps]: "card (set xs) = length xs \<longleftrightarrow> distinct xs"
  using card_distinct distinct_card by blast

text \<open>A loop that inserts into a \<open>HashSet\<close> and stops at the first value already there.\<close>

fun find_duplicate :: "'a set \<Rightarrow> 'a list \<Rightarrow> 'a option" where
  "find_duplicate seen [] = None"
| "find_duplicate seen (x # xs) =
     (if x \<in> seen then Some x else find_duplicate (insert x seen) xs)"

lemma find_duplicate_None_from:
  "find_duplicate seen xs = None \<longleftrightarrow> distinct xs \<and> seen \<inter> set xs = {}"
  by (induction xs arbitrary: seen) auto

lemma find_duplicate_None [simp]: "find_duplicate {} xs = None \<longleftrightarrow> distinct xs"
  by (simp add: find_duplicate_None_from)

section \<open>Transition systems with an invariant\<close>

inductive reachable :: "('s \<Rightarrow> bool) \<Rightarrow> ('s \<Rightarrow> 'l \<Rightarrow> 's \<Rightarrow> bool) \<Rightarrow> 's \<Rightarrow> bool"
  for init :: "'s \<Rightarrow> bool" and step :: "'s \<Rightarrow> 'l \<Rightarrow> 's \<Rightarrow> bool" where
  reachable_init: "init s \<Longrightarrow> reachable init step s"
| reachable_step: "reachable init step s \<Longrightarrow> step s l t \<Longrightarrow> reachable init step t"

text \<open>
  The contract a stateful component offers: its initial states satisfy the invariant and every
  operation keeps it. \<open>steps\<close> is a run labelled with the operations performed.
\<close>

inductive steps :: "('s \<Rightarrow> 'l \<Rightarrow> 's \<Rightarrow> bool) \<Rightarrow> 's \<Rightarrow> 'l list \<Rightarrow> 's \<Rightarrow> bool"
  for step :: "'s \<Rightarrow> 'l \<Rightarrow> 's \<Rightarrow> bool" where
  steps_Nil: "steps step s [] s"
| steps_Cons: "step s l t \<Longrightarrow> steps step t ls u \<Longrightarrow> steps step s (l # ls) u"

inductive_cases steps_NilE: "steps step s [] t"
inductive_cases steps_ConsE: "steps step s (l # ls) t"

locale invariant_system =
  fixes init :: "'s \<Rightarrow> bool"
    and step :: "'s \<Rightarrow> 'l \<Rightarrow> 's \<Rightarrow> bool"
    and inv :: "'s \<Rightarrow> bool"
  assumes init_inv: "init s \<Longrightarrow> inv s"
    and step_inv: "inv s \<Longrightarrow> step s l t \<Longrightarrow> inv t"
begin

lemma reachable_inv: "reachable init step s \<Longrightarrow> inv s"
  by (induction rule: reachable.induct) (auto intro: init_inv step_inv)

lemma steps_inv: "steps step s ls t \<Longrightarrow> inv s \<Longrightarrow> inv t"
  by (induction rule: steps.induct) (auto intro: step_inv)

lemma steps_reachable:
  "steps step s ls t \<Longrightarrow> reachable init step s \<Longrightarrow> reachable init step t"
  by (induction rule: steps.induct) (auto intro: reachable_step)

end

text \<open>A quantity no operation decreases never decreases along a run.\<close>

locale monotone_system = invariant_system init step inv
  for init :: "'s \<Rightarrow> bool" and step :: "'s \<Rightarrow> 'l \<Rightarrow> 's \<Rightarrow> bool" and inv :: "'s \<Rightarrow> bool" +
  fixes observe :: "'s \<Rightarrow> 'o::preorder"
  assumes step_mono: "inv s \<Longrightarrow> step s l t \<Longrightarrow> observe s \<le> observe t"
begin

lemma steps_mono: "steps step s ls t \<Longrightarrow> inv s \<Longrightarrow> observe s \<le> observe t"
proof (induction rule: steps.induct)
  case (steps_Cons s l t ls u)
  then have "observe s \<le> observe t" and "observe t \<le> observe u"
    by (auto intro: step_mono step_inv)
  then show ?case by (rule order_trans)
qed simp

end

section \<open>Records sealed by a digest\<close>

text \<open>
  Outputs, decision baselines, document versions and approval requests store a digest of their
  own content, computed when they are created and recomputed when they are checked. The digest
  is SHA-256 of a third-party package, a parameter throughout; that it does not collide on the
  contents compared is a hypothesis wherever it is needed.
\<close>

locale content_seal =
  fixes content :: "'r \<Rightarrow> 'c"
    and tag :: "'r \<Rightarrow> 't"
    and digest :: "'c \<Rightarrow> 't"
    and intact :: "'r \<Rightarrow> bool"
  assumes intact_tag: "intact r \<Longrightarrow> tag r = digest (content r)"
begin

lemma sealed_content_unique:
  assumes "intact r" and "intact r'" and "tag r = tag r'"
    and "digest (content r) = digest (content r') \<Longrightarrow> content r = content r'"
  shows "content r = content r'"
  using assms by (simp add: intact_tag)

lemma tampering_detected:
  assumes "intact r" and "tag r' = tag r" and "digest (content r') \<noteq> digest (content r)"
  shows "\<not> intact r'"
  using assms by (metis intact_tag)

end

end
