(* ===== verification/Policy.thy ===== *)
theory Policy
  imports Bastet_Prelude
begin

text \<open>
  Permission ceilings and their inheritance (\<open>crates/bastet-core/src/policy.rs\<close>): four layers,
  five graded permissions and the persistence flag, and \<open>ScopedPolicy::restrict\<close>, which every
  approval passes through. The lemmas show that \<open>restrict\<close> is exactly the ceiling order and that
  authority only shrinks along a chain of restrictions.
\<close>

datatype PermissionLevel = Deny | Observe | Use

datatype PolicyLayer = Workstation | ProjectLayer | RoleOrAgent | SingleRun

text \<open>The derived \<open>Ord\<close> instances compare by position in the declaration.\<close>

fun permission_rank :: "PermissionLevel \<Rightarrow> nat" where
  "permission_rank Deny = 0"
| "permission_rank Observe = 1"
| "permission_rank Use = 2"

fun layer_rank :: "PolicyLayer \<Rightarrow> nat" where
  "layer_rank Workstation = 0"
| "layer_rank ProjectLayer = 1"
| "layer_rank RoleOrAgent = 2"
| "layer_rank SingleRun = 3"

lemma permission_rank_inject: "permission_rank a = permission_rank b \<longleftrightarrow> a = b"
  by (cases a; cases b) auto

lemma layer_rank_inject: "layer_rank a = layer_rank b \<longleftrightarrow> a = b"
  by (cases a; cases b) auto

instantiation PermissionLevel :: linorder
begin

definition less_eq_PermissionLevel :: "PermissionLevel \<Rightarrow> PermissionLevel \<Rightarrow> bool" where
  "less_eq_PermissionLevel a b \<longleftrightarrow> permission_rank a \<le> permission_rank b"

definition less_PermissionLevel :: "PermissionLevel \<Rightarrow> PermissionLevel \<Rightarrow> bool" where
  "less_PermissionLevel a b \<longleftrightarrow> permission_rank a < permission_rank b"

instance
  by standard
    (auto simp: less_eq_PermissionLevel_def less_PermissionLevel_def permission_rank_inject)

end

instantiation PolicyLayer :: linorder
begin

definition less_eq_PolicyLayer :: "PolicyLayer \<Rightarrow> PolicyLayer \<Rightarrow> bool" where
  "less_eq_PolicyLayer a b \<longleftrightarrow> layer_rank a \<le> layer_rank b"

definition less_PolicyLayer :: "PolicyLayer \<Rightarrow> PolicyLayer \<Rightarrow> bool" where
  "less_PolicyLayer a b \<longleftrightarrow> layer_rank a < layer_rank b"

instance
  by standard (auto simp: less_eq_PolicyLayer_def less_PolicyLayer_def layer_rank_inject)

end

lemmas permission_order_defs = less_eq_PermissionLevel_def less_PermissionLevel_def
lemmas layer_order_defs = less_eq_PolicyLayer_def less_PolicyLayer_def

record PolicyCeiling =
  filesystem :: PermissionLevel
  network :: PermissionLevel
  process :: PermissionLevel
  device :: PermissionLevel
  credential :: PermissionLevel
  persistent_approval :: bool

datatype PolicyError = ExceedsParent string | InvalidLayerOrder

record ScopedPolicy =
  layer :: PolicyLayer
  ceiling :: PolicyCeiling

definition restrict :: "ScopedPolicy \<Rightarrow> ScopedPolicy \<Rightarrow> (PolicyError, ScopedPolicy) result" where
  "restrict self child =
     (if layer child \<le> layer self then Err InvalidLayerOrder
      else and_then
        (for_each
          [(''filesystem'', filesystem (ceiling self), filesystem (ceiling child)),
           (''network'', network (ceiling self), network (ceiling child)),
           (''process'', process (ceiling self), process (ceiling child)),
           (''device'', device (ceiling self), device (ceiling child)),
           (''credential'', credential (ceiling self), credential (ceiling child))]
          (\<lambda>(field, parent, requested). ensure (\<not> requested > parent) (ExceedsParent field)))
        (\<lambda>_. if persistent_approval (ceiling child) \<and> \<not> persistent_approval (ceiling self)
             then Err (ExceedsParent ''persistent_approval'')
             else Ok child))"

text \<open>The ceiling order the plan calls \<open>child layers cannot exceed the parent ceiling\<close>.\<close>

definition ceiling_within :: "PolicyCeiling \<Rightarrow> PolicyCeiling \<Rightarrow> bool" where
  "ceiling_within c p \<longleftrightarrow>
     filesystem c \<le> filesystem p \<and> network c \<le> network p \<and> process c \<le> process p \<and>
     device c \<le> device p \<and> credential c \<le> credential p \<and>
     (persistent_approval c \<longrightarrow> persistent_approval p)"

lemma ceiling_within_refl [simp]: "ceiling_within c c"
  by (simp add: ceiling_within_def)

lemma ceiling_within_trans:
  "ceiling_within a b \<Longrightarrow> ceiling_within b c \<Longrightarrow> ceiling_within a c"
  unfolding ceiling_within_def by (meson order_trans)

lemma is_ok_restrict [ok_simps]:
  "is_ok (restrict self child) \<longleftrightarrow>
     layer self < layer child \<and> ceiling_within (ceiling child) (ceiling self)"
  by (auto simp: restrict_def ceiling_within_def is_ok_and_then_unit is_ok_for_each not_less not_le)

lemma restrict_OkD: "restrict self child = Inr p \<Longrightarrow> p = child"
  by (auto simp: restrict_def and_then_eq_Ok split: if_splits)

lemma restrict_Ok_iff:
  "restrict self child = Inr p \<longleftrightarrow>
     p = child \<and> layer self < layer child \<and> ceiling_within (ceiling child) (ceiling self)"
  by (metis is_ok_iff is_ok_restrict restrict_OkD)

text \<open>
  A chain of restrictions, from the workstation default down to a single run: each policy is
  accepted by the one before it.
\<close>

fun restrict_chain :: "ScopedPolicy \<Rightarrow> ScopedPolicy list \<Rightarrow> bool" where
  "restrict_chain p [] = True"
| "restrict_chain p (c # cs) = (is_ok (restrict p c) \<and> restrict_chain c cs)"

lemma restrict_chain_within:
  "restrict_chain p cs \<Longrightarrow> c \<in> set cs \<Longrightarrow>
     layer p < layer c \<and> ceiling_within (ceiling c) (ceiling p)"
proof (induction cs arbitrary: p)
  case (Cons a cs)
  then have a: "layer p < layer a" "ceiling_within (ceiling a) (ceiling p)"
    by (auto simp: is_ok_restrict)
  show ?case
  proof (cases "c = a")
    case False
    with Cons have "layer a < layer c \<and> ceiling_within (ceiling c) (ceiling a)" by auto
    with a show ?thesis by (auto intro: ceiling_within_trans)
  qed (use a in simp)
qed simp

lemma restrict_chain_length: "restrict_chain p cs \<Longrightarrow> length cs \<le> 3 - layer_rank (layer p)"
proof (induction cs arbitrary: p)
  case (Cons a cs)
  then have "layer_rank (layer p) < layer_rank (layer a)" "length cs \<le> 3 - layer_rank (layer a)"
    by (auto simp: is_ok_restrict layer_order_defs)
  moreover have "layer_rank (layer a) \<le> 3" by (cases "layer a") auto
  ultimately show ?case by simp
qed simp

end
