(* ===== verification/Identity.thy ===== *)
theory Identity
  imports Policy
begin

text \<open>
  The durable entities of \<open>crates/bastet-core/src/identity.rs\<close> and the adapter vocabulary of
  \<open>adapter.rs\<close> they use: identifiers, metadata with provenance, credential references, agents,
  models, projects, roles, sessions and runs. Field names carry the entity as a prefix, since
  Isabelle's record fields share one name space. Timestamps are strings, as in the source.
\<close>

section \<open>Kinds of identifier\<close>

datatype agent_provider_kind = AgentProviderKind
datatype model_provider_kind = ModelProviderKind
datatype account_kind = AccountKind
datatype model_kind = ModelKind
datatype agent_instance_kind = AgentInstanceKind
datatype project_kind = ProjectKind
datatype role_kind = RoleKind
datatype session_kind = SessionKind
datatype run_kind = RunKind
datatype credential_reference_kind = CredentialReferenceKind
datatype approval_request_kind = ApprovalRequestKind
datatype pet_profile_kind = PetProfileKind
datatype pet_assignment_kind = PetAssignmentKind
datatype room_kind = RoomKind
datatype meeting_kind = MeetingKind
datatype decision_baseline_kind = DecisionBaselineKind
datatype graph_node_kind = GraphNodeKindTag
datatype graph_run_kind = GraphRunKind
datatype artifact_kind = ArtifactKind
datatype artifact_version_kind = ArtifactVersionKind
datatype cost_record_kind = CostRecordKind
datatype knowledge_delivery_kind = KnowledgeDeliveryKind

type_synonym AgentProviderId = "agent_provider_kind stable_id"
type_synonym ModelProviderId = "model_provider_kind stable_id"
type_synonym AccountId = "account_kind stable_id"
type_synonym ModelId = "model_kind stable_id"
type_synonym AgentInstanceId = "agent_instance_kind stable_id"
type_synonym ProjectId = "project_kind stable_id"
type_synonym RoleId = "role_kind stable_id"
type_synonym SessionId = "session_kind stable_id"
type_synonym RunId = "run_kind stable_id"
type_synonym CredentialReferenceId = "credential_reference_kind stable_id"
type_synonym ApprovalRequestId = "approval_request_kind stable_id"
type_synonym PetProfileId = "pet_profile_kind stable_id"
type_synonym PetAssignmentId = "pet_assignment_kind stable_id"
type_synonym RoomId = "room_kind stable_id"
type_synonym MeetingId = "meeting_kind stable_id"
type_synonym DecisionBaselineId = "decision_baseline_kind stable_id"
type_synonym GraphNodeId = "graph_node_kind stable_id"
type_synonym GraphRunId = "graph_run_kind stable_id"
type_synonym ArtifactId = "artifact_kind stable_id"
type_synonym ArtifactVersionId = "artifact_version_kind stable_id"
type_synonym CostRecordId = "cost_record_kind stable_id"
type_synonym KnowledgeDeliveryId = "knowledge_delivery_kind stable_id"

section \<open>Metadata and credentials\<close>

datatype EntityLifecycle = Active | Disabled | Archived

record Provenance =
  source_kind :: string
  source_id :: string
  recorded_by :: string

record 'i EntityMetadata =
  md_id :: 'i
  md_revision :: u64
  md_created_at :: string
  md_updated_at :: string
  md_provenance :: Provenance
  md_lifecycle :: EntityLifecycle

datatype CredentialBackend = MacosKeychain | WindowsCredentialManager | LinuxSecretService

record CredentialReference =
  cr_metadata :: "CredentialReferenceId EntityMetadata"
  cr_backend :: CredentialBackend
  cr_service :: string
  cr_account_label :: string

section \<open>Adapter vocabulary\<close>

datatype EvidenceClass = ProviderReported | AgentReported | LocallyMeasured | Estimated | UnknownEvidence

datatype NormalizedRunState =
  Run_Starting | Run_Running | Run_AwaitingApproval | Run_Blocked | Run_Cancelling
| Run_Cancelled | Run_Failed | Run_Succeeded | Run_Recovering | Run_Uncertain

datatype AdapterFailureKind =
  BinaryMissing | Authentication | Quota | PermissionDenied | Timeout | Failure_Cancelled
| Crashed | ProtocolDrift | MalformedOutput | Unsupported | UnknownFailure

record AdapterFailure =
  af_kind :: AdapterFailureKind
  af_message_key :: string
  af_retryable :: bool
  af_provider_code :: "string option"
  af_redacted_detail :: "string option"

section \<open>Agents, projects, sessions and runs\<close>

record AgentProvider =
  ap_metadata :: "AgentProviderId EntityMetadata"
  ap_adapter_kind :: string
  ap_display_name :: string

record ModelProvider =
  mp_metadata :: "ModelProviderId EntityMetadata"
  mp_provider_key :: string
  mp_display_name :: string

record Account =
  acc_metadata :: "AccountId EntityMetadata"
  acc_agent_provider_id :: AgentProviderId
  acc_provider_identity :: string
  acc_credential_reference_id :: "CredentialReferenceId option"

record Model =
  mdl_metadata :: "ModelId EntityMetadata"
  mdl_model_provider_id :: ModelProviderId
  mdl_provider_model_id :: string
  mdl_reasoning_controls :: "string list"

record AgentInstance =
  ai_metadata :: "AgentInstanceId EntityMetadata"
  ai_agent_provider_id :: AgentProviderId
  ai_account_id :: "AccountId option"
  ai_default_model_id :: "ModelId option"

record Project =
  prj_metadata :: "ProjectId EntityMetadata"
  prj_name :: string
  prj_workspace_root :: string
  prj_policy :: ScopedPolicy

record Role =
  role_metadata :: "RoleId EntityMetadata"
  role_name :: string
  role_responsibilities :: "string list"
  role_policy :: ScopedPolicy

record Session =
  ses_metadata :: "SessionId EntityMetadata"
  ses_agent_instance_id :: AgentInstanceId
  ses_project_id :: ProjectId
  ses_provider_session_id :: "string option"

record Run =
  run_metadata :: "RunId EntityMetadata"
  run_session_id :: SessionId
  run_model_id :: ModelId
  run_state :: NormalizedRunState
  run_started_at :: "string option"
  run_finished_at :: "string option"

text \<open>The identifier of each entity, \<open>item.metadata.id\<close> in the source.\<close>

abbreviation cr_id :: "CredentialReference \<Rightarrow> CredentialReferenceId" where "cr_id x \<equiv> md_id (cr_metadata x)"
abbreviation ap_id :: "AgentProvider \<Rightarrow> AgentProviderId" where "ap_id x \<equiv> md_id (ap_metadata x)"
abbreviation mp_id :: "ModelProvider \<Rightarrow> ModelProviderId" where "mp_id x \<equiv> md_id (mp_metadata x)"
abbreviation acc_id :: "Account \<Rightarrow> AccountId" where "acc_id x \<equiv> md_id (acc_metadata x)"
abbreviation mdl_id :: "Model \<Rightarrow> ModelId" where "mdl_id x \<equiv> md_id (mdl_metadata x)"
abbreviation ai_id :: "AgentInstance \<Rightarrow> AgentInstanceId" where "ai_id x \<equiv> md_id (ai_metadata x)"
abbreviation prj_id :: "Project \<Rightarrow> ProjectId" where "prj_id x \<equiv> md_id (prj_metadata x)"
abbreviation role_id :: "Role \<Rightarrow> RoleId" where "role_id x \<equiv> md_id (role_metadata x)"
abbreviation ses_id :: "Session \<Rightarrow> SessionId" where "ses_id x \<equiv> md_id (ses_metadata x)"
abbreviation run_id :: "Run \<Rightarrow> RunId" where "run_id x \<equiv> md_id (run_metadata x)"

end
