(* ===== verification/Graph_Model.thy ===== *)
theory Graph_Model
  imports Identity
begin

text \<open>
  The workflow graph and its execution record (\<open>crates/bastet-core/src/graph.rs\<close>): the data, the
  validation with its depth-first cycle check, and every operation of \<open>GraphExecution\<close>.

  An operation with receiver \<open>&mut self\<close> returns the new execution; on an error the caller drops
  the receiver, so no state is returned. Revisions are 64-bit and wrap. The digest \<open>H\<close> is the
  hexadecimal SHA-256 of a third-party package and is a parameter.
\<close>

section \<open>Data\<close>

datatype GraphNodeKind = Research | Join | Document

record GraphNode =
  gn_id :: GraphNodeId
  gn_kind :: GraphNodeKind
  gn_role_id :: RoleId
  gn_title :: string
  gn_needs :: "GraphNodeId list"

record WorkflowGraph =
  decision_baseline_id :: DecisionBaselineId
  graph_nodes :: "GraphNode list"

datatype GraphNodeState =
  Pending | AwaitingApproval | Running | Succeeded | Failed | Cancelled | Blocked | Uncertain

record GraphNodeExecution =
  node_id :: GraphNodeId
  node_state :: GraphNodeState
  node_owner :: "string option"
  node_revision :: u64
  node_run_id :: "RunId option"
  node_failure :: "AdapterFailure option"

definition MAX_NODE_OUTPUT_BYTES :: nat where
  "MAX_NODE_OUTPUT_BYTES = 256 * 1024"

record GraphNodeOutput =
  out_node_id :: GraphNodeId
  out_run_id :: RunId
  out_content_hash :: string
  out_markdown :: string

record GraphExecution =
  exec_id :: GraphRunId
  exec_graph :: WorkflowGraph
  exec_nodes :: "GraphNodeExecution list"
  exec_outputs :: "GraphNodeOutput list"
  restarted_from :: "GraphRunId option"
  exec_revision :: u64

datatype GraphError =
  DuplicateNode | EmptyTitle | InvalidDependency | Cycle | InvalidResearchJoin
| InvalidExecution | InvalidOutput

section \<open>Node outputs\<close>

definition output_hash :: "(string \<Rightarrow> string) \<Rightarrow> string \<Rightarrow> string" where
  "output_hash H content = ''sha256:'' @ H content"

definition output_create ::
  "(string \<Rightarrow> string) \<Rightarrow> GraphNodeId \<Rightarrow> RunId \<Rightarrow> string \<Rightarrow> (GraphError, GraphNodeOutput) result" where
  "output_create H n r markdown =
     (if blank markdown \<or> length markdown > MAX_NODE_OUTPUT_BYTES then Err InvalidOutput
      else Ok \<lparr>out_node_id = n, out_run_id = r, out_content_hash = output_hash H markdown,
               out_markdown = markdown\<rparr>)"

definition output_validate :: "(string \<Rightarrow> string) \<Rightarrow> GraphNodeOutput \<Rightarrow> (GraphError, unit) result" where
  "output_validate H out =
     (if blank (out_markdown out) \<or> length (out_markdown out) > MAX_NODE_OUTPUT_BYTES \<or>
         out_content_hash out \<noteq> output_hash H (out_markdown out)
      then Err InvalidOutput else Ok ())"

section \<open>Graph validation\<close>

text \<open>
  \<open>visit\<close> is the recursive depth-first search with its two mutable sets, \<open>visit_each\<close> the loop
  that calls it, over a node's needs and, in \<open>validate\<close>, over all nodes.
\<close>

function visit :: "WorkflowGraph \<Rightarrow> GraphNodeId \<Rightarrow> GraphNodeId set \<Rightarrow> GraphNodeId set \<Rightarrow>
    (GraphError, GraphNodeId set \<times> GraphNodeId set) result"
  and visit_each :: "WorkflowGraph \<Rightarrow> GraphNodeId list \<Rightarrow> GraphNodeId set \<Rightarrow> GraphNodeId set \<Rightarrow>
    (GraphError, GraphNodeId set \<times> GraphNodeId set) result"
where
  "visit g i visiting visited =
     (if i \<in> visited then Ok (visiting, visited)
      else if i \<in> visiting then Err Cycle
      else and_then (ok_or (find (\<lambda>n. gn_id n = i) (graph_nodes g)) InvalidDependency)
        (\<lambda>node. and_then (visit_each g (gn_needs node) (insert i visiting) visited)
          (\<lambda>s. Ok (fst s - {i}, insert i (snd s)))))"
| "visit_each g [] visiting visited = Ok (visiting, visited)"
| "visit_each g (d # ds) visiting visited =
     and_then (visit g d visiting visited) (\<lambda>s. visit_each g ds (fst s) (snd s))"
  by pat_completeness auto

text \<open>
  The search ends because the nodes not being visited become fewer; the sets are threaded through
  the calls, so this first needs that a successful call gives back at least the \<open>visiting\<close> set
  it was given.
\<close>

lemma visiting_grows:
  "visit_visit_each_dom (Inl (g, i, V, W)) \<Longrightarrow> (\<forall>s. visit g i V W = Inr s \<longrightarrow> V \<subseteq> fst s)"
  "visit_visit_each_dom (Inr (g, ds, V, W)) \<Longrightarrow> (\<forall>s. visit_each g ds V W = Inr s \<longrightarrow> V \<subseteq> fst s)"
proof (induction g i V W and g ds V W rule: visit_visit_each.pinduct)
  case (1 g i V W)
  then show ?case
    by (fastforce simp: visit.psimps and_then_eq_Ok split: if_splits)
next
  case (2 g V W)
  then show ?case by (simp add: visit_each.psimps)
next
  case (3 g d ds V W)
  then show ?case by (auto simp: visit_each.psimps and_then_eq_Ok) blast
qed

lemma unvisited_less:
  assumes "find (\<lambda>n. gn_id n = i) (graph_nodes g) = Some node" and "i \<notin> V"
  shows "card (gn_id ` set (graph_nodes g) - insert i V) < card (gn_id ` set (graph_nodes g) - V)"
proof (rule psubset_card_mono)
  have "i \<in> gn_id ` set (graph_nodes g)" using assms(1) by (auto dest: find_SomeD)
  with assms(2) show "gn_id ` set (graph_nodes g) - insert i V \<subset> gn_id ` set (graph_nodes g) - V"
    by blast
qed simp

termination visit
proof (relation "measures
    [\<lambda>x. case x of Inl (g, i, V, W) \<Rightarrow> card (gn_id ` set (graph_nodes g) - V)
                | Inr (g, ds, V, W) \<Rightarrow> card (gn_id ` set (graph_nodes g) - V),
     \<lambda>x. case x of Inl _ \<Rightarrow> 0 | Inr (g, ds, V, W) \<Rightarrow> Suc (length ds)]", goal_cases)
  case (2 g i V W node)
  then show ?case by (simp add: unvisited_less)
next
  case (4 g d ds V W s)
  then have "V \<subseteq> fst s" using visiting_grows(1) by blast
  then have "card (gn_id ` set (graph_nodes g) - fst s) \<le> card (gn_id ` set (graph_nodes g) - V)"
    by (intro card_mono) auto
  then show ?case by (auto split: prod.splits)
qed auto

declare visit.simps [simp del]

definition validate_research_join :: "WorkflowGraph \<Rightarrow> (GraphError, unit) result" where
  "validate_research_join g =
     (let research = filter (\<lambda>n. gn_kind n = Research) (graph_nodes g);
          joins = filter (\<lambda>n. gn_kind n = Join) (graph_nodes g)
      in if length research \<noteq> 2 \<or> length joins \<noteq> 1 then Err InvalidResearchJoin
         else if set (gn_needs (joins ! 0)) \<noteq> set (map gn_id research) \<or>
                 (\<exists>n \<in> set research. gn_needs n \<noteq> [])
         then Err InvalidResearchJoin
         else Ok ())"

definition graph_validate :: "WorkflowGraph \<Rightarrow> (GraphError, unit) result" where
  "graph_validate g =
     (let ids = set (map gn_id (graph_nodes g))
      in if card ids \<noteq> length (graph_nodes g) then Err DuplicateNode
         else and_then
           (for_each (graph_nodes g) (\<lambda>n. checks
              [ensure (\<not> blank (gn_title n)) EmptyTitle,
               ensure (\<not> (\<exists>d \<in> set (gn_needs n). d = gn_id n \<or> d \<notin> ids)) InvalidDependency]))
           (\<lambda>_. and_then (visit_each g (map gn_id (graph_nodes g)) {} {})
             (\<lambda>_. validate_research_join g)))"

section \<open>Executions\<close>

definition nonblank_owner :: "string option \<Rightarrow> bool" where
  "nonblank_owner x \<longleftrightarrow> (case x of Some s \<Rightarrow> \<not> blank s | None \<Rightarrow> False)"

definition execution_state_is_valid :: "GraphNodeExecution \<Rightarrow> bool" where
  "execution_state_is_valid e \<longleftrightarrow>
     (case node_state e of
        Pending \<Rightarrow> node_owner e = None
      | Blocked \<Rightarrow> node_owner e = None
      | AwaitingApproval \<Rightarrow>
          nonblank_owner (node_owner e) \<and> node_run_id e \<noteq> None \<and> node_failure e = None
      | Running \<Rightarrow> node_owner e \<noteq> None
      | Succeeded \<Rightarrow> node_owner e \<noteq> None
      | Failed \<Rightarrow> node_owner e \<noteq> None
      | Cancelled \<Rightarrow> node_owner e \<noteq> None
      | Uncertain \<Rightarrow> node_owner e = None)"

definition fresh_node :: "GraphNode \<Rightarrow> GraphNodeExecution" where
  "fresh_node n = \<lparr>node_id = gn_id n, node_state = Pending, node_owner = None, node_revision = 0,
     node_run_id = None, node_failure = None\<rparr>"

definition start_execution :: "GraphRunId \<Rightarrow> WorkflowGraph \<Rightarrow> (GraphError, GraphExecution) result" where
  "start_execution i g = and_then (graph_validate g) (\<lambda>_.
     Ok \<lparr>exec_id = i, exec_graph = g, exec_nodes = map fresh_node (graph_nodes g),
         exec_outputs = [], restarted_from = None, exec_revision = 0\<rparr>)"

definition execution_validate :: "(string \<Rightarrow> string) \<Rightarrow> GraphExecution \<Rightarrow> (GraphError, unit) result" where
  "execution_validate H x = and_then (graph_validate (exec_graph x)) (\<lambda>_.
     if length (exec_nodes x) \<noteq> length (graph_nodes (exec_graph x)) \<or>
        card (set (map node_id (exec_nodes x))) \<noteq> length (exec_nodes x) \<or>
        (\<exists>e \<in> set (exec_nodes x).
           \<not> (\<exists>n \<in> set (graph_nodes (exec_graph x)). gn_id n = node_id e) \<or>
           \<not> execution_state_is_valid e)
     then Err InvalidExecution
     else if card (set (map out_run_id (exec_outputs x))) \<noteq> length (exec_outputs x) \<or>
        (\<exists>out \<in> set (exec_outputs x).
           \<not> is_ok (output_validate H out) \<or>
           \<not> (\<exists>n \<in> set (graph_nodes (exec_graph x)). gn_id n = out_node_id out))
     then Err InvalidOutput
     else Ok ())"

text \<open>Lookup of a node's execution: \<open>self.nodes.iter().find(|node| node.node_id == id)\<close>.\<close>

definition node_execution :: "GraphExecution \<Rightarrow> GraphNodeId \<Rightarrow> GraphNodeExecution option" where
  "node_execution x i = find (\<lambda>e. node_id e = i) (exec_nodes x)"

definition update_node ::
  "GraphNodeId \<Rightarrow> (GraphNodeExecution \<Rightarrow> GraphNodeExecution) \<Rightarrow> GraphExecution \<Rightarrow> GraphExecution" where
  "update_node i f x = x\<lparr>exec_nodes := update_first (\<lambda>e. node_id e = i) f (exec_nodes x)\<rparr>"

definition bump_revision :: "GraphExecution \<Rightarrow> GraphExecution" where
  "bump_revision x = x\<lparr>exec_revision := exec_revision x + 1\<rparr>"

definition node_output :: "GraphExecution \<Rightarrow> GraphNodeId \<Rightarrow> GraphNodeOutput option" where
  "node_output x i =
     (case Option.bind (node_execution x i) node_run_id of
        Some r \<Rightarrow> find (\<lambda>out. out_node_id out = i \<and> out_run_id out = r) (exec_outputs x)
      | None \<Rightarrow> find (\<lambda>out. out_node_id out = i) (rev (exec_outputs x)))"

definition restart_as ::
  "(string \<Rightarrow> string) \<Rightarrow> GraphExecution \<Rightarrow> GraphRunId \<Rightarrow> (GraphError, GraphExecution) result" where
  "restart_as H x i = and_then (execution_validate H x) (\<lambda>_.
     if (\<exists>e \<in> set (exec_nodes x). node_state e \<noteq> Succeeded) \<or>
        (\<forall>e \<in> set (exec_nodes x). node_output x (node_id e) \<noteq> None)
     then Err InvalidOutput
     else and_then (start_execution i (exec_graph x)) (\<lambda>y. Ok (y\<lparr>restarted_from := Some (exec_id x)\<rparr>)))"

definition record_output ::
  "(string \<Rightarrow> string) \<Rightarrow> GraphNodeOutput \<Rightarrow> GraphExecution \<Rightarrow> (GraphError, GraphExecution) result" where
  "record_output H out x = and_then (output_validate H out) (\<lambda>_.
     if (\<exists>o' \<in> set (exec_outputs x). out_run_id o' = out_run_id out) \<or>
        (case node_execution x (out_node_id out) of
           None \<Rightarrow> True
         | Some e \<Rightarrow> node_state e \<notin> {Succeeded, Failed} \<or>
             (case node_run_id e of Some r \<Rightarrow> r \<noteq> out_run_id out | None \<Rightarrow> False))
     then Err InvalidOutput
     else Ok (x\<lparr>exec_outputs := exec_outputs x @ [out]\<rparr>))"

definition reconcile_node :: "GraphNodeExecution \<Rightarrow> GraphNodeExecution" where
  "reconcile_node e =
     (if node_state e = Running
      then e\<lparr>node_state := Uncertain, node_owner := None, node_run_id := None,
             node_failure := None, node_revision := node_revision e + 1\<rparr>
      else e)"

definition reconcile_after_restart :: "GraphExecution \<Rightarrow> nat \<times> GraphExecution" where
  "reconcile_after_restart x =
     (let changed = length (filter (\<lambda>e. node_state e = Running) (exec_nodes x));
          y = x\<lparr>exec_nodes := map reconcile_node (exec_nodes x)\<rparr>
      in (changed, if changed > 0 then bump_revision y else y))"

subsection \<open>Claiming ready nodes\<close>

text \<open>The \<open>HashMap\<close> of node states collected before the loop; a later entry replaces an earlier.\<close>

definition node_states :: "GraphNodeExecution list \<Rightarrow> GraphNodeId \<Rightarrow> GraphNodeState option" where
  "node_states es = map_of (rev (map (\<lambda>e. (node_id e, node_state e)) es))"

definition claimed_node :: "string \<Rightarrow> GraphNodeExecution \<Rightarrow> GraphNodeExecution" where
  "claimed_node owner e =
     e\<lparr>node_state := Running, node_owner := Some owner, node_failure := None,
       node_revision := node_revision e + 1\<rparr>"

fun claim_loop ::
  "WorkflowGraph \<Rightarrow> (GraphNodeId \<Rightarrow> GraphNodeState option) \<Rightarrow> string \<Rightarrow> nat \<Rightarrow>
   GraphNodeExecution list \<Rightarrow> GraphNodeId list \<Rightarrow>
   (GraphError, GraphNodeExecution list \<times> GraphNodeId list) result" where
  "claim_loop g states owner limit [] claimed = Ok ([], claimed)"
| "claim_loop g states owner limit (e # es) claimed =
     (if length claimed = limit \<or> node_state e \<noteq> Pending
      then and_then (claim_loop g states owner limit es claimed) (\<lambda>(es', c). Ok (e # es', c))
      else and_then (ok_or (find (\<lambda>n. gn_id n = node_id e) (graph_nodes g)) InvalidExecution)
        (\<lambda>n. if \<forall>d \<in> set (gn_needs n). states d = Some Succeeded
             then and_then (claim_loop g states owner limit es (claimed @ [node_id e]))
                    (\<lambda>(es', c). Ok (claimed_node owner e # es', c))
             else and_then (claim_loop g states owner limit es claimed)
                    (\<lambda>(es', c). Ok (e # es', c))))"

definition claim_ready ::
  "string \<Rightarrow> nat \<Rightarrow> GraphExecution \<Rightarrow> (GraphError, GraphNodeId list \<times> GraphExecution) result" where
  "claim_ready owner limit x =
     (if blank owner \<or> limit = 0 then Err InvalidExecution
      else and_then
        (claim_loop (exec_graph x) (node_states (exec_nodes x)) owner limit (exec_nodes x) [])
        (\<lambda>(es, claimed).
           Ok (claimed,
               if claimed \<noteq> [] then bump_revision (x\<lparr>exec_nodes := es\<rparr>) else x\<lparr>exec_nodes := es\<rparr>)))"

definition claim_node ::
  "GraphNodeId \<Rightarrow> string \<Rightarrow> GraphExecution \<Rightarrow> (GraphError, GraphExecution) result" where
  "claim_node i owner x =
     (if blank owner then Err InvalidExecution
      else and_then (ok_or (find (\<lambda>n. gn_id n = i) (graph_nodes (exec_graph x))) InvalidExecution)
        (\<lambda>n. if \<not> (\<forall>d \<in> set (gn_needs n). node_states (exec_nodes x) d = Some Succeeded)
             then Err InvalidExecution
             else and_then (ok_or (node_execution x i) InvalidExecution)
               (\<lambda>e. if node_state e \<noteq> Pending then Err InvalidExecution
                    else Ok (bump_revision (update_node i (claimed_node owner) x)))))"

subsection \<open>Staging for approval\<close>

definition run_id_is_in_use :: "GraphExecution \<Rightarrow> RunId \<Rightarrow> bool" where
  "run_id_is_in_use x r \<longleftrightarrow>
     (\<exists>e \<in> set (exec_nodes x). node_run_id e = Some r) \<or>
     (\<exists>out \<in> set (exec_outputs x). out_run_id out = r)"

definition dependencies_succeeded ::
  "GraphExecution \<Rightarrow> GraphNodeId \<Rightarrow> (GraphError, bool) result" where
  "dependencies_succeeded x i =
     and_then (ok_or (find (\<lambda>n. gn_id n = i) (graph_nodes (exec_graph x))) InvalidExecution)
       (\<lambda>n. Ok (\<forall>d \<in> set (gn_needs n).
          \<exists>e \<in> set (exec_nodes x). node_id e = d \<and> node_state e = Succeeded))"

definition staged_node :: "string \<Rightarrow> RunId \<Rightarrow> GraphNodeExecution \<Rightarrow> GraphNodeExecution" where
  "staged_node owner r e =
     e\<lparr>node_state := AwaitingApproval, node_owner := Some owner, node_run_id := Some r,
       node_failure := None, node_revision := node_revision e + 1\<rparr>"

definition stage_node ::
  "GraphNodeId \<Rightarrow> string \<Rightarrow> RunId \<Rightarrow> GraphExecution \<Rightarrow> (GraphError, GraphExecution) result" where
  "stage_node i owner r x =
     (if blank owner \<or> run_id_is_in_use x r then Err InvalidExecution
      else and_then (dependencies_succeeded x i)
        (\<lambda>ready. if \<not> ready then Err InvalidExecution
           else and_then (ok_or (node_execution x i) InvalidExecution)
             (\<lambda>e. if node_state e \<noteq> Pending \<or> node_owner e \<noteq> None \<or> node_run_id e \<noteq> None
                  then Err InvalidExecution
                  else Ok (bump_revision (update_node i (staged_node owner r) x)))))"

definition activate_staged_node ::
  "GraphNodeId \<Rightarrow> string \<Rightarrow> RunId \<Rightarrow> GraphExecution \<Rightarrow> (GraphError, GraphExecution) result" where
  "activate_staged_node i owner r x =
     and_then (ok_or (node_execution x i) InvalidExecution)
       (\<lambda>e. if node_state e \<noteq> AwaitingApproval \<or> node_owner e \<noteq> Some owner \<or> node_run_id e \<noteq> Some r
            then Err InvalidExecution
            else Ok (bump_revision (update_node i
                   (\<lambda>e. e\<lparr>node_state := Running, node_revision := node_revision e + 1\<rparr>) x)))"

subsection \<open>Blocking the dependents of a failed node\<close>

definition mark_blocked :: "GraphNodeExecution \<Rightarrow> GraphNodeExecution" where
  "mark_blocked e =
     (if node_state e = Pending then e\<lparr>node_state := Blocked, node_revision := node_revision e + 1\<rparr>
      else e)"

text \<open>One pass of the inner loop; the last component is the flag \<open>changed\<close>.\<close>

fun block_pass ::
  "GraphNode list \<Rightarrow> GraphNodeId set \<Rightarrow> GraphNodeExecution list \<Rightarrow> bool \<Rightarrow>
   GraphNodeId set \<times> GraphNodeExecution list \<times> bool" where
  "block_pass [] blocked es changed = (blocked, es, changed)"
| "block_pass (n # ns) blocked es changed =
     (if (\<exists>d \<in> set (gn_needs n). d \<in> blocked) \<and> gn_id n \<notin> blocked
      then block_pass ns (insert (gn_id n) blocked)
             (update_first (\<lambda>e. node_id e = gn_id n) mark_blocked es) True
      else block_pass ns blocked es changed)"

lemma block_pass_grows:
  "block_pass ns b es c = (b', es', c') \<Longrightarrow> b \<subseteq> b' \<and> b' \<subseteq> b \<union> gn_id ` set ns \<and> (c' \<longrightarrow> c \<or> b \<noteq> b')"
proof (induction ns b es c rule: block_pass.induct)
  case (2 n ns b es c)
  show ?case
  proof (cases "(\<exists>d \<in> set (gn_needs n). d \<in> b) \<and> gn_id n \<notin> b")
    case True
    with 2 have "insert (gn_id n) b \<subseteq> b' \<and> b' \<subseteq> insert (gn_id n) b \<union> gn_id ` set ns"
      by (simp only: block_pass.simps if_True simp_thms)
    with True show ?thesis by auto
  next
    case False
    with "2.prems" have "block_pass ns b es c = (b', es', c')"
      by (simp only: block_pass.simps if_False)
    from "2.IH"(2)[OF False this] show ?thesis by auto
  qed
qed simp

function block_loop ::
  "GraphNode list \<Rightarrow> GraphNodeId set \<Rightarrow> GraphNodeExecution list \<Rightarrow> GraphNodeExecution list" where
  "block_loop ns blocked es =
     (case block_pass ns blocked es False of
        (blocked', es', changed) \<Rightarrow> if changed then block_loop ns blocked' es' else es')"
  by pat_completeness auto
termination
proof (relation "measure (\<lambda>(ns, b, es). card (gn_id ` set ns - b))", goal_cases)
  case (2 ns b es b' y es' c)
  then have "block_pass ns b es False = (b', es', True)" by simp
  from block_pass_grows[OF this] have "gn_id ` set ns - b' \<subset> gn_id ` set ns - b" by auto
  then show ?case by (simp add: psubset_card_mono)
qed simp

declare block_loop.simps [simp del]

definition block_dependents :: "GraphNodeId \<Rightarrow> GraphExecution \<Rightarrow> GraphExecution" where
  "block_dependents failed x =
     x\<lparr>exec_nodes := block_loop (graph_nodes (exec_graph x)) {failed} (exec_nodes x)\<rparr>"

definition cancel_staged_node ::
  "GraphNodeId \<Rightarrow> string \<Rightarrow> RunId \<Rightarrow> GraphExecution \<Rightarrow> (GraphError, GraphExecution) result" where
  "cancel_staged_node i owner r x =
     and_then (ok_or (node_execution x i) InvalidExecution)
       (\<lambda>e. if node_state e \<noteq> AwaitingApproval \<or> node_owner e \<noteq> Some owner \<or> node_run_id e \<noteq> Some r
            then Err InvalidExecution
            else Ok (block_dependents i (bump_revision (update_node i
                   (\<lambda>e. e\<lparr>node_state := Cancelled, node_failure := None,
                         node_revision := node_revision e + 1\<rparr>) x))))"

subsection \<open>Running and finishing\<close>

definition bind_run ::
  "GraphNodeId \<Rightarrow> string \<Rightarrow> RunId \<Rightarrow> GraphExecution \<Rightarrow> (GraphError, GraphExecution) result" where
  "bind_run i owner r x =
     and_then (ok_or (node_execution x i) InvalidExecution)
       (\<lambda>e. if node_state e \<noteq> Running \<or> node_owner e \<noteq> Some owner \<or> node_run_id e \<noteq> None
            then Err InvalidExecution
            else Ok (update_node i (\<lambda>e. e\<lparr>node_run_id := Some r\<rparr>) x))"

definition complete ::
  "GraphNodeId \<Rightarrow> string \<Rightarrow> bool \<Rightarrow> GraphExecution \<Rightarrow> (GraphError, GraphExecution) result" where
  "complete i owner succeeded x =
     and_then (ok_or (node_execution x i) InvalidExecution)
       (\<lambda>e. if node_state e \<noteq> Running \<or> node_owner e \<noteq> Some owner then Err InvalidExecution
            else let y = bump_revision (update_node i
                       (\<lambda>e. e\<lparr>node_state := (if succeeded then Succeeded else Failed),
                             node_failure := None, node_revision := node_revision e + 1\<rparr>) x)
                 in Ok (if succeeded then y else block_dependents i y))"

definition finish_terminal ::
  "GraphNodeId \<Rightarrow> string \<Rightarrow> GraphNodeState \<Rightarrow> AdapterFailure option \<Rightarrow> GraphExecution \<Rightarrow>
   (GraphError, GraphExecution) result" where
  "finish_terminal i owner state failure x =
     (if state \<notin> {Succeeded, Failed, Cancelled, Blocked, Uncertain} then Err InvalidExecution
      else and_then (ok_or (node_execution x i) InvalidExecution)
        (\<lambda>e. if node_state e \<noteq> Running \<or> node_owner e \<noteq> Some owner then Err InvalidExecution
             else let y = bump_revision (update_node i
                        (\<lambda>e. e\<lparr>node_state := state,
                              node_owner := (if state \<in> {Succeeded, Failed, Cancelled}
                                             then Some owner else None),
                              node_failure := failure, node_revision := node_revision e + 1\<rparr>) x)
                  in Ok (if state \<in> {Failed, Cancelled, Blocked} then block_dependents i y else y)))"

subsection \<open>Retrying a failed node\<close>

definition reopened_node :: "GraphNodeExecution \<Rightarrow> GraphNodeExecution" where
  "reopened_node e =
     e\<lparr>node_state := Pending, node_owner := None, node_run_id := None, node_failure := None,
       node_revision := node_revision e + 1\<rparr>"

definition reopenable :: "WorkflowGraph \<Rightarrow> GraphNodeExecution list \<Rightarrow> GraphNodeId list" where
  "reopenable g es =
     map gn_id (filter
       (\<lambda>n. node_states es (gn_id n) = Some Blocked \<and>
            \<not> (\<exists>d \<in> set (gn_needs n).
                 node_states es d \<in> {Some Failed, Some Cancelled, Some Blocked}))
       (graph_nodes g))"

fun reopen_all ::
  "GraphNodeId list \<Rightarrow> GraphNodeExecution list \<Rightarrow> (GraphError, GraphNodeExecution list) result" where
  "reopen_all [] es = Ok es"
| "reopen_all (i # ids) es =
     and_then (ok_or (find (\<lambda>e. node_id e = i) es) InvalidExecution)
       (\<lambda>_. reopen_all ids (update_first (\<lambda>e. node_id e = i) reopened_node es))"

text \<open>The \<open>loop\<close> of \<open>retry_failed\<close> has no bound of its own: \<open>None\<close> is a loop that never ends.\<close>

partial_function (option) retry_loop ::
  "WorkflowGraph \<Rightarrow> GraphNodeExecution list \<Rightarrow> (GraphError, GraphNodeExecution list) result option" where
  "retry_loop g es =
     (if reopenable g es = [] then Some (Ok es)
      else (case reopen_all (reopenable g es) es of
              Inl e \<Rightarrow> Some (Err e)
            | Inr es' \<Rightarrow> retry_loop g es'))"

definition retry_failed ::
  "GraphNodeId \<Rightarrow> GraphExecution \<Rightarrow> (GraphError, GraphExecution) result option" where
  "retry_failed i x =
     (case node_execution x i of
        None \<Rightarrow> Some (Err InvalidExecution)
      | Some e \<Rightarrow>
          if node_state e \<noteq> Failed then Some (Err InvalidExecution)
          else map_option
            (\<lambda>r. and_then r (\<lambda>es. Ok (bump_revision (x\<lparr>exec_nodes := es\<rparr>))))
            (retry_loop (exec_graph x)
               (update_first (\<lambda>e. node_id e = i) reopened_node (exec_nodes x))))"

end
