(* ===== verification/Graph_Validate.thy ===== *)
theory Graph_Validate
  imports Graph_Model
begin

text \<open>
  Correctness of \<open>WorkflowGraph::validate\<close>: the depth-first search accepts exactly the acyclic
  dependency relations, and the whole validation accepts exactly the graphs with distinct nodes,
  titles, known dependencies, no cycle and the research/join shape of the vertical slice.
\<close>

definition deps :: "WorkflowGraph \<Rightarrow> (GraphNodeId \<times> GraphNodeId) set" where
  "deps g = {(gn_id n, d) | n d. n \<in> set (graph_nodes g) \<and> d \<in> set (gn_needs n)}"

abbreviation node_ids :: "WorkflowGraph \<Rightarrow> GraphNodeId set" where
  "node_ids g \<equiv> gn_id ` set (graph_nodes g)"

section \<open>The depth-first search\<close>

lemma deps_unfold: "deps g = (\<Union>n \<in> set (graph_nodes g). Pair (gn_id n) ` set (gn_needs n))"
  by (auto simp: deps_def)

lemma visit_OkE:
  assumes "visit g i V W = Inr s"
  obtains (seen) "i \<in> W" "s = (V, W)"
  | (new) n t where "i \<notin> W" "i \<notin> V" "find (\<lambda>n. gn_id n = i) (graph_nodes g) = Some n"
      "visit_each g (gn_needs n) (insert i V) W = Inr t" "s = (fst t - {i}, insert i (snd t))"
  using assms by (subst (asm) visit.simps) (auto simp: and_then_eq_Ok split: if_splits)

lemma visiting_restored:
  "visit g i V W = Inr s \<Longrightarrow> fst s = V"
  "visit_each g ds V W = Inr s \<Longrightarrow> fst s = V"
proof (induction g i V W and g ds V W arbitrary: s and s rule: visit_visit_each.induct)
  case (1 g i V W)
  from "1.prems" show ?case
  proof (cases rule: visit_OkE)
    case (new n t)
    then have "fst t = insert i V" using "1.IH"[of n t] by simp
    with new show ?thesis by auto
  qed simp
next
  case (3 g d ds V W)
  then obtain t where "visit g d V W = Inr t" "visit_each g ds (fst t) (snd t) = Inr s"
    by (auto simp: and_then_eq_Ok)
  with "3.IH" show ?case by metis
qed auto

definition dfs_inv :: "WorkflowGraph \<Rightarrow> GraphNodeId set \<Rightarrow> GraphNodeId set \<Rightarrow> bool" where
  "dfs_inv g V W \<longleftrightarrow> V \<inter> W = {} \<and> deps g `` W \<subseteq> W \<and> (\<forall>w \<in> W. (w, w) \<notin> (deps g)\<^sup>+)"

lemma deps_of_node:
  assumes "distinct (map gn_id (graph_nodes g))" and "find (\<lambda>n. gn_id n = i) (graph_nodes g) = Some n"
  shows "deps g `` {i} = set (gn_needs n)"
  using assms distinct_key_eq[OF assms(1)]
  by (fastforce simp: deps_def find_key_Some[OF assms(1)])

lemma trancl_leaves_closed:
  assumes "R `` W \<subseteq> W" and "R `` {i} \<subseteq> W" and "(i, j) \<in> R\<^sup>+"
  shows "j \<in> W"
  using assms(3,1,2) by (induction rule: trancl_induct) auto

lemma dfs_inv_finish:
  assumes "dfs_inv g (insert i V) W" and "i \<notin> V" and "deps g `` {i} \<subseteq> W"
  shows "dfs_inv g V (insert i W)"
proof -
  from assms(1) have W: "deps g `` W \<subseteq> W" "i \<notin> W" by (auto simp: dfs_inv_def)
  then have "(i, i) \<notin> (deps g)\<^sup>+" using trancl_leaves_closed[OF W(1) assms(3)] by blast
  with assms W show ?thesis by (auto simp: dfs_inv_def)
qed

lemma visit_sound:
  assumes "distinct (map gn_id (graph_nodes g))"
  shows "visit g i V W = Inr s \<Longrightarrow> dfs_inv g V W \<Longrightarrow>
           W \<subseteq> snd s \<and> i \<in> snd s \<and> dfs_inv g V (snd s)"
    and "visit_each g ds V W = Inr s \<Longrightarrow> dfs_inv g V W \<Longrightarrow>
           W \<subseteq> snd s \<and> set ds \<subseteq> snd s \<and> dfs_inv g V (snd s)"
  using assms
proof (induction g i V W and g ds V W arbitrary: s and s rule: visit_visit_each.induct)
  case (1 g i V W)
  from "1.prems"(1) show ?case
  proof (cases rule: visit_OkE)
    case seen
    with "1.prems" show ?thesis by simp
  next
    case (new n t)
    then have "dfs_inv g (insert i V) W" using "1.prems"(2) by (auto simp: dfs_inv_def)
    then have IH: "W \<subseteq> snd t" "set (gn_needs n) \<subseteq> snd t" "dfs_inv g (insert i V) (snd t)"
      using "1.IH"[of n t] new "1.prems"(3) by simp_all
    then have "deps g `` {i} \<subseteq> snd t"
      using deps_of_node[OF "1.prems"(3) new(3)] by simp
    then have "dfs_inv g V (insert i (snd t))"
      using new(2) IH(3) dfs_inv_finish by blast
    with IH new(5) show ?thesis by auto
  qed
next
  case (2 g V W)
  then show ?case by auto
next
  case (3 g d ds V W)
  then obtain t where t: "visit g d V W = Inr t" "visit_each g ds (fst t) (snd t) = Inr s"
    by (auto simp: and_then_eq_Ok)
  with 3 have "fst t = V" "W \<subseteq> snd t" "d \<in> snd t" "dfs_inv g V (snd t)"
    using visiting_restored(1) by blast+
  with 3 t have "snd t \<subseteq> snd s \<and> set ds \<subseteq> snd s \<and> dfs_inv g V (snd s)" by metis
  with \<open>W \<subseteq> snd t\<close> \<open>d \<in> snd t\<close> show ?case by auto
qed

lemma visit_complete:
  assumes "acyclic (deps g)" and "deps g `` node_ids g \<subseteq> node_ids g"
  shows "i \<in> node_ids g \<Longrightarrow> \<forall>v \<in> V. (v, i) \<in> (deps g)\<^sup>+ \<Longrightarrow> is_ok (visit g i V W)"
    and "set ds \<subseteq> node_ids g \<Longrightarrow> \<forall>v \<in> V. \<forall>d \<in> set ds. (v, d) \<in> (deps g)\<^sup>+ \<Longrightarrow> is_ok (visit_each g ds V W)"
  using assms
proof (induction g i V W and g ds V W rule: visit_visit_each.induct)
  case (1 g i V W)
  show ?case
  proof (cases "i \<in> W")
    case False
    have V: "i \<notin> V" using "1.prems"(2,3) by (auto simp: acyclic_def)
    from "1.prems"(1) obtain n where n: "find (\<lambda>n. gn_id n = i) (graph_nodes g) = Some n"
      using find_exists[of i gn_id "graph_nodes g"] by auto
    then have step: "(i, d) \<in> deps g" if "d \<in> set (gn_needs n)" for d
      using that by (auto simp: deps_def dest: find_SomeD)
    have "is_ok (visit_each g (gn_needs n) (insert i V) W)"
    proof (rule "1.IH"[OF False V])
      show "ok_or (find (\<lambda>n. gn_id n = i) (graph_nodes g)) InvalidDependency = Ok n" using n by simp
      show "set (gn_needs n) \<subseteq> node_ids g" using step "1.prems"(1,4) by blast
      show "\<forall>v \<in> insert i V. \<forall>d \<in> set (gn_needs n). (v, d) \<in> (deps g)\<^sup>+"
        using step "1.prems"(2) by (auto intro: trancl_into_trancl)
    qed (use "1.prems" in auto)
    with n False V show ?thesis
      by (subst visit.simps) (auto simp: is_ok_iff)
  qed (simp add: visit.simps)
next
  case (3 g d ds V W)
  then obtain t where "visit g d V W = Inr t" by (auto simp: is_ok_iff)
  with 3 show ?case by (simp add: visiting_restored(1))
qed simp

lemma visit_all_iff_acyclic:
  assumes "distinct (map gn_id (graph_nodes g))" and "deps g `` node_ids g \<subseteq> node_ids g"
  shows "is_ok (visit_each g (map gn_id (graph_nodes g)) {} {}) \<longleftrightarrow> acyclic (deps g)"
proof
  assume "is_ok (visit_each g (map gn_id (graph_nodes g)) {} {})"
  then obtain s where "visit_each g (map gn_id (graph_nodes g)) {} {} = Inr s"
    by (auto simp: is_ok_iff)
  moreover have "dfs_inv g {} {}" by (simp add: dfs_inv_def)
  ultimately have "node_ids g \<subseteq> snd s" "dfs_inv g {} (snd s)"
    using visit_sound(2)[OF assms(1)] by fastforce+
  then have *: "\<forall>w \<in> node_ids g. (w, w) \<notin> (deps g)\<^sup>+" by (auto simp: dfs_inv_def)
  show "acyclic (deps g)"
  proof (rule acyclicI, rule allI, rule notI)
    fix x assume cyc: "(x, x) \<in> (deps g)\<^sup>+"
    then have "x \<in> node_ids g" by (auto elim: tranclE dest: tranclD simp: deps_def)
    with * cyc show False by blast
  qed
next
  assume "acyclic (deps g)"
  then show "is_ok (visit_each g (map gn_id (graph_nodes g)) {} {})"
    using assms(2) by (intro visit_complete(2)) auto
qed

section \<open>The validation as a whole\<close>

definition research_join_shape :: "WorkflowGraph \<Rightarrow> bool" where
  "research_join_shape g \<longleftrightarrow>
     (\<exists>left right join.
        filter (\<lambda>n. gn_kind n = Research) (graph_nodes g) = [left, right] \<and>
        filter (\<lambda>n. gn_kind n = Join) (graph_nodes g) = [join] \<and>
        gn_needs left = [] \<and> gn_needs right = [] \<and>
        set (gn_needs join) = {gn_id left, gn_id right})"

lemma is_ok_research_join [ok_simps]: "is_ok (validate_research_join g) \<longleftrightarrow> research_join_shape g"
proof
  assume ok: "is_ok (validate_research_join g)"
  let ?r = "filter (\<lambda>n. gn_kind n = Research) (graph_nodes g)"
  let ?j = "filter (\<lambda>n. gn_kind n = Join) (graph_nodes g)"
  from ok have "length ?r = 2" "length ?j = 1"
    by (auto simp: validate_research_join_def Let_def split: if_splits)
  then obtain a b c where r: "?r = [a, b]" and j: "?j = [c]"
    by (auto simp: length_Suc_conv numeral_2_eq_2)
  from ok show "research_join_shape g"
    unfolding validate_research_join_def Let_def r j research_join_shape_def
    by (auto split: if_splits)
next
  assume "research_join_shape g"
  then obtain a b c where
    "filter (\<lambda>n. gn_kind n = Research) (graph_nodes g) = [a, b]"
    "filter (\<lambda>n. gn_kind n = Join) (graph_nodes g) = [c]"
    "gn_needs a = []" "gn_needs b = []" "set (gn_needs c) = {gn_id a, gn_id b}"
    by (auto simp: research_join_shape_def)
  then show "is_ok (validate_research_join g)"
    by (simp add: validate_research_join_def Let_def)
qed

definition wf_graph :: "WorkflowGraph \<Rightarrow> bool" where
  "wf_graph g \<longleftrightarrow>
     distinct (map gn_id (graph_nodes g)) \<and>
     (\<forall>n \<in> set (graph_nodes g). \<not> blank (gn_title n) \<and> set (gn_needs n) \<subseteq> node_ids g) \<and>
     acyclic (deps g) \<and> research_join_shape g"

lemma acyclic_deps_irrefl:
  "acyclic (deps g) \<Longrightarrow> n \<in> set (graph_nodes g) \<Longrightarrow> gn_id n \<notin> set (gn_needs n)"
  by (fastforce simp: acyclic_def deps_def)

lemma graph_validate_iff_wf: "is_ok (graph_validate g) \<longleftrightarrow> wf_graph g"
proof -
  let ?needs_ok = "\<forall>n \<in> set (graph_nodes g). \<not> blank (gn_title n) \<and> set (gn_needs n) \<subseteq> node_ids g"
  have closed: "deps g `` node_ids g \<subseteq> node_ids g" if ?needs_ok
    using that by (auto simp: deps_def)
  have "is_ok (graph_validate g) \<longleftrightarrow>
      distinct (map gn_id (graph_nodes g)) \<and>
      (\<forall>n \<in> set (graph_nodes g). \<not> blank (gn_title n) \<and>
         (\<forall>d \<in> set (gn_needs n). d \<noteq> gn_id n \<and> d \<in> node_ids g)) \<and>
      is_ok (visit_each g (map gn_id (graph_nodes g)) {} {}) \<and> research_join_shape g"
    using card_set_length_iff[of "map gn_id (graph_nodes g)"]
    by (auto simp: graph_validate_def Let_def is_ok_for_each is_ok_research_join)
  also have "\<dots> \<longleftrightarrow> wf_graph g"
    unfolding wf_graph_def using visit_all_iff_acyclic closed acyclic_deps_irrefl by blast
  finally show ?thesis .
qed

lemma wf_graph_distinct: "wf_graph g \<Longrightarrow> distinct (map gn_id (graph_nodes g))"
  by (simp add: wf_graph_def)

lemma wf_graph_known: "wf_graph g \<Longrightarrow> (i, d) \<in> deps g \<Longrightarrow> i \<in> node_ids g \<and> d \<in> node_ids g"
  by (auto simp: wf_graph_def deps_def)

lemma finite_deps: "finite (deps g)"
proof -
  have "deps g = (\<Union>n \<in> set (graph_nodes g). Pair (gn_id n) ` set (gn_needs n))"
    by (auto simp: deps_def)
  then show ?thesis by simp
qed

text \<open>The dependency order is well founded, which inductions over a graph use.\<close>

lemma wf_deps: "wf_graph g \<Longrightarrow> wf ((deps g)\<inverse>)"
  by (simp add: finite_acyclic_wf_converse finite_deps wf_graph_def)

end
