(* ===== verification/Graph_Execution.thy ===== *)
theory Graph_Execution
  imports Graph_Validate
begin

text \<open>
  Behaviour of the operations on a graph execution. Every operation turns out to be a pointwise
  change of the node records; the first sections compute that change for the loops
  (\<open>claim_ready\<close>, \<open>block_dependents\<close>, \<open>retry_failed\<close>), the later ones give the invariant, the
  abstract state machine each node follows, and the scheduling properties.
\<close>

section \<open>Well-formed executions\<close>

definition wf_execution :: "(string \<Rightarrow> string) \<Rightarrow> GraphExecution \<Rightarrow> bool" where
  "wf_execution H x \<longleftrightarrow>
     wf_graph (exec_graph x) \<and>
     distinct (map node_id (exec_nodes x)) \<and>
     node_id ` set (exec_nodes x) = node_ids (exec_graph x) \<and>
     (\<forall>e \<in> set (exec_nodes x). execution_state_is_valid e) \<and>
     distinct (map out_run_id (exec_outputs x)) \<and>
     (\<forall>out \<in> set (exec_outputs x). is_ok (output_validate H out) \<and>
        out_node_id out \<in> node_ids (exec_graph x))"

lemma distinct_same_length_eq:
  assumes "distinct xs" "distinct ys" "length xs = length ys" "set xs \<subseteq> set ys"
  shows "set xs = set ys"
  using assms by (simp add: card_subset_eq distinct_card)

lemma execution_validate_iff_wf: "is_ok (execution_validate H x) \<longleftrightarrow> wf_execution H x"
proof -
  let ?g = "exec_graph x"
  let ?len = "length (exec_nodes x) = length (graph_nodes ?g)"
  let ?sub = "node_id ` set (exec_nodes x) \<subseteq> node_ids ?g"
  have "is_ok (execution_validate H x) \<longleftrightarrow>
      wf_graph ?g \<and> ?len \<and> distinct (map node_id (exec_nodes x)) \<and> ?sub \<and>
      (\<forall>e \<in> set (exec_nodes x). execution_state_is_valid e) \<and>
      distinct (map out_run_id (exec_outputs x)) \<and>
      (\<forall>out \<in> set (exec_outputs x). is_ok (output_validate H out) \<and> out_node_id out \<in> node_ids ?g)"
    using card_set_length_iff[of "map node_id (exec_nodes x)"]
      card_set_length_iff[of "map out_run_id (exec_outputs x)"]
    by (auto simp: execution_validate_def graph_validate_iff_wf key_mem_iff image_subset_iff)
  moreover have "?len \<and> ?sub \<longleftrightarrow> node_id ` set (exec_nodes x) = node_ids ?g"
    if "distinct (map node_id (exec_nodes x))" "wf_graph ?g"
    using that distinct_same_length_eq[of "map node_id (exec_nodes x)" "map gn_id (graph_nodes ?g)"]
      distinct_card[of "map node_id (exec_nodes x)"] distinct_card[of "map gn_id (graph_nodes ?g)"]
      wf_graph_distinct[of ?g] by auto
  ultimately show ?thesis unfolding wf_execution_def by blast
qed

lemma wf_executionD:
  assumes "wf_execution H x"
  shows "wf_graph (exec_graph x)" "distinct (map node_id (exec_nodes x))"
    "node_id ` set (exec_nodes x) = node_ids (exec_graph x)"
    "distinct (map gn_id (graph_nodes (exec_graph x)))"
  using assms by (auto simp: wf_execution_def wf_graph_distinct)

definition state_of :: "GraphExecution \<Rightarrow> GraphNodeId \<Rightarrow> GraphNodeState option" where
  "state_of x i = map_option node_state (node_execution x i)"

text \<open>A node is ready when everything it needs has succeeded.\<close>

definition ready :: "GraphExecution \<Rightarrow> GraphNodeId \<Rightarrow> bool" where
  "ready x i \<longleftrightarrow> (\<forall>d. (i, d) \<in> deps (exec_graph x) \<longrightarrow> state_of x d = Some Succeeded)"

lemma node_execution_iff:
  "distinct (map node_id (exec_nodes x)) \<Longrightarrow>
   node_execution x i = Some e \<longleftrightarrow> e \<in> set (exec_nodes x) \<and> node_id e = i"
  by (simp add: node_execution_def find_key_Some)

lemma state_of_iff:
  "distinct (map node_id (exec_nodes x)) \<Longrightarrow>
   state_of x i = Some s \<longleftrightarrow> (\<exists>e \<in> set (exec_nodes x). node_id e = i \<and> node_state e = s)"
  by (auto simp: state_of_def node_execution_iff)

lemma map_of_rev_distinct:
  "distinct (map fst xs) \<Longrightarrow> map_of (rev xs) = map_of xs"
  by (simp add: map_of_inject_set rev_map[symmetric])

lemma node_states_find:
  assumes "distinct (map node_id es)"
  shows "node_states es i = map_option node_state (find (\<lambda>e. node_id e = i) es)"
proof -
  have "map_of (map (\<lambda>e. (node_id e, node_state e)) es) i =
      map_option node_state (find (\<lambda>e. node_id e = i) es)" for es :: "GraphNodeExecution list"
    by (induction es) auto
  with assms show ?thesis by (simp add: node_states_def map_of_rev_distinct comp_def)
qed

lemma node_states_iff:
  "distinct (map node_id es) \<Longrightarrow>
   node_states es i = Some s \<longleftrightarrow> (\<exists>e \<in> set es. node_id e = i \<and> node_state e = s)"
  by (auto simp: node_states_find find_key_Some)

lemma node_states_state_of:
  "distinct (map node_id (exec_nodes x)) \<Longrightarrow> node_states (exec_nodes x) = state_of x"
  by (simp add: fun_eq_iff node_states_find state_of_def node_execution_def)

lemma needs_ready:
  assumes "wf_execution H x" and "find (\<lambda>n. gn_id n = i) (graph_nodes (exec_graph x)) = Some n"
  shows "(\<forall>d \<in> set (gn_needs n). state_of x d = Some Succeeded) \<longleftrightarrow> ready x i"
  using deps_of_node[OF wf_executionD(4)[OF assms(1)] assms(2)]
  by (auto simp: ready_def)

section \<open>Pointwise changes\<close>

text \<open>
  \<open>remapped F x y\<close>: \<open>y\<close> is \<open>x\<close> with every node record \<open>e\<close> replaced by \<open>F e\<close>, keeping identity,
  graph and recorded outputs. The revision may differ.
\<close>

definition remapped ::
  "(GraphNodeExecution \<Rightarrow> GraphNodeExecution) \<Rightarrow> GraphExecution \<Rightarrow> GraphExecution \<Rightarrow> bool" where
  "remapped F x y \<longleftrightarrow>
     (\<forall>e. node_id (F e) = node_id e) \<and> exec_nodes y = map F (exec_nodes x) \<and>
     exec_graph y = exec_graph x \<and> exec_outputs y = exec_outputs x \<and> exec_id y = exec_id x \<and>
     restarted_from y = restarted_from x"

definition at_node ::
  "GraphNodeId \<Rightarrow> (GraphNodeExecution \<Rightarrow> GraphNodeExecution) \<Rightarrow> GraphNodeExecution \<Rightarrow> GraphNodeExecution" where
  "at_node i f e = (if node_id e = i then f e else e)"

lemma remapped_node_execution:
  "remapped F x y \<Longrightarrow> node_execution y i = map_option F (node_execution x i)"
proof -
  assume r: "remapped F x y"
  have "find (\<lambda>e. node_id e = i) (map F es) = map_option F (find (\<lambda>e. node_id e = i) es)" for es
    using r by (induction es) (auto simp: remapped_def)
  with r show ?thesis by (simp add: node_execution_def remapped_def)
qed

lemma remapped_state_of:
  "remapped F x y \<Longrightarrow> state_of y i = map_option (\<lambda>e. node_state (F e)) (node_execution x i)"
  by (simp add: state_of_def remapped_node_execution option.map_comp comp_def)

lemma remapped_wf:
  assumes "remapped F x y" and "wf_execution H x"
    and "\<And>e. e \<in> set (exec_nodes x) \<Longrightarrow> execution_state_is_valid (F e)"
  shows "wf_execution H y"
proof -
  from assms(1) have ids: "map node_id (exec_nodes y) = map node_id (exec_nodes x)"
    and same: "exec_graph y = exec_graph x" "exec_outputs y = exec_outputs x"
    and nodes: "set (exec_nodes y) = F ` set (exec_nodes x)"
    by (simp_all add: remapped_def)
  from ids have "node_id ` set (exec_nodes y) = node_id ` set (exec_nodes x)"
    by (metis list.set_map)
  with ids same nodes assms(2,3) show ?thesis
    unfolding wf_execution_def by simp
qed

lemma remapped_bump [simp]: "remapped F x (bump_revision y) \<longleftrightarrow> remapped F x y"
  by (simp add: remapped_def bump_revision_def)

lemma remapped_update_node:
  assumes "distinct (map node_id (exec_nodes x))" and "\<And>e. node_id (f e) = node_id e"
  shows "remapped (at_node i f) x (update_node i f x)"
proof -
  have "exec_nodes (update_node i f x) = map (at_node i f) (exec_nodes x)"
    using update_first_map[OF assms(1), of i f] by (simp add: update_node_def at_node_def[abs_def])
  then show ?thesis using assms(2) by (simp add: remapped_def update_node_def at_node_def)
qed

lemma remapped_trans:
  "remapped F x y \<Longrightarrow> remapped G y z \<Longrightarrow> remapped (G \<circ> F) x z"
  by (simp add: remapped_def)

section \<open>Blocking dependents\<close>

text \<open>\<open>dependents g i\<close>: the nodes that need \<open>i\<close>, directly or through others.\<close>

definition dependents :: "WorkflowGraph \<Rightarrow> GraphNodeId \<Rightarrow> GraphNodeId set" where
  "dependents g i = {j. (j, i) \<in> (deps g)\<^sup>+}"

definition needs_rel :: "GraphNode list \<Rightarrow> (GraphNodeId \<times> GraphNodeId) set" where
  "needs_rel ns = {(gn_id n, d) | n d. n \<in> set ns \<and> d \<in> set (gn_needs n)}"

definition closure :: "GraphNode list \<Rightarrow> GraphNodeId set \<Rightarrow> GraphNodeId set" where
  "closure ns b = ((needs_rel ns)\<inverse>)\<^sup>* `` b"

definition block_in :: "GraphNodeId set \<Rightarrow> GraphNodeExecution \<Rightarrow> GraphNodeExecution" where
  "block_in B e = (if node_id e \<in> B then mark_blocked e else e)"

lemma node_id_mark_blocked [simp]: "node_id (mark_blocked e) = node_id e"
  by (simp add: mark_blocked_def)

lemma node_id_block_in [simp]: "node_id (block_in B e) = node_id e"
  by (simp add: block_in_def)

lemma block_in_disjoint: "B \<inter> C = {} \<Longrightarrow> block_in C (block_in B e) = block_in (B \<union> C) e"
  by (auto simp: block_in_def)

lemma block_in_empty [simp]: "block_in {} = (\<lambda>e. e)"
  by (simp add: block_in_def fun_eq_iff)

lemma closure_step:
  assumes "n \<in> set ms" "d \<in> set (gn_needs n)" "d \<in> closure ms b"
  shows "gn_id n \<in> closure ms b"
proof -
  from assms(3) obtain k where "k \<in> b" "(k, d) \<in> ((needs_rel ms)\<inverse>)\<^sup>*"
    by (auto simp: closure_def)
  moreover have "(d, gn_id n) \<in> (needs_rel ms)\<inverse>" using assms(1,2) by (auto simp: needs_rel_def)
  ultimately show ?thesis by (auto simp: closure_def intro: rtrancl_into_rtrancl)
qed

lemma block_pass_map:
  "block_pass ns b es c = (b', es', c') \<Longrightarrow> distinct (map node_id es) \<Longrightarrow>
   es' = map (block_in (b' - b)) es"
proof (induction ns b es c rule: block_pass.induct)
  case (2 n ns b es c)
  show ?case
  proof (cases "(\<exists>d \<in> set (gn_needs n). d \<in> b) \<and> gn_id n \<notin> b")
    case True
    let ?es = "update_first (\<lambda>e. node_id e = gn_id n) mark_blocked es"
    have es: "?es = map (block_in {gn_id n}) es"
      using update_first_map[OF "2.prems"(2), of "gn_id n" mark_blocked]
      by (auto simp: block_in_def)
    have "map node_id ?es = map node_id es" by (simp add: map_update_first)
    moreover have pass: "block_pass ns (insert (gn_id n) b) ?es True = (b', es', c')"
      using "2.prems"(1) True by simp
    ultimately have "es' = map (block_in (b' - insert (gn_id n) b)) ?es"
      using "2.IH"(1)[OF True] "2.prems"(2) by simp
    moreover have "{gn_id n} \<union> (b' - insert (gn_id n) b) = b' - b"
      using block_pass_grows[OF pass] True by auto
    ultimately show ?thesis by (simp add: es block_in_disjoint)
  next
    case False
    with "2.prems"(1) have "block_pass ns b es c = (b', es', c')"
      by (simp only: block_pass.simps if_False)
    with "2.IH"(2)[OF False] "2.prems"(2) show ?thesis by simp
  qed
qed simp

lemma block_pass_within_closure:
  "block_pass ns b es c = (b', es', c') \<Longrightarrow> set ns \<subseteq> set ms \<Longrightarrow> b \<subseteq> closure ms b0 \<Longrightarrow>
   b' \<subseteq> closure ms b0"
proof (induction ns b es c rule: block_pass.induct)
  case (2 n ns b es c)
  show ?case
  proof (cases "(\<exists>d \<in> set (gn_needs n). d \<in> b) \<and> gn_id n \<notin> b")
    case True
    then obtain d where "d \<in> set (gn_needs n)" "d \<in> closure ms b0" using "2.prems"(3) by auto
    moreover have "n \<in> set ms" using "2.prems"(2) by simp
    ultimately have "gn_id n \<in> closure ms b0" by (auto intro: closure_step)
    then show ?thesis using "2.IH"(1)[OF True] "2.prems" True by simp
  next
    case False
    with "2.prems"(1) have "block_pass ns b es c = (b', es', c')"
      by (simp only: block_pass.simps if_False)
    with "2.IH"(2)[OF False] "2.prems" show ?thesis by simp
  qed
qed simp

lemma block_pass_stable:
  "block_pass ns b es c = (b', es', False) \<Longrightarrow>
   \<forall>n \<in> set ns. (\<exists>d \<in> set (gn_needs n). d \<in> b) \<longrightarrow> gn_id n \<in> b"
proof (induction ns b es c rule: block_pass.induct)
  case (2 n ns b es c)
  show ?case
  proof (cases "(\<exists>d \<in> set (gn_needs n). d \<in> b) \<and> gn_id n \<notin> b")
    case True
    then have "block_pass ns (insert (gn_id n) b)
        (update_first (\<lambda>e. node_id e = gn_id n) mark_blocked es) True = (b', es', False)"
      using "2.prems" by simp
    moreover have "snd (snd (block_pass ns b2 es2 True))" for b2 es2
      by (induction ns b2 es2 True rule: block_pass.induct) auto
    ultimately show ?thesis by (metis snd_conv)
  next
    case False
    with "2.prems" have "block_pass ns b es c = (b', es', False)"
      by (simp only: block_pass.simps if_False)
    from "2.IH"(2)[OF False this] False show ?thesis by auto
  qed
qed simp

lemma closure_closed: "\<forall>n \<in> set ns. (\<exists>d \<in> set (gn_needs n). d \<in> b) \<longrightarrow> gn_id n \<in> b \<Longrightarrow> closure ns b = b"
  unfolding closure_def by (rule Image_closed_trancl) (auto simp: needs_rel_def)

lemma closure_mono: "b \<subseteq> closure ns b' \<Longrightarrow> closure ns b \<subseteq> closure ns b'"
  unfolding closure_def by (auto intro: rtrancl_trans)

lemma closure_extensive: "b \<subseteq> closure ns b"
  by (auto simp: closure_def)

lemma block_loop_map:
  "distinct (map node_id es) \<Longrightarrow> block_loop ns b es = map (block_in (closure ns b - b)) es"
proof (induction ns b es rule: block_loop.induct)
  case (1 ns b es)
  obtain b' es' c where pass: "block_pass ns b es False = (b', es', c)"
    by (cases "block_pass ns b es False") auto
  note es' = block_pass_map[OF pass "1.prems"]
  from block_pass_grows[OF pass] have "b \<subseteq> b'" by simp
  have "b' \<subseteq> closure ns b"
    using block_pass_within_closure[OF pass subset_refl closure_extensive] .
  then have cl: "closure ns b' = closure ns b"
    using closure_mono[of b' ns b] closure_mono[of b ns b'] \<open>b \<subseteq> b'\<close> closure_extensive[of b' ns]
    by auto
  show ?case
  proof (cases c)
    case True
    have "map node_id es' = map node_id es" by (simp add: es')
    then have IH: "block_loop ns b' es' = map (block_in (closure ns b' - b')) es'"
      using "1.IH"[OF pass[symmetric]] True "1.prems" by simp
    have "(b' - b) \<union> (closure ns b - b') = closure ns b - b"
      using \<open>b \<subseteq> b'\<close> \<open>b' \<subseteq> closure ns b\<close> by auto
    then have two: "block_in (closure ns b - b') (block_in (b' - b) e) = block_in (closure ns b - b) e"
      for e
      using block_in_disjoint[of "b' - b" "closure ns b - b'" e] by auto
    have "block_loop ns b es = block_loop ns b' es'"
      using pass True by (subst block_loop.simps) simp
    also note IH
    also have "map (block_in (closure ns b' - b')) es' = map (block_in (closure ns b - b)) es"
      by (simp add: es' cl two)
    finally show ?thesis .
  next
    case False
    with pass have "block_pass ns b es False = (b', es', False)" by simp
    from closure_closed[OF block_pass_stable[OF this]] have "closure ns b = b" .
    moreover from this have "b' = b" using \<open>b' \<subseteq> closure ns b\<close> \<open>b \<subseteq> b'\<close> by simp
    moreover from this have "es' = es" using es' by simp
    moreover have "block_loop ns b es = es'"
      using pass False by (subst block_loop.simps) simp
    ultimately show ?thesis by simp
  qed
qed

lemma closure_dependents: "closure (graph_nodes g) {i} = insert i (dependents g i)"
proof -
  have "needs_rel (graph_nodes g) = deps g" by (simp add: needs_rel_def deps_def)
  then show ?thesis
    by (auto simp: closure_def dependents_def rtrancl_converse rtrancl_eq_or_trancl)
qed

lemma remapped_block_dependents:
  assumes "distinct (map node_id (exec_nodes x))"
  shows "remapped (block_in (dependents (exec_graph x) i - {i})) x (block_dependents i x)"
  using block_loop_map[OF assms, of "graph_nodes (exec_graph x)" "{i}"]
  by (simp add: remapped_def block_dependents_def closure_dependents insert_Diff_if)

section \<open>Claiming\<close>

definition claimable ::
  "WorkflowGraph \<Rightarrow> (GraphNodeId \<Rightarrow> GraphNodeState option) \<Rightarrow> GraphNodeExecution \<Rightarrow> bool" where
  "claimable g states e \<longleftrightarrow>
     node_state e = Pending \<and>
     (\<exists>n. find (\<lambda>n. gn_id n = node_id e) (graph_nodes g) = Some n \<and>
          (\<forall>d \<in> set (gn_needs n). states d = Some Succeeded))"

definition claim_in :: "string \<Rightarrow> GraphNodeId set \<Rightarrow> GraphNodeExecution \<Rightarrow> GraphNodeExecution" where
  "claim_in owner C e = (if node_id e \<in> C then claimed_node owner e else e)"

lemma node_id_claimed [simp]: "node_id (claimed_node owner e) = node_id e"
  by (simp add: claimed_node_def)

lemma node_id_claim_in [simp]: "node_id (claim_in owner C e) = node_id e"
  by (simp add: claim_in_def)

lemma claim_in_notin: "node_id ` set es \<inter> C = D \<Longrightarrow> map (claim_in owner C) es = map (claim_in owner D) es"
  by (auto simp: claim_in_def)

lemma claim_loop_spec:
  assumes "node_id ` set es \<subseteq> node_ids g" and "distinct (map node_id es)" and "length c \<le> limit"
    and "cs = take (limit - length c) (map node_id (filter (claimable g states) es))"
  shows "claim_loop g states owner limit es c = Inr (map (claim_in owner (set cs)) es, c @ cs)"
  using assms
proof (induction es arbitrary: c cs)
  case (Cons e es)
  let ?tail = "\<lambda>c. take (limit - length c) (map node_id (filter (claimable g states) es))"
  have IH: "claim_loop g states owner limit es c' =
      Inr (map (claim_in owner (set (?tail c'))) es, c' @ ?tail c')" if "length c' \<le> limit" for c'
    using Cons.IH[of c'] Cons.prems that by auto
  have e_new: "node_id e \<notin> set (?tail c')" for c'
    using Cons.prems(2) by (auto dest!: in_set_takeD)
  obtain n where n: "find (\<lambda>n. gn_id n = node_id e) (graph_nodes g) = Some n"
    using Cons.prems(1) find_exists[of "node_id e" gn_id "graph_nodes g"] by auto
  show ?case
  proof (cases "claimable g states e \<and> length c < limit")
    case True
    then have go: "\<not> (length c = limit \<or> node_state e \<noteq> Pending)"
      and sat: "\<forall>d \<in> set (gn_needs n). states d = Some Succeeded"
      using n by (auto simp: claimable_def)
    have cs: "cs = node_id e # ?tail (c @ [node_id e])"
      using True Cons.prems(4) by (cases "limit - length c") (simp_all add: Suc_diff_Suc[symmetric])
    have other: "map (claim_in owner (insert (node_id e) A)) es = map (claim_in owner A) es" for A
    proof (rule map_cong[OF refl])
      fix e' assume "e' \<in> set es"
      with Cons.prems(2) have "node_id e' \<noteq> node_id e" by (metis distinct.simps(2) image_eqI list.simps(9) list.set_map)
      then show "claim_in owner (insert (node_id e) A) e' = claim_in owner A e'"
        by (simp add: claim_in_def)
    qed
    have "claim_loop g states owner limit (e # es) c =
        and_then (claim_loop g states owner limit es (c @ [node_id e]))
          (\<lambda>(es', c). Ok (claimed_node owner e # es', c))"
      using go n sat by simp
    also have "\<dots> = Inr (claimed_node owner e # map (claim_in owner (set (?tail (c @ [node_id e])))) es,
        (c @ [node_id e]) @ ?tail (c @ [node_id e]))"
      using True by (subst IH) simp_all
    also have "\<dots> = Inr (map (claim_in owner (set cs)) (e # es), c @ cs)"
      unfolding cs by (simp add: other claim_in_def[of _ _ e])
    finally show ?thesis .
  next
    case False
    then have cs: "cs = ?tail c" using Cons.prems(4) by auto
    have "claim_in owner (set cs) e = e" using e_new[of c] by (simp add: cs claim_in_def)
    moreover have "claim_loop g states owner limit (e # es) c =
        and_then (claim_loop g states owner limit es c) (\<lambda>(es', c). Ok (e # es', c))"
      using False n Cons.prems(3) by (auto simp: claimable_def)
    ultimately show ?thesis using IH[OF Cons.prems(3)] by (simp add: cs)
  qed
qed simp

text \<open>\<open>claim_ready\<close> takes the first \<open>limit\<close> pending nodes, in order, whose needs all succeeded.\<close>

definition ready_nodes :: "GraphExecution \<Rightarrow> GraphNodeId list" where
  "ready_nodes x =
     map node_id (filter (\<lambda>e. node_state e = Pending \<and> ready x (node_id e)) (exec_nodes x))"

lemma claimable_ready:
  assumes "wf_execution H x" and "e \<in> set (exec_nodes x)"
  shows "claimable (exec_graph x) (node_states (exec_nodes x)) e \<longleftrightarrow>
    node_state e = Pending \<and> ready x (node_id e)"
proof -
  note wf = wf_executionD[OF assms(1)]
  obtain n where n: "find (\<lambda>n. gn_id n = node_id e) (graph_nodes (exec_graph x)) = Some n"
    using assms(2) wf(3) find_exists[of "node_id e" gn_id "graph_nodes (exec_graph x)"] by blast
  show ?thesis
    using needs_ready[OF assms(1) n] n by (auto simp: claimable_def node_states_state_of[OF wf(2)])
qed

lemma claim_ready_spec:
  assumes "wf_execution H x" and "\<not> blank owner" and "limit \<noteq> 0"
    and cs_def: "cs = take limit (ready_nodes x)"
  shows "\<exists>y. claim_ready owner limit x = Inr (cs, y) \<and> remapped (claim_in owner (set cs)) x y \<and>
    exec_revision y = exec_revision x + (if cs = [] then 0 else 1)"
proof -
  note wf = wf_executionD[OF assms(1)]
  have "filter (claimable (exec_graph x) (node_states (exec_nodes x))) (exec_nodes x) =
      filter (\<lambda>e. node_state e = Pending \<and> ready x (node_id e)) (exec_nodes x)"
    by (rule filter_cong) (auto simp: claimable_ready[OF assms(1)])
  then have "claim_loop (exec_graph x) (node_states (exec_nodes x)) owner limit (exec_nodes x) [] =
      Inr (map (claim_in owner (set cs)) (exec_nodes x), cs)"
    using claim_loop_spec[of "exec_nodes x" "exec_graph x" "[]" limit cs "node_states (exec_nodes x)" owner] wf
    by (simp add: cs_def ready_nodes_def)
  with assms(2,3) show ?thesis
    by (auto simp: claim_ready_def remapped_def bump_revision_def)
qed

lemma claim_ready_Ok:
  assumes "wf_execution H x" and "claim_ready owner limit x = Inr (cs, y)"
  shows "\<not> blank owner" "limit \<noteq> 0" "cs = take limit (ready_nodes x)"
    "remapped (claim_in owner (set cs)) x y"
    "exec_revision y = exec_revision x + (if cs = [] then 0 else 1)"
proof -
  show *: "\<not> blank owner" "limit \<noteq> 0" using assms(2) by (auto simp: claim_ready_def split: if_splits)
  from claim_ready_spec[OF assms(1) * refl] assms(2)
  show "cs = take limit (ready_nodes x)" "remapped (claim_in owner (set cs)) x y"
    "exec_revision y = exec_revision x + (if cs = [] then 0 else 1)" by auto
qed

section \<open>Retrying\<close>

definition reopen_in :: "GraphNodeId set \<Rightarrow> GraphNodeExecution \<Rightarrow> GraphNodeExecution" where
  "reopen_in R e = (if node_id e \<in> R then reopened_node e else e)"

lemma node_id_reopened [simp]: "node_id (reopened_node e) = node_id e"
  by (simp add: reopened_node_def)

lemma node_id_reopen_in [simp]: "node_id (reopen_in R e) = node_id e"
  by (simp add: reopen_in_def)

lemma reopen_in_disjoint: "R \<inter> S = {} \<Longrightarrow> reopen_in S (reopen_in R e) = reopen_in (R \<union> S) e"
  by (auto simp: reopen_in_def)

lemma map_node_id_reopen [simp]: "map node_id (map (reopen_in R) es) = map node_id es"
  by simp

lemma reopen_all_map:
  "distinct (map node_id es) \<Longrightarrow> distinct ids \<Longrightarrow> set ids \<subseteq> node_id ` set es \<Longrightarrow>
   reopen_all ids es = Inr (map (reopen_in (set ids)) es)"
proof (induction ids arbitrary: es)
  case Nil
  have "reopen_in {} = (\<lambda>e. e)" by (simp add: reopen_in_def fun_eq_iff)
  then show ?case by simp
next
  case (Cons i ids)
  let ?es = "update_first (\<lambda>e. node_id e = i) reopened_node es"
  have es: "?es = map (reopen_in {i}) es"
    using update_first_map[OF Cons.prems(1), of i reopened_node] by (auto simp: reopen_in_def)
  obtain e where "find (\<lambda>e. node_id e = i) es = Some e"
    using Cons.prems(3) find_exists[of i node_id es] by auto
  moreover have "reopen_all ids ?es = Inr (map (reopen_in (set ids)) ?es)"
    using Cons.prems by (intro Cons.IH) (auto simp: es image_comp comp_def)
  moreover have "reopen_in (set ids) (reopen_in {i} e) = reopen_in (set (i # ids)) e" for e
    using Cons.prems(2) reopen_in_disjoint[of "{i}" "set ids" e] by simp
  ultimately show ?case by (simp add: es)
qed

lemma reopenable_blocked:
  "distinct (map node_id es) \<Longrightarrow> i \<in> set (reopenable g es) \<Longrightarrow>
   \<exists>e \<in> set es. node_id e = i \<and> node_state e = Blocked"
  by (auto simp: reopenable_def node_states_iff)

lemma blocked_fewer:
  assumes "e \<in> set es" and "node_id e \<in> R" and "node_state e = Blocked"
  shows "length (filter (\<lambda>e. node_state e = Blocked) (map (reopen_in R) es))
       < length (filter (\<lambda>e. node_state e = Blocked) es)"
proof -
  have "length (filter (\<lambda>e. node_state e = Blocked) (map (reopen_in R) es)) =
      length (filter (\<lambda>e. node_id e \<notin> R) (filter (\<lambda>e. node_state e = Blocked) es))"
    by (induction es) (auto simp: reopen_in_def reopened_node_def)
  also have "\<dots> < length (filter (\<lambda>e. node_state e = Blocked) es)"
    using assms by (intro length_filter_less[of e]) auto
  finally show ?thesis .
qed

text \<open>
  The loop reopens a set \<open>R\<close> of blocked nodes, each of which ends with no dependency that stands
  in its way, and stops only when no blocked node is left that could be reopened.
\<close>

definition in_the_way :: "GraphNodeState option \<Rightarrow> bool" where
  "in_the_way s \<longleftrightarrow> s \<in> {Some Failed, Some Cancelled, Some Blocked}"

definition reopens :: "WorkflowGraph \<Rightarrow> GraphNodeExecution list \<Rightarrow> GraphNodeId set \<Rightarrow> bool" where
  "reopens g es R \<longleftrightarrow>
     (\<forall>i \<in> R. node_states es i = Some Blocked \<and>
        (\<forall>d. (i, d) \<in> deps g \<longrightarrow> \<not> in_the_way (node_states (map (reopen_in R) es) d)))"

lemma node_states_reopen:
  assumes "distinct (map node_id es)"
  shows "node_states (map (reopen_in R) es) i =
    (if i \<in> R \<and> i \<in> node_id ` set es then Some Pending else node_states es i)"
proof -
  have "map_option node_state (find (\<lambda>e. node_id e = i) (map (reopen_in R) es)) =
     (if i \<in> R \<and> i \<in> node_id ` set es then Some Pending
      else map_option node_state (find (\<lambda>e. node_id e = i) es))"
    by (induction es) (auto simp: reopen_in_def reopened_node_def)
  with assms show ?thesis by (simp add: node_states_find comp_def)
qed

lemma reopens_Un:
  assumes "distinct (map node_id es)" and "reopens g es S" and "reopens g (map (reopen_in S) es) R"
  shows "reopens g es (S \<union> R)" "map (reopen_in R) (map (reopen_in S) es) = map (reopen_in (S \<union> R)) es"
proof -
  note states = node_states_reopen[OF assms(1)]
  have blocked: "node_states es i = Some Blocked \<and> i \<notin> S" if "i \<in> R" for i
  proof -
    have *: "node_states (map (reopen_in S) es) i = Some Blocked"
      using assms(3) that by (simp add: reopens_def)
    then have "i \<in> node_id ` set es" by (auto simp: node_states_find assms(1) comp_def find_key_Some)
    with * show ?thesis by (auto simp: states split: if_splits)
  qed
  then show same: "map (reopen_in R) (map (reopen_in S) es) = map (reopen_in (S \<union> R)) es"
    unfolding map_map by (intro map_cong) (auto simp: reopen_in_def)
  have mono: "\<not> in_the_way (node_states (map (reopen_in (S \<union> R)) es) d)"
    if "\<not> in_the_way (node_states (map (reopen_in S) es) d)" for d
    using that by (auto simp: states in_the_way_def split: if_splits)
  from blocked mono assms(2,3) show "reopens g es (S \<union> R)"
    unfolding reopens_def same by blast
qed

lemma reopens_reopenable:
  assumes "distinct (map node_id es)" and "distinct (map gn_id (graph_nodes g))"
  shows "reopens g es (set (reopenable g es))"
  unfolding reopens_def
proof (intro ballI conjI allI impI)
  fix i assume i: "i \<in> set (reopenable g es)"
  then show "node_states es i = Some Blocked" by (auto simp: reopenable_def)
  fix d assume "(i, d) \<in> deps g"
  with i have "\<not> in_the_way (node_states es d)"
    using distinct_key_eq[OF assms(2)] by (auto simp: reopenable_def in_the_way_def deps_def)
  then show "\<not> in_the_way (node_states (map (reopen_in (set (reopenable g es))) es) d)"
    by (auto simp: node_states_reopen[OF assms(1)] in_the_way_def split: if_splits)
qed

lemma reopen_in_empty: "map (reopen_in {}) es = es"
  by (rule map_idI) (simp add: reopen_in_def)

lemma retry_loop_total:
  assumes "distinct (map node_id es)" and "distinct (map gn_id (graph_nodes g))"
  shows "\<exists>R. retry_loop g es = Some (Inr (map (reopen_in R) es)) \<and> reopens g es R \<and>
    reopenable g (map (reopen_in R) es) = []"
  using assms
proof (induction "length (filter (\<lambda>e. node_state e = Blocked) es)" arbitrary: es rule: less_induct)
  case less
  show ?case
  proof (cases "reopenable g es = []")
    case True
    then show ?thesis
      by (intro exI[of _ "{}"]) (simp add: retry_loop.simps reopen_in_empty reopens_def)
  next
    case False
    define S where "S = set (reopenable g es)"
    let ?es = "map (reopen_in S) es"
    have "distinct (reopenable g es)"
      using less.prems(2) by (auto simp: reopenable_def distinct_map inj_on_def)
    moreover have sub: "S \<subseteq> node_id ` set es"
      using reopenable_blocked[OF less.prems(1)] unfolding S_def by blast
    ultimately have step: "retry_loop g es = retry_loop g ?es"
      using False reopen_all_map[OF less.prems(1)] by (subst retry_loop.simps) (simp add: S_def)
    obtain e where "e \<in> set es" "node_id e \<in> S" "node_state e = Blocked"
      using False reopenable_blocked[OF less.prems(1)] unfolding S_def
      by (metis hd_in_set)
    note fewer = blocked_fewer[OF this]
    have "distinct (map node_id ?es)" using less.prems(1) by (simp add: comp_def)
    from less.hyps[OF fewer this less.prems(2)] obtain R where
      R: "retry_loop g ?es = Some (Inr (map (reopen_in R) ?es))" "reopens g ?es R"
        "reopenable g (map (reopen_in R) ?es) = []" by blast
    note Un = reopens_Un[OF less.prems(1) reopens_reopenable[OF less.prems], folded S_def, OF R(2)]
    from R(1,3) step Un show ?thesis by metis
  qed
qed

end
