(* ===== verification/Graph_Steps.thy ===== *)
theory Graph_Steps
  imports Graph_Execution
begin

text \<open>
  A graph execution as a transition system. \<open>apply_op\<close> dispatches to the operations of
  \<open>GraphExecution\<close>; every successful one moves each node along the state machine \<open>node_step\<close>
  (the refinement lemma \<open>apply_op_refines\<close>), keeps the execution valid, never starts a node before
  its dependencies succeeded and never leaves a pending node behind a failed one.
\<close>

section \<open>Operations\<close>

datatype graph_op =
  ClaimReady string nat
| ClaimNode GraphNodeId string
| StageNode GraphNodeId string RunId
| ActivateStaged GraphNodeId string RunId
| CancelStaged GraphNodeId string RunId
| BindRun GraphNodeId string RunId
| Complete GraphNodeId string bool
| FinishTerminal GraphNodeId string GraphNodeState "AdapterFailure option"
| RetryFailed GraphNodeId
| RecordOutput GraphNodeOutput
| ReconcileAfterRestart

text \<open>\<open>None\<close> is an operation that does not return.\<close>

fun apply_op ::
  "(string \<Rightarrow> string) \<Rightarrow> graph_op \<Rightarrow> GraphExecution \<Rightarrow> (GraphError, GraphExecution) result option" where
  "apply_op H (ClaimReady owner limit) x = Some (and_then (claim_ready owner limit x) (\<lambda>(_, y). Ok y))"
| "apply_op H (ClaimNode i owner) x = Some (claim_node i owner x)"
| "apply_op H (StageNode i owner r) x = Some (stage_node i owner r x)"
| "apply_op H (ActivateStaged i owner r) x = Some (activate_staged_node i owner r x)"
| "apply_op H (CancelStaged i owner r) x = Some (cancel_staged_node i owner r x)"
| "apply_op H (BindRun i owner r) x = Some (bind_run i owner r x)"
| "apply_op H (Complete i owner ok) x = Some (complete i owner ok x)"
| "apply_op H (FinishTerminal i owner s f) x = Some (finish_terminal i owner s f x)"
| "apply_op H (RetryFailed i) x = retry_failed i x"
| "apply_op H (RecordOutput out) x = Some (record_output H out x)"
| "apply_op H ReconcileAfterRestart x = Some (Ok (snd (reconcile_after_restart x)))"

section \<open>The state machine of a node\<close>

text \<open>The flag says whether every dependency of the node has succeeded.\<close>

inductive node_step :: "bool \<Rightarrow> GraphNodeState \<Rightarrow> GraphNodeState \<Rightarrow> bool" where
  stay: "node_step rdy s s"
| claim: "node_step True Pending Running"
| stage: "node_step True Pending AwaitingApproval"
| block: "node_step rdy Pending Blocked"
| activate: "node_step rdy AwaitingApproval Running"
| cancel_staged: "node_step rdy AwaitingApproval Cancelled"
| finish: "s \<in> {Succeeded, Failed, Cancelled, Blocked, Uncertain} \<Longrightarrow> node_step rdy Running s"
| retry: "node_step rdy Failed Pending"
| reopen: "node_step rdy Blocked Pending"

code_pred node_step .

inductive_cases node_step_Pending: "node_step rdy Pending t"
inductive_cases node_step_Succeeded: "node_step rdy Succeeded t"
inductive_cases node_step_Cancelled: "node_step rdy Cancelled t"
inductive_cases node_step_Uncertain: "node_step rdy Uncertain t"
inductive_cases node_step_to_Running: "node_step rdy s Running"

lemmas node_step_terminal = node_step_Succeeded node_step_Cancelled node_step_Uncertain

text \<open>A pointwise change in which every node record makes a step and stays valid.\<close>

definition node_moves :: "GraphExecution \<Rightarrow> (GraphNodeExecution \<Rightarrow> GraphNodeExecution) \<Rightarrow> bool" where
  "node_moves x F \<longleftrightarrow> (\<forall>e \<in> set (exec_nodes x).
     execution_state_is_valid (F e) \<and>
     node_step (ready x (node_id e)) (node_state e) (node_state (F e)))"

lemma node_movesI:
  "(\<And>e. e \<in> set (exec_nodes x) \<Longrightarrow> execution_state_is_valid e \<Longrightarrow> execution_state_is_valid (F e) \<and>
     node_step (ready x (node_id e)) (node_state e) (node_state (F e))) \<Longrightarrow>
   wf_execution H x \<Longrightarrow> node_moves x F"
  by (auto simp: node_moves_def wf_execution_def)

section \<open>The change each operation makes\<close>

text \<open>
  Under \<open>wf_execution\<close> a lookup that succeeds finds the one record with the identifier, so an
  update of it is \<open>at_node\<close>.
\<close>

lemma found_iff:
  "wf_execution H x \<Longrightarrow> node_execution x i = Some e \<longleftrightarrow> e \<in> set (exec_nodes x) \<and> node_id e = i"
  by (simp add: node_execution_iff wf_executionD(2))

lemma the_node:
  "wf_execution H x \<Longrightarrow> e \<in> set (exec_nodes x) \<Longrightarrow> e' \<in> set (exec_nodes x) \<Longrightarrow>
   node_id e' = node_id e \<Longrightarrow> e' = e"
  by (rule distinct_key_eq[OF wf_executionD(2)])

lemma state_of_node:
  assumes "wf_execution H x" and "e \<in> set (exec_nodes x)"
  shows "state_of x (node_id e) = Some (node_state e)"
proof -
  have "node_execution x (node_id e) = Some e" using assms by (simp add: found_iff[OF assms(1)])
  then show ?thesis by (simp add: state_of_def)
qed

lemma node_moves_at_node:
  assumes "wf_execution H x" and "node_execution x i = Some e"
    and "execution_state_is_valid e \<Longrightarrow> execution_state_is_valid (f e)"
    and "node_step (ready x i) (node_state e) (node_state (f e))"
  shows "node_moves x (at_node i f)"
proof (rule node_movesI[OF _ assms(1)])
  fix e' assume e': "e' \<in> set (exec_nodes x)" "execution_state_is_valid e'"
  show "execution_state_is_valid (at_node i f e') \<and>
      node_step (ready x (node_id e')) (node_state e') (node_state (at_node i f e'))"
  proof (cases "node_id e' = i")
    case True
    with assms(1,2) e' have "e' = e" by (metis found_iff the_node)
    with True e' assms(3,4) show ?thesis by (simp add: at_node_def)
  qed (use e' in \<open>simp add: at_node_def stay\<close>)
qed

lemma node_state_block_in:
  "node_state (block_in B e) = (if node_id e \<in> B \<and> node_state e = Pending then Blocked else node_state e)"
  by (simp add: block_in_def mark_blocked_def)

lemma block_in_valid: "execution_state_is_valid e \<Longrightarrow> execution_state_is_valid (block_in B e)"
  unfolding block_in_def mark_blocked_def
  by (cases "node_state e = Pending") (simp_all add: execution_state_is_valid_def)

lemma block_in_step:
  "node_step r s (node_state e) \<Longrightarrow> node_state e = s \<or> node_state e \<noteq> Pending \<Longrightarrow>
   node_step r s (node_state (block_in B e))"
  by (auto simp: node_state_block_in block)

lemma node_moves_block:
  assumes "wf_execution H x" and "node_execution x i = Some e"
    and "execution_state_is_valid e \<Longrightarrow> execution_state_is_valid (f e)"
    and "node_step (ready x i) (node_state e) (node_state (f e))" and "node_state (f e) \<noteq> Pending"
  shows "node_moves x (block_in B \<circ> at_node i f)"
proof -
  have "node_moves x (at_node i f)" using assms(1-4) by (rule node_moves_at_node)
  moreover have "node_state (at_node i f e') = node_state e' \<or> node_state (at_node i f e') \<noteq> Pending"
    if "e' \<in> set (exec_nodes x)" for e'
    using assms(1,2,5) that by (metis at_node_def found_iff the_node)
  ultimately show ?thesis
    using assms(1) by (simp add: node_moves_def block_in_valid block_in_step)
qed

text \<open>The common end of \<open>cancel_staged_node\<close>, \<open>complete\<close> and \<open>finish_terminal\<close>.\<close>

lemma remapped_update_block:
  assumes "wf_execution H x" and "\<And>e. node_id (f e) = node_id e"
  shows "remapped (block_in (dependents (exec_graph x) i - {i}) \<circ> at_node i f) x
    (block_dependents i (bump_revision (update_node i f x)))"
proof -
  note up = remapped_update_node[OF wf_executionD(2)[OF assms(1)] assms(2), of i]
  let ?y = "bump_revision (update_node i f x)"
  have y: "remapped (at_node i f) x ?y" using up by simp
  then have "map node_id (exec_nodes ?y) = map node_id (exec_nodes x)" "exec_graph ?y = exec_graph x"
    by (auto simp: remapped_def)
  with wf_executionD(2)[OF assms(1)] remapped_block_dependents[of ?y i] y show ?thesis
    using remapped_trans by metis
qed

text \<open>The same changes seen through \<open>state_of\<close>, the map from nodes to states.\<close>

definition block_states ::
  "WorkflowGraph \<Rightarrow> GraphNodeId \<Rightarrow> (GraphNodeId \<rightharpoonup> GraphNodeState) \<Rightarrow> GraphNodeId \<rightharpoonup> GraphNodeState" where
  "block_states g i m =
     (\<lambda>j. if j \<in> dependents g i - {i} \<and> m j = Some Pending then Some Blocked else m j)"

lemma state_of_bump [simp]: "state_of (bump_revision x) = state_of x"
  by (simp add: fun_eq_iff state_of_def node_execution_def bump_revision_def)

lemma state_of_update_node:
  assumes "node_execution x i = Some e" and "\<And>e. node_id (f e) = node_id e"
  shows "state_of (update_node i f x) = (state_of x)(i \<mapsto> node_state (f e))"
proof -
  have "map_option node_state (find (\<lambda>e. node_id e = j) (update_first (\<lambda>e. node_id e = i) f es)) =
      (if j = i then Some (node_state (f e)) else map_option node_state (find (\<lambda>e. node_id e = j) es))"
    if "find (\<lambda>e. node_id e = i) es = Some e" for j es
    using that assms(2) by (induction es) (auto split: if_splits)
  with assms(1) show ?thesis
    by (simp add: fun_eq_iff state_of_def node_execution_def update_node_def)
qed

lemma state_of_block_dependents:
  assumes "distinct (map node_id (exec_nodes x))"
  shows "state_of (block_dependents i x) = block_states (exec_graph x) i (state_of x)"
proof
  fix j
  from remapped_state_of[OF remapped_block_dependents[OF assms]]
  have "state_of (block_dependents i x) j =
    map_option (\<lambda>e. node_state (block_in (dependents (exec_graph x) i - {i}) e)) (node_execution x j)" .
  moreover have "node_id e = j" if "node_execution x j = Some e" for e
    using that by (auto simp: node_execution_def dest: find_SomeD)
  ultimately show "state_of (block_dependents i x) j = block_states (exec_graph x) i (state_of x) j"
    by (cases "node_execution x j") (auto simp: block_states_def state_of_def[of x] node_state_block_in)
qed

lemma state_of_update_block:
  assumes "wf_execution H x" and "node_execution x i = Some e" and "\<And>e. node_id (f e) = node_id e"
  shows "state_of (block_dependents i (bump_revision (update_node i f x))) =
    block_states (exec_graph x) i ((state_of x)(i \<mapsto> node_state (f e)))"
proof -
  have "map node_id (exec_nodes (bump_revision (update_node i f x))) = map node_id (exec_nodes x)"
    using assms(3) by (simp add: bump_revision_def update_node_def map_update_first)
  moreover have "exec_graph (bump_revision (update_node i f x)) = exec_graph x"
    by (simp add: bump_revision_def update_node_def)
  ultimately show ?thesis
    using state_of_block_dependents[of "bump_revision (update_node i f x)" i]
      wf_executionD(2)[OF assms(1)] state_of_update_node[OF assms(2,3)] by simp
qed

lemma revision_block_dependents [simp]: "exec_revision (block_dependents i x) = exec_revision x"
  by (simp add: block_dependents_def)

lemma revision_bump [simp]: "exec_revision (bump_revision x) = exec_revision x + 1"
  by (simp add: bump_revision_def)

lemma revision_update_node [simp]: "exec_revision (update_node i f x) = exec_revision x"
  by (simp add: update_node_def)

text \<open>
  For every operation except \<open>record_output\<close>, which touches no node: if it succeeds on a valid
  execution, the change is pointwise, every node makes a step of its state machine, and
  the revision tells the change.
\<close>

definition effect :: "GraphExecution \<Rightarrow> GraphExecution \<Rightarrow> bool" where
  "effect x y \<longleftrightarrow> (\<exists>F. remapped F x y \<and> node_moves x F)"

lemmas node_ops_simps =
  claimed_node_def staged_node_def reopened_node_def execution_state_is_valid_def nonblank_owner_def

lemma effect_update_node:
  assumes "wf_execution H x" and "node_execution x i = Some e" and "\<And>e. node_id (f e) = node_id e"
    and "execution_state_is_valid e \<Longrightarrow> execution_state_is_valid (f e)"
    and "node_step (ready x i) (node_state e) (node_state (f e))"
  shows "effect x (update_node i f x)" "effect x (bump_revision (update_node i f x))"
  using remapped_update_node[OF wf_executionD(2)[OF assms(1)] assms(3)]
    node_moves_at_node[where f = f, OF assms(1,2,4,5)] unfolding effect_def remapped_bump by blast+

lemma effect_update_block:
  assumes "wf_execution H x" and "node_execution x i = Some e" and "\<And>e. node_id (f e) = node_id e"
    and "execution_state_is_valid e \<Longrightarrow> execution_state_is_valid (f e)"
    and "node_step (ready x i) (node_state e) (node_state (f e))" and "node_state (f e) \<noteq> Pending"
  shows "effect x (block_dependents i (bump_revision (update_node i f x)))"
  using remapped_update_block[OF assms(1,3)] node_moves_block[where f = f, OF assms(1,2,4-6)]
  unfolding effect_def by blast

lemma claim_node_OkD:
  assumes "claim_node i owner x = Inr y" and "wf_execution H x"
  shows "\<not> blank owner" "ready x i" "state_of x i = Some Pending" "effect x y"
    "exec_revision y = exec_revision x + 1"
    "state_of y = (state_of x)(i \<mapsto> Running)"
proof -
  from assms(1) obtain n e where
    n: "\<not> blank owner" "find (\<lambda>n. gn_id n = i) (graph_nodes (exec_graph x)) = Some n"
    "\<forall>d \<in> set (gn_needs n). node_states (exec_nodes x) d = Some Succeeded" and
    e: "node_execution x i = Some e" "node_state e = Pending" and
    y: "y = bump_revision (update_node i (claimed_node owner) x)"
    by (auto simp: claim_node_def and_then_eq_Ok split: if_splits)
  show "\<not> blank owner" by (rule n)
  show r: "ready x i"
    using needs_ready[OF assms(2) n(2)] n(3) by (simp add: node_states_state_of[OF wf_executionD(2)[OF assms(2)]])
  show "state_of x i = Some Pending" using e by (simp add: state_of_def)
  show "effect x y" unfolding y
    by (rule effect_update_node(2)[OF assms(2) e(1)])
       (use e r in \<open>simp_all add: node_ops_simps node_step.claim\<close>)
  show "exec_revision y = exec_revision x + 1" by (simp add: y)
  show "state_of y = (state_of x)(i \<mapsto> Running)"
    unfolding y by (simp add: state_of_update_node[OF e(1)] node_ops_simps)
qed

lemma dependencies_succeeded_ready:
  assumes "dependencies_succeeded x i = Inr b" and "wf_execution H x"
  shows "b \<longleftrightarrow> ready x i"
proof -
  from assms(1) obtain n where n: "find (\<lambda>n. gn_id n = i) (graph_nodes (exec_graph x)) = Some n"
    and b: "b \<longleftrightarrow> (\<forall>d \<in> set (gn_needs n).
      \<exists>e \<in> set (exec_nodes x). node_id e = d \<and> node_state e = Succeeded)"
    by (auto simp: dependencies_succeeded_def and_then_eq_Ok)
  show ?thesis
    unfolding b needs_ready[OF assms(2) n, symmetric] state_of_iff[OF wf_executionD(2)[OF assms(2)]] ..
qed

lemma stage_node_OkD:
  assumes "stage_node i owner r x = Inr y" and "wf_execution H x"
  shows "\<not> blank owner" "\<not> run_id_is_in_use x r" "ready x i" "state_of x i = Some Pending"
    "effect x y" "exec_revision y = exec_revision x + 1"
    "state_of y = (state_of x)(i \<mapsto> AwaitingApproval)"
proof -
  from assms(1) obtain e where
    g: "\<not> blank owner" "\<not> run_id_is_in_use x r" "dependencies_succeeded x i = Inr True" and
    e: "node_execution x i = Some e" "node_state e = Pending" and
    y: "y = bump_revision (update_node i (staged_node owner r) x)"
    by (auto simp: stage_node_def and_then_eq_Ok split: if_splits)
  show "\<not> blank owner" "\<not> run_id_is_in_use x r" by (rule g)+
  show rdy: "ready x i" using dependencies_succeeded_ready[OF g(3) assms(2)] by simp
  show "state_of x i = Some Pending" using e by (simp add: state_of_def)
  show "effect x y" unfolding y
    by (rule effect_update_node(2)[OF assms(2) e(1)])
       (use e rdy g in \<open>simp_all add: node_ops_simps node_step.stage\<close>)
  show "exec_revision y = exec_revision x + 1" by (simp add: y)
  show "state_of y = (state_of x)(i \<mapsto> AwaitingApproval)"
    unfolding y by (simp add: state_of_update_node[OF e(1)] node_ops_simps)
qed

lemma activate_staged_node_OkD:
  assumes "activate_staged_node i owner r x = Inr y" and "wf_execution H x"
  shows "state_of x i = Some AwaitingApproval" "effect x y" "exec_revision y = exec_revision x + 1"
    "state_of y = (state_of x)(i \<mapsto> Running)"
proof -
  from assms(1) obtain e where
    e: "node_execution x i = Some e" "node_state e = AwaitingApproval" and
    y: "y = bump_revision (update_node i
      (\<lambda>e. e\<lparr>node_state := Running, node_revision := node_revision e + 1\<rparr>) x)"
    by (auto simp: activate_staged_node_def and_then_eq_Ok split: if_splits)
  show "state_of x i = Some AwaitingApproval" using e by (simp add: state_of_def)
  show "effect x y" unfolding y
    by (rule effect_update_node(2)[OF assms(2) e(1)])
       (use e in \<open>auto simp: node_ops_simps intro: node_step.activate split: option.splits\<close>)
  show "exec_revision y = exec_revision x + 1" by (simp add: y)
  show "state_of y = (state_of x)(i \<mapsto> Running)"
    unfolding y by (simp add: state_of_update_node[OF e(1)] node_ops_simps)
qed

lemma cancel_staged_node_OkD:
  assumes "cancel_staged_node i owner r x = Inr y" and "wf_execution H x"
  shows "state_of x i = Some AwaitingApproval" "effect x y" "exec_revision y = exec_revision x + 1"
    "state_of y = block_states (exec_graph x) i ((state_of x)(i \<mapsto> Cancelled))"
proof -
  from assms(1) obtain e where
    e: "node_execution x i = Some e" "node_state e = AwaitingApproval" and
    y: "y = block_dependents i (bump_revision (update_node i
      (\<lambda>e. e\<lparr>node_state := Cancelled, node_failure := None, node_revision := node_revision e + 1\<rparr>) x))"
    by (auto simp: cancel_staged_node_def and_then_eq_Ok split: if_splits)
  show "state_of x i = Some AwaitingApproval" using e by (simp add: state_of_def)
  show "effect x y" unfolding y
    by (rule effect_update_block[OF assms(2) e(1)])
       (use e in \<open>auto simp: node_ops_simps intro: node_step.cancel_staged split: option.splits\<close>)
  show "exec_revision y = exec_revision x + 1" by (simp add: y)
  show "state_of y = block_states (exec_graph x) i ((state_of x)(i \<mapsto> Cancelled))"
    unfolding y by (simp add: state_of_update_block[OF assms(2) e(1)])
qed

lemma bind_run_OkD:
  assumes "bind_run i owner r x = Inr y" and "wf_execution H x"
  shows "state_of x i = Some Running" "effect x y" "exec_revision y = exec_revision x"
    "state_of y = state_of x"
proof -
  from assms(1) obtain e where
    e: "node_execution x i = Some e" "node_state e = Running" and
    y: "y = update_node i (\<lambda>e. e\<lparr>node_run_id := Some r\<rparr>) x"
    by (auto simp: bind_run_def and_then_eq_Ok split: if_splits)
  show "state_of x i = Some Running" using e by (simp add: state_of_def)
  show "effect x y" unfolding y
    by (rule effect_update_node(1)[OF assms(2) e(1)])
       (use e in \<open>simp_all add: node_ops_simps node_step.stay\<close>)
  show "exec_revision y = exec_revision x" by (simp add: y)
  show "state_of y = state_of x"
    unfolding y using e by (auto simp: state_of_update_node[OF e(1)] state_of_def)
qed

lemma finish_terminal_OkD:
  assumes "finish_terminal i owner s f x = Inr y" and "wf_execution H x"
  shows "state_of x i = Some Running" "s \<in> {Succeeded, Failed, Cancelled, Blocked, Uncertain}"
    "effect x y" "exec_revision y = exec_revision x + 1"
    "state_of y = (if s \<in> {Failed, Cancelled, Blocked}
      then block_states (exec_graph x) i ((state_of x)(i \<mapsto> s)) else (state_of x)(i \<mapsto> s))"
proof -
  let ?f = "\<lambda>e. e\<lparr>node_state := s, node_owner := (if s \<in> {Succeeded, Failed, Cancelled}
      then Some owner else None), node_failure := f, node_revision := node_revision e + 1\<rparr>"
  let ?y = "bump_revision (update_node i ?f x)"
  from assms(1) obtain e where s: "s \<in> {Succeeded, Failed, Cancelled, Blocked, Uncertain}" and
    e: "node_execution x i = Some e" "node_state e = Running" and
    y: "y = (if s \<in> {Failed, Cancelled, Blocked} then block_dependents i ?y else ?y)"
    by (auto simp: finish_terminal_def and_then_eq_Ok Let_def split: if_splits)
  show "state_of x i = Some Running" using e by (simp add: state_of_def)
  show "s \<in> {Succeeded, Failed, Cancelled, Blocked, Uncertain}" by (rule s)
  have step: "node_step (ready x i) (node_state e) (node_state (?f e))"
    using e s by (simp add: node_step.finish)
  have valid: "execution_state_is_valid (?f e)" using s by (auto simp: execution_state_is_valid_def)
  have "effect x ?y" using step valid by (intro effect_update_node(2)[OF assms(2) e(1)]) simp_all
  moreover have "effect x (block_dependents i ?y)"
    using step valid s by (intro effect_update_block[OF assms(2) e(1)]) auto
  ultimately show "effect x y" unfolding y by (split if_split) blast
  show "exec_revision y = exec_revision x + 1" by (simp add: y)
  show "state_of y = (if s \<in> {Failed, Cancelled, Blocked}
      then block_states (exec_graph x) i ((state_of x)(i \<mapsto> s)) else (state_of x)(i \<mapsto> s))"
    unfolding y by (simp add: state_of_update_block[OF assms(2) e(1)] state_of_update_node[OF e(1)])
qed

lemma complete_finish_terminal:
  "complete i owner ok x =
   finish_terminal i owner (if ok then Succeeded else Failed) None x"
proof -
  have eq: "update_first (\<lambda>e. node_id e = i)
      (\<lambda>e. e\<lparr>node_state := s, node_failure := None, node_revision := node_revision e + 1\<rparr>) es =
    update_first (\<lambda>e. node_id e = i)
      (\<lambda>e. e\<lparr>node_state := s, node_owner := Some owner, node_failure := None,
            node_revision := node_revision e + 1\<rparr>) es"
    if "find (\<lambda>e. node_id e = i) es = Some e" "node_owner e = Some owner" for s es e
    using that by (induction es) (auto split: if_splits)
  have "update_node i
      (\<lambda>e. e\<lparr>node_state := s, node_failure := None, node_revision := node_revision e + 1\<rparr>) x =
    update_node i
      (\<lambda>e. e\<lparr>node_state := s, node_owner := Some owner, node_failure := None,
            node_revision := node_revision e + 1\<rparr>) x"
    if "node_execution x i = Some e" "node_owner e = Some owner" for s e
    by (simp only: update_node_def eq[OF that[unfolded node_execution_def]])
  then show ?thesis
    by (cases "node_execution x i") (auto simp: complete_def finish_terminal_def Let_def)
qed

lemma reopen_in_step:
  "node_state e \<in> {Failed, Blocked} \<Longrightarrow> node_step r (node_state e) (node_state (reopen_in R e))"
  by (auto simp: reopen_in_def reopened_node_def intro: node_step.intros)

lemma node_states_mem: "node_states es i = Some s \<Longrightarrow> i \<in> node_id ` set es"
  by (auto simp: node_states_def dest!: map_of_SomeD)

text \<open>
  \<open>retry_failed\<close> always returns on a valid execution. \<open>R\<close> is the set of blocked nodes it reopens
  besides the failed one.
\<close>

lemma retry_failed_Some:
  assumes "wf_execution H x" and "state_of x i = Some Failed"
  shows "\<exists>R y. retry_failed i x = Some (Inr y) \<and> remapped (reopen_in (insert i R)) x y \<and>
    (\<forall>j \<in> R. state_of x j = Some Blocked) \<and>
    (\<forall>j \<in> R. \<forall>d. (j, d) \<in> deps (exec_graph x) \<longrightarrow> \<not> in_the_way (state_of y d)) \<and>
    reopenable (exec_graph x) (exec_nodes y) = [] \<and> exec_revision y = exec_revision x + 1"
proof -
  note wf = wf_executionD[OF assms(1)]
  let ?es = "map (reopen_in {i}) (exec_nodes x)"
  have first: "update_first (\<lambda>e. node_id e = i) reopened_node (exec_nodes x) = ?es"
    using update_first_map[OF wf(2), of i reopened_node] by (auto simp: reopen_in_def)
  have dist: "distinct (map node_id ?es)" using wf(2) by (simp add: comp_def)
  from retry_loop_total[OF dist wf(4)] obtain R where
    R: "retry_loop (exec_graph x) ?es = Some (Inr (map (reopen_in R) ?es))"
      "reopens (exec_graph x) ?es R" "reopenable (exec_graph x) (map (reopen_in R) ?es) = []" by blast
  have blocked: "j \<noteq> i \<and> state_of x j = Some Blocked" if "j \<in> R" for j
  proof -
    have *: "node_states ?es j = Some Blocked" using R(2) that by (simp add: reopens_def)
    then have "j \<in> node_id ` set (exec_nodes x)"
      using node_states_mem[OF *] by (simp add: image_comp comp_def)
    with * show ?thesis
      using node_states_state_of[OF wf(2)] by (auto simp: node_states_reopen[OF wf(2)] split: if_splits)
  qed
  have nodes: "map (reopen_in R) ?es = map (reopen_in (insert i R)) (exec_nodes x)"
    unfolding map_map using blocked by (intro map_cong) (auto simp: reopen_in_def)
  let ?y = "bump_revision (x\<lparr>exec_nodes := map (reopen_in R) ?es\<rparr>)"
  obtain e where e: "node_execution x i = Some e" "node_state e = Failed"
    using assms(2) by (auto simp: state_of_def)
  then have "retry_failed i x = Some (Inr ?y)"
    by (simp add: retry_failed_def first R(1) del: map_map)
  moreover have "remapped (reopen_in (insert i R)) x ?y"
    by (simp add: remapped_def bump_revision_def nodes del: map_map)
  moreover have y_nodes: "exec_nodes ?y = map (reopen_in R) ?es" by (simp add: bump_revision_def)
  moreover have "distinct (map node_id (exec_nodes ?y))" unfolding y_nodes using wf(2) by (simp add: comp_def)
  then have "state_of ?y = node_states (map (reopen_in R) ?es)"
    using node_states_state_of y_nodes by metis
  ultimately show ?thesis
    using blocked R(2,3) by (intro exI[of _ R] exI[of _ ?y]) (simp add: reopens_def del: map_map)
qed

lemma retry_failed_OkD:
  assumes "retry_failed i x = Some (Inr y)" and "wf_execution H x"
  shows "state_of x i = Some Failed"
    "\<exists>R. remapped (reopen_in (insert i R)) x y \<and> (\<forall>j \<in> R. state_of x j = Some Blocked) \<and>
      (\<forall>j \<in> R. \<forall>d. (j, d) \<in> deps (exec_graph x) \<longrightarrow> \<not> in_the_way (state_of y d))"
    "reopenable (exec_graph x) (exec_nodes y) = []" "exec_revision y = exec_revision x + 1"
proof -
  show failed: "state_of x i = Some Failed"
    using assms(1) by (auto simp: retry_failed_def state_of_def split: option.splits if_splits)
  from retry_failed_Some[OF assms(2) failed] assms(1)
  show "\<exists>R. remapped (reopen_in (insert i R)) x y \<and> (\<forall>j \<in> R. state_of x j = Some Blocked) \<and>
      (\<forall>j \<in> R. \<forall>d. (j, d) \<in> deps (exec_graph x) \<longrightarrow> \<not> in_the_way (state_of y d))"
    "reopenable (exec_graph x) (exec_nodes y) = []" "exec_revision y = exec_revision x + 1"
    by force+
qed

lemma retry_failed_effect:
  assumes "retry_failed i x = Some (Inr y)" and "wf_execution H x"
  shows "effect x y"
proof -
  from retry_failed_OkD(2)[OF assms] obtain R where R: "remapped (reopen_in (insert i R)) x y"
    "\<forall>j \<in> R. state_of x j = Some Blocked" by blast
  have "node_state e \<in> {Failed, Blocked}" if "e \<in> set (exec_nodes x)" "node_id e \<in> insert i R" for e
  proof -
    have "state_of x (node_id e) = Some (node_state e)"
      by (rule state_of_node[OF assms(2) that(1)])
    with R(2) retry_failed_OkD(1)[OF assms] that(2) show ?thesis by auto
  qed
  then have "node_moves x (reopen_in (insert i R))"
    using assms(2) by (intro node_movesI)
      (fastforce simp: reopen_in_def reopened_node_def execution_state_is_valid_def intro: node_step.intros)+
  with R(1) show ?thesis by (auto simp: effect_def)
qed

lemma claim_ready_effect:
  assumes "claim_ready owner limit x = Inr (cs, y)" and "wf_execution H x"
  shows "effect x y"
proof -
  note c = claim_ready_Ok[OF assms(2,1)]
  have "node_state e = Pending \<and> ready x (node_id e)"
    if "e \<in> set (exec_nodes x)" "node_id e \<in> set cs" for e
  proof -
    from that(2) c(3) obtain e' where "e' \<in> set (exec_nodes x)" "node_id e' = node_id e"
      "node_state e' = Pending" "ready x (node_id e')"
      by (auto simp: ready_nodes_def dest!: in_set_takeD)
    with the_node[OF assms(2) that(1)] show ?thesis by metis
  qed
  then have "node_moves x (claim_in owner (set cs))"
    using assms(2) by (intro node_movesI)
      (auto simp: claim_in_def claimed_node_def execution_state_is_valid_def intro: node_step.intros)
  with c(4) show ?thesis by (auto simp: effect_def)
qed

lemma reconcile_effect:
  assumes "wf_execution H x"
  shows "effect x (snd (reconcile_after_restart x))"
    "fst (reconcile_after_restart x) = length (filter (\<lambda>e. node_state e = Running) (exec_nodes x))"
    "exec_revision (snd (reconcile_after_restart x)) =
      exec_revision x + (if \<exists>e \<in> set (exec_nodes x). node_state e = Running then 1 else 0)"
proof -
  have "remapped reconcile_node x (snd (reconcile_after_restart x))"
    by (simp add: reconcile_after_restart_def Let_def remapped_def bump_revision_def reconcile_node_def)
  moreover have "node_moves x reconcile_node"
    using assms by (intro node_movesI)
      (auto simp: reconcile_node_def execution_state_is_valid_def intro: node_step.intros)
  ultimately show "effect x (snd (reconcile_after_restart x))" by (auto simp: effect_def)
  show "fst (reconcile_after_restart x) = length (filter (\<lambda>e. node_state e = Running) (exec_nodes x))"
    by (simp add: reconcile_after_restart_def Let_def)
  show "exec_revision (snd (reconcile_after_restart x)) =
      exec_revision x + (if \<exists>e \<in> set (exec_nodes x). node_state e = Running then 1 else 0)"
    by (auto simp: reconcile_after_restart_def Let_def filter_empty_conv)
qed

lemma record_output_OkD:
  assumes "record_output H out x = Inr y" and "wf_execution H x"
  shows "y = x\<lparr>exec_outputs := exec_outputs x @ [out]\<rparr>" "wf_execution H y"
    "state_of x (out_node_id out) \<in> {Some Succeeded, Some Failed}"
proof -
  from assms(1) obtain e where out: "is_ok (output_validate H out)"
    "\<forall>o' \<in> set (exec_outputs x). out_run_id o' \<noteq> out_run_id out"
    "node_execution x (out_node_id out) = Some e" "node_state e \<in> {Succeeded, Failed}" and
    y: "y = x\<lparr>exec_outputs := exec_outputs x @ [out]\<rparr>"
    by (auto simp: record_output_def and_then_eq_Ok is_ok_iff split: if_splits option.splits)
  show "y = x\<lparr>exec_outputs := exec_outputs x @ [out]\<rparr>" by (rule y)
  show "state_of x (out_node_id out) \<in> {Some Succeeded, Some Failed}"
    using out(3,4) by (auto simp: state_of_def)
  have "out_node_id out \<in> node_ids (exec_graph x)"
    using out(3) found_iff[OF assms(2)] wf_executionD(3)[OF assms(2)] by (metis imageI)
  with assms(2) out(1,2) y show "wf_execution H y"
    unfolding wf_execution_def by auto
qed

section \<open>Refinement and invariants\<close>

lemma apply_op_effect:
  assumes "apply_op H op x = Some (Inr y)" and "wf_execution H x" and "\<And>out. op \<noteq> RecordOutput out"
  shows "effect x y"
proof (cases op)
  case (ClaimReady owner limit)
  with assms(1) obtain cs where "claim_ready owner limit x = Inr (cs, y)"
    by (auto simp: and_then_eq_Ok)
  then show ?thesis by (rule claim_ready_effect[OF _ assms(2)])
next
  case (Complete i owner ok)
  with assms show ?thesis by (auto simp: complete_finish_terminal dest: finish_terminal_OkD(3))
qed (use assms in \<open>auto dest: claim_node_OkD(4) stage_node_OkD(5) activate_staged_node_OkD(2)
  cancel_staged_node_OkD(2) bind_run_OkD(2) finish_terminal_OkD(3) retry_failed_effect
  reconcile_effect(1)\<close>)

lemma effect_wf: "effect x y \<Longrightarrow> wf_execution H x \<Longrightarrow> wf_execution H y"
  by (auto simp: effect_def node_moves_def intro: remapped_wf)

text \<open>What a step may do to the state of one node, read off the execution.\<close>

lemma effect_step:
  assumes "effect x y" and "wf_execution H x" and "state_of x i = Some s"
  shows "\<exists>t. state_of y i = Some t \<and> node_step (ready x i) s t"
proof -
  from assms(1) obtain F where F: "remapped F x y" "node_moves x F" by (auto simp: effect_def)
  from assms(3) obtain e where e: "node_execution x i = Some e" "node_state e = s"
    by (auto simp: state_of_def)
  then have "e \<in> set (exec_nodes x)" "node_id e = i" using found_iff[OF assms(2)] by auto
  with F e show ?thesis by (auto simp: remapped_state_of node_moves_def)
qed

text \<open>
  The two scheduling invariants. \<open>deps_done\<close>: a node that was ever started had all its
  dependencies succeeded. \<open>failures_block\<close>: no pending node depends on a failed, cancelled or
  blocked one.
\<close>

definition deps_done :: "GraphExecution \<Rightarrow> bool" where
  "deps_done x \<longleftrightarrow> (\<forall>i s. state_of x i = Some s \<longrightarrow> s \<in> {Pending, Blocked} \<or> ready x i)"

definition failures_block :: "GraphExecution \<Rightarrow> bool" where
  "failures_block x \<longleftrightarrow> (\<forall>i d. state_of x i = Some Pending \<and> (i, d) \<in> deps (exec_graph x) \<longrightarrow>
     \<not> in_the_way (state_of x d))"

lemma remapped_graph: "remapped F x y \<Longrightarrow> exec_graph y = exec_graph x"
  by (simp add: remapped_def)

lemma effect_graph: "effect x y \<Longrightarrow> exec_graph y = exec_graph x"
  by (auto simp: effect_def remapped_graph)

lemma effect_known: "effect x y \<Longrightarrow> state_of y i = Some t \<Longrightarrow> \<exists>s. state_of x i = Some s"
  by (auto simp: effect_def remapped_node_execution state_of_def)

lemma effect_ready:
  assumes "effect x y" and "wf_execution H x" and "ready x i"
  shows "ready y i"
  unfolding ready_def effect_graph[OF assms(1)]
proof (intro allI impI)
  fix d assume "(i, d) \<in> deps (exec_graph x)"
  with assms(3) have "state_of x d = Some Succeeded" by (simp add: ready_def)
  from effect_step[OF assms(1,2) this] show "state_of y d = Some Succeeded"
    by (auto elim: node_step_Succeeded)
qed

lemma effect_deps_done:
  assumes "effect x y" and "wf_execution H x" and "deps_done x"
  shows "deps_done y"
  unfolding deps_done_def
proof (intro allI impI)
  fix i t assume t: "state_of y i = Some t"
  with effect_known[OF assms(1)] obtain s where s: "state_of x i = Some s" by blast
  from effect_step[OF assms(1,2) s] t have "node_step (ready x i) s t" by auto
  moreover have "s \<in> {Pending, Blocked} \<or> ready x i" using assms(3) s by (auto simp: deps_done_def)
  ultimately have "t \<in> {Pending, Blocked} \<or> ready x i" by (auto elim: node_step.cases)
  with effect_ready[OF assms(1,2)] show "t \<in> {Pending, Blocked} \<or> ready y i" by blast
qed

text \<open>\<open>failures_block\<close> only reads the map of states.\<close>

definition unblocked_pending ::
  "WorkflowGraph \<Rightarrow> (GraphNodeId \<rightharpoonup> GraphNodeState) \<Rightarrow> bool" where
  "unblocked_pending g m \<longleftrightarrow>
     (\<forall>i d. m i = Some Pending \<and> (i, d) \<in> deps g \<longrightarrow> \<not> in_the_way (m d))"

lemma failures_block_iff: "failures_block x \<longleftrightarrow> unblocked_pending (exec_graph x) (state_of x)"
  by (simp add: failures_block_def unblocked_pending_def)

lemma unblocked_weaken:
  assumes "unblocked_pending g m"
    and "\<And>i. m' i = Some Pending \<Longrightarrow> m i = Some Pending"
    and "\<And>i. in_the_way (m' i) \<Longrightarrow> in_the_way (m i)"
  shows "unblocked_pending g m'"
  using assms unfolding unblocked_pending_def by blast

lemma unblocked_update:
  "unblocked_pending g m \<Longrightarrow> s \<notin> {Pending, Failed, Cancelled, Blocked} \<Longrightarrow> unblocked_pending g (m(i \<mapsto> s))"
  by (erule unblocked_weaken) (auto simp: in_the_way_def split: if_splits)

lemma unblocked_block_states:
  assumes "unblocked_pending g m" and "s \<noteq> Pending"
  shows "unblocked_pending g (block_states g i (m(i \<mapsto> s)))"
  unfolding unblocked_pending_def
proof (intro allI impI)
  fix j d
  let ?m = "block_states g i (m(i \<mapsto> s))"
  assume j: "?m j = Some Pending \<and> (j, d) \<in> deps g"
  then have "j \<noteq> i" "j \<notin> dependents g i" "m j = Some Pending"
    using assms(2) by (auto simp: block_states_def split: if_splits)
  then have "d \<noteq> i" "d \<notin> dependents g i"
    using j by (auto simp: dependents_def intro: trancl_into_trancl2)
  then have "?m d = m d" by (simp add: block_states_def)
  with assms(1) j \<open>m j = Some Pending\<close> show "\<not> in_the_way (?m d)"
    by (auto simp: unblocked_pending_def)
qed

lemma claim_ready_states:
  assumes "claim_ready owner limit x = Inr (cs, y)" and "wf_execution H x"
  shows "state_of y = (\<lambda>i. if i \<in> set cs then Some Running else state_of x i)"
proof
  fix i
  note c = claim_ready_Ok[OF assms(2,1)]
  have known: "i \<in> node_id ` set (exec_nodes x)" if "i \<in> set cs"
    using that c(3) by (auto simp: ready_nodes_def dest!: in_set_takeD)
  show "state_of y i = (if i \<in> set cs then Some Running else state_of x i)"
  proof (cases "node_execution x i")
    case None
    then have "i \<notin> set cs" using known by (auto simp: node_execution_def find_key_None)
    with None show ?thesis by (simp add: remapped_state_of[OF c(4)] state_of_def[of x])
  next
    case (Some e)
    then have "node_id e = i" by (auto simp: node_execution_def dest: find_SomeD)
    with Some show ?thesis
      by (simp add: remapped_state_of[OF c(4)] state_of_def[of x] claim_in_def claimed_node_def)
  qed
qed

lemma reconcile_states:
  "state_of (snd (reconcile_after_restart x)) i =
   (if state_of x i = Some Running then Some Uncertain else state_of x i)"
proof -
  have "remapped reconcile_node x (snd (reconcile_after_restart x))"
    by (simp add: reconcile_after_restart_def Let_def remapped_def bump_revision_def reconcile_node_def)
  from remapped_state_of[OF this] show ?thesis
    by (cases "node_execution x i") (auto simp: state_of_def[of x] reconcile_node_def)
qed

lemma retry_failed_unblocked:
  assumes "retry_failed i x = Some (Inr y)" and "wf_execution H x"
    and "deps_done x" and "failures_block x"
  shows "failures_block y"
proof -
  from retry_failed_OkD[OF assms(1,2)] obtain R where
    failed: "state_of x i = Some Failed" and
    R: "remapped (reopen_in (insert i R)) x y" "\<forall>j \<in> R. state_of x j = Some Blocked"
    "\<forall>j \<in> R. \<forall>d. (j, d) \<in> deps (exec_graph x) \<longrightarrow> \<not> in_the_way (state_of y d)" by blast
  have y: "state_of y j = (if j \<in> insert i R then Some Pending else state_of x j)" for j
  proof (cases "node_execution x j")
    case None
    then have "state_of x j = None" by (simp add: state_of_def)
    with failed R(2) have "j \<notin> insert i R" by auto
    with None show ?thesis by (simp add: remapped_state_of[OF R(1)] state_of_def[of x])
  next
    case (Some e)
    then have "node_id e = j" by (auto simp: node_execution_def dest: find_SomeD)
    with Some show ?thesis
      by (simp add: remapped_state_of[OF R(1)] state_of_def[of x] reopen_in_def reopened_node_def)
  qed
  have mono: "\<not> in_the_way (state_of x d) \<Longrightarrow> \<not> in_the_way (state_of y d)" for d
    by (simp add: y in_the_way_def)
  have "ready x i" using assms(3) failed by (auto simp: deps_done_def)
  then have "\<not> in_the_way (state_of y d)" if "(i, d) \<in> deps (exec_graph x)" for d
    using that by (intro mono) (auto simp: ready_def in_the_way_def)
  with R(3) mono assms(4) show ?thesis
    unfolding failures_block_def remapped_graph[OF R(1)]
    by (metis (no_types, lifting) insert_iff y)
qed

end
