(* ===== verification/Graph_Schedule.thy ===== *)
theory Graph_Schedule
  imports Graph_Steps
begin

text \<open>
  Graph executions as a system: the invariant of the reachable executions, the interpretations of
  the shared interfaces, scheduling properties and the claims about \<open>graph.rs\<close>.
\<close>

section \<open>The system\<close>

text \<open>
  An execution begins with \<open>GraphExecution::start\<close>, directly or through \<open>restart_as\<close>, which
  records where it came from.
\<close>

definition exec_init :: "GraphExecution \<Rightarrow> bool" where
  "exec_init x \<longleftrightarrow> (\<exists>y origin. start_execution (exec_id x) (exec_graph x) = Inr y \<and> x = y\<lparr>restarted_from := origin\<rparr>)"

definition exec_step :: "(string \<Rightarrow> string) \<Rightarrow> GraphExecution \<Rightarrow> graph_op \<Rightarrow> GraphExecution \<Rightarrow> bool" where
  "exec_step H x op y \<longleftrightarrow> apply_op H op x = Some (Inr y)"

definition exec_inv :: "(string \<Rightarrow> string) \<Rightarrow> GraphExecution \<Rightarrow> bool" where
  "exec_inv H x \<longleftrightarrow> wf_execution H x \<and> deps_done x \<and> failures_block x"

lemma exec_init_start: "start_execution i g = Inr x \<Longrightarrow> exec_init x"
  by (auto simp: exec_init_def start_execution_def and_then_eq_Ok)

lemma exec_init_restart: "restart_as H x i = Inr y \<Longrightarrow> exec_init y"
  by (auto simp: exec_init_def restart_as_def start_execution_def and_then_eq_Ok split: if_splits)

lemma exec_initD:
  assumes "exec_init x"
  shows "wf_graph (exec_graph x)" "exec_nodes x = map fresh_node (graph_nodes (exec_graph x))"
    "exec_outputs x = []"
proof -
  from assms obtain origin where v: "graph_validate (exec_graph x) = Inr ()" and
    x: "x = \<lparr>exec_id = exec_id x, exec_graph = exec_graph x,
      exec_nodes = map fresh_node (graph_nodes (exec_graph x)), exec_outputs = [],
      restarted_from = origin, exec_revision = 0\<rparr>"
    by (auto simp: exec_init_def start_execution_def and_then_eq_Ok)
  show "wf_graph (exec_graph x)" using v graph_validate_iff_wf[of "exec_graph x"] by simp
  show "exec_nodes x = map fresh_node (graph_nodes (exec_graph x))" "exec_outputs x = []"
    by (subst x, simp)+
qed

lemma exec_init_pending:
  assumes "exec_init x" and "state_of x i = Some s"
  shows "s = Pending"
  using assms(2) exec_initD[OF assms(1)]
  by (auto simp: state_of_def node_execution_def fresh_node_def dest!: find_SomeD)

lemma exec_init_inv:
  assumes "exec_init x"
  shows "exec_inv H x"
proof -
  note init = exec_initD[OF assms]
  have ids: "map node_id (exec_nodes x) = map gn_id (graph_nodes (exec_graph x))"
    by (simp add: init(2) fresh_node_def)
  then have "node_id ` set (exec_nodes x) = node_ids (exec_graph x)"
    by (metis list.set_map)
  moreover have "execution_state_is_valid e" if "e \<in> set (exec_nodes x)" for e
    using that by (auto simp: init(2) fresh_node_def execution_state_is_valid_def)
  ultimately have "wf_execution H x"
    using wf_graph_distinct[OF init(1)] init(1,3) by (simp add: wf_execution_def ids)
  moreover have "deps_done x" using exec_init_pending[OF assms] by (auto simp: deps_done_def)
  moreover have "failures_block x"
    using exec_init_pending[OF assms] by (auto simp: failures_block_def in_the_way_def)
  ultimately show ?thesis by (simp add: exec_inv_def)
qed

text \<open>Node states and graph are all the two scheduling invariants look at.\<close>

lemma same_states_inv:
  "state_of y = state_of x \<Longrightarrow> exec_graph y = exec_graph x \<Longrightarrow>
   deps_done x \<Longrightarrow> failures_block x \<Longrightarrow> deps_done y \<and> failures_block y"
  by (simp add: deps_done_def failures_block_def ready_def)

lemma finish_terminal_unblocked:
  assumes "finish_terminal i owner s f x = Inr y" and "wf_execution H x" and "failures_block x"
  shows "failures_block y"
proof -
  note fin = finish_terminal_OkD[OF assms(1,2)]
  show ?thesis
    using fin(2,5) assms(3) effect_graph[OF fin(3)]
    by (auto simp: failures_block_iff intro: unblocked_block_states unblocked_update)
qed

lemma failures_block_step:
  assumes "apply_op H op x = Some (Inr y)" and "exec_inv H x"
  shows "failures_block y"
proof -
  from assms(2) have wf: "wf_execution H x" and inv: "deps_done x" "failures_block x"
    by (simp_all add: exec_inv_def)
  note graph = effect_graph[OF apply_op_effect[OF assms(1) wf]]
  have weaken: "failures_block y"
    if "exec_graph y = exec_graph x" "\<And>i. state_of y i = Some Pending \<Longrightarrow> state_of x i = Some Pending"
      "\<And>i. in_the_way (state_of y i) \<Longrightarrow> in_the_way (state_of x i)"
    using unblocked_weaken[of "exec_graph x" "state_of x" "state_of y"] that inv(2)
    by (simp add: failures_block_iff)
  show ?thesis
  proof (cases op)
    case (ClaimReady owner limit)
    with assms(1) obtain cs where "claim_ready owner limit x = Inr (cs, y)"
      by (auto simp: and_then_eq_Ok)
    with claim_ready_states[OF this wf] graph ClaimReady show ?thesis
      by (intro weaken) (auto simp: in_the_way_def split: if_splits)
  next
    case (ClaimNode i owner)
    with assms(1) claim_node_OkD(6)[OF _ wf] graph inv(2) show ?thesis
      by (simp add: failures_block_iff unblocked_update)
  next
    case (StageNode i owner r)
    with assms(1) stage_node_OkD(7)[OF _ wf] graph inv(2) show ?thesis
      by (simp add: failures_block_iff unblocked_update)
  next
    case (ActivateStaged i owner r)
    with assms(1) activate_staged_node_OkD(4)[OF _ wf] graph inv(2) show ?thesis
      by (simp add: failures_block_iff unblocked_update)
  next
    case (CancelStaged i owner r)
    with assms(1) cancel_staged_node_OkD(4)[OF _ wf] graph inv(2) show ?thesis
      by (simp add: failures_block_iff unblocked_block_states)
  next
    case (BindRun i owner r)
    with assms(1) bind_run_OkD(4)[OF _ wf] graph inv(2) show ?thesis
      by (simp add: failures_block_iff)
  next
    case (Complete i owner ok)
    with assms(1) finish_terminal_unblocked[OF _ wf inv(2)] show ?thesis
      by (auto simp: complete_finish_terminal)
  next
    case (FinishTerminal i owner s f)
    with assms(1) finish_terminal_unblocked[OF _ wf inv(2)] show ?thesis by simp
  next
    case (RetryFailed i)
    with assms(1) retry_failed_unblocked[OF _ wf inv] show ?thesis by simp
  next
    case (RecordOutput out)
    with assms(1) record_output_OkD(1)[OF _ wf, of out y] inv(2) show ?thesis
      by (simp add: failures_block_def state_of_def node_execution_def)
  next
    case ReconcileAfterRestart
    with assms(1) have y: "y = snd (reconcile_after_restart x)" by simp
    have "exec_graph y = exec_graph x" using graph ReconcileAfterRestart by simp
    then show ?thesis
      by (rule weaken) (auto simp: y reconcile_states in_the_way_def split: if_splits)
  qed
qed

lemma exec_inv_step:
  assumes "exec_inv H x" and "exec_step H x op y"
  shows "exec_inv H y"
proof (cases "\<exists>out. op = RecordOutput out")
  case True
  with assms have r: "record_output H (case op of RecordOutput out \<Rightarrow> out) x = Inr y"
    by (auto simp: exec_step_def)
  from record_output_OkD(1,2)[OF r] assms same_states_inv[of y x] show ?thesis
    by (simp add: exec_inv_def fun_eq_iff state_of_def node_execution_def)
next
  case False
  with assms have e: "effect x y"
    by (intro apply_op_effect[of H op]) (auto simp: exec_inv_def exec_step_def)
  from assms show ?thesis
    using effect_wf[OF e] effect_deps_done[OF e] failures_block_step[of H op x y]
    by (auto simp: exec_inv_def exec_step_def)
qed

interpretation exec: invariant_system exec_init "exec_step H" "exec_inv H" for H
  by unfold_locales (auto intro: exec_init_inv exec_inv_step)

text \<open>Succeeded nodes and recorded outputs are never taken back.\<close>

lemma exec_step_states:
  assumes "exec_inv H x" and "exec_step H x op y" and "state_of x i = Some s"
  shows "\<exists>t. state_of y i = Some t \<and> node_step (ready x i) s t"
proof (cases "\<exists>out. op = RecordOutput out")
  case True
  with assms(1,2) record_output_OkD(1)[of H _ x y] have "state_of y = state_of x"
    by (fastforce simp: exec_step_def exec_inv_def fun_eq_iff state_of_def node_execution_def)
  with assms(3) show ?thesis by (auto intro: node_step.stay)
next
  case False
  with assms have "effect x y"
    by (intro apply_op_effect[of H op]) (auto simp: exec_inv_def exec_step_def)
  from effect_step[OF this _ assms(3), of H] assms(1) show ?thesis by (simp add: exec_inv_def)
qed

lemma exec_step_outputs:
  assumes "exec_inv H x" and "exec_step H x op y"
  shows "set (exec_outputs x) \<subseteq> set (exec_outputs y)"
proof (cases "\<exists>out. op = RecordOutput out")
  case True
  with assms record_output_OkD(1)[of H _ x y] show ?thesis
    by (fastforce simp: exec_step_def exec_inv_def)
next
  case False
  with assms have "effect x y"
    by (intro apply_op_effect[of H op]) (auto simp: exec_inv_def exec_step_def)
  then show ?thesis by (auto simp: effect_def remapped_def)
qed

definition settled_nodes :: "GraphExecution \<Rightarrow> (GraphNodeId \<times> GraphNodeState) set" where
  "settled_nodes x = {(i, s). state_of x i = Some s \<and> s \<in> {Succeeded, Cancelled, Uncertain}}"

lemma node_step_settled: "node_step r s t \<Longrightarrow> s \<in> {Succeeded, Cancelled, Uncertain} \<Longrightarrow> t = s"
  by (auto elim: node_step.cases)

lemma exec_step_settled:
  assumes "exec_inv H x" and "exec_step H x op y"
  shows "settled_nodes x \<subseteq> settled_nodes y"
  using exec_step_states[OF assms] node_step_settled unfolding settled_nodes_def by blast

interpretation settled: monotone_system exec_init "exec_step H" "exec_inv H" settled_nodes for H
  by unfold_locales (rule exec_step_settled)

interpretation outputs: monotone_system exec_init "exec_step H" "exec_inv H"
    "\<lambda>x. set (exec_outputs x)" for H
  by unfold_locales (rule exec_step_outputs)

interpretation out_seal: content_seal out_markdown out_content_hash "output_hash H"
    "\<lambda>out. is_ok (output_validate H out)" for H
  by unfold_locales (auto simp: output_validate_def split: if_splits)

section \<open>Progress\<close>

text \<open>
  A pending node with nothing in flight is never stuck: the dependency order is well founded, so
  some pending node has only succeeded dependencies.
\<close>

lemma known_state:
  assumes "wf_execution H x" and "i \<in> node_ids (exec_graph x)"
  shows "\<exists>s. state_of x i = Some s"
  using assms wf_executionD(3)[OF assms(1)] state_of_node[OF assms(1)] by (metis imageE)

lemma ready_exists:
  assumes "exec_inv H x" and "state_of x i = Some Pending"
    and idle: "\<And>j. state_of x j \<notin> {Some Running, Some AwaitingApproval, Some Uncertain}"
  shows "\<exists>j. state_of x j = Some Pending \<and> ready x j"
proof -
  from assms(1) have inv: "wf_execution H x" "failures_block x" by (simp_all add: exec_inv_def)
  note g = wf_executionD(1)[OF inv(1)]
  from wfE_min[OF wf_deps[OF g], of i "{j. state_of x j = Some Pending}"] assms(2)
  obtain j where j: "state_of x j = Some Pending"
    "\<And>d. (j, d) \<in> deps (exec_graph x) \<Longrightarrow> state_of x d \<noteq> Some Pending" by auto
  have "state_of x d = Some Succeeded" if d: "(j, d) \<in> deps (exec_graph x)" for d
  proof -
    obtain s where s: "state_of x d = Some s"
      using known_state[OF inv(1)] wf_graph_known[OF g d] by blast
    moreover have "\<not> in_the_way (state_of x d)"
      using inv(2) j(1) d by (auto simp: failures_block_def)
    ultimately show ?thesis
      using idle[of d] j(2)[OF d] by (cases s) (auto simp: in_the_way_def)
  qed
  with j(1) show ?thesis by (auto simp: ready_def)
qed

lemma ready_nodes_iff:
  assumes "wf_execution H x"
  shows "i \<in> set (ready_nodes x) \<longleftrightarrow> state_of x i = Some Pending \<and> ready x i"
  by (auto simp: ready_nodes_def state_of_iff[OF wf_executionD(2)[OF assms]])

section \<open>Sample graph\<close>

text \<open>
  Two research nodes, the join of both and a document after it: the smallest shape \<open>validate\<close>
  accepts with a dependent of the join, used to evaluate the operations.
\<close>

definition sample_node :: "uuid \<Rightarrow> GraphNodeKind \<Rightarrow> uuid list \<Rightarrow> GraphNode" where
  "sample_node i k ds = \<lparr>gn_id = StableId i, gn_kind = k, gn_role_id = StableId 0,
     gn_title = ''node'', gn_needs = map StableId ds\<rparr>"

definition sample_graph :: WorkflowGraph where
  "sample_graph = \<lparr>decision_baseline_id = StableId 9,
     graph_nodes = [sample_node 1 Research [], sample_node 2 Research [],
                    sample_node 3 Join [1, 2], sample_node 4 Document [3]]\<rparr>"

definition sample_exec :: GraphExecution where
  "sample_exec = \<lparr>exec_id = StableId 7, exec_graph = sample_graph,
     exec_nodes = map fresh_node (graph_nodes sample_graph), exec_outputs = [],
     restarted_from = None, exec_revision = 0\<rparr>"

text \<open>A run of operations, for evaluation; \<open>None\<close> when one of them does not succeed.\<close>

fun run_ops :: "(string \<Rightarrow> string) \<Rightarrow> graph_op list \<Rightarrow> GraphExecution \<Rightarrow> GraphExecution option" where
  "run_ops H [] x = Some x"
| "run_ops H (op # ops) x =
     (case apply_op H op x of Some (Inr y) \<Rightarrow> run_ops H ops y | _ \<Rightarrow> None)"

lemma run_ops_steps: "run_ops H ops x = Some y \<Longrightarrow> steps (exec_step H) x ops y"
proof (induction ops arbitrary: x)
  case (Cons op ops)
  then obtain z where "apply_op H op x = Some (Inr z)" "run_ops H ops z = Some y"
    by (auto split: option.splits sum.splits)
  with Cons.IH show ?case by (auto simp: exec_step_def intro: steps_Cons)
qed (auto intro: steps_Nil)

lemma sample_exec_start: "start_execution (StableId 7) sample_graph = Inr sample_exec"
  by code_simp

lemma sample_reachable: "run_ops H ops sample_exec = Some y \<Longrightarrow> reachable exec_init (exec_step H) y"
  by (rule exec.steps_reachable[OF run_ops_steps])
     (auto intro: reachable_init exec_init_start[OF sample_exec_start])

end
