(* ===== verification/Graph_Claims.thy ===== *)
theory Graph_Claims
  imports Graph_Schedule
begin

text \<open>
  What the workflow graph promises: validation, scheduling, failure handling, retry, the approval
  gate and the sealed outputs of \<open>graph.rs\<close>.
\<close>

section \<open>Per-operation facts\<close>

lemma retry_failed_states:
  assumes "wf_execution H x" and "state_of x i = Some Failed"
  shows "\<exists>R y. retry_failed i x = Some (Inr y) \<and> exec_graph y = exec_graph x \<and>
    state_of y = (\<lambda>j. if j \<in> insert i R then Some Pending else state_of x j) \<and>
    (\<forall>j \<in> R. state_of x j = Some Blocked) \<and> reopenable (exec_graph x) (exec_nodes y) = [] \<and>
    wf_execution H y"
proof -
  from retry_failed_Some[OF assms] obtain R y where
    y: "retry_failed i x = Some (Inr y)" "remapped (reopen_in (insert i R)) x y"
      "\<forall>j \<in> R. state_of x j = Some Blocked" "reopenable (exec_graph x) (exec_nodes y) = []" by blast
  have "state_of y j = (if j \<in> insert i R then Some Pending else state_of x j)" for j
  proof (cases "node_execution x j")
    case None
    then have none: "state_of x j = None" by (simp add: state_of_def)
    then have "j \<notin> insert i R" using assms(2) y(3) by auto
    with None none show ?thesis by (simp add: remapped_state_of[OF y(2)])
  next
    case (Some e)
    then have "node_id e = j" by (auto simp: node_execution_def dest: find_SomeD)
    with Some show ?thesis
      by (simp add: remapped_state_of[OF y(2)] state_of_def[of x] reopen_in_def reopened_node_def)
  qed
  moreover have "wf_execution H y"
    using effect_wf[OF retry_failed_effect[OF y(1) assms(1)] assms(1)] .
  ultimately show ?thesis using y remapped_graph[OF y(2)] by (intro exI[of _ R] exI[of _ y]) auto
qed

lemma no_reopenable_iff:
  assumes "wf_execution H x" and "reopenable (exec_graph x) (exec_nodes x) = []"
    and "state_of x j = Some Blocked"
  shows "\<exists>d. (j, d) \<in> deps (exec_graph x) \<and> in_the_way (state_of x d)"
proof -
  note wf = wf_executionD[OF assms(1)]
  from assms(3) obtain e where "e \<in> set (exec_nodes x)" "node_id e = j"
    by (auto simp: state_of_iff[OF wf(2)])
  with wf(3) obtain n where n: "n \<in> set (graph_nodes (exec_graph x))" "gn_id n = j" by (metis imageE imageI)
  with assms(2,3) obtain d where "d \<in> set (gn_needs n)" "in_the_way (state_of x d)"
    by (auto simp: reopenable_def filter_empty_conv node_states_state_of[OF wf(2)] in_the_way_def)
  with n show ?thesis by (auto simp: deps_def)
qed

lemma block_states_awaiting: "block_states g i m j = Some AwaitingApproval \<longleftrightarrow> m j = Some AwaitingApproval"
  by (auto simp: block_states_def)

text \<open>Which operations take a node out of \<open>AwaitingApproval\<close>.\<close>

lemma awaiting_step:
  assumes "apply_op H op x = Some (Inr y)" and "wf_execution H x"
    and "state_of x i = Some AwaitingApproval" and "state_of y i \<noteq> Some AwaitingApproval"
  shows "\<exists>owner r. op = ActivateStaged i owner r \<or> op = CancelStaged i owner r"
proof (rule ccontr)
  assume no: "\<not> ?thesis"
  note wf = assms(2)
  have "state_of y i = Some AwaitingApproval"
  proof (cases op)
    case (ClaimReady owner limit)
    with assms(1) obtain cs where c: "claim_ready owner limit x = Inr (cs, y)"
      by (auto simp: and_then_eq_Ok)
    have "i \<notin> set cs"
      using claim_ready_Ok(3)[OF wf c] assms(3) by (auto dest!: in_set_takeD simp: ready_nodes_iff[OF wf])
    with claim_ready_states[OF c wf] assms(3) show ?thesis by simp
  next
    case (ClaimNode j owner)
    with assms(1,3) claim_node_OkD(3,6)[OF _ wf] show ?thesis by auto
  next
    case (StageNode j owner r)
    with assms(1,3) stage_node_OkD(4,7)[OF _ wf] show ?thesis by auto
  next
    case (ActivateStaged j owner r)
    with no have "j \<noteq> i" by auto
    with ActivateStaged assms(1,3) activate_staged_node_OkD(4)[OF _ wf] show ?thesis by auto
  next
    case (CancelStaged j owner r)
    with no have "j \<noteq> i" by auto
    with CancelStaged assms(1,3) cancel_staged_node_OkD(4)[OF _ wf] show ?thesis
      by (auto simp: block_states_awaiting)
  next
    case (BindRun j owner r)
    with assms(1,3) bind_run_OkD(4)[OF _ wf] show ?thesis by auto
  next
    case (Complete j owner ok)
    then have "finish_terminal j owner (if ok then Succeeded else Failed) None x = Inr y"
      using assms(1) by (simp add: complete_finish_terminal)
    from finish_terminal_OkD(1,5)[OF this wf] assms(3) show ?thesis
      by (auto simp: block_states_awaiting split: if_splits)
  next
    case (FinishTerminal j owner s f)
    then have "finish_terminal j owner s f x = Inr y" using assms(1) by simp
    from finish_terminal_OkD(1,5)[OF this wf] assms(3) show ?thesis
      by (auto simp: block_states_awaiting split: if_splits)
  next
    case (RetryFailed j)
    then have r: "retry_failed j x = Some (Inr y)" using assms(1) by simp
    from retry_failed_states[OF wf retry_failed_OkD(1)[OF r wf]] r assms(3) show ?thesis
      using retry_failed_OkD(1)[OF r wf] by auto
  next
    case (RecordOutput out)
    then have "record_output H out x = Inr y" using assms(1) by simp
    from record_output_OkD(1)[OF this wf] assms(3) show ?thesis
      by (simp add: state_of_def node_execution_def)
  next
    case ReconcileAfterRestart
    with assms(1,3) show ?thesis by (auto simp: reconcile_states)
  qed
  with assms(4) show False by simp
qed

lemma effect_revision:
  assumes "apply_op H op x = Some (Inr y)" and "wf_execution H x" and "state_of y \<noteq> state_of x"
  shows "exec_revision y = exec_revision x + 1"
proof (cases op)
  case (ClaimReady owner limit)
  with assms(1) obtain cs where c: "claim_ready owner limit x = Inr (cs, y)"
    by (auto simp: and_then_eq_Ok)
  from claim_ready_states[OF c assms(2)] assms(3) have "cs \<noteq> []" by auto
  with claim_ready_Ok(5)[OF assms(2) c] show ?thesis by simp
next
  case (Complete i owner ok)
  with assms show ?thesis by (auto simp: complete_finish_terminal dest: finish_terminal_OkD(4))
next
  case ReconcileAfterRestart
  then have y: "y = snd (reconcile_after_restart x)" using assms(1) by simp
  have "\<exists>e \<in> set (exec_nodes x). node_state e = Running"
    using assms(3) state_of_iff[OF wf_executionD(2)[OF assms(2)], of _ Running]
    by (force simp: y reconcile_states fun_eq_iff split: if_splits)
  then show ?thesis using reconcile_effect(3)[OF assms(2)] by (simp add: y)
next
  case (RecordOutput out)
  then have "record_output H out x = Inr y" using assms(1) by simp
  from record_output_OkD(1)[OF this assms(2)] assms(3) show ?thesis
    by (simp add: state_of_def[abs_def] node_execution_def)
qed (use assms in \<open>auto dest: claim_node_OkD(5) stage_node_OkD(6) activate_staged_node_OkD(3)
  cancel_staged_node_OkD(3) bind_run_OkD(4) finish_terminal_OkD(4) retry_failed_OkD(4)\<close>)

lemma sample_deps [simp]:
  "deps sample_graph = {(StableId 3, StableId 1), (StableId 3, StableId 2), (StableId 4, StableId 3)}"
  by (auto simp: deps_unfold sample_graph_def sample_node_def)

lemma sample_exec_graph [simp]: "exec_graph sample_exec = sample_graph"
  by (simp add: sample_exec_def)

section \<open>Claims\<close>

text \<open>C15. \<open>WorkflowGraph::validate\<close> accepts a graph exactly when its node identifiers are
  distinct, every title is non-blank, every dependency is another node of the graph, the dependency
  relation is acyclic, and there are exactly two research nodes without dependencies and one join
  that needs exactly those two.\<close>

theorem graph_validate_correct: "graph_validate g = Ok () \<longleftrightarrow> wf_graph g"
  by (simp add: graph_validate_iff_wf[symmetric] is_ok_unit)

text \<open>C6. Whatever sequence of operations is applied to a started execution, the execution still
  passes \<open>GraphExecution::validate\<close>, so the store never refuses what an operation produced.\<close>

theorem reachable_execution_valid:
  assumes "reachable exec_init (exec_step H) x"
  shows "execution_validate H x = Ok ()"
  using exec.reachable_inv[OF assms] execution_validate_iff_wf[of H x]
  by (simp add: exec_inv_def is_ok_unit)

theorem reachable_execution_valid_witness:
  "\<exists>y. run_ops id [ClaimReady ''w'' 2, Complete (StableId 1) ''w'' False] sample_exec = Some y \<and>
     execution_validate id y = Ok ()"
proof -
  have "run_ops id [ClaimReady ''w'' 2, Complete (StableId 1) ''w'' False] sample_exec \<noteq> None"
    by code_simp
  then obtain y where "run_ops id [ClaimReady ''w'' 2, Complete (StableId 1) ''w'' False] sample_exec = Some y"
    by auto
  with reachable_execution_valid[OF sample_reachable[OF this]] show ?thesis by auto
qed

text \<open>C5. In every reachable execution a node that is awaiting approval, running or finished has
  all its dependencies succeeded; in particular the join never starts before both research nodes
  succeeded.\<close>

theorem nodes_start_after_dependencies:
  assumes "reachable exec_init (exec_step H) x" and "state_of x i = Some s"
    and "s \<notin> {Pending, Blocked}" and "(i, d) \<in> deps (exec_graph x)"
  shows "state_of x d = Some Succeeded"
  using exec.reachable_inv[OF assms(1)] assms(2-4) by (auto simp: exec_inv_def deps_done_def ready_def)

definition sample_join_running :: "graph_op list" where
  "sample_join_running = [ClaimReady ''w'' 2, Complete (StableId 1) ''w'' True,
     Complete (StableId 2) ''w'' True, ClaimNode (StableId 3) ''w'']"

theorem nodes_start_after_dependencies_witness:
  "\<exists>y. run_ops id sample_join_running sample_exec = Some y \<and> state_of y (StableId 3) = Some Running \<and>
     state_of y (StableId 1) = Some Succeeded"
proof -
  have ok: "(case run_ops id sample_join_running sample_exec of
      Some y \<Rightarrow> state_of y (StableId 3) = Some Running \<and>
        exec_graph y = sample_graph
    | None \<Rightarrow> False)" by code_simp
  then obtain y where y: "run_ops id sample_join_running sample_exec = Some y"
    "state_of y (StableId 3) = Some Running" "(StableId 3, StableId 1) \<in> deps (exec_graph y)"
    by (auto split: option.splits)
  with nodes_start_after_dependencies[OF sample_reachable[OF y(1)] y(2) _ y(3)] show ?thesis by auto
qed



text \<open>C10. When a running node fails, is cancelled or blocked, exactly the pending nodes that need
  it, directly or through other nodes, become blocked; every other node keeps its state.\<close>

theorem failure_blocks_exactly_dependents:
  assumes "execution_validate H x = Ok ()" and "finish_terminal i owner s f x = Ok y"
    and "s \<in> {Failed, Cancelled, Blocked}"
  shows "state_of y j =
    (if j = i then Some s
     else if (j, i) \<in> (deps (exec_graph x))\<^sup>+ \<and> state_of x j = Some Pending then Some Blocked
     else state_of x j)"
proof -
  have wf: "wf_execution H x" using assms(1) by (simp add: execution_validate_iff_wf[symmetric])
  from finish_terminal_OkD(5)[OF assms(2) wf] assms(3) show ?thesis
    by (auto simp: block_states_def dependents_def)
qed

definition sample_running :: GraphExecution where
  "sample_running = the (run_ops id [ClaimReady ''w'' 2] sample_exec)"

theorem failure_blocks_exactly_dependents_witness:
  "\<exists>y. finish_terminal (StableId 1) ''w'' Failed None sample_running = Ok y \<and>
     state_of y (StableId 4) = Some Blocked \<and> state_of y (StableId 2) = Some Running"
proof -
  have v: "execution_validate id sample_running = Ok ()"
    "is_ok (finish_terminal (StableId 1) ''w'' Failed None sample_running)"
    "state_of sample_running (StableId 4) = Some Pending"
    "state_of sample_running (StableId 2) = Some Running"
    "exec_graph sample_running = sample_graph" by code_simp+
  then obtain y where y: "finish_terminal (StableId 1) ''w'' Failed None sample_running = Ok y"
    by (auto simp: is_ok_iff)
  have "(StableId 4, StableId 3) \<in> deps sample_graph" "(StableId 3, StableId 1) \<in> deps sample_graph"
    by simp_all
  then have "(StableId 4, StableId 1) \<in> (deps sample_graph)\<^sup>+" by (meson trancl.simps)
  then show ?thesis
    using failure_blocks_exactly_dependents[OF v(1) y] v y by auto
qed




text \<open>C8. Every operation moves every node along the node state machine: a node starts or is staged
  only from pending and only when its dependencies succeeded, is blocked only from pending,
  leaves approval only to running or cancelled, finishes only from running, and is reopened only
  from failed or blocked.\<close>

theorem operations_refine_node_machine:
  assumes "reachable exec_init (exec_step H) x" and "apply_op H op x = Some (Ok y)"
    and "state_of x i = Some s"
  shows "\<exists>t. state_of y i = Some t \<and> node_step (ready x i) s t"
  using exec_step_states[OF exec.reachable_inv[OF assms(1)] _ assms(3)] assms(2)
  by (simp add: exec_step_def)

theorem operations_refine_node_machine_witness:
  "\<exists>y. apply_op id (ClaimReady ''w'' 2) sample_exec = Some (Ok y) \<and>
     (\<exists>t. state_of y (StableId 1) = Some t \<and> node_step (ready sample_exec (StableId 1)) Pending t)"
proof -
  have "run_ops id [] sample_exec = Some sample_exec" by simp
  note r = sample_reachable[OF this]
  have p: "state_of sample_exec (StableId 1) = Some Pending" by code_simp
  have "is_ok (the (apply_op id (ClaimReady ''w'' 2) sample_exec))" by code_simp
  then obtain y where y: "apply_op id (ClaimReady ''w'' 2) sample_exec = Some (Ok y)"
    by (auto simp: is_ok_iff)
  from operations_refine_node_machine[OF r y p] y show ?thesis by blast
qed

text \<open>C13. The scheduler cannot deadlock: in a reachable execution that has a pending node and no
  node running, awaiting approval or uncertain, \<open>claim_ready\<close> claims at least one node.\<close>

theorem claim_ready_progress:
  assumes "reachable exec_init (exec_step H) x" and "state_of x i = Some Pending"
    and "\<And>j. state_of x j \<notin> {Some Running, Some AwaitingApproval, Some Uncertain}"
    and "\<not> blank owner" and "limit \<noteq> 0"
  shows "\<exists>cs y. claim_ready owner limit x = Ok (cs, y) \<and> cs \<noteq> []"
proof -
  note inv = exec.reachable_inv[OF assms(1)]
  then have wf: "wf_execution H x" by (simp add: exec_inv_def)
  from ready_exists[OF inv assms(2,3)] have "ready_nodes x \<noteq> []"
    using ready_nodes_iff[OF wf] by fastforce
  with claim_ready_spec[OF wf assms(4,5) refl] assms(5) show ?thesis by fastforce
qed

theorem claim_ready_progress_witness:
  "\<exists>cs y. claim_ready ''w'' 4 sample_exec = Ok (cs, y) \<and> cs \<noteq> []"
proof -
  have "run_ops id [] sample_exec = Some sample_exec" by simp
  note r = sample_reachable[OF this]
  have "state_of sample_exec (StableId 3) = Some Pending" "\<not> blank ''w''" by code_simp+
  moreover have "state_of sample_exec j \<notin> {Some Running, Some AwaitingApproval, Some Uncertain}" for j
    using exec_init_pending[OF exec_init_start[OF sample_exec_start], of j] by fastforce
  ultimately show ?thesis using claim_ready_progress[OF r] by fastforce
qed

text \<open>Succeeded, cancelled and uncertain are final: no sequence of operations, retries and
  restarts of the daemon included, changes the state of such a node.\<close>

theorem settled_states_are_final:
  assumes "reachable exec_init (exec_step H) x" and "steps (exec_step H) x ops y"
    and "state_of x i = Some s" and "s \<in> {Succeeded, Cancelled, Uncertain}"
  shows "state_of y i = Some s"
  using settled.steps_mono[OF assms(2) exec.reachable_inv[OF assms(1)]] assms(3,4)
  by (auto simp: settled_nodes_def)

definition sample_half_done :: GraphExecution where
  "sample_half_done = the (run_ops id [ClaimReady ''w'' 2, Complete (StableId 1) ''w'' True] sample_exec)"

theorem settled_states_are_final_witness:
  "\<exists>y. run_ops id [Complete (StableId 2) ''w'' False, RetryFailed (StableId 2)] sample_half_done = Some y \<and>
     state_of y (StableId 1) = Some Succeeded"
proof -
  have h: "run_ops id [ClaimReady ''w'' 2, Complete (StableId 1) ''w'' True] sample_exec = Some sample_half_done"
    and s: "state_of sample_half_done (StableId 1) = Some Succeeded"
    unfolding sample_half_done_def by code_simp+
  have "(case run_ops id [Complete (StableId 2) ''w'' False] sample_half_done of
      Some z \<Rightarrow> state_of z (StableId 2) = Some Failed \<and> execution_validate id z = Ok ()
    | None \<Rightarrow> False)" by code_simp
  then obtain z where z: "run_ops id [Complete (StableId 2) ''w'' False] sample_half_done = Some z"
    "state_of z (StableId 2) = Some Failed" "wf_execution id z"
    by (auto simp: execution_validate_iff_wf[symmetric] split: option.splits)
  from retry_failed_Some[OF z(3,2)] obtain y where "retry_failed (StableId 2) z = Some (Inr y)" by blast
  with z(1) have y: "run_ops id [Complete (StableId 2) ''w'' False, RetryFailed (StableId 2)] sample_half_done = Some y"
    by (auto split: option.splits sum.splits)
  from settled_states_are_final[OF sample_reachable[OF h] run_ops_steps[OF y] s] y show ?thesis by simp
qed

text \<open>C12. The approval gate: the only operations that take a node out of awaiting-approval are its
  activation and its cancellation, and each of them presents the owner and the run the node was
  staged with.\<close>

theorem approval_gate:
  assumes "execution_validate H x = Ok ()" and "apply_op H op x = Some (Ok y)"
    and "node_execution x i = Some e" and "node_state e = AwaitingApproval"
    and "state_of y i \<noteq> Some AwaitingApproval"
  shows "\<exists>owner r. node_owner e = Some owner \<and> node_run_id e = Some r \<and>
    (op = ActivateStaged i owner r \<or> op = CancelStaged i owner r)"
proof -
  have wf: "wf_execution H x" using assms(1) by (simp add: execution_validate_iff_wf[symmetric])
  have "state_of x i = Some AwaitingApproval" using assms(3,4) by (simp add: state_of_def)
  from awaiting_step[OF assms(2) wf this assms(5)] obtain owner r where
    op: "op = ActivateStaged i owner r \<or> op = CancelStaged i owner r" by blast
  with assms(2,3) have "node_owner e = Some owner \<and> node_run_id e = Some r"
    by (auto simp: activate_staged_node_def cancel_staged_node_def split: if_splits)
  with op show ?thesis by blast
qed

definition sample_staged :: GraphExecution where
  "sample_staged = the (run_ops id [StageNode (StableId 1) ''w'' (StableId 5)] sample_exec)"

theorem approval_gate_witness:
  "\<exists>e owner r. node_execution sample_staged (StableId 1) = Some e \<and> node_owner e = Some owner \<and>
     node_run_id e = Some r \<and> ActivateStaged (StableId 1) ''w'' (StableId 5) \<in>
       {ActivateStaged (StableId 1) owner r, CancelStaged (StableId 1) owner r}"
proof -
  let ?op = "ActivateStaged (StableId 1) ''w'' (StableId 5)"
  have "(case (node_execution sample_staged (StableId 1), apply_op id ?op sample_staged) of
      (Some e, Some (Inr y)) \<Rightarrow> node_state e = AwaitingApproval \<and> state_of y (StableId 1) = Some Running
    | _ \<Rightarrow> False)" by code_simp
  then obtain e y where e: "apply_op id ?op sample_staged = Some (Inr y)"
    "node_execution sample_staged (StableId 1) = Some e" "node_state e = AwaitingApproval"
    "state_of y (StableId 1) = Some Running"
    by (auto split: option.splits sum.splits)
  have "execution_validate id sample_staged = Ok ()" by code_simp
  from approval_gate[OF this e(1-3)] e(2,4) show ?thesis by auto
qed

text \<open>A change of any node's state is never silent: every operation that changes one raises the
  execution's revision by one, the counter the store compares before it writes.\<close>

theorem state_changes_raise_revision:
  assumes "execution_validate H x = Ok ()" and "apply_op H op x = Some (Ok y)"
    and "state_of y i \<noteq> state_of x i"
  shows "exec_revision y = exec_revision x + 1 \<and> exec_revision y \<noteq> exec_revision x"
proof -
  have wf: "wf_execution H x" using assms(1) by (simp add: execution_validate_iff_wf[symmetric])
  have "state_of y \<noteq> state_of x" using assms(3) by metis
  from effect_revision[OF assms(2) wf this] show ?thesis by simp
qed

theorem state_changes_raise_revision_witness:
  "\<exists>y. apply_op id (ClaimNode (StableId 2) ''w'') sample_exec = Some (Ok y) \<and>
     exec_revision y = exec_revision sample_exec + 1"
proof -
  have "(case apply_op id (ClaimNode (StableId 2) ''w'') sample_exec of
      Some (Inr y) \<Rightarrow> state_of y (StableId 2) \<noteq> state_of sample_exec (StableId 2) | _ \<Rightarrow> False)"
    by code_simp
  then obtain y where y: "apply_op id (ClaimNode (StableId 2) ''w'') sample_exec = Some (Inr y)"
    "state_of y (StableId 2) \<noteq> state_of sample_exec (StableId 2)"
    by (auto split: option.splits sum.splits)
  have "execution_validate id sample_exec = Ok ()" by code_simp
  from state_changes_raise_revision[OF this y] y show ?thesis by blast
qed

text \<open>An output created for a run passes its own check, and a stored output whose text was
  replaced by one with another digest fails it.\<close>

theorem output_seal:
  assumes "output_create H n r markdown = Ok out"
  shows "output_validate H out = Ok () \<and> out_markdown out = markdown \<and>
    (H tampered \<noteq> H markdown \<longrightarrow> output_validate H (out\<lparr>out_markdown := tampered\<rparr>) = Err InvalidOutput)"
proof -
  from assms have out: "output_validate H out = Ok ()" "out_markdown out = markdown"
    by (auto simp: output_create_def output_validate_def split: if_splits)
  have "\<not> is_ok (output_validate H (out\<lparr>out_markdown := tampered\<rparr>))" if "H tampered \<noteq> H markdown"
    by (rule out_seal.tampering_detected[of H out]) (use that out in \<open>simp_all add: output_hash_def\<close>)
  then have "output_validate H (out\<lparr>out_markdown := tampered\<rparr>) = Err InvalidOutput"
    if "H tampered \<noteq> H markdown"
    using that by (auto simp: output_validate_def)
  then show ?thesis using out by blast
qed

theorem output_seal_witness:
  "\<exists>out. output_create id (StableId 1) (StableId 5) ''report'' = Ok out \<and>
     output_validate id (out\<lparr>out_markdown := ''other''\<rparr>) = Err InvalidOutput"
proof -
  have "\<not> blank ''report''" by code_simp
  then have "is_ok (output_create id (StableId 1) (StableId 5) ''report'')"
    by (simp add: output_create_def MAX_NODE_OUTPUT_BYTES_def)
  then obtain out where out: "output_create id (StableId 1) (StableId 5) ''report'' = Ok out"
    by (auto simp: is_ok_iff)
  from output_seal[OF out, of "''other''"] out show ?thesis by simp
qed

text \<open>The boolean \<open>complete\<close> is \<open>finish_terminal\<close> with the states succeeded and failed and no
  failure record, on every execution, errors included.\<close>

theorem complete_equals_finish_terminal:
  "complete i owner succeeded x =
   finish_terminal i owner (if succeeded then Succeeded else Failed) None x"
  by (rule complete_finish_terminal)

text \<open>The comment on \<open>retry_failed\<close> promises to reopen one failed node and its blocked
  descendants. The loop reopens any blocked node without a dependency in the way: here
  the research node 2, which its own run reported blocked, is reopened when the unrelated research
  node 1 is retried.\<close>

theorem retry_failed_reopens_unrelated_node:
  "\<exists>x y. run_ops id [ClaimReady ''w'' 2, FinishTerminal (StableId 2) ''w'' Blocked None,
       Complete (StableId 1) ''w'' False] sample_exec = Some x \<and>
     retry_failed (StableId 1) x = Some (Ok y) \<and>
     (StableId 2, StableId 1) \<notin> (deps (exec_graph x))\<^sup>+ \<and>
     state_of x (StableId 2) = Some Blocked \<and> state_of y (StableId 2) = Some Pending"
proof -
  let ?ops = "[ClaimReady ''w'' 2, FinishTerminal (StableId 2) ''w'' Blocked None,
       Complete (StableId 1) ''w'' False]"
  have "(case run_ops id ?ops sample_exec of
      Some x \<Rightarrow> state_of x (StableId 2) = Some Blocked \<and> state_of x (StableId 1) = Some Failed \<and>
        execution_validate id x = Ok () \<and> exec_graph x = sample_graph | None \<Rightarrow> False)" by code_simp
  then obtain x where x: "run_ops id ?ops sample_exec = Some x" "state_of x (StableId 2) = Some Blocked"
    "state_of x (StableId 1) = Some Failed" "wf_execution id x" "exec_graph x = sample_graph"
    by (auto simp: execution_validate_iff_wf[symmetric] split: option.splits)
  from retry_failed_states[OF x(4,3)] obtain R y where
    y: "retry_failed (StableId 1) x = Some (Inr y)" "exec_graph y = exec_graph x"
      "state_of y = (\<lambda>j. if j \<in> insert (StableId 1) R then Some Pending else state_of x j)"
      "reopenable (exec_graph x) (exec_nodes y) = []" "wf_execution id y" by blast
  have "(StableId 2, d) \<notin> deps sample_graph" for d by simp
  then have "state_of y (StableId 2) \<noteq> Some Blocked"
    using no_reopenable_iff[OF y(5), of "StableId 2"] y(2,4) x(5) by auto
  then have "state_of y (StableId 2) = Some Pending" using y(3) x(2) by (auto split: if_splits)
  moreover have "(StableId 2, StableId 1) \<notin> (deps (exec_graph x))\<^sup>+"
    unfolding x(5) by (metis \<open>\<And>d. (StableId 2, d) \<notin> deps sample_graph\<close> tranclD)
  ultimately show ?thesis using x y(1) by blast
qed

end
