(* ===== verification/Catalog.thy ===== *)
theory Catalog
  imports Identity
begin

text \<open>
  \<open>IdentityCatalog::validate\<close> (\<open>crates/bastet-core/src/catalog.rs\<close>), which the daemon runs on
  every catalog it stores: identifiers are unique per kind, required fields are not blank, every
  reference resolves, an agent and its account belong to the same provider, and run timestamps
  fit the run state. The lemmas compare it with a declarative well-formedness predicate.
\<close>

record IdentityCatalog =
  credential_references :: "CredentialReference list"
  agent_providers :: "AgentProvider list"
  model_providers :: "ModelProvider list"
  accounts :: "Account list"
  models :: "Model list"
  agent_instances :: "AgentInstance list"
  projects :: "Project list"
  roles :: "Role list"
  sessions :: "Session list"
  runs :: "Run list"

definition default_catalog :: IdentityCatalog where
  "default_catalog =
     \<lparr>credential_references = [], agent_providers = [], model_providers = [], accounts = [],
      models = [], agent_instances = [], projects = [], roles = [], sessions = [], runs = []\<rparr>"

datatype CatalogError =
  DuplicateId string uuid
| MissingReference string string uuid
| AgentProviderMismatch
| EmptyField string string
| InvalidPolicyLayer string PolicyLayer
| InvalidRunTiming NormalizedRunState

section \<open>Helpers of the validation\<close>

definition unique :: "string \<Rightarrow> uuid list \<Rightarrow> (CatalogError, unit) result" where
  "unique entity ids =
     (case find_duplicate {} ids of
        Some i \<Rightarrow> Err (DuplicateId entity i)
      | None \<Rightarrow> Ok ())"

definition require :: "bool \<Rightarrow> string \<Rightarrow> string \<Rightarrow> uuid \<Rightarrow> (CatalogError, unit) result" where
  "require exists entity field i = (if exists then Ok () else Err (MissingReference entity field i))"

definition nonempty :: "string \<Rightarrow> string \<Rightarrow> string \<Rightarrow> (CatalogError, unit) result" where
  "nonempty entity field value = (if blank value then Err (EmptyField entity field) else Ok ())"

definition validate_metadata :: "string \<Rightarrow> 'i EntityMetadata \<Rightarrow> (CatalogError, unit) result" where
  "validate_metadata entity m = checks
     [nonempty entity ''created_at'' (md_created_at m),
      nonempty entity ''updated_at'' (md_updated_at m),
      nonempty entity ''provenance.source_kind'' (source_kind (md_provenance m)),
      nonempty entity ''provenance.source_id'' (source_id (md_provenance m)),
      nonempty entity ''provenance.recorded_by'' (recorded_by (md_provenance m))]"

definition run_state_terminal :: "NormalizedRunState \<Rightarrow> bool" where
  "run_state_terminal s \<longleftrightarrow> s \<in> {Run_Cancelled, Run_Failed, Run_Succeeded}"

definition run_state_active :: "NormalizedRunState \<Rightarrow> bool" where
  "run_state_active s \<longleftrightarrow> s \<notin> {Run_Starting, Run_AwaitingApproval, Run_Cancelled}"

definition validate_run_timing :: "Run \<Rightarrow> (CatalogError, unit) result" where
  "validate_run_timing r =
     (if (run_state_active (run_state r) \<and> run_started_at r = None) \<or>
         (run_state_terminal (run_state r) \<and> run_finished_at r = None)
      then Err (InvalidRunTiming (run_state r))
      else Ok ())"

lemma is_ok_unique [ok_simps, simp]: "is_ok (unique entity ids) \<longleftrightarrow> distinct ids"
  by (auto simp: unique_def split: option.splits)

lemma is_ok_require [ok_simps, simp]: "is_ok (require b entity field i) \<longleftrightarrow> b"
  by (simp add: require_def)

lemma is_ok_nonempty [ok_simps, simp]: "is_ok (nonempty entity field s) \<longleftrightarrow> \<not> blank s"
  by (simp add: nonempty_def)

lemma is_ok_run_timing [ok_simps, simp]:
  "is_ok (validate_run_timing r) \<longleftrightarrow>
     (run_state_active (run_state r) \<longrightarrow> run_started_at r \<noteq> None) \<and>
     (run_state_terminal (run_state r) \<longrightarrow> run_finished_at r \<noteq> None)"
  by (auto simp: validate_run_timing_def)

section \<open>The validation\<close>

definition validate_required_fields :: "IdentityCatalog \<Rightarrow> (CatalogError, unit) result" where
  "validate_required_fields c = checks
     [for_each (agent_providers c) (\<lambda>p. checks
        [validate_metadata ''AgentProvider'' (ap_metadata p),
         nonempty ''AgentProvider'' ''adapter_kind'' (ap_adapter_kind p),
         nonempty ''AgentProvider'' ''display_name'' (ap_display_name p)]),
      for_each (model_providers c) (\<lambda>p. checks
        [validate_metadata ''ModelProvider'' (mp_metadata p),
         nonempty ''ModelProvider'' ''provider_key'' (mp_provider_key p)]),
      for_each (accounts c) (\<lambda>a. checks
        [validate_metadata ''Account'' (acc_metadata a),
         nonempty ''Account'' ''provider_identity'' (acc_provider_identity a)]),
      for_each (models c) (\<lambda>m. checks
        [validate_metadata ''Model'' (mdl_metadata m),
         nonempty ''Model'' ''provider_model_id'' (mdl_provider_model_id m)]),
      for_each (agent_instances c) (\<lambda>i. validate_metadata ''AgentInstance'' (ai_metadata i)),
      for_each (projects c) (\<lambda>p. checks
        [validate_metadata ''Project'' (prj_metadata p),
         nonempty ''Project'' ''name'' (prj_name p),
         nonempty ''Project'' ''workspace_root'' (prj_workspace_root p),
         ensure (layer (prj_policy p) = ProjectLayer) (InvalidPolicyLayer ''Project'' ProjectLayer)]),
      for_each (roles c) (\<lambda>r. checks
        [validate_metadata ''Role'' (role_metadata r),
         nonempty ''Role'' ''name'' (role_name r),
         ensure (layer (role_policy r) = RoleOrAgent) (InvalidPolicyLayer ''Role'' RoleOrAgent)]),
      for_each (sessions c) (\<lambda>s. checks
        [validate_metadata ''Session'' (ses_metadata s),
         (case ses_provider_session_id s of
            Some i \<Rightarrow> nonempty ''Session'' ''provider_session_id'' i
          | None \<Rightarrow> Ok ())]),
      for_each (runs c) (\<lambda>r. validate_metadata ''Run'' (run_metadata r)),
      for_each (credential_references c) (\<lambda>r. checks
        [validate_metadata ''CredentialReference'' (cr_metadata r),
         nonempty ''CredentialReference'' ''service'' (cr_service r),
         nonempty ''CredentialReference'' ''account_label'' (cr_account_label r)])]"

definition validate_account :: "IdentityCatalog \<Rightarrow> Account \<Rightarrow> (CatalogError, unit) result" where
  "validate_account c a = checks
     [require (\<exists>p \<in> set (agent_providers c). ap_id p = acc_agent_provider_id a)
        ''Account'' ''agent_provider_id'' (id_value (acc_agent_provider_id a)),
      (case acc_credential_reference_id a of
         Some r \<Rightarrow> require (\<exists>x \<in> set (credential_references c). cr_id x = r)
           ''Account'' ''credential_reference_id'' (id_value r)
       | None \<Rightarrow> Ok ())]"

definition validate_instance :: "IdentityCatalog \<Rightarrow> AgentInstance \<Rightarrow> (CatalogError, unit) result" where
  "validate_instance c i = checks
     [require (\<exists>p \<in> set (agent_providers c). ap_id p = ai_agent_provider_id i)
        ''AgentInstance'' ''agent_provider_id'' (id_value (ai_agent_provider_id i)),
      (case ai_account_id i of
         Some aid \<Rightarrow>
           and_then (ok_or (find (\<lambda>x. acc_id x = aid) (accounts c))
                       (MissingReference ''AgentInstance'' ''account_id'' (id_value aid)))
             (\<lambda>account. ensure (acc_agent_provider_id account = ai_agent_provider_id i)
                AgentProviderMismatch)
       | None \<Rightarrow> Ok ()),
      (case ai_default_model_id i of
         Some m \<Rightarrow> require (\<exists>x \<in> set (models c). mdl_id x = m)
           ''AgentInstance'' ''default_model_id'' (id_value m)
       | None \<Rightarrow> Ok ())]"

definition catalog_validate :: "IdentityCatalog \<Rightarrow> (CatalogError, unit) result" where
  "catalog_validate c = checks
     [unique ''CredentialReference'' (map (\<lambda>x. id_value (cr_id x)) (credential_references c)),
      unique ''AgentProvider'' (map (\<lambda>x. id_value (ap_id x)) (agent_providers c)),
      unique ''ModelProvider'' (map (\<lambda>x. id_value (mp_id x)) (model_providers c)),
      unique ''Account'' (map (\<lambda>x. id_value (acc_id x)) (accounts c)),
      unique ''Model'' (map (\<lambda>x. id_value (mdl_id x)) (models c)),
      unique ''AgentInstance'' (map (\<lambda>x. id_value (ai_id x)) (agent_instances c)),
      unique ''Project'' (map (\<lambda>x. id_value (prj_id x)) (projects c)),
      unique ''Role'' (map (\<lambda>x. id_value (role_id x)) (roles c)),
      unique ''Session'' (map (\<lambda>x. id_value (ses_id x)) (sessions c)),
      unique ''Run'' (map (\<lambda>x. id_value (run_id x)) (runs c)),
      validate_required_fields c,
      for_each (accounts c) (validate_account c),
      for_each (models c) (\<lambda>m.
        require (\<exists>p \<in> set (model_providers c). mp_id p = mdl_model_provider_id m)
          ''Model'' ''model_provider_id'' (id_value (mdl_model_provider_id m))),
      for_each (agent_instances c) (validate_instance c),
      for_each (sessions c) (\<lambda>s. checks
        [require (\<exists>i \<in> set (agent_instances c). ai_id i = ses_agent_instance_id s)
           ''Session'' ''agent_instance_id'' (id_value (ses_agent_instance_id s)),
         require (\<exists>p \<in> set (projects c). prj_id p = ses_project_id s)
           ''Session'' ''project_id'' (id_value (ses_project_id s))]),
      for_each (runs c) (\<lambda>r. checks
        [require (\<exists>s \<in> set (sessions c). ses_id s = run_session_id r)
           ''Run'' ''session_id'' (id_value (run_session_id r)),
         require (\<exists>m \<in> set (models c). mdl_id m = run_model_id r)
           ''Run'' ''model_id'' (id_value (run_model_id r)),
         validate_run_timing r])]"

section \<open>What a valid catalog promises\<close>

text \<open>The declarative reading: distinct identifiers, present fields, resolving references.\<close>

definition distinct_ids :: "IdentityCatalog \<Rightarrow> bool" where
  "distinct_ids c \<longleftrightarrow>
     distinct (map cr_id (credential_references c)) \<and> distinct (map ap_id (agent_providers c)) \<and>
     distinct (map mp_id (model_providers c)) \<and> distinct (map acc_id (accounts c)) \<and>
     distinct (map mdl_id (models c)) \<and> distinct (map ai_id (agent_instances c)) \<and>
     distinct (map prj_id (projects c)) \<and> distinct (map role_id (roles c)) \<and>
     distinct (map ses_id (sessions c)) \<and> distinct (map run_id (runs c))"

definition account_refs_ok :: "IdentityCatalog \<Rightarrow> Account \<Rightarrow> bool" where
  "account_refs_ok c a \<longleftrightarrow>
     acc_agent_provider_id a \<in> ap_id ` set (agent_providers c) \<and>
     (\<forall>r. acc_credential_reference_id a = Some r \<longrightarrow> r \<in> cr_id ` set (credential_references c))"

definition instance_refs_ok :: "IdentityCatalog \<Rightarrow> AgentInstance \<Rightarrow> bool" where
  "instance_refs_ok c i \<longleftrightarrow>
     ai_agent_provider_id i \<in> ap_id ` set (agent_providers c) \<and>
     (\<forall>a. ai_account_id i = Some a \<longrightarrow>
        (\<exists>x \<in> set (accounts c). acc_id x = a \<and> acc_agent_provider_id x = ai_agent_provider_id i)) \<and>
     (\<forall>m. ai_default_model_id i = Some m \<longrightarrow> m \<in> mdl_id ` set (models c))"

definition run_ok :: "IdentityCatalog \<Rightarrow> Run \<Rightarrow> bool" where
  "run_ok c r \<longleftrightarrow>
     run_session_id r \<in> ses_id ` set (sessions c) \<and> run_model_id r \<in> mdl_id ` set (models c) \<and>
     (run_state_active (run_state r) \<longrightarrow> run_started_at r \<noteq> None) \<and>
     (run_state_terminal (run_state r) \<longrightarrow> run_finished_at r \<noteq> None)"

definition references_ok :: "IdentityCatalog \<Rightarrow> bool" where
  "references_ok c \<longleftrightarrow>
     (\<forall>a \<in> set (accounts c). account_refs_ok c a) \<and>
     (\<forall>m \<in> set (models c). mdl_model_provider_id m \<in> mp_id ` set (model_providers c)) \<and>
     (\<forall>i \<in> set (agent_instances c). instance_refs_ok c i) \<and>
     (\<forall>s \<in> set (sessions c). ses_agent_instance_id s \<in> ai_id ` set (agent_instances c) \<and>
                             ses_project_id s \<in> prj_id ` set (projects c)) \<and>
     (\<forall>r \<in> set (runs c). run_ok c r)"

definition metadata_ok :: "'i EntityMetadata \<Rightarrow> bool" where
  "metadata_ok m \<longleftrightarrow>
     \<not> blank (md_created_at m) \<and> \<not> blank (md_updated_at m) \<and>
     \<not> blank (source_kind (md_provenance m)) \<and> \<not> blank (source_id (md_provenance m)) \<and>
     \<not> blank (recorded_by (md_provenance m))"

definition fields_ok :: "IdentityCatalog \<Rightarrow> bool" where
  "fields_ok c \<longleftrightarrow>
     (\<forall>p \<in> set (agent_providers c). metadata_ok (ap_metadata p) \<and>
        \<not> blank (ap_adapter_kind p) \<and> \<not> blank (ap_display_name p)) \<and>
     (\<forall>p \<in> set (model_providers c). metadata_ok (mp_metadata p) \<and> \<not> blank (mp_provider_key p)) \<and>
     (\<forall>a \<in> set (accounts c). metadata_ok (acc_metadata a) \<and> \<not> blank (acc_provider_identity a)) \<and>
     (\<forall>m \<in> set (models c). metadata_ok (mdl_metadata m) \<and> \<not> blank (mdl_provider_model_id m)) \<and>
     (\<forall>i \<in> set (agent_instances c). metadata_ok (ai_metadata i)) \<and>
     (\<forall>p \<in> set (projects c). metadata_ok (prj_metadata p) \<and> \<not> blank (prj_name p) \<and>
        \<not> blank (prj_workspace_root p) \<and> layer (prj_policy p) = ProjectLayer) \<and>
     (\<forall>r \<in> set (roles c). metadata_ok (role_metadata r) \<and> \<not> blank (role_name r) \<and>
        layer (role_policy r) = RoleOrAgent) \<and>
     (\<forall>s \<in> set (sessions c). metadata_ok (ses_metadata s) \<and>
        (\<forall>i. ses_provider_session_id s = Some i \<longrightarrow> \<not> blank i)) \<and>
     (\<forall>r \<in> set (runs c). metadata_ok (run_metadata r)) \<and>
     (\<forall>r \<in> set (credential_references c). metadata_ok (cr_metadata r) \<and>
        \<not> blank (cr_service r) \<and> \<not> blank (cr_account_label r))"

definition wf_catalog :: "IdentityCatalog \<Rightarrow> bool" where
  "wf_catalog c \<longleftrightarrow> distinct_ids c \<and> fields_ok c \<and> references_ok c"

lemma distinct_id_values [simp]: "distinct (map (\<lambda>x. id_value (f x)) xs) \<longleftrightarrow> distinct (map f xs)"
  by (simp add: distinct_map inj_on_def)

lemma is_ok_metadata [ok_simps, simp]: "is_ok (validate_metadata entity m) \<longleftrightarrow> metadata_ok m"
  by (simp add: validate_metadata_def metadata_ok_def)

lemma is_ok_account [ok_simps]: "is_ok (validate_account c a) \<longleftrightarrow> account_refs_ok c a"
  by (auto simp: validate_account_def account_refs_ok_def key_mem_iff)

lemma is_ok_instance [ok_simps]:
  assumes "distinct (map acc_id (accounts c))"
  shows "is_ok (validate_instance c i) \<longleftrightarrow> instance_refs_ok c i"
  by (auto simp: validate_instance_def instance_refs_ok_def is_ok_and_then key_mem_iff
      find_key_Some[OF assms])

lemma is_ok_required_fields [ok_simps]: "is_ok (validate_required_fields c) \<longleftrightarrow> fields_ok c"
  unfolding validate_required_fields_def fields_ok_def
  by (simp add: is_ok_for_each conj_assoc)

lemma validate_iff_wf: "is_ok (catalog_validate c) \<longleftrightarrow> wf_catalog c"
proof (cases "distinct_ids c")
  case True
  then have "distinct (map acc_id (accounts c))" by (simp add: distinct_ids_def)
  note inst = is_ok_instance[OF this]
  from True show ?thesis
    by (simp add: catalog_validate_def wf_catalog_def references_ok_def distinct_ids_def
        is_ok_for_each is_ok_account is_ok_required_fields inst run_ok_def key_mem_iff)
next
  case False
  then show ?thesis
    by (auto simp: catalog_validate_def wf_catalog_def distinct_ids_def)
qed

end
