(* ===== verification/Approval.thy ===== *)
theory Approval
  imports Catalog
begin

text \<open>
  Approval requests (\<open>crates/bastet-core/src/approval.rs\<close>): an action bound to its exact scope and
  to the single-run policy it asks for, sealed by a digest, checked against the identity catalog,
  and decided once by a named actor before it expires. \<open>encode\<close> (the JSON of
  \<open>serde_json\<close>) and the hexadecimal digest \<open>H\<close> (SHA-256) are third-party code and parameters.
\<close>

section \<open>Data\<close>

datatype ApprovalRisk = Low | Medium | High | Critical

record CredentialGrantBinding =
  cb_agent_provider_id :: AgentProviderId
  cb_account_id :: AccountId
  cb_adapter_kind :: string
  cb_provider_identity :: string
  cb_credential_reference_id :: CredentialReferenceId
  cb_backend :: CredentialBackend
  cb_service :: string
  cb_account_label :: string
  cb_capability_key :: string

record ApprovalScope =
  scope_project_id :: ProjectId
  scope_run_id :: "RunId option"
  filesystem_roots :: "string list"
  data_scopes :: "string list"
  network_destinations :: "string list"
  credential_reference_ids :: "CredentialReferenceId list"
  destination :: "string option"
  credential_binding :: "CredentialGrantBinding option"

record ApprovalAction =
  act_agent_instance_id :: AgentInstanceId
  act_role_id :: "RoleId option"
  action_key :: string
  reason_key :: string
  consequence_key :: string
  risk :: ApprovalRisk
  scope :: ApprovalScope
  requested_policy :: ScopedPolicy

record ApprovalRequest =
  req_id :: ApprovalRequestId
  request_hash :: string
  created_at_ms :: u64
  expires_at_ms :: u64
  req_action :: ApprovalAction

datatype ApprovalDecisionKind = Decision_Approve | Decision_Deny

record ApprovalDecision =
  dec_request_id :: ApprovalRequestId
  dec_request_hash :: string
  dec_kind :: ApprovalDecisionKind
  decided_at_ms :: u64
  actor :: string

datatype ApprovalError =
  Ap_EmptyField string
| Ap_InvalidExpiry
| Ap_InvalidPolicyLayer
| Ap_Policy PolicyError
| Ap_PersistentHighRisk
| Ap_HashMismatch
| Ap_Expired
| Ap_EmptyActor
| Ap_MissingReference string
| Ap_CredentialAccountRequired
| Ap_AccountCredentialRequired
| Ap_CredentialAccountMismatch
| Ap_RunAgentMismatch
| Ap_RunProjectMismatch
| Ap_CredentialUseBindingRequired
| Ap_CredentialBindingReferenceMismatch
| Ap_CredentialBindingRunRequired
| Ap_CredentialBindingRoleRequired
| Ap_EmptyCredentialCapability
| Ap_UnsupportedCredentialCapability
| Ap_CredentialPermissionRequired
| Ap_CredentialRiskRequired
| Ap_PersistentCredentialGrant
| Ap_CredentialBindingMismatch string
| Ap_CredentialBindingInactive string
| Ap_InvalidDecisionTime

section \<open>The action\<close>

definition validate_binding_shape :: "ApprovalAction \<Rightarrow> CredentialGrantBinding \<Rightarrow> (ApprovalError, unit) result" where
  "validate_binding_shape a b = checks
     [ensure (action_key a = ''credential.use'') Ap_CredentialUseBindingRequired,
      ensure (\<not> blank (cb_capability_key b)) Ap_EmptyCredentialCapability,
      ensure (cb_capability_key b = ''provider.authenticate'') Ap_UnsupportedCredentialCapability,
      ensure (scope_run_id (scope a) \<noteq> None) Ap_CredentialBindingRunRequired,
      ensure (act_role_id a \<noteq> None) Ap_CredentialBindingRoleRequired,
      ensure (credential_reference_ids (scope a) = [cb_credential_reference_id b])
        Ap_CredentialBindingReferenceMismatch,
      ensure (credential (ceiling (requested_policy a)) = Use) Ap_CredentialPermissionRequired,
      ensure (risk a \<in> {High, Critical}) Ap_CredentialRiskRequired,
      ensure (\<not> persistent_approval (ceiling (requested_policy a))) Ap_PersistentCredentialGrant]"

definition validate_action :: "ApprovalAction \<Rightarrow> ScopedPolicy \<Rightarrow> (ApprovalError, unit) result" where
  "validate_action a parent = checks
     [for_each [(''action_key'', action_key a), (''reason_key'', reason_key a),
                (''consequence_key'', consequence_key a)]
        (\<lambda>(name, value). ensure (\<not> blank value) (Ap_EmptyField name)),
      ensure (layer (requested_policy a) = SingleRun) Ap_InvalidPolicyLayer,
      and_then (map_err Ap_Policy (restrict parent (requested_policy a))) (\<lambda>_. Ok ()),
      ensure (\<not> (risk a \<in> {High, Critical} \<and> persistent_approval (ceiling (requested_policy a))))
        Ap_PersistentHighRisk,
      ensure (\<not> (action_key a = ''credential.use'' \<and> credential_binding (scope a) = None))
        Ap_CredentialUseBindingRequired,
      (case credential_binding (scope a) of None \<Rightarrow> Ok () | Some b \<Rightarrow> validate_binding_shape a b)]"

section \<open>The sealed request\<close>

record HashInput =
  hash_schema :: string
  hash_id :: ApprovalRequestId
  hash_created_at_ms :: u64
  hash_expires_at_ms :: u64
  hash_action :: ApprovalAction

definition canonical_hash ::
  "(HashInput \<Rightarrow> string) \<Rightarrow> (string \<Rightarrow> string) \<Rightarrow> ApprovalRequestId \<Rightarrow> u64 \<Rightarrow> u64 \<Rightarrow> ApprovalAction \<Rightarrow> string" where
  "canonical_hash encode H i created expires a =
     H (encode \<lparr>hash_schema = ''bastet.approval-request.v1'', hash_id = i,
                hash_created_at_ms = created, hash_expires_at_ms = expires, hash_action = a\<rparr>)"

definition approval_create ::
  "(HashInput \<Rightarrow> string) \<Rightarrow> (string \<Rightarrow> string) \<Rightarrow> ApprovalRequestId \<Rightarrow> u64 \<Rightarrow> u64 \<Rightarrow> ApprovalAction \<Rightarrow>
   ScopedPolicy \<Rightarrow> (ApprovalError, ApprovalRequest) result" where
  "approval_create encode H i created expires a parent =
     and_then (validate_action a parent) (\<lambda>_.
       if expires \<le> created then Err Ap_InvalidExpiry
       else Ok \<lparr>req_id = i, request_hash = canonical_hash encode H i created expires a,
                created_at_ms = created, expires_at_ms = expires, req_action = a\<rparr>)"

definition verify_decision :: "ApprovalRequest \<Rightarrow> ApprovalDecision \<Rightarrow> (ApprovalError, unit) result" where
  "verify_decision r d = checks
     [ensure (\<not> blank (actor d)) Ap_EmptyActor,
      ensure (dec_request_id d = req_id r \<and> dec_request_hash d = request_hash r) Ap_HashMismatch,
      ensure (\<not> decided_at_ms d < created_at_ms r) Ap_InvalidDecisionTime,
      ensure (\<not> decided_at_ms d \<ge> expires_at_ms r) Ap_Expired]"

definition validate_unchanged ::
  "(HashInput \<Rightarrow> string) \<Rightarrow> (string \<Rightarrow> string) \<Rightarrow> ApprovalRequest \<Rightarrow> (ApprovalError, unit) result" where
  "validate_unchanged encode H r =
     (if canonical_hash encode H (req_id r) (created_at_ms r) (expires_at_ms r) (req_action r) = request_hash r
      then Ok () else Err Ap_HashMismatch)"

section \<open>Checking a request against the catalog\<close>

text \<open>
  \<open>validate_credential_binding\<close> unwraps the run of the scope with \<open>expect\<close>; \<open>Panicked\<close> is that
  panic.
\<close>

definition binding_account ::
  "IdentityCatalog \<Rightarrow> AgentInstance \<Rightarrow> CredentialGrantBinding \<Rightarrow> (ApprovalError, unit) result" where
  "binding_account c agent b =
     and_then (ok_or (find (\<lambda>x. ap_id x = cb_agent_provider_id b) (agent_providers c))
                 (Ap_MissingReference ''agent_provider_id'')) (\<lambda>provider.
     and_then (checks
       [ensure (md_lifecycle (ap_metadata provider) = Active) (Ap_CredentialBindingInactive ''agent_provider''),
        ensure (ap_adapter_kind provider = cb_adapter_kind b) (Ap_CredentialBindingMismatch ''adapter_kind''),
        ensure (ai_account_id agent = Some (cb_account_id b)) (Ap_CredentialBindingMismatch ''account_id'')]) (\<lambda>_.
     and_then (ok_or (find (\<lambda>x. acc_id x = cb_account_id b) (accounts c))
                 (Ap_MissingReference ''account_id'')) (\<lambda>account.
     checks
       [ensure (md_lifecycle (acc_metadata account) = Active) (Ap_CredentialBindingInactive ''account''),
        ensure (acc_agent_provider_id account = cb_agent_provider_id b)
          (Ap_CredentialBindingMismatch ''account.agent_provider_id''),
        ensure (acc_provider_identity account = cb_provider_identity b)
          (Ap_CredentialBindingMismatch ''provider_identity''),
        ensure (acc_credential_reference_id account = Some (cb_credential_reference_id b))
          (Ap_CredentialBindingMismatch ''credential_reference_id'')])))"

definition binding_reference ::
  "IdentityCatalog \<Rightarrow> CredentialGrantBinding \<Rightarrow> (ApprovalError, unit) result" where
  "binding_reference c b =
     and_then (ok_or (find (\<lambda>x. cr_id x = cb_credential_reference_id b) (credential_references c))
                 (Ap_MissingReference ''credential_reference_id'')) (\<lambda>reference.
     checks
       [ensure (md_lifecycle (cr_metadata reference) = Active)
          (Ap_CredentialBindingInactive ''credential_reference''),
        ensure (cr_backend reference = cb_backend b) (Ap_CredentialBindingMismatch ''backend''),
        ensure (cr_service reference = cb_service b) (Ap_CredentialBindingMismatch ''service''),
        ensure (cr_account_label reference = cb_account_label b)
          (Ap_CredentialBindingMismatch ''account_label'')])"

definition binding_run ::
  "ApprovalAction \<Rightarrow> IdentityCatalog \<Rightarrow> RunId \<Rightarrow> (ApprovalError, unit) result" where
  "binding_run a c i =
     and_then (ok_or (find (\<lambda>x. run_id x = i) (runs c)) (Ap_MissingReference ''run_id'')) (\<lambda>run.
     and_then (ensure (md_lifecycle (run_metadata run) = Active) (Ap_CredentialBindingInactive ''run'')) (\<lambda>_.
     and_then (ok_or (find (\<lambda>x. ses_id x = run_session_id run) (sessions c))
                 (Ap_MissingReference ''session_id'')) (\<lambda>session.
     checks
       [ensure (md_lifecycle (ses_metadata session) = Active) (Ap_CredentialBindingInactive ''session''),
        ensure (ses_agent_instance_id session = act_agent_instance_id a) Ap_RunAgentMismatch,
        ensure (ses_project_id session = scope_project_id (scope a)) Ap_RunProjectMismatch,
        (case act_role_id a of
           None \<Rightarrow> Ok ()
         | Some role \<Rightarrow>
             and_then (ok_or (find (\<lambda>x. role_id x = role) (roles c)) (Ap_MissingReference ''role_id''))
               (\<lambda>role. ensure (md_lifecycle (role_metadata role) = Active)
                  (Ap_CredentialBindingInactive ''role'')))])))"

definition validate_credential_binding ::
  "ApprovalRequest \<Rightarrow> IdentityCatalog \<Rightarrow> AgentInstance \<Rightarrow> Project \<Rightarrow> CredentialGrantBinding \<Rightarrow>
   (ApprovalError failure, unit) result" where
  "validate_credential_binding r c agent project b =
     and_then (raising (checks
       [ensure (md_lifecycle (ai_metadata agent) = Active) (Ap_CredentialBindingInactive ''agent_instance''),
        ensure (md_lifecycle (prj_metadata project) = Active) (Ap_CredentialBindingInactive ''project''),
        ensure (ai_agent_provider_id agent = cb_agent_provider_id b)
          (Ap_CredentialBindingMismatch ''agent_provider_id''),
        binding_account c agent b,
        binding_reference c b])) (\<lambda>_.
     and_then (expect (scope_run_id (scope (req_action r))) ''validated credential run scope'') (\<lambda>i.
     raising (binding_run (req_action r) c i)))"

definition validate_run_scope :: "ApprovalAction \<Rightarrow> IdentityCatalog \<Rightarrow> (ApprovalError, unit) result" where
  "validate_run_scope a c =
     (case scope_run_id (scope a) of
        None \<Rightarrow> Ok ()
      | Some i \<Rightarrow>
          and_then (ok_or (find (\<lambda>x. run_id x = i) (runs c)) (Ap_MissingReference ''run_id'')) (\<lambda>run.
          and_then (ok_or (find (\<lambda>x. ses_id x = run_session_id run) (sessions c))
                      (Ap_MissingReference ''session_id'')) (\<lambda>session.
          checks
            [ensure (ses_agent_instance_id session = act_agent_instance_id a) Ap_RunAgentMismatch,
             ensure (ses_project_id session = scope_project_id (scope a)) Ap_RunProjectMismatch])))"

definition validate_credential_scope ::
  "ApprovalAction \<Rightarrow> IdentityCatalog \<Rightarrow> AgentInstance \<Rightarrow> (ApprovalError, unit) result" where
  "validate_credential_scope a c agent =
     (if credential_reference_ids (scope a) = [] then Ok ()
      else
        and_then (for_each (credential_reference_ids (scope a)) (\<lambda>i.
          ensure (\<exists>x \<in> set (credential_references c). cr_id x = i)
            (Ap_MissingReference ''credential_reference_id''))) (\<lambda>_.
        and_then (ok_or (ai_account_id agent) Ap_CredentialAccountRequired) (\<lambda>aid.
        and_then (ok_or (find (\<lambda>x. acc_id x = aid) (accounts c)) (Ap_MissingReference ''account_id'')) (\<lambda>account.
        and_then (ok_or (acc_credential_reference_id account) Ap_AccountCredentialRequired) (\<lambda>own.
        for_each (credential_reference_ids (scope a)) (\<lambda>i.
          ensure (i = own) Ap_CredentialAccountMismatch))))))"

definition validate_against ::
  "(HashInput \<Rightarrow> string) \<Rightarrow> (string \<Rightarrow> string) \<Rightarrow> ApprovalRequest \<Rightarrow> IdentityCatalog \<Rightarrow>
   (ApprovalError failure, unit) result" where
  "validate_against encode H r c =
     (let a = req_action r in
      and_then (raising (validate_unchanged encode H r)) (\<lambda>_.
      and_then (raising (ok_or (find (\<lambda>x. ai_id x = act_agent_instance_id a) (agent_instances c))
                  (Ap_MissingReference ''agent_instance_id''))) (\<lambda>agent.
      and_then (raising (ok_or (find (\<lambda>x. prj_id x = scope_project_id (scope a)) (projects c))
                  (Ap_MissingReference ''project_id''))) (\<lambda>project.
      and_then (raising (map_err Ap_Policy (restrict (prj_policy project) (requested_policy a)))) (\<lambda>_.
      and_then (raising (case act_role_id a of
          Some i \<Rightarrow> and_then (ok_or (find (\<lambda>x. role_id x = i) (roles c)) (Ap_MissingReference ''role_id''))
                      (\<lambda>role. Ok (role_policy role))
        | None \<Rightarrow> Ok (prj_policy project))) (\<lambda>parent.
      and_then (raising (validate_run_scope a c)) (\<lambda>_.
      and_then (raising (validate_credential_scope a c agent)) (\<lambda>_.
      and_then (case credential_binding (scope a) of
          None \<Rightarrow> Ok ()
        | Some b \<Rightarrow> validate_credential_binding r c agent project b) (\<lambda>_.
      raising (validate_action a parent))))))))))"

end
