(* ===== verification/Approval_Claims.thy ===== *)
theory Approval_Claims
  imports Approval
begin

text \<open>
  What an accepted approval request promises. \<open>authorised\<close> states it over the catalog's entities
  without lookups; the checks of \<open>approval.rs\<close> accept exactly that on a valid catalog.
\<close>

section \<open>The action\<close>

definition binding_shape_ok :: "ApprovalAction \<Rightarrow> CredentialGrantBinding \<Rightarrow> bool" where
  "binding_shape_ok a b \<longleftrightarrow>
     cb_capability_key b = ''provider.authenticate'' \<and> scope_run_id (scope a) \<noteq> None \<and>
     act_role_id a \<noteq> None \<and> credential_reference_ids (scope a) = [cb_credential_reference_id b] \<and>
     credential (ceiling (requested_policy a)) = Use \<and> risk a \<in> {High, Critical} \<and>
     \<not> persistent_approval (ceiling (requested_policy a))"

definition action_ok :: "ApprovalAction \<Rightarrow> ScopedPolicy \<Rightarrow> bool" where
  "action_ok a parent \<longleftrightarrow>
     \<not> blank (action_key a) \<and> \<not> blank (reason_key a) \<and> \<not> blank (consequence_key a) \<and>
     layer (requested_policy a) = SingleRun \<and> layer parent < SingleRun \<and>
     ceiling_within (ceiling (requested_policy a)) (ceiling parent) \<and>
     (risk a \<in> {High, Critical} \<longrightarrow> \<not> persistent_approval (ceiling (requested_policy a))) \<and>
     (action_key a = ''credential.use'' \<longleftrightarrow> credential_binding (scope a) \<noteq> None) \<and>
     (\<forall>b. credential_binding (scope a) = Some b \<longrightarrow> binding_shape_ok a b)"

lemma provider_authenticate_nonblank: "\<not> blank ''provider.authenticate''"
  by code_simp

lemma is_ok_binding_shape [ok_simps]:
  "is_ok (validate_binding_shape a b) \<longleftrightarrow> action_key a = ''credential.use'' \<and> binding_shape_ok a b"
  using provider_authenticate_nonblank
  by (auto simp: validate_binding_shape_def binding_shape_ok_def)

lemma is_ok_action [ok_simps]: "is_ok (validate_action a parent) \<longleftrightarrow> action_ok a parent"
  by (cases "credential_binding (scope a)")
     (auto simp: validate_action_def action_ok_def is_ok_for_each is_ok_restrict is_ok_binding_shape
       is_ok_and_then is_ok_iff[symmetric] simp del: not_None_eq)

section \<open>The request and the catalog\<close>

definition run_in_scope :: "IdentityCatalog \<Rightarrow> ApprovalAction \<Rightarrow> RunId \<Rightarrow> bool" where
  "run_in_scope c a i \<longleftrightarrow>
     (\<exists>run \<in> set (runs c). \<exists>s \<in> set (sessions c). run_id run = i \<and> ses_id s = run_session_id run \<and>
        ses_agent_instance_id s = act_agent_instance_id a \<and> ses_project_id s = scope_project_id (scope a))"

definition owns_credential :: "IdentityCatalog \<Rightarrow> AgentInstance \<Rightarrow> CredentialReferenceId \<Rightarrow> bool" where
  "owns_credential c agent i \<longleftrightarrow>
     i \<in> cr_id ` set (credential_references c) \<and>
     (\<exists>account \<in> set (accounts c). ai_account_id agent = Some (acc_id account) \<and>
        acc_credential_reference_id account = Some i)"

definition run_live :: "IdentityCatalog \<Rightarrow> RunId \<Rightarrow> bool" where
  "run_live c i \<longleftrightarrow>
     (\<exists>run \<in> set (runs c). \<exists>s \<in> set (sessions c). run_id run = i \<and> ses_id s = run_session_id run \<and>
        md_lifecycle (run_metadata run) = Active \<and> md_lifecycle (ses_metadata s) = Active)"

definition binding_live ::
  "IdentityCatalog \<Rightarrow> ApprovalAction \<Rightarrow> AgentInstance \<Rightarrow> Project \<Rightarrow> CredentialGrantBinding \<Rightarrow> bool" where
  "binding_live c a agent project b \<longleftrightarrow>
     md_lifecycle (ai_metadata agent) = Active \<and> md_lifecycle (prj_metadata project) = Active \<and>
     ai_agent_provider_id agent = cb_agent_provider_id b \<and> ai_account_id agent = Some (cb_account_id b) \<and>
     (\<exists>p \<in> set (agent_providers c). ap_id p = cb_agent_provider_id b \<and>
        md_lifecycle (ap_metadata p) = Active \<and> ap_adapter_kind p = cb_adapter_kind b) \<and>
     (\<exists>x \<in> set (accounts c). acc_id x = cb_account_id b \<and> md_lifecycle (acc_metadata x) = Active \<and>
        acc_agent_provider_id x = cb_agent_provider_id b \<and>
        acc_provider_identity x = cb_provider_identity b \<and>
        acc_credential_reference_id x = Some (cb_credential_reference_id b)) \<and>
     (\<exists>x \<in> set (credential_references c). cr_id x = cb_credential_reference_id b \<and>
        md_lifecycle (cr_metadata x) = Active \<and> cr_backend x = cb_backend b \<and>
        cr_service x = cb_service b \<and> cr_account_label x = cb_account_label b) \<and>
     (\<exists>i. scope_run_id (scope a) = Some i \<and> run_live c i) \<and>
     (\<forall>i. act_role_id a = Some i \<longrightarrow>
        (\<exists>x \<in> set (roles c). role_id x = i \<and> md_lifecycle (role_metadata x) = Active))"

definition parent_policy :: "IdentityCatalog \<Rightarrow> ApprovalAction \<Rightarrow> Project \<Rightarrow> ScopedPolicy \<Rightarrow> bool" where
  "parent_policy c a project p \<longleftrightarrow>
     (case act_role_id a of
        None \<Rightarrow> p = prj_policy project
      | Some i \<Rightarrow> \<exists>x \<in> set (roles c). role_id x = i \<and> p = role_policy x)"

definition authorised :: "IdentityCatalog \<Rightarrow> ApprovalAction \<Rightarrow> bool" where
  "authorised c a \<longleftrightarrow>
     (\<exists>agent \<in> set (agent_instances c). \<exists>project \<in> set (projects c). \<exists>parent.
        ai_id agent = act_agent_instance_id a \<and> prj_id project = scope_project_id (scope a) \<and>
        is_ok (restrict (prj_policy project) (requested_policy a)) \<and>
        parent_policy c a project parent \<and> action_ok a parent \<and>
        (\<forall>i. scope_run_id (scope a) = Some i \<longrightarrow> run_in_scope c a i) \<and>
        (\<forall>i \<in> set (credential_reference_ids (scope a)). owns_credential c agent i) \<and>
        (\<forall>b. credential_binding (scope a) = Some b \<longrightarrow> binding_live c a agent project b))"

lemma distinct_ids_of:
  assumes "wf_catalog c"
  shows "distinct (map cr_id (credential_references c))" "distinct (map ap_id (agent_providers c))"
    "distinct (map acc_id (accounts c))" "distinct (map ai_id (agent_instances c))"
    "distinct (map prj_id (projects c))" "distinct (map role_id (roles c))"
    "distinct (map ses_id (sessions c))" "distinct (map run_id (runs c))"
  using assms by (simp_all add: wf_catalog_def distinct_ids_def)

text \<open>A lookup in a valid catalog finds the one entity with the identifier.\<close>

lemmas catalog_lookups = distinct_ids_of[THEN find_key_Some]

lemma is_ok_run_scope:
  assumes "wf_catalog c"
  shows "is_ok (validate_run_scope a c) \<longleftrightarrow> (\<forall>i. scope_run_id (scope a) = Some i \<longrightarrow> run_in_scope c a i)"
  by (cases "scope_run_id (scope a)")
     (auto simp: validate_run_scope_def run_in_scope_def is_ok_and_then catalog_lookups[OF assms])

lemma owns_credential_unique:
  assumes "wf_catalog c" and "owns_credential c agent i" and "owns_credential c agent j"
  shows "i = j"
  using assms distinct_key_eq[where key = acc_id, OF distinct_ids_of(3)[OF assms(1)]]
  unfolding owns_credential_def by (metis option.inject)

lemma is_ok_credential_scope:
  assumes "wf_catalog c"
  shows "is_ok (validate_credential_scope a c agent) \<longleftrightarrow>
    (\<forall>i \<in> set (credential_reference_ids (scope a)). owns_credential c agent i)"
proof (cases "credential_reference_ids (scope a)")
  case (Cons r rs)
  have "is_ok (validate_credential_scope a c agent) \<longleftrightarrow>
      (\<forall>i \<in> set (r # rs). i \<in> cr_id ` set (credential_references c)) \<and>
      (\<exists>x \<in> set (accounts c). ai_account_id agent = Some (acc_id x) \<and>
        (\<exists>own. acc_credential_reference_id x = Some own \<and> (\<forall>i \<in> set (r # rs). i = own)))"
    by (auto simp: validate_credential_scope_def Cons is_ok_and_then is_ok_for_each is_ok_unit[symmetric]
        key_mem_iff catalog_lookups[OF assms])
  also have "\<dots> \<longleftrightarrow> (\<forall>i \<in> set (r # rs). owns_credential c agent i)"
    (is "?own \<longleftrightarrow> _")
  proof
    assume ?own
    then show "\<forall>i \<in> set (r # rs). owns_credential c agent i" by (auto simp: owns_credential_def)
  next
    assume own: "\<forall>i \<in> set (r # rs). owns_credential c agent i"
    then have "\<forall>i \<in> set (r # rs). i = r" using owns_credential_unique[OF assms] by force
    with own show ?own by (auto simp: owns_credential_def)
  qed
  finally show ?thesis by (simp add: Cons)
qed (simp add: validate_credential_scope_def)

lemma is_ok_binding_account:
  assumes "wf_catalog c"
  shows "is_ok (binding_account c agent b) \<longleftrightarrow>
     ai_account_id agent = Some (cb_account_id b) \<and>
     (\<exists>p \<in> set (agent_providers c). ap_id p = cb_agent_provider_id b \<and>
        md_lifecycle (ap_metadata p) = Active \<and> ap_adapter_kind p = cb_adapter_kind b) \<and>
     (\<exists>x \<in> set (accounts c). acc_id x = cb_account_id b \<and> md_lifecycle (acc_metadata x) = Active \<and>
        acc_agent_provider_id x = cb_agent_provider_id b \<and>
        acc_provider_identity x = cb_provider_identity b \<and>
        acc_credential_reference_id x = Some (cb_credential_reference_id b))"
  unfolding binding_account_def
  by (auto simp: is_ok_and_then is_ok_unit[symmetric] catalog_lookups[OF assms])

lemma is_ok_binding_reference:
  assumes "wf_catalog c"
  shows "is_ok (binding_reference c b) \<longleftrightarrow>
     (\<exists>x \<in> set (credential_references c). cr_id x = cb_credential_reference_id b \<and>
        md_lifecycle (cr_metadata x) = Active \<and> cr_backend x = cb_backend b \<and>
        cr_service x = cb_service b \<and> cr_account_label x = cb_account_label b)"
  unfolding binding_reference_def by (auto simp: is_ok_and_then catalog_lookups[OF assms])

lemma is_ok_binding_run:
  assumes "wf_catalog c"
  shows "is_ok (binding_run a c i) \<longleftrightarrow> run_live c i \<and> run_in_scope c a i \<and>
     (\<forall>i. act_role_id a = Some i \<longrightarrow>
        (\<exists>x \<in> set (roles c). role_id x = i \<and> md_lifecycle (role_metadata x) = Active))"
proof -
  have role: "is_ok (case act_role_id a of None \<Rightarrow> Ok ()
      | Some role \<Rightarrow> and_then (ok_or (find (\<lambda>x. role_id x = role) (roles c)) (Ap_MissingReference ''role_id''))
          (\<lambda>role. ensure (md_lifecycle (role_metadata role) = Active) (Ap_CredentialBindingInactive ''role''))) \<longleftrightarrow>
    (\<forall>i. act_role_id a = Some i \<longrightarrow>
        (\<exists>x \<in> set (roles c). role_id x = i \<and> md_lifecycle (role_metadata x) = Active))"
    by (auto simp: is_ok_and_then catalog_lookups[OF assms])
  have "is_ok (binding_run a c i) \<longleftrightarrow>
     (\<exists>run \<in> set (runs c). \<exists>s \<in> set (sessions c). run_id run = i \<and> ses_id s = run_session_id run \<and>
        md_lifecycle (run_metadata run) = Active \<and> md_lifecycle (ses_metadata s) = Active \<and>
        ses_agent_instance_id s = act_agent_instance_id a \<and> ses_project_id s = scope_project_id (scope a)) \<and>
     (\<forall>i. act_role_id a = Some i \<longrightarrow>
        (\<exists>x \<in> set (roles c). role_id x = i \<and> md_lifecycle (role_metadata x) = Active))"
    unfolding binding_run_def
    by (simp add: is_ok_and_then is_ok_unit[symmetric] catalog_lookups[OF assms] role) blast
  then show ?thesis
    using distinct_key_eq[where key = run_id, OF distinct_ids_of(8)[OF assms]]
      distinct_key_eq[where key = ses_id, OF distinct_ids_of(7)[OF assms]]
    unfolding run_live_def run_in_scope_def by metis
qed

lemma is_ok_credential_binding:
  assumes "wf_catalog c"
  shows "is_ok (validate_credential_binding r c agent project b) \<longleftrightarrow>
    binding_live c (req_action r) agent project b \<and>
    (\<forall>i. scope_run_id (scope (req_action r)) = Some i \<longrightarrow> run_in_scope c (req_action r) i)"
  unfolding validate_credential_binding_def binding_live_def
  by (cases "scope_run_id (scope (req_action r))")
     (auto simp: is_ok_and_then is_ok_unit[symmetric] is_ok_binding_account[OF assms]
       is_ok_binding_reference[OF assms] is_ok_binding_run[OF assms] expect_def)

text \<open>\<open>and_then\<close> chains whose results are lookups or units, split into their parts.\<close>

lemma validate_against_iff:
  assumes "wf_catalog c"
  shows "is_ok (validate_against encode H r c) \<longleftrightarrow>
    is_ok (validate_unchanged encode H r) \<and> authorised c (req_action r)"
proof -
  let ?a = "req_action r"
  have parent: "(case act_role_id ?a of
        Some i \<Rightarrow> and_then (ok_or (find (\<lambda>x. role_id x = i) (roles c)) (Ap_MissingReference ''role_id''))
                    (\<lambda>role. Ok (role_policy role))
      | None \<Rightarrow> Ok (prj_policy project)) = Inr p \<longleftrightarrow> parent_policy c ?a project p" for project p
    by (auto simp: parent_policy_def and_then_eq_Ok catalog_lookups[OF assms] split: option.splits)
  show ?thesis
    unfolding validate_against_def Let_def authorised_def is_ok_and_then map_err_eq_Ok ok_or_eq_Ok
      catalog_lookups[OF assms] parent
    by (simp add: is_ok_unit[symmetric] is_ok_iff[symmetric] is_ok_run_scope[OF assms]
        is_ok_credential_scope[OF assms] is_ok_action is_ok_credential_binding[OF assms]) blast
qed

section \<open>The seal\<close>

definition hash_input :: "ApprovalRequest \<Rightarrow> HashInput" where
  "hash_input r = \<lparr>hash_schema = ''bastet.approval-request.v1'', hash_id = req_id r,
     hash_created_at_ms = created_at_ms r, hash_expires_at_ms = expires_at_ms r,
     hash_action = req_action r\<rparr>"


lemma validate_unchanged_iff:
  "validate_unchanged encode H r = Inr () \<longleftrightarrow> request_hash r = H (encode (hash_input r))"
  by (auto simp: validate_unchanged_def canonical_hash_def hash_input_def)

interpretation request_seal: content_seal hash_input request_hash "\<lambda>i. H (encode i)"
    "\<lambda>r. validate_unchanged encode H r = Inr ()" for encode H
  by unfold_locales (simp add: validate_unchanged_iff)

lemma verify_decision_iff:
  "verify_decision r d = Inr () \<longleftrightarrow>
     \<not> blank (actor d) \<and> dec_request_id d = req_id r \<and> dec_request_hash d = request_hash r \<and>
     created_at_ms r \<le> decided_at_ms d \<and> decided_at_ms d < expires_at_ms r"
  by (auto simp: verify_decision_def is_ok_unit[symmetric] not_less not_le)

section \<open>Panics\<close>

lemma credential_binding_panics:
  "panics (validate_credential_binding r c agent project b) \<Longrightarrow> scope_run_id (scope (req_action r)) = None"
  by (auto simp: validate_credential_binding_def panics_and_then expect_def split: option.splits)

lemma validate_against_panics:
  assumes "panics (validate_against encode H r c)"
  shows "\<exists>b. credential_binding (scope (req_action r)) = Some b \<and> scope_run_id (scope (req_action r)) = None"
  using assms unfolding validate_against_def Let_def
  by (auto simp: panics_and_then dest: credential_binding_panics split: option.splits)

section \<open>A sample catalog\<close>

definition sample_meta :: "'i \<Rightarrow> 'i EntityMetadata" where
  "sample_meta i = \<lparr>md_id = i, md_revision = 0, md_created_at = ''t'', md_updated_at = ''t'',
     md_provenance = \<lparr>source_kind = ''user'', source_id = ''u'', recorded_by = ''u''\<rparr>, md_lifecycle = Active\<rparr>"

definition sample_policy :: "PolicyLayer \<Rightarrow> ScopedPolicy" where
  "sample_policy l = \<lparr>layer = l, ceiling = \<lparr>filesystem = Use, network = Observe, process = Use,
     device = Deny, credential = Use, persistent_approval = False\<rparr>\<rparr>"

definition sample_catalog :: IdentityCatalog where
  "sample_catalog =
     \<lparr>credential_references = [\<lparr>cr_metadata = sample_meta (StableId 1), cr_backend = LinuxSecretService,
        cr_service = ''bastet'', cr_account_label = ''main''\<rparr>],
      agent_providers = [\<lparr>ap_metadata = sample_meta (StableId 2), ap_adapter_kind = ''codex'',
        ap_display_name = ''Codex''\<rparr>],
      model_providers = [\<lparr>mp_metadata = sample_meta (StableId 3), mp_provider_key = ''openai'',
        mp_display_name = ''OpenAI''\<rparr>],
      accounts = [\<lparr>acc_metadata = sample_meta (StableId 4), acc_agent_provider_id = StableId 2,
        acc_provider_identity = ''me'', acc_credential_reference_id = Some (StableId 1)\<rparr>],
      models = [\<lparr>mdl_metadata = sample_meta (StableId 5), mdl_model_provider_id = StableId 3,
        mdl_provider_model_id = ''m'', mdl_reasoning_controls = []\<rparr>],
      agent_instances = [\<lparr>ai_metadata = sample_meta (StableId 6), ai_agent_provider_id = StableId 2,
        ai_account_id = Some (StableId 4), ai_default_model_id = Some (StableId 5)\<rparr>],
      projects = [\<lparr>prj_metadata = sample_meta (StableId 7), prj_name = ''p'', prj_workspace_root = ''/p'',
        prj_policy = sample_policy ProjectLayer\<rparr>],
      roles = [\<lparr>role_metadata = sample_meta (StableId 8), role_name = ''r'', role_responsibilities = [],
        role_policy = sample_policy RoleOrAgent\<rparr>],
      sessions = [\<lparr>ses_metadata = sample_meta (StableId 9), ses_agent_instance_id = StableId 6,
        ses_project_id = StableId 7, ses_provider_session_id = None\<rparr>],
      runs = [\<lparr>run_metadata = sample_meta (StableId 10), run_session_id = StableId 9,
        run_model_id = StableId 5, run_state = Run_Starting, run_started_at = None,
        run_finished_at = None\<rparr>]\<rparr>"

definition sample_binding :: CredentialGrantBinding where
  "sample_binding = \<lparr>cb_agent_provider_id = StableId 2, cb_account_id = StableId 4,
     cb_adapter_kind = ''codex'', cb_provider_identity = ''me'', cb_credential_reference_id = StableId 1,
     cb_backend = LinuxSecretService, cb_service = ''bastet'', cb_account_label = ''main'',
     cb_capability_key = ''provider.authenticate''\<rparr>"

definition sample_action :: "RunId option \<Rightarrow> ApprovalAction" where
  "sample_action run = \<lparr>act_agent_instance_id = StableId 6, act_role_id = Some (StableId 8),
     action_key = ''credential.use'', reason_key = ''login'', consequence_key = ''network'', risk = High,
     scope = \<lparr>scope_project_id = StableId 7, scope_run_id = run, filesystem_roots = [], data_scopes = [],
       network_destinations = [], credential_reference_ids = [StableId 1], destination = None,
       credential_binding = Some sample_binding\<rparr>,
     requested_policy = sample_policy SingleRun\<rparr>"

text \<open>An encoding for evaluation: the action key, which identifies the sample requests enough.\<close>

definition sample_encode :: "HashInput \<Rightarrow> string" where
  "sample_encode i = action_key (hash_action i)"

definition sample_request :: "RunId option \<Rightarrow> ApprovalRequest" where
  "sample_request run = \<lparr>req_id = StableId 11, request_hash = ''credential.use'', created_at_ms = 100,
     expires_at_ms = 200, req_action = sample_action run\<rparr>"

lemma sample_catalog_valid: "catalog_validate sample_catalog = Ok ()"
  by code_simp

section \<open>Claims\<close>

text \<open>C7. Against a valid catalog, \<open>validate_against\<close> accepts exactly the requests whose digest is
  intact and whose action is authorised: agent and project exist, the single-run policy stays
  within the project's ceiling and the role's, a run in scope belongs to that agent and project,
  every credential is the acting account's own, high-risk actions are not persistent, and a
  credential grant names live entities that match it field by field.\<close>

theorem approval_accepts_exactly_authorised:
  assumes "catalog_validate c = Ok ()"
  shows "validate_against encode H r c = Ok () \<longleftrightarrow>
    validate_unchanged encode H r = Ok () \<and> authorised c (req_action r)"
  using validate_against_iff[of c encode H r] validate_iff_wf[of c] assms
  by (simp add: is_ok_unit)

theorem approval_accepts_exactly_authorised_witness:
  "validate_unchanged sample_encode id (sample_request (Some (StableId 10))) = Ok () \<and>
   authorised sample_catalog (sample_action (Some (StableId 10)))"
proof -
  have "validate_against sample_encode id (sample_request (Some (StableId 10))) sample_catalog = Ok ()"
    by code_simp
  with approval_accepts_exactly_authorised[OF sample_catalog_valid, of sample_encode id
      "sample_request (Some (StableId 10))"]
  show ?thesis by (simp add: sample_request_def)
qed


definition sample_decision :: ApprovalDecision where
  "sample_decision = \<lparr>dec_request_id = StableId 11, dec_request_hash = ''credential.use'',
     dec_kind = Decision_Approve, decided_at_ms = 150, actor = ''owner''\<rparr>"


text \<open>A request created for an action its parent policy allows is intact, can be decided by a
  named actor at every moment from its creation until just before its expiry, and a copy whose
  content was changed to one with another digest is refused.\<close>

theorem created_request_is_sealed:
  assumes "approval_create encode H i created expires a parent = Ok r"
  shows "validate_unchanged encode H r = Ok () \<and> req_action r = a \<and>
    (verify_decision r d = Ok () \<longleftrightarrow> \<not> blank (actor d) \<and> dec_request_id d = i \<and>
       dec_request_hash d = request_hash r \<and> created \<le> decided_at_ms d \<and> decided_at_ms d < expires) \<and>
    (H (encode (hash_input (r\<lparr>req_action := a'\<rparr>))) \<noteq> H (encode (hash_input r)) \<longrightarrow>
       validate_unchanged encode H (r\<lparr>req_action := a'\<rparr>) = Err Ap_HashMismatch)"
proof -
  from assms have r: "validate_unchanged encode H r = Ok ()" "req_action r = a" "req_id r = i"
    "created_at_ms r = created" "expires_at_ms r = expires"
    by (auto simp: approval_create_def and_then_eq_Ok validate_unchanged_def split: if_splits)
  have "validate_unchanged encode H (r\<lparr>req_action := a'\<rparr>) \<noteq> Ok ()"
    if "H (encode (hash_input (r\<lparr>req_action := a'\<rparr>))) \<noteq> H (encode (hash_input r))"
    by (rule request_seal.tampering_detected[OF r(1) _ that]) simp
  then have "validate_unchanged encode H (r\<lparr>req_action := a'\<rparr>) = Err Ap_HashMismatch"
    if "H (encode (hash_input (r\<lparr>req_action := a'\<rparr>))) \<noteq> H (encode (hash_input r))"
    using that by (auto simp: validate_unchanged_def split: if_splits)
  with r show ?thesis by (simp add: verify_decision_iff)
qed

theorem created_request_is_sealed_witness:
  "\<exists>r. approval_create sample_encode id (StableId 11) 100 200 (sample_action (Some (StableId 10)))
       (sample_policy RoleOrAgent) = Ok r \<and>
     validate_unchanged sample_encode id
       (r\<lparr>req_action := (sample_action None)\<lparr>action_key := ''other''\<rparr>\<rparr>) = Err Ap_HashMismatch"
proof -
  have "is_ok (approval_create sample_encode id (StableId 11) 100 200 (sample_action (Some (StableId 10)))
       (sample_policy RoleOrAgent))" by code_simp
  then obtain r where r: "approval_create sample_encode id (StableId 11) 100 200
      (sample_action (Some (StableId 10))) (sample_policy RoleOrAgent) = Ok r" by (auto simp: is_ok_iff)
  then have "action_key (req_action r) = ''credential.use''"
    by (auto simp: approval_create_def and_then_eq_Ok sample_action_def split: if_splits)
  with created_request_is_sealed[OF r, of sample_decision "(sample_action None)\<lparr>action_key := ''other''\<rparr>"] r
  show ?thesis by (auto simp: sample_encode_def hash_input_def)
qed

text \<open>The checks never panic on a request that names a run or carries no credential binding.\<close>

theorem validate_against_no_panic:
  assumes "scope_run_id (scope (req_action r)) \<noteq> None \<or> credential_binding (scope (req_action r)) = None"
  shows "\<not> panics (validate_against encode H r c)"
  using assms validate_against_panics by fastforce

theorem validate_against_no_panic_witness:
  "\<not> panics (validate_against sample_encode id (sample_request (Some (StableId 10))) sample_catalog)"
  by (rule validate_against_no_panic) (simp add: sample_request_def sample_action_def)

text \<open>A credential binding without a run does panic: the request is well-typed, its digest is
  intact and the catalog is valid, and \<open>validate_credential_binding\<close> reaches its \<open>expect\<close> before
  \<open>validate_action\<close> could return the error meant for that case.\<close>

theorem credential_binding_without_run_panics:
  "catalog_validate sample_catalog = Ok () \<and>
   validate_unchanged sample_encode id (sample_request None) = Ok () \<and>
   validate_against sample_encode id (sample_request None) sample_catalog =
     Err (Panicked ''validated credential run scope'') \<and>
   validate_action (sample_action None) (sample_policy RoleOrAgent) = Err Ap_CredentialBindingRunRequired"
  by (intro conjI sample_catalog_valid) code_simp+

end
