(* ===== verification/Office.thy ===== *)
theory Office
  imports Catalog
begin

text \<open>
  The office: pet profiles, their assignment to the agents that play a project's roles, and rooms
  (\<open>crates/bastet-core/src/office.rs\<close>), with the validation against the identity catalog.
\<close>

definition REQUIRED_PET_STATES :: "string list" where
  "REQUIRED_PET_STATES = [''idle'', ''thinking'', ''working'', ''waiting'', ''blocked'',
     ''approval_required'', ''succeeded'', ''failed'']"

record PetStateAsset =
  state_key :: string
  asset_ref :: string
  accessible_label_key :: string

record PetProfile =
  pp_metadata :: "PetProfileId EntityMetadata"
  pp_name :: string
  pp_version :: u32
  pp_states :: "PetStateAsset list"

record PetAssignment =
  pa_metadata :: "PetAssignmentId EntityMetadata"
  pa_project_id :: ProjectId
  pa_role_id :: RoleId
  pa_agent_instance_id :: AgentInstanceId
  pa_pet_profile_id :: PetProfileId

record Room =
  room_metadata :: "RoomId EntityMetadata"
  room_project_id :: ProjectId
  room_name :: string
  room_capacity :: u16

record OfficeCatalog =
  pet_profiles :: "PetProfile list"
  pet_assignments :: "PetAssignment list"
  rooms :: "Room list"

definition default_office :: OfficeCatalog where
  "default_office = \<lparr>pet_profiles = [], pet_assignments = [], rooms = []\<rparr>"

abbreviation pp_id :: "PetProfile \<Rightarrow> PetProfileId" where "pp_id x \<equiv> md_id (pp_metadata x)"
abbreviation pa_id :: "PetAssignment \<Rightarrow> PetAssignmentId" where "pa_id x \<equiv> md_id (pa_metadata x)"
abbreviation room_id :: "Room \<Rightarrow> RoomId" where "room_id x \<equiv> md_id (room_metadata x)"

datatype OfficeError =
  Of_DuplicateId string uuid
| Of_EmptyField string string
| Of_InvalidVersion
| Of_InvalidCapacity
| Of_MissingPetState string
| Of_DuplicatePetState string
| Of_MissingPetProfile
| Of_MissingIdentityReference
| Of_MissingProject
| Of_DuplicateRoleAssignment

section \<open>Validation\<close>

definition office_unique :: "string \<Rightarrow> uuid list \<Rightarrow> (OfficeError, unit) result" where
  "office_unique entity ids =
     (case find_duplicate {} ids of
        Some i \<Rightarrow> Err (Of_DuplicateId entity i)
      | None \<Rightarrow> Ok ())"

definition office_nonempty :: "string \<Rightarrow> string \<Rightarrow> string \<Rightarrow> (OfficeError, unit) result" where
  "office_nonempty entity field value = (if blank value then Err (Of_EmptyField entity field) else Ok ())"

text \<open>The loop over a profile's states, with the set \<open>states\<close> it fills.\<close>

fun collect_pet_states :: "string set \<Rightarrow> PetStateAsset list \<Rightarrow> (OfficeError, string set) result" where
  "collect_pet_states states [] = Ok states"
| "collect_pet_states states (s # ss) =
     and_then (checks
       [office_nonempty ''PetStateAsset'' ''state_key'' (state_key s),
        office_nonempty ''PetStateAsset'' ''asset_ref'' (asset_ref s),
        office_nonempty ''PetStateAsset'' ''accessible_label_key'' (accessible_label_key s),
        ensure (state_key s \<notin> states) (Of_DuplicatePetState (state_key s))])
       (\<lambda>_. collect_pet_states (insert (state_key s) states) ss)"

definition validate_pet_profile :: "PetProfile \<Rightarrow> (OfficeError, unit) result" where
  "validate_pet_profile p = checks
     [office_nonempty ''PetProfile'' ''name'' (pp_name p),
      ensure (pp_version p \<noteq> 0) Of_InvalidVersion,
      and_then (collect_pet_states {} (pp_states p)) (\<lambda>states.
        for_each REQUIRED_PET_STATES (\<lambda>required. ensure (required \<in> states) (Of_MissingPetState required)))]"

text \<open>The loop over the assignments, with the set \<open>assigned_roles\<close>.\<close>

fun validate_assignments ::
  "OfficeCatalog \<Rightarrow> IdentityCatalog \<Rightarrow> (ProjectId \<times> RoleId) set \<Rightarrow> PetAssignment list \<Rightarrow>
   (OfficeError, unit) result" where
  "validate_assignments office identity assigned [] = Ok ()"
| "validate_assignments office identity assigned (a # as) =
     and_then (checks
       [ensure (\<exists>p \<in> set (pet_profiles office). pp_id p = pa_pet_profile_id a) Of_MissingPetProfile,
        ensure (\<not> (\<not> (\<exists>p \<in> set (projects identity). prj_id p = pa_project_id a) \<or>
                   \<not> (\<exists>r \<in> set (roles identity). role_id r = pa_role_id a) \<or>
                   \<not> (\<exists>i \<in> set (agent_instances identity). ai_id i = pa_agent_instance_id a)))
          Of_MissingIdentityReference,
        ensure ((pa_project_id a, pa_role_id a) \<notin> assigned) Of_DuplicateRoleAssignment])
       (\<lambda>_. validate_assignments office identity (insert (pa_project_id a, pa_role_id a) assigned) as)"

definition validate_room :: "IdentityCatalog \<Rightarrow> Room \<Rightarrow> (OfficeError, unit) result" where
  "validate_room identity r = checks
     [office_nonempty ''Room'' ''name'' (room_name r),
      ensure (room_capacity r \<noteq> 0) Of_InvalidCapacity,
      ensure (\<exists>p \<in> set (projects identity). prj_id p = room_project_id r) Of_MissingProject]"

definition office_validate :: "OfficeCatalog \<Rightarrow> IdentityCatalog \<Rightarrow> (OfficeError, unit) result" where
  "office_validate office identity = checks
     [office_unique ''PetProfile'' (map (\<lambda>x. id_value (pp_id x)) (pet_profiles office)),
      office_unique ''PetAssignment'' (map (\<lambda>x. id_value (pa_id x)) (pet_assignments office)),
      office_unique ''Room'' (map (\<lambda>x. id_value (room_id x)) (rooms office)),
      for_each (pet_profiles office) validate_pet_profile,
      validate_assignments office identity {} (pet_assignments office),
      for_each (rooms office) (validate_room identity)]"

section \<open>What a valid office promises\<close>

definition pet_profile_ok :: "PetProfile \<Rightarrow> bool" where
  "pet_profile_ok p \<longleftrightarrow>
     \<not> blank (pp_name p) \<and> pp_version p \<noteq> 0 \<and>
     (\<forall>s \<in> set (pp_states p). \<not> blank (state_key s) \<and> \<not> blank (asset_ref s) \<and>
        \<not> blank (accessible_label_key s)) \<and>
     distinct (map state_key (pp_states p)) \<and>
     set REQUIRED_PET_STATES \<subseteq> state_key ` set (pp_states p)"

definition assignment_refs_ok :: "OfficeCatalog \<Rightarrow> IdentityCatalog \<Rightarrow> PetAssignment \<Rightarrow> bool" where
  "assignment_refs_ok office identity a \<longleftrightarrow>
     pa_pet_profile_id a \<in> pp_id ` set (pet_profiles office) \<and>
     pa_project_id a \<in> prj_id ` set (projects identity) \<and>
     pa_role_id a \<in> role_id ` set (roles identity) \<and>
     pa_agent_instance_id a \<in> ai_id ` set (agent_instances identity)"

definition room_ok :: "IdentityCatalog \<Rightarrow> Room \<Rightarrow> bool" where
  "room_ok identity r \<longleftrightarrow> \<not> blank (room_name r) \<and> room_capacity r \<noteq> 0 \<and>
     room_project_id r \<in> prj_id ` set (projects identity)"

definition wf_office :: "OfficeCatalog \<Rightarrow> IdentityCatalog \<Rightarrow> bool" where
  "wf_office office identity \<longleftrightarrow>
     distinct (map pp_id (pet_profiles office)) \<and> distinct (map pa_id (pet_assignments office)) \<and>
     distinct (map room_id (rooms office)) \<and>
     (\<forall>p \<in> set (pet_profiles office). pet_profile_ok p) \<and>
     (\<forall>a \<in> set (pet_assignments office). assignment_refs_ok office identity a) \<and>
     distinct (map (\<lambda>a. (pa_project_id a, pa_role_id a)) (pet_assignments office)) \<and>
     (\<forall>r \<in> set (rooms office). room_ok identity r)"

lemma is_ok_office_unique [ok_simps, simp]: "is_ok (office_unique entity ids) \<longleftrightarrow> distinct ids"
  by (auto simp: office_unique_def split: option.splits)

lemma is_ok_office_nonempty [ok_simps, simp]: "is_ok (office_nonempty entity field s) \<longleftrightarrow> \<not> blank s"
  by (simp add: office_nonempty_def)

lemma collect_pet_states_iff:
  "collect_pet_states seen ss = Inr states \<longleftrightarrow>
     (\<forall>s \<in> set ss. \<not> blank (state_key s) \<and> \<not> blank (asset_ref s) \<and> \<not> blank (accessible_label_key s)) \<and>
     distinct (map state_key ss) \<and> seen \<inter> state_key ` set ss = {} \<and>
     states = seen \<union> state_key ` set ss"
proof (induction ss arbitrary: seen)
  case (Cons s ss)
  have "collect_pet_states seen (s # ss) = Inr states \<longleftrightarrow>
      \<not> blank (state_key s) \<and> \<not> blank (asset_ref s) \<and> \<not> blank (accessible_label_key s) \<and>
      state_key s \<notin> seen \<and> collect_pet_states (insert (state_key s) seen) ss = Inr states"
    by (auto simp: and_then_eq_Ok is_ok_unit[symmetric])
  then show ?case unfolding Cons.IH by auto
qed auto

lemma is_ok_pet_profile [ok_simps]: "is_ok (validate_pet_profile p) \<longleftrightarrow> pet_profile_ok p"
proof -
  have "is_ok (and_then (collect_pet_states {} (pp_states p)) (\<lambda>states.
        for_each REQUIRED_PET_STATES (\<lambda>required. ensure (required \<in> states) (Of_MissingPetState required)))) \<longleftrightarrow>
      (\<forall>s \<in> set (pp_states p). \<not> blank (state_key s) \<and> \<not> blank (asset_ref s) \<and>
        \<not> blank (accessible_label_key s)) \<and>
      distinct (map state_key (pp_states p)) \<and>
      (\<forall>required \<in> set REQUIRED_PET_STATES. required \<in> state_key ` set (pp_states p))"
    unfolding is_ok_and_then collect_pet_states_iff by (auto simp: is_ok_for_each)
  then show ?thesis
    by (simp add: validate_pet_profile_def pet_profile_ok_def subset_eq)
qed

lemma is_ok_assignments:
  "is_ok (validate_assignments office identity seen as) \<longleftrightarrow>
     (\<forall>a \<in> set as. assignment_refs_ok office identity a) \<and>
     distinct (map (\<lambda>a. (pa_project_id a, pa_role_id a)) as) \<and>
     seen \<inter> (\<lambda>a. (pa_project_id a, pa_role_id a)) ` set as = {}"
proof (induction as arbitrary: seen)
  case (Cons a as)
  have "is_ok (validate_assignments office identity seen (a # as)) \<longleftrightarrow>
      assignment_refs_ok office identity a \<and> (pa_project_id a, pa_role_id a) \<notin> seen \<and>
      is_ok (validate_assignments office identity (insert (pa_project_id a, pa_role_id a) seen) as)"
    by (auto simp: assignment_refs_ok_def key_mem_iff)
  then show ?case unfolding Cons.IH by auto
qed simp

lemma is_ok_room [ok_simps]: "is_ok (validate_room identity r) \<longleftrightarrow> room_ok identity r"
  by (simp add: validate_room_def room_ok_def key_mem_iff)

lemma office_validate_iff_wf: "is_ok (office_validate office identity) \<longleftrightarrow> wf_office office identity"
  by (simp add: office_validate_def wf_office_def is_ok_for_each is_ok_pet_profile is_ok_assignments
      is_ok_room)

end
