(* ===== verification/Meeting.thy ===== *)
theory Meeting
  imports Office
begin

text \<open>
  Project meetings and the decision baselines humans accept
  (\<open>crates/bastet-core/src/meeting.rs\<close>). A baseline is sealed by the digest of its content; the
  digest \<open>H\<close> (SHA-256 in hexadecimal, third-party code) is a parameter.
\<close>

definition MAX_MEETING_ROUNDS :: u8 where "MAX_MEETING_ROUNDS = 5"
definition MAX_MEETING_PARTICIPANTS :: nat where "MAX_MEETING_PARTICIPANTS = 12"

datatype MeetingState = Draft | InProgress | AwaitingDecision | Accepted

record MeetingRound =
  round_index :: u8
  round_summary :: string

record ProjectMeeting =
  mtg_metadata :: "MeetingId EntityMetadata"
  mtg_project_id :: ProjectId
  mtg_room_id :: RoomId
  participant_role_ids :: "RoleId list"
  max_rounds :: u8
  rounds :: "MeetingRound list"
  mtg_state :: MeetingState

record DecisionBaseline =
  db_metadata :: "DecisionBaselineId EntityMetadata"
  db_meeting_id :: MeetingId
  db_content :: string
  db_content_hash :: string
  db_accepted_by :: string
  db_accepted_at :: string

record MeetingCatalog =
  meetings :: "ProjectMeeting list"
  decision_baselines :: "DecisionBaseline list"

abbreviation mtg_id :: "ProjectMeeting \<Rightarrow> MeetingId" where "mtg_id x \<equiv> md_id (mtg_metadata x)"
abbreviation db_id :: "DecisionBaseline \<Rightarrow> DecisionBaselineId" where "db_id x \<equiv> md_id (db_metadata x)"

definition default_meetings :: MeetingCatalog where
  "default_meetings = \<lparr>meetings = [], decision_baselines = []\<rparr>"

datatype MeetingError =
  Mt_InvalidRoom | Mt_InvalidParticipants | Mt_InvalidRoundLimit | Mt_InvalidRounds
| Mt_MissingMeeting | Mt_MeetingNotAwaitingDecision | Mt_MissingAcceptance | Mt_HashMismatch
| Mt_DuplicateBaseline

section \<open>Decision baselines\<close>

definition hash_content :: "(string \<Rightarrow> string) \<Rightarrow> string \<Rightarrow> string" where
  "hash_content H content = ''sha256:'' @ H content"

definition baseline_create ::
  "(string \<Rightarrow> string) \<Rightarrow> DecisionBaselineId EntityMetadata \<Rightarrow> MeetingId \<Rightarrow> string \<Rightarrow> string \<Rightarrow> string \<Rightarrow>
   (MeetingError, DecisionBaseline) result" where
  "baseline_create H metadata meeting content accepted_by accepted_at =
     (if blank content \<or> blank accepted_by \<or> blank accepted_at then Err Mt_MissingAcceptance
      else Ok \<lparr>db_metadata = metadata, db_meeting_id = meeting, db_content = content,
               db_content_hash = hash_content H content, db_accepted_by = accepted_by,
               db_accepted_at = accepted_at\<rparr>)"

definition baseline_validate_unchanged :: "(string \<Rightarrow> string) \<Rightarrow> DecisionBaseline \<Rightarrow> (MeetingError, unit) result" where
  "baseline_validate_unchanged H b =
     (if blank (db_content b) \<or> blank (db_accepted_by b) \<or> blank (db_accepted_at b)
      then Err Mt_MissingAcceptance
      else if db_content_hash b \<noteq> hash_content H (db_content b) then Err Mt_HashMismatch
      else Ok ())"

section \<open>Validation of the meetings\<close>

text \<open>\<open>u8::try_from(index + 1).unwrap_or(u8::MAX)\<close>.\<close>

definition round_number :: "nat \<Rightarrow> u8" where
  "round_number index = (if index + 1 \<le> 255 then of_nat (index + 1) else 255)"

definition validate_meeting ::
  "IdentityCatalog \<Rightarrow> OfficeCatalog \<Rightarrow> ProjectMeeting \<Rightarrow> (MeetingError, unit) result" where
  "validate_meeting identity office m =
     (let roles_of = participant_role_ids m in checks
     [ensure (\<exists>r \<in> set (rooms office). room_id r = mtg_room_id m \<and> room_project_id r = mtg_project_id m)
        Mt_InvalidRoom,
      ensure (\<not> (roles_of = [] \<or> length roles_of > MAX_MEETING_PARTICIPANTS \<or>
                 card (set roles_of) \<noteq> length roles_of \<or>
                 (\<exists>i \<in> set roles_of. \<not> (\<exists>r \<in> set (roles identity). role_id r = i))))
        Mt_InvalidParticipants,
      ensure (\<not> (max_rounds m = 0 \<or> max_rounds m > MAX_MEETING_ROUNDS)) Mt_InvalidRoundLimit,
      ensure (\<not> (length (rounds m) > unat (max_rounds m) \<or>
                 (\<exists>(index, r) \<in> set (enumerate 0 (rounds m)).
                    round_index r \<noteq> round_number index \<or> blank (round_summary r))))
        Mt_InvalidRounds])"

fun validate_baselines ::
  "(string \<Rightarrow> string) \<Rightarrow> ProjectMeeting list \<Rightarrow> MeetingId set \<Rightarrow> DecisionBaseline list \<Rightarrow>
   (MeetingError, unit) result" where
  "validate_baselines H ms seen [] = Ok ()"
| "validate_baselines H ms seen (b # bs) =
     and_then (baseline_validate_unchanged H b) (\<lambda>_.
     and_then (ok_or (find (\<lambda>m. mtg_id m = db_meeting_id b) ms) Mt_MissingMeeting) (\<lambda>m.
     and_then (checks
       [ensure (mtg_state m \<in> {AwaitingDecision, Accepted}) Mt_MeetingNotAwaitingDecision,
        ensure (db_meeting_id b \<notin> seen) Mt_DuplicateBaseline]) (\<lambda>_.
     validate_baselines H ms (insert (db_meeting_id b) seen) bs)))"

definition meetings_validate ::
  "(string \<Rightarrow> string) \<Rightarrow> MeetingCatalog \<Rightarrow> IdentityCatalog \<Rightarrow> OfficeCatalog \<Rightarrow> (MeetingError, unit) result" where
  "meetings_validate H c identity office = checks
     [for_each (meetings c) (validate_meeting identity office),
      validate_baselines H (meetings c) {} (decision_baselines c)]"

section \<open>What valid meetings promise\<close>

definition meeting_ok :: "IdentityCatalog \<Rightarrow> OfficeCatalog \<Rightarrow> ProjectMeeting \<Rightarrow> bool" where
  "meeting_ok identity office m \<longleftrightarrow>
     (\<exists>r \<in> set (rooms office). room_id r = mtg_room_id m \<and> room_project_id r = mtg_project_id m) \<and>
     participant_role_ids m \<noteq> [] \<and> length (participant_role_ids m) \<le> 12 \<and>
     distinct (participant_role_ids m) \<and>
     set (participant_role_ids m) \<subseteq> role_id ` set (roles identity) \<and>
     1 \<le> unat (max_rounds m) \<and> unat (max_rounds m) \<le> 5 \<and>
     length (rounds m) \<le> unat (max_rounds m) \<and>
     map (unat \<circ> round_index) (rounds m) = [1 ..< Suc (length (rounds m))] \<and>
     (\<forall>r \<in> set (rounds m). \<not> blank (round_summary r))"

definition baseline_ok :: "(string \<Rightarrow> string) \<Rightarrow> ProjectMeeting list \<Rightarrow> DecisionBaseline \<Rightarrow> bool" where
  "baseline_ok H ms b \<longleftrightarrow>
     is_ok (baseline_validate_unchanged H b) \<and>
     (\<exists>m. find (\<lambda>m. mtg_id m = db_meeting_id b) ms = Some m \<and> mtg_state m \<in> {AwaitingDecision, Accepted})"

definition wf_meetings :: "(string \<Rightarrow> string) \<Rightarrow> MeetingCatalog \<Rightarrow> IdentityCatalog \<Rightarrow> OfficeCatalog \<Rightarrow> bool" where
  "wf_meetings H c identity office \<longleftrightarrow>
     (\<forall>m \<in> set (meetings c). meeting_ok identity office m) \<and>
     (\<forall>b \<in> set (decision_baselines c). baseline_ok H (meetings c) b) \<and>
     distinct (map db_meeting_id (decision_baselines c))"

lemma is_ok_baselines:
  "is_ok (validate_baselines H ms seen bs) \<longleftrightarrow>
     (\<forall>b \<in> set bs. baseline_ok H ms b) \<and> distinct (map db_meeting_id bs) \<and>
     seen \<inter> db_meeting_id ` set bs = {}"
proof (induction bs arbitrary: seen)
  case (Cons b bs)
  have "is_ok (validate_baselines H ms seen (b # bs)) \<longleftrightarrow>
      baseline_ok H ms b \<and> db_meeting_id b \<notin> seen \<and>
      is_ok (validate_baselines H ms (insert (db_meeting_id b) seen) bs)"
    by (cases "find (\<lambda>m. mtg_id m = db_meeting_id b) ms") (auto simp: baseline_ok_def)
  then show ?case unfolding Cons.IH by auto
qed simp

lemma max_rounds_bounds:
  "\<not> (r = 0 \<or> r > MAX_MEETING_ROUNDS) \<longleftrightarrow> 1 \<le> unat r \<and> unat r \<le> 5"
  for r :: u8
proof -
  have "r = 0 \<longleftrightarrow> unat r = 0" by (simp add: unat_eq_0)
  moreover have "r > 5 \<longleftrightarrow> unat r > 5" by (simp add: word_less_nat_alt)
  ultimately show ?thesis by (auto simp: MAX_MEETING_ROUNDS_def)
qed

text \<open>At most five rounds, so their numbers never saturate.\<close>

lemma round_numbers_iff:
  fixes rs :: "MeetingRound list"
  assumes "length rs \<le> 5"
  shows "(\<forall>(index, r) \<in> set (enumerate 0 rs). round_index r = round_number index) \<longleftrightarrow>
    map (unat \<circ> round_index) rs = [1 ..< Suc (length rs)]"
proof -
  have num: "round_index r = round_number i \<longleftrightarrow> unat (round_index r) = Suc i" if "i < 5" for i and r :: MeetingRound
  proof -
    have "unat (of_nat (Suc i) :: u8) = Suc i" using that by (subst unat_of_nat) simp
    then have "unat (round_number i) = Suc i" using that by (simp add: round_number_def)
    then show ?thesis by (metis word_unat_eq_iff)
  qed
  have "(\<forall>(index, r) \<in> set (enumerate 0 rs). round_index r = round_number index) \<longleftrightarrow>
      (\<forall>i < length rs. round_index (rs ! i) = round_number i)"
    by (auto simp: in_set_enumerate_eq)
  also have "\<dots> \<longleftrightarrow> (\<forall>i < length rs. unat (round_index (rs ! i)) = Suc i)"
    using assms by (intro all_cong num) simp
  also have "\<dots> \<longleftrightarrow> map (unat \<circ> round_index) rs = [1 ..< Suc (length rs)]"
    unfolding list_eq_iff_nth_eq by (auto simp only: length_map length_upt nth_map nth_upt comp_apply)
  finally show ?thesis .
qed

lemma rounds_iff:
  fixes rs :: "MeetingRound list"
  assumes "length rs \<le> 5"
  shows "(\<exists>(index, r) \<in> set (enumerate 0 rs). round_index r \<noteq> round_number index \<or> blank (round_summary r)) \<longleftrightarrow>
    \<not> (map (unat \<circ> round_index) rs = [1 ..< Suc (length rs)] \<and> (\<forall>r \<in> set rs. \<not> blank (round_summary r)))"
proof -
  have "(\<forall>r \<in> set rs. \<not> blank (round_summary r)) \<longleftrightarrow>
      (\<forall>(index, r) \<in> set (enumerate 0 rs). \<not> blank (round_summary r))"
    by (subst map_snd_enumerate[of 0 rs, symmetric])
       (auto simp del: map_snd_enumerate simp: split_beta)
  then show ?thesis unfolding round_numbers_iff[OF assms, symmetric] by blast
qed

lemma is_ok_meeting: "is_ok (validate_meeting identity office m) \<longleftrightarrow> meeting_ok identity office m"
proof -
  have card: "card (set (participant_role_ids m)) \<noteq> length (participant_role_ids m) \<longleftrightarrow>
      \<not> distinct (participant_role_ids m)" by (simp add: card_set_length_iff)
  have limit: "\<not> (max_rounds m = 0 \<or> max_rounds m > MAX_MEETING_ROUNDS) \<longleftrightarrow>
      1 \<le> unat (max_rounds m) \<and> unat (max_rounds m) \<le> 5" by (rule max_rounds_bounds)
  show ?thesis
  proof (cases "unat (max_rounds m) \<le> 5 \<and> length (rounds m) \<le> unat (max_rounds m)")
    case True
    then have "length (rounds m) \<le> 5" by simp
    note rounds = rounds_iff[OF this]
    from True show ?thesis
      unfolding validate_meeting_def meeting_ok_def Let_def rounds is_ok_checks_Cons is_ok_ensure limit card
      by (auto simp: MAX_MEETING_PARTICIPANTS_def not_less)
  next
    case False
    then show ?thesis
      unfolding validate_meeting_def meeting_ok_def Let_def is_ok_checks_Cons is_ok_ensure limit
      by auto
  qed
qed

lemma meetings_validate_iff_wf:
  "is_ok (meetings_validate H c identity office) \<longleftrightarrow> wf_meetings H c identity office"
  by (simp add: meetings_validate_def wf_meetings_def is_ok_for_each is_ok_meeting is_ok_baselines)

interpretation baseline_seal: content_seal db_content db_content_hash "hash_content H"
    "\<lambda>b. is_ok (baseline_validate_unchanged H b)" for H
  by unfold_locales (auto simp: baseline_validate_unchanged_def split: if_splits)

end
