(* ===== verification/Deliverable.thy ===== *)
theory Deliverable
  imports Graph_Model
begin

text \<open>
  Deliverables (\<open>crates/bastet-core/src/deliverable.rs\<close>): versioned documents sealed by a digest and
  accepted once, the cost ledger, and knowledge deliveries that need a receipt. The digest \<open>H\<close>
  (SHA-256, third-party code) is a parameter. Costs are IEEE floats, here by value: a dyadic
  number, an infinity or a NaN, with the comparisons the code uses.
\<close>

section \<open>Floating-point values\<close>

datatype ieee = Dyadic int int | Infinity bool | NaN

fun ieee_finite :: "ieee \<Rightarrow> bool" where
  "ieee_finite (Dyadic m e) = True"
| "ieee_finite _ = False"

text \<open>\<open>x < 0.0\<close>; \<open>Infinity True\<close> is the negative one.\<close>

fun ieee_negative :: "ieee \<Rightarrow> bool" where
  "ieee_negative (Dyadic m e) = (m < 0)"
| "ieee_negative (Infinity neg) = neg"
| "ieee_negative NaN = False"

text \<open>\<open>(0.0..=1.0).contains(&x)\<close>; comparisons with a NaN are false.\<close>

fun ieee_in_unit :: "ieee \<Rightarrow> bool" where
  "ieee_in_unit (Dyadic m e) =
     (0 \<le> m \<and> (if 0 \<le> e then m * 2 ^ nat e \<le> 1 else m \<le> 2 ^ nat (- e)))"
| "ieee_in_unit _ = False"

section \<open>Data\<close>

record DocumentVersion =
  dv_id :: ArtifactVersionId
  dv_version :: u32
  dv_parent_id :: "ArtifactVersionId option"
  dv_markdown :: string
  dv_content_hash :: string
  source_node_ids :: "GraphNodeId list"
  source_execution_id :: "GraphRunId option"
  source_join_node_id :: "GraphNodeId option"
  source_join_output_hash :: "string option"
  dv_accepted_by :: "string option"
  dv_accepted_at :: "string option"

record DocumentArtifact =
  da_metadata :: "ArtifactId EntityMetadata"
  da_project_id :: ProjectId
  da_title :: string
  da_versions :: "DocumentVersion list"

record CostLedgerRecord =
  cost_metadata :: "CostRecordId EntityMetadata"
  cost_project_id :: ProjectId
  cost_node_id :: GraphNodeId
  cost_run_id :: RunId
  cost_provider :: string
  cost_account :: string
  cost_model :: string
  cost_currency :: "string option"
  cost_amount :: "ieee option"
  cost_input_tokens :: "u64 option"
  cost_output_tokens :: "u64 option"
  cost_evidence_class :: EvidenceClass
  cost_source :: string
  cost_formula_version :: "string option"
  cost_confidence :: ieee
  cost_reconciliation_state :: string

datatype KnowledgeTarget = AgentMemoryOs | BastetMind
datatype DeliveryState = Prepared | Delivered

record KnowledgeDelivery =
  kd_metadata :: "KnowledgeDeliveryId EntityMetadata"
  kd_project_id :: ProjectId
  kd_artifact_version_id :: ArtifactVersionId
  kd_target :: KnowledgeTarget
  kd_preview :: string
  kd_redacted :: bool
  kd_state :: DeliveryState
  kd_destination_receipt :: "string option"

record DeliverableCatalog =
  documents :: "DocumentArtifact list"
  costs :: "CostLedgerRecord list"
  knowledge_deliveries :: "KnowledgeDelivery list"

definition default_deliverables :: DeliverableCatalog where
  "default_deliverables = \<lparr>documents = [], costs = [], knowledge_deliveries = []\<rparr>"

datatype DeliverableError =
  Dl_InvalidDocumentVersion | Dl_InvalidAcceptance | Dl_InvalidVersionChain | Dl_InvalidJoinReceipt
| Dl_InvalidCost | Dl_InvalidKnowledgeDelivery | Dl_UnacceptedArtifact

section \<open>Document versions\<close>

definition document_hash :: "(string \<Rightarrow> string) \<Rightarrow> string \<Rightarrow> string" where
  "document_hash H content = ''sha256:'' @ H content"

definition version_create ::
  "(string \<Rightarrow> string) \<Rightarrow> ArtifactVersionId \<Rightarrow> u32 \<Rightarrow> ArtifactVersionId option \<Rightarrow> string \<Rightarrow>
   GraphNodeId list \<Rightarrow> (DeliverableError, DocumentVersion) result" where
  "version_create H i version parent markdown sources =
     (if version = 0 \<or> blank markdown then Err Dl_InvalidDocumentVersion
      else Ok \<lparr>dv_id = i, dv_version = version, dv_parent_id = parent, dv_markdown = markdown,
               dv_content_hash = document_hash H markdown, source_node_ids = sources,
               source_execution_id = None, source_join_node_id = None,
               source_join_output_hash = None, dv_accepted_by = None, dv_accepted_at = None\<rparr>)"

definition bind_join_receipt ::
  "GraphRunId \<Rightarrow> GraphNodeId \<Rightarrow> string \<Rightarrow> DocumentVersion \<Rightarrow> (DeliverableError, DocumentVersion) result" where
  "bind_join_receipt execution node join_hash v =
     (if blank join_hash \<or> source_execution_id v \<noteq> None \<or> source_join_node_id v \<noteq> None \<or>
         source_join_output_hash v \<noteq> None
      then Err Dl_InvalidJoinReceipt
      else Ok (v\<lparr>source_execution_id := Some execution, source_join_node_id := Some node,
                 source_join_output_hash := Some join_hash\<rparr>))"

definition valid_source_receipt :: "DocumentVersion \<Rightarrow> bool" where
  "valid_source_receipt v =
     (case (source_execution_id v, source_join_node_id v, source_join_output_hash v) of
        (None, None, None) \<Rightarrow> True
      | (Some _, Some _, Some h) \<Rightarrow> \<not> blank h
      | _ \<Rightarrow> False)"

definition version_validate_unchanged ::
  "(string \<Rightarrow> string) \<Rightarrow> DocumentVersion \<Rightarrow> (DeliverableError, unit) result" where
  "version_validate_unchanged H v =
     (if dv_version v = 0 \<or> blank (dv_markdown v) \<or>
         dv_content_hash v \<noteq> document_hash H (dv_markdown v) \<or>
         (dv_accepted_by v \<noteq> None) \<noteq> (dv_accepted_at v \<noteq> None) \<or> \<not> valid_source_receipt v
      then Err Dl_InvalidDocumentVersion else Ok ())"

definition version_accept ::
  "(string \<Rightarrow> string) \<Rightarrow> string \<Rightarrow> string \<Rightarrow> DocumentVersion \<Rightarrow> (DeliverableError, DocumentVersion) result" where
  "version_accept H actor accepted_at v =
     and_then (version_validate_unchanged H v) (\<lambda>_.
       if dv_accepted_by v \<noteq> None \<or> blank actor \<or> blank accepted_at then Err Dl_InvalidAcceptance
       else Ok (v\<lparr>dv_accepted_by := Some actor, dv_accepted_at := Some accepted_at\<rparr>))"

section \<open>Knowledge deliveries\<close>

definition delivery_prepare ::
  "KnowledgeDeliveryId EntityMetadata \<Rightarrow> ProjectId \<Rightarrow> ArtifactVersionId \<Rightarrow> KnowledgeTarget \<Rightarrow> string \<Rightarrow>
   (DeliverableError, KnowledgeDelivery) result" where
  "delivery_prepare metadata project version target preview =
     (if blank preview then Err Dl_InvalidKnowledgeDelivery
      else Ok \<lparr>kd_metadata = metadata, kd_project_id = project, kd_artifact_version_id = version,
               kd_target = target, kd_preview = preview, kd_redacted = True, kd_state = Prepared,
               kd_destination_receipt = None\<rparr>)"

definition record_delivered ::
  "string \<Rightarrow> KnowledgeDelivery \<Rightarrow> (DeliverableError, KnowledgeDelivery) result" where
  "record_delivered receipt d =
     (if kd_state d \<noteq> Prepared \<or> blank receipt then Err Dl_InvalidKnowledgeDelivery
      else Ok (d\<lparr>kd_state := Delivered, kd_destination_receipt := Some receipt\<rparr>))"

section \<open>Validation of the catalog\<close>

text \<open>\<open>u32::try_from(index + 1).unwrap_or(u32::MAX)\<close>.\<close>

definition version_number :: "nat \<Rightarrow> u32" where
  "version_number index = (if index + 1 \<le> 4294967295 then of_nat (index + 1) else 4294967295)"

text \<open>The loop over a document's versions; it carries the index, the previous version and the
  set of accepted versions.\<close>

fun validate_versions ::
  "(string \<Rightarrow> string) \<Rightarrow> nat \<Rightarrow> ArtifactVersionId option \<Rightarrow> ArtifactVersionId set \<Rightarrow>
   DocumentVersion list \<Rightarrow> (DeliverableError, ArtifactVersionId set) result" where
  "validate_versions H index previous accepted [] = Ok accepted"
| "validate_versions H index previous accepted (v # vs) =
     and_then (checks
       [version_validate_unchanged H v,
        ensure (\<not> (dv_version v \<noteq> version_number index \<or> dv_parent_id v \<noteq> previous)) Dl_InvalidVersionChain,
        ensure (card (set (source_node_ids v)) = 2) Dl_InvalidJoinReceipt])
       (\<lambda>_. validate_versions H (index + 1) (Some (dv_id v))
              (if dv_accepted_by v \<noteq> None then insert (dv_id v) accepted else accepted) vs)"

fun validate_documents ::
  "(string \<Rightarrow> string) \<Rightarrow> ArtifactVersionId set \<Rightarrow> DocumentArtifact list \<Rightarrow>
   (DeliverableError, ArtifactVersionId set) result" where
  "validate_documents H accepted [] = Ok accepted"
| "validate_documents H accepted (d # ds) =
     (if blank (da_title d) \<or> da_versions d = [] then Err Dl_InvalidDocumentVersion
      else and_then (validate_versions H 0 None accepted (da_versions d))
        (\<lambda>accepted. validate_documents H accepted ds))"

definition validate_cost :: "CostLedgerRecord \<Rightarrow> (DeliverableError, unit) result" where
  "validate_cost c =
     (if blank (cost_provider c) \<or> blank (cost_account c) \<or> blank (cost_model c) \<or>
         blank (cost_source c) \<or> blank (cost_reconciliation_state c) \<or>
         \<not> ieee_in_unit (cost_confidence c) \<or>
         (case cost_amount c of Some a \<Rightarrow> \<not> ieee_finite a \<or> ieee_negative a | None \<Rightarrow> False) \<or>
         (cost_evidence_class c = UnknownEvidence \<and>
          (cost_amount c \<noteq> None \<or> cost_input_tokens c \<noteq> None \<or> cost_output_tokens c \<noteq> None))
      then Err Dl_InvalidCost else Ok ())"

definition validate_delivery ::
  "ArtifactVersionId set \<Rightarrow> KnowledgeDelivery \<Rightarrow> (DeliverableError, unit) result" where
  "validate_delivery accepted d = checks
     [ensure (\<not> (blank (kd_preview d) \<or> \<not> kd_redacted d \<or>
         (case kd_state d of
            Prepared \<Rightarrow> kd_destination_receipt d \<noteq> None
          | Delivered \<Rightarrow> (case kd_destination_receipt d of None \<Rightarrow> True | Some r \<Rightarrow> blank r))))
        Dl_InvalidKnowledgeDelivery,
      ensure (kd_artifact_version_id d \<in> accepted) Dl_UnacceptedArtifact]"

definition deliverables_validate :: "(string \<Rightarrow> string) \<Rightarrow> DeliverableCatalog \<Rightarrow> (DeliverableError, unit) result" where
  "deliverables_validate H c =
     and_then (validate_documents H {} (documents c)) (\<lambda>accepted. checks
       [for_each (costs c) validate_cost,
        for_each (knowledge_deliveries c) (validate_delivery accepted)])"

section \<open>What valid deliverables promise\<close>

definition accepted_versions :: "DeliverableCatalog \<Rightarrow> ArtifactVersionId set" where
  "accepted_versions c =
     {dv_id v | v d. d \<in> set (documents c) \<and> v \<in> set (da_versions d) \<and> dv_accepted_by v \<noteq> None}"

text \<open>A document is a chain: version \<open>n + 1\<close> at index \<open>n\<close>, each the child of the one before.\<close>

definition version_chain :: "(string \<Rightarrow> string) \<Rightarrow> DocumentVersion list \<Rightarrow> bool" where
  "version_chain H vs \<longleftrightarrow>
     (\<forall>i < length vs. is_ok (version_validate_unchanged H (vs ! i)) \<and>
        dv_version (vs ! i) = version_number i \<and>
        dv_parent_id (vs ! i) = (None # map (Some \<circ> dv_id) vs) ! i \<and>
        card (set (source_node_ids (vs ! i))) = 2)"

definition wf_deliverables :: "(string \<Rightarrow> string) \<Rightarrow> DeliverableCatalog \<Rightarrow> bool" where
  "wf_deliverables H c \<longleftrightarrow>
     (\<forall>d \<in> set (documents c). \<not> blank (da_title d) \<and> da_versions d \<noteq> [] \<and> version_chain H (da_versions d)) \<and>
     (\<forall>x \<in> set (costs c). is_ok (validate_cost x)) \<and>
     (\<forall>k \<in> set (knowledge_deliveries c). is_ok (validate_delivery (accepted_versions c) k))"

definition chain_from ::
  "(string \<Rightarrow> string) \<Rightarrow> nat \<Rightarrow> ArtifactVersionId option \<Rightarrow> DocumentVersion list \<Rightarrow> bool" where
  "chain_from H index previous vs \<longleftrightarrow>
     (\<forall>i < length vs. is_ok (version_validate_unchanged H (vs ! i)) \<and>
        dv_version (vs ! i) = version_number (index + i) \<and>
        dv_parent_id (vs ! i) = (previous # map (Some \<circ> dv_id) vs) ! i \<and>
        card (set (source_node_ids (vs ! i))) = 2)"

lemma chain_from_Cons:
  "chain_from H index previous (v # vs) \<longleftrightarrow>
     is_ok (version_validate_unchanged H v) \<and> dv_version v = version_number index \<and>
     dv_parent_id v = previous \<and> card (set (source_node_ids v)) = 2 \<and>
     chain_from H (Suc index) (Some (dv_id v)) vs"
  unfolding chain_from_def by (simp add: All_less_Suc2)

lemma validate_versions_iff:
  "validate_versions H index previous accepted vs = Inr a \<longleftrightarrow>
     chain_from H index previous vs \<and>
     a = accepted \<union> {dv_id v | v. v \<in> set vs \<and> dv_accepted_by v \<noteq> None}"
proof (induction vs arbitrary: index previous accepted)
  case (Cons v vs)
  have "validate_versions H index previous accepted (v # vs) = Inr a \<longleftrightarrow>
      is_ok (version_validate_unchanged H v) \<and> dv_version v = version_number index \<and>
      dv_parent_id v = previous \<and> card (set (source_node_ids v)) = 2 \<and>
      validate_versions H (index + 1) (Some (dv_id v))
        (if dv_accepted_by v \<noteq> None then insert (dv_id v) accepted else accepted) vs = Inr a"
    by (auto simp: and_then_eq_Ok is_ok_unit[symmetric])
  then show ?case unfolding Cons.IH chain_from_Cons by (auto simp: conj_assoc)
qed (auto simp: chain_from_def)

lemma validate_documents_iff:
  "validate_documents H accepted ds = Inr a \<longleftrightarrow>
     (\<forall>d \<in> set ds. \<not> blank (da_title d) \<and> da_versions d \<noteq> [] \<and> version_chain H (da_versions d)) \<and>
     a = accepted \<union> {dv_id v | v d. d \<in> set ds \<and> v \<in> set (da_versions d) \<and> dv_accepted_by v \<noteq> None}"
proof (induction ds arbitrary: accepted)
  case (Cons d ds)
  have chain: "chain_from H 0 None vs \<longleftrightarrow> version_chain H vs" for vs
    by (simp add: chain_from_def version_chain_def)
  have "validate_documents H accepted (d # ds) = Inr a \<longleftrightarrow>
      \<not> blank (da_title d) \<and> da_versions d \<noteq> [] \<and> version_chain H (da_versions d) \<and>
      validate_documents H
        (accepted \<union> {dv_id v | v. v \<in> set (da_versions d) \<and> dv_accepted_by v \<noteq> None}) ds = Inr a"
    by (auto simp: and_then_eq_Ok validate_versions_iff chain)
  then show ?case unfolding Cons.IH by auto
qed auto

lemma deliverables_validate_iff_wf: "is_ok (deliverables_validate H c) \<longleftrightarrow> wf_deliverables H c"
  by (auto simp: deliverables_validate_def wf_deliverables_def is_ok_and_then validate_documents_iff
      is_ok_for_each accepted_versions_def)

interpretation version_seal: content_seal dv_markdown dv_content_hash "document_hash H"
    "\<lambda>v. is_ok (version_validate_unchanged H v)" for H
  by unfold_locales (auto simp: version_validate_unchanged_def split: if_splits)

end
