(* ===== verification/M3.thy ===== *)
theory M3
  imports Meeting Deliverable Graph_Schedule
begin

text \<open>
  The project state of milestone 3 (\<open>crates/bastet-core/src/m3.rs\<close>): office, meetings,
  deliverables and graph executions with the references between them. This is the check the
  daemon runs on every state it loads or stores.
\<close>

record M3Catalog =
  m3_office :: OfficeCatalog
  m3_meetings :: MeetingCatalog
  m3_deliverables :: DeliverableCatalog

record M3State =
  m3_catalog :: M3Catalog
  graph_executions :: "GraphExecution list"

definition default_m3_catalog :: M3Catalog where
  "default_m3_catalog = \<lparr>m3_office = default_office, m3_meetings = default_meetings,
     m3_deliverables = default_deliverables\<rparr>"

datatype M3Error =
  M3_Office OfficeError
| M3_Meeting MeetingError
| M3_Graph GraphError
| M3_Deliverable DeliverableError
| M3_MissingDecisionBaseline
| M3_MissingRole
| M3_MissingDeliverableReference
| M3_DuplicateGraphExecution

section \<open>Validation\<close>

definition validate_execution ::
  "(string \<Rightarrow> string) \<Rightarrow> IdentityCatalog \<Rightarrow> DecisionBaselineId set \<Rightarrow> GraphExecution \<Rightarrow> (M3Error, unit) result" where
  "validate_execution H identity baselines x = checks
     [map_err M3_Graph (execution_validate H x),
      ensure (decision_baseline_id (exec_graph x) \<in> baselines) M3_MissingDecisionBaseline,
      for_each (graph_nodes (exec_graph x)) (\<lambda>n.
        ensure (\<exists>r \<in> set (roles identity). role_id r = gn_role_id n) M3_MissingRole)]"

definition invalid_source_receipt :: "GraphExecution list \<Rightarrow> DocumentVersion \<Rightarrow> bool" where
  "invalid_source_receipt executions v =
     (case (source_execution_id v, source_join_node_id v, source_join_output_hash v) of
        (Some execution_id, Some join_node_id, Some join_hash) \<Rightarrow>
          (case find (\<lambda>x. exec_id x = execution_id) executions of
             None \<Rightarrow> True
           | Some x \<Rightarrow>
               (case find (\<lambda>n. gn_id n = join_node_id \<and> gn_kind n = Join) (graph_nodes (exec_graph x)) of
                  None \<Rightarrow> True
                | Some join \<Rightarrow>
                    set (source_node_ids v) \<noteq> set (gn_needs join) \<or>
                    (\<exists>i \<in> set (gn_needs join). node_output x i = None \<or>
                       (case find (\<lambda>n. gn_id n = i) (graph_nodes (exec_graph x)) of
                          None \<Rightarrow> True | Some n \<Rightarrow> gn_kind n \<noteq> Research)) \<or>
                    (case node_output x join_node_id of
                       None \<Rightarrow> True | Some out \<Rightarrow> out_content_hash out \<noteq> join_hash)))
      | _ \<Rightarrow> source_execution_id v \<noteq> None \<or> source_join_node_id v \<noteq> None \<or>
             source_join_output_hash v \<noteq> None)"

definition m3_validate :: "(string \<Rightarrow> string) \<Rightarrow> M3State \<Rightarrow> IdentityCatalog \<Rightarrow> (M3Error, unit) result" where
  "m3_validate H m identity =
     (let c = m3_catalog m; xs = graph_executions m;
          baselines = set (map db_id (decision_baselines (m3_meetings c)));
          nodes = set (concat (map (\<lambda>x. map gn_id (graph_nodes (exec_graph x))) xs));
          project_ids = set (map prj_id (projects identity));
          run_ids = set (map run_id (runs identity));
          docs = documents (m3_deliverables c);
          artifact_versions = set (concat (map (\<lambda>d. map dv_id (da_versions d)) docs))
      in checks
     [map_err (\<lambda>_. M3_MissingDeliverableReference) (catalog_validate identity),
      map_err M3_Office (office_validate (m3_office c) identity),
      map_err M3_Meeting (meetings_validate H (m3_meetings c) identity (m3_office c)),
      map_err M3_Deliverable (deliverables_validate H (m3_deliverables c)),
      ensure (card (set (map exec_id xs)) = length xs) M3_DuplicateGraphExecution,
      for_each xs (validate_execution H identity baselines),
      ensure (\<not> (\<exists>out \<in> set (concat (map exec_outputs xs)). out_run_id out \<notin> run_ids))
        M3_MissingDeliverableReference,
      ensure (\<not> ((\<exists>d \<in> set docs. da_project_id d \<notin> project_ids \<or>
                   (\<exists>i \<in> set (concat (map source_node_ids (da_versions d))). i \<notin> nodes)) \<or>
                 (\<exists>v \<in> set (concat (map da_versions docs)). invalid_source_receipt xs v) \<or>
                 (\<exists>x \<in> set (costs (m3_deliverables c)). cost_project_id x \<notin> project_ids \<or>
                    cost_run_id x \<notin> run_ids \<or> cost_node_id x \<notin> nodes) \<or>
                 (\<exists>k \<in> set (knowledge_deliveries (m3_deliverables c)).
                    kd_project_id k \<notin> project_ids \<or> kd_artifact_version_id k \<notin> artifact_versions)))
        M3_MissingDeliverableReference])"

section \<open>What a valid state promises\<close>

text \<open>A receipt that holds: the document cites the research nodes of the join whose output it has.\<close>

definition join_receipt :: "DocumentVersion \<Rightarrow> GraphExecution \<Rightarrow> GraphNode \<Rightarrow> bool" where
  "join_receipt v x join \<longleftrightarrow>
     gn_kind join = Join \<and> source_join_node_id v = Some (gn_id join) \<and>
     set (source_node_ids v) = set (gn_needs join) \<and>
     (\<forall>i \<in> set (gn_needs join). node_output x i \<noteq> None \<and>
        (\<exists>n \<in> set (graph_nodes (exec_graph x)). gn_id n = i \<and> gn_kind n = Research)) \<and>
     (\<exists>out. node_output x (gn_id join) = Some out \<and> source_join_output_hash v = Some (out_content_hash out))"

definition receipt_ok :: "GraphExecution list \<Rightarrow> DocumentVersion \<Rightarrow> bool" where
  "receipt_ok xs v \<longleftrightarrow>
     (source_execution_id v = None \<and> source_join_node_id v = None \<and> source_join_output_hash v = None) \<or>
     (\<exists>x \<in> set xs. source_execution_id v = Some (exec_id x) \<and>
        (\<exists>join \<in> set (graph_nodes (exec_graph x)). join_receipt v x join))"

definition wf_m3 :: "(string \<Rightarrow> string) \<Rightarrow> M3State \<Rightarrow> IdentityCatalog \<Rightarrow> bool" where
  "wf_m3 H m identity \<longleftrightarrow>
     (let c = m3_catalog m; xs = graph_executions m; dl = m3_deliverables c;
          nodes = {i. \<exists>x \<in> set xs. i \<in> node_ids (exec_graph x)} in
      wf_catalog identity \<and> wf_office (m3_office c) identity \<and>
      wf_meetings H (m3_meetings c) identity (m3_office c) \<and> wf_deliverables H dl \<and>
      distinct (map exec_id xs) \<and>
      (\<forall>x \<in> set xs. wf_execution H x \<and>
         decision_baseline_id (exec_graph x) \<in> db_id ` set (decision_baselines (m3_meetings c)) \<and>
         (\<forall>n \<in> set (graph_nodes (exec_graph x)). gn_role_id n \<in> role_id ` set (roles identity)) \<and>
         (\<forall>out \<in> set (exec_outputs x). out_run_id out \<in> run_id ` set (runs identity))) \<and>
      (\<forall>d \<in> set (documents dl). da_project_id d \<in> prj_id ` set (projects identity) \<and>
         (\<forall>v \<in> set (da_versions d). set (source_node_ids v) \<subseteq> nodes \<and> receipt_ok xs v)) \<and>
      (\<forall>x \<in> set (costs dl). cost_project_id x \<in> prj_id ` set (projects identity) \<and>
         cost_run_id x \<in> run_id ` set (runs identity) \<and> cost_node_id x \<in> nodes) \<and>
      (\<forall>k \<in> set (knowledge_deliveries dl). kd_project_id k \<in> prj_id ` set (projects identity) \<and>
         kd_artifact_version_id k \<in> accepted_versions dl))"

lemma is_ok_execution:
  "is_ok (validate_execution H identity baselines x) \<longleftrightarrow>
     wf_execution H x \<and> decision_baseline_id (exec_graph x) \<in> baselines \<and>
     (\<forall>n \<in> set (graph_nodes (exec_graph x)). gn_role_id n \<in> role_id ` set (roles identity))"
  by (simp add: validate_execution_def execution_validate_iff_wf is_ok_for_each key_mem_iff)

lemma find_two_keys:
  "distinct (map key xs) \<Longrightarrow> find (\<lambda>x. key x = k \<and> P x) xs = Some x \<longleftrightarrow> x \<in> set xs \<and> key x = k \<and> P x"
  by (induction xs) (auto simp: image_iff)

lemma invalid_source_receipt_iff:
  assumes "distinct (map exec_id xs)" and "\<And>x. x \<in> set xs \<Longrightarrow> wf_execution H x"
  shows "\<not> invalid_source_receipt xs v \<longleftrightarrow> receipt_ok xs v"
proof (cases "\<exists>e j h. source_execution_id v = Some e \<and> source_join_node_id v = Some j \<and>
    source_join_output_hash v = Some h")
  case False
  then show ?thesis
    by (auto simp: invalid_source_receipt_def receipt_ok_def join_receipt_def split: option.splits)
next
  case True
  then obtain e j h where v: "source_execution_id v = Some e" "source_join_node_id v = Some j"
    "source_join_output_hash v = Some h" by blast
  note find_x = find_key_Some[where key = exec_id, OF assms(1)]
  show ?thesis
  proof (cases "find (\<lambda>x. exec_id x = e) xs")
    case None
    then have "invalid_source_receipt xs v" using v by (simp add: invalid_source_receipt_def)
    moreover have "\<not> receipt_ok xs v" using v None by (auto simp: receipt_ok_def find_None_iff)
    ultimately show ?thesis by simp
  next
    case (Some x)
    then have x: "x \<in> set xs" "exec_id x = e" by (simp_all add: find_x)
    have only_x: "x' = x" if "x' \<in> set xs" "exec_id x' = e" for x'
      by (rule distinct_key_eq[OF assms(1)]) (use that x in simp_all)
    have nodes: "distinct (map gn_id (graph_nodes (exec_graph x)))"
      using assms(2)[OF x(1)] by (rule wf_executionD(4))
    have research: "(case find (\<lambda>n. gn_id n = i) (graph_nodes (exec_graph x)) of
        None \<Rightarrow> True | Some n \<Rightarrow> gn_kind n \<noteq> Research) \<longleftrightarrow>
      \<not> (\<exists>n \<in> set (graph_nodes (exec_graph x)). gn_id n = i \<and> gn_kind n = Research)" for i
    proof (cases "find (\<lambda>n. gn_id n = i) (graph_nodes (exec_graph x))")
      case None
      then have "\<not> (\<exists>n \<in> set (graph_nodes (exec_graph x)). gn_id n = i)" by (simp add: find_None_iff)
      with None show ?thesis by auto
    next
      case (Some n)
      then have "n \<in> set (graph_nodes (exec_graph x))" "gn_id n = i" by (auto dest: find_SomeD)
      with Some distinct_key_eq[where key = gn_id, OF nodes] show ?thesis by auto
    qed
    have "\<not> invalid_source_receipt xs v \<longleftrightarrow> (\<exists>join \<in> set (graph_nodes (exec_graph x)). join_receipt v x join)"
    proof (cases "find (\<lambda>n. gn_id n = j \<and> gn_kind n = Join) (graph_nodes (exec_graph x))")
      case None
      then have "\<not> (\<exists>join \<in> set (graph_nodes (exec_graph x)). join_receipt v x join)"
        using v by (auto simp: join_receipt_def find_None_iff)
      with None Some v show ?thesis by (simp add: invalid_source_receipt_def)
    next
      case (Some join)
      then have join: "join \<in> set (graph_nodes (exec_graph x))" "gn_id join = j" "gn_kind join = Join"
        by (simp_all add: find_two_keys[OF nodes])
      have only: "join' = join" if "join' \<in> set (graph_nodes (exec_graph x))" "join_receipt v x join'" for join'
        by (rule distinct_key_eq[OF nodes]) (use that join v in \<open>simp_all add: join_receipt_def\<close>)
      have "\<not> invalid_source_receipt xs v \<longleftrightarrow> join_receipt v x join"
        using v Some \<open>find (\<lambda>x. exec_id x = e) xs = Some x\<close> join
        by (cases "node_output x j") (auto simp: invalid_source_receipt_def join_receipt_def research)
      moreover have "(\<exists>join' \<in> set (graph_nodes (exec_graph x)). join_receipt v x join') \<longleftrightarrow> join_receipt v x join"
        using only join(1) by blast
      ultimately show ?thesis by simp
    qed
    moreover have "receipt_ok xs v \<longleftrightarrow> (\<exists>join \<in> set (graph_nodes (exec_graph x)). join_receipt v x join)"
      unfolding receipt_ok_def v option.inject using only_x x by (metis option.distinct(1))
    ultimately show ?thesis by simp
  qed
qed

lemma m3_validate_iff_wf: "is_ok (m3_validate H m identity) \<longleftrightarrow> wf_m3 H m identity"
proof -
  define c where "c = m3_catalog m"
  define xs where "xs = graph_executions m"
  define dl where "dl = m3_deliverables c"
  have delivered: "kd_artifact_version_id k \<in> accepted_versions dl" if "wf_deliverables H dl"
    "k \<in> set (knowledge_deliveries dl)" for k
    using that by (auto simp: wf_deliverables_def validate_delivery_def)
  have accepted_sub: "accepted_versions dl \<subseteq> (\<Union>d \<in> set (documents dl). dv_id ` set (da_versions d))"
    by (auto simp: accepted_versions_def)
  show ?thesis
  proof (cases "distinct (map exec_id xs) \<and> (\<forall>x \<in> set xs. wf_execution H x) \<and> wf_deliverables H dl")
    case True
    then have receipt: "invalid_source_receipt xs v \<longleftrightarrow> \<not> receipt_ok xs v" for v
      using invalid_source_receipt_iff[of xs H v] by auto
    have ids: "card (set (map exec_id xs)) = length xs \<longleftrightarrow> True"
      using True card_set_length_iff[of "map exec_id xs"] by simp
    show ?thesis
      using True delivered accepted_sub
      unfolding m3_validate_def wf_m3_def Let_def c_def[symmetric] xs_def[symmetric] dl_def[symmetric]
        is_ok_checks_Cons is_ok_map_err is_ok_ensure validate_iff_wf office_validate_iff_wf
        meetings_validate_iff_wf deliverables_validate_iff_wf is_ok_for_each is_ok_execution receipt ids
      by (simp add: subset_iff) blast
  next
    case False
    then show ?thesis
      using card_set_length_iff[of "map exec_id xs"]
      unfolding m3_validate_def wf_m3_def Let_def c_def[symmetric] xs_def[symmetric] dl_def[symmetric]
        is_ok_checks_Cons is_ok_map_err is_ok_ensure deliverables_validate_iff_wf is_ok_for_each is_ok_execution
      by auto
  qed
qed

end
