(* ===== verification/Mvp.thy ===== *)
theory Mvp
  imports M3
begin

text \<open>
  The guided first project (\<open>crates/bastet-core/src/mvp.rs\<close>): \<open>MvpDraft::prepare\<close> builds the
  catalogs of a project with two research roles and an integrator, and accepting the meeting's
  decision records the baseline and starts the graph. Fresh identifiers (\<open>Uuid::new_v4\<close> of a
  third-party package) are arguments, as are the two questions about the workspace path that the
  operating system answers.
\<close>

section \<open>Data\<close>

record MvpDraft =
  draft_identity :: IdentityCatalog
  draft_m3 :: M3Catalog
  draft_project_id :: ProjectId
  draft_meeting_id :: MeetingId
  research_role_ids :: "RoleId \<times> RoleId"
  integrator_role_id :: RoleId

datatype MvpError = InvalidProject | InvalidDraft | NotAwaitingDecision

text \<open>The identifiers \<open>prepare\<close> draws, and the ones \<open>accept_mvp_decision\<close> draws.\<close>

record prepare_ids =
  new_project :: ProjectId
  new_meeting :: MeetingId
  new_room :: RoomId
  new_research_a :: RoleId
  new_research_b :: RoleId
  new_integrator :: RoleId
  new_codex_provider :: AgentProviderId
  new_agy_provider :: AgentProviderId
  new_openai_provider :: ModelProviderId
  new_agy_model_provider :: ModelProviderId
  new_codex_model :: ModelId
  new_agy_model :: ModelId
  new_codex_agent :: AgentInstanceId
  new_agy_agent :: AgentInstanceId
  new_assignment_a :: PetAssignmentId
  new_assignment_b :: PetAssignmentId
  new_assignment_c :: PetAssignmentId

record accept_ids =
  new_baseline :: DecisionBaselineId
  new_left :: GraphNodeId
  new_right :: GraphNodeId
  new_join :: GraphNodeId
  new_graph_run :: GraphRunId

section \<open>Builders\<close>

definition mvp_metadata :: "'i \<Rightarrow> 'i EntityMetadata" where
  "mvp_metadata i = \<lparr>md_id = i, md_revision = 0, md_created_at = ''locally-created'',
     md_updated_at = ''locally-created'',
     md_provenance = \<lparr>source_kind = ''local_user'', source_id = ''mvp_vertical_slice'',
       recorded_by = ''bastet-workstation''\<rparr>,
     md_lifecycle = Active\<rparr>"

definition mvp_policy :: "PolicyLayer \<Rightarrow> PermissionLevel \<Rightarrow> ScopedPolicy" where
  "mvp_policy l level = \<lparr>layer = l, ceiling = \<lparr>filesystem = level, network = level, process = level,
     device = Deny, credential = Deny, persistent_approval = False\<rparr>\<rparr>"

text \<open>\<open>PetProfileId::from_bytes([0xBA; 16])\<close>.\<close>

definition builtin_pet_id :: PetProfileId where
  "builtin_pet_id = StableId 0xBABABABABABABABABABABABABABABABA"

definition builtin_pet_profile :: PetProfile where
  "builtin_pet_profile =
     \<lparr>pp_metadata = (mvp_metadata builtin_pet_id)\<lparr>md_provenance := \<lparr>source_kind = ''first_party'',
        source_id = ''bastet-cat-v1'', recorded_by = ''bastet-workstation''\<rparr>\<rparr>,
      pp_name = ''Bastet Cat'', pp_version = 1,
      pp_states = map (\<lambda>s. \<lparr>state_key = s, asset_ref = ''builtin://bastet-cat/'' @ s,
        accessible_label_key = ''pet.state.'' @ s\<rparr>) REQUIRED_PET_STATES\<rparr>"

definition assignment ::
  "PetAssignmentId \<Rightarrow> ProjectId \<Rightarrow> RoleId \<Rightarrow> AgentInstanceId \<Rightarrow> PetProfileId \<Rightarrow> PetAssignment" where
  "assignment i project role agent pet =
     \<lparr>pa_metadata = mvp_metadata i, pa_project_id = project, pa_role_id = role,
      pa_agent_instance_id = agent, pa_pet_profile_id = pet\<rparr>"

definition mvp_identity :: "prepare_ids \<Rightarrow> string \<Rightarrow> string \<Rightarrow> string \<Rightarrow> string \<Rightarrow> IdentityCatalog" where
  "mvp_identity ids project_name workspace_root codex_model agy_model =
     (let role_policy = mvp_policy RoleOrAgent Use; controls = [''low'', ''medium'', ''high''] in
      default_catalog\<lparr>
        agent_providers := [
          \<lparr>ap_metadata = mvp_metadata (new_codex_provider ids), ap_adapter_kind = ''codex_cli'',
           ap_display_name = ''Codex CLI''\<rparr>,
          \<lparr>ap_metadata = mvp_metadata (new_agy_provider ids), ap_adapter_kind = ''agy_cli'',
           ap_display_name = ''Agy CLI''\<rparr>],
        model_providers := [
          \<lparr>mp_metadata = mvp_metadata (new_openai_provider ids), mp_provider_key = ''openai'',
           mp_display_name = ''OpenAI''\<rparr>,
          \<lparr>mp_metadata = mvp_metadata (new_agy_model_provider ids), mp_provider_key = ''agy'',
           mp_display_name = ''Agy''\<rparr>],
        models := [
          \<lparr>mdl_metadata = mvp_metadata (new_codex_model ids), mdl_model_provider_id = new_openai_provider ids,
           mdl_provider_model_id = trim codex_model, mdl_reasoning_controls = controls\<rparr>,
          \<lparr>mdl_metadata = mvp_metadata (new_agy_model ids), mdl_model_provider_id = new_agy_model_provider ids,
           mdl_provider_model_id = trim agy_model, mdl_reasoning_controls = controls\<rparr>],
        agent_instances := [
          \<lparr>ai_metadata = mvp_metadata (new_codex_agent ids), ai_agent_provider_id = new_codex_provider ids,
           ai_account_id = None, ai_default_model_id = Some (new_codex_model ids)\<rparr>,
          \<lparr>ai_metadata = mvp_metadata (new_agy_agent ids), ai_agent_provider_id = new_agy_provider ids,
           ai_account_id = None, ai_default_model_id = Some (new_agy_model ids)\<rparr>],
        projects := [
          \<lparr>prj_metadata = mvp_metadata (new_project ids), prj_name = trim project_name,
           prj_workspace_root = workspace_root, prj_policy = mvp_policy ProjectLayer Use\<rparr>],
        roles := [
          \<lparr>role_metadata = mvp_metadata (new_research_a ids), role_name = ''Research A'',
           role_responsibilities = [''independent research branch A''], role_policy = role_policy\<rparr>,
          \<lparr>role_metadata = mvp_metadata (new_research_b ids), role_name = ''Research B'',
           role_responsibilities = [''independent research branch B''], role_policy = role_policy\<rparr>,
          \<lparr>role_metadata = mvp_metadata (new_integrator ids), role_name = ''Document Integrator'',
           role_responsibilities = [''join evidence into a versioned document''],
           role_policy = role_policy\<rparr>]\<rparr>)"

definition mvp_office :: "prepare_ids \<Rightarrow> OfficeCatalog" where
  "mvp_office ids =
     \<lparr>pet_profiles = [builtin_pet_profile],
      pet_assignments = [
        assignment (new_assignment_a ids) (new_project ids) (new_research_a ids) (new_codex_agent ids) builtin_pet_id,
        assignment (new_assignment_b ids) (new_project ids) (new_research_b ids) (new_agy_agent ids) builtin_pet_id,
        assignment (new_assignment_c ids) (new_project ids) (new_integrator ids) (new_codex_agent ids) builtin_pet_id],
      rooms = [\<lparr>room_metadata = mvp_metadata (new_room ids), room_project_id = new_project ids,
        room_name = ''Project Room'', room_capacity = 12\<rparr>]\<rparr>"

definition mvp_meetings :: "prepare_ids \<Rightarrow> MeetingCatalog" where
  "mvp_meetings ids =
     \<lparr>meetings = [\<lparr>mtg_metadata = mvp_metadata (new_meeting ids), mtg_project_id = new_project ids,
        mtg_room_id = new_room ids,
        participant_role_ids = [new_research_a ids, new_research_b ids, new_integrator ids],
        max_rounds = 3,
        rounds = [\<lparr>round_index = 1, round_summary =
          ''Two independent research branches followed by one explicit document join.''\<rparr>],
        mtg_state = AwaitingDecision\<rparr>],
      decision_baselines = []\<rparr>"

section \<open>Operations\<close>

definition draft_validate :: "(string \<Rightarrow> string) \<Rightarrow> MvpDraft \<Rightarrow> (MvpError, unit) result" where
  "draft_validate H d = checks
     [map_err (\<lambda>_. InvalidDraft) (catalog_validate (draft_identity d)),
      map_err (\<lambda>_. InvalidDraft) (office_validate (m3_office (draft_m3 d)) (draft_identity d)),
      map_err (\<lambda>_. InvalidDraft)
        (meetings_validate H (m3_meetings (draft_m3 d)) (draft_identity d) (m3_office (draft_m3 d)))]"

definition prepare ::
  "(string \<Rightarrow> string) \<Rightarrow> (string \<Rightarrow> bool) \<Rightarrow> (string \<Rightarrow> bool) \<Rightarrow> prepare_ids \<Rightarrow>
   string \<Rightarrow> string \<Rightarrow> string \<Rightarrow> string \<Rightarrow> (MvpError, MvpDraft) result" where
  "prepare H is_absolute is_dir ids project_name workspace_root codex_model agy_model =
     (if blank project_name \<or> \<not> is_absolute workspace_root \<or> \<not> is_dir workspace_root \<or>
         blank codex_model \<or> blank agy_model
      then Err InvalidProject
      else let draft =
        \<lparr>draft_identity = mvp_identity ids project_name workspace_root codex_model agy_model,
         draft_m3 = \<lparr>m3_office = mvp_office ids, m3_meetings = mvp_meetings ids,
           m3_deliverables = default_deliverables\<rparr>,
         draft_project_id = new_project ids, draft_meeting_id = new_meeting ids,
         research_role_ids = (new_research_a ids, new_research_b ids),
         integrator_role_id = new_integrator ids\<rparr>
      in and_then (draft_validate H draft) (\<lambda>_. Ok draft))"

definition mvp_graph :: "accept_ids \<Rightarrow> RoleId \<Rightarrow> RoleId \<Rightarrow> RoleId \<Rightarrow> WorkflowGraph" where
  "mvp_graph ids left right integrator =
     \<lparr>decision_baseline_id = new_baseline ids,
      graph_nodes = [
        \<lparr>gn_id = new_left ids, gn_kind = Research, gn_role_id = left,
         gn_title = ''Independent research A'', gn_needs = []\<rparr>,
        \<lparr>gn_id = new_right ids, gn_kind = Research, gn_role_id = right,
         gn_title = ''Independent research B'', gn_needs = []\<rparr>,
        \<lparr>gn_id = new_join ids, gn_kind = Join, gn_role_id = integrator,
         gn_title = ''Join research into document'', gn_needs = [new_left ids, new_right ids]\<rparr>]\<rparr>"

text \<open>
  The catalog is a mutable argument, so what it holds on return is part of the result; the last
  step can fail after the meeting was accepted and the baseline recorded.
\<close>

definition accept_mvp_decision ::
  "(string \<Rightarrow> string) \<Rightarrow> accept_ids \<Rightarrow> M3Catalog \<Rightarrow> IdentityCatalog \<Rightarrow> MeetingId \<Rightarrow> string \<Rightarrow> string \<Rightarrow> string \<Rightarrow>
   (MvpError, GraphExecution) result \<times> M3Catalog" where
  "accept_mvp_decision H ids m identity meeting_id content actor accepted_at =
     (let ms = m3_meetings m in
      case find (\<lambda>x. mtg_id x = meeting_id) (meetings ms) of
        None \<Rightarrow> (Err InvalidDraft, m)
      | Some meeting \<Rightarrow>
          if mtg_state meeting \<noteq> AwaitingDecision then (Err NotAwaitingDecision, m)
          else (case participant_role_ids meeting of
            [left, right, integrator] \<Rightarrow>
              if \<exists>i \<in> {left, right, integrator}. \<not> (\<exists>r \<in> set (roles identity). role_id r = i)
              then (Err InvalidDraft, m)
              else (case baseline_create H (mvp_metadata (new_baseline ids)) meeting_id content actor accepted_at of
                Inl _ \<Rightarrow> (Err InvalidDraft, m)
              | Inr baseline \<Rightarrow>
                  (map_err (\<lambda>_. InvalidDraft)
                     (start_execution (new_graph_run ids) (mvp_graph ids left right integrator)),
                   m\<lparr>m3_meetings :=
                      \<lparr>meetings = update_first (\<lambda>x. mtg_id x = meeting_id)
                         (\<lambda>x. x\<lparr>mtg_state := Accepted\<rparr>) (meetings ms),
                       decision_baselines = decision_baselines ms @ [baseline]\<rparr>\<rparr>))
          | _ \<Rightarrow> (Err InvalidDraft, m)))"

definition accept_decision ::
  "(string \<Rightarrow> string) \<Rightarrow> accept_ids \<Rightarrow> MvpDraft \<Rightarrow> string \<Rightarrow> string \<Rightarrow> string \<Rightarrow>
   (MvpError, GraphExecution) result \<times> MvpDraft" where
  "accept_decision H ids d content actor accepted_at =
     (case draft_validate H d of
        Inl e \<Rightarrow> (Err e, d)
      | Inr _ \<Rightarrow>
          (case accept_mvp_decision H ids (draft_m3 d) (draft_identity d) (draft_meeting_id d)
                  content actor accepted_at of
             (r, m) \<Rightarrow> (r, d\<lparr>draft_m3 := m\<rparr>)))"

section \<open>The draft is valid\<close>

definition fresh_prepare_ids :: "prepare_ids \<Rightarrow> bool" where
  "fresh_prepare_ids ids \<longleftrightarrow>
     distinct [new_research_a ids, new_research_b ids, new_integrator ids] \<and>
     new_codex_provider ids \<noteq> new_agy_provider ids \<and>
     new_openai_provider ids \<noteq> new_agy_model_provider ids \<and>
     new_codex_model ids \<noteq> new_agy_model ids \<and> new_codex_agent ids \<noteq> new_agy_agent ids \<and>
     distinct [new_assignment_a ids, new_assignment_b ids, new_assignment_c ids]"

definition fresh_accept_ids :: "accept_ids \<Rightarrow> bool" where
  "fresh_accept_ids ids \<longleftrightarrow> distinct [new_left ids, new_right ids, new_join ids]"

lemma mvp_constants_nonblank [simp]:
  "\<not> blank ''locally-created''" "\<not> blank ''local_user''" "\<not> blank ''mvp_vertical_slice''"
  "\<not> blank ''bastet-workstation''" "\<not> blank ''codex_cli''" "\<not> blank ''Codex CLI''" "\<not> blank ''agy_cli''"
  "\<not> blank ''Agy CLI''" "\<not> blank ''openai''" "\<not> blank ''agy''" "\<not> blank ''Research A''"
  "\<not> blank ''Research B''" "\<not> blank ''Document Integrator''" "\<not> blank ''Project Room''"
  "\<not> blank ''Two independent research branches followed by one explicit document join.''"
  "\<not> blank ''Independent research A''" "\<not> blank ''Independent research B''"
  "\<not> blank ''Join research into document''"
  by code_simp+

lemma builtin_pet_profile_ok: "pet_profile_ok builtin_pet_profile"
proof -
  have "is_ok (validate_pet_profile builtin_pet_profile)" by code_simp
  then show ?thesis by (simp add: is_ok_pet_profile)
qed

lemma metadata_ok_mvp [simp]: "metadata_ok (mvp_metadata i)"
  by (simp add: metadata_ok_def mvp_metadata_def)

lemma md_id_mvp [simp]: "md_id (mvp_metadata i) = i"
  by (simp add: mvp_metadata_def)

lemma pp_id_builtin [simp]: "pp_id builtin_pet_profile = builtin_pet_id"
  by (simp add: builtin_pet_profile_def mvp_metadata_def)

lemma wf_mvp_identity:
  assumes "fresh_prepare_ids ids" and "\<not> blank name" and "\<not> blank root" and "\<not> blank codex" and "\<not> blank agy"
  shows "wf_catalog (mvp_identity ids name root codex agy)"
  using assms
  by (auto simp: wf_catalog_def distinct_ids_def fields_ok_def references_ok_def instance_refs_ok_def
      mvp_identity_def default_catalog_def fresh_prepare_ids_def Let_def mvp_policy_def)

lemma wf_mvp_office:
  assumes "fresh_prepare_ids ids"
  shows "wf_office (mvp_office ids) (mvp_identity ids name root codex agy)"
  using assms builtin_pet_profile_ok
  by (auto simp: wf_office_def mvp_office_def mvp_identity_def default_catalog_def Let_def
      assignment_refs_ok_def assignment_def room_ok_def fresh_prepare_ids_def)

lemma wf_mvp_meeting:
  assumes "fresh_prepare_ids ids" and "m \<in> set (meetings (mvp_meetings ids))"
  shows "meeting_ok (mvp_identity ids name root codex agy) (mvp_office ids) (m\<lparr>mtg_state := s\<rparr>)"
  using assms
  by (auto simp: meeting_ok_def mvp_meetings_def mvp_office_def mvp_identity_def default_catalog_def Let_def
      fresh_prepare_ids_def)

lemma wf_mvp_meetings:
  assumes "fresh_prepare_ids ids"
  shows "wf_meetings H (mvp_meetings ids) (mvp_identity ids name root codex agy) (mvp_office ids)"
proof -
  have "meeting_ok (mvp_identity ids name root codex agy) (mvp_office ids) m"
    if "m \<in> set (meetings (mvp_meetings ids))" for m
    using wf_mvp_meeting[OF assms that, of name root codex agy "mtg_state m"] by simp
  then show ?thesis by (simp add: wf_meetings_def) (simp add: mvp_meetings_def)
qed

lemma draft_validate_iff:
  "draft_validate H d = Inr () \<longleftrightarrow>
     wf_catalog (draft_identity d) \<and> wf_office (m3_office (draft_m3 d)) (draft_identity d) \<and>
     wf_meetings H (m3_meetings (draft_m3 d)) (draft_identity d) (m3_office (draft_m3 d))"
  by (simp add: is_ok_unit[symmetric] draft_validate_def validate_iff_wf office_validate_iff_wf
      meetings_validate_iff_wf)

definition mvp_draft :: "prepare_ids \<Rightarrow> string \<Rightarrow> string \<Rightarrow> string \<Rightarrow> string \<Rightarrow> MvpDraft" where
  "mvp_draft ids name root codex agy =
     \<lparr>draft_identity = mvp_identity ids name root codex agy,
      draft_m3 = \<lparr>m3_office = mvp_office ids, m3_meetings = mvp_meetings ids,
        m3_deliverables = default_deliverables\<rparr>,
      draft_project_id = new_project ids, draft_meeting_id = new_meeting ids,
      research_role_ids = (new_research_a ids, new_research_b ids),
      integrator_role_id = new_integrator ids\<rparr>"

lemma prepare_Ok:
  assumes "fresh_prepare_ids ids" and "\<not> blank name" and "is_absolute root" and "is_dir root"
    and "\<not> blank root" and "\<not> blank codex" and "\<not> blank agy"
  shows "prepare H is_absolute is_dir ids name root codex agy = Inr (mvp_draft ids name root codex agy)"
    "draft_validate H (mvp_draft ids name root codex agy) = Inr ()"
proof -
  show v: "draft_validate H (mvp_draft ids name root codex agy) = Inr ()"
    unfolding draft_validate_iff using assms
    by (simp add: mvp_draft_def wf_mvp_identity wf_mvp_office wf_mvp_meetings)
  then show "prepare H is_absolute is_dir ids name root codex agy = Inr (mvp_draft ids name root codex agy)"
    using assms(2-4,6,7) by (simp add: prepare_def mvp_draft_def)
qed

section \<open>The accepted graph\<close>

lemma deps_mvp_graph:
  "deps (mvp_graph ids l r i) = {(new_join ids, new_left ids), (new_join ids, new_right ids)}"
  by (auto simp: deps_unfold mvp_graph_def)

lemma wf_mvp_graph:
  assumes "fresh_accept_ids ids"
  shows "wf_graph (mvp_graph ids l r i)"
proof -
  have "acyclic (deps (mvp_graph ids l r i))"
    unfolding deps_mvp_graph
  proof (rule acyclicI_order[where f = "\<lambda>x. if x = new_join ids then 1 else 0 :: nat"])
    fix a b assume "(a, b) \<in> {(new_join ids, new_left ids), (new_join ids, new_right ids)}"
    with assms show "(if b = new_join ids then 1 else 0 :: nat) < (if a = new_join ids then 1 else 0)"
      by (auto simp: fresh_accept_ids_def)
  qed
  then show ?thesis
    using assms by (auto simp: wf_graph_def mvp_graph_def research_join_shape_def fresh_accept_ids_def)
qed

lemma start_mvp_graph:
  assumes "fresh_accept_ids ids"
  shows "\<exists>x. start_execution i (mvp_graph ids l r t) = Inr x \<and> exec_graph x = mvp_graph ids l r t \<and>
    exec_outputs x = [] \<and> exec_init x"
proof -
  have "graph_validate (mvp_graph ids l r t) = Inr ()"
    using wf_mvp_graph[OF assms] by (simp add: graph_validate_iff_wf[symmetric] is_ok_unit)
  then obtain x where x: "start_execution i (mvp_graph ids l r t) = Inr x"
    by (simp add: start_execution_def)
  then show ?thesis
    using exec_init_start[OF x] by (auto simp: start_execution_def and_then_eq_Ok)
qed

text \<open>The catalog after the decision was accepted.\<close>

definition accepted_meetings ::
  "(string \<Rightarrow> string) \<Rightarrow> prepare_ids \<Rightarrow> accept_ids \<Rightarrow> string \<Rightarrow> string \<Rightarrow> string \<Rightarrow> MeetingCatalog" where
  "accepted_meetings H pids aids content actor at =
     \<lparr>meetings = map (\<lambda>m. m\<lparr>mtg_state := Accepted\<rparr>) (meetings (mvp_meetings pids)),
      decision_baselines = [\<lparr>db_metadata = mvp_metadata (new_baseline aids),
        db_meeting_id = new_meeting pids, db_content = content, db_content_hash = hash_content H content,
        db_accepted_by = actor, db_accepted_at = at\<rparr>]\<rparr>"

lemma accept_mvp_decision_Ok:
  assumes "fresh_accept_ids aids" and "\<not> blank content" and "\<not> blank actor" and "\<not> blank at"
  shows "\<exists>x. accept_mvp_decision H aids \<lparr>m3_office = mvp_office pids, m3_meetings = mvp_meetings pids,
      m3_deliverables = default_deliverables\<rparr> (mvp_identity pids name root codex agy) (new_meeting pids)
      content actor at =
    (Inr x, \<lparr>m3_office = mvp_office pids, m3_meetings = accepted_meetings H pids aids content actor at,
      m3_deliverables = default_deliverables\<rparr>) \<and> exec_init x \<and> exec_outputs x = [] \<and>
    exec_graph x = mvp_graph aids (new_research_a pids) (new_research_b pids) (new_integrator pids)"
proof -
  from start_mvp_graph[OF assms(1)] obtain x where
    "start_execution (new_graph_run aids)
      (mvp_graph aids (new_research_a pids) (new_research_b pids) (new_integrator pids)) = Inr x"
    "exec_graph x = mvp_graph aids (new_research_a pids) (new_research_b pids) (new_integrator pids)"
    "exec_outputs x = []" "exec_init x" by blast
  with assms(2-4) show ?thesis
    by (simp add: accept_mvp_decision_def mvp_meetings_def accepted_meetings_def Let_def baseline_create_def
        mvp_identity_def default_catalog_def)
qed

lemma wf_accepted_meetings:
  assumes "fresh_prepare_ids pids" and "\<not> blank content" and "\<not> blank actor" and "\<not> blank at"
  shows "wf_meetings H (accepted_meetings H pids aids content actor at)
    (mvp_identity pids name root codex agy) (mvp_office pids)"
proof -
  have "meeting_ok (mvp_identity pids name root codex agy) (mvp_office pids) m"
    if "m \<in> set (meetings (accepted_meetings H pids aids content actor at))" for m
    using that wf_mvp_meeting[OF assms(1)] by (auto simp: accepted_meetings_def)
  moreover have "baseline_ok H (meetings (accepted_meetings H pids aids content actor at)) b"
    if "b \<in> set (decision_baselines (accepted_meetings H pids aids content actor at))" for b
    using that assms(2-4)
    by (simp add: accepted_meetings_def baseline_ok_def baseline_validate_unchanged_def mvp_meetings_def)
  ultimately show ?thesis
    by (simp add: wf_meetings_def) (simp add: accepted_meetings_def)
qed

lemma wf_default_deliverables: "wf_deliverables H default_deliverables"
  by (simp add: wf_deliverables_def default_deliverables_def)

lemma accept_Ok:
  assumes "fresh_prepare_ids pids" and "fresh_accept_ids aids" and "\<not> blank name" and "\<not> blank root"
    and "\<not> blank codex" and "\<not> blank agy" and "\<not> blank content" and "\<not> blank actor" and "\<not> blank at"
  shows "\<exists>x d. accept_decision H aids (mvp_draft pids name root codex agy) content actor at = (Inr x, d) \<and>
    exec_init x \<and>
    exec_graph x = mvp_graph aids (new_research_a pids) (new_research_b pids) (new_integrator pids) \<and>
    wf_m3 H \<lparr>m3_catalog = draft_m3 d, graph_executions = [x]\<rparr> (draft_identity d) \<and>
    map db_content (decision_baselines (m3_meetings (draft_m3 d))) = [content]"
proof -
  let ?id = "mvp_identity pids name root codex agy"
  let ?m3 = "\<lparr>m3_office = mvp_office pids, m3_meetings = accepted_meetings H pids aids content actor at,
      m3_deliverables = default_deliverables\<rparr>"
  have v: "draft_validate H (mvp_draft pids name root codex agy) = Inr ()"
    using prepare_Ok(2)[where is_absolute = "\<lambda>_. True" and is_dir = "\<lambda>_. True"] assms by blast
  from accept_mvp_decision_Ok[OF assms(2,7-9), of H pids name root codex agy] obtain x where
    x: "accept_mvp_decision H aids (draft_m3 (mvp_draft pids name root codex agy)) ?id (new_meeting pids)
      content actor at = (Inr x, ?m3)" "exec_init x" "exec_outputs x = []"
    "exec_graph x = mvp_graph aids (new_research_a pids) (new_research_b pids) (new_integrator pids)"
    by (auto simp: mvp_draft_def)
  have "wf_execution H x" using exec_init_inv[OF x(2)] by (simp add: exec_inv_def)
  moreover have "\<forall>n \<in> set (graph_nodes (exec_graph x)). gn_role_id n \<in> role_id ` set (roles ?id)"
    by (simp add: x(4) mvp_graph_def mvp_identity_def default_catalog_def Let_def)
  ultimately have "wf_m3 H \<lparr>m3_catalog = ?m3, graph_executions = [x]\<rparr> ?id"
    using wf_mvp_identity[OF assms(1,3-6)] wf_mvp_office[OF assms(1)] wf_accepted_meetings[OF assms(1,7-9)]
      wf_default_deliverables x(3,4)
    by (simp add: wf_m3_def Let_def default_deliverables_def accepted_meetings_def mvp_graph_def)
  moreover have "accept_decision H aids (mvp_draft pids name root codex agy) content actor at =
      (Inr x, (mvp_draft pids name root codex agy)\<lparr>draft_m3 := ?m3\<rparr>)"
    using v x(1) by (simp add: accept_decision_def) (simp add: mvp_draft_def)
  ultimately show ?thesis
    using x(2,4) by (simp add: mvp_draft_def accepted_meetings_def)
qed

end
