(* ===== verification/Project_Claims.thy ===== *)
theory Project_Claims
  imports Mvp
begin

text \<open>
  Claims about the policy ceiling, the identity catalog, the office, meetings, deliverables, the
  project state and the guided first project.
\<close>

section \<open>Policy and catalog\<close>

text \<open>Along a chain of policies each accepted by the one before it, from the workstation down
  to a single run, every policy sits on a strictly later layer than the first and within its
  ceiling on all five permissions and on persistence; a chain from the workstation has at most
  three members.\<close>

theorem policy_chain_within_root:
  assumes "restrict_chain root chain" and "p \<in> set chain"
  shows "layer root < layer p \<and> ceiling_within (ceiling p) (ceiling root) \<and> length chain \<le> 3"
  using restrict_chain_within[OF assms] restrict_chain_length[OF assms(1)] by auto

theorem policy_chain_within_root_witness:
  "ceiling_within (ceiling (mvp_policy SingleRun Observe)) (ceiling (mvp_policy Workstation Use))"
proof -
  have "restrict_chain (mvp_policy Workstation Use)
      [mvp_policy ProjectLayer Use, mvp_policy RoleOrAgent Observe, mvp_policy SingleRun Observe]"
    by code_simp
  from policy_chain_within_root[OF this, of "mvp_policy SingleRun Observe"] show ?thesis by simp
qed

text \<open>\<open>restrict\<close> returns the child policy exactly when its layer is later than the parent's and
  its ceiling is within the parent's, and nothing else.\<close>

theorem restrict_correct:
  "restrict parent child = Ok p \<longleftrightarrow>
     p = child \<and> layer parent < layer child \<and> ceiling_within (ceiling child) (ceiling parent)"
  by (rule restrict_Ok_iff)

text \<open>C40. \<open>IdentityCatalog::validate\<close> accepts a catalog exactly when identifiers are distinct per
  kind, required fields are present, every reference resolves, an agent and its account have the
  same provider, and run timestamps fit the run state.\<close>

theorem catalog_validate_correct: "catalog_validate c = Ok () \<longleftrightarrow> wf_catalog c"
  by (simp add: validate_iff_wf[symmetric] is_ok_unit)

section \<open>Project state\<close>

text \<open>C39. \<open>M3State::validate\<close> accepts a project state exactly when every part is valid and every
  reference between parts holds: executions follow a recorded decision baseline with existing
  roles, outputs belong to known runs, a document cites the research nodes and the output digest
  of the join it came from, and only accepted versions are delivered.\<close>

theorem m3_validate_correct: "m3_validate H m identity = Ok () \<longleftrightarrow> wf_m3 H m identity"
  by (simp add: m3_validate_iff_wf[symmetric] is_ok_unit)

text \<open>C36. From the form to the running graph: with fresh identifiers, a non-blank name, existing
  absolute workspace and model names, \<open>prepare\<close> returns a valid draft, and accepting a non-blank
  decision on it starts an execution and leaves a project state that passes \<open>M3State::validate\<close>.\<close>

theorem mvp_end_to_end:
  assumes "fresh_prepare_ids pids" and "fresh_accept_ids aids"
    and "is_absolute root" and "is_dir root" and "\<not> blank root"
    and "\<not> blank name" and "\<not> blank codex" and "\<not> blank agy"
    and "\<not> blank content" and "\<not> blank actor" and "\<not> blank at"
  shows "\<exists>draft x draft'.
    prepare H is_absolute is_dir pids name root codex agy = Ok draft \<and>
    draft_validate H draft = Ok () \<and>
    accept_decision H aids draft content actor at = (Ok x, draft') \<and>
    map db_content (decision_baselines (m3_meetings (draft_m3 draft'))) = [content] \<and>
    m3_validate H \<lparr>m3_catalog = draft_m3 draft', graph_executions = [x]\<rparr> (draft_identity draft') = Ok ()"
proof -
  from accept_Ok[OF assms(1,2,6,5,7-11), of H] obtain x d where
    x: "accept_decision H aids (mvp_draft pids name root codex agy) content actor at = (Inr x, d)"
      "wf_m3 H \<lparr>m3_catalog = draft_m3 d, graph_executions = [x]\<rparr> (draft_identity d)"
      "map db_content (decision_baselines (m3_meetings (draft_m3 d))) = [content]"
    by (elim exE conjE) (rule that)
  have "m3_validate H \<lparr>m3_catalog = draft_m3 d, graph_executions = [x]\<rparr> (draft_identity d) = Ok ()"
    using x(2) by (simp add: m3_validate_iff_wf[symmetric] is_ok_unit)
  moreover note prepare_Ok[where is_absolute = is_absolute and is_dir = is_dir, OF assms(1,6,3,4,5,7,8), of H]
  ultimately show ?thesis using x(1,3)
    by (intro exI[of _ "mvp_draft pids name root codex agy"] exI[of _ x] exI[of _ d] conjI)
qed

definition sample_prepare_ids :: prepare_ids where
  "sample_prepare_ids = \<lparr>new_project = StableId 1, new_meeting = StableId 2, new_room = StableId 3,
     new_research_a = StableId 4, new_research_b = StableId 5, new_integrator = StableId 6,
     new_codex_provider = StableId 7, new_agy_provider = StableId 8, new_openai_provider = StableId 9,
     new_agy_model_provider = StableId 10, new_codex_model = StableId 11, new_agy_model = StableId 12,
     new_codex_agent = StableId 13, new_agy_agent = StableId 14, new_assignment_a = StableId 15,
     new_assignment_b = StableId 16, new_assignment_c = StableId 17\<rparr>"

definition sample_accept_ids :: accept_ids where
  "sample_accept_ids = \<lparr>new_baseline = StableId 1, new_left = StableId 2, new_right = StableId 3,
     new_join = StableId 4, new_graph_run = StableId 5\<rparr>"

theorem mvp_end_to_end_witness:
  "\<exists>draft. prepare id (\<lambda>p. take 1 p = ''/'') (\<lambda>p. True) sample_prepare_ids ''MVP'' ''/work'' ''m1'' ''m2'' = Ok draft \<and>
     draft_validate id draft = Ok ()"
proof -
  have "fresh_prepare_ids sample_prepare_ids" "fresh_accept_ids sample_accept_ids"
    "\<not> blank ''/work''" "\<not> blank ''MVP''" "\<not> blank ''m1''" "\<not> blank ''m2''" "\<not> blank ''decide''"
    "\<not> blank ''me''" "\<not> blank ''now''" by code_simp+
  with mvp_end_to_end[of sample_prepare_ids sample_accept_ids "\<lambda>p. take 1 p = ''/''" "''/work''" "\<lambda>p. True"
      "''MVP''" "''m1''" "''m2''" "''decide''" "''me''" "''now''" id]
  show ?thesis by auto
qed

section \<open>Sealed records\<close>

text \<open>Accepting a document version records who accepted it and leaves its content, digest and
  sources unchanged; the accepted version is still valid, cannot be accepted a second time by
  anyone, and a later change of its text to one with another digest is detected.\<close>

theorem version_accepted_once:
  assumes "version_accept H actor at v = Ok v'"
  shows "version_validate_unchanged H v' = Ok () \<and> dv_markdown v' = dv_markdown v \<and>
    source_node_ids v' = source_node_ids v \<and> dv_accepted_by v' = Some actor \<and>
    version_accept H actor' at' v' = Err Dl_InvalidAcceptance \<and>
    (H text \<noteq> H (dv_markdown v) \<longrightarrow>
       version_validate_unchanged H (v'\<lparr>dv_markdown := text\<rparr>) = Err Dl_InvalidDocumentVersion)"
proof -
  from assms have v': "v' = v\<lparr>dv_accepted_by := Some actor, dv_accepted_at := Some at\<rparr>"
    and v: "version_validate_unchanged H v = Ok ()"
    by (auto simp: version_accept_def and_then_eq_Ok split: if_splits)
  then have ok: "version_validate_unchanged H v' = Ok ()"
    by (auto simp: version_validate_unchanged_def valid_source_receipt_def split: if_splits)
  have "\<not> is_ok (version_validate_unchanged H (v'\<lparr>dv_markdown := text\<rparr>))" if "H text \<noteq> H (dv_markdown v)"
    by (rule version_seal.tampering_detected[of H v'])
       (use that ok v' in \<open>simp_all add: document_hash_def\<close>)
  then have "version_validate_unchanged H (v'\<lparr>dv_markdown := text\<rparr>) = Err Dl_InvalidDocumentVersion"
    if "H text \<noteq> H (dv_markdown v)"
    using that by (auto simp: version_validate_unchanged_def split: if_splits)
  with ok v' show ?thesis by (simp add: version_accept_def)
qed

theorem version_accepted_once_witness:
  "\<exists>v v'. version_create id (StableId 1) 1 None ''text'' [StableId 2, StableId 3] = Ok v \<and>
     version_accept id ''me'' ''now'' v = Ok v' \<and>
     version_accept id ''you'' ''later'' v' = Err Dl_InvalidAcceptance"
proof -
  have "(case version_create id (StableId 1) 1 None ''text'' [StableId 2, StableId 3] of
      Inl _ \<Rightarrow> False | Inr v \<Rightarrow> is_ok (version_accept id ''me'' ''now'' v))" by code_simp
  then obtain v v' where "version_create id (StableId 1) 1 None ''text'' [StableId 2, StableId 3] = Ok v"
    "version_accept id ''me'' ''now'' v = Ok v'"
    by (auto simp: is_ok_iff split: sum.splits)
  with version_accepted_once[OF this(2)] show ?thesis by blast
qed

text \<open>In a valid deliverable catalog every knowledge delivery, delivered or only prepared, is
  redacted, has a preview and belongs to a document version a human accepted; a delivered one has
  a receipt and a prepared one has none.\<close>

theorem deliveries_only_from_accepted_versions:
  assumes "deliverables_validate H c = Ok ()" and "k \<in> set (knowledge_deliveries c)"
  shows "kd_redacted k \<and> \<not> blank (kd_preview k) \<and>
    (\<exists>d \<in> set (documents c). \<exists>v \<in> set (da_versions d). dv_id v = kd_artifact_version_id k \<and>
       dv_accepted_by v \<noteq> None \<and> version_validate_unchanged H v = Ok ()) \<and>
    (kd_state k = Delivered \<longleftrightarrow> kd_destination_receipt k \<noteq> None)"
proof -
  have wf: "wf_deliverables H c" using assms(1) deliverables_validate_iff_wf[of H c] by simp
  then have k: "is_ok (validate_delivery (accepted_versions c) k)"
    using assms(2) by (simp add: wf_deliverables_def)
  then obtain d v where dv: "d \<in> set (documents c)" "v \<in> set (da_versions d)"
    "dv_id v = kd_artifact_version_id k" "dv_accepted_by v \<noteq> None"
    by (auto simp: validate_delivery_def accepted_versions_def)
  from dv(2) obtain i where "i < length (da_versions d)" "da_versions d ! i = v"
    by (auto simp: in_set_conv_nth)
  moreover have "version_chain H (da_versions d)" using wf dv(1) by (simp add: wf_deliverables_def)
  ultimately have "is_ok (version_validate_unchanged H v)" by (auto simp: version_chain_def)
  then have "version_validate_unchanged H v = Ok ()" by (simp add: is_ok_unit)
  with dv have "\<exists>d \<in> set (documents c). \<exists>v \<in> set (da_versions d). dv_id v = kd_artifact_version_id k \<and>
       dv_accepted_by v \<noteq> None \<and> version_validate_unchanged H v = Ok ()" by blast
  moreover have "kd_redacted k \<and> \<not> blank (kd_preview k) \<and> (kd_state k = Delivered \<longleftrightarrow> kd_destination_receipt k \<noteq> None)"
    using k by (cases "kd_state k"; cases "kd_destination_receipt k") (simp_all add: validate_delivery_def)
  ultimately show ?thesis by blast
qed

definition sample_version :: DocumentVersion where
  "sample_version = \<lparr>dv_id = StableId 1, dv_version = 1, dv_parent_id = None, dv_markdown = ''text'',
     dv_content_hash = ''sha256:text'', source_node_ids = [StableId 2, StableId 3],
     source_execution_id = None, source_join_node_id = None, source_join_output_hash = None,
     dv_accepted_by = Some ''me'', dv_accepted_at = Some ''now''\<rparr>"

definition sample_delivery :: KnowledgeDelivery where
  "sample_delivery = \<lparr>kd_metadata = mvp_metadata (StableId 4), kd_project_id = StableId 5,
     kd_artifact_version_id = StableId 1, kd_target = BastetMind, kd_preview = ''p'', kd_redacted = True,
     kd_state = Prepared, kd_destination_receipt = None\<rparr>"

definition sample_deliverables :: DeliverableCatalog where
  "sample_deliverables = \<lparr>documents = [\<lparr>da_metadata = mvp_metadata (StableId 6), da_project_id = StableId 5,
     da_title = ''doc'', da_versions = [sample_version]\<rparr>], costs = [], knowledge_deliveries = [sample_delivery]\<rparr>"

theorem deliveries_only_from_accepted_versions_witness:
  "kd_redacted sample_delivery \<and> (kd_state sample_delivery = Delivered \<longleftrightarrow> kd_destination_receipt sample_delivery \<noteq> None)"
proof -
  have number: "version_number 0 = 1" by (simp add: version_number_def)
  have "\<not> blank ''doc''" "\<not> blank ''text''" "\<not> blank ''p''" by code_simp+
  then have "is_ok (deliverables_validate id sample_deliverables)"
    by (simp add: sample_deliverables_def deliverables_validate_def sample_version_def sample_delivery_def
        version_validate_unchanged_def valid_source_receipt_def document_hash_def number for_each_def
        validate_delivery_def checks.simps ensure_def)
  then have v: "deliverables_validate id sample_deliverables = Ok ()" by (simp add: is_ok_unit)
  have "sample_delivery \<in> set (knowledge_deliveries sample_deliverables)"
    by (simp add: sample_deliverables_def)
  from deliveries_only_from_accepted_versions[OF v this] show ?thesis by blast
qed

text \<open>A decision baseline created from non-blank content and acceptance is valid, and replacing
  its content by one with another digest is reported as a digest mismatch.\<close>

theorem baseline_content_sealed:
  assumes "baseline_create H metadata meeting content accepted_by accepted_at = Ok b"
  shows "baseline_validate_unchanged H b = Ok () \<and> db_content b = content \<and>
    (H text \<noteq> H content \<and> \<not> blank text \<longrightarrow>
       baseline_validate_unchanged H (b\<lparr>db_content := text\<rparr>) = Err Mt_HashMismatch)"
proof -
  from assms have b: "baseline_validate_unchanged H b = Ok ()" "db_content b = content"
    "\<not> blank (db_accepted_by b)" "\<not> blank (db_accepted_at b)"
    by (auto simp: baseline_create_def baseline_validate_unchanged_def split: if_splits)
  have "\<not> is_ok (baseline_validate_unchanged H (b\<lparr>db_content := text\<rparr>))" if "H text \<noteq> H content"
    by (rule baseline_seal.tampering_detected[of H b]) (use that b in \<open>simp_all add: hash_content_def\<close>)
  then have "baseline_validate_unchanged H (b\<lparr>db_content := text\<rparr>) = Err Mt_HashMismatch"
    if "H text \<noteq> H content" "\<not> blank text"
    using that b(3,4) by (auto simp: baseline_validate_unchanged_def split: if_splits)
  with b show ?thesis by blast
qed

theorem baseline_content_sealed_witness:
  "\<exists>b. baseline_create id (mvp_metadata (StableId 1)) (StableId 2) ''plan'' ''me'' ''now'' = Ok b \<and>
     baseline_validate_unchanged id (b\<lparr>db_content := ''other''\<rparr>) = Err Mt_HashMismatch"
proof -
  have "is_ok (baseline_create id (mvp_metadata (StableId 1)) (StableId 2) ''plan'' ''me'' ''now'')"
    "\<not> blank ''other''" by code_simp+
  then obtain b where b: "baseline_create id (mvp_metadata (StableId 1)) (StableId 2) ''plan'' ''me'' ''now'' = Ok b"
    by (auto simp: is_ok_iff)
  from baseline_content_sealed[OF b, of "''other''"] b \<open>\<not> blank ''other''\<close> show ?thesis by simp
qed

end
