(* ===== verification/Line_Decoder.thy ===== *)
theory Line_Decoder
  imports Bastet_Prelude
begin

text \<open>
  The line decoder that cuts a child's standard output into UTF-8 lines
  (\<open>LineDecoder\<close> of \<open>crates/bastet-core/src/process_output.rs\<close>). The sink is a caller's closure and
  a parameter: it takes its own state and a line, or the error, and answers whether to go on.
\<close>

type_synonym bytes = "nat list"

definition MAX_LINE_BYTES :: nat where
  "MAX_LINE_BYTES = 8 * 1024 * 1024"

type_synonym 's sink = "'s \<Rightarrow> (unit, bytes) result \<Rightarrow> bool \<times> 's"

section \<open>UTF-8\<close>

text \<open>
  \<open>String::from_utf8\<close> of the standard library accepts well-formed UTF-8: no overlong form, no
  surrogate, nothing above U+10FFFF.
\<close>

definition utf8_tail :: "nat \<Rightarrow> bool" where
  "utf8_tail b \<longleftrightarrow> 128 \<le> b \<and> b < 192"

fun valid_utf8 :: "bytes \<Rightarrow> bool" where
  "valid_utf8 [] = True"
| "valid_utf8 (a # bs) =
     (if a < 128 then valid_utf8 bs
      else if 194 \<le> a \<and> a < 224 then
        (case bs of b # bs' \<Rightarrow> utf8_tail b \<and> valid_utf8 bs' | _ \<Rightarrow> False)
      else if 224 \<le> a \<and> a < 240 then
        (case bs of b # c # bs' \<Rightarrow>
           utf8_tail b \<and> utf8_tail c \<and> (a = 224 \<longrightarrow> 160 \<le> b) \<and> (a = 237 \<longrightarrow> b < 160) \<and> valid_utf8 bs'
         | _ \<Rightarrow> False)
      else if 240 \<le> a \<and> a < 245 then
        (case bs of b # c # d # bs' \<Rightarrow>
           utf8_tail b \<and> utf8_tail c \<and> utf8_tail d \<and> (a = 240 \<longrightarrow> 144 \<le> b) \<and> (a = 244 \<longrightarrow> b < 144) \<and>
           valid_utf8 bs'
         | _ \<Rightarrow> False)
      else False)"

section \<open>The decoder\<close>

text \<open>
  The state is \<open>partial\<close>, the bytes of the unfinished line. Each operation answers whether the
  reader should go on, the new partial line and the sink's new state.
\<close>

definition emit :: "'s sink \<Rightarrow> bytes \<Rightarrow> bool \<Rightarrow> 's \<Rightarrow> bool \<times> bytes \<times> 's" where
  "emit sink partial newline s =
     (let line = (if newline \<and> partial \<noteq> [] \<and> last partial = 13 then butlast partial else partial)
      in if valid_utf8 line
         then (case sink s (Ok line) of (go, s') \<Rightarrow> (go, [], s'))
         else (False, [], snd (sink s (Err ()))))"

function push :: "'s sink \<Rightarrow> bytes \<Rightarrow> bytes \<Rightarrow> 's \<Rightarrow> bool \<times> bytes \<times> 's" where
  "push sink partial bytes s =
     (if 10 \<in> set bytes then
        let partial' = partial @ takeWhile (\<lambda>b. b \<noteq> 10) bytes;
            rest = tl (dropWhile (\<lambda>b. b \<noteq> 10) bytes)
        in if length partial' > MAX_LINE_BYTES then (False, partial', snd (sink s (Err ())))
           else (case emit sink partial' True s of
                   (go, p, s') \<Rightarrow> if go then push sink p rest s' else (False, p, s'))
      else
        let partial' = partial @ bytes
        in if length partial' > MAX_LINE_BYTES then (False, partial', snd (sink s (Err ())))
           else (True, partial', s))"
  by pat_completeness auto
termination
proof (relation "measure (\<lambda>(sink, partial, bytes, s). length bytes)", goal_cases)
  case (2 sink partial bytes s partial' rest r go p s')
  then have "bytes \<noteq> []" "dropWhile (\<lambda>b. b \<noteq> 10) bytes \<noteq> []" by auto
  moreover have "length (dropWhile (\<lambda>b. b \<noteq> 10) bytes) \<le> length bytes" by (rule length_dropWhile_le)
  ultimately show ?case using 2 by (cases "dropWhile (\<lambda>b. b \<noteq> 10) bytes") auto
qed simp

declare push.simps [simp del]

definition finish :: "'s sink \<Rightarrow> bytes \<Rightarrow> 's \<Rightarrow> bool \<times> bytes \<times> 's" where
  "finish sink partial s = (if partial = [] then (True, [], s) else emit sink partial False s)"

text \<open>What the reader loop does with the chunks it reads: push each one until told to stop.\<close>

fun push_chunks :: "'s sink \<Rightarrow> bytes \<Rightarrow> bytes list \<Rightarrow> 's \<Rightarrow> bool \<times> bytes \<times> 's" where
  "push_chunks sink partial [] s = (True, partial, s)"
| "push_chunks sink partial (c # cs) s =
     (case push sink partial c s of
        (go, p, s') \<Rightarrow> if go then push_chunks sink p cs s' else (False, p, s'))"

section \<open>Chunk boundaries do not matter\<close>

lemma push_no_newline:
  "10 \<notin> set bytes \<Longrightarrow> push sink partial bytes s =
     (if length (partial @ bytes) > MAX_LINE_BYTES then (False, partial @ bytes, snd (sink s (Err ())))
      else (True, partial @ bytes, s))"
  by (subst push.simps) simp

lemma push_line:
  "10 \<notin> set line \<Longrightarrow> push sink partial (line @ 10 # rest) s =
     (if length (partial @ line) > MAX_LINE_BYTES then (False, partial @ line, snd (sink s (Err ())))
      else (case emit sink (partial @ line) True s of
              (go, p, s') \<Rightarrow> if go then push sink p rest s' else (False, p, s')))"
proof -
  assume line: "10 \<notin> set line"
  then have "\<And>b. b \<in> set line \<Longrightarrow> b \<noteq> 10" by metis
  then have "takeWhile (\<lambda>b. b \<noteq> 10) (line @ 10 # rest) = line"
    "dropWhile (\<lambda>b. b \<noteq> 10) (line @ 10 # rest) = 10 # rest"
    by (simp_all add: takeWhile_append2 dropWhile_append2)
  then show ?thesis by (subst push.simps) (simp add: Let_def)
qed

lemma split_newline: "10 \<in> set (bs :: bytes) \<Longrightarrow> \<exists>line rest. bs = line @ 10 # rest \<and> 10 \<notin> set line"
  by (rule split_list_first)

text \<open>The verdict of two pushes; what is left of the partial line after a stop is never read.\<close>

definition observe :: "bool \<times> bytes \<times> 's \<Rightarrow> bool \<times> bytes option \<times> 's" where
  "observe r = (case r of (go, p, s) \<Rightarrow> (go, if go then Some p else None, s))"

lemma push_append:
  assumes "length partial \<le> MAX_LINE_BYTES"
  shows "observe (push sink partial (a @ b) s) =
    observe (case push sink partial a s of (go, p, s') \<Rightarrow> if go then push sink p b s' else (False, p, s'))"
  using assms
proof (induction "length a" arbitrary: partial a s rule: less_induct)
  case less
  show ?case
  proof (cases "10 \<in> set a")
    case True
    then obtain line rest where a: "a = line @ 10 # rest" and line: "10 \<notin> set line"
      using split_newline by blast
    have ab: "a @ b = line @ 10 # (rest @ b)" by (simp add: a)
    show ?thesis
    proof (cases "length (partial @ line) > MAX_LINE_BYTES")
      case False
      obtain go p s' where e: "emit sink (partial @ line) True s = (go, p, s')"
        by (cases "emit sink (partial @ line) True s")
      have p: "p = []" using e by (auto simp: emit_def Let_def split: if_splits prod.splits)
      show ?thesis
      proof (cases go)
        case True
        have "observe (push sink [] (rest @ b) s') =
          observe (case push sink [] rest s' of (go, p, s') \<Rightarrow> if go then push sink p b s' else (False, p, s'))"
          using less.hyps[of rest "[]" s'] by (simp add: a)
        with True e p False show ?thesis
          by (simp only: ab, simp only: a, simp add: push_line[OF line])
      qed (use e False in \<open>simp only: ab, simp only: a, simp add: push_line[OF line]\<close>)
    qed (simp only: ab, simp only: a, simp add: push_line[OF line])
  next
    case False
    show ?thesis
    proof (cases "10 \<in> set b")
      case True
      then obtain line rest where b: "b = line @ 10 # rest" and line: "10 \<notin> set line"
        using split_newline by blast
      have ab: "a @ b = (a @ line) @ 10 # rest" "10 \<notin> set (a @ line)" using False line by (auto simp: b)
      show ?thesis
        using push_line[OF ab(2), of sink partial rest s]
        by (auto simp: b push_no_newline[OF False] push_line[OF line] observe_def)
    next
      case nb: False
      with False have ab: "10 \<notin> set (a @ b)" by simp
      show ?thesis
        unfolding push_no_newline[OF ab] push_no_newline[OF False]
        by (auto simp: push_no_newline[OF nb] observe_def)
    qed
  qed
qed

lemma push_partial_bound:
  "push sink partial bytes s = (True, p, s') \<Longrightarrow> length p \<le> MAX_LINE_BYTES"
proof (induction sink partial bytes s arbitrary: p s' rule: push.induct)
  case (1 sink partial bytes s)
  show ?case
  proof (cases "10 \<in> set bytes")
    case True
    with "1.prems" "1.IH"[OF True refl refl] show ?thesis
      by (subst (asm) push.simps) (auto simp: Let_def split: if_splits prod.splits)
  next
    case False
    with "1.prems" show ?thesis by (auto simp: push_no_newline split: if_splits)
  qed
qed

lemma push_chunks_concat:
  assumes "length partial \<le> MAX_LINE_BYTES"
  shows "observe (push_chunks sink partial cs s) = observe (push sink partial (concat cs) s)"
  using assms
proof (induction cs arbitrary: partial s)
  case Nil
  then show ?case by (simp add: push_no_newline)
next
  case (Cons c cs)
  obtain go p s' where r: "push sink partial c s = (go, p, s')" by (cases "push sink partial c s")
  show ?case
  proof (cases go)
    case True
    with r have "push sink partial c s = (True, p, s')" by simp
    then have "length p \<le> MAX_LINE_BYTES" by (rule push_partial_bound)
    with Cons.IH True r push_append[OF Cons.prems, of sink c "concat cs" s] show ?thesis by simp
  next
    case False
    with r push_append[OF Cons.prems, of sink c "concat cs" s] show ?thesis by simp
  qed
qed

section \<open>Lines come out as they went in\<close>

text \<open>A sink that records everything and always goes on.\<close>

definition collect :: "(unit, bytes) result list sink" where
  "collect s r = (True, s @ [r])"

definition clean_line :: "bytes \<Rightarrow> bool" where
  "clean_line l \<longleftrightarrow> 10 \<notin> set l \<and> (l = [] \<or> last l \<noteq> 13) \<and> valid_utf8 l \<and> length l \<le> MAX_LINE_BYTES"

lemma push_clean_lines:
  assumes "\<forall>l \<in> set ls. clean_line l"
  shows "push collect [] (concat (map (\<lambda>l. l @ [10]) ls)) s = (True, [], s @ map Ok ls)"
  using assms
proof (induction ls arbitrary: s)
  case Nil
  then show ?case by (simp add: push_no_newline)
next
  case (Cons l ls)
  then have l: "10 \<notin> set l" "emit collect ([] @ l) True s = (True, [], s @ [Ok l])"
    "\<not> length ([] @ l) > MAX_LINE_BYTES"
    by (auto simp: clean_line_def emit_def collect_def Let_def)
  have cat: "concat (map (\<lambda>l. l @ [10]) (l # ls)) = l @ 10 # concat (map (\<lambda>l. l @ [10]) ls)" by simp
  from Cons show ?case unfolding cat push_line[OF l(1)] using l(2,3) by simp
qed

end
