(* ===== verification/Process_Queue.thy ===== *)
theory Process_Queue
  imports Bastet_Prelude "HOL-Library.Sublist"
begin

text \<open>
  The bounded hand-off from the stdout reader to the run loop
  (\<open>crates/bastet-core/src/process_queue.rs\<close>). Sender and receiver run in different threads and
  share the atomics \<open>used\<close> and \<open>failed\<close> and the channel of the standard library, so each atomic
  access or channel operation is one step here and the threads interleave freely. A program
  counter per thread says where it is inside \<open>send\<close> or \<open>recv_timeout\<close>.
\<close>

definition OUTPUT_QUEUE_BYTES :: nat where "OUTPUT_QUEUE_BYTES = 16 * 1024 * 1024"
definition OUTPUT_QUEUE_ITEMS :: nat where "OUTPUT_QUEUE_ITEMS = 128"

text \<open>\<open>usize\<close> has 64 bits; \<open>used.checked_add(wire_bytes)\<close> fails above.\<close>

definition USIZE_LIMIT :: nat where "USIZE_LIMIT = 2 ^ 64"

record 'a Envelope =
  env_value :: 'a
  env_size :: nat

datatype 'a send_pc =
  Send_Idle
| Send_Reserve 'a nat      \<comment> \<open>\<open>failed\<close> was read as false\<close>
| Send_Push "'a Envelope"  \<comment> \<open>the bytes are reserved\<close>
| Send_Fail                \<comment> \<open>about to store \<open>failed\<close>\<close>

datatype 'a recv_pc =
  Recv_Idle
| Recv_Wait                \<comment> \<open>\<open>failed\<close> was read as false\<close>
| Recv_Got "'a Envelope"   \<comment> \<open>an envelope was taken from the channel\<close>

text \<open>\<open>accepted\<close> and \<open>delivered\<close> record what \<open>send\<close> returned true for and what \<open>recv_timeout\<close> returned.\<close>

record 'a queue =
  chan :: "'a Envelope list"
  used :: nat
  failed :: bool
  receiver_open :: bool
  send_at :: "'a send_pc"
  recv_at :: "'a recv_pc"
  accepted :: "'a list"
  delivered :: "'a list"

definition output_queue :: "'a queue" where
  "output_queue = \<lparr>chan = [], used = 0, failed = False, receiver_open = True, send_at = Send_Idle,
     recv_at = Recv_Idle, accepted = [], delivered = []\<rparr>"

section \<open>Atomic steps\<close>

text \<open>\<open>send\<close>: the first load of \<open>failed\<close>.\<close>

definition send_begin :: "'a \<Rightarrow> nat \<Rightarrow> 'a queue \<Rightarrow> 'a queue" where
  "send_begin v n q = (if failed q then q else q\<lparr>send_at := Send_Reserve v n\<rparr>)"

text \<open>\<open>send\<close>: the \<open>fetch_update\<close> on \<open>used\<close>.\<close>

definition send_reserve :: "'a \<Rightarrow> nat \<Rightarrow> 'a queue \<Rightarrow> 'a queue" where
  "send_reserve v n q =
     (if used q + n < USIZE_LIMIT \<and> used q + n \<le> OUTPUT_QUEUE_BYTES
      then q\<lparr>used := used q + n, send_at := Send_Push \<lparr>env_value = v, env_size = n\<rparr>\<rparr>
      else q\<lparr>send_at := Send_Fail\<rparr>)"

text \<open>\<open>send\<close>: \<open>try_send\<close>; an envelope that is refused is dropped and gives its bytes back.\<close>

definition send_push :: "'a Envelope \<Rightarrow> 'a queue \<Rightarrow> 'a queue" where
  "send_push e q =
     (if receiver_open q \<and> length (chan q) < OUTPUT_QUEUE_ITEMS
      then q\<lparr>chan := chan q @ [e], accepted := accepted q @ [env_value e], send_at := Send_Idle\<rparr>
      else q\<lparr>used := used q - env_size e, send_at := Send_Fail\<rparr>)"

text \<open>\<open>send\<close>: the store to \<open>failed\<close> before returning false.\<close>

definition send_fail :: "'a queue \<Rightarrow> 'a queue" where
  "send_fail q = q\<lparr>failed := True, send_at := Send_Idle\<rparr>"

text \<open>\<open>recv_timeout\<close>: the first \<open>is_failed\<close>.\<close>

definition recv_begin :: "'a queue \<Rightarrow> 'a queue" where
  "recv_begin q = (if failed q then q else q\<lparr>recv_at := Recv_Wait\<rparr>)"

text \<open>\<open>recv_timeout\<close>: the channel's answer, an envelope or a timeout.\<close>

definition recv_take :: "'a queue \<Rightarrow> 'a queue" where
  "recv_take q =
     (case chan q of
        [] \<Rightarrow> q\<lparr>recv_at := Recv_Idle\<rparr>
      | e # es \<Rightarrow> q\<lparr>chan := es, recv_at := Recv_Got e\<rparr>)"

text \<open>\<open>recv_timeout\<close>: the second \<open>is_failed\<close>; either way the envelope is dropped.\<close>

definition recv_finish :: "'a Envelope \<Rightarrow> 'a queue \<Rightarrow> 'a queue" where
  "recv_finish e q =
     (let q = q\<lparr>used := used q - env_size e, recv_at := Recv_Idle\<rparr>
      in if failed q then q else q\<lparr>delivered := delivered q @ [env_value e]\<rparr>)"

text \<open>Dropping the receiver drops every envelope in the channel.\<close>

definition drop_receiver :: "'a queue \<Rightarrow> 'a queue" where
  "drop_receiver q =
     q\<lparr>used := used q - sum_list (map env_size (chan q)), chan := [], receiver_open := False\<rparr>"

datatype 'a queue_event =
  Begin_send 'a nat | Step_send | Begin_recv | Step_recv | Drop_receiver

inductive queue_step :: "'a queue \<Rightarrow> 'a queue_event \<Rightarrow> 'a queue \<Rightarrow> bool" where
  begin_send: "send_at q = Send_Idle \<Longrightarrow> queue_step q (Begin_send v n) (send_begin v n q)"
| reserve: "send_at q = Send_Reserve v n \<Longrightarrow> queue_step q Step_send (send_reserve v n q)"
| push: "send_at q = Send_Push e \<Longrightarrow> queue_step q Step_send (send_push e q)"
| fail: "send_at q = Send_Fail \<Longrightarrow> queue_step q Step_send (send_fail q)"
| begin_recv: "receiver_open q \<Longrightarrow> recv_at q = Recv_Idle \<Longrightarrow> queue_step q Begin_recv (recv_begin q)"
| take: "recv_at q = Recv_Wait \<Longrightarrow> queue_step q Step_recv (recv_take q)"
| finish: "recv_at q = Recv_Got e \<Longrightarrow> queue_step q Step_recv (recv_finish e q)"
| drop: "recv_at q = Recv_Idle \<Longrightarrow> queue_step q Drop_receiver (drop_receiver q)"

section \<open>Invariant\<close>

fun sender_holds :: "'a send_pc \<Rightarrow> 'a Envelope list" where
  "sender_holds (Send_Push e) = [e]"
| "sender_holds _ = []"

fun receiver_holds :: "'a recv_pc \<Rightarrow> 'a Envelope list" where
  "receiver_holds (Recv_Got e) = [e]"
| "receiver_holds _ = []"

text \<open>Every envelope that exists: taken, waiting, or about to be sent.\<close>

definition envelopes :: "'a queue \<Rightarrow> 'a Envelope list" where
  "envelopes q = receiver_holds (recv_at q) @ chan q @ sender_holds (send_at q)"

text \<open>
  \<open>used\<close> counts exactly the bytes of the envelopes that exist and stays within the budget. While
  the queue has not failed and the receiver lives, nothing accepted is lost; after that, what was
  delivered is still a prefix of what was accepted.
\<close>

definition queue_inv :: "'a queue \<Rightarrow> bool" where
  "queue_inv q \<longleftrightarrow>
     used q = sum_list (map env_size (envelopes q)) \<and> used q \<le> OUTPUT_QUEUE_BYTES \<and>
     length (chan q) \<le> OUTPUT_QUEUE_ITEMS \<and>
     (receiver_open q \<and> \<not> failed q \<longrightarrow>
        accepted q = delivered q @ map env_value (receiver_holds (recv_at q) @ chan q)) \<and>
     (receiver_open q \<and> failed q \<and> recv_at q \<noteq> Recv_Idle \<longrightarrow>
        prefix (delivered q) (accepted q)) \<and>
     (\<not> receiver_open q \<longrightarrow> recv_at q = Recv_Idle \<and> chan q = []) \<and>
     prefix (delivered q) (accepted q)"

lemmas queue_ops = send_begin_def send_reserve_def send_push_def send_fail_def recv_begin_def
  recv_take_def recv_finish_def drop_receiver_def

lemma queue_inv_init: "queue_inv output_queue"
  by (simp add: queue_inv_def output_queue_def envelopes_def)

lemma queue_inv_step:
  assumes "queue_inv q" and "queue_step q l q'"
  shows "queue_inv q'"
  using assms(2,1)
proof (induction rule: queue_step.induct)
  case (take q)
  then show ?case
    by (cases "chan q") (auto simp: queue_inv_def queue_ops envelopes_def)
next
  case (finish q e)
  then show ?case
    by (auto simp: queue_inv_def queue_ops envelopes_def Let_def)
next
  case (push q e)
  then show ?case
    by (auto simp: queue_inv_def queue_ops envelopes_def prefix_def)
qed (auto simp: queue_inv_def queue_ops envelopes_def)

interpretation queue: invariant_system "\<lambda>q. q = output_queue" queue_step queue_inv
  by unfold_locales (auto intro: queue_inv_init queue_inv_step)

text \<open>Overflow is sticky.\<close>

lemma failed_sticky: "queue_step q l q' \<Longrightarrow> failed q \<Longrightarrow> failed q'"
  by (induction rule: queue_step.induct) (auto simp: queue_ops Let_def split: list.splits)

interpretation failed: monotone_system "\<lambda>q. q = output_queue" queue_step queue_inv failed
  by unfold_locales (auto dest: failed_sticky)

interpretation delivered: monotone_system "\<lambda>q. q = output_queue" queue_step queue_inv
    "\<lambda>q. length (delivered q)"
  by unfold_locales (auto elim!: queue_step.cases simp: queue_ops Let_def split: list.splits)

end
