(* ===== verification/Windows_Encoding.thy ===== *)
theory Windows_Encoding
  imports Bastet_Prelude "HOL-Library.List_Lexorder"
begin

text \<open>
  The command line and environment block handed to \<open>CreateProcessW\<close>
  (\<open>crates/bastet-core/src/windows_launch_encoding.rs\<close>). Text is UTF-16 code units. The
  specification is the documented argument parsing of the Microsoft C runtime, \<open>crt_argv\<close>: what
  the encoder writes is read back as the same executable and arguments.
\<close>

type_synonym units = "u16 list"

definition MAX_COMMAND_UNITS :: nat where "MAX_COMMAND_UNITS = 32767"
definition MAX_ENVIRONMENT_UNITS :: nat where "MAX_ENVIRONMENT_UNITS = 32767"

text \<open>The one error, \<open>io::ErrorKind::InvalidInput\<close>.\<close>

datatype encoding_error = InvalidEncoding

section \<open>The encoder\<close>

text \<open>\<open>append\<close>; \<open>checked_add\<close> on \<open>usize\<close> cannot fail below the limit.\<close>

definition append_units :: "units \<Rightarrow> u16 \<Rightarrow> nat \<Rightarrow> nat \<Rightarrow> (encoding_error, units) result" where
  "append_units out unit count limit =
     (if length out + count \<le> limit then Ok (out @ replicate count unit) else Err InvalidEncoding)"

text \<open>The loop over an argument's units, with the count of pending backslashes; the products are
  checked against the 64-bit \<open>usize\<close>.\<close>

fun encode_units :: "units \<Rightarrow> nat \<Rightarrow> units \<Rightarrow> (encoding_error, units) result" where
  "encode_units out slashes [] =
     (if 2 * slashes \<ge> 2 ^ 64 then Err InvalidEncoding
      else append_units out 92 (2 * slashes) MAX_COMMAND_UNITS)"
| "encode_units out slashes (u # us) =
     (if u = 0 then Err InvalidEncoding
      else if u = 92 then
        (if slashes + 1 \<ge> 2 ^ 64 then Err InvalidEncoding else encode_units out (slashes + 1) us)
      else if u = 34 \<and> 2 * slashes + 1 \<ge> 2 ^ 64 then Err InvalidEncoding
      else
        and_then (append_units out 92 (if u = 34 then 2 * slashes + 1 else slashes) MAX_COMMAND_UNITS)
          (\<lambda>out. and_then (append_units out u 1 MAX_COMMAND_UNITS)
             (\<lambda>out. encode_units out 0 us)))"

definition encode_argument :: "units \<Rightarrow> units \<Rightarrow> (encoding_error, units) result" where
  "encode_argument out argument =
     and_then (append_units out 32 1 MAX_COMMAND_UNITS) (\<lambda>out.
     and_then (append_units out 34 1 MAX_COMMAND_UNITS) (\<lambda>out.
     and_then (encode_units out 0 argument) (\<lambda>out.
     append_units out 34 1 MAX_COMMAND_UNITS)))"

fun encode_arguments :: "units \<Rightarrow> units list \<Rightarrow> (encoding_error, units) result" where
  "encode_arguments out [] = Ok out"
| "encode_arguments out (a # as) =
     and_then (encode_argument out a) (\<lambda>out. encode_arguments out as)"

fun append_each :: "units \<Rightarrow> units \<Rightarrow> nat \<Rightarrow> (encoding_error, units) result" where
  "append_each out [] limit = Ok out"
| "append_each out (u # us) limit =
     and_then (append_units out u 1 limit) (\<lambda>out. append_each out us limit)"

definition windows_command_line :: "units \<Rightarrow> units list \<Rightarrow> (encoding_error, units) result" where
  "windows_command_line executable arguments =
     (if executable = [] \<or> (\<exists>u \<in> set executable. u \<in> {0, 34}) then Err InvalidEncoding
      else
        and_then (append_units [] 34 1 MAX_COMMAND_UNITS) (\<lambda>out.
        and_then (append_each out executable MAX_COMMAND_UNITS) (\<lambda>out.
        and_then (append_units out 34 1 MAX_COMMAND_UNITS) (\<lambda>out.
        and_then (encode_arguments out arguments) (\<lambda>out.
        append_units out 0 1 MAX_COMMAND_UNITS)))))"

section \<open>The text it writes\<close>

fun quoted_units :: "nat \<Rightarrow> units \<Rightarrow> units" where
  "quoted_units slashes [] = replicate (2 * slashes) 92"
| "quoted_units slashes (u # us) =
     (if u = 92 then quoted_units (slashes + 1) us
      else replicate (if u = 34 then 2 * slashes + 1 else slashes) 92 @ u # quoted_units 0 us)"

definition quoted :: "units \<Rightarrow> units" where
  "quoted a = 34 # quoted_units 0 a @ [34]"

definition command_text :: "units \<Rightarrow> units list \<Rightarrow> units" where
  "command_text executable arguments =
     34 # executable @ 34 # concat (map (\<lambda>a. 32 # quoted a) arguments)"

lemma append_units_iff:
  "append_units out u n limit = Inr r \<longleftrightarrow> length out + n \<le> limit \<and> r = out @ replicate n u"
  by (auto simp: append_units_def)

lemma append_each_iff:
  "append_each out us limit = Inr r \<longleftrightarrow>
     r = out @ us \<and> (us = [] \<or> length (out @ us) \<le> limit)"
proof (induction us arbitrary: out)
  case (Cons u us)
  have "append_each out (u # us) limit = Inr r \<longleftrightarrow>
      length out + 1 \<le> limit \<and> append_each (out @ [u]) us limit = Inr r"
    by (auto simp: and_then_eq_Ok append_units_iff)
  then show ?case unfolding Cons.IH[of "out @ [u]"] by auto
qed auto

lemma length_quoted_units: "length (quoted_units slashes us) \<ge> slashes"
proof (induction us arbitrary: slashes)
  case (Cons u us)
  from Cons.IH[of "slashes + 1"] show ?case by auto
qed simp

lemma encode_units_iff:
  "encode_units out slashes us = Inr r \<longleftrightarrow>
     0 \<notin> set us \<and> r = out @ quoted_units slashes us \<and> length r \<le> MAX_COMMAND_UNITS"
proof (induction us arbitrary: out slashes)
  case Nil
  have "2 * slashes < 2 ^ 64" if "length out + 2 * slashes \<le> MAX_COMMAND_UNITS"
    using that by (simp add: MAX_COMMAND_UNITS_def)
  then show ?case by (auto simp: append_units_iff)
next
  case (Cons u us)
  show ?case
  proof (cases "u = 92")
    case True
    have "slashes + 1 < 2 ^ 64" if "length (out @ quoted_units (slashes + 1) us) \<le> MAX_COMMAND_UNITS"
      using that length_quoted_units[of "slashes + 1" us] by (simp add: MAX_COMMAND_UNITS_def)
    with True Cons.IH[of out "slashes + 1"] show ?thesis by auto
  next
    case False
    let ?n = "if u = 34 then 2 * slashes + 1 else slashes"
    have "2 * slashes + 1 < 2 ^ 64" if "u = 34" "length out + ?n \<le> MAX_COMMAND_UNITS"
      using that by (simp add: MAX_COMMAND_UNITS_def)
    with False show ?thesis
      by (auto simp: and_then_eq_Ok append_units_iff Cons.IH)
  qed
qed

lemma encode_argument_iff:
  "encode_argument out a = Inr r \<longleftrightarrow>
     0 \<notin> set a \<and> r = out @ 32 # quoted a \<and> length r \<le> MAX_COMMAND_UNITS"
  by (auto simp: encode_argument_def and_then_eq_Ok append_units_iff encode_units_iff quoted_def)

lemma encode_arguments_iff:
  "encode_arguments out as = Inr r \<longleftrightarrow>
     (\<forall>a \<in> set as. 0 \<notin> set a) \<and> r = out @ concat (map (\<lambda>a. 32 # quoted a) as) \<and>
     (as = [] \<or> length r \<le> MAX_COMMAND_UNITS)"
proof (induction as arbitrary: out)
  case (Cons a as)
  show ?case
    by (auto simp: and_then_eq_Ok encode_argument_iff Cons.IH)
qed auto

lemma windows_command_line_iff:
  "windows_command_line executable arguments = Inr r \<longleftrightarrow>
     executable \<noteq> [] \<and> 0 \<notin> set executable \<and> 34 \<notin> set executable \<and> (\<forall>a \<in> set arguments. 0 \<notin> set a) \<and>
     r = command_text executable arguments @ [0] \<and> length r \<le> MAX_COMMAND_UNITS"
  by (auto simp: windows_command_line_def and_then_eq_Ok append_units_iff append_each_iff
      encode_arguments_iff command_text_def)

section \<open>How the C runtime reads it\<close>

text \<open>
  The documented rules: the first argument runs to the closing quote without escapes; later ones
  are separated by blanks outside quotes, \<open>2n\<close> backslashes before a quote are \<open>n\<close> backslashes
  and the quote toggles quoting, \<open>2n+1\<close> are \<open>n\<close> backslashes and a literal quote, other
  backslashes are literal. \<open>crt_units\<close> reads one argument and returns it with what follows.
\<close>

fun crt_units :: "bool \<Rightarrow> nat \<Rightarrow> units \<Rightarrow> units \<Rightarrow> units \<times> units" where
  "crt_units quoting slashes arg [] = (arg @ replicate slashes 92, [])"
| "crt_units quoting slashes arg (u # us) =
     (if u = 92 then crt_units quoting (slashes + 1) arg us
      else if u = 34 then
        (if even slashes then crt_units (\<not> quoting) 0 (arg @ replicate (slashes div 2) 92) us
         else crt_units quoting 0 (arg @ replicate (slashes div 2) 92 @ [34]) us)
      else if u \<in> {32, 9} \<and> \<not> quoting then (arg @ replicate slashes 92, u # us)
      else crt_units quoting 0 (arg @ replicate slashes 92 @ [u]) us)"

lemma crt_units_shorter: "length (snd (crt_units q n arg us)) \<le> length us"
  by (induction q n arg us rule: crt_units.induct) auto

lemma crt_units_shorter_start:
  "u \<notin> {32, 9} \<Longrightarrow> length (snd (crt_units False 0 [] (u # us))) < Suc (length us)"
  using crt_units_shorter[of _ _ _ us] by (auto simp: le_imp_less_Suc)

function crt_arguments :: "units \<Rightarrow> units list" where
  "crt_arguments us =
     (case dropWhile (\<lambda>u. u \<in> {32, 9}) us of
        [] \<Rightarrow> []
      | v # vs \<Rightarrow> (case crt_units False 0 [] (v # vs) of (arg, rest) \<Rightarrow> arg # crt_arguments rest))"
  by pat_completeness auto
termination
proof (relation "measure length", goal_cases)
  case (2 us v vs arg rest)
  have "v \<notin> {32, 9}" using 2(1) by (metis hd_dropWhile list.distinct(1) list.sel(1))
  then have "length rest < Suc (length vs)"
    using crt_units_shorter_start[of v vs] 2(2) by (metis snd_conv)
  moreover have "Suc (length vs) \<le> length us" using 2(1) length_dropWhile_le by (metis length_Cons)
  ultimately show ?case by simp
qed simp

declare crt_arguments.simps [simp del]

definition crt_argv :: "units \<Rightarrow> units list" where
  "crt_argv us =
     (case us of
        u # us' \<Rightarrow>
          if u = 34 then
            takeWhile (\<lambda>u. u \<noteq> 34) us' # crt_arguments (tl (dropWhile (\<lambda>u. u \<noteq> 34) us'))
          else takeWhile (\<lambda>u. u \<notin> {32, 9}) us # crt_arguments (dropWhile (\<lambda>u. u \<notin> {32, 9}) us)
      | [] \<Rightarrow> [])"

section \<open>Round trip\<close>

lemma crt_slashes:
  "crt_units q n arg (replicate k 92 @ us) = crt_units q (n + k) arg us"
  by (induction k arbitrary: n) auto

lemma crt_quoted_units:
  "crt_units True 0 arg (quoted_units slashes us @ 34 # rest) =
   crt_units False 0 (arg @ replicate slashes 92 @ us) rest"
proof (induction us arbitrary: slashes arg)
  case Nil
  show ?case by (simp add: crt_slashes)
next
  case (Cons u us)
  consider "u = 92" | "u = 34" | "u \<noteq> 92" "u \<noteq> 34" by blast
  then show ?case
  proof cases
    case 1
    then show ?thesis
      using Cons.IH[of arg "slashes + 1"] by (simp add: replicate_append_same[symmetric])
  next
    case 2
    then show ?thesis
      using Cons.IH[of "arg @ replicate slashes 92 @ [34]" 0] by (simp add: crt_slashes)
  next
    case 3
    then show ?thesis
      using Cons.IH[of "arg @ replicate slashes 92 @ [u]" 0] by (auto simp: crt_slashes)
  qed
qed

lemma crt_arguments_quoted:
  "crt_arguments (concat (map (\<lambda>a. 32 # quoted a) as)) = as"
proof (induction as)
  case Nil
  show ?case by (simp add: crt_arguments.simps)
next
  case (Cons a as)
  let ?rest = "concat (map (\<lambda>a. 32 # quoted a) as)"
  have stop: "crt_units False 0 arg ?rest = (arg, ?rest)" for arg
    by (cases as) auto
  have "crt_units False 0 [] (quoted a @ ?rest) = (a, ?rest)"
    using crt_quoted_units[of "[]" 0 a ?rest] stop[of a] by (simp add: quoted_def)
  then show ?case
    using Cons by (subst crt_arguments.simps) (simp add: quoted_def)
qed

lemma crt_argv_command_text:
  assumes "34 \<notin> set executable"
  shows "crt_argv (command_text executable arguments) = executable # arguments"
proof -
  have "\<And>u. u \<in> set executable \<Longrightarrow> u \<noteq> 34" using assms by metis
  then have "takeWhile (\<lambda>u. u \<noteq> 34) (executable @ 34 # r) = executable"
    "dropWhile (\<lambda>u. u \<noteq> 34) (executable @ 34 # r) = 34 # r" for r
    by (simp_all add: takeWhile_append2 dropWhile_append2)
  then show ?thesis by (simp add: crt_argv_def command_text_def crt_arguments_quoted)
qed

end
