(* ===== verification/Windows_Environment.thy ===== *)
theory Windows_Environment
  imports Windows_Encoding "HOL-Library.Multiset"
begin

text \<open>
  The environment of a child process: the allow-list every adapter is started with
  (\<open>crates/bastet-core/src/process_environment.rs\<close>) and the explicit Unicode block
  \<open>windows_environment_block\<close>. The specification of the block is the documented reading: entries
  \<open>key=value\<close>, each ended by a zero unit, and a zero unit at the end.
\<close>

section \<open>The allow-list\<close>

definition ALLOWED_ENVIRONMENT_KEYS :: "string list" where
  "ALLOWED_ENVIRONMENT_KEYS =
     [''PATH'', ''PATHEXT'', ''COMSPEC'', ''SYSTEMROOT'', ''WINDIR'', ''HOME'', ''USERPROFILE'', ''HOMEDRIVE'',
      ''HOMEPATH'', ''APPDATA'', ''LOCALAPPDATA'', ''TMPDIR'', ''TMP'', ''TEMP'', ''LANG'', ''LC_ALL'', ''LC_CTYPE'']"

definition to_ascii_uppercase :: "string \<Rightarrow> nat list" where
  "to_ascii_uppercase s = map (\<lambda>c. let n = of_char c in if 97 \<le> n \<and> n \<le> 122 then n - 32 else n) s"

definition eq_ignore_ascii_case :: "string \<Rightarrow> string \<Rightarrow> bool" where
  "eq_ignore_ascii_case a b \<longleftrightarrow> to_ascii_uppercase a = to_ascii_uppercase b"

text \<open>\<open>allowed_key\<close>, whose comparison depends on the platform.\<close>

definition allowed_key :: "bool \<Rightarrow> string \<Rightarrow> bool" where
  "allowed_key windows key \<longleftrightarrow>
     (\<exists>candidate \<in> set ALLOWED_ENVIRONMENT_KEYS.
        if windows then eq_ignore_ascii_case key candidate else key = candidate)"

text \<open>\<open>configure_adapter_process_environment_from\<close>: what \<open>Command::env\<close> was called with after
  \<open>env_clear\<close>.\<close>

definition configure_adapter_process_environment_from ::
  "bool \<Rightarrow> (string \<times> string) list \<Rightarrow> (string \<times> string) list" where
  "configure_adapter_process_environment_from windows inherited =
     filter (\<lambda>(key, value). allowed_key windows key) inherited"

section \<open>The block\<close>

type_synonym env_entry = "string \<times> units"

definition env_key_char :: "char \<Rightarrow> bool" where
  "env_key_char c \<longleftrightarrow> (let n = of_char c :: nat in
     (48 \<le> n \<and> n \<le> 57) \<or> (65 \<le> n \<and> n \<le> 90) \<or> (97 \<le> n \<and> n \<le> 122) \<or> n = 95)"

definition env_entry_ok :: "env_entry \<Rightarrow> bool" where
  "env_entry_ok e \<longleftrightarrow> fst e \<noteq> [] \<and> (\<forall>c \<in> set (fst e). env_key_char c) \<and> 0 \<notin> set (snd e)"

text \<open>\<open>encode_utf16\<close> of the ASCII keys.\<close>

definition key_units :: "string \<Rightarrow> units" where
  "key_units k = map of_char k"

fun has_adjacent :: "('a \<Rightarrow> 'a \<Rightarrow> bool) \<Rightarrow> 'a list \<Rightarrow> bool" where
  "has_adjacent P (x # y # zs) = (P x y \<or> has_adjacent P (y # zs))"
| "has_adjacent P _ = False"

fun append_entries :: "units \<Rightarrow> env_entry list \<Rightarrow> (encoding_error, units) result" where
  "append_entries out [] = Ok out"
| "append_entries out (e # es) =
     and_then (append_each out (key_units (fst e) @ [61] @ snd e @ [0]) MAX_ENVIRONMENT_UNITS)
       (\<lambda>out. append_entries out es)"

definition env_order :: "env_entry list \<Rightarrow> env_entry list" where
  "env_order entries = sort_key (\<lambda>e. to_ascii_uppercase (fst e)) entries"

definition windows_environment_block :: "env_entry list \<Rightarrow> (encoding_error, units) result" where
  "windows_environment_block entries =
     (if \<exists>e \<in> set entries. \<not> env_entry_ok e then Err InvalidEncoding
      else let ordered = env_order entries in
        if has_adjacent (\<lambda>a b. eq_ignore_ascii_case (fst a) (fst b)) ordered then Err InvalidEncoding
        else and_then (append_entries [] ordered) (\<lambda>out.
          and_then (if out = [] then append_units out 0 1 MAX_ENVIRONMENT_UNITS else Ok out) (\<lambda>out.
            append_units out 0 1 MAX_ENVIRONMENT_UNITS)))"

section \<open>How the block is read\<close>

function read_block :: "units \<Rightarrow> (units \<times> units) list" where
  "read_block us =
     (case us of
        [] \<Rightarrow> []
      | u # _ \<Rightarrow>
          if u = 0 then []
          else let e = takeWhile (\<lambda>u. u \<noteq> 0) us; rest = tl (dropWhile (\<lambda>u. u \<noteq> 0) us)
               in (takeWhile (\<lambda>u. u \<noteq> 61) e, tl (dropWhile (\<lambda>u. u \<noteq> 61) e)) # read_block rest)"
  by pat_completeness auto
termination
proof (relation "measure length", goal_cases)
  case (2 us v vs e rest)
  have "length (tl (dropWhile (\<lambda>u. u \<noteq> 0) us)) < length us"
    using length_dropWhile_le[of "\<lambda>u. u \<noteq> 0" us] 2(1)
    by (cases "dropWhile (\<lambda>u. u \<noteq> 0) us") auto
  with 2 show ?case by simp
qed simp

declare read_block.simps [simp del]

definition entry_text :: "env_entry \<Rightarrow> units" where
  "entry_text e = key_units (fst e) @ 61 # snd e @ [0]"

lemma append_entries_iff:
  "append_entries out es = Inr r \<longleftrightarrow>
     r = out @ concat (map entry_text es) \<and> (es = [] \<or> length r \<le> MAX_ENVIRONMENT_UNITS)"
proof (induction es arbitrary: out)
  case (Cons e es)
  have "append_entries out (e # es) = Inr r \<longleftrightarrow>
      length (out @ entry_text e) \<le> MAX_ENVIRONMENT_UNITS \<and> append_entries (out @ entry_text e) es = Inr r"
    by (auto simp: and_then_eq_Ok append_each_iff entry_text_def)
  then show ?case unfolding Cons.IH[of "out @ entry_text e"] by auto
qed auto

lemma key_char_units:
  assumes "env_key_char c"
  shows "(of_char c :: u16) \<noteq> 61" "(of_char c :: u16) \<noteq> 0"
proof -
  let ?n = "of_char c :: nat"
  have n: "?n \<le> 122" "?n \<noteq> 61" "?n \<noteq> 0" using assms by (auto simp: env_key_char_def Let_def)
  have "unat (of_nat ?n :: u16) = ?n" using n(1) by (simp only: unat_of_nat) simp
  moreover have "(of_nat ?n :: u16) = of_char c" by (rule of_nat_of_char)
  ultimately have u: "unat (of_char c :: u16) = ?n" by simp
  show "(of_char c :: u16) \<noteq> 61"
  proof
    assume "(of_char c :: u16) = 61"
    then have "unat (of_char c :: u16) = 61" by simp
    with u n(2) show False by simp
  qed
  show "(of_char c :: u16) \<noteq> 0"
  proof
    assume "(of_char c :: u16) = 0"
    then have "unat (of_char c :: u16) = 0" by simp
    with u n(3) show False by simp
  qed
qed

lemma key_units_clean:
  assumes "env_entry_ok e"
  shows "key_units (fst e) \<noteq> []" "\<And>u. u \<in> set (key_units (fst e)) \<Longrightarrow> u \<noteq> 61 \<and> u \<noteq> 0"
  using assms key_char_units by (auto simp: env_entry_ok_def key_units_def)

lemma read_entry:
  assumes "env_entry_ok e"
  shows "read_block (entry_text e @ rest) = (key_units (fst e), snd e) # read_block rest"
proof -
  note key = key_units_clean[OF assms]
  have v: "\<And>u. u \<in> set (snd e) \<Longrightarrow> u \<noteq> 0" using assms by (auto simp: env_entry_ok_def)
  let ?e = "key_units (fst e) @ 61 # snd e"
  have nz: "\<And>u. u \<in> set ?e \<Longrightarrow> u \<noteq> 0" using key(2) v by auto
  have whole: "entry_text e @ rest = ?e @ 0 # rest" by (simp add: entry_text_def)
  have "takeWhile (\<lambda>u. u \<noteq> 0) (?e @ 0 # rest) = ?e" "dropWhile (\<lambda>u. u \<noteq> 0) (?e @ 0 # rest) = 0 # rest"
    using takeWhile_append2[of ?e "\<lambda>u. u \<noteq> 0" "0 # rest"] dropWhile_append2[of ?e "\<lambda>u. u \<noteq> 0" "0 # rest"] nz
    by simp_all
  moreover have "takeWhile (\<lambda>u. u \<noteq> 61) ?e = key_units (fst e)" "dropWhile (\<lambda>u. u \<noteq> 61) ?e = 61 # snd e"
    using key(2) by (simp_all add: takeWhile_append2 dropWhile_append2)
  moreover obtain u us where "?e = u # us" "u \<noteq> 0" using nz key(1) by (cases ?e) auto
  ultimately show ?thesis
    unfolding whole by (subst read_block.simps) (simp add: Let_def)
qed

lemma read_entries:
  "\<forall>e \<in> set es. env_entry_ok e \<Longrightarrow>
   read_block (concat (map entry_text es) @ [0]) = map (\<lambda>e. (key_units (fst e), snd e)) es"
  by (induction es) (simp_all add: read_entry read_block.simps[of "[0]"])

lemma read_empty: "read_block [0, 0] = []"
  by (simp add: read_block.simps)

lemma env_order_set: "set (env_order es) = set es"
  by (simp add: env_order_def)

lemma windows_environment_block_OkD:
  assumes "windows_environment_block entries = Inr b"
  shows "\<forall>e \<in> set entries. env_entry_ok e" "length b \<le> MAX_ENVIRONMENT_UNITS"
    "\<not> has_adjacent (\<lambda>a b. eq_ignore_ascii_case (fst a) (fst b)) (env_order entries)"
    "read_block b = map (\<lambda>e. (key_units (fst e), snd e)) (env_order entries)"
proof -
  let ?out = "concat (map entry_text (env_order entries))"
  from assms show ok: "\<forall>e \<in> set entries. env_entry_ok e"
    and "\<not> has_adjacent (\<lambda>a b. eq_ignore_ascii_case (fst a) (fst b)) (env_order entries)"
    by (auto simp: windows_environment_block_def Let_def split: if_splits)
  from assms have b: "b = (if ?out = [] then [0, 0] else ?out @ [0]) \<and> length b \<le> MAX_ENVIRONMENT_UNITS"
    by (auto simp: windows_environment_block_def Let_def and_then_eq_Ok append_entries_iff append_units_iff
        split: if_splits)
  then show "length b \<le> MAX_ENVIRONMENT_UNITS" by (rule conjunct2)
  have "\<forall>e \<in> set (env_order entries). env_entry_ok e" using ok by (simp add: env_order_set)
  note read = read_entries[OF this]
  have "env_order entries = []" if "?out = []"
    using that by (cases "env_order entries") (auto simp: entry_text_def)
  with b read read_empty
  show "read_block b = map (\<lambda>e. (key_units (fst e), snd e)) (env_order entries)" by auto
qed

lemma sorted_adjacent_distinct:
  "sorted (map f xs) \<Longrightarrow> \<not> has_adjacent (\<lambda>a b. f a = f b) xs \<Longrightarrow> distinct (map f xs)"
proof (induction "\<lambda>a b. f a = f b" xs rule: has_adjacent.induct)
  case (1 x y zs)
  then have d: "distinct (map f (y # zs))" and lt: "f x < f y" by auto
  have "f y \<le> f z" if "z \<in> set zs" for z using 1(2) that by simp
  with lt have "f x \<notin> f ` set (y # zs)" by (auto simp: leD)
  with d show ?case by simp
qed auto

lemma block_keys_distinct:
  assumes "windows_environment_block entries = Inr b"
  shows "distinct (map (\<lambda>e. to_ascii_uppercase (fst e)) entries)"
proof -
  let ?f = "\<lambda>e :: env_entry. to_ascii_uppercase (fst e)"
  have "sorted (map ?f (env_order entries))" by (simp add: env_order_def)
  moreover have "\<not> has_adjacent (\<lambda>a b. ?f a = ?f b) (env_order entries)"
    using windows_environment_block_OkD(3)[OF assms] by (simp add: eq_ignore_ascii_case_def)
  ultimately have "distinct (map ?f (env_order entries))" by (rule sorted_adjacent_distinct)
  moreover have "mset (map ?f (env_order entries)) = mset (map ?f entries)" by (simp add: env_order_def)
  ultimately show ?thesis by (metis mset_eq_imp_distinct_iff)
qed

end
