(* ===== verification/Process_Input.thy ===== *)
theory Process_Input
  imports Bastet_Prelude "HOL-Library.Sublist"
begin

text \<open>
  The writer of a child's standard input (\<open>crates/bastet-core/src/process_input.rs\<close>). The caller of
  \<open>write_frame_cancellable\<close> and \<open>close\<close> and the worker thread share the flag \<open>stopped\<close>, a channel
  without capacity and a channel for the result, so every access to them, every look at the clock
  or at the cancellation token and every write to the pipe is one step, and the two threads, the
  clock and whoever cancels interleave freely. A program counter per thread says where it is.
\<close>

section \<open>State\<close>

definition MAX_INPUT_FRAME_BYTES :: nat where "MAX_INPUT_FRAME_BYTES = 8 * 1024 * 1024"

datatype input_error =
  In_InvalidInput | In_TimedOut | In_Interrupted | In_BrokenPipe | In_WriteZero | In_PipeFailed

record WriteRequest =
  wr_frame :: string
  wr_deadline :: nat

text \<open>What \<open>close\<close> is for: a write that failed, to be reported once the worker has ended, or nothing.\<close>

type_synonym closing = "(string \<times> input_error) option"

datatype caller_pc =
  In_Idle
| In_First WriteRequest         \<comment> \<open>the first look at the token\<close>
| In_FirstClock WriteRequest    \<comment> \<open>the first look at the clock\<close>
| In_Token WriteRequest         \<comment> \<open>the head of the loop that offers the request\<close>
| In_Clock WriteRequest
| In_TrySend WriteRequest
| In_Full WriteRequest          \<comment> \<open>the worker was not waiting\<close>
| In_Await WriteRequest         \<comment> \<open>the head of the loop that waits for the result\<close>
| In_Receive WriteRequest
| In_TimedWait WriteRequest     \<comment> \<open>nothing came within the interval\<close>
| In_Stop closing               \<comment> \<open>about to store \<open>stopped\<close>\<close>
| In_DropSender closing
| In_Join closing

datatype worker_pc =
  Wk_Recv
| Wk_Head WriteRequest nat      \<comment> \<open>the head of the loop of \<open>write_one\<close>, at an offset\<close>
| Wk_Clock WriteRequest nat
| Wk_Pipe WriteRequest nat
| Wk_Final WriteRequest         \<comment> \<open>all bytes were taken\<close>
| Wk_Send "(input_error, unit) result"
| Wk_Check                      \<comment> \<open>about to look at \<open>stopped\<close> after a success\<close>
| Wk_Done

text \<open>\<open>iw_answers\<close> records what the writes returned, \<open>iw_current\<close> the frame the worker took last.\<close>

record input_writer =
  iw_caller :: caller_pc
  iw_worker :: worker_pc
  iw_poisoned :: bool
  iw_sender :: bool
  iw_stopped :: bool
  iw_cancelled :: bool
  iw_now :: nat
  iw_result :: "(input_error, unit) result option"
  iw_pipe :: string
  iw_current :: string
  iw_answers :: "(string \<times> (input_error, unit) result) list"

definition input_writer_spawn :: "nat \<Rightarrow> input_writer" where
  "input_writer_spawn now = \<lparr>iw_caller = In_Idle, iw_worker = Wk_Recv, iw_poisoned = False, iw_sender = True,
     iw_stopped = False, iw_cancelled = False, iw_now = now, iw_result = None, iw_pipe = [], iw_current = [],
     iw_answers = []\<rparr>"

section \<open>The caller\<close>

definition write_returns :: "string \<Rightarrow> (input_error, unit) result \<Rightarrow> input_writer \<Rightarrow> input_writer" where
  "write_returns f r s = s\<lparr>iw_answers := iw_answers s @ [(f, r)], iw_caller := In_Idle\<rparr>"

definition poison_and_close :: "input_error \<Rightarrow> WriteRequest \<Rightarrow> input_writer \<Rightarrow> input_writer" where
  "poison_and_close e q s = s\<lparr>iw_poisoned := True, iw_caller := In_Stop (Some (wr_frame q, e))\<rparr>"

text \<open>The checks before the first look at the token; an oversized frame does not poison the writer.\<close>

definition write_begin :: "string \<Rightarrow> nat \<Rightarrow> bool \<Rightarrow> input_writer \<Rightarrow> input_writer" where
  "write_begin frame deadline cancelled s =
     (if iw_poisoned s \<or> \<not> iw_sender s then write_returns frame (Err In_BrokenPipe) s
      else if MAX_INPUT_FRAME_BYTES < length frame then write_returns frame (Err In_InvalidInput) s
      else s\<lparr>iw_cancelled := cancelled, iw_caller := In_First \<lparr>wr_frame = frame, wr_deadline = deadline\<rparr>\<rparr>)"

definition look_at_token :: "WriteRequest \<Rightarrow> caller_pc \<Rightarrow> input_writer \<Rightarrow> input_writer" where
  "look_at_token q next_pc s =
     (if iw_cancelled s then poison_and_close In_Interrupted q s else s\<lparr>iw_caller := next_pc\<rparr>)"

definition look_at_clock :: "WriteRequest \<Rightarrow> caller_pc \<Rightarrow> input_writer \<Rightarrow> input_writer" where
  "look_at_clock q next_pc s =
     (if wr_deadline q \<le> iw_now s then poison_and_close In_TimedOut q s else s\<lparr>iw_caller := next_pc\<rparr>)"

text \<open>\<open>try_send\<close> meets the worker only while it waits in \<open>recv\<close>; \<open>meets\<close> is whether it already does.\<close>

definition try_send :: "bool \<Rightarrow> WriteRequest \<Rightarrow> input_writer \<Rightarrow> input_writer" where
  "try_send meets q s =
     (if iw_worker s = Wk_Done then poison_and_close In_BrokenPipe q s
      else if iw_worker s = Wk_Recv \<and> meets
      then s\<lparr>iw_worker := Wk_Head q 0, iw_result := None, iw_current := wr_frame q, iw_caller := In_Await q\<rparr>
      else s\<lparr>iw_caller := In_Full q\<rparr>)"

fun worker_holds :: "worker_pc \<Rightarrow> bool" where
  "worker_holds Wk_Recv = False"
| "worker_holds Wk_Check = False"
| "worker_holds Wk_Done = False"
| "worker_holds _ = True"

definition receive_result :: "WriteRequest \<Rightarrow> input_writer \<Rightarrow> input_writer" where
  "receive_result q s =
     (case iw_result s of
        Some (Inr _) \<Rightarrow> write_returns (wr_frame q) (Ok ()) (s\<lparr>iw_result := None\<rparr>)
      | Some (Inl e) \<Rightarrow> poison_and_close e q (s\<lparr>iw_result := None\<rparr>)
      | None \<Rightarrow> if worker_holds (iw_worker s) then s\<lparr>iw_caller := In_TimedWait q\<rparr>
          else poison_and_close In_BrokenPipe q s)"

text \<open>\<open>close\<close>: the store, the drop of the sender, and the join.\<close>

definition close_stop :: "closing \<Rightarrow> input_writer \<Rightarrow> input_writer" where
  "close_stop c s = s\<lparr>iw_stopped := True, iw_caller := In_DropSender c\<rparr>"

definition close_sender :: "closing \<Rightarrow> input_writer \<Rightarrow> input_writer" where
  "close_sender c s = s\<lparr>iw_sender := False, iw_caller := In_Join c\<rparr>"

definition close_joined :: "closing \<Rightarrow> input_writer \<Rightarrow> input_writer" where
  "close_joined c s =
     (case c of None \<Rightarrow> s\<lparr>iw_caller := In_Idle\<rparr> | Some (f, e) \<Rightarrow> write_returns f (Err e) s)"

section \<open>The worker\<close>

text \<open>The head of the loop of \<open>write_one\<close>.\<close>

definition write_head :: "WriteRequest \<Rightarrow> nat \<Rightarrow> input_writer \<Rightarrow> input_writer" where
  "write_head q k s = s\<lparr>iw_worker :=
     (if length (wr_frame q) \<le> k then Wk_Final q
      else if iw_stopped s then Wk_Send (Err In_BrokenPipe) else Wk_Clock q k)\<rparr>"

definition write_clock :: "WriteRequest \<Rightarrow> worker_pc \<Rightarrow> input_writer \<Rightarrow> input_writer" where
  "write_clock q next_pc s = s\<lparr>iw_worker := (if wr_deadline q \<le> iw_now s then Wk_Send (Err In_TimedOut) else next_pc)\<rparr>"

text \<open>What the pipe does with the rest of the frame: it takes some bytes, at most all of them.\<close>

datatype pipe_answer = Took nat | Pipe_Interrupted | Pipe_WouldBlock | Pipe_Failed

fun write_pipe :: "pipe_answer \<Rightarrow> WriteRequest \<Rightarrow> nat \<Rightarrow> input_writer \<Rightarrow> input_writer" where
  "write_pipe (Took 0) q k s = s\<lparr>iw_worker := Wk_Send (Err In_WriteZero)\<rparr>"
| "write_pipe (Took (Suc n)) q k s =
     s\<lparr>iw_pipe := iw_pipe s @ take (Suc n) (drop k (wr_frame q)), iw_worker := Wk_Head q (k + Suc n)\<rparr>"
| "write_pipe Pipe_Interrupted q k s = s\<lparr>iw_worker := Wk_Head q k\<rparr>"
| "write_pipe Pipe_WouldBlock q k s = s\<lparr>iw_worker := Wk_Head q k\<rparr>"
| "write_pipe Pipe_Failed q k s = s\<lparr>iw_worker := Wk_Send (Err In_PipeFailed)\<rparr>"

definition send_result :: "(input_error, unit) result \<Rightarrow> input_writer \<Rightarrow> input_writer" where
  "send_result r s = s\<lparr>iw_result := Some r, iw_worker := (if is_ok r then Wk_Check else Wk_Done)\<rparr>"

definition check_stopped :: "input_writer \<Rightarrow> input_writer" where
  "check_stopped s = s\<lparr>iw_worker := (if iw_stopped s then Wk_Done else Wk_Recv)\<rparr>"

section \<open>Steps\<close>

datatype input_event =
  In_Write string nat bool | In_Close | In_Caller bool | In_Worker pipe_answer | In_Cancel | In_Tick

inductive input_step :: "input_writer \<Rightarrow> input_event \<Rightarrow> input_writer \<Rightarrow> bool" where
  in_write: "iw_caller s = In_Idle \<Longrightarrow> input_step s (In_Write f d c) (write_begin f d c s)"
| in_close: "iw_caller s = In_Idle \<Longrightarrow> input_step s In_Close (s\<lparr>iw_caller := In_Stop None\<rparr>)"
| in_first: "iw_caller s = In_First q \<Longrightarrow> input_step s (In_Caller m) (look_at_token q (In_FirstClock q) s)"
| in_first_clock: "iw_caller s = In_FirstClock q \<Longrightarrow> input_step s (In_Caller m) (look_at_clock q (In_Token q) s)"
| in_token: "iw_caller s = In_Token q \<Longrightarrow> input_step s (In_Caller m) (look_at_token q (In_Clock q) s)"
| in_clock: "iw_caller s = In_Clock q \<Longrightarrow> input_step s (In_Caller m) (look_at_clock q (In_TrySend q) s)"
| in_try: "iw_caller s = In_TrySend q \<Longrightarrow> input_step s (In_Caller m) (try_send m q s)"
| in_full: "iw_caller s = In_Full q \<Longrightarrow> input_step s (In_Caller m) (look_at_clock q (In_Token q) s)"
| in_await: "iw_caller s = In_Await q \<Longrightarrow> input_step s (In_Caller m) (look_at_token q (In_Receive q) s)"
| in_receive: "iw_caller s = In_Receive q \<Longrightarrow> input_step s (In_Caller m) (receive_result q s)"
| in_timed: "iw_caller s = In_TimedWait q \<Longrightarrow> input_step s (In_Caller m) (look_at_clock q (In_Await q) s)"
| in_stop: "iw_caller s = In_Stop c \<Longrightarrow> input_step s (In_Caller m) (close_stop c s)"
| in_drop: "iw_caller s = In_DropSender c \<Longrightarrow> input_step s (In_Caller m) (close_sender c s)"
| in_join: "iw_caller s = In_Join c \<Longrightarrow> iw_worker s = Wk_Done \<Longrightarrow> input_step s (In_Caller m) (close_joined c s)"
| wk_hang_up: "iw_worker s = Wk_Recv \<Longrightarrow> \<not> iw_sender s \<Longrightarrow> input_step s (In_Worker a) (s\<lparr>iw_worker := Wk_Done\<rparr>)"
| wk_head: "iw_worker s = Wk_Head q k \<Longrightarrow> input_step s (In_Worker a) (write_head q k s)"
| wk_clock: "iw_worker s = Wk_Clock q k \<Longrightarrow> input_step s (In_Worker a) (write_clock q (Wk_Pipe q k) s)"
| wk_pipe: "iw_worker s = Wk_Pipe q k \<Longrightarrow> (\<forall>n. a = Took n \<longrightarrow> n \<le> length (wr_frame q) - k) \<Longrightarrow>
    input_step s (In_Worker a) (write_pipe a q k s)"
| wk_final: "iw_worker s = Wk_Final q \<Longrightarrow> input_step s (In_Worker a) (write_clock q (Wk_Send (Ok ())) s)"
| wk_send: "iw_worker s = Wk_Send r \<Longrightarrow> input_step s (In_Worker a) (send_result r s)"
| wk_check: "iw_worker s = Wk_Check \<Longrightarrow> input_step s (In_Worker a) (check_stopped s)"
| cancel: "input_step s In_Cancel (s\<lparr>iw_cancelled := True\<rparr>)"
| tick: "input_step s In_Tick (s\<lparr>iw_now := Suc (iw_now s)\<rparr>)"

section \<open>What is in the pipe\<close>

text \<open>The frames whose write returned success.\<close>

definition written_frames :: "input_writer \<Rightarrow> string list" where
  "written_frames s = map fst (filter (\<lambda>(f, r). is_ok r) (iw_answers s))"

fun closing_pc :: "caller_pc \<Rightarrow> bool" where
  "closing_pc (In_Stop c) = True"
| "closing_pc (In_DropSender c) = True"
| "closing_pc (In_Join c) = True"
| "closing_pc _ = False"

fun awaited :: "caller_pc \<Rightarrow> WriteRequest option" where
  "awaited (In_Await q) = Some q"
| "awaited (In_Receive q) = Some q"
| "awaited (In_TimedWait q) = Some q"
| "awaited _ = None"

text \<open>How much of the current frame the worker has put into the pipe.\<close>

fun worker_part :: "worker_pc \<Rightarrow> string \<Rightarrow> string \<Rightarrow> bool" where
  "worker_part (Wk_Head q k) cur part \<longleftrightarrow> cur = wr_frame q \<and> k \<le> length cur \<and> part = take k cur"
| "worker_part (Wk_Clock q k) cur part \<longleftrightarrow> cur = wr_frame q \<and> k \<le> length cur \<and> part = take k cur"
| "worker_part (Wk_Pipe q k) cur part \<longleftrightarrow> cur = wr_frame q \<and> k \<le> length cur \<and> part = take k cur"
| "worker_part (Wk_Final q) cur part \<longleftrightarrow> part = cur"
| "worker_part (Wk_Send r) cur part \<longleftrightarrow> (is_ok r \<longrightarrow> part = cur)"
| "worker_part _ cur part \<longleftrightarrow> True"

text \<open>What the result channel and the caller know of it.\<close>

definition caller_part :: "input_writer \<Rightarrow> string \<Rightarrow> bool" where
  "caller_part s part \<longleftrightarrow>
     (case awaited (iw_caller s) of
        Some q \<Rightarrow> \<not> iw_poisoned s \<and> wr_frame q = iw_current s \<and>
          (case iw_result s of
             None \<Rightarrow> worker_holds (iw_worker s)
           | Some r \<Rightarrow> \<not> worker_holds (iw_worker s) \<and> (is_ok r \<longrightarrow> part = iw_current s))
      | None \<Rightarrow> (if iw_poisoned s then closing_pc (iw_caller s) \<or> iw_caller s = In_Idle \<and> iw_worker s = Wk_Done
          else part = [] \<and> \<not> worker_holds (iw_worker s)))"

definition input_inv :: "input_writer \<Rightarrow> bool" where
  "input_inv s \<longleftrightarrow> (\<exists>part. iw_pipe s = concat (written_frames s) @ part \<and> prefix part (iw_current s) \<and>
     worker_part (iw_worker s) (iw_current s) part \<and> caller_part s part) \<and>
   (\<forall>f e. iw_caller s \<in> {In_Stop (Some (f, e)), In_DropSender (Some (f, e)), In_Join (Some (f, e))} \<longrightarrow> iw_poisoned s)"

lemmas caller_ops = write_returns_def poison_and_close_def write_begin_def look_at_token_def look_at_clock_def
  try_send_def close_stop_def close_sender_def close_joined_def
lemmas worker_ops = write_head_def write_clock_def send_result_def check_stopped_def

lemma input_inv_init: "input_inv (input_writer_spawn now)"
  by (simp add: input_inv_def input_writer_spawn_def written_frames_def caller_part_def)

lemma input_inv_step:
  assumes "input_step s l t" and "input_inv s" shows "input_inv t"
  using assms
proof (induction rule: input_step.induct)
  case (in_receive s q m)
  note inv = in_receive(2)[unfolded input_inv_def caller_part_def in_receive(1)]
  consider (none) "iw_result s = None" | (bad) e where "iw_result s = Some (Inl e)" | (good) "iw_result s = Some (Inr ())"
    by (cases "iw_result s"; cases "the (iw_result s)") auto
  then show ?case
  proof cases
    case none
    with inv in_receive(1) show ?thesis
      by (auto simp: receive_result_def input_inv_def caller_part_def written_frames_def)
  next
    case bad
    with inv in_receive(1) show ?thesis
      by (auto simp: receive_result_def input_inv_def caller_part_def written_frames_def caller_ops)
  next
    case good
    with inv have "iw_pipe s = concat (written_frames s) @ wr_frame q" "\<not> worker_holds (iw_worker s)" "\<not> iw_poisoned s"
      by auto
    moreover then have "worker_part (iw_worker s) (iw_current s) []" by (cases "iw_worker s") auto
    ultimately show ?thesis using good
      by (simp add: receive_result_def input_inv_def caller_part_def written_frames_def caller_ops)
  qed
next
  case (wk_pipe s q k a)
  then obtain part where part: "iw_pipe s = concat (written_frames s) @ part" "iw_current s = wr_frame q"
    "k \<le> length (iw_current s)" "part = take k (iw_current s)" "caller_part s part"
    and closing: "\<forall>f e. iw_caller s \<in> {In_Stop (Some (f, e)), In_DropSender (Some (f, e)), In_Join (Some (f, e))} \<longrightarrow> iw_poisoned s"
    by (auto simp: input_inv_def)
  show ?case
  proof (cases "\<exists>n. a = Took (Suc n)")
    case True
    then obtain n where n: "a = Took (Suc n)" by blast
    with wk_pipe part have k: "k + Suc n \<le> length (iw_current s)" by auto
    have "caller_part (write_pipe a q k s) (take (k + Suc n) (iw_current s))"
      using part wk_pipe(1) n by (auto simp: caller_part_def split: option.splits if_splits)
    moreover have "iw_pipe (write_pipe a q k s) = concat (written_frames s) @ take (k + Suc n) (iw_current s)"
      using part n by (simp add: take_add[symmetric])
    ultimately show ?thesis using k n part closing
      by (auto simp: input_inv_def written_frames_def take_is_prefix)
  next
    case False
    then consider "a = Took 0" | "a = Pipe_Interrupted" | "a = Pipe_WouldBlock" | "a = Pipe_Failed"
      by (cases a rule: pipe_answer.exhaust) (metis not0_implies_Suc, auto)
    then show ?thesis using part wk_pipe(1) closing
      by cases (auto simp: input_inv_def caller_part_def written_frames_def take_is_prefix split: option.splits if_splits)
  qed
next
  case (wk_send s r a)
  then show ?case
    by (cases r) (auto simp: send_result_def input_inv_def caller_part_def written_frames_def split: option.splits if_splits)
qed (auto simp: input_inv_def caller_part_def caller_ops worker_ops written_frames_def split: if_splits option.splits)

interpretation input: invariant_system "\<lambda>s. s = input_writer_spawn now" input_step input_inv for now
  by unfold_locales (auto intro: input_inv_init input_inv_step)

section \<open>After a failure\<close>

text \<open>The worker has ended, the pipe is left as it is, and every further write is refused.\<close>

definition input_dead :: "string \<Rightarrow> (string \<times> (input_error, unit) result) list \<Rightarrow> input_writer \<Rightarrow> bool" where
  "input_dead pipe answers s \<longleftrightarrow> iw_poisoned s \<and> iw_worker s = Wk_Done \<and> iw_pipe s = pipe \<and>
     iw_caller s \<in> {In_Idle, In_Stop None, In_DropSender None, In_Join None} \<and>
     (\<exists>rs. iw_answers s = answers @ rs \<and> (\<forall>(f, r) \<in> set rs. r = Err In_BrokenPipe))"

lemma input_dead_step: "input_step s l t \<Longrightarrow> input_dead pipe answers s \<Longrightarrow> input_dead pipe answers t"
  by (induction rule: input_step.induct) (auto simp: input_dead_def caller_ops)

interpretation dead: invariant_system "input_dead pipe answers" input_step "input_dead pipe answers" for pipe answers
  by unfold_locales (auto intro: input_dead_step)

lemma idle_poisoned_dead:
  "input_inv s \<Longrightarrow> iw_caller s = In_Idle \<Longrightarrow> iw_poisoned s \<Longrightarrow> input_dead (iw_pipe s) (iw_answers s) s"
  by (auto simp: input_inv_def input_dead_def caller_part_def)

end
