(* ===== verification/Process_Claims.thy ===== *)
theory Process_Claims
  imports Line_Decoder Process_Queue Windows_Environment Process_Input
begin

text \<open>
  Claims about the process boundary: the output decoder, the hand-off queue and the encodings of
  a Windows launch.
\<close>

section \<open>Output\<close>

text \<open>C19. How the operating system cuts a child's output into chunks makes no difference: for every
  sink, decoding the chunks one after the other gives the same answers, the same sink state and
  the same unfinished line as decoding all bytes at once.\<close>

theorem decoder_chunk_independent:
  "observe (push_chunks sink [] chunks s) = observe (push sink [] (concat chunks) s)"
  by (rule push_chunks_concat) simp

text \<open>Lines written with a newline after each come out unchanged and in order, however they are
  chunked, when each is valid UTF-8 of at most 8 MiB without a newline or a final carriage
  return.\<close>

theorem decoder_lines_roundtrip:
  assumes "\<forall>l \<in> set ls. clean_line l" and "concat chunks = concat (map (\<lambda>l. l @ [10]) ls)"
  shows "push_chunks collect [] chunks [] = (True, [], map Ok ls)"
proof -
  have "observe (push_chunks collect [] chunks []) = (True, Some [], map Ok ls)"
    using push_chunks_concat[of "[]" collect chunks "[]"] push_clean_lines[OF assms(1), of "[]"] assms(2)
    by (simp add: observe_def)
  then show ?thesis by (auto simp: observe_def split: prod.splits if_splits)
qed

theorem decoder_lines_roundtrip_witness:
  "push_chunks collect [] [[104], [105, 10, 195], [169, 10]] [] = (True, [], [Ok [104, 105], Ok [195, 169]])"
proof -
  have "\<forall>l \<in> set [[104, 105], [195, 169]]. clean_line l"
    by (simp add: clean_line_def utf8_tail_def MAX_LINE_BYTES_def)
  from decoder_lines_roundtrip[OF this, of "[[104], [105, 10, 195], [169, 10]]"] show ?thesis by simp
qed

section \<open>Queue\<close>

lemmas queue_reach_init = reachable_init[where init = "\<lambda>q. q = output_queue" and step = queue_step, OF refl]
lemmas queue_reach = reachable_step[where init = "\<lambda>q. q = output_queue" and step = queue_step]




text \<open>Overflow is sticky: once the queue has failed it stays failed, whatever the threads do,
  and every later receive refuses before it looks at the channel.\<close>

theorem queue_failure_sticky:
  assumes "reachable (\<lambda>q. q = output_queue) queue_step q" and "steps queue_step q ls q'" and "failed q"
  shows "failed q' \<and> recv_begin q' = q' \<and> send_begin v n q' = q'"
  using failed.steps_mono[OF assms(2) queue.reachable_inv[OF assms(1)]] assms(3)
  by (simp add: recv_begin_def send_begin_def)

definition sample_failed_queue :: "nat queue" where
  "sample_failed_queue = send_fail (send_reserve 7 (2 ^ 30) (send_begin 7 (2 ^ 30) output_queue))"

theorem queue_failure_sticky_witness:
  "failed sample_failed_queue \<and> recv_begin sample_failed_queue = sample_failed_queue"
proof -
  let ?a = "send_begin 7 (2 ^ 30) output_queue :: nat queue"
  note defs = queue_ops output_queue_def USIZE_LIMIT_def OUTPUT_QUEUE_BYTES_def OUTPUT_QUEUE_ITEMS_def
  have 1: "queue_step output_queue (Begin_send 7 (2 ^ 30)) ?a" by (rule begin_send) (simp add: defs)
  have 2: "queue_step ?a Step_send (send_reserve 7 (2 ^ 30) ?a)" by (rule reserve) (simp add: defs)
  have 3: "queue_step (send_reserve 7 (2 ^ 30) ?a) Step_send sample_failed_queue"
    unfolding sample_failed_queue_def by (rule fail) (simp add: defs)
  have "reachable (\<lambda>q. q = output_queue) queue_step sample_failed_queue"
    by (rule queue_reach[OF queue_reach[OF queue_reach[OF queue_reach_init 1] 2] 3])
  moreover have "failed sample_failed_queue" by (simp add: sample_failed_queue_def send_fail_def)
  ultimately show ?thesis
    using queue_failure_sticky[OF _ steps_Nil, of sample_failed_queue] by blast
qed

section \<open>Windows launch\<close>

text \<open>C18. The command line is read back as it was meant: whatever \<open>windows_command_line\<close> produces is
  at most 32767 units, ends with its only zero unit, and the C runtime's argument parsing of the
  rest gives exactly the executable and the arguments, quotes, blanks and backslashes included.\<close>

theorem command_line_roundtrip:
  assumes "windows_command_line executable arguments = Ok r"
  shows "length r \<le> 32767 \<and> last r = 0 \<and> crt_argv (butlast r) = executable # arguments"
  using assms crt_argv_command_text[of executable arguments]
  by (auto simp: windows_command_line_iff MAX_COMMAND_UNITS_def)

theorem command_line_roundtrip_witness:
  "\<exists>r. windows_command_line [97] [[92, 34, 32], []] = Ok r \<and>
     crt_argv (butlast r) = [[97], [92, 34, 32], []]"
proof -
  obtain r where r: "windows_command_line [97] [[92, 34, 32], []] = Ok r"
    using windows_command_line_iff[of "[97]" "[[92, 34, 32], []]"]
    by (auto simp: command_text_def quoted_def MAX_COMMAND_UNITS_def)
  from command_line_roundtrip[OF r] r show ?thesis by auto
qed

text \<open>The environment block is complete and unambiguous: what \<open>windows_environment_block\<close> produces
  reads back as exactly the given entries in the order of their upper-case keys, and no two keys
  differ only in case.\<close>

theorem environment_block_roundtrip:
  assumes "windows_environment_block entries = Ok b"
  shows "length b \<le> 32767 \<and> read_block b = map (\<lambda>e. (key_units (fst e), snd e)) (env_order entries) \<and>
    mset (env_order entries) = mset entries \<and>
    sorted (map (\<lambda>e. to_ascii_uppercase (fst e)) (env_order entries)) \<and>
    distinct (map (\<lambda>e. to_ascii_uppercase (fst e)) entries)"
  using windows_environment_block_OkD[OF assms] block_keys_distinct[OF assms]
  by (simp add: MAX_ENVIRONMENT_UNITS_def env_order_def)

theorem environment_block_roundtrip_witness:
  "\<exists>b. windows_environment_block [(''z'', [49]), (''A'', [50, 61])] = Ok b \<and>
     read_block b = [([65], [50, 61]), ([122], [49])]"
proof -
  have order: "env_order [(''z'', [49]), (''A'', [50, 61])] = [(''A'', [50, 61]), (''z'', [49])]"
    by (simp add: env_order_def to_ascii_uppercase_def)
  have "is_ok (windows_environment_block [(''z'', [49]), (''A'', [50, 61])])"
    by (simp add: windows_environment_block_def order env_entry_ok_def env_key_char_def
        eq_ignore_ascii_case_def to_ascii_uppercase_def key_units_def append_units_def MAX_ENVIRONMENT_UNITS_def)
  then obtain b where b: "windows_environment_block [(''z'', [49]), (''A'', [50, 61])] = Ok b"
    by (auto simp: is_ok_iff)
  from environment_block_roundtrip[OF b] b show ?thesis by (auto simp: order key_units_def)
qed

section \<open>The input of a child\<close>

text \<open>C17. However the caller, the worker, the clock and whoever cancels interleave: the pipe holds exactly
  the frames whose write returned success, in order, and after them at most a prefix of one more
  frame; between writes there is nothing of such a frame unless the writer is poisoned, and a
  poisoned writer never puts a byte into the pipe again and reports no further success.\<close>

theorem input_frames_whole:
  assumes "reachable (\<lambda>s. s = input_writer_spawn now) input_step s"
  shows "\<exists>part. iw_pipe s = concat (written_frames s) @ part \<and> prefix part (iw_current s) \<and>
    (iw_caller s = In_Idle \<and> \<not> iw_poisoned s \<longrightarrow> part = []) \<and>
    (iw_caller s = In_Idle \<and> iw_poisoned s \<longrightarrow> (\<forall>ls t. steps input_step s ls t \<longrightarrow>
       iw_pipe t = iw_pipe s \<and> written_frames t = written_frames s))"
proof -
  note inv = input.reachable_inv[OF assms]
  obtain part where part: "iw_pipe s = concat (written_frames s) @ part" "prefix part (iw_current s)" "caller_part s part"
    using inv by (auto simp: input_inv_def)
  have frozen: "iw_pipe t = iw_pipe s \<and> written_frames t = written_frames s"
    if "iw_caller s = In_Idle" "iw_poisoned s" "steps input_step s ls t" for ls t
  proof -
    have "input_dead (iw_pipe s) (iw_answers s) t"
      using dead.steps_inv[OF that(3)] idle_poisoned_dead[OF inv that(1,2)] by blast
    then obtain rs where rs: "iw_pipe t = iw_pipe s" "iw_answers t = iw_answers s @ rs" "\<forall>(f, r) \<in> set rs. r = Err In_BrokenPipe"
      by (auto simp: input_dead_def)
    from rs(3) have "filter (\<lambda>(f, r). is_ok r) rs = []" by (induction rs) auto
    with rs show ?thesis by (simp add: written_frames_def)
  qed
  from part have "iw_caller s = In_Idle \<and> \<not> iw_poisoned s \<longrightarrow> part = []" by (auto simp: caller_part_def)
  with part frozen show ?thesis by blast
qed

text \<open>A frame of two bytes of which the pipe takes one before the write is cancelled.\<close>

definition ab_write :: WriteRequest where
  "ab_write = \<lparr>wr_frame = ''ab'', wr_deadline = 9\<rparr>"

definition ab_state :: "caller_pc \<Rightarrow> worker_pc \<Rightarrow> string \<Rightarrow> string \<Rightarrow> input_writer" where
  "ab_state c w pipe current = (input_writer_spawn 0)\<lparr>iw_caller := c, iw_worker := w, iw_pipe := pipe, iw_current := current\<rparr>"

definition ab_poisoned :: "caller_pc \<Rightarrow> worker_pc \<Rightarrow> bool \<Rightarrow> bool \<Rightarrow> input_writer" where
  "ab_poisoned c w stopped sender = (ab_state c w ''a'' ''ab'')\<lparr>iw_cancelled := True, iw_poisoned := True,
     iw_stopped := stopped, iw_sender := sender\<rparr>"

definition ab_end :: input_writer where
  "ab_end = (ab_poisoned In_Idle Wk_Done True False)\<lparr>iw_result := Some (Err In_BrokenPipe),
     iw_answers := [(''ab'', Err In_Interrupted)]\<rparr>"

lemmas ab_defs = ab_write_def ab_state_def ab_poisoned_def ab_end_def input_writer_spawn_def worker_ops caller_ops
  MAX_INPUT_FRAME_BYTES_def

lemmas input_reaches = reachable_step[where step = input_step]

lemma ab_offered:
  assumes "reachable I input_step (ab_state In_Idle Wk_Recv [] [])"
  shows "reachable I input_step (ab_state (In_Await ab_write) (Wk_Head ab_write 0) [] ''ab'')"
proof -
  note r = input_reaches[OF assms in_write[of _ "''ab''" 9 False]]
  have "reachable I input_step (ab_state (In_First ab_write) Wk_Recv [] [])" using r by (simp add: ab_defs)
  note r = input_reaches[OF this in_first[of _ ab_write True]]
  have "reachable I input_step (ab_state (In_FirstClock ab_write) Wk_Recv [] [])" using r by (simp add: ab_defs)
  note r = input_reaches[OF this in_first_clock[of _ ab_write True]]
  have "reachable I input_step (ab_state (In_Token ab_write) Wk_Recv [] [])" using r by (simp add: ab_defs)
  note r = input_reaches[OF this in_token[of _ ab_write True]]
  have "reachable I input_step (ab_state (In_Clock ab_write) Wk_Recv [] [])" using r by (simp add: ab_defs)
  note r = input_reaches[OF this in_clock[of _ ab_write True]]
  have "reachable I input_step (ab_state (In_TrySend ab_write) Wk_Recv [] [])" using r by (simp add: ab_defs)
  from input_reaches[OF this in_try[of _ ab_write True]] show ?thesis by (simp add: ab_defs)
qed

lemma ab_cancelled:
  assumes "reachable I input_step (ab_state (In_Await ab_write) (Wk_Head ab_write 0) [] ''ab'')"
  shows "reachable I input_step ab_end"
proof -
  note r = input_reaches[OF assms wk_head[of _ ab_write 0 Pipe_Failed]]
  have "reachable I input_step (ab_state (In_Await ab_write) (Wk_Clock ab_write 0) [] ''ab'')" using r by (simp add: ab_defs)
  note r = input_reaches[OF this wk_clock[of _ ab_write 0 Pipe_Failed]]
  have "reachable I input_step (ab_state (In_Await ab_write) (Wk_Pipe ab_write 0) [] ''ab'')" using r by (simp add: ab_defs)
  note r = input_reaches[OF this wk_pipe[of _ ab_write 0 "Took 1"]]
  have "reachable I input_step (ab_state (In_Await ab_write) (Wk_Head ab_write 1) ''a'' ''ab'')" using r by (simp add: ab_defs)
  note r = input_reaches[OF input_reaches[OF this cancel] in_await[of _ ab_write True]]
  have "reachable I input_step (ab_poisoned (In_Stop (Some (''ab'', In_Interrupted))) (Wk_Head ab_write 1) False True)"
    using r by (simp add: ab_defs)
  note r = input_reaches[OF this in_stop[of _ "Some (''ab'', In_Interrupted)" True]]
  have "reachable I input_step (ab_poisoned (In_DropSender (Some (''ab'', In_Interrupted))) (Wk_Head ab_write 1) True True)"
    using r by (simp add: ab_defs)
  note r = input_reaches[OF this in_drop[of _ "Some (''ab'', In_Interrupted)" True]]
  have "reachable I input_step (ab_poisoned (In_Join (Some (''ab'', In_Interrupted))) (Wk_Head ab_write 1) True False)"
    using r by (simp add: ab_defs)
  note r = input_reaches[OF this wk_head[of _ ab_write 1 Pipe_Failed]]
  have "reachable I input_step (ab_poisoned (In_Join (Some (''ab'', In_Interrupted))) (Wk_Send (Err In_BrokenPipe)) True False)"
    using r by (simp add: ab_defs)
  note r = input_reaches[OF this wk_send[of _ "Err In_BrokenPipe" Pipe_Failed]]
  have "reachable I input_step ((ab_poisoned (In_Join (Some (''ab'', In_Interrupted))) Wk_Done True False)
      \<lparr>iw_result := Some (Err In_BrokenPipe)\<rparr>)" using r by (simp add: ab_defs)
  note r = input_reaches[OF this in_join[of _ "Some (''ab'', In_Interrupted)" True]]
  show ?thesis using r by (simp add: ab_defs)
qed

theorem input_frames_whole_witness:
  "iw_pipe ab_end = ''a'' \<and> iw_poisoned ab_end \<and> written_frames ab_end = [] \<and>
   \<not> (\<exists>ls t. steps input_step ab_end ls t \<and> (iw_pipe t \<noteq> ''a'' \<or> written_frames t \<noteq> []))"
proof -
  have "reachable (\<lambda>s. s = input_writer_spawn 0) input_step (ab_state In_Idle Wk_Recv [] [])"
    by (rule reachable_init) (simp add: ab_state_def input_writer_spawn_def)
  note claim = input_frames_whole[OF ab_cancelled[OF ab_offered[OF this]]]
  have fields: "iw_caller ab_end = In_Idle" "iw_poisoned ab_end" "iw_pipe ab_end = ''a''" "written_frames ab_end = []"
    by (simp_all add: ab_end_def ab_poisoned_def ab_state_def written_frames_def)
  with claim show ?thesis by (elim exE conjE) auto
qed

end
