(* ===== verification/Store_Monad.thy ===== *)
theory Store_Monad
  imports Bastet_Prelude
begin

text \<open>
  How the daemon runs one request (\<open>crates/bastet-daemon/src/lib.rs\<close>): under the mutex around the
  database connection, inside one immediate transaction, with \<open>?\<close> after every fallible step. A
  transaction is a function of the world it starts in: the database, the readings its calls of
  the system clock will give, the random identifiers its calls of \<open>Uuid::new_v4\<close> will draw, and
  whether the mutex is poisoned. Dropping a transaction that was not committed rolls it back, so
  an error carries no database; a panic under the mutex poisons it.
\<close>

named_theorems tx_simps \<comment> \<open>what a successful run of a transaction did\<close>

section \<open>Transactions\<close>

text \<open>A step returns an error, panics, or never comes back.\<close>

datatype 'e fault = Returned 'e | Panic string | Hang

record 'd world =
  wdb :: 'd
  clock :: "nat \<Rightarrow> nat"      \<comment> \<open>milliseconds since the epoch, one reading per call\<close>
  uuids :: "nat \<Rightarrow> uuid"
  poisoned :: bool

type_synonym ('d, 'e, 'a) tx = "'d world \<Rightarrow> 'e fault + 'a \<times> 'd world"

definition tx_return :: "'a \<Rightarrow> ('d, 'e, 'a) tx" where
  "tx_return v w = Inr (v, w)"

definition tx_bind :: "('d, 'e, 'a) tx \<Rightarrow> ('a \<Rightarrow> ('d, 'e, 'b) tx) \<Rightarrow> ('d, 'e, 'b) tx" where
  "tx_bind m f w = (case m w of Inl e \<Rightarrow> Inl e | Inr (v, w') \<Rightarrow> f v w')"

definition tx_then :: "('d, 'e, 'a) tx \<Rightarrow> ('d, 'e, 'b) tx \<Rightarrow> ('d, 'e, 'b) tx" where
  "tx_then m n = tx_bind m (\<lambda>_. n)"

fun tx_do :: "('d, 'e, unit) tx list \<Rightarrow> ('d, 'e, unit) tx" where
  "tx_do [] = tx_return ()"
| "tx_do (m # ms) = tx_then m (tx_do ms)"

fun tx_each :: "'a list \<Rightarrow> ('a \<Rightarrow> ('d, 'e, unit) tx) \<Rightarrow> ('d, 'e, unit) tx" where
  "tx_each [] f = tx_return ()"
| "tx_each (x # xs) f = tx_then (f x) (tx_each xs f)"

definition tx_fail :: "'e \<Rightarrow> ('d, 'e, 'a) tx" where
  "tx_fail e w = Inl (Returned e)"

definition tx_check :: "bool \<Rightarrow> 'e \<Rightarrow> ('d, 'e, unit) tx" where
  "tx_check b e w = (if b then Inr ((), w) else Inl (Returned e))"

text \<open>\<open>tx_try f r\<close> is \<open>r.map_err(f)?\<close>, also for a call that can panic or loop.\<close>

definition tx_try :: "('f \<Rightarrow> 'e) \<Rightarrow> ('f, 'a) result \<Rightarrow> ('d, 'e, 'a) tx" where
  "tx_try f r w = (case r of Inl e \<Rightarrow> Inl (Returned (f e)) | Inr a \<Rightarrow> Inr (a, w))"

definition tx_try_panic :: "('f \<Rightarrow> 'e) \<Rightarrow> ('f failure, 'a) result \<Rightarrow> ('d, 'e, 'a) tx" where
  "tx_try_panic f r w = (case r of Inl (Raised e) \<Rightarrow> Inl (Returned (f e))
     | Inl (Panicked s) \<Rightarrow> Inl (Panic s) | Inr a \<Rightarrow> Inr (a, w))"

definition tx_try_loop :: "('f \<Rightarrow> 'e) \<Rightarrow> ('f, 'a) result option \<Rightarrow> ('d, 'e, 'a) tx" where
  "tx_try_loop f r w = (case r of None \<Rightarrow> Inl Hang
     | Some (Inl e) \<Rightarrow> Inl (Returned (f e)) | Some (Inr a) \<Rightarrow> Inr (a, w))"

definition tx_some :: "'a option \<Rightarrow> 'e \<Rightarrow> ('d, 'e, 'a) tx" where
  "tx_some x e w = (case x of None \<Rightarrow> Inl (Returned e) | Some a \<Rightarrow> Inr (a, w))"

definition tx_get :: "('d \<Rightarrow> 'a) \<Rightarrow> ('d, 'e, 'a) tx" where
  "tx_get f w = Inr (f (wdb w), w)"

definition tx_put :: "('d \<Rightarrow> 'd) \<Rightarrow> ('d, 'e, unit) tx" where
  "tx_put f w = Inr ((), w\<lparr>wdb := f (wdb w)\<rparr>)"

definition tx_clock :: "('d, 'e, nat) tx" where
  "tx_clock w = Inr (clock w 0, w\<lparr>clock := \<lambda>i. clock w (Suc i)\<rparr>)"

definition tx_uuid :: "('d, 'e, uuid) tx" where
  "tx_uuid w = Inr (uuids w 0, w\<lparr>uuids := \<lambda>i. uuids w (Suc i)\<rparr>)"

definition tx_lock :: "'e \<Rightarrow> ('d, 'e, unit) tx" where
  "tx_lock e w = (if poisoned w then Inl (Returned e) else Inr ((), w))"

section \<open>Successful runs\<close>

lemma tx_return_ok [tx_simps]: "tx_return v w = Inr (u, w') \<longleftrightarrow> u = v \<and> w' = w"
  by (auto simp: tx_return_def)

lemma tx_bind_ok [tx_simps]:
  "tx_bind m f w = Inr r \<longleftrightarrow> (\<exists>v w1. m w = Inr (v, w1) \<and> f v w1 = Inr r)"
  by (auto simp: tx_bind_def split: sum.splits)

lemma tx_then_ok [tx_simps]:
  "tx_then m n w = Inr r \<longleftrightarrow> (\<exists>v w1. m w = Inr (v, w1) \<and> n w1 = Inr r)"
  by (simp add: tx_then_def tx_bind_ok)

lemma tx_fail_ok [tx_simps]: "tx_fail e w = Inr r \<longleftrightarrow> False"
  by (simp add: tx_fail_def)

lemma tx_check_ok [tx_simps]: "tx_check b e w = Inr (u, w') \<longleftrightarrow> b \<and> w' = w"
  by (auto simp: tx_check_def)

lemma tx_try_ok [tx_simps]: "tx_try f r w = Inr (v, w') \<longleftrightarrow> r = Inr v \<and> w' = w"
  by (auto simp: tx_try_def split: sum.splits)

lemma tx_try_panic_ok [tx_simps]: "tx_try_panic f r w = Inr (v, w') \<longleftrightarrow> r = Inr v \<and> w' = w"
  by (auto simp: tx_try_panic_def split: sum.splits failure.splits)

lemma tx_try_loop_ok [tx_simps]: "tx_try_loop f r w = Inr (v, w') \<longleftrightarrow> r = Some (Inr v) \<and> w' = w"
  by (auto simp: tx_try_loop_def split: sum.splits option.splits)

lemma tx_some_ok [tx_simps]: "tx_some x e w = Inr (v, w') \<longleftrightarrow> x = Some v \<and> w' = w"
  by (auto simp: tx_some_def split: option.splits)

lemma tx_get_ok [tx_simps]: "tx_get f w = Inr (v, w') \<longleftrightarrow> v = f (wdb w) \<and> w' = w"
  by (auto simp: tx_get_def)

lemma tx_put_ok [tx_simps]: "tx_put f w = Inr (v, w') \<longleftrightarrow> w' = w\<lparr>wdb := f (wdb w)\<rparr>"
  by (auto simp: tx_put_def)

lemma tx_clock_ok [tx_simps]:
  "tx_clock w = Inr (v, w') \<longleftrightarrow> v = clock w 0 \<and> w' = w\<lparr>clock := \<lambda>i. clock w (Suc i)\<rparr>"
  by (auto simp: tx_clock_def)

lemma tx_uuid_ok [tx_simps]:
  "tx_uuid w = Inr (v, w') \<longleftrightarrow> v = uuids w 0 \<and> w' = w\<lparr>uuids := \<lambda>i. uuids w (Suc i)\<rparr>"
  by (auto simp: tx_uuid_def)

lemma tx_lock_ok [tx_simps]: "tx_lock e w = Inr (v, w') \<longleftrightarrow> \<not> poisoned w \<and> w' = w"
  by (auto simp: tx_lock_def)

section \<open>Requests\<close>

text \<open>
  What remains of a request: committed, rolled back, or the mutex poisoned. Two requests never
  overlap, since each holds the mutex for its whole transaction.
\<close>

record 'd store =
  sdb :: 'd
  broken :: bool

definition tx_world :: "(nat \<Rightarrow> nat) \<Rightarrow> (nat \<Rightarrow> uuid) \<Rightarrow> 'd store \<Rightarrow> 'd world" where
  "tx_world ts ids s = \<lparr>wdb = sdb s, clock = ts, uuids = ids, poisoned = broken s\<rparr>"

definition call ::
  "('d, 'e, 'a) tx \<Rightarrow> (nat \<Rightarrow> nat) \<Rightarrow> (nat \<Rightarrow> uuid) \<Rightarrow> 'd store \<Rightarrow> ('e fault + 'a) \<times> 'd store" where
  "call m ts ids s =
     (case m (tx_world ts ids s) of
        Inr (v, w) \<Rightarrow> (Inr v, s\<lparr>sdb := wdb w\<rparr>)
      | Inl (Panic p) \<Rightarrow> (Inl (Panic p), s\<lparr>broken := True\<rparr>)
      | Inl e \<Rightarrow> (Inl e, s))"

text \<open>A request that takes the mutex twice: the second transaction runs if the first committed.\<close>

definition call_then ::
  "('d store \<Rightarrow> ('e fault + 'a) \<times> 'd store) \<Rightarrow> ('a \<Rightarrow> 'd store \<Rightarrow> ('e fault + 'b) \<times> 'd store) \<Rightarrow>
   'd store \<Rightarrow> ('e fault + 'b) \<times> 'd store" where
  "call_then f g s = (case f s of (Inl e, t) \<Rightarrow> (Inl e, t) | (Inr v, t) \<Rightarrow> g v t)"

fun fault_map :: "('e \<Rightarrow> 'f) \<Rightarrow> 'e fault \<Rightarrow> 'f fault" where
  "fault_map f (Returned e) = Returned (f e)"
| "fault_map f (Panic s) = Panic s"
| "fault_map f Hang = Hang"

lemma call_error_keeps_db: "fst (call m ts ids s) = Inl e \<Longrightarrow> sdb (snd (call m ts ids s)) = sdb s"
  by (auto simp: call_def split: sum.splits fault.splits prod.splits)

lemma call_ok:
  "call m ts ids s = (Inr v, t) \<longleftrightarrow>
   (\<exists>w. m (tx_world ts ids s) = Inr (v, w) \<and> t = s\<lparr>sdb := wdb w\<rparr>)"
  by (auto simp: call_def split: sum.splits fault.splits prod.splits)

end
