(* ===== verification/Protocol.thy ===== *)
theory Protocol
  imports Approval Mvp
begin

text \<open>
  The wire types of \<open>crates/bastet-protocol/src/lib.rs\<close> that the daemon's store takes and returns,
  and the cost evidence of \<open>adapter.rs\<close>. Fields carry a prefix of their type. Event payloads are
  JSON texts in the source; here they are the values those texts render.
\<close>

definition PROTOCOL_VERSION :: u32 where "PROTOCOL_VERSION = 1"

datatype json = JNull | JNum u64 | JText string | JId uuid | JObject "(string \<times> json) list"

datatype DaemonLifecycle =
  Daemon_Starting | Daemon_Ready | Daemon_Checkpointing | Daemon_Suspended | Daemon_Stopping | Daemon_Recovering

record DaemonSnapshot =
  snap_protocol_version :: u32
  snap_daemon_id :: uuid
  snap_revision :: u64
  snap_lifecycle :: DaemonLifecycle

record EventEnvelope =
  ev_protocol_version :: u32
  ev_event_id :: uuid
  ev_sequence :: u64
  ev_event_type :: string
  ev_occurred_at :: string
  ev_payload_json :: json

record CheckpointCommand =
  ck_expected_revision :: u64
  ck_reason :: string

record CheckpointReceipt =
  ckr_protocol_version :: u32
  ckr_checkpoint_id :: uuid
  ckr_revision :: u64
  ckr_event_sequence :: u64

section \<open>Catalogs\<close>

record CatalogSnapshot =
  cs_protocol_version :: u32
  cs_revision :: u64
  cs_catalog :: IdentityCatalog

record ReplaceCatalogCommand =
  rc_expected_revision :: u64
  rc_catalog :: IdentityCatalog

record CatalogReceipt =
  crc_protocol_version :: u32
  crc_revision :: u64
  crc_event_sequence :: u64

record M3CatalogSnapshot =
  ms_protocol_version :: u32
  ms_revision :: u64
  ms_catalog :: M3Catalog

record ReplaceM3CatalogCommand =
  rm_expected_revision :: u64
  rm_catalog :: M3Catalog

section \<open>Project workflow\<close>

record PrepareMvpCommand =
  pm_expected_catalog_revision :: u64
  pm_expected_m3_revision :: u64
  pm_project_name :: string
  pm_workspace_root :: string
  pm_codex_model :: string
  pm_agy_model :: string

record PrepareMvpReceipt =
  pmr_protocol_version :: u32
  pmr_project_id :: ProjectId
  pmr_meeting_id :: MeetingId
  pmr_catalog_revision :: u64
  pmr_m3_revision :: u64
  pmr_event_sequence :: u64

record AcceptDecisionBaselineCommand =
  ab_expected_m3_revision :: u64
  ab_meeting_id :: MeetingId
  ab_content :: string
  ab_accepted_by :: string
  ab_accepted_at :: string

record AcceptDecisionBaselineReceipt =
  abr_protocol_version :: u32
  abr_baseline_id :: DecisionBaselineId
  abr_graph_execution_id :: GraphRunId
  abr_m3_revision :: u64
  abr_event_sequence :: u64

record CreateDocumentCommand =
  cd_expected_m3_revision :: u64
  cd_graph_execution_id :: GraphRunId
  cd_title :: string
  cd_markdown :: string

record DocumentReceipt =
  dr_protocol_version :: u32
  dr_artifact_id :: ArtifactId
  dr_version_id :: ArtifactVersionId
  dr_content_hash :: string
  dr_m3_revision :: u64
  dr_event_sequence :: u64

record AcceptDocumentCommand =
  ad_expected_m3_revision :: u64
  ad_artifact_id :: ArtifactId
  ad_version_id :: ArtifactVersionId
  ad_content_hash :: string
  ad_accepted_by :: string
  ad_accepted_at :: string

record PrepareKnowledgeDeliveryCommand =
  pk_expected_m3_revision :: u64
  pk_project_id :: ProjectId
  pk_artifact_version_id :: ArtifactVersionId
  pk_target :: KnowledgeTarget
  pk_preview :: string

record CompleteKnowledgeDeliveryCommand =
  ckd_expected_m3_revision :: u64
  ckd_delivery_id :: KnowledgeDeliveryId
  ckd_destination_receipt :: string

record KnowledgeDeliveryReceipt =
  kdr_protocol_version :: u32
  kdr_delivery_id :: KnowledgeDeliveryId
  kdr_state :: DeliveryState
  kdr_m3_revision :: u64
  kdr_event_sequence :: u64

record RecordCostCommand =
  rec_expected_m3_revision :: u64
  rec_record :: CostLedgerRecord

record CostReceipt =
  cor_protocol_version :: u32
  cor_cost_record_id :: CostRecordId
  cor_m3_revision :: u64
  cor_event_sequence :: u64

section \<open>Graph executions and runs\<close>

record GraphExecutionReceipt =
  ger_protocol_version :: u32
  ger_execution_id :: GraphRunId
  ger_revision :: u64
  ger_event_sequence :: u64

record RetryFailedGraphNodeCommand =
  rf_node_id :: GraphNodeId
  rf_expected_graph_revision :: u64

record BeginGraphNodeRunCommand =
  bg_expected_catalog_revision :: u64
  bg_expected_graph_revision :: u64
  bg_node_id :: GraphNodeId
  bg_owner :: string

record ProviderCredentialSelection =
  pcs_reference_id :: CredentialReferenceId
  pcs_backend :: CredentialBackend
  pcs_service :: string
  pcs_account_label :: string

record ProviderAccountSelection =
  pas_account_id :: AccountId
  pas_provider_identity :: string
  pas_credential :: "ProviderCredentialSelection option"

record ProviderLaunchIdentity =
  pli_agent_instance_id :: AgentInstanceId
  pli_agent_provider_id :: AgentProviderId
  pli_project_id :: ProjectId
  pli_model_id :: ModelId
  pli_adapter_kind :: string
  pli_model :: string
  pli_account :: "ProviderAccountSelection option"

record BeginGraphNodeRunReceipt =
  bgr_protocol_version :: u32
  bgr_execution_id :: GraphRunId
  bgr_node_id :: GraphNodeId
  bgr_session_id :: SessionId
  bgr_run_id :: RunId
  bgr_launch_identity :: "ProviderLaunchIdentity option"
  bgr_adapter_kind :: string
  bgr_model :: string
  bgr_workspace_root :: string
  bgr_prompt :: string
  bgr_catalog_revision :: u64
  bgr_graph_revision :: u64
  bgr_event_sequence :: u64

record CostEvidence =
  ce_evidence_class :: EvidenceClass
  ce_currency :: "string option"
  ce_amount :: "ieee option"
  ce_input_tokens :: "u64 option"
  ce_output_tokens :: "u64 option"
  ce_confidence :: ieee

record FinishGraphNodeRunCommand =
  fg_expected_catalog_revision :: u64
  fg_expected_graph_revision :: u64
  fg_expected_m3_revision :: u64
  fg_node_id :: GraphNodeId
  fg_run_id :: RunId
  fg_owner :: string
  fg_terminal_state :: NormalizedRunState
  fg_failure :: "AdapterFailure option"
  fg_provider_session_id :: "string option"
  fg_output_markdown :: "string option"
  fg_cost :: CostEvidence

record FinishGraphNodeRunReceipt =
  fgr_protocol_version :: u32
  fgr_execution_id :: GraphRunId
  fgr_node_id :: GraphNodeId
  fgr_run_id :: RunId
  fgr_cost_record_id :: CostRecordId
  fgr_output_content_hash :: "string option"
  fgr_catalog_revision :: u64
  fgr_graph_revision :: u64
  fgr_m3_revision :: u64
  fgr_event_sequence :: u64

record CancelRunReceipt =
  cr_protocol_version :: u32
  cr_run_id :: RunId
  cr_catalog_revision :: u64
  cr_event_sequence :: u64

section \<open>Approvals and credential grants\<close>

record DecideApprovalCommand =
  dac_decision :: ApprovalDecision
  dac_credential_scope_acknowledged :: bool

datatype StagedLaunchState =
  Staged_AwaitingApproval | Staged_Ready | Staged_Cancelled | Staged_Dispatching | Staged_Uncertain

record ApprovalRecord =
  apr_protocol_version :: u32
  apr_request :: ApprovalRequest
  apr_decision :: "ApprovalDecision option"
  apr_staged_launch_state :: "StagedLaunchState option"

record ApprovalReceipt =
  arc_protocol_version :: u32
  arc_request_id :: ApprovalRequestId
  arc_event_sequence :: u64

record CredentialGrantRecord =
  cgr_protocol_version :: u32
  cgr_request :: ApprovalRequest
  cgr_decision :: ApprovalDecision
  cgr_issued_at_ms :: u64
  cgr_consumed_at_ms :: "u64 option"
  cgr_revoked_at_ms :: "u64 option"
  cgr_revoked_by :: "string option"

end
