(* ===== verification/Store_Tables.thy ===== *)
theory Store_Tables
  imports Store_Monad Protocol "HOL-Library.Char_ord" "HOL-Library.List_Lexorder"
begin

text \<open>
  The daemon's database (\<open>crates/bastet-daemon/src/lib.rs\<close>): the tables \<open>apply_migrations\<close> creates
  as a record of lists of rows, with the constraints the statements can run into, and the
  primitives every request uses. Columns that hold JSON hold the decoded value: they are written
  with \<open>serde_json::to_string\<close> of the type they are read back at. Identifiers are kept as
  identifiers instead of their text; the order of the texts is the order of the numbers.
\<close>

section \<open>Errors\<close>

text \<open>\<open>error.to_string()\<close> is kept as the error it renders.\<close>

datatype error_text =
  Text string
| Text_Office OfficeError
| Text_Meeting MeetingError
| Text_Deliverable DeliverableError
| Text_M3 M3Error
| Text_Mvp MvpError

datatype StoreError =
  St_Database
| St_RevisionConflict u64 u64        \<comment> \<open>expected, actual\<close>
| St_UnsupportedSchemaVersion u32 u32
| St_InvalidLifecycle string string  \<comment> \<open>expected, actual\<close>
| St_Poisoned
| St_InvalidCatalog CatalogError
| St_Serialization
| St_InvalidApproval ApprovalError
| St_ApprovalNotFound
| St_ApprovalConflict
| St_CredentialGrantNotFound
| St_CredentialGrantRejected
| St_RevisionOverflow
| St_RunNotFound
| St_InvalidRunState string
| St_RunControlRejected
| St_ProviderRunsActive
| St_InvalidGraph GraphError
| St_InvalidM3 error_text
| St_InvalidMvp error_text
| St_InvalidDocument error_text
| St_InvalidCost error_text
| St_GraphNotFound
| St_GraphConflict

section \<open>Rows\<close>

record LaunchPolicySnapshot =
  lps_project :: ScopedPolicy
  lps_role :: ScopedPolicy

record ProviderLaunchPlan =
  plan_version :: u32
  plan_execution_id :: GraphRunId
  plan_node_id :: GraphNodeId
  plan_session_id :: SessionId
  plan_run_id :: RunId
  plan_attempt :: u64
  plan_role_id :: RoleId
  plan_owner :: string
  plan_identity :: ProviderLaunchIdentity
  plan_workspace_root :: string
  plan_prompt :: string
  plan_policy :: "LaunchPolicySnapshot option"

record graph_row =
  gr_id :: GraphRunId
  gr_revision :: u64
  gr_execution :: GraphExecution
  gr_updated_at :: string

text \<open>A text column the code expects to be possibly damaged: JSON of the type, or not.\<close>

datatype 'a stored = Stored 'a | Malformed

record node_run_row =
  nr_execution_id :: GraphRunId
  nr_node_id :: GraphNodeId
  nr_run_id :: RunId
  nr_attempt :: u64
  nr_created_at :: string
  nr_finished_at :: "string option"
  nr_terminal_state :: "NormalizedRunState option"
  nr_failure :: "AdapterFailure option"
  nr_launch_identity :: "ProviderLaunchIdentity stored option"

record output_row =
  or_execution_id :: GraphRunId
  or_output :: GraphNodeOutput
  or_created_at :: string

record approval_row =
  aq_request_id :: ApprovalRequestId
  aq_request_hash :: string
  aq_request :: ApprovalRequest
  aq_expires_at_ms :: u64
  aq_decision :: "ApprovalDecision option"
  aq_created_at :: string
  aq_decided_at :: "string option"

record grant_row =
  g_request_id :: ApprovalRequestId
  g_issued_at_ms :: u64
  g_consumed_at_ms :: "u64 option"
  g_revoked_at_ms :: "u64 option"
  g_revoked_by :: "string option"

record plan_row =
  pl_run_id :: RunId
  pl_plan :: ProviderLaunchPlan
  pl_hash :: string

record staged_row =
  sg_run_id :: RunId
  sg_request_id :: ApprovalRequestId
  sg_state :: StagedLaunchState
  sg_staged_at_ms :: u64
  sg_finished_at_ms :: "u64 option"
  sg_cancel_reason :: "string option"

record claim_row =
  cl_run_id :: RunId
  cl_request_id :: ApprovalRequestId
  cl_claimed_at_ms :: u64

record checkpoint_row =
  cp_id :: uuid
  cp_revision :: u64
  cp_event_sequence :: u64
  cp_reason :: string
  cp_created_at :: string

record db =
  d_daemon_id :: uuid
  d_revision :: u64
  d_lifecycle :: string
  d_catalog_revision :: u64
  d_catalog :: IdentityCatalog
  d_catalog_updated_at :: string
  d_m3_revision :: u64
  d_m3 :: M3Catalog
  d_m3_updated_at :: string
  d_graphs :: "graph_row list"
  d_node_runs :: "node_run_row list"
  d_outputs :: "output_row list"
  d_approvals :: "approval_row list"
  d_grants :: "grant_row list"
  d_plans :: "plan_row list"
  d_staged :: "staged_row list"
  d_claims :: "claim_row list"
  d_events :: "EventEnvelope list"
  d_checkpoints :: "checkpoint_row list"

type_synonym 'a stx = "(db, StoreError, 'a) tx"

text \<open>
  The packages the daemon calls: SHA-256 as lower-case hexadecimal, the JSON encodings that are
  hashed or put into a prompt, the text of a UUID, and the two questions about the file system.
\<close>

record externals =
  sha256 :: "string \<Rightarrow> string"
  encode_request :: "HashInput \<Rightarrow> string"
  encode_plan :: "ProviderLaunchPlan \<Rightarrow> string"
  encode_text :: "string \<Rightarrow> string"
  uuid_text :: "uuid \<Rightarrow> string"
  path_is_absolute :: "string \<Rightarrow> bool"
  path_is_dir :: "string \<Rightarrow> bool"

section \<open>Primitives\<close>

text \<open>\<open>rusqlite\<close> refuses to bind a \<open>u64\<close> that does not fit into a signed 64-bit integer.\<close>

definition fits_i64 :: "u64 \<Rightarrow> bool" where
  "fits_i64 n \<longleftrightarrow> unat n < 2 ^ 63"

definition nat_fits_i64 :: "nat \<Rightarrow> bool" where
  "nat_fits_i64 n \<longleftrightarrow> n < 2 ^ 63"

lemma fits_i64_code [code]: "fits_i64 n \<longleftrightarrow> n < 0x8000000000000000"
  by (simp add: fits_i64_def word_less_nat_alt)

lemma nat_fits_i64_code [code]: "nat_fits_i64 n \<longleftrightarrow> int n < 0x8000000000000000"
  by (simp add: nat_fits_i64_def)

lemma fits_i64_Suc: "fits_i64 n \<and> fits_i64 (n + 1) \<longleftrightarrow> unat n + 1 < 2 ^ 63"
  by (auto simp: fits_i64_def unat_word_ariths)

definition sql_int :: "u64 \<Rightarrow> unit stx" where
  "sql_int n = tx_check (fits_i64 n) St_Database"

fun decimal :: "nat \<Rightarrow> string" where
  "decimal n = (if n < 10 then [char_of (48 + n)] else decimal (n div 10) @ [char_of (48 + n mod 10)])"

declare decimal.simps [simp del]

definition connection :: "unit stx" where
  "connection = tx_lock St_Poisoned"

definition timestamp :: "string stx" where
  "timestamp = tx_bind tx_clock (\<lambda>n. tx_return (decimal n))"

definition now_ms :: "u64 stx" where
  "now_ms = tx_bind tx_clock (\<lambda>n.
     tx_then (tx_check (nat_fits_i64 n) St_CredentialGrantRejected) (tx_return (of_nat n)))"

text \<open>The sequence of the journal is an \<open>AUTOINCREMENT\<close> key, so it never reuses a number.\<close>

definition last_sequence :: "EventEnvelope list \<Rightarrow> u64" where
  "last_sequence es = fold max (map ev_sequence es) 0"

definition insert_event :: "string \<Rightarrow> json \<Rightarrow> EventEnvelope stx" where
  "insert_event event_type payload =
     tx_bind tx_uuid (\<lambda>event_id.
     tx_bind timestamp (\<lambda>occurred_at.
     tx_bind (tx_get (\<lambda>d. last_sequence (d_events d))) (\<lambda>n.
     tx_bind (tx_get (\<lambda>d. event_id \<in> ev_event_id ` set (d_events d))) (\<lambda>clash.
     let event = \<lparr>ev_protocol_version = PROTOCOL_VERSION, ev_event_id = event_id, ev_sequence = n + 1,
       ev_event_type = event_type, ev_occurred_at = occurred_at, ev_payload_json = payload\<rparr>
     in tx_then (tx_do
          [tx_check (\<not> clash) St_Database,
           tx_check (fits_i64 n \<and> fits_i64 (n + 1)) St_Database,
           tx_put (\<lambda>d. d\<lparr>d_events := d_events d @ [event]\<rparr>)])
        (tx_return event)))))"

definition write_catalog :: "u64 \<Rightarrow> IdentityCatalog \<Rightarrow> string \<Rightarrow> unit stx" where
  "write_catalog revision c updated_at = tx_do
     [sql_int revision,
      tx_put (\<lambda>d. d\<lparr>d_catalog_revision := revision, d_catalog := c, d_catalog_updated_at := updated_at\<rparr>)]"

definition write_m3 :: "u64 \<Rightarrow> M3Catalog \<Rightarrow> string \<Rightarrow> unit stx" where
  "write_m3 revision m updated_at = tx_do
     [sql_int revision,
      tx_put (\<lambda>d. d\<lparr>d_m3_revision := revision, d_m3 := m, d_m3_updated_at := updated_at\<rparr>)]"

text \<open>\<open>UPDATE graph_executions ... WHERE execution_id = id\<close>; the key is primary.\<close>

definition write_graph :: "GraphRunId \<Rightarrow> GraphExecution \<Rightarrow> string \<Rightarrow> unit stx" where
  "write_graph i x updated_at = tx_do
     [sql_int (exec_revision x),
      tx_put (\<lambda>d. d\<lparr>d_graphs := map (\<lambda>r. if gr_id r = i
         then r\<lparr>gr_revision := exec_revision x, gr_execution := x, gr_updated_at := updated_at\<rparr> else r) (d_graphs d)\<rparr>)]"

definition graph_row_of :: "GraphExecution \<Rightarrow> string \<Rightarrow> graph_row" where
  "graph_row_of x updated_at = \<lparr>gr_id = exec_id x, gr_revision = exec_revision x, gr_execution = x,
     gr_updated_at = updated_at\<rparr>"

definition insert_graph :: "GraphExecution \<Rightarrow> string \<Rightarrow> unit stx" where
  "insert_graph x updated_at = tx_do
     [sql_int (exec_revision x),
      tx_bind (tx_get (\<lambda>d. exec_id x \<in> gr_id ` set (d_graphs d))) (\<lambda>clash. tx_check (\<not> clash) St_Database),
      tx_put (\<lambda>d. d\<lparr>d_graphs := d_graphs d @ [graph_row_of x updated_at]\<rparr>)]"

definition next_revision :: "u64 \<Rightarrow> u64 stx" where
  "next_revision n = tx_some (checked_add n 1) St_RevisionOverflow"

definition check_revision :: "u64 \<Rightarrow> u64 \<Rightarrow> unit stx" where
  "check_revision expected actual = tx_check (actual = expected) (St_RevisionConflict expected actual)"

definition entity_metadata :: "'i \<Rightarrow> string \<Rightarrow> 'i EntityMetadata stx" where
  "entity_metadata i src = tx_bind timestamp (\<lambda>now. tx_return
     \<lparr>md_id = i, md_revision = 0, md_created_at = now, md_updated_at = now,
      md_provenance = \<lparr>source_kind = ''local_user'', source_id = src, recorded_by = ''bastet-daemon''\<rparr>,
      md_lifecycle = Active\<rparr>)"

text \<open>The JSON of an identifier in an event payload.\<close>

definition JKey :: "'k stable_id \<Rightarrow> json" where
  "JKey i = JId (id_value i)"

section \<open>Reading executions\<close>

definition ledger_of :: "db \<Rightarrow> GraphRunId \<Rightarrow> GraphNodeOutput list" where
  "ledger_of d i = map or_output (filter (\<lambda>r. or_execution_id r = i) (d_outputs d))"

definition validate_graph_output_ledger :: "GraphExecution \<Rightarrow> unit stx" where
  "validate_graph_output_ledger x =
     tx_bind (tx_get (\<lambda>d. ledger_of d (exec_id x))) (\<lambda>rows. tx_do
     [tx_check (length rows = length (exec_outputs x)) (St_InvalidGraph InvalidOutput),
      tx_each (exec_outputs x) (\<lambda>out. tx_check (out \<in> set rows) (St_InvalidGraph InvalidOutput))])"

definition decode_execution :: "externals \<Rightarrow> GraphExecution \<Rightarrow> unit stx" where
  "decode_execution E x = tx_then (tx_try St_InvalidGraph (execution_validate (sha256 E) x))
     (validate_graph_output_ledger x)"

text \<open>\<open>ORDER BY updated_at, execution_id\<close>: a stable sort by the second key and then by the first.\<close>

definition graph_order :: "graph_row list \<Rightarrow> graph_row list" where
  "graph_order rows = sort_key gr_updated_at (sort_key (\<lambda>r. id_value (gr_id r)) rows)"

definition load_graph_executions :: "externals \<Rightarrow> GraphExecution list stx" where
  "load_graph_executions E = tx_bind (tx_get (\<lambda>d. map gr_execution (graph_order (d_graphs d)))) (\<lambda>xs.
     tx_then (tx_each xs (decode_execution E)) (tx_return xs))"

definition graph_row_at :: "GraphRunId \<Rightarrow> db \<Rightarrow> graph_row option" where
  "graph_row_at i d = find (\<lambda>r. gr_id r = i) (d_graphs d)"

text \<open>The row of an execution, its revision compared with the one the caller expects.\<close>

definition select_graph :: "GraphRunId \<Rightarrow> (u64 \<times> GraphExecution) stx" where
  "select_graph i = tx_bind (tx_get (graph_row_at i)) (\<lambda>row.
     tx_bind (tx_some row St_GraphNotFound) (\<lambda>r. tx_return (gr_revision r, gr_execution r)))"

definition graph_execution :: "externals \<Rightarrow> GraphRunId \<Rightarrow> GraphExecution stx" where
  "graph_execution E i = tx_then connection (tx_bind (select_graph i) (\<lambda>(_, x).
     tx_then (decode_execution E x) (tx_return x)))"

definition list_graph_executions :: "externals \<Rightarrow> GraphExecution list stx" where
  "list_graph_executions E = tx_then connection (load_graph_executions E)"

end
