(* ===== verification/Store_Catalog.thy ===== *)
theory Store_Catalog
  imports Store_Tables
begin

text \<open>
  Lifecycle and catalogs of the daemon's store (\<open>crates/bastet-daemon/src/lib.rs\<close>): snapshot,
  readiness, checkpoints, suspension and shutdown, the event journal, and reading and replacing
  the identity catalog and the project catalog under a revision check.
\<close>

section \<open>Lifecycle\<close>

fun lifecycle_name :: "DaemonLifecycle \<Rightarrow> string" where
  "lifecycle_name Daemon_Starting = ''starting''"
| "lifecycle_name Daemon_Ready = ''ready''"
| "lifecycle_name Daemon_Checkpointing = ''checkpointing''"
| "lifecycle_name Daemon_Suspended = ''suspended''"
| "lifecycle_name Daemon_Stopping = ''stopping''"
| "lifecycle_name Daemon_Recovering = ''recovering''"

definition parse_lifecycle :: "string \<Rightarrow> DaemonLifecycle" where
  "parse_lifecycle s =
     (if s = ''ready'' then Daemon_Ready else if s = ''checkpointing'' then Daemon_Checkpointing
      else if s = ''suspended'' then Daemon_Suspended else if s = ''stopping'' then Daemon_Stopping
      else if s = ''recovering'' then Daemon_Recovering else Daemon_Starting)"

lemma parse_lifecycle_name [simp]: "parse_lifecycle (lifecycle_name l) = l"
  by (cases l) (auto simp: parse_lifecycle_def)

definition snapshot :: "DaemonSnapshot stx" where
  "snapshot = tx_then connection (tx_get (\<lambda>d.
     \<lparr>snap_protocol_version = PROTOCOL_VERSION, snap_daemon_id = d_daemon_id d,
      snap_revision = d_revision d, snap_lifecycle = parse_lifecycle (d_lifecycle d)\<rparr>))"

definition write_daemon :: "u64 \<Rightarrow> string \<Rightarrow> unit stx" where
  "write_daemon revision lifecycle = tx_do
     [sql_int revision, tx_put (\<lambda>d. d\<lparr>d_revision := revision, d_lifecycle := lifecycle\<rparr>)]"

text \<open>The revisions written with \<open>actual + 1\<close> are bounded by \<open>sql_int\<close>, so the sum never wraps.\<close>

definition transition :: "DaemonLifecycle \<Rightarrow> string \<Rightarrow> json \<Rightarrow> EventEnvelope stx" where
  "transition lifecycle event_type payload =
     tx_then connection
     (tx_bind (tx_get d_revision) (\<lambda>current.
      tx_then (write_daemon (current + 1) (lifecycle_name lifecycle))
      (insert_event event_type payload)))"

definition run_blocks_shutdown :: "Run \<Rightarrow> bool" where
  "run_blocks_shutdown r \<longleftrightarrow>
     run_state r \<in> {Run_Running, Run_Cancelling, Run_Recovering} \<or>
     run_state r = Run_Starting \<and> run_started_at r \<noteq> None \<or>
     run_state r = Run_AwaitingApproval \<and> run_started_at r \<noteq> None"

definition persist_checkpoint ::
  "CheckpointCommand \<Rightarrow> string option \<Rightarrow> DaemonLifecycle \<Rightarrow> string \<Rightarrow> CheckpointReceipt stx" where
  "persist_checkpoint command required final event_type =
     tx_then connection
     (tx_bind (tx_get (\<lambda>d. (d_revision d, d_lifecycle d))) (\<lambda>(actual, lifecycle).
      tx_then (check_revision (ck_expected_revision command) actual)
     (tx_then (case required of
          Some expected \<Rightarrow> tx_check (lifecycle = expected) (St_InvalidLifecycle expected lifecycle)
        | None \<Rightarrow> tx_return ())
     (tx_then (if final = Daemon_Stopping
        then tx_bind (tx_get d_catalog) (\<lambda>c.
          tx_check (\<not> (\<exists>r \<in> set (runs c). run_blocks_shutdown r)) St_ProviderRunsActive)
        else tx_return ())
     (let revision = actual + 1 in
      tx_then (write_daemon revision ''checkpointing'')
     (tx_bind (insert_event event_type (JObject [(''reason'', JText (ck_reason command))])) (\<lambda>event.
      tx_bind tx_uuid (\<lambda>checkpoint_id.
      tx_bind timestamp (\<lambda>created_at.
      tx_bind (tx_get (\<lambda>d. checkpoint_id \<in> cp_id ` set (d_checkpoints d))) (\<lambda>clash.
      tx_then (tx_do
        [tx_check (\<not> clash) St_Database,
         tx_put (\<lambda>d. d\<lparr>d_checkpoints := d_checkpoints d @
           [\<lparr>cp_id = checkpoint_id, cp_revision = revision, cp_event_sequence = ev_sequence event,
             cp_reason = ck_reason command, cp_created_at = created_at\<rparr>]\<rparr>),
         tx_put (\<lambda>d. d\<lparr>d_lifecycle := lifecycle_name final\<rparr>)])
     (tx_return
        \<lparr>ckr_protocol_version = PROTOCOL_VERSION, ckr_checkpoint_id = checkpoint_id,
         ckr_revision = revision, ckr_event_sequence = ev_sequence event\<rparr>)))))))))))"

definition checkpoint :: "CheckpointCommand \<Rightarrow> CheckpointReceipt stx" where
  "checkpoint command = persist_checkpoint command (Some ''ready'') Daemon_Ready ''daemon.checkpointed''"

definition shutdown :: "CheckpointCommand \<Rightarrow> CheckpointReceipt stx" where
  "shutdown command = persist_checkpoint command None Daemon_Stopping ''daemon.shutdown_requested''"

definition suspend :: "CheckpointCommand \<Rightarrow> CheckpointReceipt stx" where
  "suspend command = persist_checkpoint command (Some ''ready'') Daemon_Suspended ''daemon.suspended''"

definition resume :: "CheckpointCommand \<Rightarrow> EventEnvelope stx" where
  "resume command =
     tx_then connection
     (tx_bind (tx_get (\<lambda>d. (d_revision d, d_lifecycle d))) (\<lambda>(actual, lifecycle).
      tx_then (tx_do
        [check_revision (ck_expected_revision command) actual,
         tx_check (lifecycle = ''suspended'') (St_InvalidLifecycle ''suspended'' lifecycle),
         write_daemon (actual + 1) ''ready''])
      (insert_event ''daemon.resumed'' (JObject [(''reason'', JText (ck_reason command))]))))"

definition events_after :: "u64 \<Rightarrow> EventEnvelope list stx" where
  "events_after n = tx_then (tx_do [connection, sql_int n])
     (tx_get (\<lambda>d. sort_key ev_sequence (filter (\<lambda>e. n < ev_sequence e) (d_events d))))"

definition has_checkpoint_for_revision :: "u64 \<Rightarrow> bool stx" where
  "has_checkpoint_for_revision n = tx_then connection (tx_then (sql_int n)
     (tx_get (\<lambda>d. \<exists>c \<in> set (d_checkpoints d). cp_revision c = n)))"

section \<open>The identity catalog\<close>

definition read_catalog :: "CatalogSnapshot stx" where
  "read_catalog = tx_then connection
     (tx_bind (tx_get (\<lambda>d. (d_catalog_revision d, d_catalog d))) (\<lambda>(revision, c).
      tx_then (tx_try St_InvalidCatalog (catalog_validate c))
      (tx_return \<lparr>cs_protocol_version = PROTOCOL_VERSION, cs_revision = revision, cs_catalog = c\<rparr>)))"

text \<open>A run the daemon already owns, and its session, must be in the new catalog unchanged.\<close>

definition keeps_run :: "IdentityCatalog \<Rightarrow> IdentityCatalog \<Rightarrow> Run \<Rightarrow> unit stx" where
  "keeps_run previous c run =
     tx_bind (tx_some (find (\<lambda>s. ses_id s = run_session_id run) (sessions previous)) St_RunNotFound)
     (\<lambda>session. tx_check
        (find (\<lambda>r. run_id r = run_id run) (runs c) = Some run \<and>
         find (\<lambda>s. ses_id s = ses_id session) (sessions c) = Some session)
        (St_InvalidRunState ''daemon-owned run or session cannot be replaced''))"

definition introduces_run :: "IdentityCatalog \<Rightarrow> Run \<Rightarrow> unit stx" where
  "introduces_run previous run = tx_check
     (\<not> (\<not> (\<exists>p \<in> set (runs previous). run_id p = run_id run) \<and>
          (run_state run \<noteq> Run_Starting \<or> run_started_at run \<noteq> None)))
     (St_InvalidRunState ''catalog cannot introduce an active provider run'')"

definition replace_catalog :: "externals \<Rightarrow> ReplaceCatalogCommand \<Rightarrow> CatalogReceipt stx" where
  "replace_catalog E command =
     (let c = rc_catalog command in
      tx_then (tx_try St_InvalidCatalog (catalog_validate c))
     (tx_then connection
     (tx_bind (tx_get d_catalog_revision) (\<lambda>actual.
      tx_then (check_revision (rc_expected_revision command) actual)
     (tx_bind (tx_get d_catalog) (\<lambda>previous.
      tx_then (tx_do [tx_each (runs previous) (keeps_run previous c), tx_each (runs c) (introduces_run previous)])
     (tx_bind (tx_get d_m3) (\<lambda>m3.
      tx_bind (load_graph_executions E) (\<lambda>xs.
      tx_then (tx_try (\<lambda>e. St_InvalidM3 (Text_M3 e))
        (m3_validate (sha256 E) \<lparr>m3_catalog = m3, graph_executions = xs\<rparr> c))
     (tx_bind timestamp (\<lambda>now.
      tx_then (write_catalog (actual + 1) c now)
     (tx_bind (insert_event ''catalog.replaced'' (JObject
        [(''revision'', JNum (actual + 1)),
         (''agent_providers'', JNum (of_nat (length (agent_providers c)))),
         (''projects'', JNum (of_nat (length (projects c)))),
         (''sessions'', JNum (of_nat (length (sessions c)))),
         (''runs'', JNum (of_nat (length (runs c))))])) (\<lambda>event.
      tx_return \<lparr>crc_protocol_version = PROTOCOL_VERSION, crc_revision = actual + 1,
        crc_event_sequence = ev_sequence event\<rparr>)))))))))))))"

section \<open>The project catalog\<close>

definition validate_m3_catalog :: "externals \<Rightarrow> M3Catalog \<Rightarrow> IdentityCatalog \<Rightarrow> unit stx" where
  "validate_m3_catalog E m identity = tx_do
     [tx_try (\<lambda>e. St_InvalidM3 (Text_Office e)) (office_validate (m3_office m) identity),
      tx_try (\<lambda>e. St_InvalidM3 (Text_Meeting e)) (meetings_validate (sha256 E) (m3_meetings m) identity (m3_office m)),
      tx_try (\<lambda>e. St_InvalidM3 (Text_Deliverable e)) (deliverables_validate (sha256 E) (m3_deliverables m))]"

definition read_m3_catalog :: "externals \<Rightarrow> M3CatalogSnapshot stx" where
  "read_m3_catalog E = tx_then connection
     (tx_bind (tx_get (\<lambda>d. (d_m3_revision d, d_m3 d, d_catalog d))) (\<lambda>(revision, m, identity).
      tx_then (validate_m3_catalog E m identity)
      (tx_return \<lparr>ms_protocol_version = PROTOCOL_VERSION, ms_revision = revision, ms_catalog = m\<rparr>)))"

definition replace_m3_catalog :: "externals \<Rightarrow> ReplaceM3CatalogCommand \<Rightarrow> CatalogReceipt stx" where
  "replace_m3_catalog E command =
     (let m = rm_catalog command in
      tx_then connection
     (tx_bind (tx_get d_catalog) (\<lambda>identity.
      tx_then (validate_m3_catalog E m identity)
     (tx_bind (tx_get d_m3_revision) (\<lambda>actual.
      tx_then (check_revision (rm_expected_revision command) actual)
     (tx_bind (next_revision actual) (\<lambda>revision.
      tx_bind timestamp (\<lambda>now.
      tx_then (write_m3 revision m now)
     (tx_bind (insert_event ''m3.catalog_replaced'' (JObject
        [(''revision'', JNum revision),
         (''pet_profiles'', JNum (of_nat (length (pet_profiles (m3_office m))))),
         (''meetings'', JNum (of_nat (length (meetings (m3_meetings m))))),
         (''documents'', JNum (of_nat (length (documents (m3_deliverables m)))))])) (\<lambda>event.
      tx_return \<lparr>crc_protocol_version = PROTOCOL_VERSION, crc_revision = revision,
        crc_event_sequence = ev_sequence event\<rparr>))))))))))"

end
