(* ===== verification/Store_Project.thy ===== *)
theory Store_Project
  imports Store_Catalog
begin

text \<open>
  The project workflow of the daemon's store (\<open>crates/bastet-daemon/src/lib.rs\<close>): preparing a
  project, accepting its decision, creating and accepting the document, delivering knowledge and
  recording costs. Every request but the first checks the whole project state with
  \<open>M3State::validate\<close> before it writes.
\<close>

section \<open>Shared steps\<close>

text \<open>What each request reads first, and the check, revision and write it ends with.\<close>

definition m3_begin :: "u64 \<Rightarrow> (IdentityCatalog \<times> u64 \<times> M3Catalog) stx" where
  "m3_begin expected =
     tx_then connection
     (tx_bind (tx_get d_catalog) (\<lambda>identity.
      tx_bind (tx_get (\<lambda>d. (d_m3_revision d, d_m3 d))) (\<lambda>(actual, m).
      tx_then (check_revision expected actual) (tx_return (identity, actual, m)))))"

definition m3_commit ::
  "externals \<Rightarrow> (error_text \<Rightarrow> StoreError) \<Rightarrow> IdentityCatalog \<Rightarrow> M3Catalog \<Rightarrow> GraphExecution list \<Rightarrow> u64 \<Rightarrow> u64 stx" where
  "m3_commit E err identity m xs actual =
     tx_then (tx_try (\<lambda>e. err (Text_M3 e)) (m3_validate (sha256 E) \<lparr>m3_catalog = m, graph_executions = xs\<rparr> identity))
     (tx_bind (next_revision actual) (\<lambda>revision.
      tx_bind timestamp (\<lambda>now. tx_then (write_m3 revision m now) (tx_return revision))))"

section \<open>Preparing a project\<close>

definition m3_is_unconfigured :: "M3Catalog \<Rightarrow> bool" where
  "m3_is_unconfigured m \<longleftrightarrow>
     m = default_m3_catalog \<or>
     (let canonical = builtin_pet_profile;
          legacy_desktop = canonical\<lparr>pp_metadata := (pp_metadata canonical)\<lparr>md_created_at := ''builtin-v1'',
            md_updated_at := ''builtin-v1''\<rparr>\<rparr>
      in (pet_profiles (m3_office m) = [canonical] \<or> pet_profiles (m3_office m) = [legacy_desktop]) \<and>
         pet_assignments (m3_office m) = [] \<and> rooms (m3_office m) = [] \<and>
         m3_meetings m = default_meetings \<and> m3_deliverables m = default_deliverables)"

definition store_prepare_mvp :: "externals \<Rightarrow> prepare_ids \<Rightarrow> PrepareMvpCommand \<Rightarrow> PrepareMvpReceipt stx" where
  "store_prepare_mvp E ids command =
     tx_bind (tx_try (\<lambda>e. St_InvalidMvp (Text_Mvp e))
       (prepare (sha256 E) (path_is_absolute E) (path_is_dir E) ids (pm_project_name command)
          (pm_workspace_root command) (pm_codex_model command) (pm_agy_model command))) (\<lambda>draft0.
     tx_then connection
     (tx_bind (tx_get d_catalog_revision) (\<lambda>catalog_revision.
      tx_bind (tx_get d_m3_revision) (\<lambda>m3_revision.
      tx_bind (tx_get d_catalog) (\<lambda>existing_identity.
      tx_bind (tx_get d_m3) (\<lambda>existing_m3.
      tx_then (tx_check (existing_identity = default_catalog \<and> m3_is_unconfigured existing_m3)
        (St_InvalidMvp (Text ''MVP initializer refuses to replace existing project data'')))
     (let profiles = pet_profiles (m3_office existing_m3);
          draft = (if profiles = [] then draft0
            else draft0\<lparr>draft_m3 := (draft_m3 draft0)\<lparr>m3_office :=
              (m3_office (draft_m3 draft0))\<lparr>pet_profiles := profiles\<rparr>\<rparr>\<rparr>)
      in tx_then (check_revision (pm_expected_catalog_revision command) catalog_revision)
     (tx_then (check_revision (pm_expected_m3_revision command) m3_revision)
     (tx_bind (next_revision catalog_revision) (\<lambda>next_catalog.
      tx_bind (next_revision m3_revision) (\<lambda>next_m3.
      tx_bind timestamp (\<lambda>t1.
      tx_then (write_catalog next_catalog (draft_identity draft) t1)
     (tx_bind timestamp (\<lambda>t2.
      tx_then (write_m3 next_m3 (draft_m3 draft) t2)
     (tx_bind (insert_event ''mvp.prepared'' (JObject
        [(''project_id'', JKey (draft_project_id draft)), (''meeting_id'', JKey (draft_meeting_id draft))])) (\<lambda>event.
      tx_return \<lparr>pmr_protocol_version = PROTOCOL_VERSION, pmr_project_id = draft_project_id draft,
        pmr_meeting_id = draft_meeting_id draft, pmr_catalog_revision = next_catalog,
        pmr_m3_revision = next_m3, pmr_event_sequence = ev_sequence event\<rparr>))))))))))))))))"

section \<open>Accepting the decision\<close>

definition store_accept_mvp_decision ::
  "externals \<Rightarrow> accept_ids \<Rightarrow> AcceptDecisionBaselineCommand \<Rightarrow> AcceptDecisionBaselineReceipt stx" where
  "store_accept_mvp_decision E ids command =
     tx_bind (m3_begin (ab_expected_m3_revision command)) (\<lambda>(identity, actual, m0).
     case accept_mvp_decision (sha256 E) ids m0 identity (ab_meeting_id command) (ab_content command)
            (ab_accepted_by command) (ab_accepted_at command) of (outcome, m) \<Rightarrow>
     tx_bind (tx_try (\<lambda>e. St_InvalidMvp (Text_Mvp e)) outcome) (\<lambda>execution.
     tx_then (tx_check (decision_baselines (m3_meetings m) \<noteq> [])
       (St_InvalidMvp (Text ''missing accepted baseline'')))
     (let baseline_id = db_id (last (decision_baselines (m3_meetings m))) in
      tx_bind (load_graph_executions E) (\<lambda>xs.
      tx_bind (m3_commit E St_InvalidMvp identity m (xs @ [execution]) actual) (\<lambda>revision.
      tx_bind timestamp (\<lambda>now.
      tx_then (insert_graph execution now)
     (tx_bind (insert_event ''mvp.decision_accepted'' (JObject
        [(''meeting_id'', JKey (ab_meeting_id command)), (''baseline_id'', JKey baseline_id),
         (''graph_execution_id'', JKey (exec_id execution))])) (\<lambda>event.
      tx_return \<lparr>abr_protocol_version = PROTOCOL_VERSION, abr_baseline_id = baseline_id,
        abr_graph_execution_id = exec_id execution, abr_m3_revision = revision,
        abr_event_sequence = ev_sequence event\<rparr>))))))))"

section \<open>Documents\<close>

text \<open>The sources of a document: research outputs and the join output of a finished execution.\<close>

definition document_sources :: "GraphExecution \<Rightarrow> (GraphNodeId list \<times> GraphNode \<times> GraphNodeOutput) stx" where
  "document_sources x =
     tx_then (tx_check (\<forall>e \<in> set (exec_nodes x). node_state e = Succeeded)
       (St_InvalidDocument (Text ''graph is not complete'')))
     (let sources = map gn_id (filter (\<lambda>n. gn_kind n = Research) (graph_nodes (exec_graph x))) in
      tx_then (tx_check (\<forall>i \<in> set sources. node_output x i \<noteq> None)
        (St_InvalidDocument (Text ''research source output evidence is missing'')))
     (tx_bind (tx_some (find (\<lambda>n. gn_kind n = Join) (graph_nodes (exec_graph x)))
        (St_InvalidDocument (Text ''join node not found''))) (\<lambda>join.
      tx_bind (tx_some (node_output x (gn_id join))
        (St_InvalidDocument (Text ''completed join output evidence is missing''))) (\<lambda>out.
      tx_return (sources, join, out)))))"

definition document_project :: "M3Catalog \<Rightarrow> GraphExecution \<Rightarrow> ProjectId stx" where
  "document_project m x =
     tx_bind (tx_some (find (\<lambda>b. db_id b = decision_baseline_id (exec_graph x)) (decision_baselines (m3_meetings m)))
       (St_InvalidDocument (Text ''DecisionBaseline not found''))) (\<lambda>baseline.
     tx_bind (tx_some (find (\<lambda>g. mtg_id g = db_meeting_id baseline) (meetings (m3_meetings m)))
       (St_InvalidDocument (Text ''meeting not found''))) (\<lambda>meeting.
     tx_return (mtg_project_id meeting)))"

definition create_mvp_document :: "externals \<Rightarrow> CreateDocumentCommand \<Rightarrow> DocumentReceipt stx" where
  "create_mvp_document E command =
     tx_bind (m3_begin (cd_expected_m3_revision command)) (\<lambda>(identity, actual, m).
     tx_bind (load_graph_executions E) (\<lambda>xs.
     tx_bind (tx_some (find (\<lambda>x. exec_id x = cd_graph_execution_id command) xs) St_GraphNotFound) (\<lambda>x.
     tx_bind (document_sources x) (\<lambda>(sources, join, out).
     tx_bind (document_project m x) (\<lambda>project.
     tx_bind tx_uuid (\<lambda>u1. let artifact_id = StableId u1 in
     tx_bind tx_uuid (\<lambda>u2. let version_id = StableId u2 in
     tx_bind (tx_try (\<lambda>e. St_InvalidDocument (Text_Deliverable e))
       (version_create (sha256 E) version_id 1 None (cd_markdown command) sources)) (\<lambda>v0.
     tx_bind (tx_try (\<lambda>e. St_InvalidDocument (Text_Deliverable e))
       (bind_join_receipt (exec_id x) (gn_id join) (out_content_hash out) v0)) (\<lambda>v.
     tx_bind (entity_metadata artifact_id ''mvp_document'') (\<lambda>meta.
     let ds = m3_deliverables m;
         m' = m\<lparr>m3_deliverables := ds\<lparr>documents := documents ds @
           [\<lparr>da_metadata = meta, da_project_id = project, da_title = cd_title command, da_versions = [v]\<rparr>]\<rparr>\<rparr>
     in tx_bind (m3_commit E St_InvalidDocument identity m' xs actual) (\<lambda>revision.
     tx_bind (insert_event ''artifact.document_created'' (JObject
       [(''artifact_id'', JKey artifact_id), (''version_id'', JKey version_id),
        (''content_hash'', JText (dv_content_hash v))])) (\<lambda>event.
     tx_return \<lparr>dr_protocol_version = PROTOCOL_VERSION, dr_artifact_id = artifact_id,
       dr_version_id = version_id, dr_content_hash = dv_content_hash v, dr_m3_revision = revision,
       dr_event_sequence = ev_sequence event\<rparr>))))))))))))"

text \<open>\<open>iter_mut().find(..)\<close> twice: the document, then the version inside it.\<close>

definition find_version :: "ArtifactId \<Rightarrow> ArtifactVersionId \<Rightarrow> M3Catalog \<Rightarrow> DocumentVersion option" where
  "find_version a v m = Option.bind (find (\<lambda>d. md_id (da_metadata d) = a) (documents (m3_deliverables m)))
     (\<lambda>d. find (\<lambda>x. dv_id x = v) (da_versions d))"

definition set_version :: "ArtifactId \<Rightarrow> DocumentVersion \<Rightarrow> M3Catalog \<Rightarrow> M3Catalog" where
  "set_version a v m =
     m\<lparr>m3_deliverables := (m3_deliverables m)\<lparr>documents :=
        update_first (\<lambda>d. md_id (da_metadata d) = a)
          (\<lambda>d. d\<lparr>da_versions := update_first (\<lambda>x. dv_id x = dv_id v) (\<lambda>_. v) (da_versions d)\<rparr>)
          (documents (m3_deliverables m))\<rparr>\<rparr>"

definition accept_mvp_document :: "externals \<Rightarrow> AcceptDocumentCommand \<Rightarrow> DocumentReceipt stx" where
  "accept_mvp_document E command =
     tx_bind (m3_begin (ad_expected_m3_revision command)) (\<lambda>(identity, actual, m).
     tx_bind (tx_some (find_version (ad_artifact_id command) (ad_version_id command) m)
       (St_InvalidDocument (Text ''artifact version not found''))) (\<lambda>v0.
     tx_then (tx_check (dv_content_hash v0 = ad_content_hash command)
       (St_InvalidDocument (Text ''content hash mismatch'')))
    (tx_bind (tx_try (\<lambda>e. St_InvalidDocument (Text_Deliverable e))
       (version_accept (sha256 E) (ad_accepted_by command) (ad_accepted_at command) v0)) (\<lambda>v.
     tx_bind (load_graph_executions E) (\<lambda>xs.
     tx_bind (m3_commit E St_InvalidDocument identity (set_version (ad_artifact_id command) v m) xs actual) (\<lambda>revision.
     tx_bind (insert_event ''artifact.document_accepted'' (JObject
       [(''artifact_id'', JKey (ad_artifact_id command)), (''version_id'', JKey (ad_version_id command)),
        (''content_hash'', JText (ad_content_hash command))])) (\<lambda>event.
     tx_return \<lparr>dr_protocol_version = PROTOCOL_VERSION, dr_artifact_id = ad_artifact_id command,
       dr_version_id = ad_version_id command, dr_content_hash = ad_content_hash command,
       dr_m3_revision = revision, dr_event_sequence = ev_sequence event\<rparr>)))))))"

section \<open>Knowledge deliveries and costs\<close>

fun target_key :: "KnowledgeTarget \<Rightarrow> string" where
  "target_key AgentMemoryOs = ''agent_memory_os''"
| "target_key BastetMind = ''bastet_mind''"

definition prepare_knowledge_delivery ::
  "externals \<Rightarrow> PrepareKnowledgeDeliveryCommand \<Rightarrow> KnowledgeDeliveryReceipt stx" where
  "prepare_knowledge_delivery E command =
     tx_bind (m3_begin (pk_expected_m3_revision command)) (\<lambda>(identity, actual, m).
     let ds = m3_deliverables m in
     tx_then (tx_check (\<exists>d \<in> set (documents ds). da_project_id d = pk_project_id command \<and>
         (\<exists>v \<in> set (da_versions d). dv_id v = pk_artifact_version_id command \<and> dv_accepted_by v \<noteq> None))
       (St_InvalidDocument (Text ''knowledge delivery requires an accepted artifact version'')))
    (tx_bind tx_uuid (\<lambda>u. let delivery_id = StableId u in
     tx_bind (entity_metadata delivery_id ''knowledge_delivery'') (\<lambda>meta.
     tx_bind (tx_try (\<lambda>e. St_InvalidDocument (Text_Deliverable e))
       (delivery_prepare meta (pk_project_id command) (pk_artifact_version_id command)
          (pk_target command) (pk_preview command))) (\<lambda>delivery.
     tx_bind (load_graph_executions E) (\<lambda>xs.
     tx_bind (m3_commit E St_InvalidDocument identity (m\<lparr>m3_deliverables :=
         ds\<lparr>knowledge_deliveries := knowledge_deliveries ds @ [delivery]\<rparr>\<rparr>) xs actual) (\<lambda>revision.
     tx_bind (insert_event ''knowledge.delivery_prepared'' (JObject
       [(''delivery_id'', JKey delivery_id), (''target'', JText (target_key (pk_target command)))])) (\<lambda>event.
     tx_return \<lparr>kdr_protocol_version = PROTOCOL_VERSION, kdr_delivery_id = delivery_id,
       kdr_state = kd_state delivery, kdr_m3_revision = revision, kdr_event_sequence = ev_sequence event\<rparr>))))))))"

definition complete_knowledge_delivery ::
  "externals \<Rightarrow> CompleteKnowledgeDeliveryCommand \<Rightarrow> KnowledgeDeliveryReceipt stx" where
  "complete_knowledge_delivery E command =
     tx_bind (m3_begin (ckd_expected_m3_revision command)) (\<lambda>(identity, actual, m).
     let ds = m3_deliverables m; is_it = (\<lambda>k. md_id (kd_metadata k) = ckd_delivery_id command) in
     tx_bind (tx_some (find is_it (knowledge_deliveries ds))
       (St_InvalidDocument (Text ''knowledge delivery not found''))) (\<lambda>k0.
     tx_bind (tx_try (\<lambda>e. St_InvalidDocument (Text_Deliverable e))
       (record_delivered (ckd_destination_receipt command) k0)) (\<lambda>k.
     tx_bind (load_graph_executions E) (\<lambda>xs.
     tx_bind (m3_commit E St_InvalidDocument identity (m\<lparr>m3_deliverables :=
         ds\<lparr>knowledge_deliveries := update_first is_it (\<lambda>_. k) (knowledge_deliveries ds)\<rparr>\<rparr>) xs actual) (\<lambda>revision.
     tx_bind (insert_event ''knowledge.delivery_completed'' (JObject
       [(''delivery_id'', JKey (ckd_delivery_id command))])) (\<lambda>event.
     tx_return \<lparr>kdr_protocol_version = PROTOCOL_VERSION, kdr_delivery_id = ckd_delivery_id command,
       kdr_state = kd_state k, kdr_m3_revision = revision, kdr_event_sequence = ev_sequence event\<rparr>))))))"

definition record_cost :: "externals \<Rightarrow> RecordCostCommand \<Rightarrow> CostReceipt stx" where
  "record_cost E command =
     (let cost = rec_record command; cost_id = md_id (cost_metadata cost) in
     tx_bind (m3_begin (rec_expected_m3_revision command)) (\<lambda>(identity, actual, m).
     let ds = m3_deliverables m in
     tx_then (tx_check (\<not> (\<exists>c \<in> set (costs ds). md_id (cost_metadata c) = cost_id))
       (St_InvalidCost (Text ''duplicate cost record id'')))
    (tx_bind (load_graph_executions E) (\<lambda>xs.
     tx_bind (m3_commit E St_InvalidCost identity (m\<lparr>m3_deliverables := ds\<lparr>costs := costs ds @ [cost]\<rparr>\<rparr>) xs actual) (\<lambda>revision.
     tx_bind (insert_event ''cost.recorded'' (JObject [(''cost_record_id'', JKey cost_id)])) (\<lambda>event.
     tx_return \<lparr>cor_protocol_version = PROTOCOL_VERSION, cor_cost_record_id = cost_id,
       cor_m3_revision = revision, cor_event_sequence = ev_sequence event\<rparr>))))))"

end
