(* ===== verification/Store_Graph.thy ===== *)
theory Store_Graph
  imports Store_Project
begin

text \<open>
  Graph executions and the run states the provider reports, in the daemon's store
  (\<open>crates/bastet-daemon/src/lib.rs\<close>): creating, restarting, retrying, claiming and completing
  under the execution's revision, and recording that a provider run is running or being
  cancelled.
\<close>

section \<open>Failure evidence\<close>

definition MESSAGE_KEYS :: "string list" where
  "MESSAGE_KEYS =
     [''adapter.agy.cancelled'', ''adapter.agy.crashed'', ''adapter.agy.failed'',
      ''adapter.agy.invalid_state'', ''adapter.agy.timed_out'', ''codex.failure.bad_request'',
      ''codex.failure.context_window_exceeded'', ''codex.failure.http_connection_failed'',
      ''codex.failure.internal_server_error'', ''codex.failure.response_stream_connection_failed'',
      ''codex.failure.response_stream_disconnected'', ''codex.failure.response_too_many_failed_attempts'',
      ''codex.failure.sandbox_error'', ''codex.failure.timeout'', ''codex.failure.transport_lost'',
      ''codex.failure.unauthorized'', ''codex.failure.unknown'', ''codex.failure.usage_limit_exceeded'']"

fun failure_key :: "AdapterFailureKind \<Rightarrow> string" where
  "failure_key Timeout = ''adapter.failure.timeout''"
| "failure_key Failure_Cancelled = ''adapter.failure.cancelled''"
| "failure_key Authentication = ''adapter.failure.authentication''"
| "failure_key Quota = ''adapter.failure.quota''"
| "failure_key PermissionDenied = ''adapter.failure.permission_denied''"
| "failure_key Crashed = ''adapter.failure.crashed''"
| "failure_key ProtocolDrift = ''adapter.failure.protocol_drift''"
| "failure_key MalformedOutput = ''adapter.failure.malformed_output''"
| "failure_key BinaryMissing = ''adapter.failure.binary_missing''"
| "failure_key Unsupported = ''adapter.failure.unsupported''"
| "failure_key UnknownFailure = ''adapter.failure.unknown''"

definition sanitize_adapter_failure :: "AdapterFailure \<Rightarrow> AdapterFailure" where
  "sanitize_adapter_failure f =
     \<lparr>af_kind = af_kind f,
      af_message_key = (if af_message_key f \<in> set MESSAGE_KEYS then af_message_key f
                        else failure_key (af_kind f)),
      af_retryable = af_retryable f, af_provider_code = None, af_redacted_detail = None\<rparr>"

section \<open>Graph executions\<close>

definition sanitized_execution :: "GraphExecution \<Rightarrow> GraphExecution" where
  "sanitized_execution x = x\<lparr>exec_nodes := map (\<lambda>e. e\<lparr>node_failure :=
     map_option sanitize_adapter_failure (node_failure e)\<rparr>) (exec_nodes x)\<rparr>"

definition create_graph_execution :: "externals \<Rightarrow> GraphExecution \<Rightarrow> GraphExecutionReceipt stx" where
  "create_graph_execution E x0 =
     (let x = sanitized_execution x0 in
      tx_then (tx_try St_InvalidGraph (execution_validate (sha256 E) x))
     (tx_then connection
     (tx_bind timestamp (\<lambda>now.
      tx_bind (tx_get (\<lambda>d. exec_id x \<in> gr_id ` set (d_graphs d))) (\<lambda>ignored.
      tx_then (tx_do
        [sql_int (exec_revision x),
         tx_check (\<not> ignored) St_GraphConflict,
         tx_put (\<lambda>d. d\<lparr>d_graphs := d_graphs d @ [graph_row_of x now]\<rparr>)])
     (tx_bind (insert_event ''graph.execution_created'' (JObject
        [(''execution_id'', JKey (exec_id x)), (''nodes'', JNum (of_nat (length (exec_nodes x))))])) (\<lambda>event.
      tx_return \<lparr>ger_protocol_version = PROTOCOL_VERSION, ger_execution_id = exec_id x,
        ger_revision = exec_revision x, ger_event_sequence = ev_sequence event\<rparr>)))))))"

definition restart_missing_output_graph ::
  "externals \<Rightarrow> GraphRunId \<Rightarrow> u64 \<Rightarrow> GraphExecutionReceipt stx" where
  "restart_missing_output_graph E original_id expected =
     tx_then connection
     (tx_bind (select_graph original_id) (\<lambda>(actual, original).
      tx_then (check_revision expected actual)
     (tx_then (decode_execution E original)
     (tx_bind (load_graph_executions E) (\<lambda>xs.
      case find (\<lambda>x. restarted_from x = Some original_id) xs of
        Some existing \<Rightarrow>
          tx_bind (tx_get (\<lambda>d. last_sequence (d_events d))) (\<lambda>n.
          tx_return \<lparr>ger_protocol_version = PROTOCOL_VERSION, ger_execution_id = exec_id existing,
            ger_revision = exec_revision existing, ger_event_sequence = n\<rparr>)
      | None \<Rightarrow>
          tx_bind (tx_get d_m3) (\<lambda>m3.
          tx_bind (tx_some (find (\<lambda>b. db_id b = decision_baseline_id (exec_graph original))
              (decision_baselines (m3_meetings m3)))
            (St_InvalidMvp (Text ''graph DecisionBaseline not found''))) (\<lambda>baseline.
          tx_then (tx_check (\<not> (blank (db_accepted_by baseline) \<or> blank (db_accepted_at baseline)))
            (St_InvalidMvp (Text ''graph DecisionBaseline is not accepted'')))
         (tx_bind tx_uuid (\<lambda>u.
          tx_bind (tx_try St_InvalidGraph (restart_as (sha256 E) original (StableId u))) (\<lambda>restarted.
          tx_bind timestamp (\<lambda>now.
          tx_then (insert_graph restarted now)
         (tx_bind (insert_event ''graph.execution_restarted_for_missing_output'' (JObject
            [(''execution_id'', JKey (exec_id restarted)),
             (''restarted_from_execution_id'', JKey original_id)])) (\<lambda>event.
          tx_return \<lparr>ger_protocol_version = PROTOCOL_VERSION, ger_execution_id = exec_id restarted,
            ger_revision = exec_revision restarted, ger_event_sequence = ev_sequence event\<rparr>)))))))))))))"

definition retry_failed_graph_node ::
  "externals \<Rightarrow> GraphRunId \<Rightarrow> RetryFailedGraphNodeCommand \<Rightarrow> GraphExecutionReceipt stx" where
  "retry_failed_graph_node E i command =
     tx_then connection
     (tx_bind (select_graph i) (\<lambda>(actual, x0).
      tx_then (check_revision (rf_expected_graph_revision command) actual)
     (tx_then (decode_execution E x0)
     (tx_bind (tx_try_loop St_InvalidGraph (retry_failed (rf_node_id command) x0)) (\<lambda>x.
      tx_then (tx_try St_InvalidGraph (execution_validate (sha256 E) x))
     (tx_bind timestamp (\<lambda>now.
      tx_then (write_graph i x now)
     (tx_bind (insert_event ''graph.failed_node_retried'' (JObject
        [(''execution_id'', JKey i), (''node_id'', JKey (rf_node_id command)),
         (''revision'', JNum (exec_revision x))])) (\<lambda>event.
      tx_return \<lparr>ger_protocol_version = PROTOCOL_VERSION, ger_execution_id = i,
        ger_revision = exec_revision x, ger_event_sequence = ev_sequence event\<rparr>)))))))))"

text \<open>\<open>update\<close> is the closure that mutates the execution and returns a value.\<close>

definition update_graph ::
  "externals \<Rightarrow> GraphRunId \<Rightarrow> u64 \<Rightarrow> string \<Rightarrow> (GraphExecution \<Rightarrow> (GraphError, 'a \<times> GraphExecution) result) \<Rightarrow> 'a stx" where
  "update_graph E i expected event_type update =
     tx_then connection
     (tx_bind (select_graph i) (\<lambda>(actual, x0).
      tx_then (check_revision expected actual)
     (tx_then (decode_execution E x0)
     (tx_bind (tx_try St_InvalidGraph (update x0)) (\<lambda>(v, x).
      tx_then (tx_try St_InvalidGraph (execution_validate (sha256 E) x))
     (tx_bind timestamp (\<lambda>now.
      tx_then (write_graph i x now)
     (tx_then (insert_event event_type (JObject
        [(''execution_id'', JKey i), (''revision'', JNum (exec_revision x))]))
     (tx_return v)))))))))"

definition claim_graph_nodes ::
  "externals \<Rightarrow> GraphRunId \<Rightarrow> u64 \<Rightarrow> string \<Rightarrow> nat \<Rightarrow> GraphNodeId list stx" where
  "claim_graph_nodes E i expected owner limit =
     update_graph E i expected ''graph.nodes_claimed'' (claim_ready owner limit)"

definition complete_graph_node ::
  "externals \<Rightarrow> GraphRunId \<Rightarrow> u64 \<Rightarrow> GraphNodeId \<Rightarrow> string \<Rightarrow> bool \<Rightarrow> unit stx" where
  "complete_graph_node E i expected n owner succeeded =
     update_graph E i expected ''graph.node_completed''
       (\<lambda>x. and_then (complete n owner succeeded x) (\<lambda>y. Ok ((), y)))"

section \<open>Runs as the provider reports them\<close>

text \<open>\<open>format!("{:?}", state).to_lowercase()\<close>.\<close>

fun run_state_debug :: "NormalizedRunState \<Rightarrow> string" where
  "run_state_debug Run_Starting = ''starting''"
| "run_state_debug Run_Running = ''running''"
| "run_state_debug Run_AwaitingApproval = ''awaitingapproval''"
| "run_state_debug Run_Blocked = ''blocked''"
| "run_state_debug Run_Cancelling = ''cancelling''"
| "run_state_debug Run_Cancelled = ''cancelled''"
| "run_state_debug Run_Failed = ''failed''"
| "run_state_debug Run_Succeeded = ''succeeded''"
| "run_state_debug Run_Recovering = ''recovering''"
| "run_state_debug Run_Uncertain = ''uncertain''"

text \<open>Entities of the catalog are found by identifier and changed in place.\<close>

definition find_run :: "RunId \<Rightarrow> IdentityCatalog \<Rightarrow> Run option" where
  "find_run i c = find (\<lambda>r. run_id r = i) (runs c)"

definition find_session :: "SessionId \<Rightarrow> IdentityCatalog \<Rightarrow> Session option" where
  "find_session i c = find (\<lambda>s. ses_id s = i) (sessions c)"

definition set_run :: "Run \<Rightarrow> IdentityCatalog \<Rightarrow> IdentityCatalog" where
  "set_run r c = c\<lparr>runs := update_first (\<lambda>x. run_id x = run_id r) (\<lambda>_. r) (runs c)\<rparr>"

definition set_session :: "Session \<Rightarrow> IdentityCatalog \<Rightarrow> IdentityCatalog" where
  "set_session s c = c\<lparr>sessions := update_first (\<lambda>x. ses_id x = ses_id s) (\<lambda>_. s) (sessions c)\<rparr>"

definition touch_metadata :: "string \<Rightarrow> 'i EntityMetadata \<Rightarrow> 'i EntityMetadata stx" where
  "touch_metadata now m = tx_bind (next_revision (md_revision m)) (\<lambda>revision.
     tx_return (m\<lparr>md_revision := revision, md_updated_at := now\<rparr>))"

definition touch_run :: "string \<Rightarrow> (Run \<Rightarrow> Run) \<Rightarrow> Run \<Rightarrow> Run stx" where
  "touch_run now f r = tx_bind (touch_metadata now (run_metadata r)) (\<lambda>m. tx_return ((f r)\<lparr>run_metadata := m\<rparr>))"

definition touch_session :: "string \<Rightarrow> (Session \<Rightarrow> Session) \<Rightarrow> Session \<Rightarrow> Session stx" where
  "touch_session now f s = tx_bind (touch_metadata now (ses_metadata s)) (\<lambda>m. tx_return ((f s)\<lparr>ses_metadata := m\<rparr>))"

definition commit_catalog :: "u64 \<Rightarrow> IdentityCatalog \<Rightarrow> u64 stx" where
  "commit_catalog actual c =
     tx_then (tx_try St_InvalidCatalog (catalog_validate c))
     (tx_bind (next_revision actual) (\<lambda>revision.
      tx_bind timestamp (\<lambda>now. tx_then (write_catalog revision c now) (tx_return revision))))"

text \<open>The row of a run that has the highest attempt of its node.\<close>

definition is_current_attempt :: "RunId \<Rightarrow> db \<Rightarrow> bool" where
  "is_current_attempt i d \<longleftrightarrow> (\<exists>r \<in> set (d_node_runs d). nr_run_id r = i \<and>
     (\<forall>q \<in> set (d_node_runs d). nr_execution_id q = nr_execution_id r \<and> nr_node_id q = nr_node_id r \<longrightarrow>
        nr_attempt q \<le> nr_attempt r))"

definition preflight_provider_cancel :: "RunId \<Rightarrow> u64 \<Rightarrow> unit stx" where
  "preflight_provider_cancel i expected =
     tx_then connection
     (tx_bind (tx_get (\<lambda>d. (d_catalog_revision d, d_catalog d))) (\<lambda>(actual, c).
      tx_then (check_revision expected actual)
     (tx_bind (tx_some (find_run i c) St_RunNotFound) (\<lambda>run.
      tx_check (run_state run \<in> {Run_Starting, Run_Running, Run_Recovering})
        (St_InvalidRunState (run_state_debug (run_state run)))))))"

definition record_provider_running :: "RunId \<Rightarrow> string option \<Rightarrow> u64 stx" where
  "record_provider_running i provider_session_id =
     tx_then (tx_check (case provider_session_id of Some s \<Rightarrow> \<not> blank s | None \<Rightarrow> True)
       (St_InvalidRunState ''empty provider session id''))
    (tx_then connection
    (tx_bind (tx_get (\<lambda>d. (d_catalog_revision d, d_catalog d))) (\<lambda>(actual, c).
     tx_bind (tx_get (is_current_attempt i)) (\<lambda>current.
     tx_then (tx_check current (St_InvalidRunState ''run is not the current graph node attempt''))
    (tx_bind (tx_some (find_run i c) St_RunNotFound) (\<lambda>run.
     tx_then (tx_check (run_state run \<in> {Run_Starting, Run_Running, Run_Cancelling})
       (St_InvalidRunState (run_state_debug (run_state run))))
    (tx_bind (tx_some (find_session (run_session_id run) c) St_RunNotFound) (\<lambda>session.
     tx_bind timestamp (\<lambda>now.
     tx_bind (if run_state run = Run_Starting
       then tx_bind (touch_run now (\<lambda>r. r\<lparr>run_state := Run_Running\<rparr>) run) (\<lambda>r. tx_return (True, set_run r c))
       else tx_return (False, c)) (\<lambda>(changed1, c1).
     tx_bind (case provider_session_id of
         Some s \<Rightarrow> if ses_provider_session_id session \<noteq> Some s
           then tx_bind (touch_session now (\<lambda>x. x\<lparr>ses_provider_session_id := Some s\<rparr>) session)
                  (\<lambda>x. tx_return (True, set_session x c1))
           else tx_return (changed1, c1)
       | None \<Rightarrow> tx_return (changed1, c1)) (\<lambda>(changed, c2).
     if \<not> changed then tx_return actual
     else tx_bind (commit_catalog actual c2) (\<lambda>revision.
       tx_then (insert_event ''run.provider_running'' (JObject [(''run_id'', JKey i)]))
      (tx_return revision)))))))))))))"

definition run_state_settled :: "NormalizedRunState \<Rightarrow> bool" where
  "run_state_settled s \<longleftrightarrow> s \<in> {Run_Cancelled, Run_Failed, Run_Succeeded, Run_Blocked, Run_Uncertain}"

definition record_provider_cancel_after_preflight :: "RunId \<Rightarrow> CancelRunReceipt stx" where
  "record_provider_cancel_after_preflight i =
     tx_then connection
     (tx_bind (tx_get (\<lambda>d. (d_catalog_revision d, d_catalog d))) (\<lambda>(actual, c).
      tx_bind (tx_some (find_run i c) St_RunNotFound) (\<lambda>run.
      tx_bind (if run_state_settled (run_state run) then tx_return actual
        else if run_state run \<in> {Run_Starting, Run_Running, Run_Recovering, Run_Cancelling}
        then tx_bind timestamp (\<lambda>now.
             tx_bind (touch_run now (\<lambda>r. r\<lparr>run_state := Run_Cancelling\<rparr>) run) (\<lambda>r.
             commit_catalog actual (set_run r c)))
        else tx_fail (St_InvalidRunState (run_state_debug (run_state run)))) (\<lambda>revision.
      tx_bind (insert_event (if run_state_settled (run_state run)
          then ''run.cancel_accepted_terminal_won'' else ''run.cancel_accepted'')
        (JObject [(''run_id'', JKey i)])) (\<lambda>event.
      tx_return \<lparr>cr_protocol_version = PROTOCOL_VERSION, cr_run_id = i, cr_catalog_revision = revision,
        cr_event_sequence = ev_sequence event\<rparr>)))))"

definition record_provider_cancel_accepted :: "RunId \<Rightarrow> u64 \<Rightarrow> CancelRunReceipt stx" where
  "record_provider_cancel_accepted i expected =
     tx_then connection
     (tx_bind (tx_get (\<lambda>d. (d_catalog_revision d, d_catalog d))) (\<lambda>(actual, c).
      tx_then (check_revision expected actual)
     (tx_bind (tx_some (find_run i c) St_RunNotFound) (\<lambda>run.
      tx_then (tx_check (run_state run \<in> {Run_Starting, Run_Running, Run_Recovering})
        (St_InvalidRunState (run_state_debug (run_state run))))
     (tx_bind timestamp (\<lambda>now.
      tx_bind (touch_run now (\<lambda>r. r\<lparr>run_state := Run_Cancelling\<rparr>) run) (\<lambda>r.
      tx_bind (commit_catalog actual (set_run r c)) (\<lambda>revision.
      tx_bind (insert_event ''run.cancel_accepted'' (JObject [(''run_id'', JKey i)])) (\<lambda>event.
      tx_return \<lparr>cr_protocol_version = PROTOCOL_VERSION, cr_run_id = i, cr_catalog_revision = revision,
        cr_event_sequence = ev_sequence event\<rparr>)))))))))"

end
