(* ===== verification/Store_Staged.thy ===== *)
theory Store_Staged
  imports Store_Plan
begin

text \<open>
  Launches that wait for a credential approval (\<open>crates/bastet-daemon/src/staged_launches.rs\<close>):
  the request derived from a launch plan, the ledger of staged launches, and the checks that tie
  request, plan, catalog run, graph node and attempt together. The tables of grants and their
  constraints (\<open>credential_grants.rs\<close>) are here too, since cancelling a launch revokes its grant.
\<close>

section \<open>The tables\<close>

text \<open>The \<open>CHECK\<close> constraints of the tables; a statement that would break one is an error.\<close>

definition grant_ok :: "grant_row \<Rightarrow> bool" where
  "grant_ok g \<longleftrightarrow>
     (case g_consumed_at_ms g of Some t \<Rightarrow> g_issued_at_ms g \<le> t | None \<Rightarrow> True) \<and>
     (case g_revoked_at_ms g of Some t \<Rightarrow> g_issued_at_ms g \<le> t | None \<Rightarrow> True) \<and>
     (g_consumed_at_ms g = None \<or> g_revoked_at_ms g = None) \<and>
     (g_revoked_at_ms g = None \<longleftrightarrow> g_revoked_by g = None)"

definition staged_ok :: "staged_row \<Rightarrow> bool" where
  "staged_ok s \<longleftrightarrow>
     (sg_state s = Staged_Cancelled \<longleftrightarrow> sg_finished_at_ms s \<noteq> None) \<and>
     (sg_state s = Staged_Cancelled \<longleftrightarrow> sg_cancel_reason s \<noteq> None) \<and>
     (case sg_finished_at_ms s of Some t \<Rightarrow> sg_staged_at_ms s \<le> t | None \<Rightarrow> True)"

text \<open>An \<open>UPDATE\<close> with its \<open>WHERE\<close> clause; the result is the number of rows changed.\<close>

definition open_grant :: "ApprovalRequestId \<Rightarrow> grant_row \<Rightarrow> bool" where
  "open_grant i g \<longleftrightarrow> g_request_id g = i \<and> g_consumed_at_ms g = None \<and> g_revoked_at_ms g = None"

definition update_grant :: "ApprovalRequestId \<Rightarrow> (grant_row \<Rightarrow> grant_row) \<Rightarrow> nat stx" where
  "update_grant i f =
     tx_bind (tx_get (\<lambda>d. filter (open_grant i) (d_grants d))) (\<lambda>rows.
     tx_then (tx_do
       [tx_check (list_all (\<lambda>g. grant_ok (f g)) rows) St_Database,
        tx_put (\<lambda>d. d\<lparr>d_grants := map (\<lambda>g. if open_grant i g then f g else g) (d_grants d)\<rparr>)])
     (tx_return (length rows)))"

definition update_staged :: "(staged_row \<Rightarrow> bool) \<Rightarrow> (staged_row \<Rightarrow> staged_row) \<Rightarrow> nat stx" where
  "update_staged P f =
     tx_bind (tx_get (\<lambda>d. filter P (d_staged d))) (\<lambda>rows.
     tx_then (tx_do
       [tx_check (list_all (\<lambda>s. staged_ok (f s)) rows) St_Database,
        tx_put (\<lambda>d. d\<lparr>d_staged := map (\<lambda>s. if P s then f s else s) (d_staged d)\<rparr>)])
     (tx_return (length rows)))"

definition insert_approval :: "ApprovalRequest \<Rightarrow> string \<Rightarrow> unit stx" where
  "insert_approval r created_at =
     tx_put (\<lambda>d. d\<lparr>d_approvals := d_approvals d @
       [\<lparr>aq_request_id = req_id r, aq_request_hash = request_hash r, aq_request = r,
         aq_expires_at_ms = expires_at_ms r, aq_decision = None, aq_created_at = created_at,
         aq_decided_at = None\<rparr>]\<rparr>)"

text \<open>The identifier is the primary key and the digest has a unique index.\<close>

definition approval_clash :: "ApprovalRequest \<Rightarrow> db \<Rightarrow> bool" where
  "approval_clash r d \<longleftrightarrow> (\<exists>a \<in> set (d_approvals d). aq_request_id a = req_id r \<or> aq_request_hash a = request_hash r)"

definition find_approval :: "ApprovalRequestId \<Rightarrow> db \<Rightarrow> approval_row option" where
  "find_approval i d = find (\<lambda>a. aq_request_id a = i) (d_approvals d)"

definition find_grant :: "ApprovalRequestId \<Rightarrow> db \<Rightarrow> grant_row option" where
  "find_grant i d = find (\<lambda>g. g_request_id g = i) (d_grants d)"

definition find_staged :: "ApprovalRequestId \<Rightarrow> db \<Rightarrow> staged_row option" where
  "find_staged i d = find (\<lambda>s. sg_request_id s = i) (d_staged d)"

definition find_staged_run :: "RunId \<Rightarrow> db \<Rightarrow> staged_row option" where
  "find_staged_run i d = find (\<lambda>s. sg_run_id s = i) (d_staged d)"

section \<open>The request of a plan\<close>

definition APPROVAL_TTL_MS :: u64 where "APPROVAL_TTL_MS = 5 * 60 * 1000"

definition load_catalog_row :: "(u64 \<times> IdentityCatalog) stx" where
  "load_catalog_row = tx_bind (tx_get (\<lambda>d. (d_catalog_revision d, d_catalog d))) (\<lambda>(revision, c).
     tx_then (tx_try St_InvalidCatalog (catalog_validate c)) (tx_return (revision, c)))"

definition approval_action :: "externals \<Rightarrow> ProviderLaunchPlan \<Rightarrow> (StoreError, ApprovalAction) result" where
  "approval_action E p =
     (let l = plan_identity p in
     and_then (ok_or (pli_account l) St_CredentialGrantRejected) (\<lambda>account.
     and_then (ok_or (pas_credential account) St_CredentialGrantRejected) (\<lambda>cred.
     Ok \<lparr>act_agent_instance_id = pli_agent_instance_id l, act_role_id = Some (plan_role_id p),
         action_key = ''credential.use'', reason_key = ''provider.authentication'',
         consequence_key = ''credential.single_run'', risk = High,
         scope = \<lparr>scope_project_id = pli_project_id l, scope_run_id = Some (plan_run_id p),
           filesystem_roots = [plan_workspace_root p],
           data_scopes = [''provider_launch_plan:'' @ plan_hash E p], network_destinations = [],
           credential_reference_ids = [pcs_reference_id cred], destination = None,
           credential_binding = Some \<lparr>cb_agent_provider_id = pli_agent_provider_id l,
             cb_account_id = pas_account_id account, cb_adapter_kind = pli_adapter_kind l,
             cb_provider_identity = pas_provider_identity account,
             cb_credential_reference_id = pcs_reference_id cred, cb_backend = pcs_backend cred,
             cb_service = pcs_service cred, cb_account_label = pcs_account_label cred,
             cb_capability_key = ''provider.authenticate''\<rparr>\<rparr>,
         requested_policy = \<lparr>layer = SingleRun, ceiling = \<lparr>filesystem = Deny, network = Deny,
           process = Deny, device = Deny, credential = Use, persistent_approval = False\<rparr>\<rparr>\<rparr>)))"

definition current_role_policy :: "IdentityCatalog \<Rightarrow> ProviderLaunchPlan \<Rightarrow> (StoreError, ScopedPolicy) result" where
  "current_role_policy c p =
     and_then (validate_current_policy p c) (\<lambda>_.
     and_then (validate_online_cli_requirements p) (\<lambda>_.
     and_then (ok_or (find (\<lambda>r. role_id r = plan_role_id p) (roles c)) St_CredentialGrantRejected) (\<lambda>role.
     and_then (ensure (md_lifecycle (role_metadata role) = Active) St_CredentialGrantRejected) (\<lambda>_.
     Ok (role_policy role)))))"

definition validate_request_for_plan ::
  "externals \<Rightarrow> ProviderLaunchPlan \<Rightarrow> ApprovalRequest \<Rightarrow> (StoreError, unit) result" where
  "validate_request_for_plan E p r =
     and_then (approval_action E p) (\<lambda>action. checks
     [ensure (created_at_ms r \<le> expires_at_ms r \<and> expires_at_ms r - created_at_ms r = APPROVAL_TTL_MS)
        St_CredentialGrantRejected,
      map_err St_InvalidApproval (validate_unchanged (encode_request E) (sha256 E) r),
      ensure (req_action r = action) St_CredentialGrantRejected])"

section \<open>Checking a staged run\<close>

definition validate_decision_and_grant_state ::
  "ApprovalRequest \<Rightarrow> StagedLaunchState \<Rightarrow> ApprovalDecision option \<Rightarrow> unit stx" where
  "validate_decision_and_grant_state r state decision =
     tx_bind (tx_get (find_grant (req_id r))) (\<lambda>grant.
     case (state, decision, map_option (\<lambda>g. (g_issued_at_ms g, g_consumed_at_ms g, g_revoked_at_ms g)) grant) of
       (Staged_AwaitingApproval, None, None) \<Rightarrow> tx_return ()
     | (Staged_Ready, Some dec, Some (issued, None, None)) \<Rightarrow>
         tx_then (tx_try St_InvalidApproval (verify_decision r dec))
           (tx_check (dec_kind dec = Decision_Approve \<and> issued = decided_at_ms dec) St_CredentialGrantRejected)
     | _ \<Rightarrow> tx_fail St_CredentialGrantRejected)"

text \<open>\<open>ORDER BY attempt DESC LIMIT 1\<close> over the attempts of a node.\<close>

definition latest_attempt :: "GraphRunId \<Rightarrow> GraphNodeId \<Rightarrow> db \<Rightarrow> node_run_row option" where
  "latest_attempt x n d =
     (case filter (\<lambda>r. nr_execution_id r = x \<and> nr_node_id r = n) (d_node_runs d) of
        [] \<Rightarrow> None
      | r # rs \<Rightarrow> Some (foldl (\<lambda>best q. if nr_attempt best < nr_attempt q then q else best) r rs))"

definition validate_staged_graph :: "externals \<Rightarrow> ProviderLaunchPlan \<Rightarrow> GraphExecution stx" where
  "validate_staged_graph E plan =
     tx_bind (select_graph (plan_execution_id plan)) (\<lambda>(stored_revision, x).
     tx_then (tx_try St_InvalidGraph (execution_validate (sha256 E) x))
    (tx_then (tx_check (stored_revision = exec_revision x) (St_InvalidGraph InvalidExecution))
    (tx_bind (tx_some (find (\<lambda>g. gn_id g = plan_node_id plan) (graph_nodes (exec_graph x))) St_RunNotFound) (\<lambda>definition.
     tx_bind (tx_some (node_execution x (plan_node_id plan)) St_RunNotFound) (\<lambda>node.
     tx_then (tx_check (gn_role_id definition = plan_role_id plan \<and> node_state node = AwaitingApproval \<and>
         node_owner node = Some (plan_owner plan) \<and> node_run_id node = Some (plan_run_id plan))
       (St_InvalidRunState ''staged graph node differs from its launch plan''))
    (tx_bind (tx_get (latest_attempt (plan_execution_id plan) (plan_node_id plan))) (\<lambda>latest.
     tx_then (tx_check (map_option (\<lambda>r. (nr_run_id r, nr_attempt r, nr_finished_at r, nr_terminal_state r, nr_failure r)) latest
         = Some (plan_run_id plan, plan_attempt plan, None, None, None))
       (St_InvalidRunState ''staged run is not the current unfinished attempt''))
    (tx_return x))))))))"

definition validate_staged_context :: "externals \<Rightarrow> Run \<Rightarrow> bool \<Rightarrow> bool \<Rightarrow> unit stx" where
  "validate_staged_context E run validate_decision_state require_live_authority =
     tx_then (tx_check (run_state run = Run_AwaitingApproval \<and> run_started_at run = None \<and> run_finished_at run = None)
       (St_InvalidRunState ''staged run has invalid catalog timing''))
    (tx_bind (tx_get (find_staged_run (run_id run))) (\<lambda>row.
     tx_bind (tx_some row (St_InvalidRunState ''staged launch ledger is unavailable'')) (\<lambda>staged.
     tx_then (tx_check (sg_state staged \<in> {Staged_AwaitingApproval, Staged_Ready} \<and>
         sg_finished_at_ms staged = None \<and> sg_cancel_reason staged = None)
       (St_InvalidRunState ''staged launch ledger is terminal or corrupt''))
    (tx_bind (plan_load E (run_id run)) (\<lambda>plan.
     tx_then (tx_check (plan_run_id plan = run_id run \<and> plan_session_id plan = run_session_id run \<and>
         pli_model_id (plan_identity plan) = run_model_id run)
       (St_InvalidRunState ''staged run differs from its launch plan''))
    (tx_bind load_catalog_row (\<lambda>(_, c).
     tx_bind (tx_some (find_run (run_id run) c) St_RunNotFound) (\<lambda>persisted.
     tx_then (tx_check (persisted = run) (St_InvalidRunState ''staged run differs from the current catalog''))
    (tx_bind (tx_some (find_session (run_session_id run) c) St_RunNotFound) (\<lambda>session.
     tx_then (tx_check (ses_agent_instance_id session = pli_agent_instance_id (plan_identity plan) \<and>
         ses_project_id session = pli_project_id (plan_identity plan))
       (St_InvalidRunState ''staged session differs from its launch identity''))
    (tx_bind (validate_staged_graph E plan) (\<lambda>x.
     tx_bind (tx_get (find_approval (sg_request_id staged))) (\<lambda>approval.
     tx_bind (tx_some approval St_ApprovalNotFound) (\<lambda>a.
     let request = aq_request a in
     tx_then (tx_check (req_id request = sg_request_id staged) St_CredentialGrantRejected)
    (tx_then (tx_try id (validate_request_for_plan E plan request))
    (tx_then (if require_live_authority
       then tx_then (tx_try_panic St_InvalidApproval (validate_against (encode_request E) (sha256 E) request c))
           (tx_then (tx_try id (current_role_policy c plan))
           (tx_bind (tx_get d_m3) (\<lambda>m3.
            tx_bind (tx_try id (resolve_provider_run_binding E c m3 x (plan_node_id plan))) (\<lambda>binding.
            tx_check (prb_launch_identity binding = plan_identity plan \<and>
                prb_workspace_root binding = plan_workspace_root plan \<and> prb_prompt binding = plan_prompt plan)
              (St_InvalidRunState ''current provider selection differs from the staged launch plan'')))))
       else tx_return ())
    (if validate_decision_state then validate_decision_and_grant_state request (sg_state staged) (aq_decision a)
     else tx_return ())))))))))))))))))"

definition validate_staged_run :: "externals \<Rightarrow> Run \<Rightarrow> unit stx" where
  "validate_staged_run E run = validate_staged_context E run True False"

section \<open>Staging a launch\<close>

fun risk_key :: "ApprovalRisk \<Rightarrow> string" where
  "risk_key Low = ''low''" | "risk_key Medium = ''medium''" | "risk_key High = ''high''" | "risk_key Critical = ''critical''"

definition approval_requested :: "ApprovalRequest \<Rightarrow> EventEnvelope stx" where
  "approval_requested r = insert_event ''approval.requested'' (JObject
     [(''request_id'', JKey (req_id r)), (''risk'', JText (risk_key (risk (req_action r))))])"

definition stage :: "externals \<Rightarrow> ProviderLaunchPlan \<Rightarrow> unit stx" where
  "stage E plan =
     tx_bind load_catalog_row (\<lambda>(_, c).
     tx_bind (tx_some (find_run (plan_run_id plan) c) St_RunNotFound) (\<lambda>run.
     tx_bind (tx_try id (approval_action E plan)) (\<lambda>action.
     tx_bind (tx_try id (current_role_policy c plan)) (\<lambda>policy.
     tx_bind now_ms (\<lambda>now.
     tx_bind (tx_some (checked_add now APPROVAL_TTL_MS) St_CredentialGrantRejected) (\<lambda>expires.
     tx_then (tx_check (fits_i64 expires) St_CredentialGrantRejected)
    (tx_bind tx_uuid (\<lambda>u.
     tx_bind (tx_try St_InvalidApproval
       (approval_create (encode_request E) (sha256 E) (StableId u) now expires action policy)) (\<lambda>request.
     tx_then (tx_try_panic St_InvalidApproval (validate_against (encode_request E) (sha256 E) request c))
    (tx_bind timestamp (\<lambda>created_at.
     tx_bind (tx_get (approval_clash request)) (\<lambda>clash.
     tx_then (tx_do [sql_int (expires_at_ms request), tx_check (\<not> clash) St_Database, insert_approval request created_at])
    (tx_bind (tx_get (\<lambda>d. \<exists>s \<in> set (d_staged d). sg_run_id s = plan_run_id plan \<or> sg_request_id s = req_id request)) (\<lambda>taken.
     tx_then (tx_do
       [tx_check (\<not> taken) St_Database,
        tx_put (\<lambda>d. d\<lparr>d_staged := d_staged d @
          [\<lparr>sg_run_id = plan_run_id plan, sg_request_id = req_id request, sg_state = Staged_AwaitingApproval,
            sg_staged_at_ms = now, sg_finished_at_ms = None, sg_cancel_reason = None\<rparr>]\<rparr>),
        validate_staged_context E run False True])
    (tx_then (approval_requested request)
    (tx_then (insert_event ''provider_launch.staged'' (JObject
       [(''execution_id'', JKey (plan_execution_id plan)), (''node_id'', JKey (plan_node_id plan)),
        (''run_id'', JKey (plan_run_id plan)), (''request_id'', JKey (req_id request)),
        (''plan_hash'', JText (plan_hash E plan))]))
    (tx_return ())))))))))))))))))"

section \<open>Cancelling a staged launch\<close>

definition finish_attempt :: "RunId \<Rightarrow> string \<Rightarrow> nat stx" where
  "finish_attempt i finished_at =
     (let P = (\<lambda>r. nr_run_id r = i \<and> nr_finished_at r = None \<and> nr_terminal_state r = None) in
     tx_bind (tx_get (\<lambda>d. length (filter P (d_node_runs d)))) (\<lambda>n.
     tx_then (tx_put (\<lambda>d. d\<lparr>d_node_runs := map (\<lambda>r. if P r then r\<lparr>nr_finished_at := Some finished_at,
        nr_terminal_state := Some Run_Cancelled, nr_failure := None\<rparr> else r) (d_node_runs d)\<rparr>))
     (tx_return n)))"

definition cancel_staged_effects ::
  "externals \<Rightarrow> ApprovalRequestId \<Rightarrow> string \<Rightarrow> u64 \<Rightarrow> u64 \<Rightarrow> IdentityCatalog \<Rightarrow> Run \<Rightarrow> ProviderLaunchPlan \<Rightarrow> GraphExecution \<Rightarrow> unit stx" where
  "cancel_staged_effects E request_id reason finished_at_ms catalog_revision c run0 plan x =
     (let finished_at = decimal (unat finished_at_ms) in
     tx_bind (touch_run finished_at (\<lambda>r. r\<lparr>run_state := Run_Cancelled, run_finished_at := Some finished_at\<rparr>) run0) (\<lambda>run.
     let c' = set_run run c in
     tx_then (tx_try St_InvalidCatalog (catalog_validate c'))
    (tx_bind (tx_get d_m3) (\<lambda>m3.
     tx_bind (load_graph_executions E) (\<lambda>xs.
     tx_then (tx_check (\<exists>y \<in> set xs. exec_id y = exec_id x) St_GraphNotFound)
    (tx_then (tx_try (\<lambda>e. St_InvalidM3 (Text_M3 e)) (m3_validate (sha256 E)
       \<lparr>m3_catalog = m3, graph_executions = update_first (\<lambda>y. exec_id y = exec_id x) (\<lambda>_. x) xs\<rparr> c'))
    (tx_bind (next_revision catalog_revision) (\<lambda>next_catalog.
     tx_then (tx_do [write_catalog next_catalog c' finished_at, write_graph (exec_id x) x finished_at])
    (tx_bind (finish_attempt (run_id run) finished_at) (\<lambda>finished.
     tx_then (tx_check (finished = 1) (St_InvalidRunState ''staged run attempt is already terminal''))
    (tx_bind (update_staged
       (\<lambda>s. sg_request_id s = request_id \<and> sg_state s \<in> {Staged_AwaitingApproval, Staged_Ready})
       (\<lambda>s. s\<lparr>sg_state := Staged_Cancelled, sg_finished_at_ms := Some finished_at_ms, sg_cancel_reason := Some reason\<rparr>)) (\<lambda>cancelled.
     tx_then (tx_check (cancelled = 1) (St_InvalidRunState ''staged launch cancellation lost its ledger claim''))
    (tx_bind (update_grant request_id (\<lambda>g. g\<lparr>g_revoked_at_ms := Some (max (g_issued_at_ms g) finished_at_ms),
       g_revoked_by := Some ''daemon:staged_launch_cancelled''\<rparr>)) (\<lambda>revoked.
     tx_then (if revoked = 1
       then tx_then (insert_event ''credential.grant_revoked'' (JObject [(''request_id'', JKey request_id)])) (tx_return ())
       else tx_return ())
    (tx_then (insert_event ''provider_launch.cancelled'' (JObject
       [(''execution_id'', JKey (exec_id x)), (''node_id'', JKey (plan_node_id plan)),
        (''run_id'', JKey (plan_run_id plan)), (''request_id'', JKey request_id),
        (''catalog_revision'', JNum next_catalog), (''graph_revision'', JNum (exec_revision x))]))
    (tx_return ()))))))))))))))))"

definition cancel_for_request :: "externals \<Rightarrow> ApprovalRequestId \<Rightarrow> string \<Rightarrow> unit stx" where
  "cancel_for_request E request_id reason =
     tx_then (tx_check (\<not> (blank reason \<or> length reason > 200))
       (St_InvalidRunState ''invalid staged launch cancellation reason''))
    (tx_bind (tx_get (find_staged request_id)) (\<lambda>row.
     case row of
       None \<Rightarrow> tx_return ()
     | Some staged \<Rightarrow>
         if sg_state staged = Staged_Cancelled then tx_return ()
         else
           tx_then (tx_check (sg_state staged \<in> {Staged_AwaitingApproval, Staged_Ready})
             (St_InvalidRunState ''invalid staged launch ledger state''))
          (tx_bind load_catalog_row (\<lambda>(catalog_revision, c).
           tx_bind (tx_some (find_run (sg_run_id staged) c) St_RunNotFound) (\<lambda>run.
           tx_then (validate_staged_context E run False False)
          (tx_bind (plan_load E (sg_run_id staged)) (\<lambda>plan.
           tx_bind (select_graph (plan_execution_id plan)) (\<lambda>(graph_revision, x0).
           tx_then (tx_check (graph_revision = exec_revision x0) (St_InvalidGraph InvalidExecution))
          (tx_bind (tx_try St_InvalidGraph (cancel_staged_node (plan_node_id plan) (plan_owner plan) (plan_run_id plan) x0)) (\<lambda>x.
           tx_then (tx_try St_InvalidGraph (execution_validate (sha256 E) x))
          (tx_bind now_ms (\<lambda>now.
           cancel_staged_effects E request_id reason (max now (sg_staged_at_ms staged)) catalog_revision c run plan x))))))))))))"

text \<open>\<open>ORDER BY staged_at_ms, request_id\<close>.\<close>

definition expired_requests :: "u64 \<Rightarrow> db \<Rightarrow> ApprovalRequestId list" where
  "expired_requests now d =
     map sg_request_id (sort_key sg_staged_at_ms (sort_key (\<lambda>s. id_value (sg_request_id s))
       (filter (\<lambda>s. case find_approval (sg_request_id s) d of
            None \<Rightarrow> False
          | Some a \<Rightarrow> aq_expires_at_ms a \<le> now \<and>
              (sg_state s = Staged_AwaitingApproval \<and> aq_decision a = None \<or>
               sg_state s = Staged_Ready \<and> aq_decision a \<noteq> None))
          (d_staged d))))"

definition expire :: "externals \<Rightarrow> u64 \<Rightarrow> unit stx" where
  "expire E now =
     tx_then (tx_check (fits_i64 now) St_CredentialGrantRejected)
    (tx_bind (tx_get (expired_requests now)) (\<lambda>ids.
     tx_each ids (\<lambda>i. cancel_for_request E i ''approval_expired'')))"

section \<open>Deciding a staged launch\<close>

definition on_decision :: "externals \<Rightarrow> ApprovalRequest \<Rightarrow> ApprovalDecisionKind \<Rightarrow> unit stx" where
  "on_decision E request kind =
     tx_bind (tx_get (find_staged (req_id request))) (\<lambda>row.
     case row of
       None \<Rightarrow> tx_return ()
     | Some staged \<Rightarrow>
         tx_then (tx_check (sg_state staged = Staged_AwaitingApproval) St_ApprovalConflict)
        (tx_bind load_catalog_row (\<lambda>(_, c).
         tx_bind (tx_some (find_run (sg_run_id staged) c) St_RunNotFound) (\<lambda>run.
         case kind of
           Decision_Approve \<Rightarrow>
             tx_then (validate_staged_context E run False True)
            (tx_bind (plan_load E (sg_run_id staged)) (\<lambda>plan.
             tx_then (tx_try id (validate_request_for_plan E plan request))
            (tx_bind (update_staged
               (\<lambda>s. sg_request_id s = req_id request \<and> sg_state s = Staged_AwaitingApproval)
               (\<lambda>s. s\<lparr>sg_state := Staged_Ready\<rparr>)) (\<lambda>updated.
             tx_then (tx_check (updated = 1) St_ApprovalConflict)
            (tx_then (insert_event ''provider_launch.ready'' (JObject
               [(''run_id'', JKey (sg_run_id staged)), (''request_id'', JKey (req_id request))]))
            (tx_return ()))))))
         | Decision_Deny \<Rightarrow>
             tx_bind (plan_load E (sg_run_id staged)) (\<lambda>plan.
             tx_then (tx_try id (validate_request_for_plan E plan request))
            (cancel_for_request E (req_id request) ''approval_denied''))))))"

end
