(* ===== verification/Store_Approval.thy ===== *)
theory Store_Approval
  imports Store_Staged
begin

text \<open>
  Approval decisions, credential grants and dispatch claims in the daemon's store: the approval
  requests of \<open>crates/bastet-daemon/src/lib.rs\<close>, the single-use grants of \<open>credential_grants.rs\<close>
  and the broker boundary of \<open>credential_dispatch.rs\<close>, where a grant is consumed in the same
  transaction that turns a ready launch into a dispatching one, before the native credential
  store is read. The native store is third-party code: a reader is two functions of a selection.
\<close>

record RevokeCredentialGrantCommand =
  rvk_actor :: string

section \<open>Grants\<close>

definition validate_time :: "ApprovalRequest \<Rightarrow> u64 \<Rightarrow> (StoreError, unit) result" where
  "validate_time r now =
     ensure (\<not> (now < created_at_ms r \<or> expires_at_ms r \<le> now \<or> \<not> fits_i64 (expires_at_ms r)))
       St_CredentialGrantRejected"

text \<open>A staged run waits for its own request; a run without a ledger row is starting.\<close>

definition awaiting_launch :: "ApprovalRequest \<Rightarrow> staged_row option \<Rightarrow> bool" where
  "awaiting_launch r staged \<longleftrightarrow> (case staged of None \<Rightarrow> False
     | Some s \<Rightarrow> sg_request_id s = req_id r \<and> sg_state s \<in> {Staged_AwaitingApproval, Staged_Ready})"

definition run_may_authenticate :: "ApprovalRequest \<Rightarrow> staged_row option \<Rightarrow> Run \<Rightarrow> bool" where
  "run_may_authenticate r staged run \<longleftrightarrow>
     run_finished_at run = None \<and>
     (if staged \<noteq> None
      then awaiting_launch r staged \<and> run_state run = Run_AwaitingApproval \<and> run_started_at run = None
      else run_state run = Run_Starting)"

definition role_assignments :: "ApprovalRequest \<Rightarrow> M3Catalog \<Rightarrow> PetAssignment list" where
  "role_assignments r m = filter (\<lambda>a. md_lifecycle (pa_metadata a) = Active \<and>
     pa_project_id a = scope_project_id (scope (req_action r)) \<and>
     pa_agent_instance_id a = act_agent_instance_id (req_action r)) (pet_assignments (m3_office m))"

text \<open>The part of \<open>validate_current_catalog\<close> for a run that is an attempt of a graph node.\<close>

definition validate_bound_attempt ::
  "externals \<Rightarrow> ApprovalRequest \<Rightarrow> IdentityCatalog \<Rightarrow> M3Catalog \<Rightarrow> Run \<Rightarrow> RoleId \<Rightarrow> bool \<Rightarrow> node_run_row \<Rightarrow> unit stx" where
  "validate_bound_attempt E r c m run role awaiting row =
     tx_then (tx_check (nr_finished_at row = None) St_CredentialGrantRejected)
    (tx_bind (tx_get (graph_row_at (nr_execution_id row))) (\<lambda>graph_row.
     tx_bind (tx_some (map_option gr_execution graph_row) St_Database) (\<lambda>graph.
     tx_then (tx_try St_InvalidGraph (execution_validate (sha256 E) graph))
    (tx_bind (tx_some (find (\<lambda>g. gn_id g = nr_node_id row) (graph_nodes (exec_graph graph)))
       St_CredentialGrantRejected) (\<lambda>definition.
     tx_bind (tx_some (node_execution graph (gn_id definition)) St_CredentialGrantRejected) (\<lambda>current.
     tx_then (tx_check (gn_role_id definition = role \<and> node_run_id current = Some (run_id run) \<and>
         node_state current = (if awaiting then AwaitingApproval else Running)) St_CredentialGrantRejected)
    (tx_bind (load_launch_identity (run_id run)) (\<lambda>loaded.
     tx_bind (tx_some loaded St_CredentialGrantRejected) (\<lambda>selected.
     tx_bind (tx_try id (resolve_provider_run_binding E c m graph (gn_id definition))) (\<lambda>binding.
     tx_bind (plan_load E (run_id run)) (\<lambda>plan.
     tx_then (tx_try id (validate_current_policy plan c))
    (tx_check (selected = prb_launch_identity binding \<and> plan_identity plan = selected \<and>
         plan_execution_id plan = exec_id graph \<and> plan_node_id plan = gn_id definition \<and>
         plan_role_id plan = role \<and> plan_session_id plan = run_session_id run \<and>
         node_owner current = Some (plan_owner plan) \<and>
         plan_workspace_root plan = prb_workspace_root binding \<and> plan_prompt plan = prb_prompt binding \<and>
         pli_agent_instance_id selected = act_agent_instance_id (req_action r) \<and>
         pli_project_id selected = scope_project_id (scope (req_action r)) \<and>
         pli_model_id selected = run_model_id run) St_CredentialGrantRejected))))))))))))"

definition validate_current_catalog :: "externals \<Rightarrow> ApprovalRequest \<Rightarrow> unit stx" where
  "validate_current_catalog E r =
     tx_bind load_catalog_row (\<lambda>(_, c).
     tx_then (tx_try_panic St_InvalidApproval (validate_against (encode_request E) (sha256 E) r c))
    (tx_bind (tx_some (find (\<lambda>run. Some (run_id run) = scope_run_id (scope (req_action r))) (runs c))
       St_CredentialGrantRejected) (\<lambda>run.
     tx_bind (tx_get (find_staged_run (run_id run))) (\<lambda>staged.
     tx_then (tx_check (run_may_authenticate r staged run) St_CredentialGrantRejected)
    (tx_bind (tx_some (act_role_id (req_action r)) St_CredentialGrantRejected) (\<lambda>role.
     tx_bind (tx_get d_m3) (\<lambda>m.
     tx_then (validate_m3_catalog E m c)
    (tx_then (tx_check (\<exists>a \<in> set (role_assignments r m). pa_role_id a = role) St_CredentialGrantRejected)
    (tx_bind (tx_get (find_node_run (run_id run))) (\<lambda>graph_row.
     case graph_row of
       Some row \<Rightarrow> validate_bound_attempt E r c m run role (awaiting_launch r staged) row
     | None \<Rightarrow> tx_check (length (role_assignments r m) = 1) St_CredentialGrantRejected))))))))))"

text \<open>The request is the primary key of the table and refers to a row that was just read.\<close>

definition issue :: "ApprovalRequest \<Rightarrow> ApprovalDecision \<Rightarrow> unit stx" where
  "issue r dec =
     tx_bind (tx_get (\<lambda>d. req_id r \<in> g_request_id ` set (d_grants d))) (\<lambda>taken.
     tx_then (tx_do
       [sql_int (decided_at_ms dec),
        tx_check (\<not> taken) St_Database,
        tx_put (\<lambda>d. d\<lparr>d_grants := d_grants d @
          [\<lparr>g_request_id = req_id r, g_issued_at_ms = decided_at_ms dec, g_consumed_at_ms = None,
            g_revoked_at_ms = None, g_revoked_by = None\<rparr>]\<rparr>)])
    (tx_then (insert_event ''credential.grant_issued'' (JObject
       [(''request_id'', JKey (req_id r)),
        (''run_id'', case scope_run_id (scope (req_action r)) of None \<Rightarrow> JNull | Some i \<Rightarrow> JKey i)]))
    (tx_return ())))"

definition grant_load :: "externals \<Rightarrow> ApprovalRequestId \<Rightarrow> CredentialGrantRecord stx" where
  "grant_load E i =
     tx_bind (tx_get (\<lambda>d. (find_grant i d, find_approval i d))) (\<lambda>(grant, approval).
     tx_bind (tx_some grant St_CredentialGrantNotFound) (\<lambda>g.
     tx_bind (tx_some approval St_CredentialGrantNotFound) (\<lambda>a.
     tx_bind (tx_some (aq_decision a) St_CredentialGrantRejected) (\<lambda>dec.
     let r = aq_request a in
     tx_then (tx_try St_InvalidApproval (validate_unchanged (encode_request E) (sha256 E) r))
    (tx_then (tx_try St_InvalidApproval (verify_decision r dec))
    (tx_then (tx_check (req_id r = i \<and> dec_kind dec = Decision_Approve \<and>
         credential_binding (scope (req_action r)) \<noteq> None \<and> g_issued_at_ms g = decided_at_ms dec)
       St_CredentialGrantRejected)
    (tx_return \<lparr>cgr_protocol_version = PROTOCOL_VERSION, cgr_request = r, cgr_decision = dec,
       cgr_issued_at_ms = g_issued_at_ms g, cgr_consumed_at_ms = g_consumed_at_ms g,
       cgr_revoked_at_ms = g_revoked_at_ms g, cgr_revoked_by = g_revoked_by g\<rparr>)))))))"

definition credential_grant :: "externals \<Rightarrow> ApprovalRequestId \<Rightarrow> CredentialGrantRecord stx" where
  "credential_grant E i = tx_then connection (grant_load E i)"

text \<open>Neither consumed nor revoked at the time.\<close>

definition grant_is_open :: "CredentialGrantRecord \<Rightarrow> u64 \<Rightarrow> bool" where
  "grant_is_open record now \<longleftrightarrow>
     \<not> now < cgr_issued_at_ms record \<and> cgr_consumed_at_ms record = None \<and> cgr_revoked_at_ms record = None"

definition consume_credential_grant ::
  "externals \<Rightarrow> ApprovalRequestId \<Rightarrow> ApprovalAction \<Rightarrow> CredentialGrantRecord stx" where
  "consume_credential_grant E i action =
     tx_then connection
    (tx_bind (grant_load E i) (\<lambda>record.
     tx_bind (tx_get (find_staged i)) (\<lambda>staged.
     tx_then (tx_check (staged = None) St_CredentialGrantRejected)
    (tx_bind now_ms (\<lambda>now.
     tx_then (tx_try id (validate_time (cgr_request record) now))
    (tx_then (tx_check (req_action (cgr_request record) = action \<and> grant_is_open record now) St_CredentialGrantRejected)
    (tx_bind (tx_get d_lifecycle) (\<lambda>lifecycle.
     tx_then (tx_check (lifecycle = ''ready'') St_CredentialGrantRejected)
    (tx_then (validate_current_catalog E (cgr_request record))
    (tx_bind (update_grant i (\<lambda>g. g\<lparr>g_consumed_at_ms := Some now\<rparr>)) (\<lambda>changed.
     tx_then (tx_check (changed = 1) St_CredentialGrantRejected)
    (tx_then (insert_event ''credential.grant_consumed'' (JObject
       [(''request_id'', JKey i),
        (''run_id'', case scope_run_id (scope action) of None \<Rightarrow> JNull | Some j \<Rightarrow> JKey j)]))
    (tx_return (record\<lparr>cgr_consumed_at_ms := Some now\<rparr>))))))))))))))"

definition revoke_credential_grant ::
  "externals \<Rightarrow> ApprovalRequestId \<Rightarrow> RevokeCredentialGrantCommand \<Rightarrow> CredentialGrantRecord stx" where
  "revoke_credential_grant E i command =
     tx_then (tx_check (\<not> (blank (rvk_actor command) \<or> length (rvk_actor command) > 200)) St_CredentialGrantRejected)
    (tx_then connection
    (tx_bind (grant_load E i) (\<lambda>record.
     tx_bind now_ms (\<lambda>now.
     tx_then (tx_try id (validate_time (cgr_request record) now))
    (tx_then (tx_check (grant_is_open record now) St_CredentialGrantRejected)
    (tx_bind (update_grant i (\<lambda>g. g\<lparr>g_revoked_at_ms := Some now, g_revoked_by := Some (rvk_actor command)\<rparr>)) (\<lambda>changed.
     tx_then (tx_check (changed = 1) St_CredentialGrantRejected)
    (tx_then (cancel_for_request E i ''revoked'')
    (tx_then (insert_event ''credential.grant_revoked'' (JObject [(''request_id'', JKey i)]))
    (tx_return (record\<lparr>cgr_revoked_at_ms := Some now, cgr_revoked_by := Some (rvk_actor command)\<rparr>)))))))))))"

section \<open>Approvals\<close>

text \<open>\<open>INSERT OR IGNORE\<close> reports a clash of the identifier or of the digest as zero rows.\<close>

definition create_approval :: "externals \<Rightarrow> ApprovalRequest \<Rightarrow> ApprovalReceipt stx" where
  "create_approval E r =
     tx_then connection
    (tx_bind load_catalog_row (\<lambda>(_, c).
     tx_then (tx_try_panic St_InvalidApproval (validate_against (encode_request E) (sha256 E) r c))
    (tx_then (if credential_binding (scope (req_action r)) \<noteq> None
       then tx_bind now_ms (\<lambda>now. tx_then (tx_try id (validate_time r now)) (validate_current_catalog E r))
       else tx_return ())
    (tx_bind timestamp (\<lambda>created_at.
     tx_bind (tx_get (approval_clash r)) (\<lambda>clash.
     tx_then (tx_do
       [sql_int (expires_at_ms r),
        tx_check (\<not> clash) St_ApprovalConflict,
        insert_approval r created_at])
    (tx_bind (approval_requested r) (\<lambda>event.
     tx_return \<lparr>arc_protocol_version = PROTOCOL_VERSION, arc_request_id = req_id r,
       arc_event_sequence = ev_sequence event\<rparr>))))))))"

definition set_decision :: "ApprovalDecision \<Rightarrow> string \<Rightarrow> nat stx" where
  "set_decision dec decided_at =
     (let P = (\<lambda>a. aq_request_id a = dec_request_id dec \<and> aq_decision a = None) in
     tx_bind (tx_get (\<lambda>d. length (filter P (d_approvals d)))) (\<lambda>n.
     tx_then (tx_put (\<lambda>d. d\<lparr>d_approvals := map (\<lambda>a. if P a
        then a\<lparr>aq_decision := Some dec, aq_decided_at := Some decided_at\<rparr> else a) (d_approvals d)\<rparr>))
     (tx_return n)))"

text \<open>For a credential the daemon puts its own reading of the clock into the decision.\<close>

definition timed_decision :: "externals \<Rightarrow> ApprovalRequest \<Rightarrow> DecideApprovalCommand \<Rightarrow> ApprovalDecision stx" where
  "timed_decision E r command =
     (let dec = dac_decision command in
      if credential_binding (scope (req_action r)) = None then tx_return dec
      else
        tx_then (tx_check (\<not> (dec_kind dec = Decision_Approve \<and> \<not> dac_credential_scope_acknowledged command))
          St_CredentialGrantRejected)
       (tx_bind now_ms (\<lambda>now.
        tx_then (tx_try id (validate_time r now))
       (tx_then (if dec_kind dec = Decision_Approve then validate_current_catalog E r else tx_return ())
       (tx_return (dec\<lparr>decided_at_ms := now\<rparr>))))))"

definition decide_approval :: "externals \<Rightarrow> DecideApprovalCommand \<Rightarrow> ApprovalReceipt stx" where
  "decide_approval E command =
     tx_then connection
    (tx_bind (tx_get (find_approval (dec_request_id (dac_decision command)))) (\<lambda>row.
     tx_bind (tx_some row St_ApprovalNotFound) (\<lambda>a.
     tx_then (tx_check (aq_decision a = None) St_ApprovalConflict)
    (let r = aq_request a in
     tx_then (tx_try St_InvalidApproval (validate_unchanged (encode_request E) (sha256 E) r))
    (tx_bind (timed_decision E r command) (\<lambda>dec.
     tx_then (tx_try St_InvalidApproval (verify_decision r dec))
    (tx_bind timestamp (\<lambda>decided_at.
     tx_bind (set_decision dec decided_at) (\<lambda>updated.
     tx_then (tx_check (updated = 1) St_ApprovalConflict)
    (tx_then (if credential_binding (scope (req_action r)) \<noteq> None \<and> dec_kind dec = Decision_Approve
       then issue r dec else tx_return ())
    (tx_then (on_decision E r (dec_kind dec))
    (tx_bind (insert_event (case dec_kind dec of Decision_Approve \<Rightarrow> ''approval.approved'' | Decision_Deny \<Rightarrow> ''approval.denied'')
       (JObject [(''request_id'', JKey (dec_request_id dec)), (''actor'', JText (actor dec))])) (\<lambda>event.
     tx_return \<lparr>arc_protocol_version = PROTOCOL_VERSION, arc_request_id = dec_request_id dec,
       arc_event_sequence = ev_sequence event\<rparr>)))))))))))))"

section \<open>Expiry before reading\<close>

definition expire_staged_launches :: "externals \<Rightarrow> unit stx" where
  "expire_staged_launches E = tx_then connection (tx_bind now_ms (expire E))"

definition approval_record :: "db \<Rightarrow> approval_row \<Rightarrow> ApprovalRecord" where
  "approval_record d a = \<lparr>apr_protocol_version = PROTOCOL_VERSION, apr_request = aq_request a,
     apr_decision = aq_decision a,
     apr_staged_launch_state = map_option sg_state (find_staged (aq_request_id a) d)\<rparr>"

definition read_approval :: "ApprovalRequestId \<Rightarrow> ApprovalRecord stx" where
  "read_approval i = tx_then connection
     (tx_bind (tx_get (\<lambda>d. map_option (approval_record d) (find_approval i d))) (\<lambda>r.
      tx_some r St_ApprovalNotFound))"

text \<open>\<open>ORDER BY rowid DESC\<close>: the newest first.\<close>

definition read_approvals :: "ApprovalRecord list stx" where
  "read_approvals = tx_then connection
     (tx_get (\<lambda>d. map (approval_record d) (rev (d_approvals d))))"

text \<open>These requests take the mutex twice, each time for a transaction of its own.\<close>

definition approval ::
  "externals \<Rightarrow> ApprovalRequestId \<Rightarrow> (nat \<Rightarrow> nat) \<Rightarrow> (nat \<Rightarrow> uuid) \<Rightarrow> db store \<Rightarrow>
   (StoreError fault + ApprovalRecord) \<times> db store" where
  "approval E i ts ids = call_then (call (expire_staged_launches E) ts ids) (\<lambda>_. call (read_approval i) ts ids)"

definition approvals ::
  "externals \<Rightarrow> (nat \<Rightarrow> nat) \<Rightarrow> (nat \<Rightarrow> uuid) \<Rightarrow> db store \<Rightarrow>
   (StoreError fault + ApprovalRecord list) \<times> db store" where
  "approvals E ts ids = call_then (call (expire_staged_launches E) ts ids) (\<lambda>_. call read_approvals ts ids)"

text \<open>The second transaction draws from streams of its own.\<close>

definition mark_ready ::
  "externals \<Rightarrow> (nat \<Rightarrow> nat) \<Rightarrow> (nat \<Rightarrow> uuid) \<Rightarrow> (nat \<Rightarrow> nat) \<Rightarrow> (nat \<Rightarrow> uuid) \<Rightarrow> db store \<Rightarrow>
   (StoreError fault + EventEnvelope) \<times> db store" where
  "mark_ready E ts ids ts2 ids2 = call_then (call (expire_staged_launches E) ts ids)
     (\<lambda>_. call (transition Daemon_Ready ''daemon.ready'' (JObject [])) ts2 ids2)"

definition cancel_staged_run :: "externals \<Rightarrow> RunId \<Rightarrow> u64 \<Rightarrow> CancelRunReceipt option stx" where
  "cancel_staged_run E i expected =
     tx_then connection
    (tx_bind (tx_get (\<lambda>d. find (\<lambda>s. sg_run_id s = i \<and> sg_state s \<in> {Staged_AwaitingApproval, Staged_Ready}) (d_staged d))) (\<lambda>row.
     case row of
       None \<Rightarrow> tx_return None
     | Some s \<Rightarrow>
         tx_bind (tx_get d_catalog_revision) (\<lambda>actual.
         tx_then (check_revision expected actual)
        (tx_then (cancel_for_request E (sg_request_id s) ''cancelled'')
        (tx_bind (tx_get d_catalog_revision) (\<lambda>revision.
         tx_bind (insert_event ''run.staged_cancelled'' (JObject [(''run_id'', JKey i)])) (\<lambda>event.
         tx_return (Some \<lparr>cr_protocol_version = PROTOCOL_VERSION, cr_run_id = i,
           cr_catalog_revision = revision, cr_event_sequence = ev_sequence event\<rparr>))))))))"

section \<open>Dispatch claims\<close>

record 's reader =
  reader_validate :: "ProviderCredentialSelection \<Rightarrow> bool"
  reader_read :: "ProviderCredentialSelection \<Rightarrow> 's option"

record DispatchClaim =
  dc_receipt :: BeginGraphNodeRunReceipt
  dc_selection :: ProviderCredentialSelection

record 's PreparedLaunch =
  prl_receipt :: BeginGraphNodeRunReceipt
  prl_credential :: 's

datatype BrokerError = Br_Authorization | Br_Credential | Br_Recovery

definition insert_claim :: "RunId \<Rightarrow> ApprovalRequestId \<Rightarrow> u64 \<Rightarrow> unit stx" where
  "insert_claim run request now =
     tx_bind (tx_get (\<lambda>d. \<exists>k \<in> set (d_claims d). cl_run_id k = run \<or> cl_request_id k = request)) (\<lambda>clash. tx_do
     [tx_check (\<not> clash) St_Database,
      tx_put (\<lambda>d. d\<lparr>d_claims := d_claims d @
        [\<lparr>cl_run_id = run, cl_request_id = request, cl_claimed_at_ms = now\<rparr>]\<rparr>)])"

text \<open>What the claim checks before it changes anything: the grant, its run and the launch plan.\<close>

definition authorize_dispatch ::
  "externals \<Rightarrow> 's reader \<Rightarrow> ApprovalRequestId \<Rightarrow>
   (u64 \<times> u64 \<times> IdentityCatalog \<times> Run \<times> ProviderLaunchPlan \<times> ProviderCredentialSelection) stx" where
  "authorize_dispatch E reader i =
     tx_bind (tx_get d_lifecycle) (\<lambda>lifecycle.
     tx_then (tx_check (lifecycle = ''ready'') St_CredentialGrantRejected)
    (tx_bind (grant_load E i) (\<lambda>record.
     tx_bind now_ms (\<lambda>now.
     tx_then (tx_try id (validate_time (cgr_request record) now))
    (tx_then (tx_check (grant_is_open record now) St_CredentialGrantRejected)
    (tx_bind (tx_some (scope_run_id (scope (req_action (cgr_request record)))) St_CredentialGrantRejected) (\<lambda>run_id'.
     tx_bind (tx_get (\<lambda>d. map_option sg_state (find (\<lambda>s. sg_request_id s = i \<and> sg_run_id s = run_id') (d_staged d)))) (\<lambda>state.
     tx_then (tx_check (state = Some Staged_Ready) St_CredentialGrantRejected)
    (tx_bind (tx_get (\<lambda>d. (d_catalog_revision d, d_catalog d))) (\<lambda>(revision, c).
     tx_bind (tx_some (find_run run_id' c) St_RunNotFound) (\<lambda>run.
     tx_then (validate_staged_run E run)
    (tx_then (validate_current_catalog E (cgr_request record))
    (tx_bind (plan_load E run_id') (\<lambda>plan.
     tx_then (tx_try id (validate_online_cli_requirements plan))
    (tx_bind (tx_some (Option.bind (pli_account (plan_identity plan)) pas_credential) St_CredentialGrantRejected) (\<lambda>selection.
     tx_then (tx_check (reader_validate reader selection) St_CredentialGrantRejected)
    (tx_return (now, revision, c, run, plan, selection))))))))))))))))))"

definition claim_staged_dispatch :: "externals \<Rightarrow> 's reader \<Rightarrow> ApprovalRequestId \<Rightarrow> DispatchClaim stx" where
  "claim_staged_dispatch E reader i =
     tx_then connection
    (tx_bind (authorize_dispatch E reader i) (\<lambda>(now, catalog_revision, c, run0, plan, selection).
     tx_bind (tx_get (graph_row_at (plan_execution_id plan))) (\<lambda>row.
     tx_bind (tx_some (map_option gr_execution row) St_Database) (\<lambda>x0.
     tx_bind (tx_try St_InvalidGraph (activate_staged_node (plan_node_id plan) (plan_owner plan) (run_id run0) x0)) (\<lambda>x.
     tx_then (tx_try St_InvalidGraph (execution_validate (sha256 E) x))
    (let started_at = decimal (unat now) in
     tx_bind (touch_run started_at (\<lambda>r. r\<lparr>run_state := Run_Starting, run_started_at := Some started_at\<rparr>) run0) (\<lambda>run.
     let c' = set_run run c in
     tx_then (tx_try St_InvalidCatalog (catalog_validate c'))
    (tx_bind (next_revision catalog_revision) (\<lambda>revision.
     tx_bind (update_grant i (\<lambda>g. g\<lparr>g_consumed_at_ms := Some now\<rparr>)) (\<lambda>consumed.
     tx_then (tx_check (consumed = 1) St_CredentialGrantRejected)
    (tx_bind (update_staged (\<lambda>s. sg_request_id s = i \<and> sg_state s = Staged_Ready)
       (\<lambda>s. s\<lparr>sg_state := Staged_Dispatching\<rparr>)) (\<lambda>dispatching.
     tx_then (tx_check (dispatching = 1) St_CredentialGrantRejected)
    (tx_then (tx_do
       [insert_claim (run_id run) i now,
        write_catalog revision c' started_at,
        write_graph (plan_execution_id plan) x started_at])
    (tx_then (insert_event ''credential.grant_consumed'' (JObject [(''request_id'', JKey i), (''run_id'', JKey (run_id run))]))
    (tx_bind (insert_event ''provider_launch.dispatch_claimed'' (JObject [(''request_id'', JKey i), (''run_id'', JKey (run_id run))])) (\<lambda>event.
     tx_return \<lparr>dc_receipt =
         \<lparr>bgr_protocol_version = PROTOCOL_VERSION, bgr_execution_id = plan_execution_id plan,
          bgr_node_id = plan_node_id plan, bgr_session_id = plan_session_id plan, bgr_run_id = run_id run,
          bgr_launch_identity = Some (plan_identity plan),
          bgr_adapter_kind = pli_adapter_kind (plan_identity plan), bgr_model = pli_model (plan_identity plan),
          bgr_workspace_root = plan_workspace_root plan, bgr_prompt = plan_prompt plan,
          bgr_catalog_revision = revision, bgr_graph_revision = exec_revision x,
          bgr_event_sequence = ev_sequence event\<rparr>,
       dc_selection = selection\<rparr>))))))))))))))))"

definition fail_dispatch_claim :: "externals \<Rightarrow> RunId \<Rightarrow> unit stx" where
  "fail_dispatch_claim E i =
     tx_then connection
    (tx_bind (plan_load E i) (\<lambda>plan.
     tx_bind (tx_get (\<lambda>d. (d_catalog_revision d, d_catalog d))) (\<lambda>(catalog_revision, c).
     tx_bind (tx_some (find_run i c) St_RunNotFound) (\<lambda>run0.
     tx_then (tx_check (run_state run0 = Run_Starting) St_CredentialGrantRejected)
    (tx_bind (tx_get (graph_row_at (plan_execution_id plan))) (\<lambda>row.
     tx_bind (tx_some (map_option gr_execution row) St_Database) (\<lambda>x0.
     tx_then (tx_check (Option.bind (node_execution x0 (plan_node_id plan)) node_run_id = Some i) St_CredentialGrantRejected)
    (tx_bind (tx_try St_InvalidGraph (finish_terminal (plan_node_id plan) (plan_owner plan) Uncertain None x0)) (\<lambda>x.
     tx_bind (next_revision (md_revision (run_metadata run0))) (\<lambda>run_revision.
     tx_bind timestamp (\<lambda>touched_at.
     let run = run0\<lparr>run_state := Run_Uncertain, run_metadata := (run_metadata run0)
           \<lparr>md_revision := run_revision, md_updated_at := touched_at\<rparr>\<rparr>;
         c' = set_run run c in
     tx_then (tx_try St_InvalidCatalog (catalog_validate c'))
    (tx_bind (update_staged (\<lambda>s. sg_run_id s = i \<and> sg_state s = Staged_Dispatching)
       (\<lambda>s. s\<lparr>sg_state := Staged_Uncertain\<rparr>)) (\<lambda>changed.
     tx_then (tx_check (changed = 1) St_CredentialGrantRejected)
    (tx_bind (next_revision catalog_revision) (\<lambda>revision.
     tx_bind timestamp (\<lambda>catalog_at.
     tx_then (write_catalog revision c' catalog_at)
    (tx_bind timestamp (\<lambda>graph_at.
     tx_then (write_graph (plan_execution_id plan) x graph_at)
    (tx_then (insert_event ''provider_launch.credential_lookup_failed'' (JObject [(''run_id'', JKey i)]))
    (tx_return ()))))))))))))))))))))"

text \<open>
  \<open>prepare_staged_credentials\<close>: the claim commits and the mutex is released before the native
  store is read, and a failed read settles the claim in a second transaction.
\<close>

definition prepare_staged_credentials ::
  "externals \<Rightarrow> 's reader \<Rightarrow> ApprovalRequestId \<Rightarrow> (nat \<Rightarrow> nat) \<Rightarrow> (nat \<Rightarrow> uuid) \<Rightarrow> (nat \<Rightarrow> nat) \<Rightarrow> (nat \<Rightarrow> uuid) \<Rightarrow> db store \<Rightarrow>
   (BrokerError fault + 's PreparedLaunch) \<times> db store" where
  "prepare_staged_credentials E reader i ts ids ts2 ids2 s =
     (case call (claim_staged_dispatch E reader i) ts ids s of
        (Inl e, t) \<Rightarrow> (Inl (fault_map (\<lambda>_. Br_Authorization) e), t)
      | (Inr claim, t) \<Rightarrow>
          (case reader_read reader (dc_selection claim) of
             Some secret \<Rightarrow> (Inr \<lparr>prl_receipt = dc_receipt claim, prl_credential = secret\<rparr>, t)
           | None \<Rightarrow>
               (case call (fail_dispatch_claim E (bgr_run_id (dc_receipt claim))) ts2 ids2 t of
                  (Inl e, u) \<Rightarrow> (Inl (fault_map (\<lambda>_. Br_Recovery) e), u)
                | (Inr _, u) \<Rightarrow> (Inl (Returned Br_Credential), u))))"

definition dispatch_reconcile :: "unit stx" where
  "dispatch_reconcile =
     tx_bind (update_staged (\<lambda>s. sg_state s = Staged_Dispatching) (\<lambda>s. s\<lparr>sg_state := Staged_Uncertain\<rparr>)) (\<lambda>changed.
     if changed > 0
     then tx_then (insert_event ''provider_launch.claims_marked_uncertain'' (JObject [(''count'', JNum (of_nat changed))]))
       (tx_return ())
     else tx_return ())"

end
