(* ===== verification/Store_Run.thy ===== *)
theory Store_Run
  imports Store_Approval
begin

text \<open>
  Runs of graph nodes and recovery in the daemon's store (\<open>crates/bastet-daemon/src/lib.rs\<close>):
  beginning a node's run with its session, attempt row and launch plan, finishing it with its
  cost record and output, opening a database that a daemon left behind, and the two routes that
  combine several requests.
\<close>

section \<open>Beginning a run\<close>

definition next_attempt :: "GraphRunId \<Rightarrow> GraphNodeId \<Rightarrow> db \<Rightarrow> nat" where
  "next_attempt x n d = Suc (fold max (map (\<lambda>r. unat (nr_attempt r))
     (filter (\<lambda>r. nr_execution_id r = x \<and> nr_node_id r = n) (d_node_runs d))) 0)"

definition insert_node_run :: "node_run_row \<Rightarrow> unit stx" where
  "insert_node_run row =
     tx_bind (tx_get (\<lambda>d. \<exists>r \<in> set (d_node_runs d). nr_run_id r = nr_run_id row \<or>
        nr_execution_id r = nr_execution_id row \<and> nr_node_id r = nr_node_id row \<and> nr_attempt r = nr_attempt row)) (\<lambda>clash. tx_do
     [tx_check (\<not> clash) St_Database,
      tx_put (\<lambda>d. d\<lparr>d_node_runs := d_node_runs d @ [row]\<rparr>)])"

text \<open>Runs of a provider with a selected account are staged instead of claimed.\<close>

definition take_node :: "bool \<Rightarrow> GraphNodeId \<Rightarrow> string \<Rightarrow> RunId \<Rightarrow> GraphExecution \<Rightarrow> (GraphError, GraphExecution) result" where
  "take_node staged n owner i x =
     (if staged then stage_node n owner i x
      else and_then (claim_node n owner x) (bind_run n owner i))"

text \<open>The session and the run a node's run adds to the catalog.\<close>

definition add_run ::
  "bool \<Rightarrow> ProviderRunBinding \<Rightarrow> SessionId \<Rightarrow> RunId \<Rightarrow> IdentityCatalog \<Rightarrow> IdentityCatalog stx" where
  "add_run staged binding session i c =
     tx_bind (entity_metadata session ''graph_node_run'') (\<lambda>session_md.
     tx_bind (entity_metadata i ''graph_node_run'') (\<lambda>run_md.
     tx_bind (if staged then tx_return None else tx_bind timestamp (\<lambda>now. tx_return (Some now))) (\<lambda>started.
     let c' = c\<lparr>sessions := sessions c @ [\<lparr>ses_metadata = session_md,
             ses_agent_instance_id = prb_agent_instance_id binding, ses_project_id = prb_project_id binding,
             ses_provider_session_id = None\<rparr>],
           runs := runs c @ [\<lparr>run_metadata = run_md, run_session_id = session, run_model_id = prb_model_id binding,
             run_state = (if staged then Run_AwaitingApproval else Run_Starting), run_started_at = started,
             run_finished_at = None\<rparr>]\<rparr>
     in tx_then (tx_try St_InvalidCatalog (catalog_validate c')) (tx_return c'))))"

definition begin_graph_node_run_inner ::
  "externals \<Rightarrow> GraphRunId \<Rightarrow> BeginGraphNodeRunCommand \<Rightarrow> ProviderRunBinding option \<Rightarrow> BeginGraphNodeRunReceipt stx" where
  "begin_graph_node_run_inner E i command expected_binding =
     (let n = bg_node_id command in
     tx_then connection
    (tx_bind (tx_get d_lifecycle) (\<lambda>lifecycle.
     tx_then (tx_check (expected_binding \<noteq> None \<longrightarrow> lifecycle = ''ready'') (St_InvalidLifecycle ''ready'' lifecycle))
    (tx_bind (tx_get (\<lambda>d. (d_catalog_revision d, d_catalog d, d_m3 d))) (\<lambda>(catalog_revision, identity, m3).
     tx_then (check_revision (bg_expected_catalog_revision command) catalog_revision)
    (tx_bind (select_graph i) (\<lambda>(graph_revision, x0).
     tx_then (check_revision (bg_expected_graph_revision command) graph_revision)
    (tx_then (decode_execution E x0)
    (tx_bind (tx_try id (resolve_provider_run_binding E identity m3 x0 n)) (\<lambda>binding.
     tx_then (tx_check (case expected_binding of Some e \<Rightarrow> e = binding | None \<Rightarrow> True)
       (St_InvalidRunState ''provider launch inputs changed''))
    (let staged = (expected_binding \<noteq> None \<and> pli_account (prb_launch_identity binding) \<noteq> None) in
     tx_bind tx_uuid (\<lambda>su.
     tx_bind tx_uuid (\<lambda>ru.
     let session = StableId su; run = StableId ru in
     tx_bind (tx_try St_InvalidGraph (take_node staged n (bg_owner command) run x0)) (\<lambda>x.
     tx_bind (tx_get (next_attempt i n)) (\<lambda>attempt.
     tx_then (tx_check (nat_fits_i64 attempt) St_Database)
    (tx_bind (add_run staged binding session run identity) (\<lambda>identity'.
     tx_bind (next_revision catalog_revision) (\<lambda>next_catalog.
     tx_bind timestamp (\<lambda>catalog_at.
     tx_then (write_catalog next_catalog identity' catalog_at)
    (tx_bind timestamp (\<lambda>graph_at.
     tx_then (write_graph i x graph_at)
    (tx_bind timestamp (\<lambda>attempt_at.
     tx_then (insert_node_run \<lparr>nr_execution_id = i, nr_node_id = n, nr_run_id = run,
        nr_attempt = of_nat attempt, nr_created_at = attempt_at, nr_finished_at = None,
        nr_terminal_state = None, nr_failure = None,
        nr_launch_identity = Some (Stored (prb_launch_identity binding))\<rparr>)
    (tx_bind (tx_some (find (\<lambda>g. gn_id g = n) (graph_nodes (exec_graph x))) St_RunNotFound) (\<lambda>definition.
     tx_bind (tx_try id (capture identity' (prb_project_id binding) (gn_role_id definition))) (\<lambda>policy.
     let plan = \<lparr>plan_version = 2, plan_execution_id = i, plan_node_id = n, plan_session_id = session,
           plan_run_id = run, plan_attempt = of_nat attempt, plan_role_id = gn_role_id definition,
           plan_owner = bg_owner command, plan_identity = prb_launch_identity binding,
           plan_workspace_root = prb_workspace_root binding, plan_prompt = prb_prompt binding,
           plan_policy = Some policy\<rparr> in
     tx_then (plan_insert E plan)
    (tx_then (if staged then stage E plan else tx_return ())
    (tx_bind (insert_event (if staged then ''graph.node_run_staged'' else ''graph.node_run_started'')
       (JObject [(''execution_id'', JKey i), (''node_id'', JKey n), (''run_id'', JKey run)])) (\<lambda>event.
     tx_return \<lparr>bgr_protocol_version = PROTOCOL_VERSION, bgr_execution_id = i, bgr_node_id = n,
       bgr_session_id = session, bgr_run_id = run, bgr_launch_identity = Some (prb_launch_identity binding),
       bgr_adapter_kind = prb_adapter_kind binding, bgr_model = prb_provider_model binding,
       bgr_workspace_root = prb_workspace_root binding, bgr_prompt = prb_prompt binding,
       bgr_catalog_revision = next_catalog, bgr_graph_revision = exec_revision x,
       bgr_event_sequence = ev_sequence event\<rparr>)))))))))))))))))))))))))))))"

definition begin_graph_node_run :: "externals \<Rightarrow> GraphRunId \<Rightarrow> BeginGraphNodeRunCommand \<Rightarrow> BeginGraphNodeRunReceipt stx" where
  "begin_graph_node_run E i command = begin_graph_node_run_inner E i command None"

definition begin_provider_graph_node_run ::
  "externals \<Rightarrow> GraphRunId \<Rightarrow> BeginGraphNodeRunCommand \<Rightarrow> ProviderRunBinding \<Rightarrow> BeginGraphNodeRunReceipt stx" where
  "begin_provider_graph_node_run E i command binding = begin_graph_node_run_inner E i command (Some binding)"

section \<open>Finishing a run\<close>

definition selection_plausible :: "Session \<Rightarrow> Run \<Rightarrow> ProviderLaunchIdentity \<Rightarrow> bool" where
  "selection_plausible session run l \<longleftrightarrow>
     pli_agent_instance_id l = ses_agent_instance_id session \<and> pli_project_id l = ses_project_id session \<and>
     pli_model_id l = run_model_id run \<and> \<not> blank (pli_adapter_kind l) \<and> \<not> blank (pli_model l) \<and>
     (case pli_account l of None \<Rightarrow> True
      | Some a \<Rightarrow> \<not> blank (pas_provider_identity a) \<and>
          (case pas_credential a of None \<Rightarrow> True
           | Some c \<Rightarrow> \<not> blank (pcs_service c) \<and> \<not> blank (pcs_account_label c)))"

text \<open>
  The selection of the attempt row, and whether it is unusable: JSON that does not decode, or a
  selection that contradicts the run. \<open>Serialization\<close> is the only error the caller recovers from.
\<close>

definition trusted_selection ::
  "Session \<Rightarrow> Run \<Rightarrow> (ProviderLaunchIdentity option \<times> bool) stx" where
  "trusted_selection session run =
     tx_bind (tx_get (find_node_run (run_id run))) (\<lambda>row.
     tx_bind (tx_some row St_Database) (\<lambda>r.
     tx_return (case nr_launch_identity r of
       None \<Rightarrow> (None, False)
     | Some Malformed \<Rightarrow> (None, True)
     | Some (Stored l) \<Rightarrow> if selection_plausible session run l then (Some l, False) else (None, True))))"

definition unknown_cost :: CostEvidence where
  "unknown_cost = \<lparr>ce_evidence_class = UnknownEvidence, ce_currency = None, ce_amount = None,
     ce_input_tokens = None, ce_output_tokens = None, ce_confidence = Dyadic 0 0\<rparr>"

definition unknown_failure :: AdapterFailure where
  "unknown_failure = \<lparr>af_kind = UnknownFailure, af_message_key = ''mvp.failure.unknown'', af_retryable = False,
     af_provider_code = None, af_redacted_detail = None\<rparr>"

definition discard_untrusted :: "bool \<Rightarrow> FinishGraphNodeRunCommand \<Rightarrow> FinishGraphNodeRunCommand" where
  "discard_untrusted malformed command =
     (if malformed
      then command\<lparr>fg_terminal_state := Run_Uncertain, fg_output_markdown := None, fg_provider_session_id := None,
        fg_cost := unknown_cost, fg_failure := Some unknown_failure\<rparr>
      else command)"

definition attribution :: "ProviderLaunchIdentity option \<Rightarrow> bool \<Rightarrow> string \<times> string \<times> string \<times> string" where
  "attribution selected malformed =
     (case selected of
        Some l \<Rightarrow> (pli_adapter_kind l,
          case pli_account l of None \<Rightarrow> ''unknown'' | Some a \<Rightarrow> pas_provider_identity a,
          pli_model l, ''adapter normalized cost event; selected account is not provider-authenticated'')
      | None \<Rightarrow> (''unknown'', ''unknown'', ''unknown'',
          if malformed then ''local recovery; malformed launch selection; attribution unavailable''
          else ''adapter normalized cost event; legacy launch attribution unavailable''))"

fun terminal_graph_state :: "NormalizedRunState \<Rightarrow> GraphNodeState option" where
  "terminal_graph_state Run_Succeeded = Some Succeeded"
| "terminal_graph_state Run_Failed = Some Failed"
| "terminal_graph_state Run_Cancelled = Some Cancelled"
| "terminal_graph_state Run_Blocked = Some Blocked"
| "terminal_graph_state Run_Uncertain = Some Uncertain"
| "terminal_graph_state _ = None"

text \<open>The serialised name.\<close>

definition run_state_key :: "NormalizedRunState \<Rightarrow> string" where
  "run_state_key s = (if s = Run_AwaitingApproval then ''awaiting_approval'' else run_state_debug s)"

definition terminal_output ::
  "externals \<Rightarrow> FinishGraphNodeRunCommand \<Rightarrow> GraphNodeState \<Rightarrow> (StoreError, GraphNodeOutput option) result" where
  "terminal_output E command state =
     (case fg_output_markdown command of
        Some markdown \<Rightarrow>
          and_then (map_err St_InvalidGraph (output_create (sha256 E) (fg_node_id command) (fg_run_id command) markdown))
            (\<lambda>out. Ok (Some out))
      | None \<Rightarrow> if state = Succeeded then Err (St_InvalidGraph InvalidOutput) else Ok None)"

text \<open>The finished execution: the node settles and its output is recorded.\<close>

definition settle_node ::
  "externals \<Rightarrow> FinishGraphNodeRunCommand \<Rightarrow> GraphNodeState \<Rightarrow> AdapterFailure option \<Rightarrow> GraphNodeOutput option \<Rightarrow>
   GraphExecution \<Rightarrow> (GraphError, GraphExecution) result" where
  "settle_node E command state failure out x =
     and_then (finish_terminal (fg_node_id command) (fg_owner command) state failure x) (\<lambda>y.
     case out of None \<Rightarrow> Ok y | Some ob \<Rightarrow> record_output (sha256 E) ob y)"

definition settle_catalog ::
  "FinishGraphNodeRunCommand \<Rightarrow> Session \<Rightarrow> Run \<Rightarrow> IdentityCatalog \<Rightarrow> IdentityCatalog stx" where
  "settle_catalog command session run0 c =
     tx_bind timestamp (\<lambda>now.
     tx_bind (touch_run now (\<lambda>r. r\<lparr>run_state := fg_terminal_state command, run_finished_at := Some now\<rparr>) run0) (\<lambda>run.
     case fg_provider_session_id command of
       None \<Rightarrow> tx_return (set_run run c)
     | Some p \<Rightarrow>
         tx_then (tx_check (\<not> blank p) (St_InvalidRunState ''empty provider session id''))
        (tx_bind (touch_session now (\<lambda>s. s\<lparr>ses_provider_session_id := Some p\<rparr>) session) (\<lambda>s.
         tx_return (set_session s (set_run run c))))))"

definition cost_of_run ::
  "FinishGraphNodeRunCommand \<Rightarrow> GraphNodeState \<Rightarrow> ProjectId \<Rightarrow> string \<times> string \<times> string \<times> string \<Rightarrow>
   CostRecordId EntityMetadata \<Rightarrow> CostLedgerRecord" where
  "cost_of_run command state project at md =
     (case at of (provider, account, model, src) \<Rightarrow>
      \<lparr>cost_metadata = md, cost_project_id = project, cost_node_id = fg_node_id command,
       cost_run_id = fg_run_id command, cost_provider = provider, cost_account = account, cost_model = model,
       cost_currency = ce_currency (fg_cost command), cost_amount = ce_amount (fg_cost command),
       cost_input_tokens = ce_input_tokens (fg_cost command), cost_output_tokens = ce_output_tokens (fg_cost command),
       cost_evidence_class = ce_evidence_class (fg_cost command), cost_source = src, cost_formula_version = None,
       cost_confidence = ce_confidence (fg_cost command),
       cost_reconciliation_state = (if state = Uncertain then ''uncertain'' else ''observed'')\<rparr>)"

definition finish_node_run :: "RunId \<Rightarrow> string \<Rightarrow> NormalizedRunState \<Rightarrow> AdapterFailure option \<Rightarrow> nat stx" where
  "finish_node_run i finished_at state failure =
     tx_bind (tx_get (\<lambda>d. length (filter (\<lambda>r. nr_run_id r = i) (d_node_runs d)))) (\<lambda>n.
     tx_then (tx_put (\<lambda>d. d\<lparr>d_node_runs := map (\<lambda>r. if nr_run_id r = i
        then r\<lparr>nr_finished_at := Some finished_at, nr_terminal_state := Some state, nr_failure := failure\<rparr>
        else r) (d_node_runs d)\<rparr>))
     (tx_return n))"

text \<open>The run is the primary key of the ledger, and the size of the text is checked in bytes.\<close>

definition insert_output :: "GraphRunId \<Rightarrow> GraphNodeOutput \<Rightarrow> string \<Rightarrow> unit stx" where
  "insert_output i out created_at =
     tx_bind (tx_get (\<lambda>d. out_run_id out \<in> (out_run_id \<circ> or_output) ` set (d_outputs d))) (\<lambda>taken. tx_do
     [tx_check (\<not> taken \<and> 1 \<le> length (out_markdown out) \<and> length (out_markdown out) \<le> 262144) St_Database,
      tx_put (\<lambda>d. d\<lparr>d_outputs := d_outputs d @
        [\<lparr>or_execution_id = i, or_output = out, or_created_at = created_at\<rparr>]\<rparr>)])"

text \<open>The checks of \<open>finish_graph_node_run\<close>: the three revisions and the identity of the attempt.\<close>

definition current_attempt_of_node ::
  "externals \<Rightarrow> GraphRunId \<Rightarrow> FinishGraphNodeRunCommand \<Rightarrow>
   (u64 \<times> IdentityCatalog \<times> u64 \<times> M3Catalog \<times> GraphExecution \<times> Run \<times> Session) stx" where
  "current_attempt_of_node E i command =
     tx_bind (tx_get (\<lambda>d. (d_catalog_revision d, d_catalog d, d_m3_revision d, d_m3 d))) (\<lambda>(catalog_revision, identity, m3_revision, m3).
     tx_then (check_revision (fg_expected_catalog_revision command) catalog_revision)
    (tx_then (check_revision (fg_expected_m3_revision command) m3_revision)
    (tx_bind (select_graph i) (\<lambda>(graph_revision, x).
     tx_then (check_revision (fg_expected_graph_revision command) graph_revision)
    (tx_then (decode_execution E x)
    (tx_then (tx_check (Option.bind (node_execution x (fg_node_id command)) node_run_id = Some (fg_run_id command))
       (St_InvalidRunState ''run is not the active graph node attempt''))
    (tx_bind (tx_get (latest_attempt i (fg_node_id command))) (\<lambda>latest.
     tx_then (tx_check (map_option nr_run_id latest = Some (fg_run_id command))
       (St_InvalidRunState ''run is not the current attempt for this graph execution and node''))
    (tx_bind (tx_some (find_run (fg_run_id command) identity) St_RunNotFound) (\<lambda>run.
     tx_then (tx_check (run_state run \<in> {Run_Starting, Run_Running, Run_Cancelling})
       (St_InvalidRunState (run_state_debug (run_state run))))
    (tx_bind (tx_some (find_session (run_session_id run) identity) St_RunNotFound) (\<lambda>session.
     tx_return (catalog_revision, identity, m3_revision, m3, x, run, session)))))))))))))"

definition finish_graph_node_run ::
  "externals \<Rightarrow> GraphRunId \<Rightarrow> FinishGraphNodeRunCommand \<Rightarrow> FinishGraphNodeRunReceipt stx" where
  "finish_graph_node_run E i command0 =
     tx_then connection
    (tx_bind (current_attempt_of_node E i command0) (\<lambda>(catalog_revision, identity, m3_revision, m3, x0, run, session).
     tx_bind (trusted_selection session run) (\<lambda>(selected, malformed).
     let command = discard_untrusted malformed command0; n = fg_node_id command in
     tx_bind (tx_some (terminal_graph_state (fg_terminal_state command))
       (St_InvalidRunState (run_state_debug (fg_terminal_state command)))) (\<lambda>state.
     tx_bind (tx_try id (terminal_output E command state)) (\<lambda>out.
     let failure = map_option sanitize_adapter_failure (fg_failure command) in
     tx_then (tx_check (\<not> (state = Succeeded \<and> failure \<noteq> None))
       (St_InvalidRunState ''successful run cannot include failure evidence''))
    (tx_bind (tx_try St_InvalidGraph (settle_node E command state failure out x0)) (\<lambda>x.
     tx_bind (settle_catalog command session run identity) (\<lambda>identity'.
     tx_bind tx_uuid (\<lambda>u.
     tx_bind (entity_metadata (StableId u) ''provider_cost_event'') (\<lambda>md.
     let ds = m3_deliverables m3;
         cost = cost_of_run command state (ses_project_id session) (attribution selected malformed) md;
         m3' = m3\<lparr>m3_deliverables := ds\<lparr>costs := costs ds @ [cost]\<rparr>\<rparr> in
     tx_then (tx_try St_InvalidCatalog (catalog_validate identity'))
    (tx_bind (load_graph_executions E) (\<lambda>xs.
     tx_then (tx_check (\<exists>y \<in> set xs. exec_id y = i) St_GraphNotFound)
    (tx_then (tx_try (\<lambda>e. St_InvalidM3 (Text_M3 e)) (m3_validate (sha256 E)
       \<lparr>m3_catalog = m3', graph_executions = update_first (\<lambda>y. exec_id y = i) (\<lambda>_. x) xs\<rparr> identity'))
    (tx_bind (next_revision catalog_revision) (\<lambda>next_catalog.
     tx_bind (next_revision m3_revision) (\<lambda>next_m3.
     tx_bind timestamp (\<lambda>catalog_at.
     tx_then (write_catalog next_catalog identity' catalog_at)
    (tx_bind timestamp (\<lambda>m3_at.
     tx_then (write_m3 next_m3 m3' m3_at)
    (tx_bind timestamp (\<lambda>graph_at.
     tx_then (write_graph i x graph_at)
    (tx_bind timestamp (\<lambda>finished_at.
     tx_bind (finish_node_run (fg_run_id command) finished_at (fg_terminal_state command) failure) (\<lambda>finished.
     tx_then (tx_check (finished = 1) St_RunNotFound)
    (tx_then (case out of None \<Rightarrow> tx_return () | Some ob \<Rightarrow> tx_bind timestamp (insert_output i ob))
    (tx_bind (insert_event ''graph.node_run_finished'' (JObject
       [(''execution_id'', JKey i), (''node_id'', JKey n), (''run_id'', JKey (fg_run_id command)),
        (''cost_record_id'', JId u), (''terminal_state'', JText (run_state_key (fg_terminal_state command)))])) (\<lambda>event.
     tx_return \<lparr>fgr_protocol_version = PROTOCOL_VERSION, fgr_execution_id = i, fgr_node_id = n,
       fgr_run_id = fg_run_id command, fgr_cost_record_id = StableId u,
       fgr_output_content_hash = map_option out_content_hash out, fgr_catalog_revision = next_catalog,
       fgr_graph_revision = exec_revision x, fgr_m3_revision = next_m3,
       fgr_event_sequence = ev_sequence event\<rparr>)))))))))))))))))))))))))))"

end
