(* ===== verification/Store_Recovery.thy ===== *)
theory Store_Recovery
  imports Store_Run
begin

text \<open>
  Opening the store and the routes that combine several requests
  (\<open>crates/bastet-daemon/src/lib.rs\<close>): the recovery of a database that a daemon left behind, the
  registry of run controllers, cancelling a run and executing the ready nodes of a graph.
\<close>

section \<open>Recovery\<close>

definition interrupted :: "Run \<Rightarrow> bool" where
  "interrupted r \<longleftrightarrow>
     run_state r = Run_Starting \<and> run_started_at r \<noteq> None \<or>
     run_state r \<in> {Run_Running, Run_Cancelling, Run_Recovering, Run_AwaitingApproval}"

definition waits_for_approval :: "Run \<Rightarrow> bool" where
  "waits_for_approval r \<longleftrightarrow> run_state r = Run_AwaitingApproval \<and> run_started_at r = None"

fun reconcile_runs :: "externals \<Rightarrow> string \<Rightarrow> Run list \<Rightarrow> (nat \<times> Run list) stx" where
  "reconcile_runs E now [] = tx_return (0, [])"
| "reconcile_runs E now (r # rs) =
     (if waits_for_approval r
      then tx_then (validate_staged_run E r)
          (tx_bind (reconcile_runs E now rs) (\<lambda>(n, rs'). tx_return (n, r # rs')))
      else if interrupted r
      then tx_bind (touch_run now (\<lambda>r. r\<lparr>run_state := Run_Uncertain\<rparr>) r) (\<lambda>r'.
           tx_bind (reconcile_runs E now rs) (\<lambda>(n, rs'). tx_return (Suc n, r' # rs')))
      else tx_bind (reconcile_runs E now rs) (\<lambda>(n, rs'). tx_return (n, r # rs')))"

definition reconcile_catalog_for_recovery :: "externals \<Rightarrow> unit stx" where
  "reconcile_catalog_for_recovery E =
     tx_bind load_catalog_row (\<lambda>(catalog_revision, c).
     tx_bind timestamp (\<lambda>updated_at.
     tx_bind (reconcile_runs E updated_at (runs c)) (\<lambda>(changed, rs).
     if changed = 0 then tx_return ()
     else
       let c' = c\<lparr>runs := rs\<rparr> in
       tx_then (tx_try St_InvalidCatalog (catalog_validate c'))
      (tx_bind (next_revision catalog_revision) (\<lambda>revision.
       tx_then (write_catalog revision c' updated_at)
      (tx_then (insert_event ''catalog.runs_marked_uncertain'' (JObject
         [(''revision'', JNum revision), (''runs'', JNum (of_nat changed))]))
      (tx_return ())))))))"

definition reconcile_graph :: "externals \<Rightarrow> graph_row \<Rightarrow> unit stx" where
  "reconcile_graph E row =
     tx_then (tx_try St_InvalidGraph (execution_validate (sha256 E) (gr_execution row)))
    (case reconcile_after_restart (gr_execution row) of
       (changed, x) \<Rightarrow>
         if changed = 0 then tx_return ()
         else
           tx_bind timestamp (\<lambda>now.
           tx_then (write_graph (gr_id row) x now)
          (tx_then (insert_event ''graph.running_nodes_marked_uncertain'' (JObject
             [(''execution_id'', JKey (exec_id x)), (''nodes'', JNum (of_nat changed))]))
          (tx_return ()))))"

definition reconcile_graphs_for_recovery :: "externals \<Rightarrow> unit stx" where
  "reconcile_graphs_for_recovery E =
     tx_bind (tx_get (\<lambda>d. sort_key (\<lambda>r. id_value (gr_id r)) (d_graphs d))) (\<lambda>rows.
     tx_each rows (reconcile_graph E))"

definition recover :: "externals \<Rightarrow> unit stx" where
  "recover E =
     tx_bind (tx_get d_revision) (\<lambda>current. tx_do
     [write_daemon (current + 1) ''recovering'',
      tx_then (insert_event ''daemon.recovery_started'' (JObject [])) (tx_return ()),
      reconcile_catalog_for_recovery E,
      reconcile_graphs_for_recovery E,
      dispatch_reconcile,
      tx_bind now_ms (expire E)])"

section \<open>Opening\<close>

definition SCHEMA_VERSION :: u32 where "SCHEMA_VERSION = 13"

text \<open>The tables of the current schema, empty, with their singleton rows.\<close>

definition new_db :: "uuid \<Rightarrow> string \<Rightarrow> string \<Rightarrow> db" where
  "new_db daemon_id catalog_at m3_at =
     \<lparr>d_daemon_id = daemon_id, d_revision = 0, d_lifecycle = ''starting'',
      d_catalog_revision = 0, d_catalog = default_catalog, d_catalog_updated_at = catalog_at,
      d_m3_revision = 0, d_m3 = default_m3_catalog, d_m3_updated_at = m3_at,
      d_graphs = [], d_node_runs = [], d_outputs = [], d_approvals = [], d_grants = [], d_plans = [],
      d_staged = [], d_claims = [], d_events = [], d_checkpoints = []\<rparr>"

text \<open>
  \<open>Store::open\<close> on an empty file, and on a file with a schema version and the database of that
  version; the migrations between old versions are not modelled.
\<close>

definition open_new :: "(nat \<Rightarrow> nat) \<Rightarrow> (nat \<Rightarrow> uuid) \<Rightarrow> db store" where
  "open_new ts ids = \<lparr>sdb = new_db (ids 0) (decimal (ts 1)) (decimal (ts 5)), broken = False\<rparr>"

definition open_existing ::
  "externals \<Rightarrow> u32 \<Rightarrow> (nat \<Rightarrow> nat) \<Rightarrow> (nat \<Rightarrow> uuid) \<Rightarrow> db \<Rightarrow> StoreError fault + db store" where
  "open_existing E version ts ids d =
     (if version > SCHEMA_VERSION then Inl (Returned (St_UnsupportedSchemaVersion version SCHEMA_VERSION))
      else case recover E \<lparr>wdb = d, clock = ts, uuids = \<lambda>i. ids (Suc i), poisoned = False\<rparr> of
             Inl e \<Rightarrow> Inl e
           | Inr (_, w) \<Rightarrow> Inr \<lparr>sdb = wdb w, broken = False\<rparr>)"

section \<open>Run controllers\<close>

text \<open>
  A registered controller takes a cancellation or refuses it; the registry itself is a controller.
\<close>

type_synonym controllers = "(RunId \<times> (RunId \<Rightarrow> bool)) list"

definition register :: "RunId \<Rightarrow> (RunId \<Rightarrow> bool) \<Rightarrow> controllers \<Rightarrow> controllers option" where
  "register i f cs = (if i \<in> fst ` set cs then None else Some ((i, f) # cs))"

definition unregister :: "RunId \<Rightarrow> controllers \<Rightarrow> bool \<times> controllers" where
  "unregister i cs = (i \<in> fst ` set cs, filter (\<lambda>p. fst p \<noteq> i) cs)"

definition registry_cancel :: "controllers \<Rightarrow> RunId \<Rightarrow> bool" where
  "registry_cancel cs i = (case map_of cs i of None \<Rightarrow> False | Some f \<Rightarrow> f i)"

section \<open>Routes\<close>

record CancelRunCommand =
  crn_run_id :: RunId
  crn_expected_catalog_revision :: u64

text \<open>
  \<open>cancel_run\<close>: a staged launch is cancelled in the store alone. Otherwise the controller is asked
  only after the preflight, and the record is written only after it accepted.
\<close>

definition cancel_run ::
  "externals \<Rightarrow> (RunId \<Rightarrow> bool) \<Rightarrow> RunId \<Rightarrow> CancelRunCommand \<Rightarrow> (nat \<Rightarrow> nat) \<Rightarrow> (nat \<Rightarrow> uuid) \<Rightarrow> (nat \<Rightarrow> nat) \<Rightarrow> (nat \<Rightarrow> uuid) \<Rightarrow>
   db store \<Rightarrow> (StoreError fault + CancelRunReceipt) \<times> db store" where
  "cancel_run E controller i command ts ids ts2 ids2 =
     (if crn_run_id command \<noteq> i then (\<lambda>s. (Inl (Returned St_RunNotFound), s))
      else call_then (call (cancel_staged_run E i (crn_expected_catalog_revision command)) ts ids) (\<lambda>staged.
        case staged of
          Some receipt \<Rightarrow> (\<lambda>s. (Inr receipt, s))
        | None \<Rightarrow> call_then (call (preflight_provider_cancel i (crn_expected_catalog_revision command)) ts ids) (\<lambda>_ s.
            if controller i then call (record_provider_cancel_after_preflight i) ts2 ids2 s
            else (Inl (Returned St_RunControlRejected), s))))"

record ExecuteReadyGraphCommand =
  erg_expected_catalog_revision :: u64
  erg_expected_graph_revision :: u64

definition executor_owner :: "externals \<Rightarrow> GraphNodeId \<Rightarrow> string" where
  "executor_owner E n = ''daemon-provider-'' @ uuid_text E (id_value n)"

fun resolve_all ::
  "externals \<Rightarrow> IdentityCatalog \<Rightarrow> M3Catalog \<Rightarrow> GraphExecution \<Rightarrow> GraphNodeId list \<Rightarrow> (StoreError, ProviderRunBinding list) result" where
  "resolve_all E c m x [] = Ok []"
| "resolve_all E c m x (n # ns) =
     and_then (resolve_provider_run_binding E c m x n) (\<lambda>b.
     and_then (resolve_all E c m x ns) (\<lambda>bs. Ok (b # bs)))"

text \<open>
  The loop that begins the runs: each call expects the revisions the one before it returned, and
  an error after the first success ends the loop without failing the request. The streams of the
  \<open>k\<close>-th call are \<open>ts k\<close> and \<open>ids k\<close>.
\<close>

fun begin_ready ::
  "externals \<Rightarrow> GraphRunId \<Rightarrow> u64 \<Rightarrow> u64 \<Rightarrow> (nat \<Rightarrow> nat \<Rightarrow> nat) \<Rightarrow> (nat \<Rightarrow> nat \<Rightarrow> uuid) \<Rightarrow> nat \<Rightarrow> (GraphNodeId \<times> ProviderRunBinding) list \<Rightarrow>
   db store \<Rightarrow> (StoreError fault + BeginGraphNodeRunReceipt list) \<times> db store" where
  "begin_ready E i catalog_revision graph_revision ts ids k [] s = (Inr [], s)"
| "begin_ready E i catalog_revision graph_revision ts ids k ((n, binding) # rest) s =
     (case call (begin_provider_graph_node_run E i
         \<lparr>bg_expected_catalog_revision = catalog_revision, bg_expected_graph_revision = graph_revision,
          bg_node_id = n, bg_owner = executor_owner E n\<rparr> binding) (ts k) (ids k) s of
        (Inl e, t) \<Rightarrow> (case e of Returned _ \<Rightarrow> if k = 0 then (Inl e, t) else (Inr [], t) | _ \<Rightarrow> (Inl e, t))
      | (Inr receipt, t) \<Rightarrow>
          (case begin_ready E i (bgr_catalog_revision receipt) (bgr_graph_revision receipt) ts ids (Suc k) rest t of
             (Inl e, u) \<Rightarrow> (Inl e, u)
           | (Inr receipts, u) \<Rightarrow> (Inr (receipt # receipts), u)))"

text \<open>The runs that are handed to a provider: those that wait for a credential are not.\<close>

definition handed_over :: "BeginGraphNodeRunReceipt \<Rightarrow> bool" where
  "handed_over r \<longleftrightarrow> \<not> (case bgr_launch_identity r of None \<Rightarrow> False | Some l \<Rightarrow> pli_account l \<noteq> None)"

text \<open>
  The reads that come first, each a request of its own in the source. They change nothing, and
  \<open>begin_ready\<close> checks again, so only requests in between are not covered.
\<close>

definition plan_ready ::
  "externals \<Rightarrow> bool \<Rightarrow> GraphRunId \<Rightarrow> ExecuteReadyGraphCommand \<Rightarrow> (GraphNodeId \<times> ProviderRunBinding) list stx" where
  "plan_ready E executor i command =
     tx_bind snapshot (\<lambda>snap.
     tx_then (tx_check (snap_lifecycle snap = Daemon_Ready)
       (St_InvalidLifecycle ''ready'' (lifecycle_name (snap_lifecycle snap))))
    (tx_then (tx_check executor St_RunControlRejected)
    (tx_bind read_catalog (\<lambda>c.
     tx_then (check_revision (erg_expected_catalog_revision command) (cs_revision c))
    (tx_bind (graph_execution E i) (\<lambda>x.
     tx_then (check_revision (erg_expected_graph_revision command) (exec_revision x))
    (tx_bind (tx_try St_InvalidGraph (claim_ready ''daemon-provider-readiness'' 2 x)) (\<lambda>(ready, _).
     tx_then (tx_check (ready \<noteq> []) (St_InvalidGraph InvalidExecution))
    (tx_bind (read_m3_catalog E) (\<lambda>m.
     tx_bind (tx_try id (resolve_all E (cs_catalog c) (ms_catalog m) x ready)) (\<lambda>bindings.
     tx_return (zip ready bindings))))))))))))"

end
