(* ===== verification/Store_Executor.thy ===== *)
theory Store_Executor
  imports Store_Recovery
begin

text \<open>
  The provider executor (\<open>crates/bastet-daemon/src/provider_executor.rs\<close>): what a provider worker
  checks before it runs an adapter, the outcome it reports, and the loop that persists the
  outcome. The two adapters are a parameter here: a function from the receipt to an outcome, or
  no value for the errors that the worker maps to an unavailable provider.
\<close>

section \<open>Outcomes\<close>

record ProviderOutcome =
  po_terminal_state :: NormalizedRunState
  po_provider_session_id :: "string option"
  po_cost :: CostEvidence
  po_output_markdown :: "string option"
  po_failure :: "AdapterFailure option"

definition plain_failure :: "AdapterFailureKind \<Rightarrow> string \<Rightarrow> bool \<Rightarrow> AdapterFailure" where
  "plain_failure kind key retryable = \<lparr>af_kind = kind, af_message_key = key, af_retryable = retryable,
     af_provider_code = None, af_redacted_detail = None\<rparr>"

definition outcome_cancelled :: ProviderOutcome where
  "outcome_cancelled = \<lparr>po_terminal_state = Run_Cancelled, po_provider_session_id = None, po_cost = unknown_cost,
     po_output_markdown = None,
     po_failure = Some (plain_failure Failure_Cancelled ''adapter.failure.cancelled'' False)\<rparr>"

definition outcome_unavailable :: ProviderOutcome where
  "outcome_unavailable = \<lparr>po_terminal_state = Run_Uncertain, po_provider_session_id = None, po_cost = unknown_cost,
     po_output_markdown = None,
     po_failure = Some (plain_failure UnknownFailure ''mvp.failure.unknown'' False)\<rparr>"

definition outcome_blocked :: "AdapterFailureKind \<Rightarrow> string \<Rightarrow> ProviderOutcome" where
  "outcome_blocked kind key = \<lparr>po_terminal_state = Run_Blocked, po_provider_session_id = None, po_cost = unknown_cost,
     po_output_markdown = None, po_failure = Some (plain_failure kind key False)\<rparr>"

text \<open>A success without text is reported as a failure that can be retried.\<close>

definition outcome ::
  "NormalizedRunState \<Rightarrow> string option \<Rightarrow> CostEvidence \<Rightarrow> string option \<Rightarrow> AdapterFailure option \<Rightarrow> ProviderOutcome" where
  "outcome state session cost out failure =
     (let missing = (state = Run_Succeeded \<and> (case out of None \<Rightarrow> True | Some text \<Rightarrow> blank text)) in
      \<lparr>po_terminal_state = (if missing then Run_Failed else state), po_provider_session_id = session,
       po_cost = cost, po_output_markdown = out,
       po_failure = (if missing then Some (plain_failure MalformedOutput ''mvp.failure.invalid_output'' True)
                     else failure)\<rparr>)"

definition is_terminal :: "NormalizedRunState \<Rightarrow> bool" where
  "is_terminal s \<longleftrightarrow> s \<in> {Run_Succeeded, Run_Failed, Run_Cancelled, Run_Blocked, Run_Uncertain}"

section \<open>The runner\<close>

definition the_default :: "'a \<Rightarrow> 'a option \<Rightarrow> 'a" where
  "the_default d x = (case x of None \<Rightarrow> d | Some v \<Rightarrow> v)"

text \<open>\<open>validate_online_cli_launch\<close> reads the store twice and changes nothing.\<close>

definition validate_online_cli_launch :: "externals \<Rightarrow> BeginGraphNodeRunReceipt \<Rightarrow> unit stx" where
  "validate_online_cli_launch E receipt =
     tx_then (preflight_provider_launch E receipt)
    (tx_then connection
    (tx_bind (plan_load E (bgr_run_id receipt)) (\<lambda>plan. tx_try id (validate_online_cli_requirements plan))))"

definition system_run ::
  "externals \<Rightarrow> (BeginGraphNodeRunReceipt \<Rightarrow> ProviderOutcome option) \<Rightarrow> (BeginGraphNodeRunReceipt \<Rightarrow> ProviderOutcome option) \<Rightarrow>
   BeginGraphNodeRunReceipt \<Rightarrow> (nat \<Rightarrow> nat) \<Rightarrow> (nat \<Rightarrow> uuid) \<Rightarrow> db store \<Rightarrow> ProviderOutcome" where
  "system_run E codex agy receipt ts ids s =
     (if (case bgr_launch_identity receipt of None \<Rightarrow> True | Some l \<Rightarrow> pli_account l \<noteq> None)
      then outcome_blocked Unsupported ''adapter.failure.unsupported''
      else case call (validate_online_cli_launch E receipt) ts ids s of
        (Inl _, _) \<Rightarrow> outcome_blocked PermissionDenied ''adapter.failure.permission_denied''
      | (Inr _, _) \<Rightarrow>
          if bgr_adapter_kind receipt = ''codex_cli'' then the_default outcome_unavailable (codex receipt)
          else if bgr_adapter_kind receipt = ''agy_cli'' then the_default outcome_unavailable (agy receipt)
          else outcome_unavailable)"

text \<open>
  The body of the worker thread up to its outcome; \<open>cancelled\<close> and \<open>cancelled_after\<close> are the token
  before and after the preflight.
\<close>

definition worker_outcome ::
  "externals \<Rightarrow> (BeginGraphNodeRunReceipt \<Rightarrow> db store \<Rightarrow> ProviderOutcome) \<Rightarrow> bool \<Rightarrow> bool \<Rightarrow> BeginGraphNodeRunReceipt \<Rightarrow>
   (nat \<Rightarrow> nat) \<Rightarrow> (nat \<Rightarrow> uuid) \<Rightarrow> db store \<Rightarrow> ProviderOutcome" where
  "worker_outcome E runner cancelled cancelled_after receipt ts ids s =
     (if cancelled then outcome_cancelled
      else case call (preflight_provider_launch E receipt) ts ids s of
        (Inl (Returned _), _) \<Rightarrow> if cancelled_after then outcome_cancelled else outcome_unavailable
      | (Inl _, _) \<Rightarrow> outcome_unavailable
      | (Inr _, t) \<Rightarrow> runner receipt t)"

section \<open>Persisting an outcome\<close>

definition persisted_outcome :: "ProviderOutcome \<Rightarrow> ProviderOutcome" where
  "persisted_outcome po =
     (if po_terminal_state po \<in> {Run_Succeeded, Run_Failed} then po else po\<lparr>po_output_markdown := None\<rparr>)"

definition finish_command ::
  "externals \<Rightarrow> BeginGraphNodeRunReceipt \<Rightarrow> ProviderOutcome \<Rightarrow> CatalogSnapshot \<Rightarrow> M3CatalogSnapshot \<Rightarrow> GraphExecution \<Rightarrow> FinishGraphNodeRunCommand" where
  "finish_command E receipt po c m x =
     \<lparr>fg_expected_catalog_revision = cs_revision c, fg_expected_graph_revision = exec_revision x,
      fg_expected_m3_revision = ms_revision m, fg_node_id = bgr_node_id receipt, fg_run_id = bgr_run_id receipt,
      fg_owner = executor_owner E (bgr_node_id receipt), fg_terminal_state = po_terminal_state po,
      fg_failure = po_failure po, fg_provider_session_id = po_provider_session_id po,
      fg_output_markdown = po_output_markdown po, fg_cost = po_cost po\<rparr>"

datatype persist_result = Persisted | Lost_Authority | Not_Persisted | Persist_Again

fun persist_error :: "StoreError \<Rightarrow> persist_result" where
  "persist_error St_Database = Persist_Again"
| "persist_error St_Poisoned = Persist_Again"
| "persist_error _ = Not_Persisted"

fun finish_error :: "StoreError \<Rightarrow> persist_result" where
  "finish_error (St_RevisionConflict expected actual) = Persist_Again"
| "finish_error St_Database = Persist_Again"
| "finish_error St_Poisoned = Persist_Again"
| "finish_error (St_InvalidRunState s) = Lost_Authority"
| "finish_error St_RunNotFound = Lost_Authority"
| "finish_error _ = Not_Persisted"

text \<open>
  One turn of the loop. Other requests may run between its four requests: \<open>env k\<close> is what they do
  to the store before the \<open>k\<close>-th of them, and \<open>ts k\<close>, \<open>ids k\<close> are the streams of that request.
\<close>

definition persist_turn ::
  "externals \<Rightarrow> BeginGraphNodeRunReceipt \<Rightarrow> ProviderOutcome \<Rightarrow> (nat \<Rightarrow> db store \<Rightarrow> db store) \<Rightarrow> (nat \<Rightarrow> nat \<Rightarrow> nat) \<Rightarrow> (nat \<Rightarrow> nat \<Rightarrow> uuid) \<Rightarrow>
   db store \<Rightarrow> persist_result \<times> db store" where
  "persist_turn E receipt po env ts ids s =
     (case call read_catalog (ts 0) (ids 0) (env 0 s) of
        (Inl (Returned e), s1) \<Rightarrow> (persist_error e, s1)
      | (Inl _, s1) \<Rightarrow> (Not_Persisted, s1)
      | (Inr c, s1) \<Rightarrow>
     case call (read_m3_catalog E) (ts 1) (ids 1) (env 1 s1) of
        (Inl (Returned e), s2) \<Rightarrow> (persist_error e, s2)
      | (Inl _, s2) \<Rightarrow> (Not_Persisted, s2)
      | (Inr m, s2) \<Rightarrow>
     case call (graph_execution E (bgr_execution_id receipt)) (ts 2) (ids 2) (env 2 s2) of
        (Inl (Returned e), s3) \<Rightarrow> (persist_error e, s3)
      | (Inl _, s3) \<Rightarrow> (Not_Persisted, s3)
      | (Inr x, s3) \<Rightarrow>
     case call (finish_graph_node_run E (bgr_execution_id receipt) (finish_command E receipt po c m x))
            (ts 3) (ids 3) (env 3 s3) of
        (Inl (Returned e), s4) \<Rightarrow> (finish_error e, s4)
      | (Inl _, s4) \<Rightarrow> (Not_Persisted, s4)
      | (Inr _, s4) \<Rightarrow> (Persisted, s4))"

text \<open>The loop itself need not end, so it has fuel: \<open>Persist_Again\<close> is running out of it.\<close>

fun persist_loop ::
  "nat \<Rightarrow> externals \<Rightarrow> BeginGraphNodeRunReceipt \<Rightarrow> ProviderOutcome \<Rightarrow> (nat \<Rightarrow> nat \<Rightarrow> db store \<Rightarrow> db store) \<Rightarrow> (nat \<Rightarrow> nat \<Rightarrow> nat \<Rightarrow> nat) \<Rightarrow> (nat \<Rightarrow> nat \<Rightarrow> nat \<Rightarrow> uuid) \<Rightarrow>
   db store \<Rightarrow> persist_result \<times> db store" where
  "persist_loop 0 E receipt po env ts ids s = (Persist_Again, s)"
| "persist_loop (Suc n) E receipt po env ts ids s =
     (case persist_turn E receipt po (env n) (ts n) (ids n) s of
        (Persist_Again, t) \<Rightarrow> persist_loop n E receipt po env ts ids t
      | r \<Rightarrow> r)"

definition persist_outcome ::
  "nat \<Rightarrow> externals \<Rightarrow> BeginGraphNodeRunReceipt \<Rightarrow> ProviderOutcome \<Rightarrow> (nat \<Rightarrow> nat \<Rightarrow> db store \<Rightarrow> db store) \<Rightarrow> (nat \<Rightarrow> nat \<Rightarrow> nat \<Rightarrow> nat) \<Rightarrow> (nat \<Rightarrow> nat \<Rightarrow> nat \<Rightarrow> uuid) \<Rightarrow>
   db store \<Rightarrow> persist_result \<times> db store" where
  "persist_outcome fuel E receipt po = persist_loop fuel E receipt (persisted_outcome po)"

section \<open>Executing the ready nodes\<close>

text \<open>
  \<open>start receipt\<close> tells whether the worker thread could be started; a run whose worker could not be
  is settled as uncertain. Runs that wait for a credential get no worker.
\<close>

fun hand_over ::
  "(BeginGraphNodeRunReceipt \<Rightarrow> bool) \<Rightarrow> (BeginGraphNodeRunReceipt \<Rightarrow> db store \<Rightarrow> db store) \<Rightarrow> BeginGraphNodeRunReceipt list \<Rightarrow> db store \<Rightarrow>
   RunId list \<times> db store" where
  "hand_over start settle [] s = ([], s)"
| "hand_over start settle (r # rs) s =
     (if handed_over r \<and> \<not> start r then hand_over start settle rs (settle r s)
      else case hand_over start settle rs s of (ids, t) \<Rightarrow> (bgr_run_id r # ids, t))"

definition execute_ready_graph ::
  "externals \<Rightarrow> (BeginGraphNodeRunReceipt \<Rightarrow> bool) option \<Rightarrow> (BeginGraphNodeRunReceipt \<Rightarrow> db store \<Rightarrow> db store) \<Rightarrow> GraphRunId \<Rightarrow> ExecuteReadyGraphCommand \<Rightarrow>
   (nat \<Rightarrow> nat \<Rightarrow> nat) \<Rightarrow> (nat \<Rightarrow> nat \<Rightarrow> uuid) \<Rightarrow> db store \<Rightarrow> (StoreError fault + RunId list) \<times> db store" where
  "execute_ready_graph E executor settle i command ts ids s =
     (case call (plan_ready E (executor \<noteq> None) i command) (ts 0) (ids 0) s of
        (Inl e, t) \<Rightarrow> (Inl e, t)
      | (Inr work, t) \<Rightarrow>
          (case begin_ready E i (erg_expected_catalog_revision command) (erg_expected_graph_revision command) ts ids 0 work t of
             (Inl e, u) \<Rightarrow> (Inl e, u)
           | (Inr receipts, u) \<Rightarrow>
               (case hand_over (the_default (\<lambda>_. False) executor) settle receipts u of
                  (run_ids, v) \<Rightarrow> if run_ids = [] then (Inl (Returned St_RunControlRejected), v) else (Inr run_ids, v))))"

end
