(* ===== verification/Store_Logic.thy ===== *)
theory Store_Logic
  imports Store_Monad
begin

text \<open>
  A logic for the store's transactions: what holds of the result and of the database when a
  transaction that starts in a database succeeds, whatever the clock reads and the identifiers
  drawn. The rules follow the structure of a transaction; every component adds the rules of its
  own operations to the collection.
\<close>

named_theorems spec_rules \<comment> \<open>verification conditions of a transaction\<close>

definition spec :: "('d, 'e, 'a) tx \<Rightarrow> 'd \<Rightarrow> ('a \<Rightarrow> 'd \<Rightarrow> bool) \<Rightarrow> bool" where
  "spec m d Q \<longleftrightarrow> (\<forall>w v w'. wdb w = d \<and> m w = Inr (v, w') \<longrightarrow> Q v (wdb w'))"

lemma specD: "spec m (wdb w) Q \<Longrightarrow> m w = Inr (v, w') \<Longrightarrow> Q v (wdb w')"
  by (auto simp: spec_def)

lemma spec_mono: "spec m d P \<Longrightarrow> (\<And>v d'. P v d' \<Longrightarrow> Q v d') \<Longrightarrow> spec m d Q"
  by (auto simp: spec_def)

lemma spec_conj: "spec m d P \<Longrightarrow> spec m d Q \<Longrightarrow> spec m d (\<lambda>v d'. P v d' \<and> Q v d')"
  by (auto simp: spec_def)

lemma spec_true: "spec m d (\<lambda>v d'. True)"
  by (simp add: spec_def)

lemma spec_return [spec_rules]: "Q v d \<Longrightarrow> spec (tx_return v) d Q"
  by (auto simp: spec_def tx_simps)

lemma spec_bind [spec_rules]: "spec m d (\<lambda>v d'. spec (f v) d' Q) \<Longrightarrow> spec (tx_bind m f) d Q"
  by (auto simp: spec_def tx_bind_ok)

lemma spec_then [spec_rules]: "spec m d (\<lambda>v d'. spec n d' Q) \<Longrightarrow> spec (tx_then m n) d Q"
  by (auto simp: spec_def tx_then_ok)

lemma spec_do_Nil [spec_rules]: "Q () d \<Longrightarrow> spec (tx_do []) d Q"
  by (simp add: spec_return)

lemma spec_do_Cons [spec_rules]: "spec m d (\<lambda>v d'. spec (tx_do ms) d' Q) \<Longrightarrow> spec (tx_do (m # ms)) d Q"
  by (simp add: spec_then)

lemma spec_fail [spec_rules]: "spec (tx_fail e) d Q"
  by (auto simp: spec_def tx_simps)

lemma spec_check [spec_rules]: "(b \<Longrightarrow> Q () d) \<Longrightarrow> spec (tx_check b e) d Q"
  by (auto simp: spec_def tx_simps)

lemma spec_try [spec_rules]: "(\<And>a. r = Inr a \<Longrightarrow> Q a d) \<Longrightarrow> spec (tx_try g r) d Q"
  by (auto simp: spec_def tx_simps)

lemma spec_try_panic [spec_rules]: "(\<And>a. r = Inr a \<Longrightarrow> Q a d) \<Longrightarrow> spec (tx_try_panic g r) d Q"
  by (auto simp: spec_def tx_simps)

lemma spec_try_loop [spec_rules]: "(\<And>a. r = Some (Inr a) \<Longrightarrow> Q a d) \<Longrightarrow> spec (tx_try_loop g r) d Q"
  by (auto simp: spec_def tx_simps)

lemma spec_some [spec_rules]: "(\<And>a. x = Some a \<Longrightarrow> Q a d) \<Longrightarrow> spec (tx_some x e) d Q"
  by (auto simp: spec_def tx_simps)

lemma spec_get [spec_rules]: "(\<And>v. v = f d \<Longrightarrow> Q v d) \<Longrightarrow> spec (tx_get f) d Q"
  by (auto simp: spec_def tx_simps)

lemma spec_put [spec_rules]: "(\<And>d'. d' = f d \<Longrightarrow> Q () d') \<Longrightarrow> spec (tx_put f) d Q"
  by (auto simp: spec_def tx_simps)

lemma spec_clock [spec_rules]: "(\<And>n. Q n d) \<Longrightarrow> spec tx_clock d Q"
  by (auto simp: spec_def tx_simps)

lemma spec_uuid [spec_rules]: "(\<And>u. Q u d) \<Longrightarrow> spec tx_uuid d Q"
  by (auto simp: spec_def tx_simps)

lemma spec_lock [spec_rules]: "Q () d \<Longrightarrow> spec (tx_lock e) d Q"
  by (auto simp: spec_def tx_simps)

lemma spec_if [spec_rules]:
  "(b \<Longrightarrow> spec m d Q) \<Longrightarrow> (\<not> b \<Longrightarrow> spec n d Q) \<Longrightarrow> spec (if b then m else n) d Q"
  by simp

lemma spec_let [spec_rules]: "(\<And>v. v = x \<Longrightarrow> spec (f v) d Q) \<Longrightarrow> spec (Let x f) d Q"
  by simp

lemma spec_prod [spec_rules]:
  "(\<And>a b. x = (a, b) \<Longrightarrow> spec (f a b) d Q) \<Longrightarrow> spec (case x of (a, b) \<Rightarrow> f a b) d Q"
  by (cases x) auto

lemma spec_option [spec_rules]:
  "(x = None \<Longrightarrow> spec m d Q) \<Longrightarrow> (\<And>a. x = Some a \<Longrightarrow> spec (f a) d Q) \<Longrightarrow>
   spec (case x of None \<Rightarrow> m | Some a \<Rightarrow> f a) d Q"
  by (cases x) auto

text \<open>A row that is read and has to exist.\<close>

lemma spec_get_some:
  "(\<And>a. f d = Some a \<Longrightarrow> spec (g a) d Q) \<Longrightarrow> spec (tx_bind (tx_get f) (\<lambda>row. tx_bind (tx_some row e) g)) d Q"
  by (auto intro!: spec_rules)

lemma spec_each:
  assumes "I d" and "\<And>x d'. x \<in> set xs \<Longrightarrow> I d' \<Longrightarrow> spec (f x) d' (\<lambda>_. I)"
  shows "spec (tx_each xs f) d (\<lambda>_. I)"
  using assms
  by (induction xs arbitrary: d) (auto intro!: spec_rules intro: spec_mono)

text \<open>A step that only reads.\<close>

definition reads :: "('d, 'e, 'a) tx \<Rightarrow> bool" where
  "reads m \<longleftrightarrow> (\<forall>d. spec m d (\<lambda>_ d'. d' = d))"

lemma spec_reads: "reads m \<Longrightarrow> (\<And>v. Q v d) \<Longrightarrow> spec m d Q"
  by (auto simp: reads_def spec_def)

lemma reads_each: "(\<And>x. reads (f x)) \<Longrightarrow> reads (tx_each xs f)"
  unfolding reads_def by (intro allI spec_each) (auto simp: reads_def)

lemma spec_each_checks:
  assumes "\<And>x. x \<in> set xs \<Longrightarrow> \<forall>d. spec (f x) d (\<lambda>_ d'. d' = d \<and> P x)"
  shows "spec (tx_each xs f) d (\<lambda>_ d'. d' = d \<and> (\<forall>x \<in> set xs. P x))"
  using assms
proof (induction xs arbitrary: d)
  case Nil
  show ?case by (auto simp: spec_return)
next
  case (Cons x xs)
  have "spec (f x) d (\<lambda>_ d'. d' = d \<and> P x)" using Cons.prems by simp
  moreover have "spec (tx_each xs f) d (\<lambda>_ d'. d' = d \<and> (\<forall>y \<in> set xs. P y))"
    using Cons.IH[of d] Cons.prems by simp
  ultimately have "spec (tx_then (f x) (tx_each xs f)) d (\<lambda>_ d'. d' = d \<and> (\<forall>y \<in> set (x # xs). P y))"
    by (intro spec_then) (auto elim!: spec_mono)
  then show ?case by simp
qed

section \<open>Requests\<close>

lemma call_spec:
  assumes "spec m (sdb s) Q" and "call m ts ids s = (Inr v, t)"
  shows "Q v (sdb t)"
proof -
  obtain w where "m (tx_world ts ids s) = Inr (v, w)" and "t = s\<lparr>sdb := wdb w\<rparr>"
    using assms(2) by (auto simp: call_ok)
  then show ?thesis using specD[of m "tx_world ts ids s" Q v w] assms(1) by (simp add: tx_world_def)
qed

text \<open>
  A property that every request keeps, and a relation between the databases before and after:
  a failed request leaves the database as it was.
\<close>

lemma call_keeps:
  assumes "I (sdb s)" and "spec m (sdb s) (\<lambda>_. I)"
  shows "I (sdb (snd (call m ts ids s)))"
proof (cases "call m ts ids s")
  case (Pair r t)
  show ?thesis
  proof (cases r)
    case (Inl e)
    then show ?thesis using Pair call_error_keeps_db[of m ts ids s e] assms(1) by simp
  next
    case (Inr v)
    then show ?thesis using Pair call_spec[OF assms(2)] by simp
  qed
qed

section \<open>An invariant and the history it allows\<close>

text \<open>
  The contract of a store: an invariant that every transaction keeps, and a reflexive and
  transitive relation between the databases before and after it, such as "the journal only
  grows" or "a decision is never changed". \<open>ahead\<close> is the assertion that a proof carries from
  write to write.
\<close>

definition ahead :: "('d \<Rightarrow> bool) \<Rightarrow> ('d \<Rightarrow> 'd \<Rightarrow> bool) \<Rightarrow> 'd \<Rightarrow> 'd \<Rightarrow> bool" where
  "ahead I R d0 d \<longleftrightarrow> I d \<and> R d0 d"

definition within :: "('d \<Rightarrow> bool) \<Rightarrow> ('d \<Rightarrow> 'd \<Rightarrow> bool) \<Rightarrow> ('d, 'e, 'a) tx \<Rightarrow> bool" where
  "within I R m \<longleftrightarrow> (\<forall>d. I d \<longrightarrow> spec m d (\<lambda>_. ahead I R d))"

locale tx_system =
  fixes I :: "'d \<Rightarrow> bool"
    and R :: "'d \<Rightarrow> 'd \<Rightarrow> bool"
  assumes R_refl: "R d d"
    and R_trans: "R a b \<Longrightarrow> R b c \<Longrightarrow> R a c"
begin

lemma aheadI: "I d \<Longrightarrow> ahead I R d d"
  by (simp add: ahead_def R_refl)

lemma ahead_trans: "ahead I R d0 d \<Longrightarrow> I d' \<Longrightarrow> R d d' \<Longrightarrow> ahead I R d0 d'"
  by (auto simp: ahead_def intro: R_trans)

lemma ahead_ahead: "ahead I R d0 d \<Longrightarrow> ahead I R d d' \<Longrightarrow> ahead I R d0 d'"
  by (auto simp: ahead_def intro: R_trans)

lemma withinI: "(\<And>d. ahead I R d d \<Longrightarrow> spec m d (\<lambda>_. ahead I R d)) \<Longrightarrow> within I R m"
  by (simp add: within_def aheadI)

lemma within_spec:
  assumes "within I R m" and "ahead I R d0 d" and "\<And>v d'. ahead I R d0 d' \<Longrightarrow> Q v d'"
  shows "spec m d Q"
proof -
  have "spec m d (\<lambda>_. ahead I R d)" using assms(1,2) by (auto simp: within_def ahead_def)
  then show ?thesis by (rule spec_mono) (rule assms(3)[OF ahead_ahead[OF assms(2)]])
qed

lemma within_reads: "reads m \<Longrightarrow> within I R m"
  by (rule withinI) (auto intro: spec_reads)

lemma within_each: "(\<And>x. within I R (f x)) \<Longrightarrow> within I R (tx_each xs f)"
  by (intro withinI spec_each) (auto intro: within_spec)

lemma within_call:
  assumes "within I R m" and "I (sdb s)"
  shows "I (sdb (snd (call m ts ids s)))" "R (sdb s) (sdb (snd (call m ts ids s)))"
  using call_keeps[of "ahead I R (sdb s)" s m ts ids] assms
  by (auto simp: within_def ahead_def R_refl)

end

end
