(* ===== verification/Graph_Evidence.thy ===== *)
theory Graph_Evidence
  imports Graph_Schedule
begin

text \<open>
  What a caller that stores executions relies on: an operation keeps the identity, leaves the
  execution valid, raises the revision by one unless it changes nothing, and puts no failure
  evidence into a node but the one it was given.
\<close>

definition evidence :: "(AdapterFailure \<Rightarrow> bool) \<Rightarrow> GraphExecution \<Rightarrow> bool" where
  "evidence P x \<longleftrightarrow> (\<forall>e \<in> set (exec_nodes x). \<forall>f. node_failure e = Some f \<longrightarrow> P f)"

definition advances :: "(string \<Rightarrow> string) \<Rightarrow> (AdapterFailure \<Rightarrow> bool) \<Rightarrow> GraphExecution \<Rightarrow> GraphExecution \<Rightarrow> bool" where
  "advances H P x y \<longleftrightarrow>
     wf_execution H y \<and> exec_id y = exec_id x \<and> (exec_revision y = exec_revision x + 1 \<or> y = x) \<and>
     (evidence P x \<longrightarrow> evidence P y)"

lemma advancesI:
  assumes "wf_execution H x" and "effect x y" and "exec_revision y = exec_revision x + 1"
    and "evidence P x \<Longrightarrow> evidence P y"
  shows "advances H P x y"
  using assms effect_wf[OF assms(2,1)] by (auto simp: advances_def effect_def remapped_def)

lemma evidence_remapped:
  assumes "remapped F x y" and "evidence P x"
    and "\<And>e f. node_failure (F e) = Some f \<Longrightarrow> node_failure e = Some f \<or> P f"
  shows "evidence P y"
  using assms by (fastforce simp: evidence_def remapped_def)

lemma evidence_bump [simp]: "evidence P (bump_revision x) = evidence P x"
  by (simp add: evidence_def bump_revision_def)

lemma evidence_update_node:
  assumes "wf_execution H x" and "evidence P x" and "\<And>e. node_id (f e) = node_id e"
    and "\<And>e g. node_failure (f e) = Some g \<Longrightarrow> node_failure e = Some g \<or> P g"
  shows "evidence P (update_node i f x)"
    and "evidence P (block_dependents i (bump_revision (update_node i f x)))"
proof -
  show "evidence P (update_node i f x)"
    by (rule evidence_remapped[OF remapped_update_node[OF wf_executionD(2)[OF assms(1)] assms(3), of i] assms(2)])
      (auto simp: at_node_def split: if_splits dest: assms(4))
  show "evidence P (block_dependents i (bump_revision (update_node i f x)))"
    by (rule evidence_remapped[OF remapped_update_block[OF assms(1,3)] assms(2)])
      (auto simp: at_node_def block_in_def mark_blocked_def split: if_splits dest: assms(4))
qed

lemma claim_ready_advances:
  assumes "claim_ready owner limit x = Inr (cs, y)" and "wf_execution H x"
  shows "advances H P x y"
proof (cases "cs = []")
  case True
  note c = claim_ready_Ok[OF assms(2,1)]
  have "exec_nodes y = exec_nodes x"
    using c(4) True by (auto simp: remapped_def claim_in_def intro!: map_idI)
  then have "y = x" using c(4,5) True by (simp add: remapped_def)
  then show ?thesis using assms(2) by (simp add: advances_def)
next
  case False
  note c = claim_ready_Ok[OF assms(2,1)]
  have "evidence P x \<Longrightarrow> evidence P y"
    by (rule evidence_remapped[OF c(4)]) (auto simp: claim_in_def claimed_node_def split: if_splits)
  then show ?thesis
    using c(5) False by (intro advancesI[OF assms(2) claim_ready_effect[OF assms]]) auto
qed

lemma stage_node_advances:
  assumes "stage_node i owner r x = Inr y" and "wf_execution H x"
  shows "advances H P x y"
proof (rule advancesI[OF assms(2) stage_node_OkD(5,6)[OF assms]])
  have "y = bump_revision (update_node i (staged_node owner r) x)"
    using assms(1) by (auto simp: stage_node_def and_then_eq_Ok split: if_splits)
  then show "evidence P x \<Longrightarrow> evidence P y"
    by (auto intro!: evidence_update_node(1)[OF assms(2)] simp: staged_node_def)
qed

lemma claim_node_advances:
  assumes "claim_node i owner x = Inr y" and "wf_execution H x"
  shows "advances H P x y"
proof (rule advancesI[OF assms(2) claim_node_OkD(4,5)[OF assms]])
  have "y = bump_revision (update_node i (claimed_node owner) x)"
    using assms(1) by (auto simp: claim_node_def and_then_eq_Ok split: if_splits)
  then show "evidence P x \<Longrightarrow> evidence P y"
    by (auto intro!: evidence_update_node(1)[OF assms(2)] simp: claimed_node_def)
qed

text \<open>Binding a run leaves the revision to the claim before it.\<close>

lemma bind_run_evidence:
  assumes "bind_run i owner r x = Inr y" and "wf_execution H x" and "evidence P x"
  shows "evidence P y"
proof -
  have "y = update_node i (\<lambda>e. e\<lparr>node_run_id := Some r\<rparr>) x"
    using assms(1) by (auto simp: bind_run_def and_then_eq_Ok split: if_splits)
  then show ?thesis by (auto intro!: evidence_update_node(1)[OF assms(2,3)])
qed

lemma claim_bind_advances:
  assumes "claim_node i owner x = Inr y" and "bind_run i owner r y = Inr z" and "wf_execution H x"
  shows "advances H P x z"
proof -
  have "exec_revision y = exec_revision x + 1" by (rule claim_node_OkD(5)[OF assms(1,3)])
  moreover have y: "advances H P x y" by (rule claim_node_advances[OF assms(1,3)])
  ultimately show ?thesis
    using bind_run_OkD(2,3)[OF assms(2), of H] effect_wf[of y z H] bind_run_evidence[OF assms(2), of H P]
    by (auto simp: advances_def effect_def remapped_def)
qed

lemma activate_staged_node_advances:
  assumes "activate_staged_node i owner r x = Inr y" and "wf_execution H x"
  shows "advances H P x y"
proof (rule advancesI[OF assms(2) activate_staged_node_OkD(2,3)[OF assms]])
  have "y = bump_revision (update_node i (\<lambda>e. e\<lparr>node_state := Running, node_revision := node_revision e + 1\<rparr>) x)"
    using assms(1) by (auto simp: activate_staged_node_def and_then_eq_Ok split: if_splits)
  then show "evidence P x \<Longrightarrow> evidence P y"
    by (auto intro!: evidence_update_node(1)[OF assms(2)])
qed

lemma cancel_staged_node_advances:
  assumes "cancel_staged_node i owner r x = Inr y" and "wf_execution H x"
  shows "advances H P x y"
proof (rule advancesI[OF assms(2) cancel_staged_node_OkD(2,3)[OF assms]])
  have "y = block_dependents i (bump_revision (update_node i (\<lambda>e. e\<lparr>node_state := Cancelled,
      node_failure := None, node_revision := node_revision e + 1\<rparr>) x))"
    using assms(1) by (auto simp: cancel_staged_node_def and_then_eq_Ok split: if_splits)
  then show "evidence P x \<Longrightarrow> evidence P y"
    by (auto intro!: evidence_update_node(2)[OF assms(2)])
qed

lemma finish_terminal_advances:
  assumes "finish_terminal i owner s f x = Inr y" and "wf_execution H x"
    and "\<And>g. f = Some g \<Longrightarrow> P g"
  shows "advances H P x y" "exec_revision y = exec_revision x + 1"
proof -
  show "exec_revision y = exec_revision x + 1" by (rule finish_terminal_OkD(4)[OF assms(1,2)])
  let ?f = "\<lambda>e. e\<lparr>node_state := s, node_owner := (if s \<in> {Succeeded, Failed, Cancelled}
      then Some owner else None), node_failure := f, node_revision := node_revision e + 1\<rparr>"
  let ?y = "bump_revision (update_node i ?f x)"
  have "y = (if s \<in> {Failed, Cancelled, Blocked} then block_dependents i ?y else ?y)"
    using assms(1) by (auto simp: finish_terminal_def and_then_eq_Ok Let_def split: if_splits)
  moreover have "evidence P ?y" "evidence P (block_dependents i ?y)" if "evidence P x"
    using evidence_update_node[OF assms(2) that, of ?f i] assms(3) by auto
  ultimately show "advances H P x y"
    using advancesI[OF assms(2) finish_terminal_OkD(3,4)[OF assms(1,2)], of P] by auto
qed

lemma complete_advances:
  "complete i owner ok x = Inr y \<Longrightarrow> wf_execution H x \<Longrightarrow> advances H P x y"
  by (auto simp: complete_finish_terminal intro: finish_terminal_advances(1))

lemma record_output_advances:
  assumes "record_output H out x = Inr y" and "wf_execution H x"
  shows "wf_execution H y" "exec_id y = exec_id x" "exec_revision y = exec_revision x"
    "evidence P y = evidence P x"
  using record_output_OkD(1,2)[OF assms] by (auto simp: evidence_def)

lemma retry_failed_advances:
  assumes "retry_failed i x = Some (Inr y)" and "wf_execution H x"
  shows "advances H P x y"
proof -
  obtain R where R: "remapped (reopen_in (insert i R)) x y" using retry_failed_OkD(2)[OF assms] by blast
  have "evidence P x \<Longrightarrow> evidence P y"
    by (rule evidence_remapped[OF R]) (auto simp: reopen_in_def reopened_node_def split: if_splits)
  then show ?thesis
    by (rule advancesI[OF assms(2) retry_failed_effect[OF assms] retry_failed_OkD(4)[OF assms]])
qed

lemma reconcile_advances:
  assumes "wf_execution H x"
  shows "advances H P x (snd (reconcile_after_restart x))"
    "fst (reconcile_after_restart x) \<noteq> 0 \<Longrightarrow>
     exec_revision (snd (reconcile_after_restart x)) = exec_revision x + 1"
proof -
  let ?y = "snd (reconcile_after_restart x)"
  have n: "fst (reconcile_after_restart x) \<noteq> 0 \<Longrightarrow> exec_revision ?y = exec_revision x + 1"
    by (simp add: reconcile_after_restart_def Let_def)
  then show "fst (reconcile_after_restart x) \<noteq> 0 \<Longrightarrow> exec_revision ?y = exec_revision x + 1" .
  have same: "?y = x" if "fst (reconcile_after_restart x) = 0"
    using that by (simp add: reconcile_after_restart_def Let_def filter_empty_conv map_idI reconcile_node_def)
  have "evidence P x \<Longrightarrow> evidence P ?y"
    by (rule evidence_remapped[where F = reconcile_node])
      (auto simp: reconcile_after_restart_def Let_def remapped_def bump_revision_def reconcile_node_def split: if_splits)
  then show "advances H P x ?y"
    using advancesI[OF assms reconcile_effect(1)[OF assms]] n same assms
    by (cases "fst (reconcile_after_restart x) = 0") (auto simp: advances_def)
qed

end
