(* ===== verification/Store_Invariant.thy ===== *)
theory Store_Invariant
  imports Store_Executor Store_Logic Graph_Evidence
begin

text \<open>
  What the daemon's database always satisfies, and how it may change: the invariant of the tables
  and the relation between an earlier and a later database. Both are conjunctions of one
  predicate per table, so that a write to one table leaves the others' parts alone.
\<close>

section \<open>Tables that grow\<close>

definition rows_follow :: "('a \<Rightarrow> 'a \<Rightarrow> bool) \<Rightarrow> 'a list \<Rightarrow> 'a list \<Rightarrow> bool" where
  "rows_follow r xs ys \<longleftrightarrow> length xs \<le> length ys \<and> (\<forall>i < length xs. r (xs ! i) (ys ! i))"

lemma rows_follow_refl: "(\<And>x. r x x) \<Longrightarrow> rows_follow r xs xs"
  by (simp add: rows_follow_def)

lemma rows_follow_trans:
  "(\<And>x y z. r x y \<Longrightarrow> r y z \<Longrightarrow> r x z) \<Longrightarrow> rows_follow r xs ys \<Longrightarrow> rows_follow r ys zs \<Longrightarrow> rows_follow r xs zs"
  unfolding rows_follow_def by (meson le_trans less_le_trans)

lemma rows_follow_append: "(\<And>x. r x x) \<Longrightarrow> rows_follow r xs (xs @ ys)"
  by (simp add: rows_follow_def nth_append)

lemma rows_follow_map: "(\<And>x. x \<in> set xs \<Longrightarrow> r x (f x)) \<Longrightarrow> rows_follow r xs (map f xs)"
  by (simp add: rows_follow_def)

lemma rows_followD: "rows_follow r xs ys \<Longrightarrow> x \<in> set xs \<Longrightarrow> \<exists>y \<in> set ys. r x y"
  unfolding rows_follow_def by (metis in_set_conv_nth order.strict_trans2)

section \<open>Rows\<close>

definition graph_step :: "graph_row \<Rightarrow> graph_row \<Rightarrow> bool" where
  "graph_step r s \<longleftrightarrow> gr_id s = gr_id r \<and>
     (gr_revision r < gr_revision s \<or> gr_revision s = gr_revision r \<and> gr_execution s = gr_execution r)"

definition approval_step :: "approval_row \<Rightarrow> approval_row \<Rightarrow> bool" where
  "approval_step a b \<longleftrightarrow>
     aq_request_id b = aq_request_id a \<and> aq_request_hash b = aq_request_hash a \<and>
     aq_request b = aq_request a \<and> aq_expires_at_ms b = aq_expires_at_ms a \<and>
     (aq_decision a \<noteq> None \<longrightarrow> b = a)"

definition grant_step :: "grant_row \<Rightarrow> grant_row \<Rightarrow> bool" where
  "grant_step g h \<longleftrightarrow>
     g_request_id h = g_request_id g \<and> g_issued_at_ms h = g_issued_at_ms g \<and>
     (g_consumed_at_ms g \<noteq> None \<or> g_revoked_at_ms g \<noteq> None \<longrightarrow> h = g)"

text \<open>The life of a staged launch.\<close>

inductive launch_step :: "StagedLaunchState \<Rightarrow> StagedLaunchState \<Rightarrow> bool" where
  approved: "launch_step Staged_AwaitingApproval Staged_Ready"
| denied_or_expired: "launch_step Staged_AwaitingApproval Staged_Cancelled"
| withdrawn: "launch_step Staged_Ready Staged_Cancelled"
| claimed: "launch_step Staged_Ready Staged_Dispatching"
| given_up: "launch_step Staged_Dispatching Staged_Uncertain"

code_pred launch_step .

inductive_cases launch_step_AwaitingE: "launch_step Staged_AwaitingApproval t"
inductive_cases launch_step_ReadyE: "launch_step Staged_Ready t"
inductive_cases launch_step_DispatchingE: "launch_step Staged_Dispatching t"
inductive_cases launch_step_CancelledE: "launch_step Staged_Cancelled t"
inductive_cases launch_step_UncertainE: "launch_step Staged_Uncertain t"

definition staged_step :: "staged_row \<Rightarrow> staged_row \<Rightarrow> bool" where
  "staged_step s t \<longleftrightarrow>
     sg_run_id t = sg_run_id s \<and> sg_request_id t = sg_request_id s \<and> sg_staged_at_ms t = sg_staged_at_ms s \<and>
     launch_step\<^sup>*\<^sup>* (sg_state s) (sg_state t)"

definition node_run_step :: "node_run_row \<Rightarrow> node_run_row \<Rightarrow> bool" where
  "node_run_step r q \<longleftrightarrow>
     nr_execution_id q = nr_execution_id r \<and> nr_node_id q = nr_node_id r \<and> nr_run_id q = nr_run_id r \<and>
     nr_attempt q = nr_attempt r \<and> nr_created_at q = nr_created_at r \<and> nr_launch_identity q = nr_launch_identity r"

lemmas row_step_defs = graph_step_def approval_step_def grant_step_def staged_step_def node_run_step_def

lemma row_steps_refl:
  "graph_step r r" "approval_step a a" "grant_step g g" "staged_step s s" "node_run_step n n"
  by (auto simp: row_step_defs)

lemma row_steps_trans:
  "graph_step r1 r2 \<Longrightarrow> graph_step r2 r3 \<Longrightarrow> graph_step r1 r3"
  "approval_step a1 a2 \<Longrightarrow> approval_step a2 a3 \<Longrightarrow> approval_step a1 a3"
  "grant_step g1 g2 \<Longrightarrow> grant_step g2 g3 \<Longrightarrow> grant_step g1 g3"
  "staged_step s1 s2 \<Longrightarrow> staged_step s2 s3 \<Longrightarrow> staged_step s1 s3"
  "node_run_step n1 n2 \<Longrightarrow> node_run_step n2 n3 \<Longrightarrow> node_run_step n1 n3"
  by (auto simp: row_step_defs)

section \<open>History\<close>

text \<open>A catalog with a revision: a change raises the revision.\<close>

definition newer :: "u64 \<Rightarrow> 'a \<Rightarrow> u64 \<Rightarrow> 'a \<Rightarrow> bool" where
  "newer r c r' c' \<longleftrightarrow> r < r' \<or> r' = r \<and> c' = c"

lemma newer_refl: "newer r c r c"
  by (simp add: newer_def)

lemma newer_trans: "newer r c r' c' \<Longrightarrow> newer r' c' r'' c'' \<Longrightarrow> newer r c r'' c''"
  by (auto simp: newer_def)

definition follows :: "db \<Rightarrow> db \<Rightarrow> bool" where
  "follows d e \<longleftrightarrow>
     d_daemon_id e = d_daemon_id d \<and>
     d_revision d \<le> d_revision e \<and>
     newer (d_catalog_revision d) (d_catalog d) (d_catalog_revision e) (d_catalog e) \<and>
     newer (d_m3_revision d) (d_m3 d) (d_m3_revision e) (d_m3 e) \<and>
     rows_follow graph_step (d_graphs d) (d_graphs e) \<and>
     rows_follow node_run_step (d_node_runs d) (d_node_runs e) \<and>
     rows_follow (=) (d_outputs d) (d_outputs e) \<and>
     rows_follow approval_step (d_approvals d) (d_approvals e) \<and>
     rows_follow grant_step (d_grants d) (d_grants e) \<and>
     rows_follow (=) (d_plans d) (d_plans e) \<and>
     rows_follow staged_step (d_staged d) (d_staged e) \<and>
     rows_follow (=) (d_claims d) (d_claims e) \<and>
     rows_follow (=) (d_events d) (d_events e) \<and>
     rows_follow (=) (d_checkpoints d) (d_checkpoints e)"

lemma follows_refl: "follows d d"
  by (auto simp: follows_def newer_refl intro: rows_follow_refl row_steps_refl)

lemma follows_trans:
  assumes "follows a b" and "follows b c"
  shows "follows a c"
proof -
  have eq: "rows_follow (=) xs ys \<Longrightarrow> rows_follow (=) ys zs \<Longrightarrow> rows_follow (=) xs zs"
    for xs ys zs :: "'x list" by (rule rows_follow_trans) auto
  show ?thesis
    using assms unfolding follows_def
    by (intro conjI) (auto elim: newer_trans intro: eq rows_follow_trans[where ys = "d_graphs b"]
      rows_follow_trans[where ys = "d_node_runs b"] rows_follow_trans[where ys = "d_approvals b"]
      rows_follow_trans[where ys = "d_grants b"] rows_follow_trans[where ys = "d_staged b"]
      dest: row_steps_trans)
qed

section \<open>The invariant\<close>

definition revision_ok :: "u64 \<Rightarrow> bool" where
  "revision_ok r \<longleftrightarrow> unat r < 2 ^ 63"

definition journal_ok :: "EventEnvelope list \<Rightarrow> bool" where
  "journal_ok es \<longleftrightarrow> map (\<lambda>e. unat (ev_sequence e)) es = [1..<Suc (length es)]"

text \<open>Failure evidence without anything a provider wrote.\<close>

definition clean_failure :: "AdapterFailure \<Rightarrow> bool" where
  "clean_failure f \<longleftrightarrow> af_provider_code f = None \<and> af_redacted_detail f = None \<and>
     af_message_key f \<in> set MESSAGE_KEYS \<union> range failure_key"

lemma sanitize_clean: "clean_failure (sanitize_adapter_failure f)"
  by (simp add: clean_failure_def sanitize_adapter_failure_def)

definition graph_row_ok :: "externals \<Rightarrow> graph_row \<Rightarrow> bool" where
  "graph_row_ok E r \<longleftrightarrow> gr_id r = exec_id (gr_execution r) \<and> gr_revision r = exec_revision (gr_execution r) \<and>
     revision_ok (gr_revision r) \<and> wf_execution (sha256 E) (gr_execution r) \<and>
     evidence clean_failure (gr_execution r)"

definition graphs_ok :: "externals \<Rightarrow> graph_row list \<Rightarrow> bool" where
  "graphs_ok E rs \<longleftrightarrow> distinct (map gr_id rs) \<and> (\<forall>r \<in> set rs. graph_row_ok E r)"

definition decided :: "approval_row \<Rightarrow> ApprovalDecisionKind \<Rightarrow> u64 \<Rightarrow> bool" where
  "decided a kind at \<longleftrightarrow> (\<exists>dec. aq_decision a = Some dec \<and> dec_kind dec = kind \<and> decided_at_ms dec = at)"

definition approval_ok :: "approval_row \<Rightarrow> bool" where
  "approval_ok a \<longleftrightarrow> aq_request_id a = req_id (aq_request a) \<and>
     (\<forall>dec. aq_decision a = Some dec \<longrightarrow> verify_decision (aq_request a) dec = Ok ())"

definition approvals_ok :: "approval_row list \<Rightarrow> bool" where
  "approvals_ok as \<longleftrightarrow> distinct (map aq_request_id as) \<and> (\<forall>a \<in> set as. approval_ok a)"

text \<open>A grant belongs to an approved request and carries the time of the decision.\<close>

definition granted :: "approval_row list \<Rightarrow> grant_row \<Rightarrow> bool" where
  "granted as g \<longleftrightarrow> (\<exists>a \<in> set as. aq_request_id a = g_request_id g \<and> decided a Decision_Approve (g_issued_at_ms g))"

definition grants_ok :: "approval_row list \<Rightarrow> grant_row list \<Rightarrow> bool" where
  "grants_ok as gs \<longleftrightarrow> distinct (map g_request_id gs) \<and> (\<forall>g \<in> set gs. grant_ok g \<and> granted as g)"

text \<open>A launch is only dispatched with a consumed grant.\<close>

definition launch_ok :: "grant_row list \<Rightarrow> staged_row \<Rightarrow> bool" where
  "launch_ok gs s \<longleftrightarrow> (sg_state s \<in> {Staged_Dispatching, Staged_Uncertain} \<longrightarrow>
     (\<exists>g \<in> set gs. g_request_id g = sg_request_id s \<and> g_consumed_at_ms g \<noteq> None))"

definition launches_ok :: "grant_row list \<Rightarrow> staged_row list \<Rightarrow> bool" where
  "launches_ok gs ss \<longleftrightarrow> distinct (map sg_run_id ss) \<and> distinct (map sg_request_id ss) \<and>
     (\<forall>s \<in> set ss. staged_ok s \<and> launch_ok gs s)"

definition store_ok :: "externals \<Rightarrow> db \<Rightarrow> bool" where
  "store_ok E d \<longleftrightarrow>
     revision_ok (d_revision d) \<and> revision_ok (d_catalog_revision d) \<and> revision_ok (d_m3_revision d) \<and>
     wf_catalog (d_catalog d) \<and> journal_ok (d_events d) \<and> graphs_ok E (d_graphs d) \<and>
     approvals_ok (d_approvals d) \<and> grants_ok (d_approvals d) (d_grants d) \<and>
     launches_ok (d_grants d) (d_staged d) \<and> distinct (map nr_run_id (d_node_runs d))"

abbreviation "store_ahead E \<equiv> ahead (store_ok E) follows"
abbreviation "store_within E \<equiv> within (store_ok E) follows"

interpretation db: tx_system "store_ok E" follows for E
  by unfold_locales (auto intro: follows_refl follows_trans)

section \<open>Reading\<close>

lemma spec_sql_int [spec_rules]: "(revision_ok n \<Longrightarrow> Q () d) \<Longrightarrow> spec (sql_int n) d Q"
  by (auto simp: sql_int_def fits_i64_def revision_ok_def intro: spec_rules)

lemma spec_connection [spec_rules]: "Q () d \<Longrightarrow> spec connection d Q"
  by (auto simp: connection_def intro: spec_rules)

lemma spec_timestamp [spec_rules]: "(\<And>t. Q t d) \<Longrightarrow> spec timestamp d Q"
  by (auto simp: timestamp_def intro!: spec_rules)

lemma spec_now_ms [spec_rules]: "(\<And>n. revision_ok n \<Longrightarrow> Q n d) \<Longrightarrow> spec now_ms d Q"
  by (auto simp: now_ms_def nat_fits_i64_def revision_ok_def unat_of_nat take_bit_nat_eq_self intro!: spec_rules)

lemma spec_next_revision [spec_rules]: "(\<And>r. r = n + 1 \<Longrightarrow> n < r \<Longrightarrow> Q r d) \<Longrightarrow> spec (next_revision n) d Q"
  by (auto simp: next_revision_def checked_add_def word_less_nat_alt unat_word_ariths intro!: spec_rules split: if_splits)

lemma spec_check_revision [spec_rules]: "(actual = expected \<Longrightarrow> Q () d) \<Longrightarrow> spec (check_revision expected actual) d Q"
  by (auto simp: check_revision_def intro: spec_rules)

lemma spec_entity_metadata [spec_rules]: "(\<And>m. md_id m = i \<Longrightarrow> Q m d) \<Longrightarrow> spec (entity_metadata i src) d Q"
  by (auto simp: entity_metadata_def intro!: spec_rules)

lemma execution_validate_wf: "execution_validate H x = Inr u \<longleftrightarrow> wf_execution H x"
  using execution_validate_iff_wf[of H x] by (cases "execution_validate H x") auto

lemma catalog_validate_wf: "catalog_validate c = Inr u \<longleftrightarrow> wf_catalog c"
  using validate_iff_wf[of c] by (cases "catalog_validate c") auto

lemma reads_ledger: "reads (validate_graph_output_ledger x)"
  unfolding reads_def validate_graph_output_ledger_def
  by (intro allI spec_rules) (auto intro!: spec_reads[OF reads_each] spec_rules simp: reads_def)

lemma spec_decode [spec_rules]: "(wf_execution (sha256 E) x \<Longrightarrow> Q () d) \<Longrightarrow> spec (decode_execution E x) d Q"
  unfolding decode_execution_def
  by (intro spec_rules spec_reads[OF reads_ledger]) (simp add: execution_validate_wf)

lemma reads_decode: "reads (decode_execution E x)"
  by (simp add: reads_def spec_decode)

lemma set_graph_order [simp]: "set (graph_order rs) = set rs"
  by (simp add: graph_order_def)

lemma spec_load_graphs [spec_rules]:
  assumes "\<And>xs. set xs = gr_execution ` set (d_graphs d) \<Longrightarrow> Q xs d"
  shows "spec (load_graph_executions E) d Q"
  unfolding load_graph_executions_def
  by (intro spec_rules spec_reads[OF reads_each] reads_decode) (simp add: assms)

lemma spec_select_graph [spec_rules]:
  "(\<And>r. graph_row_at i d = Some r \<Longrightarrow> Q (gr_revision r, gr_execution r) d) \<Longrightarrow> spec (select_graph i) d Q"
  by (auto simp: select_graph_def intro!: spec_rules)

lemma spec_touch_run [spec_rules]:
  "(\<And>m. Q ((f r)\<lparr>run_metadata := m\<rparr>) d) \<Longrightarrow> spec (touch_run now f r) d Q"
  by (auto simp: touch_run_def touch_metadata_def intro!: spec_rules)

lemma spec_touch_session [spec_rules]:
  "(\<And>m. Q ((f r)\<lparr>ses_metadata := m\<rparr>) d) \<Longrightarrow> spec (touch_session now f r) d Q"
  by (auto simp: touch_session_def touch_metadata_def intro!: spec_rules)

lemma spec_load_catalog_row [spec_rules]:
  "(wf_catalog (d_catalog d) \<Longrightarrow> Q (d_catalog_revision d, d_catalog d) d) \<Longrightarrow> spec load_catalog_row d Q"
  unfolding load_catalog_row_def by (intro spec_rules) (auto simp: catalog_validate_wf)

end
