(* ===== verification/Store_Writes.thy ===== *)
theory Store_Writes
  imports Store_Invariant
begin

text \<open>
  The checks that read the store, and the rules for its writes: under what condition a write
  keeps the invariant and the history. A rule passes the database it leaves on, together with the
  fact that it is \<open>store_ahead\<close> of the one the request started in.
\<close>

named_theorems ahead_rules \<comment> \<open>writes that keep the invariant and the history\<close>

lemma ball_map: "(\<And>x. x \<in> set xs \<Longrightarrow> P (f x)) \<Longrightarrow> \<forall>y \<in> set (map f xs). P y"
  by auto

section \<open>Checks\<close>

lemma spec_load_launch_identity [spec_rules]: "(\<And>v. Q v d) \<Longrightarrow> spec (load_launch_identity i) d Q"
  unfolding load_launch_identity_def
  by (intro spec_rules) (auto split: option.splits stored.splits intro: spec_rules)

lemma spec_plan_load [spec_rules]: "(\<And>p. plan_run_id p = i \<Longrightarrow> Q p d) \<Longrightarrow> spec (plan_load E i) d Q"
  unfolding plan_load_def by (intro spec_rules) auto

lemma reads_validate_staged_graph: "reads (validate_staged_graph E p)"
  unfolding reads_def validate_staged_graph_def by (intro allI spec_rules) auto

lemma reads_decision_state: "reads (validate_decision_and_grant_state r s dec)"
  unfolding reads_def validate_decision_and_grant_state_def
  by (intro allI spec_rules) (auto split: StagedLaunchState.splits option.splits prod.splits intro!: spec_rules)

lemma reads_validate_staged_context: "reads (validate_staged_context E run v l)"
  unfolding reads_def validate_staged_context_def
  by (intro allI spec_rules spec_reads[OF reads_validate_staged_graph] spec_reads[OF reads_decision_state]) auto

lemma reads_validate_m3_catalog: "reads (validate_m3_catalog E m c)"
  unfolding reads_def validate_m3_catalog_def by (intro allI spec_rules) auto

lemma reads_validate_bound_attempt: "reads (validate_bound_attempt E r c m run role awaiting row)"
  unfolding reads_def validate_bound_attempt_def by (intro allI spec_rules) auto

lemma reads_validate_current_catalog: "reads (validate_current_catalog E r)"
  unfolding reads_def validate_current_catalog_def
  by (intro allI spec_rules spec_reads[OF reads_validate_m3_catalog] spec_reads[OF reads_validate_bound_attempt]) auto

lemma reads_validate_staged_run: "reads (validate_staged_run E run)"
  by (simp add: validate_staged_run_def reads_validate_staged_context)

lemmas spec_checks [spec_rules] =
  spec_reads[OF reads_validate_staged_graph] spec_reads[OF reads_validate_staged_context]
  spec_reads[OF reads_validate_staged_run] spec_reads[OF reads_validate_m3_catalog]
  spec_reads[OF reads_validate_current_catalog]

text \<open>What a loaded grant says about its row.\<close>

definition grant_record :: "externals \<Rightarrow> db \<Rightarrow> ApprovalRequestId \<Rightarrow> CredentialGrantRecord \<Rightarrow> bool" where
  "grant_record E d i record \<longleftrightarrow>
     (\<exists>g a. find_grant i d = Some g \<and> find_approval i d = Some a \<and>
        aq_request a = cgr_request record \<and> aq_decision a = Some (cgr_decision record) \<and>
        req_id (cgr_request record) = i \<and> dec_kind (cgr_decision record) = Decision_Approve \<and>
        validate_unchanged (encode_request E) (sha256 E) (cgr_request record) = Ok () \<and>
        verify_decision (cgr_request record) (cgr_decision record) = Ok () \<and>
        credential_binding (scope (req_action (cgr_request record))) \<noteq> None \<and>
        cgr_issued_at_ms record = g_issued_at_ms g \<and> cgr_consumed_at_ms record = g_consumed_at_ms g \<and>
        cgr_revoked_at_ms record = g_revoked_at_ms g \<and> cgr_revoked_by record = g_revoked_by g)"

lemma spec_grant_load [spec_rules]:
  assumes "\<And>record. grant_record E d i record \<Longrightarrow> Q record d"
  shows "spec (grant_load E i) d Q"
  unfolding grant_load_def by (intro spec_rules, rule assms)
    (auto simp: grant_record_def dest!: sym[of "Some _" "find_grant _ _"] sym[of "Some _" "find_approval _ _"])

section \<open>The journal\<close>

lemma last_sequence_length:
  assumes "journal_ok es"
  shows "unat (last_sequence es) = length es"
proof -
  have *: "unat (fold max (map ev_sequence es) m) = fold max (map (\<lambda>e. unat (ev_sequence e)) es) (unat m)" for m
    by (induction es arbitrary: m) (auto simp: max_def word_le_nat_alt)
  have f: "fold max [Suc k..<Suc (k + n)] k = k + n" for k n
    by (induction n) (auto simp: max_def)
  from assms have "map (\<lambda>e. unat (ev_sequence e)) es = [Suc 0..<Suc (0 + length es)]"
    by (simp add: journal_ok_def)
  then show ?thesis using *[of 0] f[of 0 "length es"] by (simp add: last_sequence_def)
qed

lemma journal_ok_snoc:
  assumes "journal_ok es" and "ev_sequence e = last_sequence es + 1" and "unat (last_sequence es) + 1 < 2 ^ 63"
  shows "journal_ok (es @ [e])"
proof -
  have "unat (ev_sequence e) = Suc (length es)"
    using assms last_sequence_length[OF assms(1)] by (simp add: unat_word_ariths)
  then show ?thesis using assms(1) by (simp add: journal_ok_def)
qed

lemma spec_insert_event:
  "(\<And>e :: EventEnvelope. ev_sequence e = last_sequence (d_events d) + 1 \<Longrightarrow> unat (last_sequence (d_events d)) + 1 < 2 ^ 63 \<Longrightarrow>
     ev_event_type e = t \<Longrightarrow> ev_payload_json e = p \<Longrightarrow> ev_event_id e \<notin> ev_event_id ` set (d_events d) \<Longrightarrow>
     Q e (d\<lparr>d_events := d_events d @ [e]\<rparr>)) \<Longrightarrow>
   spec (insert_event t p) d Q"
  unfolding insert_event_def fits_i64_Suc by (intro spec_rules) auto

lemma ahead_table:
  assumes "store_ahead E d0 d" and "store_ok E d \<Longrightarrow> store_ok E d'" and "store_ok E d \<Longrightarrow> follows d d'"
    and "store_ahead E d0 d' \<Longrightarrow> Q"
  shows Q
  using assms db.ahead_trans[OF assms(1)] by (auto simp: ahead_def)

lemma follows_append_event: "follows d (d\<lparr>d_events := d_events d @ es\<rparr>)"
  by (auto simp: follows_def newer_refl intro: rows_follow_refl rows_follow_append row_steps_refl)

lemma ahead_insert_event [ahead_rules]:
  assumes "store_ahead E d0 d"
    and "\<And>e :: EventEnvelope. \<And>d'. d' = d\<lparr>d_events := d_events d @ [e]\<rparr> \<Longrightarrow> store_ahead E d0 d' \<Longrightarrow> Q e d'"
  shows "spec (insert_event t p) d Q"
proof (rule spec_insert_event)
  fix e :: EventEnvelope
  assume e: "ev_sequence e = last_sequence (d_events d) + 1" "unat (last_sequence (d_events d)) + 1 < 2 ^ 63"
  show "Q e (d\<lparr>d_events := d_events d @ [e]\<rparr>)"
    by (rule ahead_table[OF assms(1) _ follows_append_event[of d "[e]"] assms(2)[OF refl]])
      (use e in \<open>simp add: store_ok_def journal_ok_snoc\<close>)
qed

section \<open>Catalogs and daemon state\<close>

lemma revision_succ: "revision_ok r \<Longrightarrow> r < r + 1"
  by (simp add: revision_ok_def word_less_nat_alt unat_word_ariths)

lemmas follows_rows = rows_follow_refl rows_follow_append row_steps_refl newer_refl

lemma ahead_write_daemon [ahead_rules]:
  assumes "store_ahead E d0 d" and "d_revision d \<le> r"
    and "\<And>d'. d' = d\<lparr>d_revision := r, d_lifecycle := l\<rparr> \<Longrightarrow> store_ahead E d0 d' \<Longrightarrow> Q () d'"
  shows "spec (write_daemon r l) d Q"
  unfolding write_daemon_def
proof (intro spec_rules)
  fix d' assume r: "revision_ok r" and d': "d' = d\<lparr>d_revision := r, d_lifecycle := l\<rparr>"
  show "Q () d'"
    by (rule ahead_table[OF assms(1) _ _ assms(3)[OF d']])
      (use r assms(2) in \<open>auto simp: d' store_ok_def follows_def intro: follows_rows\<close>)
qed

lemma ahead_write_catalog [ahead_rules]:
  assumes "store_ahead E d0 d" and "d_catalog_revision d < r" and "wf_catalog c"
    and "\<And>d'. d' = d\<lparr>d_catalog_revision := r, d_catalog := c, d_catalog_updated_at := t\<rparr> \<Longrightarrow>
      store_ahead E d0 d' \<Longrightarrow> Q () d'"
  shows "spec (write_catalog r c t) d Q"
  unfolding write_catalog_def
proof (intro spec_rules)
  fix d' assume r: "revision_ok r"
    and d': "d' = d\<lparr>d_catalog_revision := r, d_catalog := c, d_catalog_updated_at := t\<rparr>"
  show "Q () d'"
    by (rule ahead_table[OF assms(1) _ _ assms(4)[OF d']])
      (use r assms(2,3) in \<open>auto simp: d' store_ok_def follows_def newer_def[of "d_catalog_revision d"] intro: follows_rows\<close>)
qed

lemma ahead_write_m3 [ahead_rules]:
  assumes "store_ahead E d0 d" and "d_m3_revision d < r"
    and "\<And>d'. d' = d\<lparr>d_m3_revision := r, d_m3 := m, d_m3_updated_at := t\<rparr> \<Longrightarrow>
      store_ahead E d0 d' \<Longrightarrow> Q () d'"
  shows "spec (write_m3 r m t) d Q"
  unfolding write_m3_def
proof (intro spec_rules)
  fix d' assume r: "revision_ok r" and d': "d' = d\<lparr>d_m3_revision := r, d_m3 := m, d_m3_updated_at := t\<rparr>"
  show "Q () d'"
    by (rule ahead_table[OF assms(1) _ _ assms(3)[OF d']])
      (use r assms(2) in \<open>auto simp: d' store_ok_def follows_def newer_def[of "d_m3_revision d"] intro: follows_rows\<close>)
qed

section \<open>Executions\<close>

lemma graph_row_at_mem: "graph_row_at i d = Some r \<Longrightarrow> r \<in> set (d_graphs d) \<and> gr_id r = i"
  by (auto simp: graph_row_at_def find_Some_iff)

lemma store_graph_row:
  assumes "store_ok E d" and "graph_row_at i d = Some r"
  shows "graph_row_ok E r" "wf_execution (sha256 E) (gr_execution r)" "exec_id (gr_execution r) = i"
    "gr_revision r = exec_revision (gr_execution r)"
  using assms graph_row_at_mem[OF assms(2)] by (auto simp: store_ok_def graphs_ok_def graph_row_ok_def)

lemma advanced_row:
  assumes "graph_row_ok E r" and "advances (sha256 E) clean_failure (gr_execution r) x"
    and "revision_ok (exec_revision x)"
  shows "graph_row_ok E (r\<lparr>gr_revision := exec_revision x, gr_execution := x, gr_updated_at := t\<rparr>)"
    "graph_step r (r\<lparr>gr_revision := exec_revision x, gr_execution := x, gr_updated_at := t\<rparr>)"
  using assms revision_succ[of "exec_revision (gr_execution r)"]
  by (auto simp: graph_row_ok_def graph_step_def advances_def)

lemma ahead_write_graph_row:
  assumes "store_ahead E d0 d" and "graph_row_at i d = Some r"
    and "advances (sha256 E) clean_failure (gr_execution r) x"
    and "\<And>d'. d' = d\<lparr>d_graphs := map (\<lambda>r. if gr_id r = i
         then r\<lparr>gr_revision := exec_revision x, gr_execution := x, gr_updated_at := t\<rparr> else r) (d_graphs d)\<rparr> \<Longrightarrow>
      store_ahead E d0 d' \<Longrightarrow> Q () d'"
  shows "spec (write_graph i x t) d Q"
  unfolding write_graph_def
proof (intro spec_rules)
  let ?f = "\<lambda>r. if gr_id r = i then r\<lparr>gr_revision := exec_revision x, gr_execution := x, gr_updated_at := t\<rparr> else r"
  fix d' assume x: "revision_ok (exec_revision x)" and d': "d' = d\<lparr>d_graphs := map ?f (d_graphs d)\<rparr>"
  have only: "q = r" if "store_ok E d" "q \<in> set (d_graphs d)" "gr_id q = i" for q
    using that graph_row_at_mem[OF assms(2)] by (auto simp: store_ok_def graphs_ok_def distinct_map inj_on_def)
  have ids: "map gr_id (map ?f (d_graphs d)) = map gr_id (d_graphs d)" by simp
  show "Q () d'"
  proof (rule ahead_table[OF assms(1) _ _ assms(4)[OF d']])
    assume ok: "store_ok E d"
    have rows: "graph_row_ok E (?f q) \<and> graph_step q (?f q)" if "q \<in> set (d_graphs d)" for q
      using only[OF ok that] that ok advanced_row[OF store_graph_row(1)[OF ok assms(2)] assms(3) x]
      by (auto simp: store_ok_def graphs_ok_def row_steps_refl)
    have "\<forall>q \<in> set (map ?f (d_graphs d)). graph_row_ok E q"
      by (rule ball_map) (rule conjunct1[OF rows])
    then have "graphs_ok E (map ?f (d_graphs d))"
      using ok unfolding graphs_ok_def ids by (simp add: store_ok_def graphs_ok_def)
    then show "store_ok E d'" using ok by (simp add: d' store_ok_def)
    have "rows_follow graph_step (d_graphs d) (map ?f (d_graphs d))"
      using rows by (intro rows_follow_map) blast
    then show "follows d d'" by (auto simp: d' follows_def intro: follows_rows)
  qed
qed

lemma ahead_write_graph [ahead_rules]:
  assumes "store_ahead E d0 d" and "graph_row_at i d1 = Some r" and "d_graphs d = d_graphs d1"
    and "advances (sha256 E) clean_failure (gr_execution r) x"
    and "\<And>d' rs. d' = d\<lparr>d_graphs := rs\<rparr> \<Longrightarrow> store_ahead E d0 d' \<Longrightarrow> Q () d'"
  shows "spec (write_graph i x t) d Q"
  by (rule ahead_write_graph_row[OF assms(1) _ assms(4)]) (use assms(2,3,5) in \<open>auto simp: graph_row_at_def\<close>)

lemma ahead_new_graph:
  assumes "store_ahead E d0 d" and "exec_id x \<notin> gr_id ` set (d_graphs d)"
    and "wf_execution (sha256 E) x" and "revision_ok (exec_revision x)" and "evidence clean_failure x"
  shows "store_ahead E d0 (d\<lparr>d_graphs := d_graphs d @ [graph_row_of x t]\<rparr>)"
proof (rule ahead_table[OF assms(1), of "d\<lparr>d_graphs := d_graphs d @ [graph_row_of x t]\<rparr>"])
  show "store_ok E (d\<lparr>d_graphs := d_graphs d @ [graph_row_of x t]\<rparr>)" if "store_ok E d"
    using that assms by (auto simp: store_ok_def graphs_ok_def graph_row_of_def graph_row_ok_def)
qed (auto simp: follows_def intro: follows_rows)

lemma ahead_insert_graph [ahead_rules]:
  assumes "store_ahead E d0 d" and "wf_execution (sha256 E) x" and "evidence clean_failure x"
    and "\<And>d'. d' = d\<lparr>d_graphs := d_graphs d @ [graph_row_of x t]\<rparr> \<Longrightarrow> store_ahead E d0 d' \<Longrightarrow> Q () d'"
  shows "spec (insert_graph x t) d Q"
  unfolding insert_graph_def
  by (intro spec_rules, rule assms(4)) (auto intro!: ahead_new_graph assms(1-3))

section \<open>Tables of the launch\<close>

lemma ahead_append:
  assumes "store_ahead E d0 d"
  shows "store_ahead E d0 (d\<lparr>d_outputs := d_outputs d @ os\<rparr>)"
    "store_ahead E d0 (d\<lparr>d_plans := d_plans d @ ps\<rparr>)"
    "store_ahead E d0 (d\<lparr>d_claims := d_claims d @ cs\<rparr>)"
    "store_ahead E d0 (d\<lparr>d_checkpoints := d_checkpoints d @ ks\<rparr>)"
    "store_ahead E d0 (d\<lparr>d_lifecycle := l\<rparr>)"
  by (rule ahead_table[OF assms]; auto simp: store_ok_def follows_def intro: follows_rows)+

lemma ahead_insert_output [ahead_rules]:
  assumes "store_ahead E d0 d" and "\<And>d'. store_ahead E d0 d' \<Longrightarrow> Q () d'"
  shows "spec (insert_output i out t) d Q"
  unfolding insert_output_def by (intro spec_rules, rule assms(2)) (simp add: ahead_append[OF assms(1)])

lemma ahead_plan_insert [ahead_rules]:
  assumes "store_ahead E d0 d"
    and "\<And>d'. d' = d\<lparr>d_plans := d_plans d @ [\<lparr>pl_run_id = plan_run_id p, pl_plan = p, pl_hash = plan_hash E p\<rparr>]\<rparr> \<Longrightarrow>
      store_ahead E d0 d' \<Longrightarrow> Q () d'"
  shows "spec (plan_insert E p) d Q"
  unfolding plan_insert_def by (intro spec_rules, rule assms(2)) (simp_all add: ahead_append[OF assms(1)])

lemma ahead_insert_claim [ahead_rules]:
  assumes "store_ahead E d0 d"
    and "\<And>d'. d' = d\<lparr>d_claims := d_claims d @ [\<lparr>cl_run_id = run, cl_request_id = request, cl_claimed_at_ms = now\<rparr>]\<rparr> \<Longrightarrow>
      store_ahead E d0 d' \<Longrightarrow> Q () d'"
  shows "spec (insert_claim run request now) d Q"
  unfolding insert_claim_def by (intro spec_rules, rule assms(2)) (simp_all add: ahead_append[OF assms(1)])

lemma ahead_node_runs:
  assumes "store_ahead E d0 d" and "\<And>r. node_run_step r (f r)"
  shows "store_ahead E d0 (d\<lparr>d_node_runs := map f (d_node_runs d)\<rparr>)"
proof (rule ahead_table[OF assms(1), of "d\<lparr>d_node_runs := map f (d_node_runs d)\<rparr>"])
  have "map nr_run_id (map f (d_node_runs d)) = map nr_run_id (d_node_runs d)"
    using assms(2) by (simp add: node_run_step_def)
  then show "store_ok E (d\<lparr>d_node_runs := map f (d_node_runs d)\<rparr>)" if "store_ok E d"
    using that by (simp add: store_ok_def del: map_map)
qed (use assms(2) in \<open>auto simp: follows_def intro: follows_rows rows_follow_map\<close>)

lemma ahead_insert_node_run [ahead_rules]:
  assumes "store_ahead E d0 d"
    and "\<And>d'. d' = d\<lparr>d_node_runs := d_node_runs d @ [row]\<rparr> \<Longrightarrow> store_ahead E d0 d' \<Longrightarrow> Q () d'"
  shows "spec (insert_node_run row) d Q"
  unfolding insert_node_run_def
proof (intro spec_rules)
  fix v d' assume v: "v = (\<exists>r \<in> set (d_node_runs d). nr_run_id r = nr_run_id row \<or>
        nr_execution_id r = nr_execution_id row \<and> nr_node_id r = nr_node_id row \<and> nr_attempt r = nr_attempt row)"
    "\<not> v" and d': "d' = d\<lparr>d_node_runs := d_node_runs d @ [row]\<rparr>"
  show "Q () d'"
    by (rule ahead_table[OF assms(1) _ _ assms(2)[OF d']])
      (use v in \<open>auto simp: d' store_ok_def follows_def intro: follows_rows\<close>)
qed

lemma ahead_finish_attempt [ahead_rules]:
  assumes "store_ahead E d0 d"
    and "\<And>n d' rs. d' = d\<lparr>d_node_runs := rs\<rparr> \<Longrightarrow> store_ahead E d0 d' \<Longrightarrow> Q n d'"
  shows "spec (finish_attempt i t) d Q"
  unfolding finish_attempt_def
  by (intro spec_rules, rule assms(2)) (auto intro!: ahead_node_runs[OF assms(1)] simp: node_run_step_def)

lemma ahead_finish_node_run [ahead_rules]:
  assumes "store_ahead E d0 d"
    and "\<And>n d' rs. d' = d\<lparr>d_node_runs := rs\<rparr> \<Longrightarrow> store_ahead E d0 d' \<Longrightarrow> Q n d'"
  shows "spec (finish_node_run i t st f) d Q"
  unfolding finish_node_run_def
  by (intro spec_rules, rule assms(2)) (auto intro!: ahead_node_runs[OF assms(1)] simp: node_run_step_def)

section \<open>Approvals and grants\<close>

lemma granted_mono: "(\<And>a. a \<in> set as \<Longrightarrow> aq_decision a \<noteq> None \<Longrightarrow> a \<in> set bs) \<Longrightarrow> granted as g \<Longrightarrow> granted bs g"
  unfolding granted_def decided_def by blast

lemma grants_ok_mono: "(\<And>a. a \<in> set as \<Longrightarrow> aq_decision a \<noteq> None \<Longrightarrow> a \<in> set bs) \<Longrightarrow> grants_ok as gs \<Longrightarrow> grants_ok bs gs"
  unfolding grants_ok_def using granted_mono[of as bs] by blast

lemma launch_ok_mono: "(\<And>g. g \<in> set gs \<Longrightarrow> g_consumed_at_ms g \<noteq> None \<Longrightarrow> g \<in> set hs) \<Longrightarrow> launch_ok gs s \<Longrightarrow> launch_ok hs s"
  unfolding launch_ok_def by blast

lemma launches_ok_mono: "(\<And>g. g \<in> set gs \<Longrightarrow> g_consumed_at_ms g \<noteq> None \<Longrightarrow> g \<in> set hs) \<Longrightarrow> launches_ok gs ss \<Longrightarrow> launches_ok hs ss"
  unfolding launches_ok_def using launch_ok_mono[of gs hs] by blast

lemma ahead_insert_approval [ahead_rules]:
  assumes "store_ahead E d0 d" and "\<not> approval_clash r d"
    and "\<And>d' row. d' = d\<lparr>d_approvals := d_approvals d @ [row]\<rparr> \<Longrightarrow> aq_request row = r \<Longrightarrow>
      aq_request_id row = req_id r \<Longrightarrow> aq_decision row = None \<Longrightarrow> store_ahead E d0 d' \<Longrightarrow> Q () d'"
  shows "spec (insert_approval r t) d Q"
  unfolding insert_approval_def
proof (intro spec_rules)
  let ?row = "\<lparr>aq_request_id = req_id r, aq_request_hash = request_hash r, aq_request = r,
    aq_expires_at_ms = expires_at_ms r, aq_decision = None, aq_created_at = t, aq_decided_at = None\<rparr>"
  fix d' assume d': "d' = d\<lparr>d_approvals := d_approvals d @ [?row]\<rparr>"
  have new: "req_id r \<notin> aq_request_id ` set (d_approvals d)" using assms(2) by (auto simp: approval_clash_def)
  show "Q () d'"
  proof (rule ahead_table[OF assms(1) _ _ assms(3)[OF d']])
    show "store_ok E d'" if "store_ok E d"
      using that new grants_ok_mono[of "d_approvals d" "d_approvals d @ [?row]" "d_grants d"]
      by (auto simp: d' store_ok_def approvals_ok_def approval_ok_def)
    show "follows d d'" by (auto simp: d' follows_def intro: follows_rows)
  qed simp_all
qed

lemma find_approval_mem: "find_approval i d = Some a \<Longrightarrow> a \<in> set (d_approvals d) \<and> aq_request_id a = i"
  by (auto simp: find_approval_def find_Some_iff)

lemma ahead_set_decision [ahead_rules]:
  assumes "store_ahead E d0 d" and "find_approval i d = Some a" and "dec_request_id dec = i"
    and "verify_decision (aq_request a) dec = Ok ()"
    and "\<And>n d' as. d' = d\<lparr>d_approvals := as\<rparr> \<Longrightarrow>
      n = 1 \<longrightarrow> (\<exists>b \<in> set as. aq_request_id b = dec_request_id dec \<and> aq_decision b = Some dec) \<Longrightarrow>
      store_ahead E d0 d' \<Longrightarrow> Q n d'"
  shows "spec (set_decision dec t) d Q"
  unfolding set_decision_def
proof (intro spec_rules)
  fix P n d'
  assume P: "P = (\<lambda>a. aq_request_id a = dec_request_id dec \<and> aq_decision a = None)"
    and n: "n = length (filter P (d_approvals d))"
  let ?f = "\<lambda>a. if P a then a\<lparr>aq_decision := Some dec, aq_decided_at := Some t\<rparr> else a"
  let ?as = "map ?f (d_approvals d)"
  assume d': "d' = d\<lparr>d_approvals := ?as\<rparr>"
  have keep: "aq_request_id (?f x) = aq_request_id x" "approval_step x (?f x)" for x
    by (auto simp: P approval_step_def)
  have found: "n = 1 \<longrightarrow> (\<exists>b \<in> set ?as. aq_request_id b = dec_request_id dec \<and> aq_decision b = Some dec)"
  proof
    assume "n = 1"
    then have "filter P (d_approvals d) \<noteq> []" using n by auto
    then have "hd (filter P (d_approvals d)) \<in> set (filter P (d_approvals d))" by (rule hd_in_set)
    then have "?f (hd (filter P (d_approvals d))) \<in> set ?as" "P (hd (filter P (d_approvals d)))" by auto
    then show "\<exists>b \<in> set ?as. aq_request_id b = dec_request_id dec \<and> aq_decision b = Some dec"
      by (intro bexI[of _ "?f (hd (filter P (d_approvals d)))"]) (auto simp: P)
  qed
  show "Q n d'"
  proof (rule ahead_table[OF assms(1) _ _ assms(5)[OF d' found]])
    assume ok: "store_ok E d"
    have only: "x = a" if "x \<in> set (d_approvals d)" "P x" for x
      using that ok find_approval_mem[OF assms(2)] assms(3)
      by (auto simp: P store_ok_def approvals_ok_def distinct_map inj_on_def)
    have "approval_ok (?f x)" if "x \<in> set (d_approvals d)" for x
      using that only[OF that] ok assms(4) by (auto simp: store_ok_def approvals_ok_def approval_ok_def)
    then have "\<forall>b \<in> set ?as. approval_ok b" by (rule ball_map)
    moreover have "map aq_request_id ?as = map aq_request_id (d_approvals d)" using keep(1) by simp
    ultimately have "approvals_ok ?as" using ok by (simp add: store_ok_def approvals_ok_def del: map_map set_map)
    moreover have "x \<in> set ?as" if "x \<in> set (d_approvals d)" "aq_decision x \<noteq> None" for x
      using that by (force simp: P)
    ultimately show "store_ok E d'"
      using ok grants_ok_mono[of "d_approvals d" ?as "d_grants d"] by (auto simp: d' store_ok_def)
    have "rows_follow approval_step (d_approvals d) ?as" using keep(2) by (rule rows_follow_map)
    then show "follows d d'" by (auto simp: d' follows_def intro: follows_rows)
  qed simp_all
qed

lemma ahead_issue [ahead_rules]:
  assumes "store_ahead E d0 d"
    and "\<exists>a \<in> set (d_approvals d). aq_request_id a = req_id r \<and> decided a Decision_Approve (decided_at_ms dec)"
    and "\<And>d'. d_staged d' = d_staged d \<Longrightarrow> store_ahead E d0 d' \<Longrightarrow> Q () d'"
  shows "spec (issue r dec) d Q"
  unfolding issue_def
proof (intro spec_rules)
  let ?g = "\<lparr>g_request_id = req_id r, g_issued_at_ms = decided_at_ms dec, g_consumed_at_ms = None,
    g_revoked_at_ms = None, g_revoked_by = None\<rparr>"
  fix v d' assume v: "v = (req_id r \<in> g_request_id ` set (d_grants d))" "\<not> v"
    and d': "d' = d\<lparr>d_grants := d_grants d @ [?g]\<rparr>"
  have *: "store_ahead E d0 d'"
  proof (rule ahead_table[OF assms(1)])
    have "grant_ok ?g" "granted (d_approvals d) ?g"
      using assms(2) by (auto simp: grant_ok_def granted_def)
    then show "store_ok E d'" if "store_ok E d"
      using that v launches_ok_mono[of "d_grants d" "d_grants d @ [?g]" "d_staged d"]
      by (auto simp: d' store_ok_def grants_ok_def)
    show "follows d d'" by (auto simp: d' follows_def intro: follows_rows)
  qed
  show "spec (insert_event t p) d' (\<lambda>v d'. spec (tx_return ()) d' Q)" for t p
    by (rule ahead_insert_event[OF *]) (auto simp: d' intro!: spec_rules assms(3))
qed

lemma ahead_update_grant [ahead_rules]:
  assumes "store_ahead E d0 d" and "\<And>g. open_grant i g \<Longrightarrow> grant_step g (f g)"
    and "\<And>n d'. d' = d\<lparr>d_grants := map (\<lambda>g. if open_grant i g then f g else g) (d_grants d)\<rparr> \<Longrightarrow>
      n = length (filter (open_grant i) (d_grants d)) \<Longrightarrow> store_ahead E d0 d' \<Longrightarrow> Q n d'"
  shows "spec (update_grant i f) d Q"
  unfolding update_grant_def
proof (intro spec_rules)
  let ?f = "\<lambda>g. if open_grant i g then f g else g"
  let ?gs = "map ?f (d_grants d)"
  fix rows d' assume rows: "rows = filter (open_grant i) (d_grants d)" "list_all (\<lambda>g. grant_ok (f g)) rows"
    and d': "d' = d\<lparr>d_grants := ?gs\<rparr>"
  have step: "grant_step g (?f g)" for g using assms(2) by (auto simp: row_steps_refl)
  show "Q (length rows) d'"
  proof (rule ahead_table[OF assms(1) _ _ assms(3)[OF d']])
    assume ok: "store_ok E d"
    have "\<forall>g \<in> set ?gs. grant_ok g \<and> granted (d_approvals d) g"
    proof (rule ball_map)
      fix g assume "g \<in> set (d_grants d)"
      then show "grant_ok (?f g) \<and> granted (d_approvals d) (?f g)"
        using rows step[of g] ok
        by (auto simp: store_ok_def grants_ok_def list_all_iff granted_def grant_step_def)
    qed
    moreover have "map g_request_id ?gs = map g_request_id (d_grants d)"
      using step by (auto simp: grant_step_def split: if_splits)
    ultimately have "grants_ok (d_approvals d) ?gs"
      using ok by (simp add: store_ok_def grants_ok_def del: map_map set_map)
    moreover have "g \<in> set ?gs" if "g \<in> set (d_grants d)" "g_consumed_at_ms g \<noteq> None" for g
      using that by (force simp: open_grant_def)
    ultimately show "store_ok E d'"
      using ok launches_ok_mono[of "d_grants d" ?gs "d_staged d"] by (auto simp: d' store_ok_def)
    have "rows_follow grant_step (d_grants d) ?gs" using step by (rule rows_follow_map)
    then show "follows d d'" by (auto simp: d' follows_def intro: follows_rows)
  qed (simp add: rows(1))
qed

lemma ahead_update_staged [ahead_rules]:
  assumes "store_ahead E d0 d"
    and "\<And>s. s \<in> set (d_staged d) \<Longrightarrow> P s \<Longrightarrow> staged_step s (f s) \<and> launch_ok (d_grants d) (f s)"
    and "\<And>n d'. d' = d\<lparr>d_staged := map (\<lambda>s. if P s then f s else s) (d_staged d)\<rparr> \<Longrightarrow>
      n = length (filter P (d_staged d)) \<Longrightarrow> store_ahead E d0 d' \<Longrightarrow> Q n d'"
  shows "spec (update_staged P f) d Q"
  unfolding update_staged_def
proof (intro spec_rules)
  let ?f = "\<lambda>s. if P s then f s else s"
  let ?ss = "map ?f (d_staged d)"
  fix rows d' assume rows: "rows = filter P (d_staged d)" "list_all (\<lambda>s. staged_ok (f s)) rows"
    and d': "d' = d\<lparr>d_staged := ?ss\<rparr>"
  have step: "staged_step s (?f s)" if "s \<in> set (d_staged d)" for s
    using that assms(2) by (auto simp: row_steps_refl)
  show "Q (length rows) d'"
  proof (rule ahead_table[OF assms(1) _ _ assms(3)[OF d']])
    assume ok: "store_ok E d"
    have "\<forall>s \<in> set ?ss. staged_ok s \<and> launch_ok (d_grants d) s"
    proof (rule ball_map)
      fix s assume "s \<in> set (d_staged d)"
      then show "staged_ok (?f s) \<and> launch_ok (d_grants d) (?f s)"
        using rows assms(2) ok by (auto simp: store_ok_def launches_ok_def list_all_iff)
    qed
    moreover have "map sg_run_id ?ss = map sg_run_id (d_staged d)" "map sg_request_id ?ss = map sg_request_id (d_staged d)"
      using step by (auto simp: staged_step_def split: if_splits)
    ultimately have "launches_ok (d_grants d) ?ss"
      using ok by (simp add: store_ok_def launches_ok_def del: map_map set_map)
    then show "store_ok E d'" using ok by (simp add: d' store_ok_def)
    have "rows_follow staged_step (d_staged d) ?ss" using step by (rule rows_follow_map)
    then show "follows d d'" by (auto simp: d' follows_def intro: follows_rows)
  qed (simp add: rows(1))
qed

end
