(* ===== verification/Store_Operations.thy ===== *)
theory Store_Operations
  imports Store_Writes
begin

text \<open>Every request of the store keeps the invariant and the history.\<close>

lemmas store_simps = catalog_validate_wf execution_validate_wf revision_succ

lemma store_ahead_ok: "store_ahead E d0 d \<Longrightarrow> store_ok E d"
  by (simp add: ahead_def)

lemma ahead_revisions:
  assumes "store_ahead E d0 d"
  shows "d_catalog_revision d < d_catalog_revision d + 1" "d_m3_revision d < d_m3_revision d + 1"
    "d_revision d < d_revision d + 1" "wf_catalog (d_catalog d)"
  using assms by (auto simp: ahead_def store_ok_def revision_succ)

section \<open>Lifecycle and catalogs\<close>

lemma transition_within: "store_within E (transition l t p)"
  unfolding transition_def
  by (rule db.withinI) (rule ahead_rules spec_rules | assumption | (auto dest: ahead_revisions; fail))+

lemma persist_checkpoint_within: "store_within E (persist_checkpoint command required final t)"
  unfolding persist_checkpoint_def
  by (rule db.withinI)
    (rule ahead_rules spec_rules | assumption | (auto dest: ahead_revisions; fail) |
     (hypsubst+, intro ahead_append, assumption))+

lemma resume_within: "store_within E (resume command)"
  unfolding resume_def
  by (rule db.withinI) (rule ahead_rules spec_rules | assumption | (auto dest: ahead_revisions; fail))+

lemma reads_keeps_run: "reads (keeps_run p c r)"
  unfolding reads_def keeps_run_def by (intro allI spec_rules) auto

lemma reads_introduces_run: "reads (introduces_run p r)"
  unfolding reads_def introduces_run_def by (intro allI spec_rules) auto

lemmas spec_run_checks [spec_rules] =
  spec_reads[OF reads_each[OF reads_keeps_run]] spec_reads[OF reads_each[OF reads_introduces_run]]

lemma replace_catalog_within: "store_within E (replace_catalog E command)"
  unfolding replace_catalog_def
  by (rule db.withinI)
    (rule ahead_rules spec_rules | assumption | (auto dest: ahead_revisions simp: store_simps; fail))+

lemma replace_m3_catalog_within: "store_within E (replace_m3_catalog E command)"
  unfolding replace_m3_catalog_def
  by (rule db.withinI) (rule ahead_rules spec_rules | assumption | (auto dest: ahead_revisions; fail))+

section \<open>The project workflow\<close>

lemma spec_m3_begin [spec_rules]:
  "(expected = d_m3_revision d \<Longrightarrow> Q (d_catalog d, d_m3_revision d, d_m3 d) d) \<Longrightarrow> spec (m3_begin expected) d Q"
  unfolding m3_begin_def by (intro spec_rules) auto

lemma ahead_m3_commit [ahead_rules]:
  assumes "store_ahead E d0 d" and "actual = d_m3_revision d"
    and "\<And>r d' t. d' = d\<lparr>d_m3_revision := r, d_m3 := m, d_m3_updated_at := t\<rparr> \<Longrightarrow>
      m3_validate (sha256 E) \<lparr>m3_catalog = m, graph_executions = xs\<rparr> identity = Ok () \<Longrightarrow>
      store_ahead E d0 d' \<Longrightarrow> Q r d'"
  shows "spec (m3_commit E err identity m xs actual) d Q"
  unfolding m3_commit_def
  by (rule ahead_rules spec_rules assms(1) | (use assms(2) in \<open>auto simp: assms(3); fail\<close>))+

lemma spec_document_sources [spec_rules]: "(\<And>v. Q v d) \<Longrightarrow> spec (document_sources x) d Q"
  unfolding document_sources_def by (intro spec_rules) auto

lemma spec_document_project [spec_rules]: "(\<And>v. Q v d) \<Longrightarrow> spec (document_project m x) d Q"
  unfolding document_project_def by (intro spec_rules) auto

lemma create_mvp_document_within: "store_within E (create_mvp_document E command)"
  unfolding create_mvp_document_def
  by (rule db.withinI) (rule ahead_rules spec_rules | assumption | (auto; fail))+

lemma accept_mvp_document_within: "store_within E (accept_mvp_document E command)"
  unfolding accept_mvp_document_def
  by (rule db.withinI) (rule ahead_rules spec_rules | assumption | (auto; fail))+

lemma prepare_knowledge_delivery_within: "store_within E (prepare_knowledge_delivery E command)"
  unfolding prepare_knowledge_delivery_def
  by (rule db.withinI) (rule ahead_rules spec_rules | assumption | (auto; fail))+

lemma complete_knowledge_delivery_within: "store_within E (complete_knowledge_delivery E command)"
  unfolding complete_knowledge_delivery_def
  by (rule db.withinI) (rule ahead_rules spec_rules | assumption | (auto; fail))+

lemma record_cost_within: "store_within E (record_cost E command)"
  unfolding record_cost_def
  by (rule db.withinI) (rule ahead_rules spec_rules | assumption | (auto; fail))+

lemma prepare_valid:
  "prepare H absolute dir ids name root codex agy = Inr draft \<Longrightarrow> wf_catalog (draft_identity draft)"
  using draft_validate_iff[of H draft]
  by (auto simp: prepare_def Let_def and_then_eq_Ok split: if_splits)

lemma store_prepare_mvp_within: "store_within E (store_prepare_mvp E ids command)"
  unfolding store_prepare_mvp_def
  by (rule db.withinI)
    (rule ahead_rules spec_rules | assumption | (auto dest: ahead_revisions prepare_valid split: if_splits; fail))+

lemma exec_init_store:
  assumes "exec_init x"
  shows "wf_execution H x" "evidence P x"
  using exec_init_inv[OF assms, of H] exec_initD(2)[OF assms]
  by (auto simp: exec_inv_def evidence_def fresh_node_def)

lemma accepted_exec_init:
  "accept_mvp_decision H ids m identity i content by_actor at = (Inr x, m') \<Longrightarrow> exec_init x"
  by (auto simp: accept_mvp_decision_def Let_def intro: exec_init_start split: option.splits if_splits list.splits sum.splits)

lemma store_accept_mvp_decision_within: "store_within E (store_accept_mvp_decision E ids command)"
  unfolding store_accept_mvp_decision_def
  by (rule db.withinI)
    (rule ahead_rules spec_rules | assumption | (auto dest: accepted_exec_init exec_init_store; fail))+

section \<open>Graph executions\<close>

lemma evidence_sanitized: "evidence clean_failure (sanitized_execution x)"
  by (auto simp: evidence_def sanitized_execution_def sanitize_clean)

lemma create_graph_execution_within: "store_within E (create_graph_execution E x)"
  unfolding create_graph_execution_def
  by (rule db.withinI)
    (rule ahead_rules spec_rules | assumption |
     (hypsubst+, rule ahead_new_graph, assumption; auto simp: store_simps evidence_sanitized; fail))+

lemma restart_missing_output_graph_within: "store_within E (restart_missing_output_graph E i expected)"
  unfolding restart_missing_output_graph_def
  by (rule db.withinI)
    (rule ahead_rules spec_rules | assumption | (auto dest: exec_init_restart exec_init_store; fail))+

lemma retry_failed_graph_node_within: "store_within E (retry_failed_graph_node E i command)"
  unfolding retry_failed_graph_node_def
  by (rule db.withinI)
    (rule ahead_rules spec_rules | assumption | (auto intro: retry_failed_advances; fail))+

lemma update_graph_within:
  assumes "\<And>x v y. wf_execution (sha256 E) x \<Longrightarrow> update x = Inr (v, y) \<Longrightarrow> advances (sha256 E) clean_failure x y"
  shows "store_within E (update_graph E i expected t update)"
  unfolding update_graph_def
  by (rule db.withinI) (rule ahead_rules spec_rules | assumption | (auto intro: assms; fail))+

lemma claim_graph_nodes_within: "store_within E (claim_graph_nodes E i expected owner limit)"
  unfolding claim_graph_nodes_def by (rule update_graph_within) (rule claim_ready_advances)

lemma complete_graph_node_within: "store_within E (complete_graph_node E i expected n owner ok)"
  unfolding complete_graph_node_def
  by (rule update_graph_within) (auto simp: and_then_eq_Ok intro: complete_advances)

section \<open>Runs as the provider reports them\<close>

lemma ahead_commit_catalog [ahead_rules]:
  assumes "store_ahead E d0 d" and "actual = d_catalog_revision d"
    and "\<And>r d'. store_ahead E d0 d' \<Longrightarrow> Q r d'"
  shows "spec (commit_catalog actual c) d Q"
  unfolding commit_catalog_def
  by (rule ahead_rules spec_rules assms(1) | (use assms(2) in \<open>auto simp: assms(3) store_simps; fail\<close>))+

lemma record_provider_running_within: "store_within E (record_provider_running i session)"
  unfolding record_provider_running_def
  by (rule db.withinI) (rule ahead_rules spec_rules | assumption | (auto; fail))+

lemma record_provider_cancel_after_preflight_within: "store_within E (record_provider_cancel_after_preflight i)"
  unfolding record_provider_cancel_after_preflight_def
  by (rule db.withinI) (rule ahead_rules spec_rules | assumption | (auto; fail))+

lemma record_provider_cancel_accepted_within: "store_within E (record_provider_cancel_accepted i expected)"
  unfolding record_provider_cancel_accepted_def
  by (rule db.withinI) (rule ahead_rules spec_rules | assumption | (auto; fail))+

end
