(* ===== verification/Store_Launches.thy ===== *)
theory Store_Launches
  imports Store_Operations
begin

text \<open>
  The requests around staged launches, approvals, grants and runs keep the invariant and the
  history too, and so does the recovery of a database.
\<close>

section \<open>Staged launches\<close>

lemma launch_to_cancelled: "s \<in> {Staged_AwaitingApproval, Staged_Ready} \<Longrightarrow> launch_step\<^sup>*\<^sup>* s Staged_Cancelled"
  by (auto intro: launch_step.intros)

lemma ahead_new_staged:
  assumes "store_ahead E d0 d"
    and "\<not> (\<exists>s \<in> set (d_staged d). sg_run_id s = sg_run_id t \<or> sg_request_id s = sg_request_id t)"
    and "sg_state t = Staged_AwaitingApproval" and "sg_finished_at_ms t = None" and "sg_cancel_reason t = None"
  shows "store_ahead E d0 (d\<lparr>d_staged := d_staged d @ [t]\<rparr>)"
proof (rule ahead_table[OF assms(1), of "d\<lparr>d_staged := d_staged d @ [t]\<rparr>"])
  show "store_ok E (d\<lparr>d_staged := d_staged d @ [t]\<rparr>)" if "store_ok E d"
    using that assms(2-5) by (auto simp: store_ok_def launches_ok_def staged_ok_def launch_ok_def)
qed (auto simp: follows_def intro: follows_rows)

lemma ahead_approval_requested [ahead_rules]:
  assumes "store_ahead E d0 d" and "\<And>e d'. store_ahead E d0 d' \<Longrightarrow> Q e d'"
  shows "spec (approval_requested r) d Q"
  unfolding approval_requested_def by (rule ahead_insert_event[OF assms(1)]) (rule assms(2))

lemma stage_within: "store_within E (stage E plan)"
  unfolding stage_def
  by (rule db.withinI)
    (rule ahead_rules spec_rules | assumption | (auto; fail) |
     (hypsubst, rule ahead_new_staged, assumption; auto; fail))+

lemma ahead_row:
  assumes "store_ahead E d0 d" and "graph_row_at i d = Some r"
  shows "wf_execution (sha256 E) (gr_execution r)"
    "advances H P (gr_execution r) x \<Longrightarrow> exec_id x = i"
  using store_graph_row[OF store_ahead_ok[OF assms(1)] assms(2)] by (auto simp: advances_def)

lemma ahead_cancel_staged_effects [ahead_rules]:
  assumes "store_ahead E d0 d" and "catalog_revision = d_catalog_revision d"
    and "graph_row_at i d = Some r" and "advances (sha256 E) clean_failure (gr_execution r) x"
    and "\<And>d'. store_ahead E d0 d' \<Longrightarrow> Q () d'"
  shows "spec (cancel_staged_effects E request reason t catalog_revision c run plan x) d Q"
  unfolding cancel_staged_effects_def ahead_row(2)[OF assms(1,3,4)]
  using assms(1-4)
  by - (rule ahead_rules spec_rules assms(5) | assumption |
    (auto simp: store_simps grant_step_def open_grant_def staged_step_def launch_ok_def intro!: launch_to_cancelled; fail))+

lemma cancel_for_request_within: "store_within E (cancel_for_request E i reason)"
  unfolding cancel_for_request_def
  by (rule db.withinI)
    (rule ahead_rules spec_rules | assumption | (auto intro: cancel_staged_node_advances ahead_row(1); fail))+

lemmas ahead_cancel_for_request [ahead_rules] = db.within_spec[OF cancel_for_request_within]

lemma expire_within: "store_within E (expire E now)"
  unfolding expire_def
  by (rule db.withinI)
    (rule spec_rules db.within_spec[OF db.within_each[OF cancel_for_request_within]] | assumption)+

lemmas ahead_expire [ahead_rules] = db.within_spec[OF expire_within]

lemma expire_staged_launches_within: "store_within E (expire_staged_launches E)"
  unfolding expire_staged_launches_def
  by (rule db.withinI) (rule ahead_rules spec_rules | assumption)+

lemma on_decision_within: "store_within E (on_decision E r kind)"
  unfolding on_decision_def
  by (cases kind; simp only: ApprovalDecisionKind.case; rule db.withinI;
    (rule ahead_rules spec_rules | assumption |
     (auto simp: staged_step_def launch_ok_def intro!: r_into_rtranclp launch_step.intros; fail))+)

lemmas ahead_on_decision [ahead_rules] = db.within_spec[OF on_decision_within]

section \<open>Approvals and grants\<close>

lemma create_approval_within: "store_within E (create_approval E r)"
  unfolding create_approval_def
  by (rule db.withinI) (rule ahead_rules spec_rules | assumption | (auto; fail))+

lemma spec_timed_decision [spec_rules]:
  "(\<And>dec. dec_request_id dec = dec_request_id (dac_decision command) \<Longrightarrow> dec_kind dec = dec_kind (dac_decision command) \<Longrightarrow>
    Q dec d) \<Longrightarrow> spec (timed_decision E r command) d Q"
  unfolding timed_decision_def by (rule spec_rules | (auto; fail))+

lemma verify_decision_id: "verify_decision r dec = Inr u \<Longrightarrow> dec_request_id dec = req_id r"
  by (auto simp: verify_decision_def checks.simps and_then_eq_Ok)

lemma decide_approval_within: "store_within E (decide_approval E command)"
  unfolding decide_approval_def
  by (rule db.withinI)
    (rule spec_get_some ahead_rules spec_rules | assumption | (auto; fail) |
     (fastforce simp: decided_def dest: verify_decision_id; fail))+

lemma consume_credential_grant_within: "store_within E (consume_credential_grant E i action)"
  unfolding consume_credential_grant_def
  by (rule db.withinI)
    (rule ahead_rules spec_rules | assumption | (auto simp: grant_step_def open_grant_def; fail))+

lemma revoke_credential_grant_within: "store_within E (revoke_credential_grant E i command)"
  unfolding revoke_credential_grant_def
  by (rule db.withinI)
    (rule ahead_rules spec_rules | assumption | (auto simp: grant_step_def open_grant_def; fail))+

lemma cancel_staged_run_within: "store_within E (cancel_staged_run E i expected)"
  unfolding cancel_staged_run_def
  by (rule db.withinI) (rule ahead_rules spec_rules | assumption | (auto; fail))+

section \<open>Dispatch claims\<close>

text \<open>Everything a claim has checked when it starts to change the database.\<close>

definition dispatch_authorized ::
  "externals \<Rightarrow> 's reader \<Rightarrow> db \<Rightarrow> ApprovalRequestId \<Rightarrow> u64 \<Rightarrow> Run \<Rightarrow> ProviderLaunchPlan \<Rightarrow> ProviderCredentialSelection \<Rightarrow> bool" where
  "dispatch_authorized E reader d i now run plan selection \<longleftrightarrow>
     d_lifecycle d = ''ready'' \<and>
     (\<exists>record. grant_record E d i record \<and> validate_time (cgr_request record) now = Ok () \<and>
        grant_is_open record now \<and> scope_run_id (scope (req_action (cgr_request record))) = Some (run_id run)) \<and>
     (\<exists>s \<in> set (d_staged d). sg_request_id s = i \<and> sg_run_id s = run_id run \<and> sg_state s = Staged_Ready) \<and>
     find_run (run_id run) (d_catalog d) = Some run \<and> plan_run_id plan = run_id run \<and>
     validate_online_cli_requirements plan = Ok () \<and>
     Option.bind (pli_account (plan_identity plan)) pas_credential = Some selection \<and>
     reader_validate reader selection"

lemma find_run_id: "find_run i c = Some r \<Longrightarrow> run_id r = i"
  by (auto simp: find_run_def dest: find_SomeD)

lemma ready_row:
  "map_option sg_state (find (\<lambda>s. sg_request_id s = i \<and> sg_run_id s = j) ss) = Some Staged_Ready \<Longrightarrow>
   \<exists>s \<in> set ss. sg_request_id s = i \<and> sg_run_id s = j \<and> sg_state s = Staged_Ready"
  by (auto dest!: find_SomeD)

lemma dispatch_authorizedI:
  assumes "''ready'' = d_lifecycle d" and "grant_record E d i grant" and "validate_time (cgr_request grant) now = Ok ()"
    and "grant_is_open grant now" and "scope_run_id (scope (req_action (cgr_request grant))) = Some j"
    and "Some Staged_Ready = map_option sg_state (find (\<lambda>s. sg_request_id s = i \<and> sg_run_id s = j) (d_staged d))"
    and "find_run j (d_catalog d) = Some run" and "plan_run_id plan = j" and "validate_online_cli_requirements plan = Ok ()"
    and "Option.bind (pli_account (plan_identity plan)) pas_credential = Some selection" and "reader_validate reader selection"
  shows "dispatch_authorized E reader d i now run plan selection"
  using assms ready_row[OF assms(6)[symmetric]] find_run_id[OF assms(7)] unfolding dispatch_authorized_def by auto

lemma spec_authorize_dispatch [spec_rules]:
  assumes "\<And>now run plan selection. dispatch_authorized E reader d i now run plan selection \<Longrightarrow>
    Q (now, d_catalog_revision d, d_catalog d, run, plan, selection) d"
  shows "spec (authorize_dispatch E reader i) d Q"
proof -
  let ?Q = "\<lambda>v d'. d' = d \<and> (case v of (now, r, c, run, plan, selection) \<Rightarrow> r = d_catalog_revision d \<and> c = d_catalog d \<and>
    dispatch_authorized E reader d i now run plan selection)"
  have "spec (authorize_dispatch E reader i) d ?Q"
    unfolding authorize_dispatch_def
    by (rule spec_rules)+ (auto intro: dispatch_authorizedI)
  then show ?thesis by (rule spec_mono) (auto intro: assms)
qed

lemma spec_graph_of:
  "(\<And>r. graph_row_at i d = Some r \<Longrightarrow> spec (f (gr_execution r)) d Q) \<Longrightarrow>
   spec (tx_bind (tx_get (graph_row_at i)) (\<lambda>row. tx_bind (tx_some (map_option gr_execution row) e) f)) d Q"
  by (auto intro!: spec_rules)

lemma consumed_row:
  assumes "length (filter (open_grant i) gs) = 1"
  shows "\<exists>g \<in> set (map (\<lambda>g. if open_grant i g then g\<lparr>g_consumed_at_ms := Some now\<rparr> else g) gs).
    g_request_id g = i \<and> g_consumed_at_ms g \<noteq> None"
proof -
  have "filter (open_grant i) gs \<noteq> []" using assms by auto
  then have "hd (filter (open_grant i) gs) \<in> set (filter (open_grant i) gs)" by (rule hd_in_set)
  then show ?thesis
    by (intro bexI[of _ "(hd (filter (open_grant i) gs))\<lparr>g_consumed_at_ms := Some now\<rparr>"]) (auto simp: open_grant_def)
qed

lemma claimed_launch:
  assumes "length (filter (open_grant (sg_request_id s)) gs) = 1" and "sg_state s = Staged_Ready"
  shows "staged_step s (s\<lparr>sg_state := Staged_Dispatching\<rparr>) \<and>
    launch_ok (map (\<lambda>g. if open_grant (sg_request_id s) g then g\<lparr>g_consumed_at_ms := Some now\<rparr> else g) gs)
      (s\<lparr>sg_state := Staged_Dispatching\<rparr>)"
  using consumed_row[OF assms(1), of now] assms(2)
  by (auto simp: staged_step_def launch_ok_def intro!: r_into_rtranclp launch_step.intros)

lemma claim_staged_dispatch_within: "store_within E (claim_staged_dispatch E reader i)"
  unfolding claim_staged_dispatch_def
  by (rule db.withinI)
    (rule spec_graph_of ahead_rules spec_rules | assumption |
     (auto simp: store_simps grant_step_def open_grant_def; fail) |
     (use claimed_launch in auto; fail) |
     (auto intro: activate_staged_node_advances ahead_row(1); fail))+

lemma fail_dispatch_claim_within: "store_within E (fail_dispatch_claim E i)"
  unfolding fail_dispatch_claim_def
  by (rule db.withinI)
    (rule spec_graph_of ahead_rules spec_rules | assumption | (auto simp: store_simps; fail) |
     (auto simp: store_ok_def launches_ok_def staged_step_def launch_ok_def
       dest!: store_ahead_ok intro!: r_into_rtranclp launch_step.intros; fail) |
     (auto intro!: finish_terminal_advances(1) ahead_row(1); fail))+

lemma dispatch_reconcile_within: "store_within E dispatch_reconcile"
  unfolding dispatch_reconcile_def
  by (rule db.withinI)
    (rule ahead_rules spec_rules | assumption |
     (auto simp: store_ok_def launches_ok_def staged_step_def launch_ok_def
       dest!: store_ahead_ok intro!: r_into_rtranclp launch_step.intros; fail))+

end
