(* ===== verification/Store_Runs.thy ===== *)
theory Store_Runs
  imports Store_Launches
begin

text \<open>
  Beginning and finishing the run of a graph node, and the recovery of a database, keep the
  invariant and the history.
\<close>

section \<open>Beginning a run\<close>

lemma take_node_advances:
  "take_node staged n owner i x = Inr y \<Longrightarrow> wf_execution H x \<Longrightarrow> advances H P x y"
  by (auto simp: take_node_def and_then_eq_Ok intro: stage_node_advances claim_bind_advances split: if_splits)

lemma spec_add_run [spec_rules]:
  "(\<And>c'. wf_catalog c' \<Longrightarrow> Q c' d) \<Longrightarrow> spec (add_run staged binding session i c) d Q"
  unfolding add_run_def by (rule spec_rules | (auto simp: catalog_validate_wf; fail))+

lemmas ahead_stage [ahead_rules] = db.within_spec[OF stage_within]

lemma begin_graph_node_run_inner_within: "store_within E (begin_graph_node_run_inner E i command expected)"
  unfolding begin_graph_node_run_inner_def
  by (rule db.withinI)
    (rule ahead_rules spec_rules | assumption | (auto dest: ahead_revisions; fail) |
     (auto intro: take_node_advances ahead_row(1); fail))+

section \<open>Finishing a run\<close>

lemma spec_current_attempt [spec_rules]:
  assumes "\<And>r run session. graph_row_at i d = Some r \<Longrightarrow> wf_execution (sha256 E) (gr_execution r) \<Longrightarrow>
    Q (d_catalog_revision d, d_catalog d, d_m3_revision d, d_m3 d, gr_execution r, run, session) d"
  shows "spec (current_attempt_of_node E i command) d Q"
  unfolding current_attempt_of_node_def
  by (rule spec_rules | (auto intro: assms; fail))+

lemma spec_trusted_selection [spec_rules]: "(\<And>v. Q v d) \<Longrightarrow> spec (trusted_selection session run) d Q"
  unfolding trusted_selection_def by (rule spec_rules | (auto; fail))+

lemma spec_settle_catalog [spec_rules]: "(\<And>v. Q v d) \<Longrightarrow> spec (settle_catalog command session run c) d Q"
  unfolding settle_catalog_def by (rule spec_rules | (auto; fail))+

lemma settle_node_advances:
  assumes "settle_node E command state (map_option sanitize_adapter_failure f) out x = Inr y" and "wf_execution (sha256 E) x"
  shows "advances (sha256 E) clean_failure x y"
proof -
  let ?f = "map_option sanitize_adapter_failure f"
  obtain z where z: "finish_terminal (fg_node_id command) (fg_owner command) state ?f x = Inr z"
    and y: "(case out of None \<Rightarrow> Ok z | Some ob \<Rightarrow> record_output (sha256 E) ob z) = Inr y"
    using assms(1) by (auto simp: settle_node_def and_then_eq_Ok)
  have "\<And>g. ?f = Some g \<Longrightarrow> clean_failure g" by (auto simp: sanitize_clean)
  note a = finish_terminal_advances[OF z assms(2), of clean_failure, OF this]
  show ?thesis
  proof (cases out)
    case None
    then show ?thesis using y a by simp
  next
    case (Some ob)
    then have "record_output (sha256 E) ob z = Inr y" using y by simp
    from a record_output_advances[OF this] show ?thesis by (auto simp: advances_def)
  qed
qed

lemma finish_graph_node_run_within: "store_within E (finish_graph_node_run E i command)"
  unfolding finish_graph_node_run_def
  by (rule db.withinI)
    (rule ahead_rules spec_rules | assumption | (auto dest: ahead_revisions simp: catalog_validate_wf; fail) |
     (auto intro: settle_node_advances ahead_row(1); fail))+

end
