(* ===== verification/Store_Restart.thy ===== *)
theory Store_Restart
  imports Store_Runs
begin

text \<open>
  Opening a database: the recovery keeps the invariant and the history, and leaves nothing that
  claims to be running, since the processes of the daemon before it are gone.
\<close>

section \<open>Settled databases\<close>

definition settled_run :: "Run \<Rightarrow> bool" where
  "settled_run r \<longleftrightarrow> (interrupted r \<longrightarrow> waits_for_approval r)"

definition settled_catalog :: "IdentityCatalog \<Rightarrow> bool" where
  "settled_catalog c \<longleftrightarrow> (\<forall>r \<in> set (runs c). settled_run r)"

definition settled_graph :: "GraphExecution \<Rightarrow> bool" where
  "settled_graph x \<longleftrightarrow> (\<forall>e \<in> set (exec_nodes x). node_state e \<noteq> Running)"

definition settled :: "db \<Rightarrow> bool" where
  "settled d \<longleftrightarrow>
     settled_catalog (d_catalog d) \<and>
     (\<forall>q \<in> set (d_graphs d). settled_graph (gr_execution q)) \<and>
     (\<forall>s \<in> set (d_staged d). sg_state s \<noteq> Staged_Dispatching)"

lemma settled_reconcile:
  "settled_graph (snd (reconcile_after_restart x))"
  "fst (reconcile_after_restart x) = 0 \<Longrightarrow> settled_graph x"
  by (auto simp: settled_graph_def reconcile_after_restart_def Let_def reconcile_node_def bump_revision_def filter_empty_conv)

lemma settled_remapped:
  "remapped F x y \<Longrightarrow> settled_graph x \<Longrightarrow> (\<And>e. node_state (F e) = Running \<Longrightarrow> node_state e = Running) \<Longrightarrow> settled_graph y"
  by (fastforce simp: settled_graph_def remapped_def)

lemma cancel_staged_node_settled:
  assumes "cancel_staged_node i owner r x = Inr y" and "wf_execution H x" and "settled_graph x"
  shows "settled_graph y"
proof -
  let ?f = "\<lambda>e. e\<lparr>node_state := Cancelled, node_failure := None, node_revision := node_revision e + 1\<rparr>"
  have "y = block_dependents i (bump_revision (update_node i ?f x))"
    using assms(1) by (auto simp: cancel_staged_node_def and_then_eq_Ok split: if_splits)
  then show ?thesis
    by (simp only:, intro settled_remapped[OF remapped_update_block[OF assms(2), of ?f i] assms(3)])
      (auto simp: at_node_def block_in_def mark_blocked_def split: if_splits)
qed

section \<open>The catalog\<close>

lemma spec_reconcile_runs [spec_rules]:
  assumes "\<And>n rs'. (\<forall>r \<in> set rs'. settled_run r) \<Longrightarrow> (n = 0 \<Longrightarrow> rs' = rs) \<Longrightarrow> Q (n, rs') d"
  shows "spec (reconcile_runs E now rs) d Q"
proof -
  have "spec (reconcile_runs E now rs) d (\<lambda>(n, rs') d'. d' = d \<and> (\<forall>r \<in> set rs'. settled_run r) \<and> (n = 0 \<longrightarrow> rs' = rs))"
  proof (induction rs)
    case (Cons r rs)
    show ?case
      by (simp only: reconcile_runs.simps)
        (rule spec_rules spec_mono[OF Cons.IH] |
         (auto simp: settled_run_def waits_for_approval_def interrupted_def intro!: spec_rules; fail))+
  qed (auto intro: spec_rules)
  then show ?thesis by (rule spec_mono) (auto intro: assms)
qed

lemma ahead_reconcile_catalog [ahead_rules]:
  assumes "store_ahead E d0 d"
    and "\<And>d'. d_graphs d' = d_graphs d \<Longrightarrow> d_staged d' = d_staged d \<Longrightarrow>
      settled_catalog (d_catalog d') \<Longrightarrow> store_ahead E d0 d' \<Longrightarrow> Q () d'"
  shows "spec (reconcile_catalog_for_recovery E) d Q"
  unfolding reconcile_catalog_for_recovery_def
  by (rule ahead_rules spec_rules assms(1) | assumption | (auto simp: catalog_validate_wf settled_catalog_def intro!: assms; fail))+

section \<open>The graphs\<close>

lemma mem_graph_row_at: "store_ok E d \<Longrightarrow> q \<in> set (d_graphs d) \<Longrightarrow> graph_row_at (gr_id q) d = Some q"
  by (auto simp: store_ok_def graphs_ok_def graph_row_at_def find_key_Some)

definition reconciled :: "GraphRunId set \<Rightarrow> db \<Rightarrow> db \<Rightarrow> bool" where
  "reconciled I d d' \<longleftrightarrow> d_catalog d' = d_catalog d \<and> d_staged d' = d_staged d \<and>
     (\<forall>q \<in> set (d_graphs d). gr_id q \<notin> I \<longrightarrow> q \<in> set (d_graphs d')) \<and>
     (\<forall>q \<in> set (d_graphs d'). if gr_id q \<in> I then settled_graph (gr_execution q) else q \<in> set (d_graphs d))"

lemma reconciledD:
  assumes "reconciled I d d'"
  shows "d_catalog d' = d_catalog d" "d_staged d' = d_staged d"
    "q \<in> set (d_graphs d) \<Longrightarrow> gr_id q \<notin> I \<Longrightarrow> q \<in> set (d_graphs d')"
    "q \<in> set (d_graphs d') \<Longrightarrow> if gr_id q \<in> I then settled_graph (gr_execution q) else q \<in> set (d_graphs d)"
  using assms unfolding reconciled_def by blast+

lemma reconciled_trans:
  assumes "reconciled {i} d d'" and "reconciled I d' d''"
  shows "reconciled (insert i I) d d''"
proof -
  note a = reconciledD[OF assms(1)] and b = reconciledD[OF assms(2)]
  have "if gr_id q \<in> insert i I then settled_graph (gr_execution q) else q \<in> set (d_graphs d)"
    if "q \<in> set (d_graphs d'')" for q
    using b(4)[OF that] a(4)[of q] by (auto split: if_splits)
  moreover have "q \<in> set (d_graphs d'')" if "q \<in> set (d_graphs d)" "gr_id q \<notin> insert i I" for q
    using b(3)[OF a(3)[OF that(1)]] that(2) by blast
  ultimately show ?thesis unfolding reconciled_def a(1,2) b(1,2) by blast
qed

lemma reconcile_graph_spec:
  assumes "store_ahead E d0 d" and "row \<in> set (d_graphs d)"
  shows "spec (reconcile_graph E row) d (\<lambda>_ d'. store_ahead E d0 d' \<and> reconciled {gr_id row} d d')"
proof -
  have ok: "store_ok E d" by (rule store_ahead_ok[OF assms(1)])
  have row: "graph_row_at (gr_id row) d = Some row" by (rule mem_graph_row_at[OF ok assms(2)])
  have wf: "wf_execution (sha256 E) (gr_execution row)" by (rule store_graph_row(2)[OF ok row])
  have only: "q = row" if "q \<in> set (d_graphs d)" "gr_id q = gr_id row" for q
    using that assms(2) mem_graph_row_at[OF ok] by (metis option.inject)
  show ?thesis
    unfolding reconcile_graph_def
    by (rule spec_rules assms(1) ahead_write_graph_row[OF assms(1) row] ahead_insert_event | assumption |
        (use only assms(1) settled_reconcile[of "gr_execution row"] reconcile_advances(1)[OF wf]
         in \<open>auto simp: reconciled_def intro!: spec_rules; fail\<close>))+
qed

lemma reconcile_rows:
  assumes "store_ahead E d0 d" and "distinct (map gr_id rows)" and "set rows \<subseteq> set (d_graphs d)"
  shows "spec (tx_each rows (reconcile_graph E)) d (\<lambda>_ d'. store_ahead E d0 d' \<and> reconciled (gr_id ` set rows) d d')"
  using assms
proof (induction rows arbitrary: d)
  case Nil
  then show ?case by (auto simp: reconciled_def intro: spec_rules)
next
  case (Cons row rows)
  have "spec (tx_each rows (reconcile_graph E)) d' (\<lambda>_ d''. store_ahead E d0 d'' \<and> reconciled (gr_id ` set (row # rows)) d d'')"
    if "store_ahead E d0 d' \<and> reconciled {gr_id row} d d'" for d'
  proof -
    have "set rows \<subseteq> set (d_graphs d')" 
    proof
      fix q assume q: "q \<in> set rows"
      then have "gr_id q \<noteq> gr_id row" using Cons.prems(2) by (metis distinct.simps(2) image_eqI list.set_map list.simps(9))
      then show "q \<in> set (d_graphs d')" using reconciledD(3)[OF conjunct2[OF that], of q] Cons.prems(3) q by auto
    qed
    then have "spec (tx_each rows (reconcile_graph E)) d' (\<lambda>_ d''. store_ahead E d0 d'' \<and> reconciled (gr_id ` set rows) d' d'')"
      using Cons.IH[of d'] that Cons.prems(2) by simp
    then show ?thesis by (rule spec_mono) (use that reconciled_trans in auto)
  qed
  then show ?case
    using spec_mono[OF reconcile_graph_spec[OF Cons.prems(1), of row]] Cons.prems(3) by (auto intro!: spec_then)
qed

lemma ahead_reconcile_graphs [ahead_rules]:
  assumes "store_ahead E d0 d"
    and "\<And>d'. d_catalog d' = d_catalog d \<Longrightarrow> d_staged d' = d_staged d \<Longrightarrow>
      (\<forall>q \<in> set (d_graphs d'). settled_graph (gr_execution q)) \<Longrightarrow> store_ahead E d0 d' \<Longrightarrow> Q () d'"
  shows "spec (reconcile_graphs_for_recovery E) d Q"
  unfolding reconcile_graphs_for_recovery_def
proof (intro spec_rules)
  fix rows assume rows: "rows = sort_key (\<lambda>r. id_value (gr_id r)) (d_graphs d)"
  have *: "distinct (map gr_id rows)" "set rows = set (d_graphs d)"
    using store_ahead_ok[OF assms(1)] by (auto simp: rows store_ok_def graphs_ok_def distinct_map)
  show "spec (tx_each rows (reconcile_graph E)) d Q"
    by (rule spec_mono[OF reconcile_rows[OF assms(1) *(1)]])
      (use *(2) in \<open>auto dest: reconciledD split: if_splits intro!: assms(2)\<close>)
qed

section \<open>Expiry\<close>

lemma set_update_first: "set (update_first Q (\<lambda>_. y) xs) \<subseteq> insert y (set xs)"
  by (induction xs) auto

lemma set_run_settled: "settled_catalog c \<Longrightarrow> settled_run r \<Longrightarrow> settled_catalog (set_run r c)"
  unfolding settled_catalog_def set_run_def using set_update_first[of _ r "runs c"] by fastforce

lemma settled_cancelled: "settled_run (r\<lparr>run_state := Run_Cancelled, run_finished_at := t, run_metadata := m\<rparr>)"
  by (simp add: settled_run_def interrupted_def)

lemma settled_cancelI:
  assumes "settled d" and "settled_graph x" and "settled_catalog (d_catalog e)"
    and "d_graphs e = map (\<lambda>r. if gr_id r = i then r\<lparr>gr_revision := n, gr_execution := x, gr_updated_at := t\<rparr> else r) (d_graphs d)"
    and "d_staged e = map (\<lambda>s. if P s then s\<lparr>sg_state := Staged_Cancelled, sg_finished_at_ms := u, sg_cancel_reason := v\<rparr> else s) (d_staged d)"
  shows "settled e"
  using assms unfolding settled_def by auto

lemma cancel_staged_effects_settled:
  assumes "settled d" and "settled_graph x" and "c = d_catalog d" and "\<And>d'. settled d' \<Longrightarrow> Q () d'"
  shows "spec (cancel_staged_effects E request reason t catalog_revision c run plan x) d Q"
  unfolding cancel_staged_effects_def write_catalog_def write_graph_def finish_attempt_def update_staged_def update_grant_def
  by (rule spec_rules spec_insert_event assms(4) settled_cancelI[OF assms(1,2), where i = "exec_id x" and
       n = "exec_revision x" and t = "decimal (unat t)" and u = "Some t" and v = "Some reason" and
       P = "\<lambda>s. sg_request_id s = request \<and> sg_state s \<in> {Staged_AwaitingApproval, Staged_Ready}"] |
     (simp add: set_run_settled settled_cancelled assms(1)[unfolded settled_def] assms(3); fail))+

lemma row_settled: "settled d \<Longrightarrow> graph_row_at i d = Some r \<Longrightarrow> settled_graph (gr_execution r)"
  by (auto simp: settled_def dest: graph_row_at_mem)

lemma cancel_for_request_settled:
  assumes "settled d" and "store_ok E d"
  shows "spec (cancel_for_request E i reason) d (\<lambda>_. settled)"
  unfolding cancel_for_request_def using assms
  by - (rule spec_rules cancel_staged_effects_settled | assumption | (auto; fail) |
    (rule cancel_staged_node_settled, assumption, auto intro: row_settled store_graph_row(2); fail))+

lemma expire_settled:
  assumes "settled d" and "store_ok E d"
  shows "spec (expire E now) d (\<lambda>_. settled)"
  unfolding expire_def
proof (intro spec_rules)
  fix ids
  have "spec (tx_each ids (\<lambda>i. cancel_for_request E i ''approval_expired'')) d (\<lambda>_ d'. settled d' \<and> store_ok E d')"
  proof (rule spec_each)
    show "spec (cancel_for_request E i reason) d' (\<lambda>_ d'. settled d' \<and> store_ok E d')"
      if "settled d' \<and> store_ok E d'" for i reason d'
      by (rule spec_mono[OF spec_conj[OF cancel_for_request_settled[of d' E]
          db.within_spec[OF cancel_for_request_within db.aheadI, where Q = "\<lambda>_. store_ahead E d'"]]])
        (use that in \<open>auto dest: store_ahead_ok\<close>)
  qed (use assms in simp)
  then show "spec (tx_each ids (\<lambda>i. cancel_for_request E i ''approval_expired'')) d (\<lambda>_. settled)"
    by (rule spec_mono) simp
qed

section \<open>Recovery\<close>

lemma ahead_dispatch_reconcile [ahead_rules]:
  assumes "store_ahead E d0 d"
    and "\<And>d'. d_catalog d' = d_catalog d \<Longrightarrow> d_graphs d' = d_graphs d \<Longrightarrow>
      (\<forall>s \<in> set (d_staged d'). sg_state s \<noteq> Staged_Dispatching) \<Longrightarrow> store_ahead E d0 d' \<Longrightarrow> Q () d'"
  shows "spec dispatch_reconcile d Q"
  unfolding dispatch_reconcile_def
  using assms(1)
  by - (rule ahead_rules spec_rules | assumption |
    (auto simp: store_ok_def launches_ok_def staged_step_def launch_ok_def
       dest!: store_ahead_ok intro!: r_into_rtranclp launch_step.intros; fail) |
    (auto intro!: assms(2); fail))+

text \<open>The recovery leaves a settled database.\<close>

lemma recover_spec:
  assumes "store_ok E d"
  shows "spec (recover E) d (\<lambda>_ d'. settled d' \<and> store_ahead E d d')"
proof -
  have expire: "spec (expire E now) d' (\<lambda>_ d''. settled d'' \<and> store_ahead E d d'')"
    if "settled d'" "store_ahead E d d'" for now d'
    by (rule spec_conj[OF expire_settled[OF that(1) store_ahead_ok[OF that(2)]] db.within_spec[OF expire_within that(2)]])
  show ?thesis
    unfolding recover_def using db.aheadI[OF assms]
    by - (rule spec_mono[OF expire] ahead_rules spec_rules | assumption |
      (auto dest: ahead_revisions simp: settled_def intro!: spec_rules; fail))+
qed

end
