(* ===== verification/Store_System.thy ===== *)
theory Store_System
  imports Store_Restart
begin

text \<open>
  The daemon as a transition system: any number of requests in any order, each under the mutex
  and with whatever the clock reads and whatever identifiers it draws, and restarts that open the
  database the last daemon left.
\<close>

section \<open>Requests\<close>

datatype 's store_op =
  Op_MarkReady
| Op_ExpireStagedLaunches
| Op_Checkpoint CheckpointCommand
| Op_Suspend CheckpointCommand
| Op_Shutdown CheckpointCommand
| Op_Resume CheckpointCommand
| Op_ReplaceCatalog ReplaceCatalogCommand
| Op_ReplaceM3Catalog ReplaceM3CatalogCommand
| Op_PrepareMvp prepare_ids PrepareMvpCommand
| Op_AcceptMvpDecision accept_ids AcceptDecisionBaselineCommand
| Op_CreateDocument CreateDocumentCommand
| Op_AcceptDocument AcceptDocumentCommand
| Op_PrepareDelivery PrepareKnowledgeDeliveryCommand
| Op_CompleteDelivery CompleteKnowledgeDeliveryCommand
| Op_RecordCost RecordCostCommand
| Op_CreateGraph GraphExecution
| Op_RestartGraph GraphRunId u64
| Op_RetryNode GraphRunId RetryFailedGraphNodeCommand
| Op_ClaimNodes GraphRunId u64 string nat
| Op_CompleteNode GraphRunId u64 GraphNodeId string bool
| Op_BeginRun GraphRunId BeginGraphNodeRunCommand "ProviderRunBinding option"
| Op_FinishRun GraphRunId FinishGraphNodeRunCommand
| Op_RunRunning RunId "string option"
| Op_CancelRequested RunId
| Op_CancelAccepted RunId u64
| Op_CancelStaged RunId u64
| Op_CreateApproval ApprovalRequest
| Op_DecideApproval DecideApprovalCommand
| Op_ConsumeGrant ApprovalRequestId ApprovalAction
| Op_RevokeGrant ApprovalRequestId RevokeCredentialGrantCommand
| Op_ClaimDispatch "'s reader" ApprovalRequestId
| Op_FailDispatch RunId

definition forget :: "'a stx \<Rightarrow> unit stx" where
  "forget m = tx_then m (tx_return ())"

fun op_tx :: "externals \<Rightarrow> 's store_op \<Rightarrow> unit stx" where
  "op_tx E Op_MarkReady = forget (transition Daemon_Ready ''daemon.ready'' (JObject []))"
| "op_tx E Op_ExpireStagedLaunches = forget (expire_staged_launches E)"
| "op_tx E (Op_Checkpoint c) = forget (checkpoint c)"
| "op_tx E (Op_Suspend c) = forget (suspend c)"
| "op_tx E (Op_Shutdown c) = forget (shutdown c)"
| "op_tx E (Op_Resume c) = forget (resume c)"
| "op_tx E (Op_ReplaceCatalog c) = forget (replace_catalog E c)"
| "op_tx E (Op_ReplaceM3Catalog c) = forget (replace_m3_catalog E c)"
| "op_tx E (Op_PrepareMvp ids c) = forget (store_prepare_mvp E ids c)"
| "op_tx E (Op_AcceptMvpDecision ids c) = forget (store_accept_mvp_decision E ids c)"
| "op_tx E (Op_CreateDocument c) = forget (create_mvp_document E c)"
| "op_tx E (Op_AcceptDocument c) = forget (accept_mvp_document E c)"
| "op_tx E (Op_PrepareDelivery c) = forget (prepare_knowledge_delivery E c)"
| "op_tx E (Op_CompleteDelivery c) = forget (complete_knowledge_delivery E c)"
| "op_tx E (Op_RecordCost c) = forget (record_cost E c)"
| "op_tx E (Op_CreateGraph x) = forget (create_graph_execution E x)"
| "op_tx E (Op_RestartGraph i r) = forget (restart_missing_output_graph E i r)"
| "op_tx E (Op_RetryNode i c) = forget (retry_failed_graph_node E i c)"
| "op_tx E (Op_ClaimNodes i r owner limit) = forget (claim_graph_nodes E i r owner limit)"
| "op_tx E (Op_CompleteNode i r n owner ok) = forget (complete_graph_node E i r n owner ok)"
| "op_tx E (Op_BeginRun i c b) = forget (begin_graph_node_run_inner E i c b)"
| "op_tx E (Op_FinishRun i c) = forget (finish_graph_node_run E i c)"
| "op_tx E (Op_RunRunning i s) = forget (record_provider_running i s)"
| "op_tx E (Op_CancelRequested i) = forget (record_provider_cancel_after_preflight i)"
| "op_tx E (Op_CancelAccepted i r) = forget (record_provider_cancel_accepted i r)"
| "op_tx E (Op_CancelStaged i r) = forget (cancel_staged_run E i r)"
| "op_tx E (Op_CreateApproval r) = forget (create_approval E r)"
| "op_tx E (Op_DecideApproval c) = forget (decide_approval E c)"
| "op_tx E (Op_ConsumeGrant i a) = forget (consume_credential_grant E i a)"
| "op_tx E (Op_RevokeGrant i c) = forget (revoke_credential_grant E i c)"
| "op_tx E (Op_ClaimDispatch reader i) = forget (claim_staged_dispatch E reader i)"
| "op_tx E (Op_FailDispatch i) = forget (fail_dispatch_claim E i)"

lemma forget_within: "store_within E m \<Longrightarrow> store_within E (forget m)"
  unfolding forget_def by (rule db.withinI) (auto intro!: spec_rules elim!: db.within_spec)

lemmas ops_within =
  transition_within expire_staged_launches_within persist_checkpoint_within resume_within
  replace_catalog_within replace_m3_catalog_within store_prepare_mvp_within store_accept_mvp_decision_within
  create_mvp_document_within accept_mvp_document_within prepare_knowledge_delivery_within
  complete_knowledge_delivery_within record_cost_within create_graph_execution_within
  restart_missing_output_graph_within retry_failed_graph_node_within claim_graph_nodes_within
  complete_graph_node_within begin_graph_node_run_inner_within finish_graph_node_run_within
  record_provider_running_within record_provider_cancel_after_preflight_within
  record_provider_cancel_accepted_within cancel_staged_run_within create_approval_within
  decide_approval_within consume_credential_grant_within revoke_credential_grant_within
  claim_staged_dispatch_within fail_dispatch_claim_within

lemma op_within: "store_within E (op_tx E op)"
  by (cases op) (simp_all add: checkpoint_def suspend_def shutdown_def ops_within forget_within)

section \<open>The transition system\<close>

datatype 's store_label = Request "'s store_op" | Restart

inductive store_step :: "externals \<Rightarrow> db store \<Rightarrow> 's store_label \<Rightarrow> db store \<Rightarrow> bool"
  for E :: externals where
  step_request: "store_step E s (Request op) (snd (call (op_tx E op) ts ids s))"
| step_restart: "open_existing E version ts ids (sdb s) = Inr t \<Longrightarrow> store_step E s Restart t"

inductive_cases step_requestE: "store_step E s (Request op) t"
inductive_cases step_restartE: "store_step E s Restart t"

definition store_init :: "db store \<Rightarrow> bool" where
  "store_init s \<longleftrightarrow> (\<exists>ts ids. s = open_new ts ids)"

text \<open>A transition system whose steps keep to a reflexive and transitive relation.\<close>

locale history_system = invariant_system init step inv
  for init :: "'s \<Rightarrow> bool" and step :: "'s \<Rightarrow> 'l \<Rightarrow> 's \<Rightarrow> bool" and inv :: "'s \<Rightarrow> bool" +
  fixes hist :: "'s \<Rightarrow> 's \<Rightarrow> bool"
  assumes hist_refl: "hist s s"
    and hist_trans: "hist s t \<Longrightarrow> hist t u \<Longrightarrow> hist s u"
    and step_hist: "inv s \<Longrightarrow> step s l t \<Longrightarrow> hist s t"
begin

lemma steps_hist: "steps step s ls t \<Longrightarrow> inv s \<Longrightarrow> hist s t"
  by (induction rule: steps.induct) (auto intro: hist_refl hist_trans step_hist step_inv)

end

lemma wf_default_catalog: "wf_catalog default_catalog"
  by (simp add: default_catalog_def wf_catalog_def distinct_ids_def fields_ok_def references_ok_def)

lemma new_store_ok: "store_ok E (new_db i t u)"
  by (simp add: store_ok_def new_db_def revision_ok_def journal_ok_def wf_default_catalog graphs_ok_def
    approvals_ok_def grants_ok_def launches_ok_def)

lemma open_existing_spec:
  assumes "open_existing E version ts ids d = Inr s" and "store_ok E d"
  shows "store_ahead E d (sdb s)" "settled (sdb s)" "\<not> broken s" "version \<le> SCHEMA_VERSION"
proof -
  let ?w = "\<lparr>wdb = d, clock = ts, uuids = \<lambda>i. ids (Suc i), poisoned = False\<rparr>"
  obtain u w where w: "recover E ?w = Inr (u, w)" "s = \<lparr>sdb = wdb w, broken = False\<rparr>" and v: "\<not> version > SCHEMA_VERSION"
    using assms(1) by (auto simp: open_existing_def split: if_splits sum.splits)
  have "settled (wdb w) \<and> store_ahead E d (wdb w)"
    using specD[OF recover_spec, of E ?w] w(1) assms(2) by simp
  then show "store_ahead E d (sdb s)" "settled (sdb s)" "\<not> broken s" "version \<le> SCHEMA_VERSION"
    using w(2) v by simp_all
qed

lemma store_step_ahead:
  assumes "store_ok E (sdb s)" and "store_step E s l t"
  shows "store_ahead E (sdb s) (sdb t)"
  using assms(2)
proof cases
  case (step_request op ts ids)
  then show ?thesis using db.within_call[OF op_within[of E op] assms(1)] by (simp add: ahead_def)
next
  case (step_restart version ts ids)
  then show ?thesis using open_existing_spec(1)[OF _ assms(1)] by blast
qed

interpretation daemon: history_system store_init "store_step E" "\<lambda>s. store_ok E (sdb s)" "\<lambda>s t. follows (sdb s) (sdb t)" for E
proof unfold_locales
  show "store_init s \<Longrightarrow> store_ok E (sdb s)" for s by (auto simp: store_init_def open_new_def new_store_ok)
  show "store_ok E (sdb s) \<Longrightarrow> store_step E s l t \<Longrightarrow> store_ok E (sdb t)" for s t and l :: "'s store_label"
    using store_step_ahead[of E s l t] by (simp add: ahead_def)
  show "store_ok E (sdb s) \<Longrightarrow> store_step E s l t \<Longrightarrow> follows (sdb s) (sdb t)" for s t and l :: "'s store_label"
    using store_step_ahead[of E s l t] by (simp add: ahead_def)
qed (auto intro: follows_refl follows_trans)

end
