(* ===== verification/Store_Sample.thy ===== *)
theory Store_Sample
  imports Store_System Approval_Claims
begin

text \<open>
  A run of the daemon on concrete inputs, from an empty database to a consumed credential grant:
  the inputs at which properties of the store are instantiated, and a check that the requests of
  the model accept what a client would send.
\<close>

section \<open>Inputs\<close>

definition sample_externals :: externals where
  "sample_externals = \<lparr>sha256 = id, encode_request = sample_encode, encode_plan = (\<lambda>p. []), encode_text = id,
     uuid_text = (\<lambda>u. []), path_is_absolute = (\<lambda>p. True), path_is_dir = (\<lambda>p. True)\<rparr>"

definition sample_clock :: "nat \<Rightarrow> nat" where "sample_clock k = 150"

definition sample_uuids :: "nat \<Rightarrow> nat \<Rightarrow> uuid" where "sample_uuids n k = of_nat n * 1000 + of_nat k"

abbreviation sample_call :: "nat \<Rightarrow> 'a stx \<Rightarrow> db store \<Rightarrow> (StoreError fault + 'a) \<times> db store" where
  "sample_call n m s \<equiv> call m sample_clock (sample_uuids n) s"

definition sample_m3 :: M3Catalog where
  "sample_m3 = default_m3_catalog\<lparr>m3_office :=
     \<lparr>pet_profiles = [builtin_pet_profile],
      pet_assignments = [assignment (StableId 20) (StableId 7) (StableId 8) (StableId 6) builtin_pet_id],
      rooms = []\<rparr>\<rparr>"

abbreviation sample_grant_request :: ApprovalRequest where
  "sample_grant_request \<equiv> sample_request (Some (StableId 10))"

definition sample_ops :: "unit store_op list" where
  "sample_ops =
     [Op_MarkReady,
      Op_ReplaceCatalog \<lparr>rc_expected_revision = 0, rc_catalog = sample_catalog\<rparr>,
      Op_ReplaceM3Catalog \<lparr>rm_expected_revision = 0, rm_catalog = sample_m3\<rparr>,
      Op_CreateApproval sample_grant_request,
      Op_DecideApproval \<lparr>dac_decision = sample_decision, dac_credential_scope_acknowledged = True\<rparr>]"

section \<open>Running requests one after the other\<close>

text \<open>The stores after each prefix of a list of requests; the \<open>n\<close>-th request has its own streams.\<close>

fun perform :: "nat \<Rightarrow> 's store_op list \<Rightarrow> db store \<Rightarrow> (StoreError fault + unit) list \<times> db store" where
  "perform n [] s = ([], s)"
| "perform n (op # ops) s =
     (case sample_call n (op_tx sample_externals op) s of (r, t) \<Rightarrow>
      case perform (Suc n) ops t of (rs, u) \<Rightarrow> (r # rs, u))"

definition sample_store :: "db store" where
  "sample_store = snd (perform 1 sample_ops (open_new sample_clock (sample_uuids 0)))"

definition sample_consume :: "unit store_op" where
  "sample_consume = Op_ConsumeGrant (StableId 11) (sample_action (Some (StableId 10)))"

lemma perform_steps: "steps (store_step sample_externals) s (map Request ops) (snd (perform n ops s))"
proof (induction ops arbitrary: n s)
  case (Cons op ops)
  let ?t = "snd (sample_call n (op_tx sample_externals op) s)"
  have "steps (store_step sample_externals) s (Request op # map Request ops) (snd (perform (Suc n) ops ?t))"
    by (rule steps_Cons[OF step_request Cons.IH])
  then show ?case by (auto split: prod.splits)
qed (simp add: steps_Nil)

definition sample_replace :: ReplaceCatalogCommand where
  "sample_replace = \<lparr>rc_expected_revision = 1, rc_catalog = sample_catalog\<rparr>"

lemma perform_append: "perform n (ops @ ops') s =
  (fst (perform n ops s) @ fst (perform (n + length ops) ops' (snd (perform n ops s))),
   snd (perform (n + length ops) ops' (snd (perform n ops s))))"
  by (induction ops arbitrary: n s) (auto split: prod.splits)

text \<open>The store is computed once, with all that is asked of it.\<close>

lemma sample_evaluated:
  "case perform 1 sample_ops (open_new sample_clock (sample_uuids 0)) of (rs, s) \<Rightarrow>
     list_all is_ok rs \<and> \<not> broken s \<and> (\<exists>a \<in> set (d_approvals (sdb s)). aq_decision a \<noteq> None) \<and>
     is_ok (fst (sample_call 6 (op_tx sample_externals sample_consume) s)) \<and>
     is_ok (fst (sample_call 7 (replace_catalog sample_externals sample_replace) s)) \<and>
     is_ok (open_existing sample_externals 13 sample_clock (sample_uuids 9) (new_db 5 [] []))"
  by code_simp

lemma sample_store_facts:
  "list_all is_ok (fst (perform 1 sample_ops (open_new sample_clock (sample_uuids 0))))"
  "\<not> broken sample_store"
  "\<exists>a \<in> set (d_approvals (sdb sample_store)). aq_decision a \<noteq> None"
  "fst (sample_call 6 (op_tx sample_externals sample_consume) sample_store) = Inr ()"
  "is_ok (fst (sample_call 7 (replace_catalog sample_externals sample_replace) sample_store))"
  "is_ok (open_existing sample_externals 13 sample_clock (sample_uuids 9) (new_db 5 [] []))"
  using sample_evaluated unfolding sample_store_def case_prod_beta is_ok_unit by blast+

lemma sample_run:
  "list_all is_ok (fst (perform 1 (sample_ops @ [sample_consume]) (open_new sample_clock (sample_uuids 0))))"
proof -
  have "length sample_ops = 5" by (simp add: sample_ops_def)
  then show ?thesis using sample_store_facts(1,4)
    by (auto simp: perform_append sample_store_def is_ok_unit split: prod.splits)
qed

end
