(* ===== verification/Store_Guarantees.thy ===== *)
theory Store_Guarantees
  imports Store_Sample
begin

text \<open>
  What single requests guarantee beyond the invariant: how a replaced catalog relates to the one
  before, what a used grant presupposes, which part of the journal a cursor sees, and that a
  poisoned store refuses everything. The results of the sample requests are evaluated here.
\<close>

section \<open>Sample stores\<close>

lemma sample_reachable_store: "reachable store_init (store_step sample_externals :: _ \<Rightarrow> unit store_label \<Rightarrow> _ \<Rightarrow> _) sample_store"
  unfolding sample_store_def
  by (rule daemon.steps_reachable[OF perform_steps reachable_init]) (auto simp: store_init_def)

lemma sample_store_ok: "store_ok sample_externals (sdb sample_store)"
  by (rule daemon.reachable_inv[OF sample_reachable_store])

section \<open>History\<close>

lemma rows_follow_prefix: "rows_follow (=) xs ys \<Longrightarrow> take (length xs) ys = xs"
  by (rule nth_equalityI) (auto simp: rows_follow_def)

lemma follows_decided:
  assumes "follows d e" and "a \<in> set (d_approvals d)" and "aq_decision a \<noteq> None"
  shows "a \<in> set (d_approvals e)"
  using rows_followD[of approval_step "d_approvals d" "d_approvals e" a] assms
  by (auto simp: follows_def approval_step_def)

lemma follows_used:
  assumes "follows d e" and "g \<in> set (d_grants d)" and "g_consumed_at_ms g \<noteq> None \<or> g_revoked_at_ms g \<noteq> None"
  shows "g \<in> set (d_grants e)"
  using rows_followD[of grant_step "d_grants d" "d_grants e" g] assms
  by (auto simp: follows_def grant_step_def)

lemma follows_launch:
  assumes "follows d e" and "r \<in> set (d_staged d)"
  shows "\<exists>q \<in> set (d_staged e). sg_run_id q = sg_run_id r \<and> sg_request_id q = sg_request_id r \<and>
    launch_step\<^sup>*\<^sup>* (sg_state r) (sg_state q)"
  using rows_followD[of staged_step "d_staged d" "d_staged e" r] assms
  by (auto simp: follows_def staged_step_def)

section \<open>The journal\<close>

lemma journal_filter:
  assumes "journal_ok es"
  shows "filter (\<lambda>e. n < ev_sequence e) es = drop (unat n) es"
proof -
  have seq: "unat (ev_sequence (es ! i)) = Suc i" if "i < length es" for i
    using that assms nth_map[OF that, of "\<lambda>e. unat (ev_sequence e)"] nth_upt[of 1 i "Suc (length es)"]
    by (simp add: journal_ok_def del: upt_Suc)
  have "filter (\<lambda>e. n < ev_sequence e) (take (unat n) es) = []"
    by (auto simp: filter_empty_conv in_set_conv_nth word_less_nat_alt seq)
  moreover have "filter (\<lambda>e. n < ev_sequence e) (drop (unat n) es) = drop (unat n) es"
    by (auto simp: filter_id_conv in_set_conv_nth word_less_nat_alt seq)
  ultimately show ?thesis
    using filter_append[of "\<lambda>e. n < ev_sequence e" "take (unat n) es" "drop (unat n) es"] by simp
qed

lemma journal_sorted:
  assumes "journal_ok es"
  shows "sort_key ev_sequence (drop n es) = drop n es"
proof (rule sort_key_id_if_sorted)
  have "sorted (map (\<lambda>e. unat (ev_sequence e)) es)" using assms by (simp add: journal_ok_def del: upt_Suc)
  then have "sorted (map ev_sequence es)" by (simp add: sorted_iff_nth_mono word_le_nat_alt)
  then show "sorted (map ev_sequence (drop n es))" by (simp add: sorted_wrt_drop flip: drop_map)
qed

lemma events_after_ok:
  assumes "journal_ok (d_events (sdb s))" and "\<not> broken s" and "fits_i64 n"
  shows "call (events_after n) ts ids s = (Inr (drop (unat n) (d_events (sdb s))), s)"
  using assms
  by (simp add: call_def events_after_def tx_world_def connection_def sql_int_def tx_then_def tx_bind_def tx_lock_def
    tx_check_def tx_get_def tx_return_def journal_filter journal_sorted)

section \<open>Replacing the catalog\<close>

definition kept :: "IdentityCatalog \<Rightarrow> IdentityCatalog \<Rightarrow> Run \<Rightarrow> bool" where
  "kept c c' r \<longleftrightarrow> find_run (run_id r) c' = Some r \<and>
     (\<exists>s. find_session (run_session_id r) c = Some s \<and> find_session (run_session_id r) c' = Some s)"

definition idle :: "Run \<Rightarrow> bool" where
  "idle r \<longleftrightarrow> run_state r = Run_Starting \<and> run_started_at r = None"

lemma keeps_run_kept: "spec (keeps_run c c' r) d (\<lambda>_ d'. d' = d \<and> kept c c' r)"
  unfolding keeps_run_def
  by (intro spec_rules) (auto simp: kept_def find_run_def find_session_def dest: find_SomeD)

lemma introduces_run_idle:
  "spec (introduces_run c r) d (\<lambda>_ d'. d' = d \<and> ((\<exists>p \<in> set (runs c). run_id p = run_id r) \<or> idle r))"
  unfolding introduces_run_def by (intro spec_rules) (auto simp: idle_def)

lemmas spec_keeps_runs = spec_mono[OF spec_each_checks[OF allI[OF keeps_run_kept]]]
lemmas spec_introduces_runs = spec_mono[OF spec_each_checks[OF allI[OF introduces_run_idle]]]

lemma replace_catalog_spec:
  "spec (replace_catalog E command) d (\<lambda>receipt d'.
     d_catalog_revision d = rc_expected_revision command \<and> d_catalog_revision d' = rc_expected_revision command + 1 \<and>
     d_catalog d' = rc_catalog command \<and> wf_catalog (rc_catalog command) \<and>
     (\<forall>r \<in> set (runs (d_catalog d)). kept (d_catalog d) (rc_catalog command) r) \<and>
     (\<forall>r \<in> set (runs (rc_catalog command)). (\<exists>p \<in> set (runs (d_catalog d)). run_id p = run_id r) \<or> idle r))"
  unfolding replace_catalog_def write_catalog_def
  by (rule spec_keeps_runs spec_introduces_runs spec_insert_event spec_rules | (auto simp: catalog_validate_wf; fail))+

section \<open>Using a grant\<close>

text \<open>The requests that use a credential grant up.\<close>

fun uses_grant :: "ApprovalRequestId \<Rightarrow> 's store_op \<Rightarrow> bool" where
  "uses_grant i (Op_ConsumeGrant j a) \<longleftrightarrow> j = i"
| "uses_grant i (Op_ClaimDispatch reader j) \<longleftrightarrow> j = i"
| "uses_grant i _ \<longleftrightarrow> False"

definition used_up :: "ApprovalRequestId \<Rightarrow> db \<Rightarrow> bool" where
  "used_up i d \<longleftrightarrow> (\<exists>g \<in> set (d_grants d). g_request_id g = i \<and> g_consumed_at_ms g \<noteq> None)"

text \<open>What holds of the database in which a grant is used.\<close>

definition may_use :: "externals \<Rightarrow> db \<Rightarrow> ApprovalRequestId \<Rightarrow> bool" where
  "may_use E d i \<longleftrightarrow> d_lifecycle d = ''ready'' \<and>
     (\<exists>grant now. grant_record E d i grant \<and> validate_time (cgr_request grant) now = Ok () \<and> grant_is_open grant now)"

lemma consumed_used_up:
  "length (filter (open_grant i) (d_grants d)) = 1 \<Longrightarrow>
   used_up i (d\<lparr>d_grants := map (\<lambda>g. if open_grant i g then g\<lparr>g_consumed_at_ms := Some now\<rparr> else g) (d_grants d)\<rparr>)"
  using consumed_row[of i "d_grants d" now] by (simp add: used_up_def)

lemma used_up_cong: "d_grants d' = d_grants d \<Longrightarrow> used_up i d' = used_up i d"
  by (simp add: used_up_def)

lemma spec_update_grant:
  "(\<And>d'. d' = d\<lparr>d_grants := map (\<lambda>g. if open_grant i g then f g else g) (d_grants d)\<rparr> \<Longrightarrow>
      Q (length (filter (open_grant i) (d_grants d))) d') \<Longrightarrow> spec (update_grant i f) d Q"
  unfolding update_grant_def by (intro spec_rules) auto

lemma spec_mark_used:
  assumes "\<And>d' n. (n = 1 \<Longrightarrow> used_up i d') \<Longrightarrow> Q n d'"
  shows "spec (update_grant i (\<lambda>g. g\<lparr>g_consumed_at_ms := Some now\<rparr>)) d Q"
  by (rule spec_update_grant, rule assms) (simp add: consumed_used_up)

lemma consume_spec: "spec (consume_credential_grant E i a) d (\<lambda>_ d'. may_use E d i \<and> used_up i d')"
  unfolding consume_credential_grant_def
  by (rule spec_mark_used spec_insert_event spec_rules | (fastforce simp: may_use_def used_up_def; fail))+

lemma dispatch_may_use: "dispatch_authorized E reader d i now run plan selection \<Longrightarrow> may_use E d i"
  by (auto simp: dispatch_authorized_def may_use_def)

definition dispatches :: "externals \<Rightarrow> 's reader \<Rightarrow> db \<Rightarrow> ApprovalRequestId \<Rightarrow> bool" where
  "dispatches E reader d i \<longleftrightarrow> (\<exists>now run plan selection. dispatch_authorized E reader d i now run plan selection)"

lemma claim_spec:
  "spec (claim_staged_dispatch E reader i) d (\<lambda>_ d'. may_use E d i \<and> used_up i d' \<and> dispatches E reader d i)"
  unfolding claim_staged_dispatch_def update_staged_def insert_claim_def write_catalog_def write_graph_def
  by (rule spec_mark_used spec_insert_event spec_rules |
      (auto simp: used_up_def dispatches_def intro: dispatch_may_use; fail))+

lemma grant_use_spec:
  assumes "uses_grant i op"
  shows "spec (op_tx E op) d (\<lambda>_ d'. may_use E d i \<and> used_up i d' \<and>
    (\<forall>reader j. op = Op_ClaimDispatch reader j \<longrightarrow> dispatches E reader d i))"
  using assms
  by (cases "(i, op)" rule: uses_grant.cases)
    (auto simp: forget_def intro!: spec_then spec_return spec_mono[OF consume_spec] spec_mono[OF claim_spec])

lemma used_up_closed:
  assumes "store_ok E d" and "used_up i d"
  shows "\<not> may_use E d i"
proof
  assume "may_use E d i"
  then obtain g grant now where "find_grant i d = Some g" "g_consumed_at_ms g = None"
    by (auto simp: may_use_def grant_record_def grant_is_open_def)
  then have g: "g \<in> set (d_grants d)" "g_request_id g = i" "g_consumed_at_ms g = None"
    by (auto simp: find_grant_def dest: find_SomeD)
  obtain h where h: "h \<in> set (d_grants d)" "g_request_id h = i" "g_consumed_at_ms h \<noteq> None"
    using assms(2) by (auto simp: used_up_def)
  have "distinct (map g_request_id (d_grants d))" using assms(1) by (simp add: store_ok_def grants_ok_def)
  then have "g = h" by (rule distinct_key_eq) (use g h in simp_all)
  then show False using g(3) h(3) by simp
qed

lemma used_up_follows: "follows d e \<Longrightarrow> used_up i d \<Longrightarrow> used_up i e"
  unfolding used_up_def using follows_used[of d e] by blast

section \<open>A poisoned store\<close>

definition refuses :: "'a stx \<Rightarrow> bool" where
  "refuses m \<longleftrightarrow> (\<forall>w. poisoned w \<longrightarrow> (\<exists>e. m w = Inl (Returned e)))"

lemma refuses_rules:
  "refuses (tx_then connection m)"
  "refuses n \<Longrightarrow> refuses (tx_then (tx_check b e) n)"
  "refuses n \<Longrightarrow> refuses (tx_then (tx_try g r) n)"
  "(\<And>v. refuses (f v)) \<Longrightarrow> refuses (tx_bind (tx_try g r) f)"
  "refuses k \<Longrightarrow> refuses (tx_bind k h)"
  "refuses k \<Longrightarrow> refuses (forget k)"
  by (auto simp: refuses_def forget_def connection_def tx_then_def tx_bind_def tx_lock_def tx_check_def tx_try_def split: sum.splits)
    (metis sum.inject(1))+

lemma refuses_let: "(\<And>v. refuses (f v)) \<Longrightarrow> refuses (Let x f)"
  by simp

lemma refuses_op: "refuses (op_tx E op)"
  by (cases op; simp only: op_tx.simps; unfold transition_def expire_staged_launches_def checkpoint_def suspend_def
      shutdown_def persist_checkpoint_def resume_def replace_catalog_def replace_m3_catalog_def store_prepare_mvp_def
      store_accept_mvp_decision_def create_mvp_document_def accept_mvp_document_def prepare_knowledge_delivery_def
      complete_knowledge_delivery_def record_cost_def m3_begin_def create_graph_execution_def
      restart_missing_output_graph_def retry_failed_graph_node_def claim_graph_nodes_def complete_graph_node_def
      update_graph_def begin_graph_node_run_inner_def finish_graph_node_run_def record_provider_running_def
      record_provider_cancel_after_preflight_def record_provider_cancel_accepted_def cancel_staged_run_def
      create_approval_def decide_approval_def consume_credential_grant_def revoke_credential_grant_def
      claim_staged_dispatch_def fail_dispatch_claim_def;
      (rule refuses_rules refuses_let)+)

lemma refuses_call:
  assumes "refuses m" and "broken s"
  shows "\<exists>e. call m ts ids s = (Inl (Returned e), s)"
proof -
  have "poisoned (tx_world ts ids s)" using assms(2) by (simp add: tx_world_def)
  then obtain e where "m (tx_world ts ids s) = Inl (Returned e)" using assms(1) by (auto simp: refuses_def)
  then show ?thesis by (simp add: call_def)
qed

end
