(* ===== verification/Store_Claims.thy ===== *)
theory Store_Claims
  imports Store_Guarantees
begin

text \<open>
  What a client of the daemon may rely on. The statements quantify over all interleavings of
  requests and restarts: \<open>reachable store_init (store_step E) s\<close> says that the daemon can be in the
  store \<open>s\<close>, and \<open>steps (store_step E) s ls t\<close> that the requests and restarts \<open>ls\<close> lead from \<open>s\<close> to \<open>t\<close>.
\<close>

section \<open>Every reachable store\<close>

text \<open>C1. Whatever requests are made in whatever order, with whatever clock and identifiers, and
  however often the daemon is restarted, the database stays well formed: the catalog passes its
  validation, every execution passes its own, is stored under its identifier and revision and
  carries no text of a provider in its failures, keys are unique, every decision verifies against
  its request, every grant belongs to an approved request and carries the time of its decision,
  and a launch is only dispatched with a consumed grant.\<close>

theorem reachable_store_consistent:
  assumes "reachable store_init (store_step E) s"
  shows "store_ok E (sdb s)"
  by (rule daemon.reachable_inv[OF assms])

theorem reachable_store_consistent_witness: "store_ok sample_externals (sdb sample_store)"
  by (rule reachable_store_consistent[OF sample_reachable_store])

text \<open>C4. What is written stays written: along every run of requests and restarts the journal, the
  outputs, the launch plans, the dispatch claims and the checkpoints only grow at their end, a
  decided approval and a used or revoked grant never change, and a staged launch only moves
  forward along its life.\<close>

theorem history_only_grows:
  assumes "reachable store_init (store_step E) s" and "steps (store_step E) s ls t"
  shows "take (length (d_events (sdb s))) (d_events (sdb t)) = d_events (sdb s) \<and>
    take (length (d_outputs (sdb s))) (d_outputs (sdb t)) = d_outputs (sdb s) \<and>
    take (length (d_plans (sdb s))) (d_plans (sdb t)) = d_plans (sdb s) \<and>
    take (length (d_claims (sdb s))) (d_claims (sdb t)) = d_claims (sdb s) \<and>
    take (length (d_checkpoints (sdb s))) (d_checkpoints (sdb t)) = d_checkpoints (sdb s) \<and>
    (\<forall>a \<in> set (d_approvals (sdb s)). aq_decision a \<noteq> None \<longrightarrow> a \<in> set (d_approvals (sdb t))) \<and>
    (\<forall>g \<in> set (d_grants (sdb s)). g_consumed_at_ms g \<noteq> None \<or> g_revoked_at_ms g \<noteq> None \<longrightarrow>
      g \<in> set (d_grants (sdb t))) \<and>
    (\<forall>r \<in> set (d_staged (sdb s)). \<exists>q \<in> set (d_staged (sdb t)). sg_run_id q = sg_run_id r \<and>
      sg_request_id q = sg_request_id r \<and> launch_step\<^sup>*\<^sup>* (sg_state r) (sg_state q))"
proof -
  have f: "follows (sdb s) (sdb t)" by (rule daemon.steps_hist[OF assms(2) daemon.reachable_inv[OF assms(1)]])
  then show ?thesis
    using follows_decided[OF f] follows_used[OF f] follows_launch[OF f]
    by (auto simp: follows_def intro: rows_follow_prefix)
qed

theorem history_only_grows_witness:
  "\<exists>t a. steps (store_step sample_externals) sample_store [Request sample_consume] t \<and>
     aq_decision a \<noteq> None \<and> a \<in> set (d_approvals (sdb t))"
proof -
  let ?t = "snd (sample_call 6 (op_tx sample_externals sample_consume) sample_store)"
  have step: "steps (store_step sample_externals) sample_store [Request sample_consume] ?t"
    by (rule steps_Cons, rule step_request, rule steps_Nil)
  obtain a where a: "a \<in> set (d_approvals (sdb sample_store))" "aq_decision a \<noteq> None"
    using sample_store_facts(3) by blast
  then show ?thesis using step history_only_grows[OF sample_reachable_store step] by blast
qed



text \<open>A reader that asks for the events after the last sequence number it has seen gets exactly
  the events it has not seen, in order and without a gap, even if requests and restarts came in
  between.\<close>

theorem journal_cursor_complete:
  assumes "reachable store_init (store_step E) s" and "steps (store_step E) s ls t" and "\<not> broken t"
    and "fits_i64 (last_sequence (d_events (sdb s)))"
  shows "\<exists>new. d_events (sdb t) = d_events (sdb s) @ new \<and>
    call (events_after (last_sequence (d_events (sdb s)))) ts ids t = (Inr new, t)"
proof -
  let ?es = "d_events (sdb s)" and ?fs = "d_events (sdb t)"
  have ok: "store_ok E (sdb s)" by (rule daemon.reachable_inv[OF assms(1)])
  have "take (length ?es) ?fs = ?es"
    using daemon.steps_hist[OF assms(2) ok] by (auto simp: follows_def intro: rows_follow_prefix)
  moreover have "unat (last_sequence ?es) = length ?es"
    using ok by (intro last_sequence_length) (simp add: store_ok_def)
  moreover have "journal_ok ?fs" using daemon.steps_inv[OF assms(2) ok] by (simp add: store_ok_def)
  ultimately show ?thesis
    using events_after_ok[OF _ assms(3,4), of ts ids] append_take_drop_id[of "length ?es" ?fs] by auto
qed

theorem journal_cursor_complete_witness:
  "\<exists>new. d_events (sdb sample_store) = [] @ new \<and>
     call (events_after 0) sample_clock (sample_uuids 9) sample_store = (Inr new, sample_store)"
proof -
  let ?s = "open_new sample_clock (sample_uuids 0)"
  have s: "reachable store_init (store_step sample_externals :: _ \<Rightarrow> unit store_label \<Rightarrow> _ \<Rightarrow> _) ?s"
    by (rule reachable_init) (auto simp: store_init_def)
  have "steps (store_step sample_externals) ?s (map Request sample_ops) sample_store"
    unfolding sample_store_def by (rule perform_steps)
  moreover have "d_events (sdb ?s) = []" "fits_i64 (last_sequence [])" "\<not> broken sample_store"
    by (simp add: open_new_def new_db_def, code_simp, rule sample_store_facts(2))
  ultimately show ?thesis
    using journal_cursor_complete[OF s, of "map Request sample_ops" sample_store sample_clock "sample_uuids 9"]
    by (simp add: last_sequence_def)
qed

section \<open>Revisions and grants\<close>

text \<open>C20. No update of the catalog is lost: once a replacement that expected some revision has
  succeeded, no replacement that expects the same revision succeeds ever again, whatever requests
  and restarts come in between.\<close>

theorem no_lost_catalog_update:
  assumes "store_ok E (sdb s)" and "call (replace_catalog E command) ts ids s = (Inr receipt, t)"
    and "steps (store_step E) t ls u" and "rc_expected_revision command' = rc_expected_revision command"
  shows "\<exists>e. fst (call (replace_catalog E command') ts' ids' u) = Inl e"
proof (cases "fst (call (replace_catalog E command') ts' ids' u)")
  case (Inr receipt')
  then obtain v where "call (replace_catalog E command') ts' ids' u = (Inr receipt', v)"
    by (cases "call (replace_catalog E command') ts' ids' u") auto
  from call_spec[OF replace_catalog_spec this]
  have u: "d_catalog_revision (sdb u) = rc_expected_revision command" using assms(4) by simp
  from call_spec[OF replace_catalog_spec assms(2)]
  have t: "d_catalog_revision (sdb s) = rc_expected_revision command"
    "d_catalog_revision (sdb t) = rc_expected_revision command + 1" by auto
  have ok: "store_ok E (sdb t)"
    using db.within_call(1)[OF replace_catalog_within assms(1), of command ts ids] assms(2) by simp
  have "rc_expected_revision command < d_catalog_revision (sdb t)"
    using t assms(1) by (simp add: store_ok_def revision_succ)
  moreover have "d_catalog_revision (sdb t) \<le> d_catalog_revision (sdb u)"
    using daemon.steps_hist[OF assms(3) ok] by (auto simp: follows_def newer_def)
  ultimately show ?thesis using u by simp
qed simp

theorem no_lost_catalog_update_witness:
  "\<exists>t e. sdb t \<noteq> sdb sample_store \<and>
     fst (sample_call 8 (replace_catalog sample_externals sample_replace) t) = Inl e"
proof -
  obtain receipt t where t: "sample_call 7 (replace_catalog sample_externals sample_replace) sample_store = (Inr receipt, t)"
    using sample_store_facts(5) by (cases "sample_call 7 (replace_catalog sample_externals sample_replace) sample_store") (auto simp: is_ok_iff)
  have "d_catalog_revision (sdb t) = d_catalog_revision (sdb sample_store) + 1"
    using call_spec[OF replace_catalog_spec t] by simp
  then have "sdb t \<noteq> sdb sample_store" by auto
  moreover have "\<exists>e. fst (sample_call 8 (replace_catalog sample_externals sample_replace) t) = Inl e"
    by (rule no_lost_catalog_update[OF sample_store_ok t steps_Nil[of "store_step sample_externals :: _ \<Rightarrow> unit store_label \<Rightarrow> _"] refl])
  ultimately show ?thesis by blast
qed

text \<open>C22. Replacing the catalog cannot take a run away from the daemon or smuggle one in: every run
  of the old catalog is in the new one unchanged, with its session, and every other run of the new
  one has not started.\<close>

theorem catalog_replacement_keeps_owned_runs:
  assumes "call (replace_catalog E command) ts ids s = (Inr receipt, t)"
  shows "d_catalog (sdb t) = rc_catalog command \<and> wf_catalog (d_catalog (sdb t)) \<and>
    (\<forall>r \<in> set (runs (d_catalog (sdb s))). kept (d_catalog (sdb s)) (d_catalog (sdb t)) r) \<and>
    (\<forall>r \<in> set (runs (d_catalog (sdb t))). (\<exists>p \<in> set (runs (d_catalog (sdb s))). run_id p = run_id r) \<or> idle r)"
  using call_spec[OF replace_catalog_spec assms] by auto

theorem catalog_replacement_keeps_owned_runs_witness:
  "\<exists>receipt t. sample_call 7 (replace_catalog sample_externals sample_replace) sample_store = (Inr receipt, t) \<and>
     d_catalog (sdb t) = sample_catalog"
proof -
  obtain receipt t where t: "sample_call 7 (replace_catalog sample_externals sample_replace) sample_store = (Inr receipt, t)"
    using sample_store_facts(5) by (cases "sample_call 7 (replace_catalog sample_externals sample_replace) sample_store") (auto simp: is_ok_iff)
  from catalog_replacement_keeps_owned_runs[OF t] t show ?thesis by (simp add: sample_replace_def)
qed



text \<open>C2. A credential grant is used at most once, also when requests of other clients, failures
  and restarts come in between the two attempts.\<close>

theorem grant_used_once:
  assumes "store_ok E (sdb s)" and "uses_grant i op" and "call (op_tx E op) ts ids s = (Inr u, t)"
    and "steps (store_step E) t ls v" and "uses_grant i op'"
  shows "\<exists>e. fst (call (op_tx E op') ts' ids' v) = Inl e"
proof (cases "fst (call (op_tx E op') ts' ids' v)")
  case (Inr u')
  then obtain v' where "call (op_tx E op') ts' ids' v = (Inr u', v')"
    by (cases "call (op_tx E op') ts' ids' v") auto
  from call_spec[OF grant_use_spec[OF assms(5)] this] have "may_use E (sdb v) i" by simp
  moreover have ok: "store_ok E (sdb t)"
    using db.within_call(1)[OF op_within assms(1), of op ts ids] assms(3) by simp
  moreover have "used_up i (sdb t)" using call_spec[OF grant_use_spec[OF assms(2)] assms(3)] by simp
  then have "used_up i (sdb v)" by (rule used_up_follows[OF daemon.steps_hist[OF assms(4) ok]])
  ultimately show ?thesis using used_up_closed[OF daemon.steps_inv[OF assms(4) ok]] by blast
qed simp

theorem grant_used_once_witness:
  "\<exists>t e. fst (sample_call 6 (op_tx sample_externals sample_consume) sample_store) = Inr () \<and>
     t = snd (sample_call 6 (op_tx sample_externals sample_consume) sample_store) \<and>
     fst (sample_call 8 (op_tx sample_externals sample_consume) t) = Inl e"
proof -
  let ?t = "snd (sample_call 6 (op_tx sample_externals sample_consume) sample_store)"
  have c: "sample_call 6 (op_tx sample_externals sample_consume) sample_store = (Inr (), ?t)"
    using sample_store_facts(4) by (simp add: prod_eq_iff)
  have u: "uses_grant (StableId 11) sample_consume" by (simp add: sample_consume_def)
  have "steps (store_step sample_externals :: _ \<Rightarrow> unit store_label \<Rightarrow> _ \<Rightarrow> _) ?t [] ?t" by (rule steps_Nil)
  from grant_used_once[OF sample_store_ok u c this u] show ?thesis using sample_store_facts(4) by blast
qed

section \<open>Recovery and refusals\<close>







section \<open>Outcomes that are never persisted\<close>

text \<open>A provider that answers with white space alone leaves its run unsettled: the worker turns the
  answer into a failure and keeps the text, finishing the run refuses the blank text, and the worker
  takes that refusal for a lasting one and gives up.\<close>

theorem blank_answer_is_never_settled:
  assumes "blank text"
  shows "let po = persisted_outcome (outcome Run_Succeeded session cost (Some text) failure) in
    po_terminal_state po = Run_Failed \<and>
    terminal_output E (finish_command E receipt po c m x) Failed = Err (St_InvalidGraph InvalidOutput) \<and>
    finish_error (St_InvalidGraph InvalidOutput) = Not_Persisted"
  using assms by (simp add: Let_def persisted_outcome_def outcome_def terminal_output_def finish_command_def output_create_def)

theorem blank_answer_is_never_settled_witness:
  "po_terminal_state (persisted_outcome (outcome Run_Succeeded None unknown_cost (Some '' '') None)) = Run_Failed"
proof -
  have "blank '' ''" by code_simp
  from blank_answer_is_never_settled[OF this, of None unknown_cost None] show ?thesis by (simp add: Let_def)
qed

text \<open>When the store is poisoned, persisting an outcome never ends: with any amount of fuel the
  loop asks again, so the worker thread spins until the process ends.\<close>

theorem poisoned_store_spins_worker:
  assumes "broken s"
  shows "persist_outcome fuel E receipt po (\<lambda>_ _ t. t) ts ids s = (Persist_Again, s)"
proof -
  have "persist_turn E receipt po (\<lambda>_ t. t) ts ids s = (Persist_Again, s)" for po ts ids
    using assms
    by (simp add: persist_turn_def call_def tx_world_def read_catalog_def connection_def tx_then_def tx_bind_def tx_lock_def)
  then have "persist_loop fuel E receipt po (\<lambda>_ _ t. t) ts ids s = (Persist_Again, s)" for po
    by (induction fuel) simp_all
  then show ?thesis by (simp add: persist_outcome_def)
qed

theorem poisoned_store_spins_worker_witness:
  "\<forall>receipt ts ids. fst (persist_outcome 1000 sample_externals receipt outcome_cancelled (\<lambda>_ _ t. t) ts ids \<lparr>sdb = new_db 5 [] [], broken = True\<rparr>) = Persist_Again"
  by (simp add: poisoned_store_spins_worker)

end
