(* ===== verification/Adapter.thy ===== *)
theory Adapter
  imports Protocol "HOL-Library.Sublist"
begin

text \<open>
  What the provider adapters share: the JSON values a provider sends (\<open>serde_json::Value\<close>), the
  capabilities an adapter declares and the events it emits (\<open>bastet-core/src/adapter.rs\<close>), and
  the contract of a source of events: lifecycle events are numbered from one without gaps, and
  after an event with a settled state there is none.
\<close>

section \<open>JSON values\<close>

text \<open>
  An object is a list of its members with distinct keys. Parsing and printing are done by a third-party
  package: \<open>json_codec\<close> stands for \<open>serde_json::from_str\<close> and \<open>Value::to_string\<close>.
\<close>

datatype json_number = PosInt u64 | NegInt int | Float ieee

datatype Value =
  VNull | VBool bool | VNumber json_number | VString string | VArray "Value list"
| VObject "(string \<times> Value) list"

record json_codec =
  json_parse :: "string \<Rightarrow> Value option"
  json_text :: "Value \<Rightarrow> string"

fun value_get :: "string \<Rightarrow> Value \<Rightarrow> Value option" where
  "value_get k (VObject ms) = map_of ms k"
| "value_get k _ = None"

fun as_object :: "Value \<Rightarrow> (string \<times> Value) list option" where
  "as_object (VObject ms) = Some ms"
| "as_object _ = None"

fun as_array :: "Value \<Rightarrow> Value list option" where
  "as_array (VArray vs) = Some vs"
| "as_array _ = None"

fun as_str :: "Value \<Rightarrow> string option" where
  "as_str (VString s) = Some s"
| "as_str _ = None"

fun as_u64 :: "Value \<Rightarrow> u64 option" where
  "as_u64 (VNumber (PosInt n)) = Some n"
| "as_u64 _ = None"

text \<open>\<open>as_i64\<close>: a non-negative number is one as long as it fits.\<close>

fun as_i64 :: "Value \<Rightarrow> int option" where
  "as_i64 (VNumber (PosInt n)) = (if uint n < 0x8000000000000000 then Some (uint n) else None)"
| "as_i64 (VNumber (NegInt i)) = Some i"
| "as_i64 _ = None"

definition get_str :: "string \<Rightarrow> Value \<Rightarrow> string option" where
  "get_str k v = Option.bind (value_get k v) as_str"

text \<open>A member that is text and not blank.\<close>

definition get_text :: "string \<Rightarrow> Value \<Rightarrow> string option" where
  "get_text k v = (case get_str k v of Some s \<Rightarrow> if blank s then None else Some s | None \<Rightarrow> None)"

lemma get_text_Some [simp]: "get_text k v = Some s \<longleftrightarrow> get_str k v = Some s \<and> \<not> blank s"
  by (auto simp: get_text_def split: option.splits)

section \<open>Text\<close>

lemma if_cases: "(if b then x else y) = z \<Longrightarrow> (x = z \<Longrightarrow> P) \<Longrightarrow> (y = z \<Longrightarrow> P) \<Longrightarrow> P"
  by (cases b) auto

definition ascii_lower :: "char \<Rightarrow> char" where
  "ascii_lower c = (let n = of_char c :: nat in if 65 \<le> n \<and> n \<le> 90 then char_of (n + 32) else c)"

text \<open>\<open>str::contains\<close>\<close>

fun text_contains :: "string \<Rightarrow> string \<Rightarrow> bool" where
  "text_contains [] needle = (needle = [])"
| "text_contains (c # cs) needle = (take (length needle) (c # cs) = needle \<or> text_contains cs needle)"

lemma text_contains_iff: "text_contains s needle \<longleftrightarrow> sublist needle s"
proof (induction s)
  case (Cons c cs)
  have "take (length needle) (c # cs) = needle \<longleftrightarrow> prefix needle (c # cs)"
    by (metis append_eq_conv_conj prefix_def take_is_prefix)
  with Cons show ?case by (simp add: sublist_Cons_right)
qed simp

text \<open>\<open>append_if_within_limit\<close>: the whole text is taken or none of it.\<close>

definition append_if_within_limit :: "string \<Rightarrow> string \<Rightarrow> nat \<Rightarrow> string option" where
  "append_if_within_limit target addition limit =
     (if length target + length addition \<le> limit then Some (target @ addition) else None)"

definition MAX_FINAL_OUTPUT_BYTES :: nat where "MAX_FINAL_OUTPUT_BYTES = 256 * 1024"

text \<open>A text is retained whole or, past the limit, given up for good.\<close>

fun retain_text :: "string \<Rightarrow> string \<times> bool \<Rightarrow> string \<times> bool" where
  "retain_text t (kept, overflowed) =
     (if overflowed then (kept, True)
      else case append_if_within_limit kept t MAX_FINAL_OUTPUT_BYTES of
        Some joined \<Rightarrow> (joined, False) | None \<Rightarrow> ([], True))"

lemma retain_all_from:
  "fold retain_text ts (kept, False) =
     (if length kept + length (concat ts) \<le> MAX_FINAL_OUTPUT_BYTES then (kept @ concat ts, False)
      else if ts = [] then (kept, False) else ([], True))"
proof (induction ts arbitrary: kept)
  case (Cons t ts)
  have over: "fold retain_text us ([], True) = ([], True)" for us by (induction us) auto
  show ?case using Cons over[of ts] by (auto simp: append_if_within_limit_def)
qed simp

lemma retain_all:
  "fold retain_text ts ([], False) =
     (if length (concat ts) \<le> MAX_FINAL_OUTPUT_BYTES then (concat ts, False) else ([], True))"
  using retain_all_from[of ts "[]"] by (cases "ts = []") (simp_all del: retain_text.simps)

section \<open>Capabilities and events\<close>

datatype AdapterOperation =
  Adp_Discover | Adp_Install | Adp_Update | Adp_Version | Adp_Doctor | Adp_Authenticate
| Adp_InspectAuthentication | Adp_ListModels | Adp_Start | Adp_Attach | Adp_Prompt | Adp_Steer
| Adp_FollowUp | Adp_Status | Adp_Explain | Adp_Wait | Adp_Cancel | Adp_Terminate
| Adp_ExportSession | Adp_ExportResult | Adp_ExportUsage

record AdapterCapabilities =
  operations :: "AdapterOperation list"
  reasoning_controls :: "string list"
  supports_read_only :: bool
  supports_write :: bool
  supports_resume :: bool
  supports_structured_events :: bool

definition AGENT_ADAPTER_CONTRACT_VERSION :: u32 where "AGENT_ADAPTER_CONTRACT_VERSION = 1"

record NormalizedAdapterEvent =
  nae_contract_version :: u32
  nae_run_id :: RunId
  nae_sequence :: u64
  nae_state :: NormalizedRunState
  nae_event_type :: string
  nae_occurred_at :: string
  nae_evidence_class :: EvidenceClass
  nae_provider_event_id :: "string option"
  nae_redacted_payload_json :: string

definition adapter_failure :: "AdapterFailureKind \<Rightarrow> string \<Rightarrow> bool \<Rightarrow> AdapterFailure" where
  "adapter_failure kind key retryable = \<lparr>af_kind = kind, af_message_key = key, af_retryable = retryable,
     af_provider_code = None, af_redacted_detail = None\<rparr>"

text \<open>The states in which an adapter has nothing more to report.\<close>

definition settled_state :: "NormalizedRunState \<Rightarrow> bool" where
  "settled_state s \<longleftrightarrow> s \<in> {Run_Succeeded, Run_Failed, Run_Cancelled, Run_Blocked, Run_Uncertain}"

lemma settled_state_simps [simp]:
  "settled_state Run_Succeeded" "settled_state Run_Failed" "settled_state Run_Cancelled"
  "settled_state Run_Blocked" "settled_state Run_Uncertain"
  "\<not> settled_state Run_Starting" "\<not> settled_state Run_Running" "\<not> settled_state Run_AwaitingApproval"
  "\<not> settled_state Run_Cancelling" "\<not> settled_state Run_Recovering"
  by (simp_all add: settled_state_def)

section \<open>Sources of events\<close>

text \<open>The events of a sequence of calls, and the state after them.\<close>

fun emits :: "('s \<Rightarrow> 'o \<Rightarrow> NormalizedAdapterEvent option \<times> 's) \<Rightarrow> 's \<Rightarrow> 'o list \<Rightarrow> NormalizedAdapterEvent list \<times> 's" where
  "emits emit s [] = ([], s)"
| "emits emit s (a # as) = (case emit s a of (e, t) \<Rightarrow> case emits emit t as of (es, u) \<Rightarrow>
     (case e of None \<Rightarrow> es | Some x \<Rightarrow> x # es, u))"

locale event_source =
  fixes emit :: "'s \<Rightarrow> 'o \<Rightarrow> NormalizedAdapterEvent option \<times> 's"
    and good :: "'s \<Rightarrow> bool"
    and sequence :: "'s \<Rightarrow> u64"    \<comment> \<open>the number of the last event\<close>
    and closed :: "'s \<Rightarrow> bool"
    and proper :: "'s \<Rightarrow> NormalizedAdapterEvent \<Rightarrow> bool"
  assumes keeps_good: "good s \<Longrightarrow> emit s a = (x, t) \<Longrightarrow> good t"
    and numbered: "good s \<Longrightarrow> emit s a = (Some e, t) \<Longrightarrow>
      unat (nae_sequence e) = Suc (unat (sequence s)) \<and> sequence t = nae_sequence e"
    and silent: "emit s a = (None, t) \<Longrightarrow> sequence t = sequence s"
    and closes: "emit s a = (Some e, t) \<Longrightarrow> \<not> closed s \<and> (closed t \<longleftrightarrow> settled_state (nae_state e))"
    and stays_closed: "closed s \<Longrightarrow> emit s a = (None, t) \<Longrightarrow> closed t"
    and emits_proper: "emit s a = (Some e, t) \<Longrightarrow> proper s e"
    and keeps_proper: "emit s a = (x, t) \<Longrightarrow> proper t = proper s"
begin

lemma closed_is_silent: "closed s \<Longrightarrow> emits emit s as = (es, t) \<Longrightarrow> es = [] \<and> closed t"
proof (induction as arbitrary: s es t)
  case (Cons a as)
  obtain x u where a: "emit s a = (x, u)" by (cases "emit s a")
  then have "x = None" using closes Cons.prems(1) by (cases x) auto
  with Cons a show ?case by (auto split: prod.splits dest: stays_closed)
qed simp

lemma numbered_without_gaps:
  "good s \<Longrightarrow> emits emit s as = (es, t) \<Longrightarrow>
     map (unat \<circ> nae_sequence) es = [Suc (unat (sequence s))..<Suc (unat (sequence s) + length es)] \<and>
     unat (sequence t) = unat (sequence s) + length es"
proof (induction as arbitrary: s es t)
  case (Cons a as)
  obtain x u where a: "emit s a = (x, u)" by (cases "emit s a")
  obtain fs v where f: "emits emit u as = (fs, v)" by (cases "emits emit u as")
  note IH = Cons.IH[OF keeps_good[OF Cons.prems(1) a] f]
  show ?case
  proof (cases x)
    case None
    with Cons.prems a f IH silent show ?thesis by auto
  next
    case (Some e)
    with a have n: "unat (nae_sequence e) = Suc (unat (sequence s))" "sequence u = nae_sequence e"
      using numbered[OF Cons.prems(1)] by auto
    from Cons.prems a f Some have es: "es = e # fs" "t = v" by auto
    have "[Suc (unat (sequence s))..<Suc (unat (sequence s) + length es)] =
        Suc (unat (sequence s)) # [Suc (Suc (unat (sequence s)))..<Suc (Suc (unat (sequence s)) + length fs)]"
      by (simp add: es upt_conv_Cons del: upt_Suc)
    with IH n es show ?thesis by simp
  qed
qed simp

lemma settles_last:
  "emits emit s as = (es, t) \<Longrightarrow> k < length es \<Longrightarrow> settled_state (nae_state (es ! k)) \<Longrightarrow> k = length es - 1 \<and> closed t"
proof (induction as arbitrary: s es k t)
  case (Cons a as)
  obtain x u where a: "emit s a = (x, u)" by (cases "emit s a")
  obtain fs v where f: "emits emit u as = (fs, v)" by (cases "emits emit u as")
  show ?case
  proof (cases x)
    case None
    with Cons.prems a f Cons.IH[OF f] show ?thesis by auto
  next
    case (Some e)
    with Cons.prems a f have es: "es = e # fs" "t = v" by auto
    show ?thesis
    proof (cases k)
      case 0
      with Cons.prems es have "settled_state (nae_state e)" by simp
      with closes a Some have "closed u" by auto
      from closed_is_silent[OF this f] 0 es show ?thesis by simp
    next
      case (Suc j)
      with Cons.prems es Cons.IH[OF f, of j] show ?thesis by auto
    qed
  qed
qed simp

lemma all_proper: "emits emit s as = (es, t) \<Longrightarrow> e \<in> set es \<Longrightarrow> proper s e"
proof (induction as arbitrary: s es t)
  case (Cons a as)
  obtain x u where a: "emit s a = (x, u)" by (cases "emit s a")
  obtain fs v where f: "emits emit u as = (fs, v)" by (cases "emits emit u as")
  from Cons.prems a f have "x = Some e \<or> e \<in> set fs" by (auto split: option.splits)
  with Cons.IH[OF f] emits_proper a keeps_proper[OF a] show ?case by auto
qed simp

end

end
