(* ===== verification/Agy_Stream.thy ===== *)
theory Agy_Stream
  imports Adapter
begin

text \<open>
  The stream of the Agy command line tool (\<open>bastet-adapter-agy/src/stream.rs\<close>): one JSON value per
  line, turned into numbered lifecycle events, cost evidence and a bounded final text. Every
  method changes the stream in place, also where it returns an error, so each is a function to a
  result and the next stream.
\<close>

section \<open>State\<close>

datatype AgyRunUpdate =
  Agy_Lifecycle NormalizedAdapterEvent "AdapterFailure option" | Agy_Cost CostEvidence | Agy_WriteReceipt string

datatype AgyStreamError = Agy_ProtocolDrift | Agy_Closed

record AgyRunStream =
  ag_run_id :: RunId
  ag_sequence :: u64
  ag_conversation_id :: "string option"
  ag_expected_conversation_id :: "string option"
  ag_initialized :: bool
  ag_closed :: bool
  ag_final_output :: string
  ag_final_output_overflowed :: bool

type_synonym 'a agy_step = "(AgyStreamError, 'a) result \<times> AgyRunStream"

definition agy_new :: "RunId \<Rightarrow> AgyRunStream" where
  "agy_new r = \<lparr>ag_run_id = r, ag_sequence = 0, ag_conversation_id = None, ag_expected_conversation_id = None,
     ag_initialized = False, ag_closed = False, ag_final_output = [], ag_final_output_overflowed = False\<rparr>"

definition agy_resuming :: "RunId \<Rightarrow> string \<Rightarrow> (AgyStreamError, AgyRunStream) result" where
  "agy_resuming r conversation =
     (if blank conversation then Err Agy_ProtocolDrift
      else Ok ((agy_new r)\<lparr>ag_expected_conversation_id := Some conversation\<rparr>))"

definition agy_final_output :: "AgyRunStream \<Rightarrow> string option" where
  "agy_final_output s =
     (if \<not> ag_final_output_overflowed s \<and> ag_final_output s \<noteq> [] then Some (ag_final_output s) else None)"

section \<open>Lifecycle events\<close>

definition agy_payload :: Value where
  "agy_payload = VObject [(''provider'', VString ''agy_cli'')]"

definition lifecycle_with_evidence ::
  "json_codec \<Rightarrow> NormalizedRunState \<Rightarrow> string \<Rightarrow> string \<Rightarrow> AdapterFailure option \<Rightarrow> EvidenceClass \<Rightarrow>
   AgyRunStream \<Rightarrow> AgyRunUpdate agy_step" where
  "lifecycle_with_evidence J state event_type at f evidence s =
     (if blank at then (Err Agy_ProtocolDrift, s)
      else case checked_add (ag_sequence s) 1 of
        None \<Rightarrow> (Err Agy_ProtocolDrift, s)
      | Some n \<Rightarrow>
          (Ok (Agy_Lifecycle
             \<lparr>nae_contract_version = AGENT_ADAPTER_CONTRACT_VERSION, nae_run_id = ag_run_id s, nae_sequence = n,
              nae_state = state, nae_event_type = event_type, nae_occurred_at = at,
              nae_evidence_class = evidence, nae_provider_event_id = None,
              nae_redacted_payload_json = json_text J agy_payload\<rparr> f),
           s\<lparr>ag_sequence := n\<rparr>))"

definition agy_lifecycle ::
  "json_codec \<Rightarrow> NormalizedRunState \<Rightarrow> string \<Rightarrow> string \<Rightarrow> AdapterFailure option \<Rightarrow> AgyRunStream \<Rightarrow>
   AgyRunUpdate agy_step" where
  "agy_lifecycle J state event_type at f s = lifecycle_with_evidence J state event_type at f ProviderReported s"

definition agy_recovery_started :: "json_codec \<Rightarrow> string \<Rightarrow> AgyRunStream \<Rightarrow> AgyRunUpdate agy_step" where
  "agy_recovery_started J at s =
     (if ag_expected_conversation_id s = None \<or> ag_initialized s \<or> ag_closed s then (Err Agy_ProtocolDrift, s)
      else lifecycle_with_evidence J Run_Recovering ''run.recovering'' at None LocallyMeasured s)"

definition agy_cancellation_started :: "json_codec \<Rightarrow> string \<Rightarrow> AgyRunStream \<Rightarrow> AgyRunUpdate agy_step" where
  "agy_cancellation_started J at s =
     (if \<not> ag_initialized s \<or> ag_closed s then (Err Agy_ProtocolDrift, s)
      else lifecycle_with_evidence J Run_Cancelling ''run.cancelling'' at None LocallyMeasured s)"

text \<open>The stream is closed before the event is made, and stays closed when that fails.\<close>

definition agy_local_terminal ::
  "json_codec \<Rightarrow> NormalizedRunState \<Rightarrow> string \<Rightarrow> AdapterFailureKind \<Rightarrow> string \<Rightarrow> string \<Rightarrow> AgyRunStream \<Rightarrow>
   AgyRunUpdate agy_step" where
  "agy_local_terminal J state event_type kind key at s =
     (if ag_closed s then (Err Agy_Closed, s)
      else lifecycle_with_evidence J state event_type at
        (Some (adapter_failure kind key (kind = Crashed))) LocallyMeasured (s\<lparr>ag_closed := True\<rparr>))"

definition agy_cancelled :: "json_codec \<Rightarrow> string \<Rightarrow> AgyRunStream \<Rightarrow> AgyRunUpdate agy_step" where
  "agy_cancelled J = agy_local_terminal J Run_Cancelled ''run.cancelled'' Failure_Cancelled ''adapter.agy.cancelled''"

definition agy_timed_out :: "json_codec \<Rightarrow> string \<Rightarrow> AgyRunStream \<Rightarrow> AgyRunUpdate agy_step" where
  "agy_timed_out J = agy_local_terminal J Run_Failed ''run.timed_out'' Timeout ''adapter.agy.timed_out''"

definition agy_crashed :: "json_codec \<Rightarrow> string \<Rightarrow> AgyRunStream \<Rightarrow> AgyRunUpdate agy_step" where
  "agy_crashed J = agy_local_terminal J Run_Uncertain ''run.crashed'' Crashed ''adapter.agy.crashed''"

section \<open>Lines\<close>

definition agy_required_u64 :: "string \<Rightarrow> Value \<Rightarrow> (AgyStreamError, u64) result" where
  "agy_required_u64 k v = ok_or (Option.bind (value_get k v) as_u64) Agy_ProtocolDrift"

definition agy_required_text :: "string \<Rightarrow> Value \<Rightarrow> (AgyStreamError, string) result" where
  "agy_required_text k v = ok_or (get_text k v) Agy_ProtocolDrift"

definition provider_cost :: "u64 \<Rightarrow> u64 \<Rightarrow> CostEvidence" where
  "provider_cost i out = \<lparr>ce_evidence_class = ProviderReported, ce_currency = None, ce_amount = None,
     ce_input_tokens = Some i, ce_output_tokens = Some out, ce_confidence = Dyadic 1 0\<rparr>"

definition agy_parse_usage :: "Value \<Rightarrow> (AgyStreamError, CostEvidence) result" where
  "agy_parse_usage v =
     and_then (ok_or (as_object v) Agy_ProtocolDrift) (\<lambda>_.
     and_then (agy_required_u64 ''input_tokens'' v) (\<lambda>i.
     and_then (agy_required_u64 ''output_tokens'' v) (\<lambda>out.
     and_then (agy_required_u64 ''thinking_tokens'' v) (\<lambda>_.
     and_then (agy_required_u64 ''cache_read_tokens'' v) (\<lambda>_.
     and_then (agy_required_u64 ''total_tokens'' v) (\<lambda>total.
     if checked_add i out = None \<or> total < i + out then Err Agy_ProtocolDrift
     else Ok (provider_cost i out)))))))"

definition agy_classify_error :: "string option \<Rightarrow> AdapterFailureKind" where
  "agy_classify_error error =
     (case error of
        None \<Rightarrow> UnknownFailure
      | Some e \<Rightarrow>
          (let lower = map ascii_lower e in
           if text_contains lower ''not logged in'' \<or> text_contains lower ''authentication'' \<or>
              text_contains lower ''unauthorized'' then Authentication
           else if text_contains lower ''quota'' \<or> text_contains lower ''rate limit'' then Quota
           else if text_contains lower ''timed out'' \<or> text_contains lower ''timeout'' then Timeout
           else if text_contains lower ''permission'' then PermissionDenied
           else UnknownFailure))"

definition consume_init :: "json_codec \<Rightarrow> Value \<Rightarrow> string \<Rightarrow> AgyRunStream \<Rightarrow> AgyRunUpdate agy_step" where
  "consume_init J v at s =
     (if ag_initialized s then (Err Agy_ProtocolDrift, s)
      else case agy_required_text ''conversation_id'' v of
        Inl e \<Rightarrow> (Err e, s)
      | Inr conversation \<Rightarrow>
          if ag_expected_conversation_id s \<notin> {None, Some conversation} then (Err Agy_ProtocolDrift, s)
          else agy_lifecycle J Run_Running ''run.started'' at None
            (s\<lparr>ag_conversation_id := Some conversation, ag_initialized := True\<rparr>))"

definition require_matching_conversation :: "Value \<Rightarrow> AgyRunStream \<Rightarrow> (AgyStreamError, unit) result" where
  "require_matching_conversation v s =
     and_then (ok_or (ag_conversation_id s) Agy_ProtocolDrift) (\<lambda>expected.
     and_then (agy_required_text ''conversation_id'' v) (\<lambda>actual.
     ensure (actual = expected) Agy_ProtocolDrift))"

definition agy_retain :: "string \<Rightarrow> AgyRunStream \<Rightarrow> AgyRunStream" where
  "agy_retain t s = (case retain_text t (ag_final_output s, ag_final_output_overflowed s) of
     (kept, overflowed) \<Rightarrow> s\<lparr>ag_final_output := kept, ag_final_output_overflowed := overflowed\<rparr>)"

text \<open>The answer text of a step.\<close>

definition agy_delta :: "Value \<Rightarrow> string option" where
  "agy_delta update = (if get_str ''step_type'' update = Some ''agent_response''
     then get_str ''text_delta'' update else None)"

definition consume_step :: "Value \<Rightarrow> AgyRunStream \<Rightarrow> AgyRunUpdate option agy_step" where
  "consume_step v s =
     (case Option.bind (value_get ''step_update'' v) as_object of
        None \<Rightarrow> (Err Agy_ProtocolDrift, s)
      | Some ms \<Rightarrow>
          (let update = VObject ms in
           case require_matching_conversation update s of
             Inl e \<Rightarrow> (Err e, s)
           | Inr _ \<Rightarrow>
               (let t = (case agy_delta update of Some d \<Rightarrow> agy_retain d s | None \<Rightarrow> s) in
                case value_get ''usage'' update of
                  None \<Rightarrow> (Ok None, t)
                | Some usage \<Rightarrow> (and_then (agy_parse_usage usage) (\<lambda>c. Ok (Some (Agy_Cost c))), t))))"

text \<open>What a result line says: the state, its name and the failure.\<close>

definition agy_result_outcome ::
  "Value \<Rightarrow> string \<Rightarrow> AgyRunStream \<Rightarrow>
   (AgyStreamError, NormalizedRunState \<times> string \<times> AdapterFailure option) result" where
  "agy_result_outcome r status s =
     (if status = ''SUCCESS'' then
        (if ag_final_output s = [] \<and>
            (case Option.bind (value_get ''denied_actions'' r) as_array of Some acts \<Rightarrow> acts \<noteq> [] | None \<Rightarrow> False)
         then Ok (Run_Failed, ''run.failed'',
           Some (adapter_failure PermissionDenied ''adapter.agy.permission_denied'' False))
         else Ok (Run_Succeeded, ''run.succeeded'', None))
      else if status = ''ERROR'' then
        (let kind = agy_classify_error (get_str ''error'' r) in
         Ok (Run_Failed, ''run.failed'',
           Some (adapter_failure kind ''adapter.agy.failed'' (kind = Quota \<or> kind = Timeout))))
      else if status = ''CANCELED'' \<or> status = ''INTERRUPTED'' then
        Ok (Run_Cancelled, ''run.cancelled'', Some (adapter_failure Failure_Cancelled ''adapter.agy.cancelled'' False))
      else if status = ''INVALID'' then
        Ok (Run_Failed, ''run.failed'', Some (adapter_failure MalformedOutput ''adapter.agy.invalid_state'' False))
      else if status = ''WAITING'' then Ok (Run_Blocked, ''run.blocked'', None)
      else if status = ''RUNNING'' then Ok (Run_Uncertain, ''run.uncertain'', None)
      else Err Agy_ProtocolDrift)"

definition agy_result_conversation :: "Value \<Rightarrow> string \<Rightarrow> AgyRunStream \<Rightarrow> (AgyStreamError, unit) result" where
  "agy_result_conversation r status s =
     (case ag_conversation_id s of
        Some expected \<Rightarrow> and_then (agy_required_text ''conversation_id'' r) (\<lambda>actual.
          ensure (actual = expected) Agy_ProtocolDrift)
      | None \<Rightarrow> ensure (status = ''ERROR'') Agy_ProtocolDrift)"

definition consume_result :: "json_codec \<Rightarrow> Value \<Rightarrow> string \<Rightarrow> AgyRunStream \<Rightarrow> AgyRunUpdate agy_step" where
  "consume_result J v at s =
     (case and_then (ok_or (Option.bind (value_get ''result'' v) as_object) Agy_ProtocolDrift) (\<lambda>ms.
           and_then (agy_required_text ''status'' (VObject ms)) (\<lambda>status.
           and_then (agy_result_conversation (VObject ms) status s) (\<lambda>_.
           agy_result_outcome (VObject ms) status s))) of
        Inl e \<Rightarrow> (Err e, s)
      | Inr (state, event_type, f) \<Rightarrow> agy_lifecycle J state event_type at f (s\<lparr>ag_closed := True\<rparr>))"

fun agy_some :: "AgyRunUpdate agy_step \<Rightarrow> AgyRunUpdate option agy_step" where
  "agy_some (r, s) = (and_then r (\<lambda>u. Ok (Some u)), s)"

definition consume_line :: "json_codec \<Rightarrow> string \<Rightarrow> string \<Rightarrow> AgyRunStream \<Rightarrow> AgyRunUpdate option agy_step" where
  "consume_line J line at s =
     (if ag_closed s then (Err Agy_Closed, s)
      else case json_parse J line of
        None \<Rightarrow> (Err Agy_ProtocolDrift, s)
      | Some v \<Rightarrow>
          (let event = get_str ''event'' v in
           if event = Some ''init'' then agy_some (consume_init J v at s)
           else if event = Some ''step_update'' then consume_step v s
           else if event = Some ''result'' then agy_some (consume_result J v at s)
           else (Err Agy_ProtocolDrift, s)))"

end
