(* ===== verification/Agy_Events.thy ===== *)
theory Agy_Events
  imports Agy_Stream
begin

text \<open>
  What every sequence of calls on an \<open>AgyRunStream\<close> reports: the stream is a source of events, its
  events and failures carry nothing the provider wrote, and the final text is all of the answer
  or none of it.
\<close>

section \<open>Calls\<close>

datatype agy_call =
  Agy_RecoveryStarted string | Agy_CancellationStarted string | Agy_Cancelled string | Agy_TimedOut string
| Agy_Crashed string | Agy_ConsumeLine string string

fun agy_do :: "json_codec \<Rightarrow> AgyRunStream \<Rightarrow> agy_call \<Rightarrow> AgyRunUpdate option agy_step" where
  "agy_do J s (Agy_RecoveryStarted at) = agy_some (agy_recovery_started J at s)"
| "agy_do J s (Agy_CancellationStarted at) = agy_some (agy_cancellation_started J at s)"
| "agy_do J s (Agy_Cancelled at) = agy_some (agy_cancelled J at s)"
| "agy_do J s (Agy_TimedOut at) = agy_some (agy_timed_out J at s)"
| "agy_do J s (Agy_Crashed at) = agy_some (agy_crashed J at s)"
| "agy_do J s (Agy_ConsumeLine line at) = consume_line J line at s"

fun agy_update_event :: "AgyRunUpdate option \<Rightarrow> NormalizedAdapterEvent option" where
  "agy_update_event (Some (Agy_Lifecycle e f)) = Some e"
| "agy_update_event _ = None"

fun agy_result_event :: "(AgyStreamError, AgyRunUpdate option) result \<Rightarrow> NormalizedAdapterEvent option" where
  "agy_result_event (Inl e) = None"
| "agy_result_event (Inr u) = agy_update_event u"

definition agy_emit :: "json_codec \<Rightarrow> AgyRunStream \<Rightarrow> agy_call \<Rightarrow> NormalizedAdapterEvent option \<times> AgyRunStream" where
  "agy_emit J s a = (case agy_do J s a of (r, t) \<Rightarrow> (agy_result_event r, t))"

section \<open>What is published\<close>

definition agy_event_types :: "string set" where
  "agy_event_types = {''run.started'', ''run.recovering'', ''run.cancelling'', ''run.cancelled'', ''run.timed_out'',
     ''run.crashed'', ''run.failed'', ''run.succeeded'', ''run.blocked'', ''run.uncertain''}"

definition agy_message_keys :: "string set" where
  "agy_message_keys = {''adapter.agy.cancelled'', ''adapter.agy.timed_out'', ''adapter.agy.crashed'',
     ''adapter.agy.permission_denied'', ''adapter.agy.failed'', ''adapter.agy.invalid_state''}"

definition agy_event_ok :: "json_codec \<Rightarrow> AgyRunStream \<Rightarrow> NormalizedAdapterEvent \<Rightarrow> bool" where
  "agy_event_ok J s e \<longleftrightarrow> nae_contract_version e = AGENT_ADAPTER_CONTRACT_VERSION \<and> nae_run_id e = ag_run_id s \<and>
     nae_event_type e \<in> agy_event_types \<and> \<not> blank (nae_occurred_at e) \<and>
     nae_evidence_class e \<in> {ProviderReported, LocallyMeasured} \<and> nae_provider_event_id e = None \<and>
     nae_redacted_payload_json e = json_text J agy_payload"

definition agy_failure_ok :: "AdapterFailure \<Rightarrow> bool" where
  "agy_failure_ok f \<longleftrightarrow> af_message_key f \<in> agy_message_keys \<and> af_provider_code f = None \<and> af_redacted_detail f = None"

lemma agy_known_texts [simp]:
  "''run.started'' \<in> agy_event_types" "''run.recovering'' \<in> agy_event_types" "''run.cancelling'' \<in> agy_event_types"
  "''run.cancelled'' \<in> agy_event_types" "''run.timed_out'' \<in> agy_event_types" "''run.crashed'' \<in> agy_event_types"
  "''run.failed'' \<in> agy_event_types" "''run.succeeded'' \<in> agy_event_types" "''run.blocked'' \<in> agy_event_types"
  "''run.uncertain'' \<in> agy_event_types"
  "''adapter.agy.cancelled'' \<in> agy_message_keys" "''adapter.agy.timed_out'' \<in> agy_message_keys"
  "''adapter.agy.crashed'' \<in> agy_message_keys" "''adapter.agy.permission_denied'' \<in> agy_message_keys"
  "''adapter.agy.failed'' \<in> agy_message_keys" "''adapter.agy.invalid_state'' \<in> agy_message_keys"
  unfolding agy_event_types_def agy_message_keys_def by (rule insertI1 | rule insertI2)+

text \<open>The effect of one call, whatever it was.\<close>

fun agy_effect :: "json_codec \<Rightarrow> AgyRunStream \<Rightarrow> AgyRunUpdate option agy_step \<Rightarrow> bool" where
  "agy_effect J s (Inr (Some (Agy_Lifecycle e f)), t) \<longleftrightarrow>
     ag_run_id t = ag_run_id s \<and> \<not> ag_closed s \<and> (ag_closed t \<longleftrightarrow> settled_state (nae_state e)) \<and>
     unat (nae_sequence e) = Suc (unat (ag_sequence s)) \<and> ag_sequence t = nae_sequence e \<and>
     agy_event_ok J s e \<and> (\<forall>x. f = Some x \<longrightarrow> agy_failure_ok x)"
| "agy_effect J s (r, t) \<longleftrightarrow>
     ag_run_id t = ag_run_id s \<and> (ag_closed s \<longrightarrow> ag_closed t) \<and> ag_sequence t = ag_sequence s"

lemma failure_ok_plain [simp]:
  "agy_failure_ok (adapter_failure kind key retryable) \<longleftrightarrow> key \<in> agy_message_keys"
  by (simp add: agy_failure_ok_def adapter_failure_def)

lemma lifecycle_effect:
  assumes "ag_run_id s = ag_run_id s0" and "ag_sequence s = ag_sequence s0" and "\<not> ag_closed s0"
    and "ag_closed s \<longleftrightarrow> settled_state state" and "event_type \<in> agy_event_types"
    and "evidence \<in> {ProviderReported, LocallyMeasured}" and "\<forall>x. f = Some x \<longrightarrow> agy_failure_ok x"
  shows "agy_effect J s0 (agy_some (lifecycle_with_evidence J state event_type at f evidence s))"
proof (cases "blank at \<or> checked_add (ag_sequence s) 1 = None")
  case True
  then show ?thesis using assms by (auto simp: lifecycle_with_evidence_def)
next
  case False
  then obtain n where n: "checked_add (ag_sequence s) 1 = Some n" by auto
  then have "unat n = Suc (unat (ag_sequence s))" by (simp add: checked_add_Some)
  with n False assms show ?thesis by (auto simp: lifecycle_with_evidence_def agy_event_ok_def)
qed

lemma local_terminal_effect:
  assumes "settled_state state" and "event_type \<in> agy_event_types" and "key \<in> agy_message_keys"
  shows "agy_effect J s (agy_some (agy_local_terminal J state event_type kind key at s))"
  unfolding agy_local_terminal_def using assms by (auto intro!: lifecycle_effect)

lemma init_effect:
  assumes "\<not> ag_closed s" shows "agy_effect J s (agy_some (consume_init J v at s))"
  unfolding consume_init_def agy_lifecycle_def using assms
  by (auto split: sum.split intro!: lifecycle_effect)

lemma retain_fields [simp]:
  "ag_run_id (agy_retain d s) = ag_run_id s" "ag_closed (agy_retain d s) = ag_closed s"
  "ag_sequence (agy_retain d s) = ag_sequence s" "ag_conversation_id (agy_retain d s) = ag_conversation_id s"
  by (simp_all add: agy_retain_def split: prod.split)

lemma step_effect: "agy_effect J s (consume_step v s)"
proof -
  have cost: "agy_effect J s (and_then c (\<lambda>c. Inr (Some (Agy_Cost c))), t)"
    if "ag_run_id t = ag_run_id s" "ag_closed t = ag_closed s" "ag_sequence t = ag_sequence s" for c t
    using that by (cases c) auto
  show ?thesis unfolding consume_step_def Let_def by (auto split: option.split sum.split intro!: cost)
qed

lemma outcome_ok:
  assumes "agy_result_outcome r status s = Inr (state, event_type, f)"
  shows "settled_state state \<and> event_type \<in> agy_event_types \<and> (\<forall>x. f = Some x \<longrightarrow> agy_failure_ok x)"
  using assms unfolding agy_result_outcome_def Let_def
  by (elim if_cases) (auto simp only: sum.inject prod.inject sum.distinct option.inject agy_known_texts
    failure_ok_plain settled_state_simps)

lemma result_effect:
  assumes "\<not> ag_closed s" shows "agy_effect J s (agy_some (consume_result J v at s))"
proof -
  have "agy_effect J s (agy_some (agy_lifecycle J state event_type at f (s\<lparr>ag_closed := True\<rparr>)))"
    if "agy_result_outcome r status s = Inr (state, event_type, f)" for r status state event_type f
    using outcome_ok[OF that] assms unfolding agy_lifecycle_def by (auto intro!: lifecycle_effect)
  then show ?thesis unfolding consume_result_def by (auto split: sum.split simp: and_then_eq_Ok)
qed

lemma agy_do_effect: "agy_effect J s (agy_do J s a)"
proof (cases a)
  case (Agy_ConsumeLine line at)
  then show ?thesis using init_effect result_effect step_effect
    by (auto simp: consume_line_def Let_def split: option.split)
qed (auto simp: agy_recovery_started_def agy_cancellation_started_def agy_cancelled_def agy_timed_out_def
  agy_crashed_def intro!: lifecycle_effect local_terminal_effect)

lemma agy_emit_effect:
  assumes "agy_emit J s a = (e, t)"
  shows "(\<forall>x. e = Some x \<longrightarrow> unat (nae_sequence x) = Suc (unat (ag_sequence s)) \<and> ag_sequence t = nae_sequence x \<and>
      \<not> ag_closed s \<and> (ag_closed t \<longleftrightarrow> settled_state (nae_state x)) \<and> agy_event_ok J s x) \<and>
    (e = None \<longrightarrow> ag_sequence t = ag_sequence s \<and> (ag_closed s \<longrightarrow> ag_closed t)) \<and> ag_run_id t = ag_run_id s"
proof -
  obtain r where r: "agy_do J s a = (r, t)" "e = agy_result_event r"
    using assms by (auto simp: agy_emit_def split: prod.splits)
  note effect = agy_do_effect[of J s a, unfolded r(1)]
  show ?thesis
  proof (cases r)
    case (Inr u)
    with effect r(2) show ?thesis by (cases u rule: agy_update_event.cases) auto
  qed (use effect r(2) in auto)
qed

lemma agy_event_ok_run: "ag_run_id t = ag_run_id s \<Longrightarrow> agy_event_ok J t = agy_event_ok J s"
  by (simp add: agy_event_ok_def fun_eq_iff)

interpretation agy: event_source "agy_emit J" "\<lambda>_. True" ag_sequence ag_closed "agy_event_ok J" for J
  by unfold_locales (auto dest!: agy_emit_effect intro: agy_event_ok_run)

section \<open>The final text\<close>

text \<open>The answer text a call accepts: the delta of a well-formed step of the same conversation.\<close>

definition agy_step_delta :: "Value \<Rightarrow> AgyRunStream \<Rightarrow> string option" where
  "agy_step_delta v s =
     (case Option.bind (value_get ''step_update'' v) as_object of
        None \<Rightarrow> None
      | Some ms \<Rightarrow> if require_matching_conversation (VObject ms) s = Inr () then agy_delta (VObject ms) else None)"

fun agy_answer :: "json_codec \<Rightarrow> AgyRunStream \<Rightarrow> agy_call \<Rightarrow> string option" where
  "agy_answer J s (Agy_ConsumeLine line at) =
     (if ag_closed s then None
      else Option.bind (json_parse J line) (\<lambda>v.
        if get_str ''event'' v \<noteq> Some ''step_update'' then None
        else agy_step_delta v s))"
| "agy_answer J s _ = None"

fun agy_answers :: "json_codec \<Rightarrow> AgyRunStream \<Rightarrow> agy_call list \<Rightarrow> string list" where
  "agy_answers J s [] = []"
| "agy_answers J s (a # as) =
     (case agy_answer J s a of None \<Rightarrow> [] | Some d \<Rightarrow> [d]) @ agy_answers J (snd (agy_emit J s a)) as"

definition agy_kept :: "AgyRunStream \<Rightarrow> string \<times> bool" where
  "agy_kept s = (ag_final_output s, ag_final_output_overflowed s)"

lemma kept_update [simp]:
  "agy_kept (s\<lparr>ag_sequence := n\<rparr>) = agy_kept s" "agy_kept (s\<lparr>ag_closed := b\<rparr>) = agy_kept s"
  "agy_kept (s\<lparr>ag_conversation_id := c, ag_initialized := b\<rparr>) = agy_kept s"
  "agy_kept (agy_retain d s) = retain_text d (agy_kept s)"
  by (simp_all add: agy_kept_def agy_retain_def split: prod.split del: retain_text.simps)

lemma kept_agy_some [simp]: "agy_kept (snd (agy_some p)) = agy_kept (snd p)"
  by (cases p) simp

lemma kept_lifecycle [simp]:
  "agy_kept (snd (lifecycle_with_evidence J state event_type at f evidence s)) = agy_kept s"
  "agy_kept (snd (agy_lifecycle J state event_type at f s)) = agy_kept s"
  by (simp_all add: lifecycle_with_evidence_def agy_lifecycle_def split: option.split)

lemma kept_local_terminal [simp]: "agy_kept (snd (agy_local_terminal J state event_type kind key at s)) = agy_kept s"
  by (simp add: agy_local_terminal_def)

lemma kept_consume [simp]:
  "agy_kept (snd (consume_init J v at s)) = agy_kept s" "agy_kept (snd (consume_result J v at s)) = agy_kept s"
  by (simp_all add: consume_init_def consume_result_def split: sum.split)

lemma kept_step:
  "agy_kept (snd (consume_step v s)) =
     (case agy_step_delta v s of None \<Rightarrow> agy_kept s | Some d \<Rightarrow> retain_text d (agy_kept s))"
proof (cases "Option.bind (value_get ''step_update'' v) as_object")
  case (Some ms)
  then show ?thesis
    by (cases "require_matching_conversation (VObject ms) s"; cases "agy_delta (VObject ms)";
        cases "value_get ''usage'' (VObject ms)")
      (simp_all add: consume_step_def agy_step_delta_def del: retain_text.simps value_get.simps)
qed (simp add: consume_step_def agy_step_delta_def)

lemma kept_agy_do:
  "agy_kept (snd (agy_do J s a)) =
     (case agy_answer J s a of None \<Rightarrow> agy_kept s | Some d \<Rightarrow> retain_text d (agy_kept s))"
proof (cases a)
  case (Agy_ConsumeLine line at)
  have [simp]: "''init'' \<noteq> ''step_update''" "''result'' \<noteq> ''step_update''" by simp_all
  show ?thesis
    by (cases "json_parse J line")
      (auto simp: Agy_ConsumeLine consume_line_def Let_def kept_step simp del: retain_text.simps)
qed (simp_all add: agy_recovery_started_def agy_cancellation_started_def agy_cancelled_def agy_timed_out_def
  agy_crashed_def)

lemma kept_run:
  "emits (agy_emit J) s as = (es, t) \<Longrightarrow> agy_kept t = fold retain_text (agy_answers J s as) (agy_kept s)"
proof (induction as arbitrary: s es)
  case (Cons a as)
  obtain x u where a: "agy_emit J s a = (x, u)" by (cases "agy_emit J s a")
  obtain fs v where f: "emits (agy_emit J) u as = (fs, v)" by (cases "emits (agy_emit J) u as")
  from a have "snd (agy_do J s a) = u" by (auto simp: agy_emit_def split: prod.splits)
  with kept_agy_do[of J s a] have "agy_kept u = fold retain_text (case agy_answer J s a of None \<Rightarrow> [] | Some d \<Rightarrow> [d]) (agy_kept s)"
    by (auto split: option.split simp del: retain_text.simps)
  with Cons.prems Cons.IH[of u fs] a f show ?case by (auto simp del: retain_text.simps)
qed simp

end
