(* ===== verification/Adapter_Tools.thy ===== *)
theory Adapter_Tools
  imports Adapter Line_Decoder
begin

text \<open>
  What the adapters learn from one-shot commands of their tools (\<open>bastet-adapter-codex/src/lib.rs\<close>
  and \<open>bastet-adapter-agy/src/lib.rs\<close>): discovery, versions, models, health and log-in state.
  Running a command is an argument, and so is whether the executable is a file.
\<close>

section \<open>Text of a command\<close>

definition from_utf8 :: "bytes \<Rightarrow> string option" where
  "from_utf8 bs = (if valid_utf8 bs then Some (map char_of bs) else None)"

text \<open>\<open>str::split\<close> on a character, \<open>str::lines\<close>, \<open>split_once\<close> and \<open>strip_prefix\<close>.\<close>

fun split_on :: "char \<Rightarrow> string \<Rightarrow> string list" where
  "split_on c [] = [[]]"
| "split_on c (x # xs) = (if x = c then [] # split_on c xs
     else case split_on c xs of p # ps \<Rightarrow> (x # p) # ps | [] \<Rightarrow> [[x]])"

definition strip_return :: "string \<Rightarrow> string" where
  "strip_return s = (if s \<noteq> [] \<and> last s = CHR 0x0D then butlast s else s)"

fun text_lines :: "string \<Rightarrow> string list" where
  "text_lines s =
     (case split_on CHR 0x0A s of
        ps \<Rightarrow> map strip_return (butlast ps) @ (if last ps = [] then [] else [last ps]))"

definition split_once :: "char \<Rightarrow> string \<Rightarrow> (string \<times> string) option" where
  "split_once c s = (if c \<in> set s then Some (takeWhile (\<lambda>x. x \<noteq> c) s, tl (dropWhile (\<lambda>x. x \<noteq> c) s)) else None)"

definition strip_prefix :: "string \<Rightarrow> string \<Rightarrow> string option" where
  "strip_prefix p s = (if take (length p) s = p then Some (drop (length p) s) else None)"

definition ascii_digit :: "char \<Rightarrow> bool" where
  "ascii_digit c \<longleftrightarrow> 48 \<le> (of_char c :: nat) \<and> (of_char c :: nat) \<le> 57"

definition ascii_alphanumeric :: "char \<Rightarrow> bool" where
  "ascii_alphanumeric c \<longleftrightarrow> ascii_digit c \<or> (let n = of_char (ascii_lower c) :: nat in 97 \<le> n \<and> n \<le> 122)"

section \<open>Codex\<close>

record CommandOutput =
  co_success :: bool
  co_stdout :: bytes
  co_stderr :: bytes

datatype 'e CodexAdapterError = Cd_BinaryMissing | Cd_Spawn 'e | Cd_CommandFailed | Cd_NonUtf8Output | Cd_ProtocolDrift

record 'e codex_adapter =
  cd_executable :: string
  cd_is_file :: bool
  cd_run :: "string list \<Rightarrow> ('e, CommandOutput) result"

record DiscoveryReport =
  dr_adapter_kind :: string
  dr_executable :: string
  dr_evidence_class :: EvidenceClass

record VersionReport =
  vr_adapter_kind :: string
  vr_version :: string
  vr_evidence_class :: EvidenceClass

text \<open>Decoding into this record is derived by a package, an argument.\<close>

record DoctorWire =
  dw_schema_version :: u64
  dw_codex_version :: string
  dw_overall_status :: string
  dw_checks :: "Value list"

record DoctorReport =
  do_adapter_kind :: string
  do_schema_version :: u64
  do_codex_version :: string
  do_overall_status :: string
  do_check_count :: nat
  do_evidence_class :: EvidenceClass

datatype AuthenticationMethod = ChatGpt | ApiKey | AccessToken | WorkloadIdentity

record AuthenticationStatus =
  as_adapter_kind :: string
  as_authenticated :: bool
  as_method :: "AuthenticationMethod option"
  as_evidence_class :: EvidenceClass

definition CODEX_ADAPTER_KIND :: string where "CODEX_ADAPTER_KIND = ''codex_cli''"

definition codex_discover :: "'e codex_adapter \<Rightarrow> ('e CodexAdapterError, DiscoveryReport) result" where
  "codex_discover a = (if \<not> cd_is_file a then Err Cd_BinaryMissing
     else Ok \<lparr>dr_adapter_kind = CODEX_ADAPTER_KIND, dr_executable = cd_executable a,
       dr_evidence_class = LocallyMeasured\<rparr>)"

definition codex_command :: "string list \<Rightarrow> 'e codex_adapter \<Rightarrow> ('e CodexAdapterError, CommandOutput) result" where
  "codex_command args a = map_err Cd_Spawn (cd_run a args)"

definition codex_text :: "bytes \<Rightarrow> ('e CodexAdapterError, string) result" where
  "codex_text bs = ok_or (from_utf8 bs) Cd_NonUtf8Output"

definition codex_valid_version :: "string \<Rightarrow> bool" where
  "codex_valid_version v \<longleftrightarrow> v \<noteq> [] \<and> list_all (\<lambda>p. p \<noteq> [] \<and> list_all ascii_digit p) (split_on CHR ''.'' v)"

definition codex_version :: "'e codex_adapter \<Rightarrow> ('e CodexAdapterError, VersionReport) result" where
  "codex_version a =
     and_then (codex_discover a) (\<lambda>_.
     and_then (codex_command [''--version''] a) (\<lambda>output.
     if \<not> co_success output then Err Cd_CommandFailed
     else and_then (codex_text (co_stdout output)) (\<lambda>text.
       case strip_prefix ''codex-cli '' (trim text) of
         None \<Rightarrow> Err Cd_ProtocolDrift
       | Some v \<Rightarrow> if codex_valid_version v
           then Ok \<lparr>vr_adapter_kind = CODEX_ADAPTER_KIND, vr_version = v, vr_evidence_class = ProviderReported\<rparr>
           else Err Cd_ProtocolDrift)))"

definition codex_doctor ::
  "(string \<Rightarrow> DoctorWire option) \<Rightarrow> 'e codex_adapter \<Rightarrow> ('e CodexAdapterError, DoctorReport) result" where
  "codex_doctor decode a =
     and_then (codex_discover a) (\<lambda>_.
     and_then (codex_command [''doctor'', ''--json''] a) (\<lambda>output.
     and_then (codex_text (co_stdout output)) (\<lambda>text.
     and_then (ok_or (decode text) Cd_ProtocolDrift) (\<lambda>w.
     if dw_schema_version w = 0 \<or> \<not> codex_valid_version (dw_codex_version w) \<or> blank (dw_overall_status w)
     then Err Cd_ProtocolDrift
     else Ok \<lparr>do_adapter_kind = CODEX_ADAPTER_KIND, do_schema_version = dw_schema_version w,
       do_codex_version = dw_codex_version w, do_overall_status = dw_overall_status w,
       do_check_count = length (dw_checks w), do_evidence_class = ProviderReported\<rparr>))))"

definition authentication_method ::
  "bool \<Rightarrow> string \<Rightarrow> string \<Rightarrow> ('e CodexAdapterError, AuthenticationMethod option) result" where
  "authentication_method success out error =
     (if out = ''Logged in using ChatGPT'' then Ok (Some ChatGpt)
      else if out = ''Logged in using an API key'' then Ok (Some ApiKey)
      else if out = ''Logged in using an access token'' then Ok (Some AccessToken)
      else if out = ''Logged in using workload identity'' then Ok (Some WorkloadIdentity)
      else if \<not> success \<and> (out = ''Not logged in'' \<or> error = ''Not logged in'') then Ok None
      else Err Cd_ProtocolDrift)"

definition codex_authentication_status :: "'e codex_adapter \<Rightarrow> ('e CodexAdapterError, AuthenticationStatus) result" where
  "codex_authentication_status a =
     and_then (codex_discover a) (\<lambda>_.
     and_then (codex_command [''login'', ''status''] a) (\<lambda>output.
     and_then (codex_text (co_stdout output)) (\<lambda>out.
     and_then (codex_text (co_stderr output)) (\<lambda>error.
     and_then (authentication_method (co_success output) (trim out) (trim error)) (\<lambda>m.
     Ok \<lparr>as_adapter_kind = CODEX_ADAPTER_KIND, as_authenticated = (m \<noteq> None), as_method = m,
       as_evidence_class = ProviderReported\<rparr>)))))"

definition codex_capabilities :: AdapterCapabilities where
  "codex_capabilities = \<lparr>operations = [Adp_Discover, Adp_Version, Adp_Doctor, Adp_InspectAuthentication,
       Adp_ListModels, Adp_Start, Adp_Attach, Adp_Status, Adp_Wait, Adp_Cancel, Adp_ExportUsage],
     reasoning_controls = [], supports_read_only = True, supports_write = True, supports_resume = True,
     supports_structured_events = True\<rparr>"

text \<open>The first executable on the path.\<close>

definition find_on_path ::
  "(string \<Rightarrow> string \<Rightarrow> string) \<Rightarrow> (string \<Rightarrow> bool) \<Rightarrow> string list \<Rightarrow> string list option \<Rightarrow> string option" where
  "find_on_path join is_file names path =
     Option.bind path (\<lambda>directories. find is_file (concat (map (\<lambda>d. map (join d) names) directories)))"

section \<open>Agy\<close>

record agy_output =
  ao_success :: bool
  ao_stdout :: bytes

datatype 'e AgyAdapterError = Ag_BinaryMissing | Ag_Spawn 'e | Ag_CommandFailed | Ag_NonUtf8Output | Ag_ProtocolDrift

record 'e agy_adapter =
  ag_executable :: string
  ag_is_file :: bool
  ag_runner :: "string list \<Rightarrow> ('e, agy_output) result"

record agy_model =
  am_id :: string
  am_display_name :: string

definition AGY_ADAPTER_KIND :: string where "AGY_ADAPTER_KIND = ''agy_cli''"

definition agy_discover :: "'e agy_adapter \<Rightarrow> ('e AgyAdapterError, DiscoveryReport) result" where
  "agy_discover a = (if \<not> ag_is_file a then Err Ag_BinaryMissing
     else Ok \<lparr>dr_adapter_kind = AGY_ADAPTER_KIND, dr_executable = ag_executable a,
       dr_evidence_class = LocallyMeasured\<rparr>)"

definition agy_run :: "string list \<Rightarrow> 'e agy_adapter \<Rightarrow> ('e AgyAdapterError, agy_output) result" where
  "agy_run args a =
     and_then (map_err Ag_Spawn (ag_runner a args)) (\<lambda>output.
     if \<not> ao_success output then Err Ag_CommandFailed else Ok output)"

definition parse_single_line :: "bytes \<Rightarrow> ('e AgyAdapterError, string) result" where
  "parse_single_line bs =
     and_then (ok_or (from_utf8 bs) Ag_NonUtf8Output) (\<lambda>text.
     case text_lines text of
       [] \<Rightarrow> Err Ag_ProtocolDrift
     | l # ls \<Rightarrow>
         if list_ex (\<lambda>x. \<not> blank x) ls then Err Ag_ProtocolDrift
         else if blank l then Err Ag_ProtocolDrift else Ok (trim l))"

definition agy_valid_version :: "string \<Rightarrow> bool" where
  "agy_valid_version v \<longleftrightarrow> length (split_on CHR ''.'' v) = 3 \<and>
     list_all (\<lambda>p. p \<noteq> [] \<and> list_all ascii_digit p) (split_on CHR ''.'' v)"

definition agy_version :: "'e agy_adapter \<Rightarrow> ('e AgyAdapterError, VersionReport) result" where
  "agy_version a =
     and_then (agy_discover a) (\<lambda>_.
     and_then (agy_run [''--version''] a) (\<lambda>output.
     and_then (parse_single_line (ao_stdout output)) (\<lambda>v.
     if \<not> agy_valid_version v then Err Ag_ProtocolDrift
     else Ok \<lparr>vr_adapter_kind = AGY_ADAPTER_KIND, vr_version = v, vr_evidence_class = ProviderReported\<rparr>)))"

definition model_id_char :: "char \<Rightarrow> bool" where
  "model_id_char c \<longleftrightarrow> ascii_alphanumeric c \<or> c \<in> {CHR ''-'', CHR ''_'', CHR ''.'', CHR ''/''}"

definition valid_model_id :: "string \<Rightarrow> bool" where
  "valid_model_id s \<longleftrightarrow> s \<noteq> [] \<and> length s \<le> 128 \<and> list_all model_id_char s"

fun agy_model_lines :: "string list \<Rightarrow> ('e AgyAdapterError, agy_model list) result" where
  "agy_model_lines [] = Ok []"
| "agy_model_lines (l # ls) =
     (let line = trim l in
      if line = [] \<or> line = ''Fetching available models...'' then agy_model_lines ls
      else case split_once CHR 0x09 line of
        None \<Rightarrow> Err Ag_ProtocolDrift
      | Some (i, name) \<Rightarrow>
          if \<not> valid_model_id i \<or> blank name then Err Ag_ProtocolDrift
          else and_then (agy_model_lines ls) (\<lambda>ms. Ok (\<lparr>am_id = i, am_display_name = trim name\<rparr> # ms)))"

definition agy_list_models :: "'e agy_adapter \<Rightarrow> ('e AgyAdapterError, agy_model list) result" where
  "agy_list_models a =
     and_then (agy_discover a) (\<lambda>_.
     and_then (agy_run [''models''] a) (\<lambda>output.
     and_then (ok_or (from_utf8 (ao_stdout output)) Ag_NonUtf8Output) (\<lambda>text.
     and_then (agy_model_lines (text_lines text)) (\<lambda>models.
     if models = [] then Err Ag_ProtocolDrift else Ok models))))"

definition agy_capabilities :: AdapterCapabilities where
  "agy_capabilities = \<lparr>operations = [Adp_Discover, Adp_Version, Adp_ListModels, Adp_Start, Adp_Attach, Adp_Status,
       Adp_Wait, Adp_Cancel, Adp_ExportUsage],
     reasoning_controls = [''low'', ''medium'', ''high''], supports_read_only = True, supports_write = True,
     supports_resume = True, supports_structured_events = True\<rparr>"

end
