(* ===== verification/Workspace.thy ===== *)
theory Workspace
  imports Adapter "HOL-Library.Multiset" "HOL-Library.AList" "HOL-Library.Char_ord" "HOL-Library.List_Lexorder"
begin

text \<open>
  Evidence of writes in a workspace (\<open>bastet-core/src/workspace.rs\<close>): the digests of all files under
  a directory, taken before and after a run, and the receipt that counts the files that differ.
  The directory on disk is a tree; a node says what each system call on it answers, \<open>None\<close> where
  it fails. SHA-256 is an argument.
\<close>

section \<open>The tree and its snapshot\<close>

datatype ws_node =
  Ws_File "u64 option" "string option"    \<comment> \<open>\<open>metadata().len()\<close> and the bytes read\<close>
| Ws_Dir "(string \<times> ws_node) list option"
| Ws_Symlink | Ws_Other
| Ws_Unknown                              \<comment> \<open>\<open>file_type()\<close> fails\<close>

type_synonym ws_path = "string list"
type_synonym ws_files = "(ws_path \<times> string) list"

datatype WorkspaceEvidenceError = We_InvalidRoot | We_SymbolicLink | We_LimitExceeded | We_Io

record WorkspaceSnapshot =
  ws_root :: string
  ws_files :: ws_files

definition MAX_FILES :: nat where "MAX_FILES = 10000"
definition MAX_TOTAL_BYTES :: u64 where "MAX_TOTAL_BYTES = 256 * 1024 * 1024"

definition hash_file :: "(string \<Rightarrow> string) \<Rightarrow> string option \<Rightarrow> (WorkspaceEvidenceError, string) result" where
  "hash_file H content = and_then (ok_or content We_Io) (\<lambda>c. Ok (H c))"

text \<open>One regular file: the number of files, then the bytes, then the digest.\<close>

definition capture_file ::
  "(string \<Rightarrow> string) \<Rightarrow> ws_path \<Rightarrow> u64 option \<Rightarrow> string option \<Rightarrow> ws_files \<times> u64 \<Rightarrow>
   (WorkspaceEvidenceError, ws_files \<times> u64) result" where
  "capture_file H path len content st =
     (case st of (files, seen) \<Rightarrow>
        if MAX_FILES \<le> length files then Err We_LimitExceeded
        else and_then (ok_or len We_Io) (\<lambda>n.
             and_then (ok_or (checked_add seen n) We_LimitExceeded) (\<lambda>seen'.
             if MAX_TOTAL_BYTES < seen' then Err We_LimitExceeded
             else and_then (hash_file H content) (\<lambda>d. Ok (AList.update path d files, seen')))))"

lemma size_list_sort_key [termination_simp]: "size_list f (sort_key k xs) = size_list f xs"
proof -
  have "size_list f ys = sum_mset (image_mset f (mset ys)) + size (mset ys)" for ys :: "'a list"
    by (induction ys) auto
  then show ?thesis by simp
qed

function capture_entries ::
  "(string \<Rightarrow> string) \<Rightarrow> ws_path \<Rightarrow> (string \<times> ws_node) list \<Rightarrow> ws_files \<times> u64 \<Rightarrow>
   (WorkspaceEvidenceError, ws_files \<times> u64) result" where
  "capture_entries H dir [] st = Ok st"
| "capture_entries H dir ((name, node) # es) st =
     (case node of
        Ws_Unknown \<Rightarrow> Err We_Io
      | Ws_Symlink \<Rightarrow> Err We_SymbolicLink
      | Ws_Other \<Rightarrow> Err We_LimitExceeded
      | Ws_File len content \<Rightarrow>
          and_then (capture_file H (dir @ [name]) len content st) (capture_entries H dir es)
      | Ws_Dir None \<Rightarrow> Err We_Io
      | Ws_Dir (Some entries) \<Rightarrow>
          and_then (capture_entries H (dir @ [name]) (sort_key fst entries) st) (capture_entries H dir es))"
  by pat_completeness auto
termination
  by (relation "measure (\<lambda>(H, dir, es, st). size_list (size_prod (\<lambda>_. 0) size) es)") (auto simp: size_list_sort_key)

definition capture_directory ::
  "(string \<Rightarrow> string) \<Rightarrow> ws_path \<Rightarrow> (string \<times> ws_node) list option \<Rightarrow> ws_files \<times> u64 \<Rightarrow>
   (WorkspaceEvidenceError, ws_files \<times> u64) result" where
  "capture_directory H dir entries st = and_then (ok_or entries We_Io) (\<lambda>es. capture_entries H dir (sort_key fst es) st)"

text \<open>\<open>absolute\<close> is \<open>Path::is_absolute\<close>; a root that is no directory is no \<open>Ws_Dir\<close>.\<close>

definition workspace_capture ::
  "(string \<Rightarrow> string) \<Rightarrow> (string \<Rightarrow> bool) \<Rightarrow> string \<Rightarrow> ws_node \<Rightarrow> (WorkspaceEvidenceError, WorkspaceSnapshot) result" where
  "workspace_capture H absolute root node =
     (case node of
        Ws_Dir entries \<Rightarrow>
          if \<not> absolute root then Err We_InvalidRoot
          else and_then (capture_directory H [] entries ([], 0)) (\<lambda>(files, _).
            Ok \<lparr>ws_root = root, ws_files = files\<rparr>)
      | _ \<Rightarrow> Err We_InvalidRoot)"

section \<open>The receipt\<close>

definition changed_files :: "ws_files \<Rightarrow> ws_files \<Rightarrow> nat" where
  "changed_files before after =
     length (filter (\<lambda>(p, d). map_of after p \<noteq> Some d) before) +
     length (filter (\<lambda>(p, d). map_of before p = None) after)"

definition workspace_payload :: "nat \<Rightarrow> Value" where
  "workspace_payload n = VObject [(''evidence'', VString ''bastet.workspace_snapshot.changed''),
     (''evidence_class'', VString ''locally_measured''), (''changed_files'', VNumber (PosInt (of_nat n)))]"

definition write_receipt ::
  "json_codec \<Rightarrow> WorkspaceSnapshot \<Rightarrow> WorkspaceSnapshot \<Rightarrow> (WorkspaceEvidenceError, string option) result" where
  "write_receipt J before after =
     (if ws_root before \<noteq> ws_root after then Err We_InvalidRoot
      else let n = changed_files (ws_files before) (ws_files after) in
        if n = 0 then Ok None else Ok (Some (json_text J (workspace_payload n))))"

section \<open>What a snapshot holds\<close>

text \<open>The files of a tree, with their bytes.\<close>

function tree_files :: "ws_path \<Rightarrow> (string \<times> ws_node) list \<Rightarrow> (ws_path \<times> string option) list" where
  "tree_files dir [] = []"
| "tree_files dir ((name, node) # es) =
     (case node of
        Ws_File len content \<Rightarrow> [(dir @ [name], content)]
      | Ws_Dir (Some entries) \<Rightarrow> tree_files (dir @ [name]) (sort_key fst entries)
      | _ \<Rightarrow> []) @ tree_files dir es"
  by pat_completeness auto
termination
  by (relation "measure (\<lambda>(dir, es). size_list (size_prod (\<lambda>_. 0) size) es)") (auto simp: size_list_sort_key)

text \<open>A file system never lists a name twice in one directory.\<close>

definition tree_ok :: "(string \<times> ws_node) list option \<Rightarrow> bool" where
  "tree_ok entries \<longleftrightarrow> (\<forall>es. entries = Some es \<longrightarrow> distinct (map fst (tree_files [] (sort_key fst es))))"

definition captured :: "(string \<Rightarrow> string) \<Rightarrow> ws_files \<Rightarrow> (ws_path \<times> string option) list \<Rightarrow> bool" where
  "captured H files found \<longleftrightarrow> files = map (\<lambda>(p, c). (p, H (the c))) found \<and> (\<forall>(p, c) \<in> set found. c \<noteq> None)"

lemma update_fresh: "p \<notin> fst ` set xs \<Longrightarrow> AList.update p d xs = xs @ [(p, d)]"
  by (induction xs) auto

lemma capture_entries_Ok:
  assumes "capture_entries H dir es (files, seen) = Inr (files', seen')"
    and "distinct (map fst files @ map fst (tree_files dir es))" and "length files \<le> MAX_FILES" and "seen \<le> MAX_TOTAL_BYTES"
  shows "\<exists>new. files' = files @ new \<and> captured H new (tree_files dir es) \<and>
    length files' \<le> MAX_FILES \<and> seen' \<le> MAX_TOTAL_BYTES"
  using assms
proof (induction H dir es "(files, seen)" arbitrary: files seen files' seen' rule: capture_entries.induct)
  case (1 H dir)
  then show ?case by (simp add: captured_def)
next
  case (2 H dir name node es)
  show ?case
  proof (cases node)
    case (Ws_File len content)
    with 2(4) obtain n t d where n: "length files < MAX_FILES" "len = Some n" "checked_add seen n = Some t"
        "\<not> MAX_TOTAL_BYTES < t" "hash_file H content = Inr d"
        "capture_entries H dir es (AList.update (dir @ [name]) d files, t) = Inr (files', seen')"
      by (auto simp: capture_file_def and_then_eq_Ok split: if_splits)
    from 2(5) Ws_File have fresh: "AList.update (dir @ [name]) d files = files @ [(dir @ [name], d)]"
      by (intro update_fresh) auto
    from n obtain c where c: "content = Some c" "d = H c" by (auto simp: hash_file_def and_then_eq_Ok)
    have step: "capture_file H (dir @ [name]) len content (files, seen) = Inr (files @ [(dir @ [name], d)], t)"
      using n fresh by (auto simp: capture_file_def)
    have d1: "distinct (map fst (files @ [(dir @ [name], d)]) @ map fst (tree_files dir es))"
      using 2(5) Ws_File by auto
    have b1: "length (files @ [(dir @ [name], d)]) \<le> MAX_FILES" "t \<le> MAX_TOTAL_BYTES" using n(1,4) by auto
    from 2(1)[OF Ws_File step _ d1 b1] n(6) fresh obtain new where
      new: "files' = (files @ [(dir @ [name], d)]) @ new" "captured H new (tree_files dir es)"
        "length files' \<le> MAX_FILES" "seen' \<le> MAX_TOTAL_BYTES"
      by auto
    with c Ws_File show ?thesis by (intro exI[of _ "(dir @ [name], d) # new"]) (auto simp: captured_def)
  next
    case (Ws_Dir entries)
    with 2(4) obtain sub f t where sub: "entries = Some sub"
      "capture_entries H (dir @ [name]) (sort_key fst sub) (files, seen) = Inr (f, t)"
      "capture_entries H dir es (f, t) = Inr (files', seen')"
      by (cases entries) (auto simp: and_then_eq_Ok)
    from 2(5) Ws_Dir sub have d1: "distinct (map fst files @ map fst (tree_files (dir @ [name]) (sort_key fst sub)))"
      by auto
    from 2(2)[OF Ws_Dir sub(1,2) d1 2(6,7)] obtain new1 where
      new1: "f = files @ new1" "captured H new1 (tree_files (dir @ [name]) (sort_key fst sub))"
        "length f \<le> MAX_FILES" "t \<le> MAX_TOTAL_BYTES" by blast
    have "map fst new1 = map fst (tree_files (dir @ [name]) (sort_key fst sub))"
      using new1(2) by (auto simp: captured_def)
    with 2(5) Ws_Dir sub(1) new1(1) have d2: "distinct (map fst f @ map fst (tree_files dir es))" by auto
    from 2(3)[OF Ws_Dir sub(1,2,3) d2 new1(3,4)] obtain new2 where
      "files' = f @ new2" "captured H new2 (tree_files dir es)" "length files' \<le> MAX_FILES" "seen' \<le> MAX_TOTAL_BYTES"
      by blast
    with new1 Ws_Dir sub(1) show ?thesis by (intro exI[of _ "new1 @ new2"]) (auto simp: captured_def)
  qed (use 2(4) in auto)
qed

text \<open>No symbolic link, no special file, nothing unreadable anywhere below.\<close>

fun plain_node :: "ws_node \<Rightarrow> bool" where
  "plain_node (Ws_File len content) = (len \<noteq> None \<and> content \<noteq> None)"
| "plain_node (Ws_Dir (Some es)) = list_all (\<lambda>e. plain_node (snd e)) es"
| "plain_node _ = False"

lemma capture_plain:
  "capture_entries H dir es st = Inr st' \<Longrightarrow> list_all (\<lambda>e. plain_node (snd e)) es"
proof (induction H dir es st arbitrary: st' rule: capture_entries.induct)
  case (2 H dir name node es st)
  show ?case
  proof (cases node)
    case (Ws_File len content)
    with 2(4) obtain st1 where st1: "capture_file H (dir @ [name]) len content st = Inr st1"
      "capture_entries H dir es st1 = Inr st'" by (auto simp: and_then_eq_Ok)
    from st1(1) have "len \<noteq> None \<and> content \<noteq> None"
      by (auto simp: and_then_eq_Ok capture_file_def hash_file_def split: prod.splits if_splits)
    with 2(1)[OF Ws_File st1] Ws_File show ?thesis by simp
  next
    case (Ws_Dir entries)
    with 2(4) obtain sub st1 where sub: "entries = Some sub"
      "capture_entries H (dir @ [name]) (sort_key fst sub) st = Inr st1" "capture_entries H dir es st1 = Inr st'"
      by (cases entries) (auto simp: and_then_eq_Ok)
    from 2(2)[OF Ws_Dir sub(1,2)] have "list_all (\<lambda>e. plain_node (snd e)) sub" by (simp add: list_all_iff)
    with 2(3)[OF Ws_Dir sub] Ws_Dir sub(1) show ?thesis by simp
  qed (use 2(4) in auto)
qed simp

lemma capture_Ok:
  assumes "workspace_capture H absolute root node = Inr s" and "\<And>entries. node = Ws_Dir entries \<Longrightarrow> tree_ok entries"
  shows "\<exists>es. node = Ws_Dir (Some es) \<and> plain_node node \<and> ws_root s = root \<and>
    distinct (map fst (ws_files s)) \<and> length (ws_files s) \<le> MAX_FILES \<and>
    captured H (ws_files s) (tree_files [] (sort_key fst es))"
proof -
  from assms(1) obtain es files n where es: "node = Ws_Dir (Some es)"
    "capture_entries H [] (sort_key fst es) ([], 0) = Inr (files, n)" "s = \<lparr>ws_root = root, ws_files = files\<rparr>"
    by (auto simp: workspace_capture_def capture_directory_def and_then_eq_Ok split: ws_node.splits if_splits)
  from assms(2)[OF es(1)] have d: "distinct (map fst (tree_files [] (sort_key fst es)))" by (simp add: tree_ok_def)
  from capture_entries_Ok[OF es(2)] d have ok: "captured H files (tree_files [] (sort_key fst es))" "length files \<le> MAX_FILES"
    by (auto simp: MAX_TOTAL_BYTES_def)
  then have "map fst files = map fst (tree_files [] (sort_key fst es))" by (auto simp: captured_def)
  with ok d es capture_plain[OF es(2)] show ?thesis by (simp add: list_all_iff)
qed

section \<open>What a receipt counts\<close>

lemma length_filter_card:
  assumes "distinct (map fst xs)"
  shows "length (filter (\<lambda>(p, d). Q p d) xs) = card {p. \<exists>d. map_of xs p = Some d \<and> Q p d}"
proof -
  have "length (filter (\<lambda>(p, d). Q p d) xs) = card (fst ` set (filter (\<lambda>(p, d). Q p d) xs))"
    using assms by (metis distinct_card distinct_map_filter length_map set_map)
  also have "fst ` set (filter (\<lambda>(p, d). Q p d) xs) = {p. \<exists>d. map_of xs p = Some d \<and> Q p d}"
    using assms by (force simp: map_of_eq_Some_iff image_iff)
  finally show ?thesis .
qed

lemma changed_files_card:
  assumes "distinct (map fst before)" and "distinct (map fst after)"
  shows "changed_files before after = card {p. map_of before p \<noteq> map_of after p}"
proof -
  let ?A = "{p. \<exists>d. map_of before p = Some d \<and> map_of after p \<noteq> Some d}"
  let ?B = "{p. \<exists>d. map_of after p = Some d \<and> map_of before p = None}"
  have "changed_files before after = card ?A + card ?B"
    using assms by (simp add: changed_files_def length_filter_card)
  also have "\<dots> = card (?A \<union> ?B)"
  proof (rule card_Un_disjoint[symmetric])
    show "finite ?A" by (rule finite_subset[OF _ finite_dom_map_of[of before]]) (auto simp: dom_def)
    show "finite ?B" by (rule finite_subset[OF _ finite_dom_map_of[of after]]) (auto simp: dom_def)
  qed auto
  also have "?A \<union> ?B = {p. map_of before p \<noteq> map_of after p}"
  proof (rule set_eqI)
    fix p show "p \<in> ?A \<union> ?B \<longleftrightarrow> p \<in> {p. map_of before p \<noteq> map_of after p}"
      by (cases "map_of before p"; cases "map_of after p") auto
  qed
  finally show ?thesis .
qed

lemma map_of_captured:
  assumes "captured H files found" shows "map_of files p = map_option (H \<circ> the) (map_of found p)"
proof -
  have "map_of (map (\<lambda>(p, c). (p, H (the c))) xs) p = map_option (H \<circ> the) (map_of xs p)" for xs :: "(ws_path \<times> string option) list"
    by (induction xs) auto
  with assms show ?thesis by (simp add: captured_def)
qed

section \<open>Runs that change nothing\<close>

text \<open>The files the run left as they were before it.\<close>

definition workspace_unchanged ::
  "(string \<Rightarrow> (WorkspaceEvidenceError, WorkspaceSnapshot) result) \<Rightarrow> WorkspaceSnapshot \<Rightarrow> bool" where
  "workspace_unchanged capture before \<longleftrightarrow>
     (\<exists>after. capture (ws_root before) = Inr after \<and> ws_root after = ws_root before \<and>
        changed_files (ws_files before) (ws_files after) = 0)"

end
