(* ===== verification/Codex_Stream.thy ===== *)
theory Codex_Stream
  imports Adapter
begin

text \<open>
  How the Codex adapter reads the notifications of the app server: the lifecycle of one turn
  (\<open>bastet-adapter-codex/src/lifecycle.rs\<close>), evidence of writes and cost (\<open>evidence.rs\<close>) and the
  final text (\<open>CodexFinalOutput\<close> of \<open>app_server.rs\<close>).
\<close>

record AppServerNotification =
  nt_method :: string
  nt_params :: Value

section \<open>Normalized events\<close>

datatype LifecycleError = Lc_ProtocolDrift | Lc_SequenceOverflow

record NormalizedCodexEvent =
  cx_event :: NormalizedAdapterEvent
  cx_failure :: "AdapterFailure option"

record CodexEventNormalizer =
  cn_run_id :: RunId
  cn_next_sequence :: u64

type_synonym 'a normalizer_step = "(LifecycleError, 'a) result \<times> CodexEventNormalizer"

definition normalizer_new :: "RunId \<Rightarrow> CodexEventNormalizer" where
  "normalizer_new r = \<lparr>cn_run_id = r, cn_next_sequence = 1\<rparr>"

definition normalized_event ::
  "json_codec \<Rightarrow> NormalizedRunState \<Rightarrow> string \<Rightarrow> string \<Rightarrow> EvidenceClass \<Rightarrow> string option \<Rightarrow> Value \<Rightarrow>
   AdapterFailure option \<Rightarrow> CodexEventNormalizer \<Rightarrow> NormalizedCodexEvent normalizer_step" where
  "normalized_event J state event_type at evidence provider_event payload f n =
     (if blank at then (Err Lc_ProtocolDrift, n)
      else case checked_add (cn_next_sequence n) 1 of
        None \<Rightarrow> (Err Lc_SequenceOverflow, n)
      | Some next \<Rightarrow>
          (Ok \<lparr>cx_event =
             \<lparr>nae_contract_version = AGENT_ADAPTER_CONTRACT_VERSION, nae_run_id = cn_run_id n,
              nae_sequence = cn_next_sequence n, nae_state = state, nae_event_type = event_type,
              nae_occurred_at = at, nae_evidence_class = evidence, nae_provider_event_id = provider_event,
              nae_redacted_payload_json = json_text J payload\<rparr>,
             cx_failure = f\<rparr>,
           n\<lparr>cn_next_sequence := next\<rparr>))"

definition status_payload :: "string \<Rightarrow> Value" where
  "status_payload status = VObject [(''status'', VString status)]"

definition turn_payload :: "string \<Rightarrow> string \<Rightarrow> Value" where
  "turn_payload turn status = VObject [(''turn_id'', VString turn), (''status'', VString status)]"

definition thread_payload :: "string \<Rightarrow> Value" where
  "thread_payload thread = VObject [(''thread_id'', VString thread), (''status'', VString ''recovering'')]"

definition normalizer_cancellation_requested ::
  "json_codec \<Rightarrow> string \<Rightarrow> CodexEventNormalizer \<Rightarrow> NormalizedCodexEvent normalizer_step" where
  "normalizer_cancellation_requested J at n =
     normalized_event J Run_Cancelling ''codex.turn_interrupt_requested'' at LocallyMeasured None
       (status_payload ''cancelling'') None n"

definition normalizer_recovery_started ::
  "json_codec \<Rightarrow> string \<Rightarrow> string \<Rightarrow> CodexEventNormalizer \<Rightarrow> NormalizedCodexEvent normalizer_step" where
  "normalizer_recovery_started J thread at n =
     (if blank thread then (Err Lc_ProtocolDrift, n)
      else normalized_event J Run_Recovering ''codex.thread_resume_requested'' at LocallyMeasured (Some thread)
        (thread_payload thread) None n)"

definition turn_of :: "Value \<Rightarrow> (LifecycleError, Value) result" where
  "turn_of params = and_then (ok_or (Option.bind (value_get ''turn'' params) as_object) Lc_ProtocolDrift)
     (\<lambda>ms. Ok (VObject ms))"

definition lc_required_string :: "string \<Rightarrow> Value \<Rightarrow> (LifecycleError, string) result" where
  "lc_required_string k v = ok_or (get_text k v) Lc_ProtocolDrift"

definition failure_code :: "Value \<Rightarrow> string option" where
  "failure_code turn =
     Option.bind (Option.bind (value_get ''error'' turn) (value_get ''codexErrorInfo'')) (\<lambda>info.
       case as_str info of Some s \<Rightarrow> Some s | None \<Rightarrow> get_str ''type'' info)"

definition known_code :: "string \<Rightarrow> string option" where
  "known_code code =
     (if code \<in> {''ResponseStreamConnectionFailed'', ''ResponseStreamDisconnected'',
        ''ResponseTooManyFailedAttempts'', ''HttpConnectionFailed'', ''ContextWindowExceeded'', ''BadRequest'',
        ''Other''} then Some code else None)"

definition map_failure :: "string \<Rightarrow> AdapterFailureKind \<times> bool \<times> string option" where
  "map_failure code =
     (if code = ''Unauthorized'' then (Authentication, False, Some ''Unauthorized'')
      else if code = ''UsageLimitExceeded'' then (Quota, True, Some ''UsageLimitExceeded'')
      else if code = ''SandboxError'' then (PermissionDenied, False, Some ''SandboxError'')
      else if code \<in> {''ResponseStreamConnectionFailed'', ''ResponseStreamDisconnected'',
        ''ResponseTooManyFailedAttempts'', ''HttpConnectionFailed''} then (Crashed, True, known_code code)
      else if code = ''InternalServerError'' then (Crashed, True, Some ''InternalServerError'')
      else if code \<in> {''ContextWindowExceeded'', ''BadRequest'', ''Other''} then (UnknownFailure, False, known_code code)
      else (UnknownFailure, False, None))"

text \<open>\<open>snake_case\<close>: an underscore before each upper-case letter but the first.\<close>

fun snake_rest :: "string \<Rightarrow> string" where
  "snake_rest [] = []"
| "snake_rest (c # cs) = (if ascii_lower c \<noteq> c then CHR ''_'' # ascii_lower c # snake_rest cs else c # snake_rest cs)"

fun snake_case :: "string \<Rightarrow> string" where
  "snake_case [] = []"
| "snake_case (c # cs) = ascii_lower c # snake_rest cs"

definition codex_failure :: "AdapterFailureKind \<Rightarrow> string option \<Rightarrow> bool \<Rightarrow> AdapterFailure" where
  "codex_failure kind code retryable =
     \<lparr>af_kind = kind,
      af_message_key = (case code of None \<Rightarrow> ''codex.failure.unknown'' | Some c \<Rightarrow> ''codex.failure.'' @ snake_case c),
      af_retryable = retryable, af_provider_code = code, af_redacted_detail = None\<rparr>"

definition turn_started :: "json_codec \<Rightarrow> Value \<Rightarrow> string \<Rightarrow> CodexEventNormalizer \<Rightarrow> NormalizedCodexEvent normalizer_step" where
  "turn_started J params at n =
     (case and_then (turn_of params) (\<lambda>turn.
           and_then (lc_required_string ''id'' turn) (\<lambda>turn_id.
           and_then (lc_required_string ''status'' turn) (\<lambda>status.
           and_then (ensure (status = ''inProgress'') Lc_ProtocolDrift) (\<lambda>_. Ok turn_id)))) of
        Inl e \<Rightarrow> (Err e, n)
      | Inr turn_id \<Rightarrow> normalized_event J Run_Running ''codex.turn_started'' at ProviderReported (Some turn_id)
          (turn_payload turn_id ''running'') None n)"

definition completed_outcome ::
  "Value \<Rightarrow> string \<Rightarrow> (LifecycleError, NormalizedRunState \<times> AdapterFailure option) result" where
  "completed_outcome turn status =
     (if status = ''completed'' then Ok (Run_Succeeded, None)
      else if status = ''interrupted'' then
        Ok (Run_Cancelled, Some (codex_failure Failure_Cancelled (Some ''Interrupted'') False))
      else if status = ''failed'' then
        (let code = (case failure_code turn of None \<Rightarrow> ''Other'' | Some c \<Rightarrow> c) in
         case map_failure code of (kind, retryable, safe) \<Rightarrow>
           Ok (Run_Failed, Some (codex_failure kind safe retryable)))
      else Err Lc_ProtocolDrift)"

definition turn_completed :: "json_codec \<Rightarrow> Value \<Rightarrow> string \<Rightarrow> CodexEventNormalizer \<Rightarrow> NormalizedCodexEvent normalizer_step" where
  "turn_completed J params at n =
     (case and_then (turn_of params) (\<lambda>turn.
           and_then (lc_required_string ''id'' turn) (\<lambda>turn_id.
           and_then (lc_required_string ''status'' turn) (\<lambda>status.
           and_then (completed_outcome turn status) (\<lambda>(state, f). Ok (turn_id, status, state, f))))) of
        Inl e \<Rightarrow> (Err e, n)
      | Inr (turn_id, status, state, f) \<Rightarrow>
          normalized_event J state ''codex.turn_completed'' at ProviderReported (Some turn_id)
            (turn_payload turn_id status) f n)"

fun normalized_some :: "'a normalizer_step \<Rightarrow> 'a option normalizer_step" where
  "normalized_some (r, n) = (and_then r (\<lambda>a. Ok (Some a)), n)"

definition normalize_notification ::
  "json_codec \<Rightarrow> string \<Rightarrow> Value \<Rightarrow> string \<Rightarrow> CodexEventNormalizer \<Rightarrow> NormalizedCodexEvent option normalizer_step" where
  "normalize_notification J m params at n =
     (if m = ''turn/started'' then normalized_some (turn_started J params at n)
      else if m = ''turn/completed'' then normalized_some (turn_completed J params at n)
      else (Ok None, n))"

section \<open>The stream of one turn\<close>

record CodexRunStream =
  cs_provider_turn_id :: string
  cs_normalizer :: CodexEventNormalizer
  cs_terminal :: bool

type_synonym 'a stream_step = "(LifecycleError, 'a) result \<times> CodexRunStream"

definition codex_stream_new :: "RunId \<Rightarrow> string \<Rightarrow> (LifecycleError, CodexRunStream) result" where
  "codex_stream_new r turn =
     (if blank turn then Err Lc_ProtocolDrift
      else Ok \<lparr>cs_provider_turn_id = turn, cs_normalizer = normalizer_new r, cs_terminal = False\<rparr>)"

text \<open>A step of the normalizer inside the stream.\<close>

definition with_normalizer :: "(CodexEventNormalizer \<Rightarrow> 'a normalizer_step) \<Rightarrow> CodexRunStream \<Rightarrow> 'a stream_step" where
  "with_normalizer f s = (case f (cs_normalizer s) of (r, n) \<Rightarrow> (r, s\<lparr>cs_normalizer := n\<rparr>))"

definition codex_ingest ::
  "json_codec \<Rightarrow> AppServerNotification \<Rightarrow> string \<Rightarrow> CodexRunStream \<Rightarrow> NormalizedCodexEvent option stream_step" where
  "codex_ingest J note at s =
     (if nt_method note \<notin> {''turn/started'', ''turn/completed''} then (Ok None, s)
      else case and_then (turn_of (nt_params note)) (lc_required_string ''id'') of
        Inl e \<Rightarrow> (Err e, s)
      | Inr turn_id \<Rightarrow>
          if turn_id \<noteq> cs_provider_turn_id s then (Ok None, s)
          else if cs_terminal s then (Err Lc_ProtocolDrift, s)
          else case with_normalizer (normalize_notification J (nt_method note) (nt_params note) at) s of
            (Inl e, t) \<Rightarrow> (Err e, t)
          | (Inr event, t) \<Rightarrow>
              (Ok event, if nt_method note = ''turn/completed'' then t\<lparr>cs_terminal := True\<rparr> else t))"

definition codex_cancellation_requested :: "json_codec \<Rightarrow> string \<Rightarrow> CodexRunStream \<Rightarrow> NormalizedCodexEvent stream_step" where
  "codex_cancellation_requested J at s =
     (if cs_terminal s then (Err Lc_ProtocolDrift, s)
      else with_normalizer (normalizer_cancellation_requested J at) s)"

definition codex_recovery_started ::
  "json_codec \<Rightarrow> string \<Rightarrow> string \<Rightarrow> CodexRunStream \<Rightarrow> NormalizedCodexEvent stream_step" where
  "codex_recovery_started J thread at s =
     (if cs_terminal s then (Err Lc_ProtocolDrift, s)
      else with_normalizer (normalizer_recovery_started J thread at) s)"

text \<open>Unlike the Agy stream this one closes only after the event was made.\<close>

definition codex_local_terminal ::
  "json_codec \<Rightarrow> NormalizedRunState \<Rightarrow> string \<Rightarrow> string \<Rightarrow> string \<Rightarrow> AdapterFailureKind \<Rightarrow> string \<Rightarrow> bool \<Rightarrow>
   CodexRunStream \<Rightarrow> NormalizedCodexEvent stream_step" where
  "codex_local_terminal J state status event_type at kind key retryable s =
     (if cs_terminal s then (Err Lc_ProtocolDrift, s)
      else case with_normalizer (normalized_event J state event_type at LocallyMeasured None
          (status_payload status) (Some (adapter_failure kind key retryable))) s of
        (Inl e, t) \<Rightarrow> (Err e, t)
      | (Inr event, t) \<Rightarrow> (Ok event, t\<lparr>cs_terminal := True\<rparr>))"

definition codex_deadline_exceeded :: "json_codec \<Rightarrow> string \<Rightarrow> CodexRunStream \<Rightarrow> NormalizedCodexEvent stream_step" where
  "codex_deadline_exceeded J at =
     codex_local_terminal J Run_Failed ''failed'' ''codex.deadline_exceeded'' at Timeout ''codex.failure.timeout'' True"

definition codex_transport_lost :: "json_codec \<Rightarrow> string \<Rightarrow> CodexRunStream \<Rightarrow> NormalizedCodexEvent stream_step" where
  "codex_transport_lost J at =
     codex_local_terminal J Run_Uncertain ''uncertain'' ''codex.transport_lost'' at Crashed
       ''codex.failure.transport_lost'' True"

section \<open>Evidence\<close>

datatype EvidenceError = Ev_ProtocolDrift

datatype CodexRunEvidenceUpdate = WriteReceipt string | Cost CostEvidence

record CodexRunEvidence =
  ce_thread_id :: string
  ce_turn_id :: string

definition evidence_new :: "string \<Rightarrow> string \<Rightarrow> (EvidenceError, CodexRunEvidence) result" where
  "evidence_new thread turn =
     (if blank thread \<or> blank turn then Err Ev_ProtocolDrift else Ok \<lparr>ce_thread_id = thread, ce_turn_id = turn\<rparr>)"

definition ev_required_string :: "string \<Rightarrow> Value \<Rightarrow> (EvidenceError, string) result" where
  "ev_required_string k v = ok_or (get_text k v) Ev_ProtocolDrift"

definition ev_required_u64 :: "string \<Rightarrow> Value \<Rightarrow> (EvidenceError, u64) result" where
  "ev_required_u64 k v = ok_or (Option.bind (value_get k v) as_u64) Ev_ProtocolDrift"

definition matches_run :: "CodexRunEvidence \<Rightarrow> Value \<Rightarrow> (EvidenceError, bool) result" where
  "matches_run c params =
     and_then (ev_required_string ''threadId'' params) (\<lambda>thread.
     and_then (ev_required_string ''turnId'' params) (\<lambda>turn.
     Ok (thread = ce_thread_id c \<and> turn = ce_turn_id c)))"

text \<open>Nothing is read of another run.\<close>

definition if_run ::
  "CodexRunEvidence \<Rightarrow> Value \<Rightarrow> (EvidenceError, CodexRunEvidenceUpdate option) result \<Rightarrow>
   (EvidenceError, CodexRunEvidenceUpdate option) result" where
  "if_run c params r = and_then (matches_run c params) (\<lambda>own. if own then r else Ok None)"

definition valid_file_change :: "Value \<Rightarrow> bool" where
  "valid_file_change v \<longleftrightarrow> as_object v \<noteq> None \<and> (\<forall>k \<in> {''path'', ''kind'', ''diff''}. get_text k v \<noteq> None)"

definition receipt_payload :: "string \<Rightarrow> string \<Rightarrow> Value" where
  "receipt_payload evidence turn = VObject [(''evidence'', VString evidence), (''turn_id'', VString turn)]"

definition file_change_completed ::
  "json_codec \<Rightarrow> CodexRunEvidence \<Rightarrow> Value \<Rightarrow> (EvidenceError, CodexRunEvidenceUpdate option) result" where
  "file_change_completed J c params = if_run c params
     (and_then (ok_or (value_get ''item'' params) Ev_ProtocolDrift) (\<lambda>item.
      and_then (ev_required_string ''type'' item) (\<lambda>kind.
      if kind \<noteq> ''fileChange'' then Ok None
      else and_then (ev_required_string ''status'' item) (\<lambda>status.
      if status = ''failed'' \<or> status = ''declined'' then Ok None
      else if status \<noteq> ''completed'' then Err Ev_ProtocolDrift
      else case Option.bind (value_get ''changes'' item) as_array of
        None \<Rightarrow> Err Ev_ProtocolDrift
      | Some changes \<Rightarrow>
          if changes = [] \<or> list_ex (\<lambda>x. \<not> valid_file_change x) changes then Err Ev_ProtocolDrift
          else Ok (Some (WriteReceipt (json_text J
            (receipt_payload ''codex.item_file_change.completed'' (ce_turn_id c)))))))))"

definition diff_updated ::
  "json_codec \<Rightarrow> CodexRunEvidence \<Rightarrow> Value \<Rightarrow> (EvidenceError, CodexRunEvidenceUpdate option) result" where
  "diff_updated J c params = if_run c params
     (and_then (ev_required_string ''diff'' params) (\<lambda>diff.
      if diff = [] then Ok None
      else Ok (Some (WriteReceipt (json_text J (receipt_payload ''codex.turn_diff.updated'' (ce_turn_id c)))))))"

definition codex_cost :: "u64 \<Rightarrow> u64 \<Rightarrow> CostEvidence" where
  "codex_cost i out = \<lparr>ce_evidence_class = ProviderReported, ce_currency = None, ce_amount = None,
     ce_input_tokens = Some i, ce_output_tokens = Some out, ce_confidence = Dyadic 1 0\<rparr>"

definition token_usage_updated ::
  "CodexRunEvidence \<Rightarrow> Value \<Rightarrow> (EvidenceError, CodexRunEvidenceUpdate option) result" where
  "token_usage_updated c params = if_run c params
     (and_then (ok_or (Option.bind (value_get ''tokenUsage'' params) (value_get ''last'')) Ev_ProtocolDrift) (\<lambda>last.
      and_then (ev_required_u64 ''inputTokens'' last) (\<lambda>i.
      and_then (ev_required_u64 ''outputTokens'' last) (\<lambda>out.
      and_then (ev_required_u64 ''totalTokens'' last) (\<lambda>total.
      and_then (ok_or (checked_add i out) Ev_ProtocolDrift) (\<lambda>minimum.
      if total < minimum then Err Ev_ProtocolDrift else Ok (Some (Cost (codex_cost i out)))))))))"

definition evidence_ingest ::
  "json_codec \<Rightarrow> CodexRunEvidence \<Rightarrow> AppServerNotification \<Rightarrow> (EvidenceError, CodexRunEvidenceUpdate option) result" where
  "evidence_ingest J c note =
     (if nt_method note = ''turn/diff/updated'' then diff_updated J c (nt_params note)
      else if nt_method note = ''item/completed'' then file_change_completed J c (nt_params note)
      else if nt_method note = ''thread/tokenUsage/updated'' then token_usage_updated c (nt_params note)
      else Ok None)"

section \<open>The final text\<close>

datatype TransportError =
  Tr_Cancelled | Tr_Unavailable | Tr_TimedOut | Tr_ProtocolDrift | Tr_RemoteRejected int bool

datatype AppServerError = As_Transport TransportError | As_NotInitialized | As_ProtocolDrift

record CodexFinalOutput =
  fo_thread_id :: string
  fo_turn_id :: string
  fo_text :: string
  fo_overflowed :: bool

definition require_text :: "string \<Rightarrow> (AppServerError, unit) result" where
  "require_text s = ensure (\<not> blank s) As_ProtocolDrift"

definition final_output_new :: "string \<Rightarrow> string \<Rightarrow> (AppServerError, CodexFinalOutput) result" where
  "final_output_new thread turn =
     and_then (require_text thread) (\<lambda>_.
     and_then (require_text turn) (\<lambda>_.
     Ok \<lparr>fo_thread_id = thread, fo_turn_id = turn, fo_text = [], fo_overflowed = False\<rparr>))"

definition final_output_text :: "CodexFinalOutput \<Rightarrow> string option" where
  "final_output_text o' = (if \<not> fo_overflowed o' \<and> fo_text o' \<noteq> [] then Some (fo_text o') else None)"

definition required_value_string :: "string \<Rightarrow> Value \<Rightarrow> (AppServerError, string) result" where
  "required_value_string k v = ok_or (get_str k v) As_ProtocolDrift"

text \<open>The final answer a notification completes, if any.\<close>

definition final_answer :: "CodexFinalOutput \<Rightarrow> AppServerNotification \<Rightarrow> (AppServerError, string option) result" where
  "final_answer o' note =
     (if nt_method note \<noteq> ''item/completed'' then Ok None
      else and_then (required_value_string ''threadId'' (nt_params note)) (\<lambda>thread.
        if thread \<noteq> fo_thread_id o' then Ok None
        else and_then (required_value_string ''turnId'' (nt_params note)) (\<lambda>turn.
        if turn \<noteq> fo_turn_id o' then Ok None
        else and_then (ok_or (value_get ''item'' (nt_params note)) As_ProtocolDrift) (\<lambda>item.
        and_then (required_value_string ''type'' item) (\<lambda>kind.
        if kind \<noteq> ''agentMessage'' then Ok None
        else if get_str ''phase'' item \<noteq> Some ''final_answer'' then Ok None
        else and_then (required_value_string ''text'' item) (\<lambda>text. Ok (Some text)))))))"

definition final_output_ingest ::
  "AppServerNotification \<Rightarrow> CodexFinalOutput \<Rightarrow> (AppServerError, unit) result \<times> CodexFinalOutput" where
  "final_output_ingest note o' =
     (case final_answer o' note of
        Inl e \<Rightarrow> (Err e, o')
      | Inr None \<Rightarrow> (Ok (), o')
      | Inr (Some text) \<Rightarrow>
          (case retain_text text (fo_text o', fo_overflowed o') of
             (kept, overflowed) \<Rightarrow> (Ok (), o'\<lparr>fo_text := kept, fo_overflowed := overflowed\<rparr>)))"

end
