(* ===== verification/Codex_Server.thy ===== *)
theory Codex_Server
  imports Codex_Stream
begin

text \<open>
  The client of the Codex app server (\<open>bastet-adapter-codex/src/app_server.rs\<close>) over any transport:
  requests are made only after the handshake, answers are checked, and notifications are
  read until one concerns the run. A transport is a state with the five methods of the trait
  \<open>AppServerTransport\<close>. A loop that waits for a notification may not end; then it is \<open>None\<close>.
\<close>

section \<open>Transports\<close>

record 't transport =
  tp_request :: "'t \<Rightarrow> string \<Rightarrow> Value \<Rightarrow> (TransportError, Value) result \<times> 't"
  tp_request_with_timeout :: "'t \<Rightarrow> string \<Rightarrow> Value \<Rightarrow> nat \<Rightarrow> (TransportError, Value) result \<times> 't"
  tp_notify :: "'t \<Rightarrow> string \<Rightarrow> Value \<Rightarrow> (TransportError, unit) result \<times> 't"
  tp_next_notification :: "'t \<Rightarrow> (TransportError, AppServerNotification) result \<times> 't"
  tp_poll_notification :: "'t \<Rightarrow> nat \<Rightarrow> (TransportError, AppServerNotification option) result \<times> 't"

datatype CodexRunUpdate = Up_Lifecycle NormalizedCodexEvent | Up_Evidence CodexRunEvidenceUpdate

section \<open>Requests and answers\<close>

datatype ApprovalPolicy = Never | UnlessTrusted
datatype ThreadSandbox = Th_ReadOnly | Th_WorkspaceWrite
datatype TurnSandboxPolicy = Tu_ReadOnly | Tu_WorkspaceWrite "string list" bool

record ThreadStartRequest =
  ts_model :: string
  ts_cwd :: string
  ts_approval_policy :: ApprovalPolicy
  ts_sandbox :: ThreadSandbox

record TurnStartRequest =
  us_thread_id :: string
  us_prompt :: string
  us_cwd :: string
  us_approval_policy :: ApprovalPolicy
  us_sandbox_policy :: TurnSandboxPolicy
  us_model :: "string option"
  us_effort :: "string option"

record ThreadHandle =
  th_thread_id :: string
  th_session_id :: "string option"

record TurnHandle =
  tu_turn_id :: string

record ReasoningEffort =
  re_reasoning_effort :: string
  re_description :: string

record ModelDescriptor =
  mo_id :: string
  mo_model :: string
  mo_display_name :: string
  mo_hidden :: bool
  mo_default_reasoning_effort :: "string option"
  mo_supported_reasoning_efforts :: "ReasoningEffort list"
  mo_input_modalities :: "string list"
  mo_supports_personality :: bool
  mo_is_default :: bool

record ModelCatalogPage =
  mp_models :: "ModelDescriptor list"
  mp_next_cursor :: "string option"

text \<open>
  What the client takes from outside: the JSON package, the decoders its derive macros make for
  \<open>ModelPageWire\<close>, \<open>ThreadResultWire\<close> and \<open>TurnResultWire\<close>, \<open>Path::is_absolute\<close> and the version of
  the crate.
\<close>

record codex_env =
  cv_codec :: json_codec
  cv_models :: "Value \<Rightarrow> (ModelDescriptor list \<times> string option) option"
  cv_thread :: "Value \<Rightarrow> (string \<times> string option) option"
  cv_turn :: "Value \<Rightarrow> string option"
  cv_absolute :: "string \<Rightarrow> bool"
  cv_version :: string

fun approval_policy_json :: "ApprovalPolicy \<Rightarrow> Value" where
  "approval_policy_json Never = VString ''never''"
| "approval_policy_json UnlessTrusted = VString ''unlessTrusted''"

fun thread_sandbox_json :: "ThreadSandbox \<Rightarrow> Value" where
  "thread_sandbox_json Th_ReadOnly = VString ''read-only''"
| "thread_sandbox_json Th_WorkspaceWrite = VString ''workspace-write''"

fun turn_sandbox_json :: "TurnSandboxPolicy \<Rightarrow> Value" where
  "turn_sandbox_json Tu_ReadOnly = VObject [(''type'', VString ''readOnly'')]"
| "turn_sandbox_json (Tu_WorkspaceWrite roots net) = VObject [(''type'', VString ''workspaceWrite''),
     (''writableRoots'', VArray (map VString roots)), (''networkAccess'', VBool net)]"

definition opt_blank :: "string option \<Rightarrow> bool" where
  "opt_blank x \<longleftrightarrow> (case x of None \<Rightarrow> False | Some s \<Rightarrow> blank s)"

definition require_absolute :: "codex_env \<Rightarrow> string \<Rightarrow> (AppServerError, unit) result" where
  "require_absolute E path = ensure (cv_absolute E path) As_ProtocolDrift"

fun validate_sandbox_policy :: "codex_env \<Rightarrow> TurnSandboxPolicy \<Rightarrow> (AppServerError, unit) result" where
  "validate_sandbox_policy E Tu_ReadOnly = Ok ()"
| "validate_sandbox_policy E (Tu_WorkspaceWrite roots net) =
     ensure (\<not> (roots = [] \<or> list_ex (\<lambda>p. \<not> cv_absolute E p) roots)) As_ProtocolDrift"

definition parse_thread_handle :: "codex_env \<Rightarrow> Value \<Rightarrow> (AppServerError, ThreadHandle) result" where
  "parse_thread_handle E v =
     and_then (ok_or (cv_thread E v) As_ProtocolDrift) (\<lambda>(i, session).
     and_then (require_text i) (\<lambda>_.
     and_then (ensure (\<not> opt_blank session) As_ProtocolDrift) (\<lambda>_.
     Ok \<lparr>th_thread_id = i, th_session_id = session\<rparr>)))"

definition model_wire_ok :: "ModelDescriptor \<Rightarrow> bool" where
  "model_wire_ok m \<longleftrightarrow> \<not> (blank (mo_id m) \<or> blank (mo_model m) \<or> blank (mo_display_name m) \<or>
     opt_blank (mo_default_reasoning_effort m) \<or>
     list_ex (\<lambda>e. blank (re_reasoning_effort e) \<or> blank (re_description e)) (mo_supported_reasoning_efforts m) \<or>
     list_ex blank (mo_input_modalities m))"

section \<open>The connection\<close>

record 't server =
  sv_transport :: 't
  sv_initialized :: bool

type_synonym ('t, 'a) server_step = "(AppServerError, 'a) result \<times> 't server"

fun sv_then :: "('t, 'a) server_step \<Rightarrow> ('a \<Rightarrow> 't server \<Rightarrow> ('t, 'b) server_step) \<Rightarrow> ('t, 'b) server_step" where
  "sv_then (Inl e, sv) f = (Inl e, sv)"
| "sv_then (Inr a, sv) f = f a sv"

definition sv_try :: "(AppServerError, 'a) result \<Rightarrow> 't server \<Rightarrow> ('t, 'a) server_step" where
  "sv_try r sv = (r, sv)"

definition sv_use :: "('t \<Rightarrow> (TransportError, 'a) result \<times> 't) \<Rightarrow> 't server \<Rightarrow> ('t, 'a) server_step" where
  "sv_use f sv = (case f (sv_transport sv) of (r, t) \<Rightarrow> (map_err As_Transport r, sv\<lparr>sv_transport := t\<rparr>))"

definition server_new :: "'t \<Rightarrow> 't server" where
  "server_new t = \<lparr>sv_transport = t, sv_initialized = False\<rparr>"

definition require_initialized :: "'t server \<Rightarrow> (AppServerError, unit) result" where
  "require_initialized sv = ensure (sv_initialized sv) As_NotInitialized"

definition initialize :: "codex_env \<Rightarrow> 't transport \<Rightarrow> 't server \<Rightarrow> ('t, unit) server_step" where
  "initialize E T sv =
     sv_then (sv_use (\<lambda>t. tp_request T t ''initialize'' (VObject [(''clientInfo'', VObject
         [(''name'', VString ''bastet_workstation''), (''title'', VString ''Bastet Workstation''),
          (''version'', VString (cv_version E))])])) sv) (\<lambda>answer sv.
     sv_then (sv_try (ensure (as_object answer \<noteq> None) As_ProtocolDrift) sv) (\<lambda>_ sv.
     sv_then (sv_use (\<lambda>t. tp_notify T t ''initialized'' (VObject [])) sv) (\<lambda>_ sv.
     (Ok (), sv\<lparr>sv_initialized := True\<rparr>))))"

definition list_models ::
  "codex_env \<Rightarrow> 't transport \<Rightarrow> string option \<Rightarrow> u32 \<Rightarrow> 't server \<Rightarrow> ('t, ModelCatalogPage) server_step" where
  "list_models E T cursor limit sv =
     sv_then (sv_try (require_initialized sv) sv) (\<lambda>_ sv.
     sv_then (sv_try (ensure (limit \<noteq> 0) As_ProtocolDrift) sv) (\<lambda>_ sv.
     sv_then (sv_use (\<lambda>t. tp_request T t ''model/list'' (VObject
         [(''cursor'', case cursor of None \<Rightarrow> VNull | Some c \<Rightarrow> VString c),
          (''limit'', VNumber (PosInt (ucast limit))), (''includeHidden'', VBool False)])) sv) (\<lambda>answer sv.
     sv_then (sv_try (ok_or (cv_models E answer) As_ProtocolDrift) sv) (\<lambda>(models, next) sv.
     sv_then (sv_try (ensure (list_all model_wire_ok models) As_ProtocolDrift) sv) (\<lambda>_ sv.
     sv_then (sv_try (ensure (\<not> opt_blank next) As_ProtocolDrift) sv) (\<lambda>_ sv.
     (Ok \<lparr>mp_models = models, mp_next_cursor = next\<rparr>, sv)))))))"

definition start_thread ::
  "codex_env \<Rightarrow> 't transport \<Rightarrow> ThreadStartRequest \<Rightarrow> 't server \<Rightarrow> ('t, ThreadHandle) server_step" where
  "start_thread E T r sv =
     sv_then (sv_try (checks [require_initialized sv, require_text (ts_model r), require_absolute E (ts_cwd r)]) sv) (\<lambda>_ sv.
     sv_then (sv_use (\<lambda>t. tp_request T t ''thread/start'' (VObject
         [(''model'', VString (ts_model r)), (''cwd'', VString (ts_cwd r)),
          (''approvalPolicy'', approval_policy_json (ts_approval_policy r)),
          (''sandbox'', thread_sandbox_json (ts_sandbox r))])) sv) (\<lambda>answer sv.
     sv_try (parse_thread_handle E answer) sv))"

definition resume_thread :: "codex_env \<Rightarrow> 't transport \<Rightarrow> string \<Rightarrow> 't server \<Rightarrow> ('t, ThreadHandle) server_step" where
  "resume_thread E T thread sv =
     sv_then (sv_try (checks [require_initialized sv, require_text thread]) sv) (\<lambda>_ sv.
     sv_then (sv_use (\<lambda>t. tp_request T t ''thread/resume'' (VObject [(''threadId'', VString thread)])) sv) (\<lambda>answer sv.
     sv_try (parse_thread_handle E answer) sv))"

definition turn_params :: "TurnStartRequest \<Rightarrow> Value" where
  "turn_params r = VObject
     ([(''threadId'', VString (us_thread_id r)),
       (''input'', VArray [VObject [(''type'', VString ''text''), (''text'', VString (us_prompt r))]]),
       (''cwd'', VString (us_cwd r)), (''approvalPolicy'', approval_policy_json (us_approval_policy r)),
       (''sandboxPolicy'', turn_sandbox_json (us_sandbox_policy r))] @
      (case us_model r of None \<Rightarrow> [] | Some m \<Rightarrow> [(''model'', VString m)]) @
      (case us_effort r of None \<Rightarrow> [] | Some e \<Rightarrow> [(''effort'', VString e)]))"

definition start_turn ::
  "codex_env \<Rightarrow> 't transport \<Rightarrow> TurnStartRequest \<Rightarrow> 't server \<Rightarrow> ('t, TurnHandle) server_step" where
  "start_turn E T r sv =
     sv_then (sv_try (checks [require_initialized sv, require_text (us_thread_id r), require_text (us_prompt r),
       require_absolute E (us_cwd r), validate_sandbox_policy E (us_sandbox_policy r),
       ensure (\<not> (opt_blank (us_model r) \<or> opt_blank (us_effort r))) As_ProtocolDrift]) sv) (\<lambda>_ sv.
     sv_then (sv_use (\<lambda>t. tp_request T t ''turn/start'' (turn_params r)) sv) (\<lambda>answer sv.
     sv_then (sv_try (ok_or (cv_turn E answer) As_ProtocolDrift) sv) (\<lambda>turn sv.
     sv_then (sv_try (require_text turn) sv) (\<lambda>_ sv.
     (Ok \<lparr>tu_turn_id = turn\<rparr>, sv)))))"

text \<open>Only an empty object acknowledges an interrupt.\<close>

definition interrupt_turn ::
  "'t transport \<Rightarrow> string \<Rightarrow> string \<Rightarrow> nat option \<Rightarrow> 't server \<Rightarrow> ('t, unit) server_step" where
  "interrupt_turn T thread turn max_wait sv =
     (let params = VObject [(''threadId'', VString thread), (''turnId'', VString turn)] in
     sv_then (sv_try (checks [require_initialized sv, require_text thread, require_text turn]) sv) (\<lambda>_ sv.
     sv_then (sv_use (\<lambda>t. case max_wait of
         Some wait \<Rightarrow> tp_request_with_timeout T t ''turn/interrupt'' params wait
       | None \<Rightarrow> tp_request T t ''turn/interrupt'' params) sv) (\<lambda>answer sv.
     sv_try (ensure (as_object answer = Some []) As_ProtocolDrift) sv)))"

definition next_notification :: "'t transport \<Rightarrow> 't server \<Rightarrow> ('t, AppServerNotification) server_step" where
  "next_notification T sv = sv_then (sv_try (require_initialized sv) sv) (\<lambda>_ sv. sv_use (tp_next_notification T) sv)"

definition poll_notification ::
  "'t transport \<Rightarrow> nat \<Rightarrow> 't server \<Rightarrow> ('t, AppServerNotification option) server_step" where
  "poll_notification T max_wait sv =
     sv_then (sv_try (require_initialized sv) sv) (\<lambda>_ sv. sv_use (\<lambda>t. tp_poll_notification T t max_wait) sv)"

section \<open>Updates of a run\<close>

text \<open>What a run keeps while it is observed: the stream and the final text.\<close>

record run_view =
  rv_stream :: CodexRunStream
  rv_final :: "CodexFinalOutput option"

text \<open>One notification: the final text, then the lifecycle, then the evidence; \<open>None\<close> goes on waiting.\<close>

definition observe_notification ::
  "json_codec \<Rightarrow> CodexRunEvidence \<Rightarrow> string \<Rightarrow> AppServerNotification \<Rightarrow> run_view \<Rightarrow>
   (AppServerError, CodexRunUpdate option) result \<times> run_view" where
  "observe_notification J c at note v =
     (case (case rv_final v of None \<Rightarrow> (Ok (), None)
            | Some o' \<Rightarrow> (case final_output_ingest note o' of (r, o'') \<Rightarrow> (r, Some o''))) of
        (Inl e, final) \<Rightarrow> (Err e, v\<lparr>rv_final := final\<rparr>)
      | (Inr _, final) \<Rightarrow>
          (case codex_ingest J note at (rv_stream v) of
             (Inl e, s) \<Rightarrow> (Err As_ProtocolDrift, v\<lparr>rv_stream := s, rv_final := final\<rparr>)
           | (Inr (Some event), s) \<Rightarrow> (Ok (Some (Up_Lifecycle event)), v\<lparr>rv_stream := s, rv_final := final\<rparr>)
           | (Inr None, s) \<Rightarrow>
               (case evidence_ingest J c note of
                  Inl e \<Rightarrow> (Err As_ProtocolDrift, v\<lparr>rv_stream := s, rv_final := final\<rparr>)
                | Inr None \<Rightarrow> (Ok None, v\<lparr>rv_stream := s, rv_final := final\<rparr>)
                | Inr (Some u) \<Rightarrow> (Ok (Some (Up_Evidence u)), v\<lparr>rv_stream := s, rv_final := final\<rparr>))))"

text \<open>A time-out or a lost transport ends the run.\<close>

definition transport_failure ::
  "json_codec \<Rightarrow> string \<Rightarrow> AppServerError \<Rightarrow> run_view \<Rightarrow> (AppServerError, CodexRunUpdate) result \<times> run_view" where
  "transport_failure J at e v =
     (if e = As_Transport Tr_TimedOut then
        (case codex_deadline_exceeded J at (rv_stream v) of
           (r, s) \<Rightarrow> (map_err (\<lambda>_. As_ProtocolDrift) (and_then r (\<lambda>x. Ok (Up_Lifecycle x))), v\<lparr>rv_stream := s\<rparr>))
      else if e = As_Transport Tr_Unavailable then
        (case codex_transport_lost J at (rv_stream v) of
           (r, s) \<Rightarrow> (map_err (\<lambda>_. As_ProtocolDrift) (and_then r (\<lambda>x. Ok (Up_Lifecycle x))), v\<lparr>rv_stream := s\<rparr>))
      else (Err e, v))"

partial_function (option) next_run_event ::
  "json_codec \<Rightarrow> 't transport \<Rightarrow> string \<Rightarrow> CodexRunStream \<Rightarrow> 't server \<Rightarrow>
   ((AppServerError, NormalizedCodexEvent) result \<times> CodexRunStream \<times> 't server) option" where
  "next_run_event J T at s sv =
     (case next_notification T sv of
        (Inl e, sv) \<Rightarrow> Some (Err e, s, sv)
      | (Inr note, sv) \<Rightarrow>
          (case codex_ingest J note at s of
             (Inl e, s) \<Rightarrow> Some (Err As_ProtocolDrift, s, sv)
           | (Inr (Some event), s) \<Rightarrow> Some (Ok event, s, sv)
           | (Inr None, s) \<Rightarrow> next_run_event J T at s sv))"

partial_function (option) next_run_update ::
  "json_codec \<Rightarrow> 't transport \<Rightarrow> CodexRunEvidence \<Rightarrow> string \<Rightarrow> run_view \<Rightarrow> 't server \<Rightarrow>
   ((AppServerError, CodexRunUpdate) result \<times> run_view \<times> 't server) option" where
  "next_run_update J T c at v sv =
     (case next_notification T sv of
        (Inl e, sv) \<Rightarrow> (case transport_failure J at e v of (r, v) \<Rightarrow> Some (r, v, sv))
      | (Inr note, sv) \<Rightarrow>
          (case observe_notification J c at note v of
             (Inl e, v) \<Rightarrow> Some (Err e, v, sv)
           | (Inr (Some u), v) \<Rightarrow> Some (Ok u, v, sv)
           | (Inr None, v) \<Rightarrow> next_run_update J T c at v sv))"

text \<open>
  The bounded observation. \<open>now\<close> gives the reading of the clock at each look at it, in the unit of
  the waits; a deadline beyond \<open>horizon\<close> cannot be represented and is no deadline at all.
\<close>

definition deadline_of :: "nat \<Rightarrow> nat \<Rightarrow> nat \<Rightarrow> nat option" where
  "deadline_of horizon now max_wait = (if now + max_wait \<le> horizon then Some (now + max_wait) else None)"

definition wait_left :: "nat \<Rightarrow> nat option \<Rightarrow> nat \<Rightarrow> nat" where
  "wait_left longest deadline now = (case deadline of Some d \<Rightarrow> d - now | None \<Rightarrow> longest)"

partial_function (option) poll_loop ::
  "json_codec \<Rightarrow> 't transport \<Rightarrow> CodexRunEvidence \<Rightarrow> string \<Rightarrow> (nat \<Rightarrow> nat) \<Rightarrow> nat \<Rightarrow> nat option \<Rightarrow> nat \<Rightarrow>
   run_view \<Rightarrow> 't server \<Rightarrow> ((AppServerError, CodexRunUpdate option) result \<times> run_view \<times> 't server) option" where
  "poll_loop J T c at now longest deadline k v sv =
     (let remaining = wait_left longest deadline (now k) in
      if remaining = 0 \<and> k \<noteq> 1 then Some (Ok None, v, sv)
      else case poll_notification T remaining sv of
        (Inl e, sv) \<Rightarrow> (case transport_failure J at e v of (r, v) \<Rightarrow> Some (and_then r (\<lambda>u. Ok (Some u)), v, sv))
      | (Inr None, sv) \<Rightarrow> Some (Ok None, v, sv)
      | (Inr (Some note), sv) \<Rightarrow>
          (case observe_notification J c at note v of
             (Inl e, v) \<Rightarrow> Some (Err e, v, sv)
           | (Inr (Some u), v) \<Rightarrow> Some (Ok (Some u), v, sv)
           | (Inr None, v) \<Rightarrow> poll_loop J T c at now longest deadline (Suc k) v sv))"

definition poll_run_update ::
  "json_codec \<Rightarrow> 't transport \<Rightarrow> CodexRunEvidence \<Rightarrow> string \<Rightarrow> (nat \<Rightarrow> nat) \<Rightarrow> nat \<Rightarrow> nat \<Rightarrow> nat \<Rightarrow>
   run_view \<Rightarrow> 't server \<Rightarrow> ((AppServerError, CodexRunUpdate option) result \<times> run_view \<times> 't server) option" where
  "poll_run_update J T c at now horizon longest max_wait v sv =
     poll_loop J T c at now longest (deadline_of horizon (now 0) max_wait) 1 v sv"

end
