(* ===== verification/Codex_Stdio.thy ===== *)
theory Codex_Stdio
  imports Codex_Server Process_Queue Process_Input
begin

text \<open>
  The transport over the pipes of the app server (\<open>bastet-adapter-codex/src/stdio.rs\<close>): requests
  with identifiers, replies matched to them, replies of abandoned requests dropped,
  notifications kept in a bounded queue meanwhile, and deadlines.

  The world is what the calls of the operating system and of other threads answer, one reading after the other:
  the clock, the cancellation token, the failure flag and the messages of the output queue, the
  writes of frames and the shut-down of the child.
\<close>

section \<open>State\<close>

datatype recv_outcome = Received "(TransportError, Value) result" | Recv_Timeout | Recv_Disconnected
datatype write_outcome = Written | Write_Interrupted | Write_TimedOut | Write_Failed

record stdio =
  so_output_failed :: bool
  so_stdin_open :: bool
  so_reader_open :: bool
  so_pending :: "(AppServerNotification \<times> nat) list"
  so_pending_bytes :: nat
  so_next_request_id :: u64
  so_timeout :: nat
  so_notification_deadline :: "nat option"
  so_abandoned :: "u64 list"
  so_codec :: json_codec
  so_horizon :: nat                  \<comment> \<open>the last instant the clock can represent\<close>
  so_now :: "nat \<Rightarrow> nat"
  so_cancelled :: "nat \<Rightarrow> bool"
  so_failed :: "nat \<Rightarrow> bool"
  so_recv :: "nat \<Rightarrow> recv_outcome"
  so_write :: "nat \<Rightarrow> write_outcome"
  so_shutdown :: "nat \<Rightarrow> bool"

type_synonym 'a stdio_step = "(TransportError, 'a) result \<times> stdio"

fun so_then :: "'a stdio_step \<Rightarrow> ('a \<Rightarrow> stdio \<Rightarrow> 'b stdio_step) \<Rightarrow> 'b stdio_step" where
  "so_then (Inl e, s) f = (Inl e, s)"
| "so_then (Inr a, s) f = f a s"

definition read_clock :: "stdio \<Rightarrow> nat \<times> stdio" where
  "read_clock s = (so_now s 0, s\<lparr>so_now := so_now s \<circ> Suc\<rparr>)"

definition read_cancelled :: "stdio \<Rightarrow> bool \<times> stdio" where
  "read_cancelled s = (so_cancelled s 0, s\<lparr>so_cancelled := so_cancelled s \<circ> Suc\<rparr>)"

definition read_failed :: "stdio \<Rightarrow> bool \<times> stdio" where
  "read_failed s = (so_failed s 0, s\<lparr>so_failed := so_failed s \<circ> Suc\<rparr>)"

definition read_message :: "stdio \<Rightarrow> recv_outcome \<times> stdio" where
  "read_message s = (so_recv s 0, s\<lparr>so_recv := so_recv s \<circ> Suc\<rparr>)"

definition deadline_after :: "nat \<Rightarrow> stdio \<Rightarrow> nat stdio_step" where
  "deadline_after d s = (case read_clock s of (now, s) \<Rightarrow>
     (if now + d \<le> so_horizon s then Ok (now + d) else Err Tr_ProtocolDrift, s))"

text \<open>
  Starting the app server: \<open>started\<close> says whether the launcher, the child and its two pipes could be
  had. The transport begins with empty queues.
\<close>

definition stdio_spawn :: "nat \<Rightarrow> bool \<Rightarrow> stdio \<Rightarrow> unit stdio_step" where
  "stdio_spawn timeout started s =
     (if timeout = 0 then (Err Tr_ProtocolDrift, s)
      else so_then (deadline_after timeout s) (\<lambda>_ s.
        case read_cancelled s of (cancelled, s) \<Rightarrow>
          if cancelled then (Err Tr_Cancelled, s)
          else if \<not> started then (Err Tr_Unavailable, s)
          else (Ok (), s\<lparr>so_output_failed := False, so_stdin_open := True, so_reader_open := True, so_pending := [],
            so_pending_bytes := 0, so_next_request_id := 0, so_timeout := timeout, so_notification_deadline := None,
            so_abandoned := []\<rparr>)))"

section \<open>Closing\<close>

definition close_child :: "stdio \<Rightarrow> bool \<times> stdio" where
  "close_child s = (so_shutdown s 0,
     s\<lparr>so_stdin_open := False, so_reader_open := False, so_shutdown := so_shutdown s \<circ> Suc\<rparr>)"

text \<open>Closing that could not be confirmed overrides the error that led to it.\<close>

definition close_then_fail :: "TransportError \<Rightarrow> stdio \<Rightarrow> 'a stdio_step" where
  "close_then_fail e s = (case close_child s of (confirmed, s) \<Rightarrow> (Err (if confirmed then e else Tr_Unavailable), s))"

definition check_cancelled :: "stdio \<Rightarrow> unit stdio_step" where
  "check_cancelled s =
     (case (if so_output_failed s then (True, s) else read_failed s) of (bad, s) \<Rightarrow>
        if bad then close_then_fail Tr_Unavailable s
        else case read_cancelled s of (cancelled, s) \<Rightarrow>
          if cancelled then close_then_fail Tr_Cancelled s else (Ok (), s))"

section \<open>Messages\<close>


text \<open>\<open>encode_json_line\<close>: the text and a line feed, within the limit.\<close>

definition encode_json_line :: "json_codec \<Rightarrow> Value \<Rightarrow> string option" where
  "encode_json_line J v = (if length (json_text J v) + 1 \<le> MAX_INPUT_FRAME_BYTES
     then Some (json_text J v @ [CHR 0x0A]) else None)"

definition write_message :: "Value \<Rightarrow> nat \<Rightarrow> stdio \<Rightarrow> unit stdio_step" where
  "write_message message deadline s =
     so_then (check_cancelled s) (\<lambda>_ s.
       if encode_json_line (so_codec s) message = None then (Err Tr_ProtocolDrift, s)
       else if \<not> so_stdin_open s then (Err Tr_Unavailable, s)
       else let outcome = so_write s 0; s = s\<lparr>so_write := so_write s \<circ> Suc\<rparr> in
         if outcome = Written then (Ok (), s)
         else case close_child s of (confirmed, s) \<Rightarrow>
           if \<not> confirmed then (Err Tr_Unavailable, s)
           else if outcome = Write_Interrupted then
             (case read_cancelled s of (cancelled, s) \<Rightarrow> (Err (if cancelled then Tr_Cancelled else Tr_Unavailable), s))
           else (Err (if outcome = Write_TimedOut then Tr_TimedOut else Tr_Unavailable), s))"

definition decode_notification :: "Value \<Rightarrow> (TransportError, AppServerNotification) result" where
  "decode_notification m =
     (if value_get ''id'' m \<noteq> None then Err Tr_ProtocolDrift
      else and_then (ok_or (get_text ''method'' m) Tr_ProtocolDrift) (\<lambda>method.
           and_then (ok_or (value_get ''params'' m) Tr_ProtocolDrift) (\<lambda>params.
           Ok \<lparr>nt_method = method, nt_params = params\<rparr>)))"

datatype ResponseDisposition = Rd_Notification AppServerNotification | Rd_Result Value

definition decode_rejection :: "Value \<Rightarrow> TransportError" where
  "decode_rejection error =
     (case Option.bind (value_get ''code'' error) as_i64 of
        None \<Rightarrow> Tr_ProtocolDrift
      | Some code \<Rightarrow>
          if get_str ''message'' error \<in> {None, Some []} then Tr_ProtocolDrift
          else Tr_RemoteRejected code (code = -32001))"

definition decode_response :: "Value \<Rightarrow> u64 \<Rightarrow> (TransportError, ResponseDisposition) result" where
  "decode_response m expected =
     (case value_get ''id'' m of
        None \<Rightarrow> and_then (decode_notification m) (\<lambda>n. Ok (Rd_Notification n))
      | Some i \<Rightarrow>
          if as_u64 i \<noteq> Some expected then Err Tr_ProtocolDrift
          else case value_get ''error'' m of
            Some error \<Rightarrow> Err (decode_rejection error)
          | None \<Rightarrow> and_then (ok_or (value_get ''result'' m) Tr_ProtocolDrift) (\<lambda>v. Ok (Rd_Result v)))"

definition route_request_message :: "Value \<Rightarrow> u64 \<Rightarrow> stdio \<Rightarrow> Value option stdio_step" where
  "route_request_message m expected s =
     (case encode_json_line (so_codec s) m of
        None \<Rightarrow> (Err Tr_ProtocolDrift, s)
      | Some frame \<Rightarrow>
          (case decode_response m expected of
             Inl e \<Rightarrow> (Err e, s)
           | Inr (Rd_Result v) \<Rightarrow> (Ok (Some v), s)
           | Inr (Rd_Notification n) \<Rightarrow>
               if OUTPUT_QUEUE_ITEMS \<le> length (so_pending s) \<or>
                  OUTPUT_QUEUE_BYTES - so_pending_bytes s < length frame
               then (Err Tr_ProtocolDrift, s)
               else (Ok None, s\<lparr>so_pending := so_pending s @ [(n, length frame)],
                 so_pending_bytes := so_pending_bytes s + length frame\<rparr>)))"

definition pop_pending :: "stdio \<Rightarrow> AppServerNotification option \<times> stdio" where
  "pop_pending s = (case so_pending s of
     [] \<Rightarrow> (None, s)
   | (n, bytes) # rest \<Rightarrow> (Some n, s\<lparr>so_pending := rest, so_pending_bytes := so_pending_bytes s - bytes\<rparr>))"

section \<open>Abandoned requests\<close>

definition MAX_ABANDONED_REQUESTS :: nat where "MAX_ABANDONED_REQUESTS = 64"

definition remember_abandoned :: "u64 \<Rightarrow> stdio \<Rightarrow> stdio" where
  "remember_abandoned i s = s\<lparr>so_abandoned :=
     (if length (so_abandoned s) = MAX_ABANDONED_REQUESTS then tl (so_abandoned s) else so_abandoned s) @ [i]\<rparr>"

definition discard_abandoned :: "Value \<Rightarrow> stdio \<Rightarrow> bool \<times> stdio" where
  "discard_abandoned m s =
     (case Option.bind (value_get ''id'' m) as_u64 of
        None \<Rightarrow> (False, s)
      | Some i \<Rightarrow> if i \<in> set (so_abandoned s) then (True, s\<lparr>so_abandoned := remove1 i (so_abandoned s)\<rparr>) else (False, s))"

section \<open>Waiting for a message\<close>

definition note_activity :: "stdio \<Rightarrow> unit stdio_step" where
  "note_activity s = so_then (deadline_after (so_timeout s) s) (\<lambda>d s. (Ok (), s\<lparr>so_notification_deadline := Some d\<rparr>))"

partial_function (option) receive_message :: "nat \<Rightarrow> stdio \<Rightarrow> Value stdio_step option" where
  "receive_message deadline s =
     (case check_cancelled s of
        (Inl e, s) \<Rightarrow> Some (Err e, s)
      | (Inr _, s) \<Rightarrow>
          (case read_clock s of (now, s) \<Rightarrow>
             if deadline < now then Some (Err Tr_TimedOut, s)
             else (case read_message s of
                 (Received (Inl e), s) \<Rightarrow> Some (Err e, s)
               | (Received (Inr m), s) \<Rightarrow> Some (so_then (note_activity s) (\<lambda>_ s. (Ok m, s)))
               | (Recv_Disconnected, s) \<Rightarrow> Some (so_then (check_cancelled s) (\<lambda>_ s. (Err Tr_Unavailable, s)))
               | (Recv_Timeout, s) \<Rightarrow> receive_message deadline s)))"

section \<open>Requests\<close>

text \<open>A reply that is refused closes the transport for good.\<close>

definition route_or_close :: "Value \<Rightarrow> u64 \<Rightarrow> stdio \<Rightarrow> Value option stdio_step" where
  "route_or_close m i s =
     (case route_request_message m i s of
        (Inr r, s) \<Rightarrow> (Ok r, s)
      | (Inl e, s) \<Rightarrow> close_then_fail e (s\<lparr>so_output_failed := True\<rparr>))"

partial_function (option) request_loop :: "u64 \<Rightarrow> nat \<Rightarrow> bool \<Rightarrow> stdio \<Rightarrow> Value stdio_step option" where
  "request_loop i deadline abandon s =
     (case receive_message deadline s of
        None \<Rightarrow> None
      | Some (Inl e, s) \<Rightarrow> Some (Err e, if e = Tr_TimedOut \<and> abandon then remember_abandoned i s else s)
      | Some (Inr m, s) \<Rightarrow>
          (case discard_abandoned m s of (discarded, s) \<Rightarrow>
             if discarded then request_loop i deadline abandon s
             else (case route_or_close m i s of
                 (Inl e, s) \<Rightarrow> Some (Err e, s)
               | (Inr (Some v), s) \<Rightarrow> Some (Ok v, s)
               | (Inr None, s) \<Rightarrow> request_loop i deadline abandon s)))"

definition request_message :: "string \<Rightarrow> u64 \<Rightarrow> Value \<Rightarrow> Value" where
  "request_message m i params = VObject [(''method'', VString m), (''id'', VNumber (PosInt i)), (''params'', params)]"

definition send_request :: "string \<Rightarrow> Value \<Rightarrow> nat \<Rightarrow> stdio \<Rightarrow> (u64 \<times> nat) stdio_step" where
  "send_request m params max_wait s =
     so_then (deadline_after max_wait s) (\<lambda>deadline s.
       let i = so_next_request_id s in
       case checked_add i 1 of
         None \<Rightarrow> (Err Tr_ProtocolDrift, s)
       | Some next \<Rightarrow>
           so_then (write_message (request_message m i params) deadline (s\<lparr>so_next_request_id := next\<rparr>))
             (\<lambda>_ s. (Ok (i, deadline), s)))"

definition request_inner :: "string \<Rightarrow> Value \<Rightarrow> nat \<Rightarrow> bool \<Rightarrow> stdio \<Rightarrow> Value stdio_step option" where
  "request_inner m params max_wait abandon s =
     (case send_request m params max_wait s of
        (Inl e, s) \<Rightarrow> Some (Err e, s)
      | (Inr (i, deadline), s) \<Rightarrow> request_loop i deadline abandon s)"

definition stdio_request :: "string \<Rightarrow> Value \<Rightarrow> stdio \<Rightarrow> Value stdio_step option" where
  "stdio_request m params s = request_inner m params (so_timeout s) False s"

definition stdio_request_with_timeout :: "string \<Rightarrow> Value \<Rightarrow> nat \<Rightarrow> stdio \<Rightarrow> Value stdio_step option" where
  "stdio_request_with_timeout m params max_wait s = request_inner m params max_wait True s"

definition stdio_notify :: "string \<Rightarrow> Value \<Rightarrow> stdio \<Rightarrow> unit stdio_step" where
  "stdio_notify m params s =
     so_then (deadline_after (so_timeout s) s) (\<lambda>deadline s.
       write_message (VObject [(''method'', VString m), (''params'', params)]) deadline s)"

section \<open>Notifications\<close>

text \<open>What a message read while only notifications are awaited becomes.\<close>

definition accept_notification :: "Value \<Rightarrow> stdio \<Rightarrow> AppServerNotification option stdio_step" where
  "accept_notification m s =
     so_then (note_activity s) (\<lambda>_ s. (and_then (decode_notification m) (\<lambda>n. Ok (Some n)), s))"

text \<open>After a wait without news: \<open>Some\<close> ends the observation, \<open>None\<close> goes on.\<close>

definition after_timeout :: "nat \<Rightarrow> nat \<Rightarrow> stdio \<Rightarrow> AppServerNotification option stdio_step option \<times> stdio" where
  "after_timeout inactivity observation s =
     (case read_clock s of (now, s) \<Rightarrow>
        if inactivity \<le> now then (Some (Err Tr_TimedOut, s), s)
        else case read_clock s of (now, s) \<Rightarrow>
          if observation \<le> now then (Some (Ok None, s), s) else (None, s))"

text \<open>A reply that was dropped: one reading of the clock for both deadlines.\<close>

definition after_discard :: "nat \<Rightarrow> nat \<Rightarrow> stdio \<Rightarrow> AppServerNotification option stdio_step option \<times> stdio" where
  "after_discard inactivity observation s =
     (case read_clock s of (now, s) \<Rightarrow>
        if inactivity \<le> now then (Some (Err Tr_TimedOut, s), s)
        else if observation \<le> now then (Some (Ok None, s), s) else (None, s))"

partial_function (option) notification_loop ::
  "nat \<Rightarrow> nat \<Rightarrow> stdio \<Rightarrow> AppServerNotification option stdio_step option" where
  "notification_loop inactivity observation s =
     (case check_cancelled s of
        (Inl e, s) \<Rightarrow> Some (Err e, s)
      | (Inr _, s) \<Rightarrow>
          (case read_clock s of (_, s) \<Rightarrow>
           case read_message s of
             (Received (Inl e), s) \<Rightarrow> Some (Err e, s)
           | (Received (Inr m), s) \<Rightarrow>
               (case discard_abandoned m s of (discarded, s) \<Rightarrow>
                  if \<not> discarded then Some (accept_notification m s)
                  else (case after_discard inactivity observation s of
                      (Some r, _) \<Rightarrow> Some r | (None, s) \<Rightarrow> notification_loop inactivity observation s))
           | (Recv_Disconnected, s) \<Rightarrow> Some (so_then (check_cancelled s) (\<lambda>_ s. (Err Tr_Unavailable, s)))
           | (Recv_Timeout, s) \<Rightarrow>
               (case after_timeout inactivity observation s of
                  (Some r, _) \<Rightarrow> Some r | (None, s) \<Rightarrow> notification_loop inactivity observation s)))"

definition inactivity_deadline :: "stdio \<Rightarrow> nat stdio_step" where
  "inactivity_deadline s = (case so_notification_deadline s of
     Some d \<Rightarrow> (Ok d, s)
   | None \<Rightarrow> so_then (deadline_after (so_timeout s) s) (\<lambda>d s. (Ok d, s\<lparr>so_notification_deadline := Some d\<rparr>)))"

definition stdio_poll_notification :: "nat \<Rightarrow> stdio \<Rightarrow> AppServerNotification option stdio_step option" where
  "stdio_poll_notification max_wait s =
     (case so_then (deadline_after max_wait s) (\<lambda>d s. so_then (check_cancelled s) (\<lambda>_ s. (Ok d, s))) of
        (Inl e, s) \<Rightarrow> Some (Err e, s)
      | (Inr observation, s) \<Rightarrow>
          (case pop_pending s of
             (Some n, s) \<Rightarrow> Some (so_then (note_activity s) (\<lambda>_ s. (Ok (Some n), s)))
           | (None, s) \<Rightarrow>
               (case read_clock s of (now, s) \<Rightarrow>
                  (case inactivity_deadline s of
                     (Inl e, s) \<Rightarrow> Some (Err e, s)
                   | (Inr inactivity, s) \<Rightarrow>
                       if inactivity \<le> now then Some (Err Tr_TimedOut, s)
                       else notification_loop inactivity observation s))))"

definition stdio_next_notification :: "stdio \<Rightarrow> AppServerNotification stdio_step option" where
  "stdio_next_notification s =
     map_option (\<lambda>(r, s). (and_then r (\<lambda>n. ok_or n Tr_TimedOut), s)) (stdio_poll_notification (so_timeout s) s)"

end
