(* ===== verification/Agy_Process.thy ===== *)
theory Agy_Process
  imports Agy_Events Adapter_Tools Workspace Codex_Stdio Store_Tables
begin

text \<open>
  One owned run of the Agy command line tool (\<open>bastet-adapter-agy/src/process.rs\<close>): the checks and
  the order of a start, the observation of its output under two deadlines, cancellation, and the
  receipt of a changed workspace before the terminal state.

  As for the Codex transport the world is what the calls of the operating system and of the other threads
  answer, one reading after the other. Instants and durations are in nanoseconds.
\<close>

section \<open>Requests\<close>

record AgyRunRequest =
  aq_run_id :: RunId
  aq_model :: string
  aq_effort :: "string option"
  aq_prompt :: string
  aq_cwd :: string
  aq_read_only :: bool
  aq_timeout :: nat
  aq_conversation_id :: "string option"

datatype AgyProcessError =
  Ap_InvalidRequest | Ap_Unavailable | Ap_TimedOut | Ap_Cancelled | Ap_CleanupUncertain
| Ap_Stream AgyStreamError | Ap_Workspace WorkspaceEvidenceError

datatype io_kind = Io_InvalidInput | Io_TimedOut | Io_Interrupted | Io_Other

definition as_secs :: "nat \<Rightarrow> nat" where "as_secs d = d div 1000000000"

text \<open>\<open>executable\<close> and \<open>dir\<close> are the tests \<open>is_file\<close> and \<open>is_dir\<close>; \<open>now\<close> and \<open>horizon\<close> the clock.\<close>

definition validate_request ::
  "bool \<Rightarrow> (string \<Rightarrow> bool) \<Rightarrow> (string \<Rightarrow> bool) \<Rightarrow> nat \<Rightarrow> nat \<Rightarrow> AgyRunRequest \<Rightarrow> (AgyProcessError, unit) result" where
  "validate_request executable absolute dir now horizon r =
     (if \<not> executable \<or> \<not> absolute (aq_cwd r) \<or> \<not> dir (aq_cwd r) \<or> blank (aq_prompt r) \<or> aq_timeout r = 0 \<or>
         horizon < now + aq_timeout r \<or> as_secs (aq_timeout r) = 0 \<or>
         (case aq_effort r of None \<Rightarrow> False | Some e \<Rightarrow> e \<noteq> ''low'' \<and> e \<noteq> ''medium'' \<and> e \<noteq> ''high'') \<or>
         blank (aq_model r) \<or> 128 < length (aq_model r) \<or> \<not> list_all model_id_char (aq_model r) \<or>
         (case aq_conversation_id r of None \<Rightarrow> False | Some i \<Rightarrow> blank i)
      then Err Ap_InvalidRequest else Ok ())"

fun map_input_error :: "io_kind \<Rightarrow> AgyProcessError" where
  "map_input_error Io_InvalidInput = Ap_InvalidRequest"
| "map_input_error Io_TimedOut = Ap_TimedOut"
| "map_input_error _ = Ap_Unavailable"

definition agy_input :: "AgyRunRequest \<Rightarrow> Value" where
  "agy_input r = VObject [(''event'', VString ''user''), (''message'', VObject [(''content'', VString (aq_prompt r))])]"

definition agy_arguments :: "AgyRunRequest \<Rightarrow> string list" where
  "agy_arguments r =
     [''--input-format'', ''stream-json'', ''--output-format'', ''stream-json'',
      ''--mode'', if aq_read_only r then ''plan'' else ''accept-edits'', ''--sandbox'', ''--add-dir'', aq_cwd r,
      ''--model'', aq_model r, ''--print-timeout'', decimal (as_secs (aq_timeout r)) @ ''s''] @
     (case aq_effort r of None \<Rightarrow> [] | Some e \<Rightarrow> [''--effort'', e]) @
     (case aq_conversation_id r of None \<Rightarrow> [] | Some i \<Rightarrow> [''--conversation'', i])"

section \<open>State\<close>

datatype agy_recv = Agy_Line string | Agy_Broken | Agy_Gone | Agy_Quiet

record agy_process =
  ap_stream :: AgyRunStream
  ap_timeout :: nat
  ap_inactivity_deadline :: nat
  ap_cancellation_requested :: bool
  ap_pending :: "AgyRunUpdate option"
  ap_pending_terminal :: "AgyRunUpdate option"
  ap_before :: "WorkspaceSnapshot option"
  ap_stdin_open :: bool
  ap_reader_open :: bool
  ap_horizon :: nat
  ap_now :: "nat \<Rightarrow> nat"
  ap_failed :: "nat \<Rightarrow> bool"
  ap_recv :: "nat \<Rightarrow> agy_recv"
  ap_shutdown :: "nat \<Rightarrow> bool"

type_synonym 'a process_step = "(AgyProcessError, 'a) result \<times> agy_process"
type_synonym workspace_view = "string \<Rightarrow> (WorkspaceEvidenceError, WorkspaceSnapshot) result"

fun ap_then :: "'a process_step \<Rightarrow> ('a \<Rightarrow> agy_process \<Rightarrow> 'b process_step) \<Rightarrow> 'b process_step" where
  "ap_then (Inl e, p) f = (Inl e, p)"
| "ap_then (Inr a, p) f = f a p"

definition agy_clock :: "agy_process \<Rightarrow> nat \<times> agy_process" where
  "agy_clock p = (ap_now p 0, p\<lparr>ap_now := ap_now p \<circ> Suc\<rparr>)"

definition agy_is_failed :: "agy_process \<Rightarrow> bool \<times> agy_process" where
  "agy_is_failed p = (ap_failed p 0, p\<lparr>ap_failed := ap_failed p \<circ> Suc\<rparr>)"

definition agy_receive :: "agy_process \<Rightarrow> agy_recv \<times> agy_process" where
  "agy_receive p = (ap_recv p 0, p\<lparr>ap_recv := ap_recv p \<circ> Suc\<rparr>)"

text \<open>\<open>terminate\<close> and \<open>reap\<close> differ in the grace given to the child only; its answer is a reading.\<close>

definition agy_terminate :: "agy_process \<Rightarrow> unit process_step" where
  "agy_terminate p =
     (if ap_shutdown p 0 then Ok () else Err Ap_CleanupUncertain,
      p\<lparr>ap_stdin_open := False, ap_reader_open := False, ap_shutdown := ap_shutdown p \<circ> Suc\<rparr>)"

definition agy_reap :: "agy_process \<Rightarrow> unit process_step" where
  "agy_reap = agy_terminate"

text \<open>A step of the stream inside the process.\<close>

definition on_stream :: "(AgyRunStream \<Rightarrow> 'a agy_step) \<Rightarrow> agy_process \<Rightarrow> 'a process_step" where
  "on_stream f p = (case f (ap_stream p) of (r, s) \<Rightarrow> (map_err Ap_Stream r, p\<lparr>ap_stream := s\<rparr>))"

section \<open>Terminal states\<close>

fun agy_terminal :: "AgyRunUpdate \<Rightarrow> bool" where
  "agy_terminal (Agy_Lifecycle e f) = settled_state (nae_state e)"
| "agy_terminal _ = False"

text \<open>The snapshot from before the run is taken out at the first attempt, whether it succeeds or not.\<close>

definition agy_order_terminal :: "json_codec \<Rightarrow> workspace_view \<Rightarrow> AgyRunUpdate \<Rightarrow> agy_process \<Rightarrow> AgyRunUpdate process_step" where
  "agy_order_terminal J capture u p =
     (case ap_before p of
        None \<Rightarrow> (Ok u, p)
      | Some before \<Rightarrow>
          (let p = p\<lparr>ap_before := None\<rparr> in
           case and_then (capture (ws_root before)) (write_receipt J before) of
             Inl e \<Rightarrow> (Err (Ap_Workspace e), p)
           | Inr None \<Rightarrow> (Ok u, p)
           | Inr (Some receipt) \<Rightarrow> (Ok (Agy_WriteReceipt receipt), p\<lparr>ap_pending_terminal := Some u\<rparr>)))"

fun ap_some :: "'a process_step \<Rightarrow> 'a option process_step" where
  "ap_some (r, p) = (and_then r (\<lambda>a. Ok (Some a)), p)"

text \<open>The ends of an observation: the inactivity deadline, a terminal line, the end of the output.\<close>

definition agy_inactive :: "json_codec \<Rightarrow> workspace_view \<Rightarrow> string \<Rightarrow> agy_process \<Rightarrow> AgyRunUpdate process_step" where
  "agy_inactive J capture at p =
     ap_then (agy_terminate p) (\<lambda>_ p. ap_then (on_stream (agy_timed_out J at) p) (agy_order_terminal J capture))"

definition agy_line_terminal :: "json_codec \<Rightarrow> workspace_view \<Rightarrow> AgyRunUpdate \<Rightarrow> agy_process \<Rightarrow> AgyRunUpdate process_step" where
  "agy_line_terminal J capture u p =
     ap_then (agy_reap (p\<lparr>ap_stdin_open := False\<rparr>)) (\<lambda>_ p. agy_order_terminal J capture u p)"

definition agy_output_ended :: "json_codec \<Rightarrow> workspace_view \<Rightarrow> string \<Rightarrow> agy_process \<Rightarrow> AgyRunUpdate process_step" where
  "agy_output_ended J capture at p =
     (case agy_is_failed p of (bad, p) \<Rightarrow>
        if bad then ap_then (agy_terminate p) (\<lambda>_ p. (Err Ap_Unavailable, p))
        else ap_then (agy_reap p) (\<lambda>_ p.
             ap_then (on_stream (if ap_cancellation_requested p then agy_cancelled J at else agy_crashed J at) p)
               (agy_order_terminal J capture)))"

text \<open>One line: it is activity, then what the stream makes of it.\<close>

definition agy_line :: "json_codec \<Rightarrow> string \<Rightarrow> string \<Rightarrow> agy_process \<Rightarrow> AgyRunUpdate option process_step" where
  "agy_line J line at p =
     (case agy_clock p of (now, p) \<Rightarrow>
        if ap_horizon p < now + ap_timeout p then ap_then (agy_terminate p) (\<lambda>_ p. (Err Ap_InvalidRequest, p))
        else on_stream (consume_line J line at) (p\<lparr>ap_inactivity_deadline := now + ap_timeout p\<rparr>))"

section \<open>Observation\<close>

partial_function (option) agy_poll_loop ::
  "json_codec \<Rightarrow> workspace_view \<Rightarrow> string \<Rightarrow> nat option \<Rightarrow> agy_process \<Rightarrow> AgyRunUpdate option process_step option" where
  "agy_poll_loop J capture at observation p =
     (case agy_clock p of (now, p) \<Rightarrow>
        if ap_inactivity_deadline p \<le> now then Some (ap_some (agy_inactive J capture at p))
        else if (case observation of None \<Rightarrow> False | Some d \<Rightarrow> d \<le> now) then Some (Ok None, p)
        else (case agy_receive p of
            (Agy_Line line, p) \<Rightarrow>
              (case agy_line J line at p of
                 (Inl e, p) \<Rightarrow> Some (Err e, p)
               | (Inr None, p) \<Rightarrow> agy_poll_loop J capture at observation p
               | (Inr (Some u), p) \<Rightarrow>
                   if agy_terminal u then Some (ap_some (agy_line_terminal J capture u p)) else Some (Ok (Some u), p))
          | (Agy_Quiet, p) \<Rightarrow> agy_poll_loop J capture at observation p
          | (_, p) \<Rightarrow> Some (ap_some (agy_output_ended J capture at p))))"

definition agy_poll_update ::
  "json_codec \<Rightarrow> workspace_view \<Rightarrow> string \<Rightarrow> nat \<Rightarrow> agy_process \<Rightarrow> AgyRunUpdate option process_step option" where
  "agy_poll_update J capture at max_wait p =
     (case agy_is_failed p of (bad, p) \<Rightarrow>
        if bad then Some (ap_then (agy_terminate p) (\<lambda>_ p. (Err Ap_Unavailable, p)))
        else case ap_pending p of
          Some u \<Rightarrow> Some (Ok (Some u), p\<lparr>ap_pending := None\<rparr>)
        | None \<Rightarrow>
            (case ap_pending_terminal p of
               Some u \<Rightarrow> Some (Ok (Some u), p\<lparr>ap_pending_terminal := None\<rparr>)
             | None \<Rightarrow>
                 (case agy_clock p of (now, p) \<Rightarrow>
                    agy_poll_loop J capture at (if now + max_wait \<le> ap_horizon p then Some (now + max_wait) else None) p)))"

partial_function (option) agy_next_update ::
  "json_codec \<Rightarrow> workspace_view \<Rightarrow> string \<Rightarrow> agy_process \<Rightarrow> AgyRunUpdate process_step option" where
  "agy_next_update J capture at p =
     (case agy_poll_update J capture at (ap_timeout p) p of
        None \<Rightarrow> None
      | Some (Inl e, p) \<Rightarrow> Some (Err e, p)
      | Some (Inr (Some u), p) \<Rightarrow> Some (Ok u, p)
      | Some (Inr None, p) \<Rightarrow> agy_next_update J capture at p)"

definition agy_request_cancellation :: "json_codec \<Rightarrow> string \<Rightarrow> agy_process \<Rightarrow> AgyRunUpdate process_step" where
  "agy_request_cancellation J at p =
     ap_then (on_stream (agy_cancellation_started J at) p) (\<lambda>u p.
     ap_then (agy_terminate (p\<lparr>ap_cancellation_requested := True\<rparr>)) (\<lambda>_ p. (Ok u, p)))"

definition agy_cancel_and_close :: "agy_process \<Rightarrow> unit process_step" where
  "agy_cancel_and_close p = agy_terminate (p\<lparr>ap_cancellation_requested := True\<rparr>)"

section \<open>Starting\<close>

text \<open>What the operating system answers while a run is started, and the world the process then lives in.\<close>

record agy_startup =
  su_executable :: bool
  su_absolute :: "string \<Rightarrow> bool"
  su_dir :: "string \<Rightarrow> bool"
  su_cwd_text :: bool                    \<comment> \<open>\<open>Path::to_str\<close>\<close>
  su_cancelled :: "nat \<Rightarrow> bool"          \<comment> \<open>the token at each look at it\<close>
  su_launcher :: bool
  su_child :: bool
  su_stdin :: bool
  su_writer :: "io_kind option"
  su_stdout :: bool
  su_reader :: bool
  su_write :: "io_kind option"
  su_capture :: workspace_view
  su_world :: agy_process

text \<open>A failure after the child exists closes it; a clean-up that cannot be confirmed overrides the error.\<close>

definition startup_failure :: "AgyProcessError \<Rightarrow> agy_startup \<Rightarrow> (AgyProcessError, agy_process) result" where
  "startup_failure e w = and_then (fst (agy_terminate (su_world w))) (\<lambda>_. Err e)"

text \<open>What goes wrong once the child exists, in the order of the code; each case is cleaned up alike.\<close>

definition agy_startup_error :: "agy_startup \<Rightarrow> AgyRunRequest \<Rightarrow> AgyProcessError option" where
  "agy_startup_error w r =
     (if \<not> su_stdin w then Some Ap_Unavailable
      else case su_writer w of
        Some k \<Rightarrow> Some (map_input_error k)
      | None \<Rightarrow>
          if \<not> su_stdout w \<or> \<not> su_reader w then Some Ap_Unavailable
          else if ap_horizon (su_world w) < ap_now (su_world w) 1 + aq_timeout r then Some Ap_InvalidRequest
          else case su_write w of
            Some k \<Rightarrow> Some (if k = Io_Interrupted \<and> su_cancelled w 2 then Ap_Cancelled else map_input_error k)
          | None \<Rightarrow> if su_cancelled w 2 then Some Ap_Cancelled else None)"

text \<open>The stream of a run, and the event of a resumption that is reported first.\<close>

definition agy_first :: "json_codec \<Rightarrow> AgyRunRequest \<Rightarrow> (AgyStreamError, AgyRunStream \<times> AgyRunUpdate option) result" where
  "agy_first J r =
     (case aq_conversation_id r of
        None \<Rightarrow> Ok (agy_new (aq_run_id r), None)
      | Some i \<Rightarrow> and_then (agy_resuming (aq_run_id r) i) (\<lambda>s.
          case agy_recovery_started J ''locally-observed'' s of
            (Inl e, s) \<Rightarrow> Err e
          | (Inr u, s) \<Rightarrow> Ok (s, Some u)))"

definition agy_started ::
  "agy_startup \<Rightarrow> AgyRunRequest \<Rightarrow> WorkspaceSnapshot option \<Rightarrow> AgyRunStream \<Rightarrow> AgyRunUpdate option \<Rightarrow> agy_process" where
  "agy_started w r before s pending = (su_world w)\<lparr>ap_stream := s, ap_timeout := aq_timeout r,
     ap_inactivity_deadline := ap_now (su_world w) 2 + aq_timeout r, ap_cancellation_requested := False,
     ap_pending := pending, ap_pending_terminal := None, ap_before := before, ap_stdin_open := True,
     ap_reader_open := True, ap_now := (\<lambda>k. ap_now (su_world w) (k + 3))\<rparr>"

definition agy_spawn :: "json_codec \<Rightarrow> agy_startup \<Rightarrow> AgyRunRequest \<Rightarrow> (AgyProcessError, agy_process) result" where
  "agy_spawn J w r =
     and_then (validate_request (su_executable w) (su_absolute w) (su_dir w) (ap_now (su_world w) 0)
       (ap_horizon (su_world w)) r) (\<lambda>_.
     if su_cancelled w 0 then Err Ap_Cancelled
     else if encode_json_line J (agy_input r) = None then Err Ap_InvalidRequest
     else and_then (if aq_read_only r then Ok None
         else map_err Ap_Workspace (and_then (su_capture w (aq_cwd r)) (\<lambda>s. Ok (Some s)))) (\<lambda>before.
     if \<not> su_cwd_text w then Err Ap_InvalidRequest
     else if \<not> su_launcher w then Err Ap_Unavailable
     else if su_cancelled w 1 then Err Ap_Cancelled
     else if \<not> su_child w then Err Ap_Unavailable
     else case agy_startup_error w r of
       Some e \<Rightarrow> startup_failure e w
     | None \<Rightarrow>
         (case agy_first J r of
            Inl e \<Rightarrow> startup_failure (Ap_Stream e) w
          | Inr (s, pending) \<Rightarrow>
              if ap_horizon (su_world w) < ap_now (su_world w) 2 + aq_timeout r then startup_failure Ap_InvalidRequest w
              else Ok (agy_started w r before s pending))))"

text \<open>A start that is refused before the child exists never runs the tool.\<close>

definition agy_child_started :: "json_codec \<Rightarrow> agy_startup \<Rightarrow> AgyRunRequest \<Rightarrow> bool" where
  "agy_child_started J w r \<longleftrightarrow>
     is_ok (validate_request (su_executable w) (su_absolute w) (su_dir w) (ap_now (su_world w) 0)
       (ap_horizon (su_world w)) r) \<and>
     \<not> su_cancelled w 0 \<and> encode_json_line J (agy_input r) \<noteq> None \<and>
     (aq_read_only r \<or> is_ok (su_capture w (aq_cwd r))) \<and> su_cwd_text w \<and> su_launcher w \<and> \<not> su_cancelled w 1 \<and> su_child w"

end
