(* ===== verification/Receipt_Order.thy ===== *)
theory Receipt_Order
  imports Bastet_Prelude
begin

text \<open>
  What the two adapters promise about a workspace that was changed: the receipt comes before the
  terminal state. The contract is stated for one call; here it is carried over any sequence of
  calls, once for both.
\<close>

text \<open>The updates that a sequence of calls hands out, in order; a call that does not return gives None.\<close>

fun reports :: "('c \<Rightarrow> 's \<Rightarrow> ('u option \<times> 's) option) \<Rightarrow> 'c list \<Rightarrow> 's \<Rightarrow> ('u list \<times> 's) option" where
  "reports do_call [] s = Some ([], s)"
| "reports do_call (c # cs) s = Option.bind (do_call c s) (\<lambda>(u, t).
     map_option (\<lambda>(us, r). (case u of None \<Rightarrow> us | Some w \<Rightarrow> w # us, r)) (reports do_call cs t))"

locale receipt_source =
  fixes do_call :: "'c \<Rightarrow> 's \<Rightarrow> ('u option \<times> 's) option"
    and good :: "'s \<Rightarrow> bool"
    and owed :: "'s \<Rightarrow> bool"
    and terminal :: "'u \<Rightarrow> bool"
    and receipt :: "'u \<Rightarrow> bool"
    and excused :: "'c \<Rightarrow> bool"
  assumes keeps_good: "do_call c s = Some (u, t) \<Longrightarrow> good s \<Longrightarrow> good t"
    and owed_after_receipt: "do_call c s = Some (u, t) \<Longrightarrow> good s \<Longrightarrow> owed t \<Longrightarrow> owed s \<or> (\<exists>w. u = Some w \<and> receipt w)"
    and terminal_owed: "do_call c s = Some (Some w, t) \<Longrightarrow> good s \<Longrightarrow> terminal w \<Longrightarrow> owed s \<or> excused c"
begin

lemma receipt_first:
  "reports do_call cs s = Some (us, t) \<Longrightarrow> good s \<Longrightarrow> \<not> owed s \<Longrightarrow> i < length us \<Longrightarrow> terminal (us ! i) \<Longrightarrow>
   (\<exists>j < i. receipt (us ! j)) \<or> (\<exists>c \<in> set cs. excused c)"
proof (induction cs arbitrary: s us i)
  case (Cons c cs)
  from Cons.prems(1) obtain u s1 vs where
    one: "do_call c s = Some (u, s1)" and rest: "reports do_call cs s1 = Some (vs, t)"
    and us: "us = (case u of None \<Rightarrow> vs | Some w \<Rightarrow> w # vs)"
    by (auto simp: bind_eq_Some_conv)
  note good1 = keeps_good[OF one Cons.prems(2)]
  note owed1 = owed_after_receipt[OF one Cons.prems(2)]
  show ?case
  proof (cases u)
    case None
    with owed1 Cons.prems(3) have "\<not> owed s1" by auto
    from Cons.IH[OF rest good1 this] Cons.prems(4,5) us None show ?thesis by auto
  next
    case (Some w)
    show ?thesis
    proof (cases i)
      case 0
      with terminal_owed[OF one[unfolded Some] Cons.prems(2)] Cons.prems(3,5) us Some show ?thesis by auto
    next
      case (Suc i')
      show ?thesis
      proof (cases "owed s1")
        case True
        with owed1 Cons.prems(3) Some have "receipt w" by auto
        with Suc us Some show ?thesis by auto
      next
        case False
        from Cons.IH[OF rest good1 False, of i'] Cons.prems(4,5) us Some Suc show ?thesis
          by (auto simp: less_Suc_eq_0_disj)
      qed
    qed
  qed
qed simp

end

end
