(* ===== verification/Agy_Receipts.thy ===== *)
theory Agy_Receipts
  imports Agy_Process Receipt_Order
begin

text \<open>
  Any use of an owned Agy run: the calls a caller makes, and why the receipt of a changed workspace
  is handed out before the terminal state.
\<close>

section \<open>Calls\<close>

datatype process_call =
    Pc_NextUpdate workspace_view string
  | Pc_PollUpdate workspace_view string nat
  | Pc_RequestCancellation string
  | Pc_CancelAndClose

fun process_view :: "process_call \<Rightarrow> workspace_view option" where
  "process_view (Pc_NextUpdate capture at) = Some capture"
| "process_view (Pc_PollUpdate capture at max_wait) = Some capture"
| "process_view _ = None"

fun run_update :: "(AgyProcessError, AgyRunUpdate) result \<Rightarrow> AgyRunUpdate option" where
  "run_update (Inl e) = None"
| "run_update (Inr u) = Some u"

fun run_polled :: "(AgyProcessError, AgyRunUpdate option) result \<Rightarrow> AgyRunUpdate option" where
  "run_polled (Inl e) = None"
| "run_polled (Inr u) = u"

fun process_do :: "json_codec \<Rightarrow> process_call \<Rightarrow> agy_process \<Rightarrow> (AgyRunUpdate option \<times> agy_process) option" where
  "process_do J (Pc_NextUpdate capture at) p = map_option (apfst run_update) (agy_next_update J capture at p)"
| "process_do J (Pc_PollUpdate capture at max_wait) p = map_option (apfst run_polled) (agy_poll_update J capture at max_wait p)"
| "process_do J (Pc_RequestCancellation at) p = Some (apfst run_update (agy_request_cancellation J at p))"
| "process_do J Pc_CancelAndClose p = Some (None, snd (agy_cancel_and_close p))"

definition process_uses ::
  "json_codec \<Rightarrow> process_call list \<Rightarrow> agy_process \<Rightarrow> (AgyRunUpdate list \<times> agy_process) option" where
  "process_uses J = reports (process_do J)"

fun agy_receipt :: "AgyRunUpdate \<Rightarrow> bool" where
  "agy_receipt (Agy_WriteReceipt t) = True"
| "agy_receipt _ = False"

section \<open>What a call keeps\<close>

text \<open>The snapshot from before the run is there until the stream has reached its end.\<close>

definition ap_good :: "WorkspaceSnapshot \<Rightarrow> agy_process \<Rightarrow> bool" where
  "ap_good before p \<longleftrightarrow> (\<forall>u. ap_pending p = Some u \<longrightarrow> \<not> agy_terminal u) \<and>
     (ap_before p = Some before \<and> ap_pending_terminal p = None \<or> ap_before p = None \<and> ag_closed (ap_stream p))"

definition ap_owed :: "agy_process \<Rightarrow> bool" where
  "ap_owed p \<longleftrightarrow> ap_pending_terminal p \<noteq> None"

definition process_effect ::
  "WorkspaceSnapshot \<Rightarrow> workspace_view option \<Rightarrow> agy_process \<Rightarrow> AgyRunUpdate option \<Rightarrow> agy_process \<Rightarrow> bool" where
  "process_effect before view p u q \<longleftrightarrow> (ap_good before p \<longrightarrow> ap_good before q \<and>
     (ap_owed q \<longrightarrow> ap_owed p \<or> (\<exists>w. u = Some w \<and> agy_receipt w)) \<and>
     (\<forall>w. u = Some w \<longrightarrow> agy_terminal w \<longrightarrow> ap_owed p \<or>
        (\<exists>capture. view = Some capture \<and> workspace_unchanged capture before)))"

text \<open>A step that hands out nothing: the stream may close, nothing is put back or taken out.\<close>

definition ap_quiet :: "agy_process \<Rightarrow> agy_process \<Rightarrow> bool" where
  "ap_quiet p q \<longleftrightarrow> ap_before q = ap_before p \<and> ap_pending_terminal q = ap_pending_terminal p \<and>
     ap_pending q = ap_pending p \<and> (ag_closed (ap_stream p) \<longrightarrow> ag_closed (ap_stream q))"

lemma quiet_refl [simp]: "ap_quiet p p"
  by (simp add: ap_quiet_def)

lemma quiet_trans: "ap_quiet p q \<Longrightarrow> ap_quiet q r \<Longrightarrow> ap_quiet p r"
  by (auto simp: ap_quiet_def)

lemma quiet_good: "ap_quiet p q \<Longrightarrow> ap_good before p \<Longrightarrow> ap_good before q"
  by (auto simp: ap_quiet_def ap_good_def)

lemma quiet_owed: "ap_quiet p q \<Longrightarrow> ap_owed q = ap_owed p"
  by (simp add: ap_quiet_def ap_owed_def)

lemma quiet_effect:
  "ap_quiet p q \<Longrightarrow> (\<And>w. u = Some w \<Longrightarrow> \<not> agy_terminal w) \<Longrightarrow> process_effect before view p u q"
  by (simp add: process_effect_def quiet_good quiet_owed)

lemma quiet_then: "ap_quiet p q \<Longrightarrow> process_effect before view q u r \<Longrightarrow> process_effect before view p u r"
  by (simp add: process_effect_def quiet_good quiet_owed)

lemmas process_readings = agy_clock_def agy_is_failed_def agy_receive_def agy_terminate_def agy_reap_def

lemma quiet_readings:
  "agy_clock p = (a, q) \<Longrightarrow> ap_quiet p q" "agy_is_failed p = (b, q) \<Longrightarrow> ap_quiet p q"
  "agy_receive p = (c, q) \<Longrightarrow> ap_quiet p q" "agy_terminate p = (d, q) \<Longrightarrow> ap_quiet p q"
  "agy_reap p = (d, q) \<Longrightarrow> ap_quiet p q"
  by (auto simp: process_readings ap_quiet_def)

lemma ap_then_cases:
  assumes "ap_then s f = (r, q)"
  obtains (bad) e where "s = (Inl e, q)" "r = Inl e" | (good) a p where "s = (Inr a, p)" "f a p = (r, q)"
proof -
  obtain x p where s: "s = (x, p)" by fastforce
  with assms that show ?thesis by (cases x) auto
qed

text \<open>A stream that reports the end was open before and is closed after.\<close>

lemma lifecycle_closed:
  "lifecycle_with_evidence J state event_type at f evidence s = (r, t) \<Longrightarrow> ag_closed t = ag_closed s"
  by (auto simp: lifecycle_with_evidence_def split: if_splits option.splits)

lemma local_terminal_closes:
  "agy_local_terminal J state event_type kind key at s = (r, t) \<Longrightarrow> ag_closed t \<and> (is_ok r \<longrightarrow> \<not> ag_closed s)"
  by (auto simp: agy_local_terminal_def dest: lifecycle_closed split: if_splits)

lemma ending_closes:
  "f \<in> {agy_timed_out J at, agy_cancelled J at, agy_crashed J at} \<Longrightarrow> f s = (r, t) \<Longrightarrow>
   ag_closed t \<and> (is_ok r \<longrightarrow> \<not> ag_closed s)"
  by (auto simp: agy_timed_out_def agy_cancelled_def agy_crashed_def dest: local_terminal_closes)

lemma consume_line_closes:
  assumes "consume_line J line at s = (r, t)"
  shows "(ag_closed s \<longrightarrow> ag_closed t) \<and> (\<forall>u. r = Inr (Some u) \<longrightarrow> agy_terminal u \<longrightarrow> \<not> ag_closed s \<and> ag_closed t)"
proof -
  have e: "agy_effect J s (r, t)" using agy_do_effect[of J s "Agy_ConsumeLine line at"] assms by simp
  show ?thesis
  proof (cases r)
    case (Inr u)
    with e assms show ?thesis
      by (cases u rule: agy_update_event.cases) (auto simp: consume_line_def split: if_splits)
  qed (use e in auto)
qed

text \<open>Handing out a terminal state that the stream has just reached.\<close>

definition ap_ended :: "agy_process \<Rightarrow> agy_process \<Rightarrow> bool" where
  "ap_ended p q \<longleftrightarrow> ap_quiet p q \<and> \<not> ag_closed (ap_stream p) \<and> ag_closed (ap_stream q)"

lemma quiet_ended: "ap_quiet p q \<Longrightarrow> ap_ended q r \<Longrightarrow> ap_ended p r"
  by (auto simp: ap_ended_def ap_quiet_def)

lemma ended_quiet: "ap_ended p q \<Longrightarrow> ap_quiet q r \<Longrightarrow> ap_ended p r"
  by (auto simp: ap_ended_def ap_quiet_def)

lemma agy_order_effect:
  assumes e: "ap_ended p q" and o: "agy_order_terminal J capture u q = (r, s)"
  shows "process_effect before (Some capture) p (run_update r) s"
proof (cases "ap_before p = Some before \<and> ap_pending_terminal p = None")
  case True
  with e have q: "ap_before q = Some before" "ap_pending_terminal q = None" "ap_pending q = ap_pending p"
    "ag_closed (ap_stream q)" by (auto simp: ap_ended_def ap_quiet_def)
  consider (bad) x where "and_then (capture (ws_root before)) (write_receipt J before) = Inl x"
    | (same) "and_then (capture (ws_root before)) (write_receipt J before) = Inr None"
    | (changed) t where "and_then (capture (ws_root before)) (write_receipt J before) = Inr (Some t)"
    by (cases "and_then (capture (ws_root before)) (write_receipt J before)") auto
  then show ?thesis
  proof cases
    case same
    then have "workspace_unchanged capture before"
      by (auto simp: and_then_eq_Ok workspace_unchanged_def write_receipt_def Let_def split: if_splits)
    with same o q show ?thesis
      by (auto simp: agy_order_terminal_def process_effect_def ap_good_def ap_owed_def)
  qed (use o q in \<open>auto simp: agy_order_terminal_def process_effect_def ap_good_def ap_owed_def\<close>)
next
  case False
  with e show ?thesis by (auto simp: process_effect_def ap_good_def ap_ended_def)
qed

lemma agy_ending_effect:
  assumes f: "f \<in> {agy_timed_out J at, agy_cancelled J at, agy_crashed J at}"
    and s: "ap_then (on_stream f p) (agy_order_terminal J capture) = (r, s)"
  shows "process_effect before (Some capture) p (run_update r) s"
proof -
  obtain x t where x: "f (ap_stream p) = (x, t)" by fastforce
  note c = ending_closes[OF f x]
  have st: "on_stream f p = (map_err Ap_Stream x, p\<lparr>ap_stream := t\<rparr>)" by (simp add: on_stream_def x)
  show ?thesis
  proof (cases x)
    case (Inl e)
    with s st c have "s = p\<lparr>ap_stream := t\<rparr>" "r = Inl (Ap_Stream e)" by auto
    with c show ?thesis by (auto intro!: quiet_effect simp: ap_quiet_def)
  next
    case (Inr u)
    with s st have "agy_order_terminal J capture u (p\<lparr>ap_stream := t\<rparr>) = (r, s)" by simp
    moreover have "ap_ended p (p\<lparr>ap_stream := t\<rparr>)" using c Inr by (auto simp: ap_ended_def ap_quiet_def)
    ultimately show ?thesis by (rule agy_order_effect[rotated])
  qed
qed

section \<open>One call\<close>

lemma polled_some [simp]: "run_polled (and_then r (\<lambda>a. Ok (Some a))) = run_update r"
  by (cases r) auto

lemma closing_effect:
  assumes "ap_then (agy_terminate p) (\<lambda>_ p. (Inl e, p)) = (r, s)"
  shows "process_effect before view p (run_polled r) s"
  using assms by (rule ap_then_cases) (auto intro!: quiet_effect dest: quiet_readings)

lemma inactive_effect:
  assumes "agy_inactive J capture at p = (r, s)"
  shows "process_effect before (Some capture) p (run_update r) s"
  using assms unfolding agy_inactive_def
proof (cases rule: ap_then_cases)
  case (bad e)
  then show ?thesis by (auto intro!: quiet_effect dest: quiet_readings)
next
  case (good a q)
  from quiet_readings(4)[OF good(1)] agy_ending_effect[OF _ good(2)] show ?thesis by (auto intro: quiet_then)
qed

lemma output_ended_effect:
  assumes "agy_output_ended J capture at p = (r, s)"
  shows "process_effect before (Some capture) p (run_update r) s"
proof -
  obtain b q where q: "agy_is_failed p = (b, q)" by fastforce
  note quiet = quiet_readings(2)[OF q]
  have ending: "process_effect before (Some capture) q (run_update r) s"
    if "ap_then (agy_reap q) (\<lambda>_ p. ap_then (on_stream (if ap_cancellation_requested p then agy_cancelled J at else agy_crashed J at) p)
      (agy_order_terminal J capture)) = (r, s)"
    using that
  proof (cases rule: ap_then_cases)
    case (bad e)
    then show ?thesis by (auto intro!: quiet_effect dest: quiet_readings)
  next
    case (good a w)
    have "(if ap_cancellation_requested w then agy_cancelled J at else agy_crashed J at)
        \<in> {agy_timed_out J at, agy_cancelled J at, agy_crashed J at}" by simp
    from agy_ending_effect[OF this good(2)] show ?thesis by (rule quiet_then[OF quiet_readings(5)[OF good(1)]])
  qed
  have closing: "process_effect before (Some capture) q (run_update r) s"
    if "ap_then (agy_terminate q) (\<lambda>_ p. (Inl Ap_Unavailable, p)) = (r, s)"
    using that by (rule ap_then_cases) (auto intro!: quiet_effect dest: quiet_readings)
  from assms q quiet ending closing show ?thesis
    by (auto simp: agy_output_ended_def intro: quiet_then split: if_splits)
qed

lemma line_quiet:
  assumes "agy_line J line at p = (r, q)"
  shows "ap_quiet p q \<and> (\<forall>u. r = Inr (Some u) \<longrightarrow> agy_terminal u \<longrightarrow> ap_ended p q)"
proof -
  obtain now p1 where c: "agy_clock p = (now, p1)" by fastforce
  note quiet = quiet_readings(1)[OF c]
  show ?thesis
  proof (cases "ap_horizon p1 < now + ap_timeout p1")
    case True
    with assms c have "ap_then (agy_terminate p1) (\<lambda>_ p. (Inl Ap_InvalidRequest, p)) = (r, q)" by (simp add: agy_line_def)
    then show ?thesis by (rule ap_then_cases) (use quiet in \<open>auto dest!: quiet_readings intro: quiet_trans\<close>)
  next
    case False
    define p2 where "p2 = p1\<lparr>ap_inactivity_deadline := now + ap_timeout p1\<rparr>"
    have q2: "ap_quiet p p2" using quiet by (auto simp: ap_quiet_def p2_def)
    obtain x t where x: "consume_line J line at (ap_stream p2) = (x, t)" by fastforce
    from False assms c have r: "r = map_err Ap_Stream x" "q = p2\<lparr>ap_stream := t\<rparr>"
      by (auto simp: agy_line_def on_stream_def p2_def[symmetric] x)
    note e = consume_line_closes[OF x]
    have "ap_quiet p2 q" using e r by (auto simp: ap_quiet_def)
    moreover have "ap_ended p2 q" if "r = Inr (Some u)" "agy_terminal u" for u
      using e r that by (cases x) (auto simp: ap_ended_def ap_quiet_def)
    ultimately show ?thesis using q2 quiet_trans quiet_ended by blast
  qed
qed

lemma line_terminal_effect:
  assumes "ap_ended p q" and "agy_line_terminal J capture u q = (r, s)"
  shows "process_effect before (Some capture) p (run_update r) s"
  using assms(2) unfolding agy_line_terminal_def
proof (cases rule: ap_then_cases)
  case (bad e)
  have "ap_quiet q s" using quiet_readings(5)[OF bad(1)] by (simp add: ap_quiet_def)
  with assms(1) have "ap_quiet p s" by (auto simp: ap_ended_def intro: quiet_trans)
  with bad show ?thesis by (auto intro!: quiet_effect)
next
  case (good a w)
  have "ap_quiet q w" using quiet_readings(5)[OF good(1)] by (simp add: ap_quiet_def)
  with assms(1) have "ap_ended p w" by (rule ended_quiet)
  from agy_order_effect[OF this good(2)] show ?thesis .
qed

lemma agy_poll_loop_effect:
  assumes "agy_poll_loop J capture at ob p = Some (r, s)"
  shows "process_effect before (Some capture) p (run_polled r) s"
proof -
  have "process_effect before (Some capture) p (run_polled (fst y)) (snd y)" if "agy_poll_loop J capture at ob p = Some y" for y
  proof (rule agy_poll_loop.raw_induct[where P = "\<lambda>J capture at ob p y.
      process_effect before (Some capture) p (run_polled (fst y)) (snd y)", OF _ that], goal_cases)
    case (1 loop J capture at ob p y)
    note IH = 1(1) and body = 1(2)
    obtain now q where q: "agy_clock p = (now, q)" by fastforce
    note clock = quiet_then[OF quiet_readings(1)[OF q]]
    obtain o' w where ow: "agy_receive q = (o', w)" by fastforce
    consider (inactive) "y = ap_some (agy_inactive J capture at q)" | (over) "y = (Ok None, q)"
      | (look) "(case o' of Agy_Line line \<Rightarrow> (case agy_line J line at w of
               (Inl e, p) \<Rightarrow> Some (Err e, p)
             | (Inr None, p) \<Rightarrow> loop J capture at ob p
             | (Inr (Some u), p) \<Rightarrow>
                 if agy_terminal u then Some (ap_some (agy_line_terminal J capture u p)) else Some (Ok (Some u), p))
           | Agy_Quiet \<Rightarrow> loop J capture at ob w
           | _ \<Rightarrow> Some (ap_some (agy_output_ended J capture at w))) = Some y"
      using body by (cases "ap_inactivity_deadline q \<le> now"; cases "case ob of None \<Rightarrow> False | Some d \<Rightarrow> d \<le> now")
        (simp_all add: q ow)
    then show ?case
    proof cases
      case inactive
      obtain x s where "agy_inactive J capture at q = (x, s)" by fastforce
      with inactive inactive_effect[OF this] show ?thesis by (auto intro: clock)
    next
      case over
      with quiet_readings(1)[OF q] show ?thesis by (auto intro: quiet_effect)
    next
      case look
      note quiet = quiet_then[OF quiet_trans[OF quiet_readings(1)[OF q] quiet_readings(3)[OF ow]]]
      have ended: "process_effect before (Some capture) w (run_polled (fst (ap_some (agy_output_ended J capture at w))))
          (snd (ap_some (agy_output_ended J capture at w)))"
      proof -
        obtain x z where x: "agy_output_ended J capture at w = (x, z)" by fastforce
        with output_ended_effect[OF x] show ?thesis by simp
      qed
      show ?thesis
      proof (cases o')
        case (Agy_Line line)
        obtain r v where rv: "agy_line J line at w = (r, v)" by fastforce
        note lq = line_quiet[OF rv]
        have "process_effect before (Some capture) w (run_polled (fst y)) (snd y)"
        proof (cases r)
          case (Inl e)
          with look Agy_Line rv lq show ?thesis by (auto intro: quiet_effect)
        next
          case (Inr u)
          show ?thesis
          proof (cases u)
            case None
            with look Agy_Line rv Inr have "loop J capture at ob v = Some y" by simp
            from IH[OF this] lq show ?thesis by (auto intro: quiet_then)
          next
            case (Some x)
            obtain t z where tz: "agy_line_terminal J capture x v = (t, z)" by fastforce
            show ?thesis
            proof (cases "agy_terminal x")
              case True
              with lq Inr Some have "ap_ended w v" by simp
              from line_terminal_effect[OF this tz] look Agy_Line rv Inr Some True tz show ?thesis by auto
            next
              case False
              with look Agy_Line rv Inr Some lq show ?thesis by (auto intro: quiet_effect)
            qed
          qed
        qed
        then show ?thesis by (rule quiet)
      qed (use look ended IH in \<open>auto intro: quiet\<close>)
    qed
  qed
  from this[OF assms] show ?thesis by simp
qed

lemma agy_poll_update_effect:
  assumes "agy_poll_update J capture at max_wait p = Some (r, s)"
  shows "process_effect before (Some capture) p (run_polled r) s"
proof -
  obtain b q where q: "agy_is_failed p = (b, q)" by fastforce
  note quiet = quiet_then[OF quiet_readings(2)[OF q]]
  consider (bad) "ap_then (agy_terminate q) (\<lambda>_ p. (Inl Ap_Unavailable, p)) = (r, s)"
    | (kept) u where "ap_pending q = Some u" "r = Ok (Some u)" "s = q\<lparr>ap_pending := None\<rparr>"
    | (owed) u where "ap_pending_terminal q = Some u" "r = Ok (Some u)" "s = q\<lparr>ap_pending_terminal := None\<rparr>"
    | (wait) ob now w where "agy_clock q = (now, w)" "agy_poll_loop J capture at ob w = Some (r, s)"
    using assms q by (auto simp: agy_poll_update_def split: if_splits option.splits prod.splits)
  then show ?thesis
  proof cases
    case bad
    then show ?thesis by (intro quiet closing_effect)
  next
    case kept
    then show ?thesis by (intro quiet) (auto simp: process_effect_def ap_good_def ap_owed_def)
  next
    case owed
    then show ?thesis by (intro quiet) (auto simp: process_effect_def ap_good_def ap_owed_def)
  next
    case wait
    from agy_poll_loop_effect[OF wait(2)] show ?thesis by (intro quiet quiet_then[OF quiet_readings(1)[OF wait(1)]])
  qed
qed

lemma effect_then:
  "process_effect before view p None q \<Longrightarrow> process_effect before view q u r \<Longrightarrow> process_effect before view p u r"
  by (auto simp: process_effect_def)

lemma agy_next_update_effect:
  assumes "agy_next_update J capture at p = Some (r, s)"
  shows "process_effect before (Some capture) p (run_update r) s"
proof -
  have "process_effect before (Some capture) p (run_update (fst y)) (snd y)" if "agy_next_update J capture at p = Some y" for y
  proof (rule agy_next_update.raw_induct[where P = "\<lambda>J capture at p y.
      process_effect before (Some capture) p (run_update (fst y)) (snd y)", OF _ that], goal_cases)
    case (1 rest J capture at p y)
    then obtain x q where x: "agy_poll_update J capture at (ap_timeout p) p = Some (x, q)"
      by (auto split: option.splits)
    note effect = agy_poll_update_effect[OF x, of before]
    show ?case
    proof (cases x)
      case (Inl e)
      with 1(2) x effect show ?thesis by auto
    next
      case (Inr u)
      with 1 x effect show ?thesis by (cases u) (auto intro: effect_then)
    qed
  qed
  from this[OF assms] show ?thesis by simp
qed

lemma agy_request_cancellation_effect:
  assumes "agy_request_cancellation J at p = (r, s)" shows "process_effect before view p (run_update r) s"
proof -
  obtain x t where x: "agy_cancellation_started J at (ap_stream p) = (x, t)" by fastforce
  then have t: "ag_closed t = ag_closed (ap_stream p)" and u: "\<not> agy_terminal u" if "x = Inr u" for u
    using that by (auto simp: agy_cancellation_started_def lifecycle_with_evidence_def split: if_splits option.splits)
  have t': "ag_closed t = ag_closed (ap_stream p)" if "x = Inl e" for e
    using x that by (auto simp: agy_cancellation_started_def lifecycle_with_evidence_def split: if_splits option.splits)
  show ?thesis
  proof (cases x)
    case (Inl e)
    with assms x t' show ?thesis
      by (auto simp: agy_request_cancellation_def on_stream_def ap_quiet_def intro!: quiet_effect)
  next
    case (Inr w)
    with assms x have "ap_then (agy_terminate (p\<lparr>ap_stream := t, ap_cancellation_requested := True\<rparr>)) (\<lambda>_ p. (Ok w, p)) = (r, s)"
      by (simp add: agy_request_cancellation_def on_stream_def)
    then show ?thesis using t[OF Inr] u[OF Inr]
      by (cases rule: ap_then_cases) (auto dest!: quiet_readings simp: ap_quiet_def intro!: quiet_effect)
  qed
qed

lemma process_do_effect:
  assumes "process_do J c p = Some (u, s)" shows "process_effect before (process_view c) p u s"
proof (cases c)
  case (Pc_NextUpdate capture at)
  with assms show ?thesis by (auto intro: agy_next_update_effect)
next
  case (Pc_PollUpdate capture at max_wait)
  with assms show ?thesis by (auto intro: agy_poll_update_effect)
next
  case (Pc_RequestCancellation at)
  then show ?thesis using assms agy_request_cancellation_effect[of J at p]
    by (cases "agy_request_cancellation J at p") auto
next
  case Pc_CancelAndClose
  then show ?thesis using assms
    by (auto simp: agy_cancel_and_close_def agy_terminate_def ap_quiet_def intro!: quiet_effect)
qed

section \<open>Any sequence of calls\<close>

interpretation process: receipt_source "process_do J" "ap_good before" ap_owed agy_terminal agy_receipt
  "\<lambda>c. \<exists>capture. process_view c = Some capture \<and> workspace_unchanged capture before" for J before
  by unfold_locales (auto simp: process_effect_def dest!: process_do_effect[of _ _ _ _ _ before])

text \<open>A run that may write keeps the snapshot taken before its child was started.\<close>

lemma first_not_terminal: "agy_first J r = Inr (s, pending) \<Longrightarrow> pending = Some u \<Longrightarrow> \<not> agy_terminal u"
  by (auto simp: agy_first_def agy_recovery_started_def lifecycle_with_evidence_def and_then_eq_Ok
    split: option.splits if_splits prod.splits sum.splits)

lemma spawn_good:
  assumes "agy_spawn J w r = Inr p"
  shows "agy_child_started J w r \<and> (\<not> aq_read_only r \<longrightarrow>
    (\<exists>before. su_capture w (aq_cwd r) = Inr before \<and> ap_good before p \<and> \<not> ap_owed p))"
proof -
  have started: "ap_before p = before \<and> ap_pending p = pending \<and> \<not> ap_owed p"
    if "p = agy_started w r before s pending" for before s pending
    using that by (simp add: agy_started_def ap_owed_def)
  have failure: "startup_failure e w \<noteq> Inr p" for e by (auto simp: startup_failure_def and_then_eq_Ok)
  from assms obtain before s pending where p: "p = agy_started w r before s pending" and f: "agy_first J r = Inr (s, pending)"
    and b: "(if aq_read_only r then Ok None
         else map_err Ap_Workspace (and_then (su_capture w (aq_cwd r)) (\<lambda>s. Ok (Some s)))) = Inr before"
    and c: "agy_child_started J w r"
    by (auto simp: agy_spawn_def agy_child_started_def and_then_eq_Ok failure
      split: if_splits option.splits sum.splits)
  have "\<exists>x. su_capture w (aq_cwd r) = Inr x \<and> before = Some x" if "\<not> aq_read_only r"
    using b that by (cases "su_capture w (aq_cwd r)") auto
  with started[OF p] first_not_terminal[OF f] c show ?thesis by (auto simp: ap_good_def ap_owed_def)
qed

lemma process_uses_receipt:
  assumes "agy_spawn J w r = Inr p" and "\<not> aq_read_only r" and "process_uses J cs p = Some (us, q)"
    and "i < length us" and "agy_terminal (us ! i)"
  shows "\<exists>before. su_capture w (aq_cwd r) = Inr before \<and> ((\<exists>j < i. agy_receipt (us ! j)) \<or>
    (\<exists>c \<in> set cs. \<exists>capture. process_view c = Some capture \<and> workspace_unchanged capture before))"
  using spawn_good[OF assms(1)] assms(2) process.receipt_first[OF assms(3)[unfolded process_uses_def] _ _ assms(4,5)] by blast

section \<open>Waiting ends\<close>

lemma line_clock:
  "agy_line J line at p = (r, q) \<Longrightarrow> \<forall>k \<ge> n. d \<le> ap_now p k \<Longrightarrow> \<forall>k \<ge> n. d \<le> ap_now q k"
  by (auto simp: agy_line_def on_stream_def process_readings split: if_splits prod.splits)

text \<open>Each turn of the loop looks at the clock, so the observation ends, whatever lines arrive.\<close>

lemma poll_loop_returns:
  "\<forall>k \<ge> n. d \<le> ap_now p k \<Longrightarrow> \<exists>y. agy_poll_loop J capture at (Some d) p = Some y"
proof (induction n arbitrary: p)
  case 0
  then have "d \<le> ap_now p 0" by simp
  then show ?case by (subst agy_poll_loop.simps) (simp add: agy_clock_def)
next
  case (Suc n)
  obtain now q where q: "agy_clock p = (now, q)" by fastforce
  with Suc.prems have "\<forall>k \<ge> n. d \<le> ap_now q k" by (auto simp: agy_clock_def)
  moreover obtain o' w where w: "agy_receive q = (o', w)" by fastforce
  ultimately have n: "\<forall>k \<ge> n. d \<le> ap_now w k" by (auto simp: agy_receive_def)
  obtain y where quiet: "agy_poll_loop J capture at (Some d) w = Some y" using Suc.IH[OF n] by blast
  have news: "\<exists>z. (case agy_line J line at w of
       (Inl e, p) \<Rightarrow> Some (Err e, p)
     | (Inr None, p) \<Rightarrow> agy_poll_loop J capture at (Some d) p
     | (Inr (Some u), p) \<Rightarrow>
         if agy_terminal u then Some (ap_some (agy_line_terminal J capture u p)) else Some (Ok (Some u), p)) = Some z" for line
  proof -
    obtain x v where x: "agy_line J line at w = (x, v)" by fastforce
    from Suc.IH[OF line_clock[OF x n]] show ?thesis by (auto simp: x split: sum.split option.split)
  qed
  show ?case by (subst agy_poll_loop.simps) (use q w quiet news in \<open>auto split: agy_recv.split\<close>)
qed

lemma poll_update_returns:
  assumes "\<forall>k \<ge> n. ap_now p 0 + max_wait \<le> ap_now p k" and "ap_now p 0 + max_wait \<le> ap_horizon p"
  shows "\<exists>y. agy_poll_update J capture at max_wait p = Some y"
proof -
  define q where "q = snd (agy_clock (snd (agy_is_failed p)))"
  have "\<forall>k \<ge> n. ap_now p 0 + max_wait \<le> ap_now q k" using assms(1) by (auto simp: q_def agy_clock_def agy_is_failed_def)
  from poll_loop_returns[OF this] assms(2) show ?thesis
    by (auto simp: agy_poll_update_def q_def agy_clock_def agy_is_failed_def split: option.split)
qed

end
