(* ===== verification/Codex_Run.thy ===== *)
theory Codex_Run
  imports Codex_Server Workspace
begin

text \<open>
  One tracked Codex run (\<open>bastet-adapter-codex/src/run.rs\<close>): the updates of the app server in the
  order the daemon needs them, with the receipt of a changed workspace before the terminal state.
  \<open>disk\<close> says what the file system shows at the moment of a call.
\<close>

record CodexRunRequest =
  rq_run_id :: RunId
  rq_model :: string
  rq_prompt :: string
  rq_cwd :: string
  rq_approval_policy :: ApprovalPolicy
  rq_sandbox_policy :: TurnSandboxPolicy
  rq_effort :: "string option"

datatype RunTrackerError =
  Rt_AppServer AppServerError | Rt_Lifecycle LifecycleError | Rt_Evidence EvidenceError
| Rt_Workspace WorkspaceEvidenceError

record CodexRunTracker =
  tk_thread_id :: string
  tk_turn_id :: string
  tk_stream :: CodexRunStream
  tk_evidence :: CodexRunEvidence
  tk_before :: "WorkspaceSnapshot option"
  tk_provider_write_receipt :: bool
  tk_pending_terminal :: "CodexRunUpdate option"
  tk_final_output :: CodexFinalOutput

definition tracker_new ::
  "RunId \<Rightarrow> string \<Rightarrow> string \<Rightarrow> WorkspaceSnapshot option \<Rightarrow> (RunTrackerError, CodexRunTracker) result" where
  "tracker_new r thread turn before =
     and_then (map_err Rt_Lifecycle (codex_stream_new r turn)) (\<lambda>s.
     and_then (map_err Rt_Evidence (evidence_new thread turn)) (\<lambda>c.
     and_then (map_err Rt_AppServer (final_output_new thread turn)) (\<lambda>o'.
     Ok \<lparr>tk_thread_id = thread, tk_turn_id = turn, tk_stream = s, tk_evidence = c, tk_before = before,
       tk_provider_write_receipt = False, tk_pending_terminal = None, tk_final_output = o'\<rparr>)))"

definition tracker_view :: "CodexRunTracker \<Rightarrow> run_view" where
  "tracker_view k = \<lparr>rv_stream = tk_stream k, rv_final = Some (tk_final_output k)\<rparr>"

definition with_view :: "run_view \<Rightarrow> CodexRunTracker \<Rightarrow> CodexRunTracker" where
  "with_view v k = k\<lparr>tk_stream := rv_stream v,
     tk_final_output := (case rv_final v of Some o' \<Rightarrow> o' | None \<Rightarrow> tk_final_output k)\<rparr>"

section \<open>Cancelling and resuming\<close>

definition request_cancellation ::
  "json_codec \<Rightarrow> 't transport \<Rightarrow> string \<Rightarrow> nat option \<Rightarrow> CodexRunTracker \<Rightarrow> 't server \<Rightarrow>
   (RunTrackerError, CodexRunUpdate) result \<times> CodexRunTracker \<times> 't server" where
  "request_cancellation J T at max_wait k sv =
     (case interrupt_turn T (tk_thread_id k) (tk_turn_id k) max_wait sv of
        (Inl e, sv) \<Rightarrow> (Err (Rt_AppServer e), k, sv)
      | (Inr _, sv) \<Rightarrow>
          (case codex_cancellation_requested J at (tk_stream k) of
             (r, s) \<Rightarrow> (map_err Rt_Lifecycle (and_then r (\<lambda>e. Ok (Up_Lifecycle e))), k\<lparr>tk_stream := s\<rparr>, sv)))"

definition tracker_resume_thread ::
  "codex_env \<Rightarrow> 't transport \<Rightarrow> string \<Rightarrow> CodexRunTracker \<Rightarrow> 't server \<Rightarrow>
   (RunTrackerError, ThreadHandle \<times> CodexRunUpdate) result \<times> CodexRunTracker \<times> 't server" where
  "tracker_resume_thread E T at k sv =
     (case resume_thread E T (tk_thread_id k) sv of
        (Inl e, sv) \<Rightarrow> (Err (Rt_AppServer e), k, sv)
      | (Inr handle, sv) \<Rightarrow>
          (case codex_recovery_started (cv_codec E) (th_thread_id handle) at (tk_stream k) of
             (r, s) \<Rightarrow> (map_err Rt_Lifecycle (and_then r (\<lambda>e. Ok (handle, Up_Lifecycle e))), k\<lparr>tk_stream := s\<rparr>, sv)))"

section \<open>Updates\<close>

fun write_receipt_update :: "CodexRunUpdate \<Rightarrow> bool" where
  "write_receipt_update (Up_Evidence (WriteReceipt r)) = True"
| "write_receipt_update _ = False"

fun terminal_update :: "CodexRunUpdate \<Rightarrow> bool" where
  "terminal_update (Up_Lifecycle e) =
     (nae_state (cx_event e) \<in> {Run_Cancelled, Run_Failed, Run_Succeeded, Run_Uncertain})"
| "terminal_update _ = False"

definition order_update ::
  "json_codec \<Rightarrow> (string \<Rightarrow> (WorkspaceEvidenceError, WorkspaceSnapshot) result) \<Rightarrow> CodexRunUpdate \<Rightarrow>
   CodexRunTracker \<Rightarrow> (RunTrackerError, CodexRunUpdate) result \<times> CodexRunTracker" where
  "order_update J capture u k =
     (if write_receipt_update u then (Ok u, k\<lparr>tk_provider_write_receipt := True\<rparr>)
      else if \<not> terminal_update u \<or> tk_provider_write_receipt k then (Ok u, k)
      else case tk_before k of
        None \<Rightarrow> (Ok u, k)
      | Some before \<Rightarrow>
          (case and_then (capture (ws_root before)) (write_receipt J before) of
             Inl e \<Rightarrow> (Err (Rt_Workspace e), k)
           | Inr None \<Rightarrow> (Ok u, k)
           | Inr (Some receipt) \<Rightarrow> (Ok (Up_Evidence (WriteReceipt receipt)), k\<lparr>tk_pending_terminal := Some u\<rparr>)))"

definition disk_capture ::
  "codex_env \<Rightarrow> (string \<Rightarrow> string) \<Rightarrow> (string \<Rightarrow> ws_node) \<Rightarrow> string \<Rightarrow> (WorkspaceEvidenceError, WorkspaceSnapshot) result" where
  "disk_capture E H disk root = workspace_capture H (cv_absolute E) root (disk root)"

definition next_update ::
  "json_codec \<Rightarrow> 't transport \<Rightarrow> (string \<Rightarrow> (WorkspaceEvidenceError, WorkspaceSnapshot) result) \<Rightarrow> string \<Rightarrow>
   CodexRunTracker \<Rightarrow> 't server \<Rightarrow>
   ((RunTrackerError, CodexRunUpdate) result \<times> CodexRunTracker \<times> 't server) option" where
  "next_update J T capture at k sv =
     (case tk_pending_terminal k of
        Some u \<Rightarrow> Some (Ok u, k\<lparr>tk_pending_terminal := None\<rparr>, sv)
      | None \<Rightarrow> map_option (\<lambda>(r, v, sv). case r of
          Inl e \<Rightarrow> (Err (Rt_AppServer e), with_view v k, sv)
        | Inr u \<Rightarrow> (case order_update J capture u (with_view v k) of (r, k) \<Rightarrow> (r, k, sv)))
          (next_run_update J T (tk_evidence k) at (tracker_view k) sv))"

definition poll_update ::
  "json_codec \<Rightarrow> 't transport \<Rightarrow> (string \<Rightarrow> (WorkspaceEvidenceError, WorkspaceSnapshot) result) \<Rightarrow> string \<Rightarrow>
   (nat \<Rightarrow> nat) \<Rightarrow> nat \<Rightarrow> nat \<Rightarrow> nat \<Rightarrow> CodexRunTracker \<Rightarrow> 't server \<Rightarrow>
   ((RunTrackerError, CodexRunUpdate option) result \<times> CodexRunTracker \<times> 't server) option" where
  "poll_update J T capture at now horizon longest max_wait k sv =
     (case tk_pending_terminal k of
        Some u \<Rightarrow> Some (Ok (Some u), k\<lparr>tk_pending_terminal := None\<rparr>, sv)
      | None \<Rightarrow> map_option (\<lambda>(r, v, sv). case r of
          Inl e \<Rightarrow> (Err (Rt_AppServer e), with_view v k, sv)
        | Inr None \<Rightarrow> (Ok None, with_view v k, sv)
        | Inr (Some u) \<Rightarrow> (case order_update J capture u (with_view v k) of
            (r, k) \<Rightarrow> (and_then r (\<lambda>u. Ok (Some u)), k, sv)))
          (poll_run_update J T (tk_evidence k) at now horizon longest max_wait (tracker_view k) sv))"

section \<open>Starting a run\<close>

definition run_sandbox ::
  "(string \<Rightarrow> (WorkspaceEvidenceError, WorkspaceSnapshot) result) \<Rightarrow> CodexRunRequest \<Rightarrow>
   (RunTrackerError, ThreadSandbox \<times> WorkspaceSnapshot option) result" where
  "run_sandbox capture r =
     (case rq_sandbox_policy r of
        Tu_ReadOnly \<Rightarrow> Ok (Th_ReadOnly, None)
      | Tu_WorkspaceWrite roots net \<Rightarrow>
          if roots = [rq_cwd r]
          then and_then (map_err Rt_Workspace (capture (rq_cwd r))) (\<lambda>s. Ok (Th_WorkspaceWrite, Some s))
          else Err (Rt_Workspace We_InvalidRoot))"

definition start_tracked_run ::
  "codex_env \<Rightarrow> 't transport \<Rightarrow> (string \<Rightarrow> (WorkspaceEvidenceError, WorkspaceSnapshot) result) \<Rightarrow> CodexRunRequest \<Rightarrow>
   't server \<Rightarrow> (RunTrackerError, ThreadHandle \<times> TurnHandle \<times> CodexRunTracker) result \<times> 't server" where
  "start_tracked_run E T capture r sv =
     (case run_sandbox capture r of
        Inl e \<Rightarrow> (Err e, sv)
      | Inr (sandbox, before) \<Rightarrow>
          (case start_thread E T \<lparr>ts_model = rq_model r, ts_cwd = rq_cwd r,
              ts_approval_policy = rq_approval_policy r, ts_sandbox = sandbox\<rparr> sv of
             (Inl e, sv) \<Rightarrow> (Err (Rt_AppServer e), sv)
           | (Inr thread, sv) \<Rightarrow>
               (case start_turn E T \<lparr>us_thread_id = th_thread_id thread, us_prompt = rq_prompt r, us_cwd = rq_cwd r,
                   us_approval_policy = rq_approval_policy r, us_sandbox_policy = rq_sandbox_policy r,
                   us_model = Some (rq_model r), us_effort = rq_effort r\<rparr> sv of
                  (Inl e, sv) \<Rightarrow> (Err (Rt_AppServer e), sv)
                | (Inr turn, sv) \<Rightarrow>
                    (and_then (tracker_new (rq_run_id r) (th_thread_id thread) (tu_turn_id turn) before)
                       (\<lambda>k. Ok (thread, turn, k)), sv))))"

section \<open>Order of receipt and terminal state\<close>

lemma order_terminal:
  assumes "order_update J capture u k = (Inr w, k')" and "terminal_update w" and "tk_before k = Some before"
  shows "tk_provider_write_receipt k \<or> workspace_unchanged capture before"
proof -
  have u: "w = u" "terminal_update u" "\<not> write_receipt_update u" using assms
    by (auto simp: order_update_def split: if_splits option.splits sum.splits; cases u; auto)+
  show ?thesis
  proof (cases "tk_provider_write_receipt k")
    case False
    with assms u have r: "and_then (capture (ws_root before)) (write_receipt J before) = Inr None"
      by (auto simp: order_update_def split: if_splits option.splits sum.splits)
    then obtain after where "capture (ws_root before) = Inr after" "write_receipt J before after = Inr None"
      by (auto simp: and_then_eq_Ok)
    then show ?thesis by (auto simp: workspace_unchanged_def write_receipt_def Let_def split: if_splits)
  qed simp
qed

lemma order_pending:
  assumes "order_update J capture u k = (r, k')"
  shows "tk_pending_terminal k' = tk_pending_terminal k \<or>
    (\<exists>w. tk_pending_terminal k' = Some w \<and> terminal_update w) \<and>
    (\<exists>receipt. r = Inr (Up_Evidence (WriteReceipt receipt)))"
  using assms by (auto simp: order_update_def split: if_splits option.splits sum.splits)

lemma order_provider_receipt:
  assumes "order_update J capture u k = (r, k')"
  shows "tk_before k' = tk_before k \<and>
    (tk_provider_write_receipt k' \<longleftrightarrow> tk_provider_write_receipt k \<or> write_receipt_update u)"
  using assms by (auto simp: order_update_def split: if_splits option.splits sum.splits)

end
