(* ===== verification/Codex_Events.thy ===== *)
theory Codex_Events
  imports Codex_Stream
begin

text \<open>
  What every sequence of calls on a \<open>CodexRunStream\<close> reports: it is a source of events, and
  neither its events nor its failures carry an error text of the provider.
\<close>

section \<open>Calls\<close>

datatype codex_call =
  Cx_Ingest AppServerNotification string | Cx_CancellationRequested string | Cx_RecoveryStarted string string
| Cx_DeadlineExceeded string | Cx_TransportLost string

fun stream_some :: "'a stream_step \<Rightarrow> 'a option stream_step" where
  "stream_some (r, s) = (and_then r (\<lambda>a. Ok (Some a)), s)"

fun codex_do :: "json_codec \<Rightarrow> CodexRunStream \<Rightarrow> codex_call \<Rightarrow> NormalizedCodexEvent option stream_step" where
  "codex_do J s (Cx_Ingest note at) = codex_ingest J note at s"
| "codex_do J s (Cx_CancellationRequested at) = stream_some (codex_cancellation_requested J at s)"
| "codex_do J s (Cx_RecoveryStarted thread at) = stream_some (codex_recovery_started J thread at s)"
| "codex_do J s (Cx_DeadlineExceeded at) = stream_some (codex_deadline_exceeded J at s)"
| "codex_do J s (Cx_TransportLost at) = stream_some (codex_transport_lost J at s)"

fun codex_result_event :: "(LifecycleError, NormalizedCodexEvent option) result \<Rightarrow> NormalizedAdapterEvent option" where
  "codex_result_event (Inr (Some e)) = Some (cx_event e)"
| "codex_result_event _ = None"

definition codex_emit :: "json_codec \<Rightarrow> CodexRunStream \<Rightarrow> codex_call \<Rightarrow> NormalizedAdapterEvent option \<times> CodexRunStream" where
  "codex_emit J s a = (case codex_do J s a of (r, t) \<Rightarrow> (codex_result_event r, t))"

section \<open>What is published\<close>

definition codex_event_types :: "string set" where
  "codex_event_types = {''codex.turn_started'', ''codex.turn_completed'', ''codex.turn_interrupt_requested'',
     ''codex.thread_resume_requested'', ''codex.deadline_exceeded'', ''codex.transport_lost''}"

definition codex_statuses :: "string set" where
  "codex_statuses = {''running'', ''completed'', ''interrupted'', ''failed'', ''cancelling'', ''uncertain''}"

definition codex_codes :: "string set" where
  "codex_codes = {''Unauthorized'', ''UsageLimitExceeded'', ''SandboxError'', ''ResponseStreamConnectionFailed'',
     ''ResponseStreamDisconnected'', ''ResponseTooManyFailedAttempts'', ''HttpConnectionFailed'',
     ''InternalServerError'', ''ContextWindowExceeded'', ''BadRequest'', ''Other'', ''Interrupted''}"

text \<open>A payload names at most the turn of the run, or the thread that is resumed.\<close>

definition codex_payload_ok :: "CodexRunStream \<Rightarrow> string option \<Rightarrow> Value \<Rightarrow> bool" where
  "codex_payload_ok s i v \<longleftrightarrow>
     (i = None \<and> (\<exists>x \<in> codex_statuses. v = status_payload x)) \<or>
     (i = Some (cs_provider_turn_id s) \<and> (\<exists>x \<in> codex_statuses. v = turn_payload (cs_provider_turn_id s) x)) \<or>
     (\<exists>thread. i = Some thread \<and> v = thread_payload thread)"

definition codex_event_ok :: "json_codec \<Rightarrow> CodexRunStream \<Rightarrow> NormalizedAdapterEvent \<Rightarrow> bool" where
  "codex_event_ok J s e \<longleftrightarrow> nae_contract_version e = AGENT_ADAPTER_CONTRACT_VERSION \<and>
     nae_run_id e = cn_run_id (cs_normalizer s) \<and> nae_event_type e \<in> codex_event_types \<and>
     \<not> blank (nae_occurred_at e) \<and> nae_evidence_class e \<in> {ProviderReported, LocallyMeasured} \<and>
     (\<forall>i. nae_provider_event_id e = Some i \<longrightarrow> \<not> blank i) \<and>
     (\<exists>v. nae_redacted_payload_json e = json_text J v \<and> codex_payload_ok s (nae_provider_event_id e) v)"

definition codex_failure_ok :: "AdapterFailure \<Rightarrow> bool" where
  "codex_failure_ok f \<longleftrightarrow> af_redacted_detail f = None \<and> (\<forall>c. af_provider_code f = Some c \<longrightarrow> c \<in> codex_codes) \<and>
     af_message_key f \<in> {''codex.failure.unknown'', ''codex.failure.timeout'', ''codex.failure.transport_lost''} \<union>
       (\<lambda>c. ''codex.failure.'' @ snake_case c) ` codex_codes"

definition codex_last_sequence :: "CodexRunStream \<Rightarrow> u64" where
  "codex_last_sequence s = cn_next_sequence (cs_normalizer s) - 1"

definition codex_good :: "CodexRunStream \<Rightarrow> bool" where
  "codex_good s \<longleftrightarrow> cn_next_sequence (cs_normalizer s) \<noteq> 0"

text \<open>The effect of one call: what stays, and what an event looks like.\<close>

definition codex_same :: "CodexRunStream \<Rightarrow> CodexRunStream \<Rightarrow> bool" where
  "codex_same s t \<longleftrightarrow> cn_run_id (cs_normalizer t) = cn_run_id (cs_normalizer s) \<and>
     cs_provider_turn_id t = cs_provider_turn_id s"

fun codex_effect :: "json_codec \<Rightarrow> CodexRunStream \<Rightarrow> NormalizedCodexEvent option stream_step \<Rightarrow> bool" where
  "codex_effect J s (Inr (Some e), t) \<longleftrightarrow> codex_same s t \<and> \<not> cs_terminal s \<and>
     (cs_terminal t \<longleftrightarrow> settled_state (nae_state (cx_event e))) \<and>
     nae_sequence (cx_event e) = cn_next_sequence (cs_normalizer s) \<and>
     checked_add (cn_next_sequence (cs_normalizer s)) 1 = Some (cn_next_sequence (cs_normalizer t)) \<and>
     codex_event_ok J s (cx_event e) \<and> (\<forall>x. cx_failure e = Some x \<longrightarrow> codex_failure_ok x)"
| "codex_effect J s (r, t) \<longleftrightarrow> t = s"

lemma codex_known_texts [simp]:
  "''codex.turn_started'' \<in> codex_event_types" "''codex.turn_completed'' \<in> codex_event_types"
  "''codex.turn_interrupt_requested'' \<in> codex_event_types" "''codex.thread_resume_requested'' \<in> codex_event_types"
  "''codex.deadline_exceeded'' \<in> codex_event_types" "''codex.transport_lost'' \<in> codex_event_types"
  "''running'' \<in> codex_statuses" "''completed'' \<in> codex_statuses" "''interrupted'' \<in> codex_statuses"
  "''failed'' \<in> codex_statuses" "''cancelling'' \<in> codex_statuses" "''uncertain'' \<in> codex_statuses"
  "''Unauthorized'' \<in> codex_codes" "''UsageLimitExceeded'' \<in> codex_codes" "''SandboxError'' \<in> codex_codes"
  "''InternalServerError'' \<in> codex_codes" "''Interrupted'' \<in> codex_codes"
  unfolding codex_event_types_def codex_statuses_def codex_codes_def by (rule insertI1 | rule insertI2)+

lemma known_code_ok: assumes "known_code code = Some c" shows "c \<in> codex_codes"
proof -
  have some: "(if code \<in> A then Some code else None) = Some c \<Longrightarrow> A \<subseteq> B \<Longrightarrow> c \<in> B" for A B :: "string set"
    by (auto split: if_splits)
  show ?thesis by (rule some[OF assms[unfolded known_code_def]]) (unfold codex_codes_def, (rule insert_subsetI empty_subsetI insertI1 | rule insertI2)+)
qed

lemma map_failure_ok: "map_failure code = (kind, retryable, Some c) \<Longrightarrow> c \<in> codex_codes"
  unfolding map_failure_def
  by (elim if_cases) (auto simp only: prod.inject option.inject option.distinct codex_known_texts dest: known_code_ok)

lemma codex_failure_fields:
  "(\<And>c. code = Some c \<Longrightarrow> c \<in> codex_codes) \<Longrightarrow> codex_failure_ok (codex_failure kind code retryable)"
  by (cases code) (simp_all add: codex_failure_ok_def codex_failure_def)

lemma local_failure_fields:
  "key \<in> {''codex.failure.timeout'', ''codex.failure.transport_lost''} \<Longrightarrow>
     codex_failure_ok (adapter_failure kind key retryable)"
  by (auto simp: codex_failure_ok_def adapter_failure_def)

lemma completed_outcome_ok:
  assumes "completed_outcome turn status = Inr (state, f)"
  shows "settled_state state \<and> status \<in> codex_statuses \<and> (\<forall>x. f = Some x \<longrightarrow> codex_failure_ok x)"
proof -
  have known: "c \<in> codex_codes" if "map_failure code = (kind, retryable, Some c)" for code kind retryable c
    by (rule map_failure_ok[OF that])
  consider "status = ''completed''" "state = Run_Succeeded" "f = None"
    | "status = ''interrupted''" "state = Run_Cancelled" "f = Some (codex_failure Failure_Cancelled (Some ''Interrupted'') False)"
    | code kind retryable safe where "status = ''failed''" "state = Run_Failed" "map_failure code = (kind, retryable, safe)"
        "f = Some (codex_failure kind safe retryable)"
    using assms unfolding completed_outcome_def Let_def by (auto split: if_splits prod.splits)
  then show ?thesis
  proof cases
    case 3
    then show ?thesis using known by (auto intro!: codex_failure_fields)
  qed (auto intro!: codex_failure_fields)
qed

text \<open>An event inside the stream, before the stream closes.\<close>

definition event_made :: "json_codec \<Rightarrow> CodexRunStream \<Rightarrow> NormalizedRunState \<Rightarrow> NormalizedCodexEvent normalizer_step \<Rightarrow> bool" where
  "event_made J s state p \<longleftrightarrow> (case p of
     (Inl x, n) \<Rightarrow> n = cs_normalizer s
   | (Inr e, n) \<Rightarrow> cn_run_id n = cn_run_id (cs_normalizer s) \<and> nae_state (cx_event e) = state \<and>
       nae_sequence (cx_event e) = cn_next_sequence (cs_normalizer s) \<and>
       checked_add (cn_next_sequence (cs_normalizer s)) 1 = Some (cn_next_sequence n) \<and>
       codex_event_ok J s (cx_event e) \<and> (\<forall>x. cx_failure e = Some x \<longrightarrow> codex_failure_ok x))"

lemma event_made_Err [simp]: "event_made J s state (Inl x, cs_normalizer s)"
  by (simp add: event_made_def)

lemma normalized_event_made:
  assumes "event_type \<in> codex_event_types" and "evidence \<in> {ProviderReported, LocallyMeasured}"
    and "\<And>x. i = Some x \<Longrightarrow> \<not> blank x" and "codex_payload_ok s i v" and "\<And>x. f = Some x \<Longrightarrow> codex_failure_ok x"
  shows "event_made J s state (normalized_event J state event_type at evidence i v f (cs_normalizer s))"
  using assms by (auto simp: event_made_def normalized_event_def codex_event_ok_def split: option.split)

lemma payload_status: "x \<in> codex_statuses \<Longrightarrow> codex_payload_ok s None (status_payload x)"
  by (auto simp: codex_payload_ok_def)

lemma payload_turn:
  "i = cs_provider_turn_id s \<Longrightarrow> x \<in> codex_statuses \<Longrightarrow> codex_payload_ok s (Some i) (turn_payload i x)"
  by (auto simp: codex_payload_ok_def)

lemma payload_thread: "codex_payload_ok s (Some thread) (thread_payload thread)"
  by (auto simp: codex_payload_ok_def)

lemma effect_open:
  assumes "event_made J s state (f (cs_normalizer s))" and "\<not> cs_terminal s" and "\<not> settled_state state"
  shows "codex_effect J s (stream_some (with_normalizer f s))"
  using assms by (cases "f (cs_normalizer s)"; cases "fst (f (cs_normalizer s))")
    (auto simp: event_made_def with_normalizer_def codex_same_def)

lemma effect_closing:
  assumes "event_made J s state (f (cs_normalizer s))" and "\<not> cs_terminal s" and "settled_state state"
  shows "codex_effect J s (stream_some (case with_normalizer f s of
    (Inl x, t) \<Rightarrow> (Err x, t) | (Inr e, t) \<Rightarrow> (Ok e, t\<lparr>cs_terminal := True\<rparr>)))"
  using assms by (cases "f (cs_normalizer s)"; cases "fst (f (cs_normalizer s))")
    (auto simp: event_made_def with_normalizer_def codex_same_def)

lemma turn_started_made:
  assumes "and_then (turn_of params) (lc_required_string ''id'') = Inr (cs_provider_turn_id s)"
  shows "event_made J s Run_Running (turn_started J params at (cs_normalizer s))"
proof -
  have id: "i = cs_provider_turn_id s \<and> \<not> blank i"
    if "turn_of params = Inr turn" "lc_required_string ''id'' turn = Inr i" for turn i
    using assms that by (auto simp: lc_required_string_def)
  let ?r = "and_then (turn_of params) (\<lambda>turn.
           and_then (lc_required_string ''id'' turn) (\<lambda>turn_id.
           and_then (lc_required_string ''status'' turn) (\<lambda>status.
           and_then (ensure (status = ''inProgress'') Lc_ProtocolDrift) (\<lambda>_. Ok turn_id))))"
  show ?thesis
  proof (cases ?r)
    case (Inr turn_id)
    then obtain turn where "turn_of params = Inr turn" "lc_required_string ''id'' turn = Inr turn_id"
      by (auto simp: and_then_eq_Ok)
    note own = id[OF this]
    show ?thesis unfolding turn_started_def Inr sum.case
      by (rule normalized_event_made) (use own in \<open>auto simp: payload_turn\<close>)
  qed (simp add: turn_started_def)
qed

lemma turn_completed_made:
  assumes "and_then (turn_of params) (lc_required_string ''id'') = Inr (cs_provider_turn_id s)"
  shows "\<exists>state. settled_state state \<and> event_made J s state (turn_completed J params at (cs_normalizer s))"
proof -
  have id: "i = cs_provider_turn_id s \<and> \<not> blank i"
    if "turn_of params = Inr turn" "lc_required_string ''id'' turn = Inr i" for turn i
    using assms that by (auto simp: lc_required_string_def)
  let ?r = "and_then (turn_of params) (\<lambda>turn.
           and_then (lc_required_string ''id'' turn) (\<lambda>turn_id.
           and_then (lc_required_string ''status'' turn) (\<lambda>status.
           and_then (completed_outcome turn status) (\<lambda>(state, f). Ok (turn_id, status, state, f)))))"
  show ?thesis
  proof (cases ?r)
    case (Inl e)
    then show ?thesis by (intro exI[of _ Run_Succeeded]) (simp add: turn_completed_def)
  next
    case (Inr x)
    then obtain turn turn_id status state f where
      x: "x = (turn_id, status, state, f)" "turn_of params = Inr turn" "lc_required_string ''id'' turn = Inr turn_id"
        "completed_outcome turn status = Inr (state, f)"
      by (auto simp: and_then_eq_Ok)
    note ok = completed_outcome_ok[OF x(4)]
    have "event_made J s state (turn_completed J params at (cs_normalizer s))"
      unfolding turn_completed_def Inr x(1) sum.case prod.case
      by (rule normalized_event_made) (use ok id[OF x(2,3)] in \<open>auto simp: payload_turn\<close>)
    with ok show ?thesis by blast
  qed
qed

lemma ingest_effect: "codex_effect J s (codex_ingest J note at s)"
proof (cases "nt_method note \<in> {''turn/started'', ''turn/completed''} \<and> \<not> cs_terminal s \<and>
    and_then (turn_of (nt_params note)) (lc_required_string ''id'') = Inr (cs_provider_turn_id s)")
  case True
  then have id: "and_then (turn_of (nt_params note)) (lc_required_string ''id'') = Inr (cs_provider_turn_id s)"
    and open': "\<not> cs_terminal s" and m: "nt_method note = ''turn/started'' \<or> nt_method note = ''turn/completed''" by auto
  note made = turn_started_made[OF id, of J at] turn_completed_made[OF id, of J at]
  from m show ?thesis
  proof
    assume m: "nt_method note = ''turn/started''"
    obtain r n where r: "turn_started J (nt_params note) at (cs_normalizer s) = (r, n)" by fastforce
    show ?thesis using made(1) open' m id r
      by (cases r) (auto simp: codex_ingest_def with_normalizer_def normalize_notification_def event_made_def codex_same_def)
  next
    assume m: "nt_method note = ''turn/completed''"
    obtain r n where r: "turn_completed J (nt_params note) at (cs_normalizer s) = (r, n)" by fastforce
    obtain state where "settled_state state" "event_made J s state (r, n)" using made(2) r by auto
    then show ?thesis using open' m id r
      by (cases r) (auto simp: codex_ingest_def with_normalizer_def normalize_notification_def event_made_def codex_same_def)
  qed
next
  case False
  then show ?thesis by (auto simp: codex_ingest_def split: sum.split)
qed

lemma recovery_effect:
  "codex_effect J s (stream_some (codex_recovery_started J thread at s))"
proof -
  have "event_made J s Run_Recovering (normalizer_recovery_started J thread at (cs_normalizer s))"
    unfolding normalizer_recovery_started_def by (auto simp: payload_thread intro!: normalized_event_made)
  from effect_open[where f = "normalizer_recovery_started J thread at", OF this]
  show ?thesis by (simp add: codex_recovery_started_def)
qed

lemma cancellation_effect:
  "codex_effect J s (stream_some (codex_cancellation_requested J at s))"
proof -
  have "event_made J s Run_Cancelling (normalizer_cancellation_requested J at (cs_normalizer s))"
    unfolding normalizer_cancellation_requested_def by (rule normalized_event_made) (simp_all add: payload_status)
  from effect_open[where f = "normalizer_cancellation_requested J at", OF this]
  show ?thesis by (simp add: codex_cancellation_requested_def)
qed

lemma codex_local_terminal_effect:
  assumes "status \<in> codex_statuses" and "event_type \<in> codex_event_types" and "settled_state state"
    and "key \<in> {''codex.failure.timeout'', ''codex.failure.transport_lost''}"
  shows "codex_effect J s (stream_some (codex_local_terminal J state status event_type at kind key retryable s))"
proof -
  let ?f = "normalized_event J state event_type at LocallyMeasured None (status_payload status)
    (Some (adapter_failure kind key retryable))"
  have "event_made J s state (?f (cs_normalizer s))"
    by (rule normalized_event_made) (use assms local_failure_fields in \<open>auto simp: payload_status\<close>)
  from effect_closing[where f = ?f, OF this] assms(3) show ?thesis by (simp add: codex_local_terminal_def)
qed

lemma codex_do_effect: "codex_effect J s (codex_do J s a)"
  by (cases a) (simp_all add: ingest_effect recovery_effect cancellation_effect codex_deadline_exceeded_def
    codex_transport_lost_def codex_local_terminal_effect)

section \<open>The stream is a source of events\<close>

lemma codex_emit_effect:
  assumes "codex_emit J s a = (x, t)"
  shows "(\<forall>e. x = Some e \<longrightarrow> codex_same s t \<and> \<not> cs_terminal s \<and> (cs_terminal t \<longleftrightarrow> settled_state (nae_state e)) \<and>
      nae_sequence e = cn_next_sequence (cs_normalizer s) \<and>
      checked_add (cn_next_sequence (cs_normalizer s)) 1 = Some (cn_next_sequence (cs_normalizer t)) \<and>
      codex_event_ok J s e) \<and> (x = None \<longrightarrow> t = s)"
proof -
  obtain r where r: "codex_do J s a = (r, t)" "x = codex_result_event r"
    using assms by (auto simp: codex_emit_def split: prod.splits)
  note effect = codex_do_effect[of J s a, unfolded r(1)]
  show ?thesis using effect r(2) by (cases r rule: codex_result_event.cases) auto
qed

lemma codex_event_ok_same: "codex_same s t \<Longrightarrow> codex_event_ok J t = codex_event_ok J s"
  by (simp add: codex_event_ok_def codex_payload_ok_def codex_same_def fun_eq_iff)

lemma checked_succ:
  assumes "checked_add (n :: u64) 1 = Some m" shows "m - 1 = n" and "m \<noteq> 0"
proof -
  have "m = n + 1" using assms by (simp add: checked_add_def split: if_splits)
  then show "m - 1 = n" by simp
  have "unat m = unat n + 1" using checked_add_Some[OF assms] by simp
  then show "m \<noteq> 0" by auto
qed

lemma codex_numbered:
  assumes "checked_add (cn_next_sequence (cs_normalizer s)) 1 = Some (cn_next_sequence (cs_normalizer t))"
  shows "codex_last_sequence t = cn_next_sequence (cs_normalizer s)" and "codex_good t"
  using checked_succ[OF assms] by (simp_all add: codex_last_sequence_def codex_good_def)

lemma codex_good_sequence:
  assumes "codex_good s" shows "unat (cn_next_sequence (cs_normalizer s)) = Suc (unat (codex_last_sequence s))"
proof -
  have "0 < unat (cn_next_sequence (cs_normalizer s))" using assms by (simp add: codex_good_def unat_gt_0)
  then show ?thesis using assms by (simp add: codex_last_sequence_def codex_good_def unat_minus_one)
qed

interpretation codex: event_source "codex_emit J" codex_good codex_last_sequence cs_terminal "codex_event_ok J" for J
proof
  fix s a x t assume "codex_good s" and "codex_emit J s a = (x, t)"
  with codex_emit_effect[of J s a x t] codex_numbered(2) show "codex_good t" by (cases x) auto
next
  fix s a x t assume "codex_emit J s a = (x, t)"
  with codex_emit_effect[of J s a x t] codex_event_ok_same show "codex_event_ok J t = codex_event_ok J s" by (cases x) auto
qed (auto dest!: codex_emit_effect simp: codex_numbered codex_good_sequence)

end
