(* ===== verification/Codex_Receipts.thy ===== *)
theory Codex_Receipts
  imports Codex_Run Codex_Events Receipt_Order
begin

text \<open>
  Any use of a tracked run: the calls a caller makes, the updates they hand out in order, and why
  the receipt of a changed workspace is among them before the terminal state.
\<close>

section \<open>Calls on a tracked run\<close>

type_synonym disk_view = "string \<Rightarrow> (WorkspaceEvidenceError, WorkspaceSnapshot) result"

text \<open>The view of the disk is the one at the moment of the call.\<close>

datatype run_call =
    Rc_RequestCancellation string "nat option"
  | Rc_ResumeThread string
  | Rc_NextUpdate disk_view string
  | Rc_PollUpdate disk_view string "nat \<Rightarrow> nat" nat nat nat

fun call_view :: "run_call \<Rightarrow> disk_view option" where
  "call_view (Rc_NextUpdate capture at) = Some capture"
| "call_view (Rc_PollUpdate capture at now horizon longest max_wait) = Some capture"
| "call_view _ = None"

fun update_of :: "(RunTrackerError, CodexRunUpdate) result \<Rightarrow> CodexRunUpdate option" where
  "update_of (Inl e) = None"
| "update_of (Inr u) = Some u"

fun polled_update :: "(RunTrackerError, CodexRunUpdate option) result \<Rightarrow> CodexRunUpdate option" where
  "polled_update (Inl e) = None"
| "polled_update (Inr u) = u"

fun tracker_do ::
  "codex_env \<Rightarrow> 't transport \<Rightarrow> run_call \<Rightarrow> CodexRunTracker \<Rightarrow> 't server \<Rightarrow>
   (CodexRunUpdate option \<times> CodexRunTracker \<times> 't server) option" where
  "tracker_do E T (Rc_RequestCancellation at max_wait) k sv =
     (case request_cancellation (cv_codec E) T at max_wait k sv of (r, k', sv') \<Rightarrow> Some (update_of r, k', sv'))"
| "tracker_do E T (Rc_ResumeThread at) k sv =
     (case tracker_resume_thread E T at k sv of (r, k', sv') \<Rightarrow>
        Some (update_of (and_then r (\<lambda>(handle, u). Ok u)), k', sv'))"
| "tracker_do E T (Rc_NextUpdate capture at) k sv =
     map_option (\<lambda>(r, k', sv'). (update_of r, k', sv')) (next_update (cv_codec E) T capture at k sv)"
| "tracker_do E T (Rc_PollUpdate capture at now horizon longest max_wait) k sv =
     map_option (\<lambda>(r, k', sv'). (polled_update r, k', sv'))
       (poll_update (cv_codec E) T capture at now horizon longest max_wait k sv)"

definition tracker_uses ::
  "codex_env \<Rightarrow> 't transport \<Rightarrow> run_call list \<Rightarrow> CodexRunTracker \<Rightarrow> 't server \<Rightarrow>
   (CodexRunUpdate list \<times> CodexRunTracker \<times> 't server) option" where
  "tracker_uses E T cs k sv = reports (\<lambda>c (k, sv). tracker_do E T c k sv) cs (k, sv)"

section \<open>One call\<close>

text \<open>A receipt was handed out: by the provider, or ahead of the terminal state that is kept back.\<close>

definition receipted :: "CodexRunTracker \<Rightarrow> bool" where
  "receipted k \<longleftrightarrow> tk_provider_write_receipt k \<or> tk_pending_terminal k \<noteq> None"

definition call_effect :: "CodexRunTracker \<Rightarrow> run_call \<Rightarrow> CodexRunUpdate option \<Rightarrow> CodexRunTracker \<Rightarrow> bool" where
  "call_effect k c u k' \<longleftrightarrow> tk_before k' = tk_before k \<and>
     (receipted k' \<longrightarrow> receipted k \<or> (\<exists>w. u = Some w \<and> write_receipt_update w)) \<and>
     (\<forall>w before. u = Some w \<longrightarrow> terminal_update w \<longrightarrow> tk_before k = Some before \<longrightarrow>
        receipted k \<or> (\<exists>capture. call_view c = Some capture \<and> workspace_unchanged capture before))"

lemma with_view_fields [simp]:
  "tk_before (with_view v k) = tk_before k" "tk_provider_write_receipt (with_view v k) = tk_provider_write_receipt k"
  "tk_pending_terminal (with_view v k) = tk_pending_terminal k"
  by (simp_all add: with_view_def)

lemma receipted_view [simp]: "receipted (with_view v k) = receipted k"
  by (simp add: receipted_def)

lemma call_effect_same:
  "tk_before k' = tk_before k \<Longrightarrow> tk_provider_write_receipt k' = tk_provider_write_receipt k \<Longrightarrow>
   tk_pending_terminal k' = tk_pending_terminal k \<Longrightarrow> (\<And>w. u = Some w \<Longrightarrow> \<not> terminal_update w) \<Longrightarrow>
   call_effect k c u k'"
  by (auto simp: call_effect_def receipted_def)

lemma call_effect_pending: "tk_pending_terminal k = Some w \<Longrightarrow> call_effect k c u (k\<lparr>tk_pending_terminal := None\<rparr>)"
  by (auto simp: call_effect_def receipted_def)

lemma call_effect_ordered:
  assumes o: "order_update J capture u (with_view v k) = (r, k')" and c: "call_view c = Some capture"
  shows "call_effect k c (update_of r) k'"
proof -
  have before: "tk_before k' = tk_before k"
    and flag: "tk_provider_write_receipt k' \<longleftrightarrow> tk_provider_write_receipt k \<or> write_receipt_update u"
    using order_provider_receipt[OF o] by auto
  have pending: "tk_pending_terminal k' = tk_pending_terminal k \<or> (\<exists>receipt. r = Inr (Up_Evidence (WriteReceipt receipt)))"
    using order_pending[OF o] by auto
  have same: "r = Inr u" if "write_receipt_update u" using o that by (auto simp: order_update_def)
  have terminal: "receipted k \<or> workspace_unchanged capture b"
    if "r = Inr w" "terminal_update w" "tk_before k = Some b" for w b
    using order_terminal[OF o[unfolded that(1)] that(2), of b] that(3) by (auto simp: receipted_def)
  show ?thesis unfolding call_effect_def
  proof (intro conjI allI impI)
    show "tk_before k' = tk_before k" by (rule before)
    show "receipted k \<or> (\<exists>w. update_of r = Some w \<and> write_receipt_update w)" if "receipted k'"
      using that flag pending same by (auto simp: receipted_def)
    show "receipted k \<or> (\<exists>capture. call_view c = Some capture \<and> workspace_unchanged capture b)"
      if "update_of r = Some w" "terminal_update w" "tk_before k = Some b" for w b
      using that terminal[of w b] c by (cases r) auto
  qed
qed

text \<open>The requests of a cancellation and of a resumption are no terminal states.\<close>

lemma normalized_state:
  "normalized_event J state event_type at evidence i v f n = (Inr e, n') \<Longrightarrow> nae_state (cx_event e) = state"
  by (auto simp: normalized_event_def split: if_splits option.splits)

lemma requested_state:
  "codex_cancellation_requested J at s = (Inr e, t) \<Longrightarrow> nae_state (cx_event e) = Run_Cancelling"
  "codex_recovery_started J thread at s = (Inr e, t) \<Longrightarrow> nae_state (cx_event e) = Run_Recovering"
  by (auto simp: codex_cancellation_requested_def codex_recovery_started_def with_normalizer_def
      normalizer_cancellation_requested_def normalizer_recovery_started_def
    dest: normalized_state split: if_splits prod.splits)

lemma request_cancellation_effect:
  "request_cancellation J T at max_wait k sv = (r, k', sv') \<Longrightarrow> call_effect k c (update_of r) k'"
  by (rule call_effect_same) (auto simp: request_cancellation_def and_then_eq_Ok
    dest!: requested_state split: prod.splits sum.splits elim!: update_of.elims)

lemma resume_effect:
  "tracker_resume_thread E T at k sv = (r, k', sv') \<Longrightarrow>
   call_effect k c (update_of (and_then r (\<lambda>(handle, u). Ok u))) k'"
  by (rule call_effect_same) (auto simp: tracker_resume_thread_def and_then_eq_Ok
    dest!: requested_state split: prod.splits sum.splits elim!: update_of.elims)

lemma next_update_effect:
  assumes "next_update J T capture at k sv = Some (r, k', sv')" and c: "call_view c = Some capture"
  shows "call_effect k c (update_of r) k'"
proof (cases "tk_pending_terminal k")
  case (Some w)
  with assms call_effect_pending[OF Some] show ?thesis by (auto simp: next_update_def)
next
  case None
  with assms(1) obtain x v sv1 where
    "next_run_update J T (tk_evidence k) at (tracker_view k) sv = Some (x, v, sv1)"
    and x: "(r, k', sv') = (case x of Inl e \<Rightarrow> (Inl (Rt_AppServer e), with_view v k, sv1)
      | Inr u \<Rightarrow> (case order_update J capture u (with_view v k) of (r, k) \<Rightarrow> (r, k, sv1)))"
    by (auto simp: next_update_def)
  show ?thesis
  proof (cases x)
    case (Inl e)
    with x show ?thesis by (auto intro!: call_effect_same)
  next
    case (Inr u)
    with x have "order_update J capture u (with_view v k) = (r, k')" by (auto split: prod.splits)
    from call_effect_ordered[OF this c] show ?thesis .
  qed
qed

lemma poll_update_effect:
  assumes "poll_update J T capture at now horizon longest max_wait k sv = Some (r, k', sv')"
    and c: "call_view c = Some capture"
  shows "call_effect k c (polled_update r) k'"
proof (cases "tk_pending_terminal k")
  case (Some w)
  with assms call_effect_pending[OF Some] show ?thesis by (auto simp: poll_update_def)
next
  case None
  with assms(1) obtain x v sv1 where
    x: "(r, k', sv') = (case x of Inl e \<Rightarrow> (Inl (Rt_AppServer e), with_view v k, sv1)
      | Inr None \<Rightarrow> (Ok None, with_view v k, sv1)
      | Inr (Some u) \<Rightarrow> (case order_update J capture u (with_view v k) of
          (r, k) \<Rightarrow> (and_then r (\<lambda>u. Ok (Some u)), k, sv1)))"
    by (auto simp: poll_update_def eq_commute[of "(r, k', sv')"])
  consider (none) "polled_update r = None" "k' = with_view v k"
    | (update) u y where "order_update J capture u (with_view v k) = (y, k')" "r = and_then y (\<lambda>u. Ok (Some u))"
    using x by (auto split: sum.splits option.splits prod.splits)
  then show ?thesis
  proof cases
    case none
    then show ?thesis by (auto intro!: call_effect_same)
  next
    case update
    have "polled_update r = update_of y" using update(2) by (cases y) auto
    with call_effect_ordered[OF update(1) c] show ?thesis by simp
  qed
qed

lemma tracker_do_effect:
  assumes "tracker_do E T c k sv = Some (u, k', sv')" shows "call_effect k c u k'"
proof (cases c)
  case (Rc_RequestCancellation at max_wait)
  with assms show ?thesis by (auto split: prod.splits intro: request_cancellation_effect)
next
  case (Rc_ResumeThread at)
  with assms show ?thesis by (auto split: prod.splits intro: resume_effect)
next
  case (Rc_NextUpdate capture at)
  with assms show ?thesis by (auto intro: next_update_effect)
next
  case (Rc_PollUpdate capture at now horizon longest max_wait)
  with assms show ?thesis by (auto intro: poll_update_effect)
qed

section \<open>Any sequence of calls\<close>

interpretation tracker: receipt_source "\<lambda>c (k, sv). tracker_do E T c k sv" "\<lambda>(k, sv). tk_before k = Some before"
  "\<lambda>(k, sv). receipted k" terminal_update write_receipt_update
  "\<lambda>c. \<exists>capture. call_view c = Some capture \<and> workspace_unchanged capture before" for E T before
  by unfold_locales (auto simp: call_effect_def dest!: tracker_do_effect)

definition view_unchanged :: "run_call list \<Rightarrow> WorkspaceSnapshot \<Rightarrow> bool" where
  "view_unchanged cs before \<longleftrightarrow>
     (\<exists>c \<in> set cs. \<exists>capture. call_view c = Some capture \<and> workspace_unchanged capture before)"

lemma tracker_uses_receipt:
  "tracker_uses E T cs k sv = Some (us, k', sv') \<Longrightarrow> tk_before k = Some before \<Longrightarrow> \<not> receipted k \<Longrightarrow>
   i < length us \<Longrightarrow> terminal_update (us ! i) \<Longrightarrow>
   (\<exists>j < i. write_receipt_update (us ! j)) \<or> view_unchanged cs before"
  unfolding tracker_uses_def view_unchanged_def by (drule tracker.receipt_first) auto

lemma tracker_new_fields:
  "tracker_new r thread turn before = Inr k \<Longrightarrow> tk_before k = before \<and> \<not> receipted k"
  by (auto simp: tracker_new_def receipted_def and_then_eq_Ok)

end
