(* ===== verification/Conformance.thy ===== *)
theory Conformance
  imports Adapter
begin

text \<open>
  The suite every adapter is measured with (\<open>bastet-adapter-conformance/src/lib.rs\<close>): ten
  scenarios, each judged by the events, the final state, the failure, the receipts and the cost an
  adapter reports. An adapter is a function of its own state.
\<close>

section \<open>Data\<close>

datatype ConformanceScenario =
  Sc_ReadOnly | Sc_Write | Sc_Cancel | Sc_Timeout | Sc_AuthenticationFailure | Sc_QuotaFailure | Sc_Crash
| Sc_Resume | Sc_Redaction | Sc_CostEvidence

definition REQUIRED_SCENARIOS :: "ConformanceScenario list" where
  "REQUIRED_SCENARIOS = [Sc_ReadOnly, Sc_Write, Sc_Cancel, Sc_Timeout, Sc_AuthenticationFailure, Sc_QuotaFailure,
     Sc_Crash, Sc_Resume, Sc_Redaction, Sc_CostEvidence]"

definition SECRET_SENTINEL :: string where
  "SECRET_SENTINEL = ''BASTET_CONFORMANCE_SECRET_DO_NOT_LOG''"

record ConformanceCase =
  cc_scenario :: ConformanceScenario
  cc_run_id :: RunId
  cc_secret_sentinels :: "string list"

record ConformanceObservation =
  ob_scenario :: ConformanceScenario
  ob_events :: "NormalizedAdapterEvent list"
  ob_final_state :: NormalizedRunState
  ob_failure :: "AdapterFailure option"
  ob_write_receipts :: "string list"
  ob_cost :: "CostEvidence option"

record 's conformance_adapter =
  ca_adapter_kind :: string
  ca_capabilities :: AdapterCapabilities
  ca_run_case :: "'s \<Rightarrow> ConformanceCase \<Rightarrow> ConformanceObservation \<times> 's"

datatype FindingKind =
  Fi_ScenarioMismatch | Fi_MissingCapability | Fi_InvalidFinalState | Fi_InvalidFailure | Fi_InvalidEvent
| Fi_UnexpectedWrite | Fi_MissingWriteReceipt | Fi_SecretLeak | Fi_InvalidCostEvidence

record ConformanceFinding =
  fi_scenario :: ConformanceScenario
  fi_kind :: FindingKind
  fi_detail :: string

record ScenarioResult =
  sr_scenario :: ConformanceScenario
  sr_run_id :: RunId
  sr_passed :: bool
  sr_findings :: "ConformanceFinding list"

record ConformanceReport =
  cp_contract_version :: u32
  cp_adapter_kind :: string
  cp_capabilities :: AdapterCapabilities
  cp_passed :: bool
  cp_results :: "ScenarioResult list"

section \<open>Findings\<close>

definition finding :: "ConformanceScenario \<Rightarrow> FindingKind \<Rightarrow> string \<Rightarrow> ConformanceFinding list \<Rightarrow> ConformanceFinding list" where
  "finding scenario kind detail fs = fs @ [\<lparr>fi_scenario = scenario, fi_kind = kind, fi_detail = detail\<rparr>]"

definition finding_unless ::
  "bool \<Rightarrow> ConformanceCase \<Rightarrow> FindingKind \<Rightarrow> string \<Rightarrow> ConformanceFinding list \<Rightarrow> ConformanceFinding list" where
  "finding_unless ok c kind detail fs = (if ok then fs else finding (cc_scenario c) kind detail fs)"

definition require_capability :: "bool \<Rightarrow> ConformanceCase \<Rightarrow> ConformanceFinding list \<Rightarrow> ConformanceFinding list" where
  "require_capability supported c =
     finding_unless supported c Fi_MissingCapability ''adapter does not declare the required capability''"

definition require_operation ::
  "AdapterOperation \<Rightarrow> AdapterCapabilities \<Rightarrow> ConformanceCase \<Rightarrow> ConformanceFinding list \<Rightarrow> ConformanceFinding list" where
  "require_operation operation caps c =
     finding_unless (operation \<in> set (operations caps)) c Fi_MissingCapability
       ''adapter does not declare the required operation''"

definition require_state ::
  "NormalizedRunState \<Rightarrow> ConformanceCase \<Rightarrow> ConformanceObservation \<Rightarrow> ConformanceFinding list \<Rightarrow> ConformanceFinding list" where
  "require_state expected c ob =
     finding_unless (ob_final_state ob = expected) c Fi_InvalidFinalState ''adapter returned the wrong final state''"

definition failure_is_valid :: "AdapterFailureKind \<Rightarrow> AdapterFailure option \<Rightarrow> bool" where
  "failure_is_valid expected f = (case f of
     None \<Rightarrow> False
   | Some x \<Rightarrow> af_kind x = expected \<and> \<not> blank (af_message_key x) \<and>
       (case af_provider_code x of None \<Rightarrow> True | Some code \<Rightarrow> \<not> blank code))"

definition require_failure ::
  "AdapterFailureKind \<Rightarrow> ConformanceCase \<Rightarrow> ConformanceObservation \<Rightarrow> ConformanceFinding list \<Rightarrow> ConformanceFinding list" where
  "require_failure expected c ob =
     finding_unless (failure_is_valid expected (ob_failure ob)) c Fi_InvalidFailure
       ''adapter returned the wrong normalized failure''"

definition valid_cost :: "CostEvidence option \<Rightarrow> bool" where
  "valid_cost cost = (case cost of
     None \<Rightarrow> False
   | Some c \<Rightarrow> ce_evidence_class c \<noteq> UnknownEvidence \<and> ieee_in_unit (ce_confidence c) \<and>
       (case ce_amount c of
          Some amount \<Rightarrow> amount \<noteq> NaN \<and> \<not> ieee_negative amount \<and>
            (case ce_currency c of None \<Rightarrow> False | Some currency \<Rightarrow> \<not> blank currency)
        | None \<Rightarrow> ce_currency c = None))"

section \<open>Events and secrets\<close>

definition metadata_is_valid :: "NormalizedAdapterEvent \<Rightarrow> bool" where
  "metadata_is_valid e \<longleftrightarrow> \<not> blank (nae_event_type e) \<and> \<not> blank (nae_occurred_at e) \<and>
     nae_evidence_class e \<noteq> UnknownEvidence \<and>
     (case nae_provider_event_id e of None \<Rightarrow> True | Some i \<Rightarrow> \<not> blank i)"

text \<open>The loop over the events; \<open>sequences\<close> and \<open>previous\<close> are its variables.\<close>

fun events_valid ::
  "json_codec \<Rightarrow> ConformanceCase \<Rightarrow> u64 set \<Rightarrow> u64 option \<Rightarrow> NormalizedAdapterEvent list \<Rightarrow> bool" where
  "events_valid J c sequences previous [] = True"
| "events_valid J c sequences previous (e # es) =
     ((case previous of None \<Rightarrow> True | Some p \<Rightarrow> p < nae_sequence e) \<and> nae_sequence e \<notin> sequences \<and>
      json_parse J (nae_redacted_payload_json e) \<noteq> None \<and> metadata_is_valid e \<and>
      nae_contract_version e = AGENT_ADAPTER_CONTRACT_VERSION \<and> nae_run_id e = cc_run_id c \<and>
      events_valid J c (insert (nae_sequence e) sequences) (Some (nae_sequence e)) es)"

definition validate_events ::
  "json_codec \<Rightarrow> ConformanceCase \<Rightarrow> ConformanceObservation \<Rightarrow> ConformanceFinding list \<Rightarrow> ConformanceFinding list" where
  "validate_events J c ob fs =
     (if ob_events ob = []
      then finding (cc_scenario c) Fi_InvalidEvent ''at least one normalized event is required'' fs
      else finding_unless (nae_state (last (ob_events ob)) = ob_final_state ob) c Fi_InvalidEvent
             ''last event state must match final state''
          (finding_unless (events_valid J c {} None (ob_events ob)) c Fi_InvalidEvent
             ''event version, run identity, sequence, evidence, metadata, or JSON payload is invalid'' fs))"

definition observed_texts :: "ConformanceObservation \<Rightarrow> string list" where
  "observed_texts ob = map nae_redacted_payload_json (ob_events ob) @
     (case Option.bind (ob_failure ob) af_redacted_detail of None \<Rightarrow> [] | Some d \<Rightarrow> [d]) @ ob_write_receipts ob"

definition validate_secrets ::
  "ConformanceCase \<Rightarrow> ConformanceObservation \<Rightarrow> ConformanceFinding list \<Rightarrow> ConformanceFinding list" where
  "validate_secrets c ob =
     finding_unless (\<not> list_ex (\<lambda>v. list_ex (text_contains v) (cc_secret_sentinels c)) (observed_texts ob)) c
       Fi_SecretLeak ''secret sentinel appeared in adapter evidence''"

section \<open>Scenarios\<close>

definition entered :: "NormalizedRunState \<Rightarrow> ConformanceObservation \<Rightarrow> bool" where
  "entered state ob = list_ex (\<lambda>e. nae_state e = state) (ob_events ob)"

fun scenario_rules ::
  "ConformanceScenario \<Rightarrow> AdapterCapabilities \<Rightarrow> ConformanceCase \<Rightarrow> ConformanceObservation \<Rightarrow>
   (ConformanceFinding list \<Rightarrow> ConformanceFinding list) list" where
  "scenario_rules Sc_ReadOnly caps c ob =
     [require_operation Adp_Start caps c, require_capability (supports_read_only caps) c,
      require_state Run_Succeeded c ob,
      finding_unless (ob_write_receipts ob = []) c Fi_UnexpectedWrite ''read-only scenario emitted a write receipt'']"
| "scenario_rules Sc_Write caps c ob =
     [require_operation Adp_Start caps c, require_capability (supports_write caps) c,
      require_state Run_Succeeded c ob,
      finding_unless (\<not> (ob_write_receipts ob = [] \<or> list_ex blank (ob_write_receipts ob))) c
        Fi_MissingWriteReceipt ''write scenario requires an evidence receipt'']"
| "scenario_rules Sc_Cancel caps c ob =
     [require_operation Adp_Cancel caps c, require_state Run_Cancelled c ob, require_failure Failure_Cancelled c ob,
      finding_unless (entered Run_Cancelling ob) c Fi_InvalidFinalState ''cancel scenario never entered cancelling'']"
| "scenario_rules Sc_Timeout caps c ob =
     [require_operation Adp_Start caps c, require_state Run_Failed c ob, require_failure Timeout c ob]"
| "scenario_rules Sc_AuthenticationFailure caps c ob =
     [require_operation Adp_Authenticate caps c, require_state Run_Failed c ob, require_failure Authentication c ob]"
| "scenario_rules Sc_QuotaFailure caps c ob =
     [require_operation Adp_Start caps c, require_state Run_Failed c ob, require_failure Quota c ob]"
| "scenario_rules Sc_Crash caps c ob =
     [require_operation Adp_Start caps c, require_state Run_Uncertain c ob, require_failure Crashed c ob]"
| "scenario_rules Sc_Resume caps c ob =
     [require_operation Adp_Attach caps c, require_capability (supports_resume caps) c,
      require_state Run_Succeeded c ob,
      finding_unless (entered Run_Recovering ob) c Fi_InvalidFinalState ''resume scenario never entered recovering'']"
| "scenario_rules Sc_Redaction caps c ob =
     [require_operation Adp_Start caps c, require_state Run_Succeeded c ob]"
| "scenario_rules Sc_CostEvidence caps c ob =
     [require_operation Adp_ExportUsage caps c, require_state Run_Succeeded c ob,
      finding_unless (valid_cost (ob_cost ob)) c Fi_InvalidCostEvidence
        ''cost evidence is missing, unknown, inconsistent, or outside confidence range'']"

definition validate_scenario ::
  "ConformanceCase \<Rightarrow> AdapterCapabilities \<Rightarrow> ConformanceObservation \<Rightarrow> ConformanceFinding list \<Rightarrow> ConformanceFinding list" where
  "validate_scenario c caps ob fs = fold id (scenario_rules (cc_scenario c) caps c ob) fs"

definition validate_observation ::
  "json_codec \<Rightarrow> ConformanceCase \<Rightarrow> AdapterCapabilities \<Rightarrow> ConformanceObservation \<Rightarrow> ScenarioResult" where
  "validate_observation J c caps ob =
     (let fs = validate_scenario c caps ob (validate_secrets c ob (validate_events J c ob
          (require_capability (supports_structured_events caps) c
            (finding_unless (ob_scenario ob = cc_scenario c) c Fi_ScenarioMismatch
               ''adapter returned a different scenario'' [])))) in
      \<lparr>sr_scenario = cc_scenario c, sr_run_id = cc_run_id c, sr_passed = (fs = []), sr_findings = fs\<rparr>)"

section \<open>The suite\<close>

definition case_run_id :: "nat \<Rightarrow> RunId" where
  "case_run_id i = StableId (foldl (\<lambda>a b. a * 256 + of_nat b) 0 (map of_char ''BASTET-M2-CASE!'' @ [i mod 256]))"

definition required_cases :: "ConformanceCase list" where
  "required_cases = map (\<lambda>(i, scenario). \<lparr>cc_scenario = scenario, cc_run_id = case_run_id i,
     cc_secret_sentinels = [SECRET_SENTINEL]\<rparr>) (enumerate 0 REQUIRED_SCENARIOS)"

fun run_cases ::
  "json_codec \<Rightarrow> 's conformance_adapter \<Rightarrow> 's \<Rightarrow> ConformanceCase list \<Rightarrow> ScenarioResult list \<times> 's" where
  "run_cases J A s [] = ([], s)"
| "run_cases J A s (c # cs) =
     (case ca_run_case A s c of (ob, t) \<Rightarrow> case run_cases J A t cs of (rs, u) \<Rightarrow>
        (validate_observation J c (ca_capabilities A) ob # rs, u))"

definition run_required_suite :: "json_codec \<Rightarrow> 's conformance_adapter \<Rightarrow> 's \<Rightarrow> ConformanceReport" where
  "run_required_suite J A s =
     (let results = fst (run_cases J A s required_cases) in
      \<lparr>cp_contract_version = AGENT_ADAPTER_CONTRACT_VERSION, cp_adapter_kind = ca_adapter_kind A,
       cp_capabilities = ca_capabilities A, cp_passed = list_all sr_passed results, cp_results = results\<rparr>)"

section \<open>What a case passes\<close>

lemma finding_unless_Nil [simp]: "finding_unless ok c kind detail fs = [] \<longleftrightarrow> ok \<and> fs = []"
  by (simp add: finding_unless_def finding_def)

lemma require_Nil [simp]:
  "require_capability b c fs = [] \<longleftrightarrow> b \<and> fs = []"
  "require_operation x caps c fs = [] \<longleftrightarrow> x \<in> set (operations caps) \<and> fs = []"
  "require_state s c ob fs = [] \<longleftrightarrow> ob_final_state ob = s \<and> fs = []"
  "require_failure k c ob fs = [] \<longleftrightarrow> failure_is_valid k (ob_failure ob) \<and> fs = []"
  by (simp_all add: require_capability_def require_operation_def require_state_def require_failure_def)

lemma validate_events_Nil [simp]:
  "validate_events J c ob fs = [] \<longleftrightarrow> ob_events ob \<noteq> [] \<and> events_valid J c {} None (ob_events ob) \<and>
     nae_state (last (ob_events ob)) = ob_final_state ob \<and> fs = []"
  by (auto simp: validate_events_def finding_def)

lemma validate_secrets_Nil [simp]:
  "validate_secrets c ob fs = [] \<longleftrightarrow>
     (\<forall>v \<in> set (observed_texts ob). \<forall>x \<in> set (cc_secret_sentinels c). \<not> sublist x v) \<and> fs = []"
  by (simp add: validate_secrets_def list_ex_iff text_contains_iff)

text \<open>What the suite asks of an event, and of the answer to a case.\<close>

definition event_conforms :: "json_codec \<Rightarrow> RunId \<Rightarrow> NormalizedAdapterEvent \<Rightarrow> bool" where
  "event_conforms J r e \<longleftrightarrow> nae_contract_version e = AGENT_ADAPTER_CONTRACT_VERSION \<and> nae_run_id e = r \<and>
     \<not> blank (nae_event_type e) \<and> \<not> blank (nae_occurred_at e) \<and> nae_evidence_class e \<noteq> UnknownEvidence \<and>
     (\<forall>i. nae_provider_event_id e = Some i \<longrightarrow> \<not> blank i) \<and> json_parse J (nae_redacted_payload_json e) \<noteq> None"

lemma events_valid_from:
  assumes "\<And>x. x \<in> S \<Longrightarrow> \<exists>p. previous = Some p \<and> x \<le> p"
  shows "events_valid J c S previous es \<longleftrightarrow>
    (\<forall>p. previous = Some p \<longrightarrow> (\<forall>e \<in> set es. p < nae_sequence e)) \<and> sorted_wrt (<) (map nae_sequence es) \<and>
    (\<forall>e \<in> set es. event_conforms J (cc_run_id c) e)"
  using assms
proof (induction es arbitrary: S previous)
  case (Cons e es)
  let ?S = "insert (nae_sequence e) S"
  have fresh: "nae_sequence e \<notin> S" if "case previous of None \<Rightarrow> True | Some p \<Rightarrow> p < nae_sequence e"
    using that Cons.prems by (auto split: option.splits) fastforce
  have step: "\<exists>p. Some (nae_sequence e) = Some p \<and> x \<le> p"
    if "x \<in> ?S" "case previous of None \<Rightarrow> True | Some p \<Rightarrow> p < nae_sequence e" for x
    using that Cons.prems by (auto split: option.splits) fastforce+
  have ok: "event_conforms J (cc_run_id c) e \<longleftrightarrow> json_parse J (nae_redacted_payload_json e) \<noteq> None \<and>
      metadata_is_valid e \<and> nae_contract_version e = AGENT_ADAPTER_CONTRACT_VERSION \<and> nae_run_id e = cc_run_id c"
    by (auto simp: event_conforms_def metadata_is_valid_def split: option.split)
  show ?case
  proof (cases "case previous of None \<Rightarrow> True | Some p \<Rightarrow> p < nae_sequence e")
    case True
    have IH: "events_valid J c ?S (Some (nae_sequence e)) es \<longleftrightarrow>
        (\<forall>p. Some (nae_sequence e) = Some p \<longrightarrow> (\<forall>x \<in> set es. p < nae_sequence x)) \<and>
        sorted_wrt (<) (map nae_sequence es) \<and> (\<forall>x \<in> set es. event_conforms J (cc_run_id c) x)"
      by (rule Cons.IH) (rule step[OF _ True])
    show ?thesis using fresh[OF True] True ok
      by (auto simp: IH split: option.splits intro: order.strict_trans)
  qed (auto split: option.splits)
qed auto

lemma events_valid_iff:
  "events_valid J c {} None es \<longleftrightarrow>
     sorted_wrt (<) (map nae_sequence es) \<and> (\<forall>e \<in> set es. event_conforms J (cc_run_id c) e)"
  using events_valid_from[of "{}" None J c es] by simp

text \<open>The rules of a case in one predicate.\<close>

fun case_rules :: "ConformanceScenario \<Rightarrow> AdapterCapabilities \<Rightarrow> ConformanceObservation \<Rightarrow> bool" where
  "case_rules Sc_ReadOnly caps ob \<longleftrightarrow> Adp_Start \<in> set (operations caps) \<and> supports_read_only caps \<and>
     ob_final_state ob = Run_Succeeded \<and> ob_write_receipts ob = []"
| "case_rules Sc_Write caps ob \<longleftrightarrow> Adp_Start \<in> set (operations caps) \<and> supports_write caps \<and>
     ob_final_state ob = Run_Succeeded \<and> ob_write_receipts ob \<noteq> [] \<and> (\<forall>r \<in> set (ob_write_receipts ob). \<not> blank r)"
| "case_rules Sc_Cancel caps ob \<longleftrightarrow> Adp_Cancel \<in> set (operations caps) \<and> ob_final_state ob = Run_Cancelled \<and>
     failure_is_valid Failure_Cancelled (ob_failure ob) \<and> Run_Cancelling \<in> nae_state ` set (ob_events ob)"
| "case_rules Sc_Timeout caps ob \<longleftrightarrow> Adp_Start \<in> set (operations caps) \<and> ob_final_state ob = Run_Failed \<and>
     failure_is_valid Timeout (ob_failure ob)"
| "case_rules Sc_AuthenticationFailure caps ob \<longleftrightarrow> Adp_Authenticate \<in> set (operations caps) \<and>
     ob_final_state ob = Run_Failed \<and> failure_is_valid Authentication (ob_failure ob)"
| "case_rules Sc_QuotaFailure caps ob \<longleftrightarrow> Adp_Start \<in> set (operations caps) \<and> ob_final_state ob = Run_Failed \<and>
     failure_is_valid Quota (ob_failure ob)"
| "case_rules Sc_Crash caps ob \<longleftrightarrow> Adp_Start \<in> set (operations caps) \<and> ob_final_state ob = Run_Uncertain \<and>
     failure_is_valid Crashed (ob_failure ob)"
| "case_rules Sc_Resume caps ob \<longleftrightarrow> Adp_Attach \<in> set (operations caps) \<and> supports_resume caps \<and>
     ob_final_state ob = Run_Succeeded \<and> Run_Recovering \<in> nae_state ` set (ob_events ob)"
| "case_rules Sc_Redaction caps ob \<longleftrightarrow> Adp_Start \<in> set (operations caps) \<and> ob_final_state ob = Run_Succeeded"
| "case_rules Sc_CostEvidence caps ob \<longleftrightarrow> Adp_ExportUsage \<in> set (operations caps) \<and>
     ob_final_state ob = Run_Succeeded \<and> valid_cost (ob_cost ob)"

definition case_conforms ::
  "json_codec \<Rightarrow> ConformanceCase \<Rightarrow> AdapterCapabilities \<Rightarrow> ConformanceObservation \<Rightarrow> bool" where
  "case_conforms J c caps ob \<longleftrightarrow>
     ob_scenario ob = cc_scenario c \<and> supports_structured_events caps \<and>
     ob_events ob \<noteq> [] \<and> sorted_wrt (<) (map nae_sequence (ob_events ob)) \<and>
     (\<forall>e \<in> set (ob_events ob). event_conforms J (cc_run_id c) e) \<and>
     nae_state (last (ob_events ob)) = ob_final_state ob \<and>
     (\<forall>v \<in> set (observed_texts ob). \<forall>x \<in> set (cc_secret_sentinels c). \<not> sublist x v) \<and>
     case_rules (cc_scenario c) caps ob"

lemma entered_iff [simp]: "entered state ob \<longleftrightarrow> state \<in> nae_state ` set (ob_events ob)"
  by (auto simp: entered_def list_ex_iff)

lemma validate_scenario_Nil [simp]:
  "validate_scenario c caps ob fs = [] \<longleftrightarrow> case_rules (cc_scenario c) caps ob \<and> fs = []"
  by (cases "cc_scenario c") (auto simp: validate_scenario_def list_ex_iff)

lemma observation_passes_iff: "sr_passed (validate_observation J c caps ob) \<longleftrightarrow> case_conforms J c caps ob"
  by (auto simp: validate_observation_def case_conforms_def events_valid_iff Let_def)

lemma run_cases_iff:
  "list_all sr_passed (fst (run_cases J A s cs)) \<longleftrightarrow>
     (\<forall>k < length cs. \<exists>u. u = fold (\<lambda>c u. snd (ca_run_case A u c)) (take k cs) s \<and>
        case_conforms J (cs ! k) (ca_capabilities A) (fst (ca_run_case A u (cs ! k))))"
proof (induction cs arbitrary: s)
  case (Cons c cs)
  obtain ob t where ob: "ca_run_case A s c = (ob, t)" by fastforce
  obtain rs u where rs: "run_cases J A t cs = (rs, u)" by fastforce
  show ?case using Cons.IH[of t] ob rs by (auto simp: observation_passes_iff less_Suc_eq_0_disj)
qed simp

end
