(* ===== verification/Codex_Transport.thy ===== *)
theory Codex_Transport
  imports Codex_Stdio
begin

text \<open>
  What the transport over pipes guarantees: its queues are bounded, a request is answered only by
  the reply with its own number, it returns once the clock passes its deadline however much the
  peer sends, and after a refused reply the transport stays closed.
\<close>

section \<open>What a step leaves alone\<close>

definition later :: "(nat \<Rightarrow> 'a) \<Rightarrow> (nat \<Rightarrow> 'a) \<Rightarrow> bool" where
  "later f g \<longleftrightarrow> (\<exists>n. g = (\<lambda>k. f (k + n)))"

lemma later_refl [simp]: "later f f"
  unfolding later_def by (rule exI[of _ 0]) simp

lemma later_Suc [simp]: "later f (f \<circ> Suc)"
  unfolding later_def by (rule exI[of _ 1]) (simp add: comp_def)

lemma later_shift: "later f (\<lambda>k. f (Suc k))" "later f (\<lambda>k. f (Suc (Suc k)))"
  unfolding later_def by (rule exI[of _ 1], simp) (rule exI[of _ 2], simp)

lemma later_trans: "later f g \<Longrightarrow> later g h \<Longrightarrow> later f h"
  unfolding later_def by (force simp: add.assoc)

lemma later_at: "later f g \<Longrightarrow> \<exists>j. g k = f j"
  unfolding later_def by auto

text \<open>The queues, the numbers and the settings stay; messages and clock readings are used up in order.\<close>

definition calm :: "stdio \<Rightarrow> stdio \<Rightarrow> bool" where
  "calm s t \<longleftrightarrow> so_pending t = so_pending s \<and> so_pending_bytes t = so_pending_bytes s \<and>
     so_abandoned t = so_abandoned s \<and> so_next_request_id t = so_next_request_id s \<and>
     so_output_failed t = so_output_failed s \<and> so_codec t = so_codec s \<and>
     later (so_recv s) (so_recv t) \<and> later (so_now s) (so_now t)"

lemma calm_refl [simp]: "calm s s"
  by (simp add: calm_def)

lemma calm_trans: "calm s t \<Longrightarrow> calm t u \<Longrightarrow> calm s u"
  by (auto simp: calm_def intro: later_trans)

lemma calm_close: "calm s (snd (close_child s))" "calm s (snd (close_then_fail e s))"
  by (simp_all add: close_child_def close_then_fail_def calm_def)

lemma calm_readings:
  "calm s (snd (read_clock s))" "calm s (snd (read_cancelled s))" "calm s (snd (read_failed s))"
  "calm s (snd (read_message s))" "calm s (s\<lparr>so_notification_deadline := d\<rparr>)"
  "calm s (s\<lparr>so_write := w\<rparr>)"
  by (simp_all add: read_clock_def read_cancelled_def read_failed_def read_message_def calm_def)

lemmas reading_defs = read_clock_def read_cancelled_def read_failed_def read_message_def close_child_def
  close_then_fail_def

lemma calm_deadline: "calm s (snd (deadline_after d s))"
  by (simp add: deadline_after_def reading_defs calm_def)

lemma calm_activity: "calm s (snd (note_activity s))"
  by (simp add: note_activity_def deadline_after_def reading_defs calm_def)

lemma calm_check: "calm s (snd (check_cancelled s))"
  by (simp add: check_cancelled_def reading_defs calm_def)

lemma calm_write: "calm s (snd (write_message m d s))"
proof -
  obtain r t where r: "check_cancelled s = (r, t)" by fastforce
  with calm_check[of s] have t: "calm s t" by simp
  have "calm t (snd (write_message m d s))" if "r = Inr ()"
    using that r by (simp add: write_message_def reading_defs calm_def Let_def)
  with r t show ?thesis by (cases r) (auto simp: write_message_def intro: calm_trans)
qed

lemma calm_step: "f s = (r, t) \<Longrightarrow> calm s (snd (f s)) \<Longrightarrow> calm s t"
  by simp

section \<open>Receiving\<close>

text \<open>Receiving reads the clock at least once, leaves the queues alone and returns what arrived.\<close>

definition received :: "stdio \<Rightarrow> Value stdio_step \<Rightarrow> bool" where
  "received s p \<longleftrightarrow> calm s (snd p) \<and>
     (\<forall>m. fst p = Inr m \<longrightarrow> (\<exists>k. so_recv s k = Received (Inr m)) \<and> (\<exists>n. so_now (snd p) = (\<lambda>k. so_now s (Suc (k + n)))))"

lemma receive_message_spec:
  assumes "receive_message deadline s = Some p" shows "received s p"
proof (rule receive_message.raw_induct[where P = "\<lambda>d s p. received s p", OF _ assms], goal_cases)
  case (1 receive deadline s p)
  note IH' = 1(1) and body = 1(2)
  obtain r s1 where s1: "check_cancelled s = (r, s1)" by fastforce
  then have c1: "calm s s1" using calm_check[of s] by simp
  obtain s2 where s2: "read_clock s1 = (so_now s1 0, s2)" by (auto simp: read_clock_def)
  obtain o' s3 where s3: "read_message s2 = (o', s3)" by fastforce
  have c2: "calm s s2" using c1 calm_readings(1)[of s1] s2 by (auto intro: calm_trans)
  have c3: "calm s s3" using c2 calm_readings(4)[of s2] s3 by (auto intro: calm_trans)
  have now1: "so_now s1 = so_now s" if "r = Inr ()"
    using s1 that by (auto simp: check_cancelled_def reading_defs split: if_splits)
  have now3: "so_now s3 = so_now s \<circ> Suc" if "r = Inr ()" using now1[OF that] s2 s3 by (auto simp: reading_defs)
  show ?case
  proof (cases r)
    case (Inl e)
    with body s1 c1 show ?thesis by (auto simp: received_def)
  next
    case (Inr u)
    then have r: "r = Inr ()" by simp
    consider (over) "deadline < so_now s1 0" | (time) "\<not> deadline < so_now s1 0" by blast
    then show ?thesis
    proof cases
      case over
      with body s1 s2 r c2 show ?thesis by (auto simp: received_def)
    next
      case time
      have first: "o' = so_recv s1 0" using s2 s3 by (auto simp: reading_defs)
      show ?thesis
      proof (cases o')
        case (Received x)
        show ?thesis
        proof (cases x)
          case (Inl e)
          with body s1 s2 s3 r time Received c3 show ?thesis by (auto simp: received_def)
        next
          case (Inr m)
          obtain ra t where ra: "note_activity s3 = (ra, t)" by fastforce
          then have ct: "calm s t" using calm_activity[of s3] c3 by (auto intro: calm_trans)
          have p: "p = (case ra of Inl e \<Rightarrow> (Inl e, t) | Inr _ \<Rightarrow> (Inr m, t))"
            using body s1 s2 s3 r time Received Inr ra by (cases ra) auto
          from first Received Inr have "so_recv s1 0 = Received (Inr m)" by simp
          with c1 later_at[of "so_recv s" "so_recv s1" 0] have arrived: "\<exists>k. so_recv s k = Received (Inr m)"
            by (metis calm_def)
          from ra calm_activity[of s3] have "later (so_now s3) (so_now t)" by (simp add: calm_def)
          with now3[OF r] have "\<exists>n. so_now t = (\<lambda>k. so_now s (Suc (k + n)))" by (auto simp: later_def comp_def)
          with ct arrived p show ?thesis by (cases ra) (auto simp: received_def)
        qed
      next
        case Recv_Timeout
        with body s1 s2 s3 r time have rec: "receive deadline s3 = Some p" by auto
        from IH'[OF rec] have IH: "received s3 p" .
        show ?thesis unfolding received_def
        proof (intro conjI allI impI)
          show "calm s (snd p)" using IH c3 by (auto simp: received_def intro: calm_trans)
        next
          fix m assume m: "fst p = Inr m"
          with IH obtain k where "so_recv s3 k = Received (Inr m)" by (auto simp: received_def)
          with c3 later_at[of "so_recv s" "so_recv s3" k] show "\<exists>k. so_recv s k = Received (Inr m)"
            by (metis calm_def)
        next
          fix m assume m: "fst p = Inr m"
          with IH obtain n where "so_now (snd p) = (\<lambda>k. so_now s3 (Suc (k + n)))" by (auto simp: received_def)
          then have "so_now (snd p) = (\<lambda>k. so_now s (Suc (k + Suc n)))" using now3[OF r] by simp
          then show "\<exists>n. so_now (snd p) = (\<lambda>k. so_now s (Suc (k + n)))" by blast
        qed
      next
        case Recv_Disconnected
        obtain rd t where rd: "check_cancelled s3 = (rd, t)" by fastforce
        then have "calm s t" using calm_check[of s3] c3 by (auto intro: calm_trans)
        with body s1 s2 s3 r time Recv_Disconnected rd show ?thesis
          by (cases rd) (auto simp: received_def)
      qed
    qed
  qed
qed


section \<open>Deadlines\<close>

text \<open>Each round of the wait reads the clock once, so a clock that passes the deadline ends it.\<close>

lemma receive_message_returns:
  "deadline < so_now s n \<Longrightarrow> \<exists>p. receive_message deadline s = Some p"
proof (induction n arbitrary: s)
  case 0
  obtain r s1 where s1: "check_cancelled s = (r, s1)" by fastforce
  show ?case
  proof (cases r)
    case (Inl e)
    with s1 show ?thesis by (simp add: receive_message.simps)
  next
    case (Inr u)
    with s1 have "so_now s1 = so_now s"
      by (auto simp: check_cancelled_def reading_defs split: if_splits)
    with 0 s1 Inr show ?thesis by (simp add: receive_message.simps[of deadline s] read_clock_def)
  qed
next
  case (Suc n)
  obtain r s1 where s1: "check_cancelled s = (r, s1)" by fastforce
  show ?case
  proof (cases r)
    case (Inl e)
    with s1 show ?thesis by (simp add: receive_message.simps)
  next
    case (Inr u)
    with s1 have same: "so_now s1 = so_now s"
      by (auto simp: check_cancelled_def reading_defs split: if_splits)
    define s3 where "s3 = snd (read_message (snd (read_clock s1)))"
    have "deadline < so_now s3 n" using Suc.prems same by (simp add: s3_def reading_defs)
    from Suc.IH[OF this] have again: "\<exists>p. receive_message deadline s3 = Some p" .
    obtain x where x: "read_message (snd (read_clock s1)) = (x, s3)" by (simp add: s3_def prod_eq_iff)
    from again s1 Inr x show ?thesis
      by (cases x) (auto simp: receive_message.simps[of deadline s] read_clock_def split: sum.splits)
  qed
qed

section \<open>The invariant of the queues\<close>

definition stdio_ok :: "stdio \<Rightarrow> bool" where
  "stdio_ok s \<longleftrightarrow> length (so_pending s) \<le> OUTPUT_QUEUE_ITEMS \<and>
     so_pending_bytes s = sum_list (map snd (so_pending s)) \<and> so_pending_bytes s \<le> OUTPUT_QUEUE_BYTES \<and>
     length (so_abandoned s) \<le> MAX_ABANDONED_REQUESTS \<and> (\<forall>i \<in> set (so_abandoned s). i < so_next_request_id s)"

lemma stdio_ok_calm: "calm s t \<Longrightarrow> stdio_ok s \<Longrightarrow> stdio_ok t"
  by (simp add: calm_def stdio_ok_def)

text \<open>Steps that may also change the queues, but not the numbers.\<close>

definition steady :: "stdio \<Rightarrow> stdio \<Rightarrow> bool" where
  "steady s t \<longleftrightarrow> (stdio_ok s \<longrightarrow> stdio_ok t) \<and> so_next_request_id t = so_next_request_id s \<and>
     later (so_recv s) (so_recv t) \<and> later (so_now s) (so_now t)"

lemma steady_refl [simp]: "steady s s"
  by (simp add: steady_def)

lemma steady_trans: "steady s t \<Longrightarrow> steady t u \<Longrightarrow> steady s u"
  by (auto simp: steady_def intro: later_trans)

lemma calm_steady: "calm s t \<Longrightarrow> steady s t"
  using stdio_ok_calm by (auto simp: steady_def calm_def)

lemma steady_failed: "steady s (s\<lparr>so_output_failed := b\<rparr>)"
  by (simp add: steady_def stdio_ok_def)

lemma steady_remember: "i < so_next_request_id s \<Longrightarrow> steady s (remember_abandoned i s)"
  by (auto simp: steady_def stdio_ok_def remember_abandoned_def MAX_ABANDONED_REQUESTS_def
    dest: list.set_sel(2)[rotated])

lemma steady_discard: "steady s (snd (discard_abandoned m s))"
proof -
  have "set (remove1 i xs) \<subseteq> set xs" "length (remove1 i xs) \<le> length xs" for i :: u64 and xs
    by (simp_all add: set_remove1_subset length_remove1)
  then show ?thesis
    by (fastforce simp: steady_def stdio_ok_def discard_abandoned_def split: option.splits
      intro: order_trans)
qed

lemma steady_route: "steady s (snd (route_request_message m i s))"
  by (auto simp: steady_def stdio_ok_def route_request_message_def split: option.splits sum.splits
    ResponseDisposition.splits)

lemma steady_route_or_close: "steady s (snd (route_or_close m i s))"
proof -
  obtain r t where rt: "route_request_message m i s = (r, t)" by fastforce
  then have t: "steady s t" using steady_route[of s m i] by simp
  show ?thesis
  proof (cases r)
    case (Inl e)
    have "steady t (snd (close_then_fail e (t\<lparr>so_output_failed := True\<rparr>) :: Value option stdio_step))"
      by (rule steady_trans[OF steady_failed calm_steady[OF calm_close(2)]])
    with t have "steady s (snd (close_then_fail e (t\<lparr>so_output_failed := True\<rparr>) :: Value option stdio_step))"
      by (rule steady_trans)
    with rt Inl show ?thesis by (simp add: route_or_close_def)
  next
    case (Inr x)
    with rt t show ?thesis by (simp add: route_or_close_def)
  qed
qed

lemma steady_pop: "steady s (snd (pop_pending s))"
  by (auto simp: steady_def stdio_ok_def pop_pending_def split: list.splits)

section \<open>Requests\<close>

text \<open>A reply is accepted only for the number that was asked for.\<close>

definition replies :: "u64 \<Rightarrow> Value \<Rightarrow> Value \<Rightarrow> bool" where
  "replies i v m \<longleftrightarrow> Option.bind (value_get ''id'' m) as_u64 = Some i \<and> value_get ''error'' m = None \<and>
     value_get ''result'' m = Some v"

lemma route_or_close_reply:
  assumes "route_or_close m i s = (Inr (Some v), t)" shows "replies i v m"
proof -
  have "decode_response m i = Inr (Rd_Result v)"
    using assms by (auto simp: route_or_close_def route_request_message_def close_then_fail_def
      split: prod.splits option.splits sum.splits ResponseDisposition.splits if_splits)
  then show ?thesis
    by (auto simp: replies_def decode_response_def and_then_eq_Ok split: option.splits sum.splits if_splits)
qed

definition answered :: "u64 \<Rightarrow> stdio \<Rightarrow> Value stdio_step \<Rightarrow> bool" where
  "answered i s p \<longleftrightarrow> steady s (snd p) \<and>
     (\<forall>v. fst p = Inr v \<longrightarrow> (\<exists>k m. so_recv s k = Received (Inr m) \<and> replies i v m))"

lemma answered_before: "steady s t \<Longrightarrow> answered i t p \<Longrightarrow> answered i s p"
  unfolding answered_def using later_at[of "so_recv s" "so_recv t"]
  by (metis steady_def steady_trans)

lemma received_steady: "receive_message d s = Some (r, t) \<Longrightarrow> steady s t"
  using receive_message_spec[of d s "(r, t)"] by (auto simp: received_def intro: calm_steady)

lemma request_loop_spec:
  assumes "request_loop i deadline abandon s = Some p"
  shows "i < so_next_request_id s \<longrightarrow> answered i s p"
proof (rule request_loop.raw_induct[where
    P = "\<lambda>i d a s p. i < so_next_request_id s \<longrightarrow> answered i s p", OF _ assms], goal_cases)
  case (1 loop i deadline abandon s p)
  note IH = 1(1) and body = 1(2)
  show ?case
  proof
    assume i: "i < so_next_request_id s"
    obtain r t where rt: "receive_message deadline s = Some (r, t)"
      using body by (cases "receive_message deadline s") auto
    note t = received_steady[OF rt]
    show "answered i s p"
    proof (cases r)
      case (Inl e)
      from t i have "steady t (remember_abandoned i t)"
        by (intro steady_remember) (simp add: steady_def)
      with t have "steady s (remember_abandoned i t)" by (rule steady_trans)
      with body rt Inl t show ?thesis by (auto simp: answered_def split: if_splits)
    next
      case (Inr m)
      obtain d u where du: "discard_abandoned m t = (d, u)" by fastforce
      with steady_discard[of t m] t have u: "steady s u" by (auto intro: steady_trans)
      then have iu: "i < so_next_request_id u" using i by (simp add: steady_def)
      obtain r' w where rw: "route_or_close m i u = (r', w)" by fastforce
      with steady_route_or_close[of u m i] u have w: "steady s w" by (auto intro: steady_trans)
      then have iw: "i < so_next_request_id w" using i by (simp add: steady_def)
      from receive_message_spec[OF rt] Inr obtain k where k: "so_recv s k = Received (Inr m)"
        by (auto simp: received_def)
      show ?thesis
      proof (cases d)
        case True
        with body rt Inr du have "loop i deadline abandon u = Some p" by simp
        with IH iu have "answered i u p" by blast
        with u show ?thesis by (rule answered_before)
      next
        case False
        consider (refused) e where "r' = Inl e" | (reply) v where "r' = Inr (Some v)" | (news) "r' = Inr None"
          by (cases r'; cases "projr r'") auto
        then show ?thesis
        proof cases
          case refused
          with body rt Inr du False rw w show ?thesis by (auto simp: answered_def)
        next
          case reply
          with route_or_close_reply[of m i u v w] rw k have "replies i v m" by simp
          with reply body rt Inr du False rw w k show ?thesis
            by (auto simp: answered_def intro!: exI[of _ k] exI[of _ m])
        next
          case news
          with body rt Inr du False rw have "loop i deadline abandon w = Some p" by simp
          with IH iw have "answered i w p" by blast
          with w show ?thesis by (rule answered_before)
        qed
      qed
    qed
  qed
qed

lemma request_loop_returns:
  "\<forall>k \<ge> n. deadline < so_now s k \<Longrightarrow> \<exists>p. request_loop i deadline abandon s = Some p"
proof (induction n arbitrary: s rule: less_induct)
  case (less n)
  obtain r t where rt: "receive_message deadline s = Some (r, t)"
    using receive_message_returns[of deadline s n] less.prems by auto
  show ?case
  proof (cases r)
    case (Inl e)
    with rt show ?thesis by (simp add: request_loop.simps[of i deadline abandon s])
  next
    case (Inr m)
    obtain j where j: "so_now t = (\<lambda>k. so_now s (Suc (k + j)))"
      using receive_message_spec[OF rt] Inr by (auto simp: received_def)
    obtain d u where du: "discard_abandoned m t = (d, u)" by fastforce
    then have u: "so_now u = so_now t" by (auto simp: discard_abandoned_def split: option.splits if_splits)
    obtain r' w where rw: "route_or_close m i u = (r', w)" by fastforce
    then have w: "so_now w = so_now t" if "r' = Inr x" for x
      using that u by (auto simp: route_or_close_def close_then_fail_def route_request_message_def
        split: prod.splits sum.splits option.splits ResponseDisposition.splits if_splits)
    show ?thesis
    proof (cases n)
      case 0
      obtain ra x where ra: "check_cancelled s = (ra, x)" by fastforce
      then have "so_now x = so_now s" if "ra = Inr ()"
        using that by (auto simp: check_cancelled_def reading_defs split: if_splits)
      with ra 0 less.prems have "receive_message deadline s = Some (Inr m, t) \<Longrightarrow> False"
        by (cases ra) (auto simp: receive_message.simps[of deadline s] read_clock_def)
      with rt Inr show ?thesis by simp
    next
      case (Suc n')
      have later: "\<forall>k \<ge> n'. deadline < so_now t k" using less.prems j Suc by auto
      have "\<exists>p. request_loop i deadline abandon u = Some p"
        by (rule less.IH[of n']) (use later u Suc in auto)
      moreover have "\<exists>p. request_loop i deadline abandon w = Some p" if "r' = Inr x" for x
        by (rule less.IH[of n']) (use later w[OF that] Suc in auto)
      ultimately show ?thesis using rt Inr du rw
        by (auto simp: request_loop.simps[of i deadline abandon s] split: sum.splits option.splits)
    qed
  qed
qed

lemma deadline_after_spec: "deadline_after d s = (r, t) \<Longrightarrow> calm s t"
  using calm_deadline[of s d] by simp

lemma send_request_spec:
  assumes "send_request m params d s = (r, t)"
  shows "(stdio_ok s \<longrightarrow> stdio_ok t) \<and> later (so_recv s) (so_recv t) \<and> later (so_now s) (so_now t) \<and>
    (\<forall>i n. r = Inr (i, n) \<longrightarrow> i = so_next_request_id s \<and> so_next_request_id t = i + 1 \<and> i < i + 1)"
proof -
  obtain rd u where rd: "deadline_after d s = (rd, u)" by fastforce
  note u = deadline_after_spec[OF rd]
  show ?thesis
  proof (cases "rd = Inr (projr rd) \<and> checked_add (so_next_request_id u) 1 \<noteq> None")
    case False
    with assms rd u show ?thesis
      by (cases rd) (auto simp: send_request_def calm_def stdio_ok_calm split: option.splits)
  next
    case True
    then obtain n next' where n: "rd = Inr n" and next': "checked_add (so_next_request_id u) 1 = Some next'" by auto
    define w where "w = u\<lparr>so_next_request_id := next'\<rparr>"
    have nx: "next' = so_next_request_id u + 1" and less: "so_next_request_id u < next'"
      using next' checked_add_Some[OF next']
      by (auto simp: checked_add_def word_less_nat_alt split: if_splits)
    obtain rw x where rw: "write_message (request_message m (so_next_request_id u) params) n w = (rw, x)" by fastforce
    with calm_write[of w] have x: "calm w x" by (metis snd_conv)
    have "stdio_ok w" if "stdio_ok s"
      using stdio_ok_calm[OF u that] less by (auto simp: stdio_ok_def w_def dest: order.strict_trans)
    with x have "stdio_ok s \<longrightarrow> stdio_ok x" by (blast intro: stdio_ok_calm)
    with assms rd n next' rw x u nx less show ?thesis
      by (cases rw) (auto simp: send_request_def w_def[symmetric] calm_def w_def intro: later_trans)
  qed
qed

lemma request_inner_spec:
  assumes "request_inner m params d abandon s = Some (r, t)"
  shows "stdio_ok s \<longrightarrow> stdio_ok t"
    "r = Inr v \<Longrightarrow> \<exists>k reply. so_recv s k = Received (Inr reply) \<and> replies (so_next_request_id s) v reply"
proof -
  obtain rs u where rs: "send_request m params d s = (rs, u)" by fastforce
  note u = send_request_spec[OF rs]
  have inner: "answered (so_next_request_id s) u (r, t)" if "rs = Inr (i, n)" for i n
    using request_loop_spec[of i n abandon u "(r, t)"] assms rs that u by (auto simp: request_inner_def)
  show "stdio_ok s \<longrightarrow> stdio_ok t"
    using assms rs u inner by (cases rs) (auto simp: request_inner_def answered_def steady_def)
  show "\<exists>k reply. so_recv s k = Received (Inr reply) \<and> replies (so_next_request_id s) v reply" if v: "r = Inr v"
  proof -
    obtain i n where "rs = Inr (i, n)"
      using assms rs v by (cases rs) (auto simp: request_inner_def)
    from inner[OF this] v obtain k reply where "so_recv u k = Received (Inr reply)" "replies (so_next_request_id s) v reply"
      by (auto simp: answered_def)
    with u show ?thesis by (metis later_at)
  qed
qed

text \<open>The clock passing the deadline of the request is enough for it to return.\<close>

lemma request_inner_returns:
  assumes "\<forall>k \<ge> n. so_now s 0 + d < so_now s k"
  shows "\<exists>p. request_inner m params d abandon s = Some p"
proof -
  obtain rs u where rs: "send_request m params d s = (rs, u)" by fastforce
  obtain j where j: "so_now u = (\<lambda>k. so_now s (k + j))"
    using send_request_spec[OF rs] by (auto simp: later_def)
  have "deadline = so_now s 0 + d" if "rs = Inr (i, deadline)" for i deadline
  proof -
    obtain rd x where rd: "deadline_after d s = (rd, x)" by fastforce
    with rs that have "rd = Inr deadline"
      by (cases rd) (auto simp: send_request_def Let_def split: option.splits elim: so_then.elims)
    with rd show ?thesis by (auto simp: deadline_after_def reading_defs split: if_splits)
  qed
  with assms j have "\<forall>k \<ge> n. deadline < so_now u k" if "rs = Inr (i, deadline)" for i deadline
    using that by simp
  with request_loop_returns[of n _ u] rs show ?thesis
    by (cases rs) (auto simp: request_inner_def split: prod.splits)
qed

section \<open>Notifications\<close>

lemma calm_accept: "calm s (snd (accept_notification m s))"
proof -
  obtain r t where r: "note_activity s = (r, t)" by fastforce
  with calm_activity[of s] show ?thesis by (cases r) (simp_all add: accept_notification_def)
qed

lemma after_spec:
  "after_timeout i ob s = (x, t) \<Longrightarrow> calm s t \<and> (\<forall>r. x = Some r \<longrightarrow> calm s (snd r))"
  "after_discard i ob s = (x, t) \<Longrightarrow> calm s t \<and> (\<forall>r. x = Some r \<longrightarrow> calm s (snd r))"
  by (auto simp: after_timeout_def after_discard_def reading_defs calm_def comp_def later_shift split: if_splits)

lemma notification_loop_spec:
  assumes "notification_loop inactivity observation s = Some p" shows "steady s (snd p)"
proof (rule notification_loop.raw_induct[where P = "\<lambda>i d s p. steady s (snd p)", OF _ assms], goal_cases)
  case (1 loop i ob s p)
  note IH = 1(1) and body = 1(2)
  obtain r s1 where s1: "check_cancelled s = (r, s1)" by fastforce
  have c1: "calm s s1" using calm_check[of s] s1 by simp
  define s2 where "s2 = snd (read_clock s1)"
  obtain x s3 where x: "read_message s2 = (x, s3)" by fastforce
  have c3: "calm s s3"
    using calm_readings(4)[of s2] calm_readings(1)[of s1] c1 x by (auto simp: s2_def intro: calm_trans)
  have clock: "read_clock s1 = (fst (read_clock s1), s2)" by (simp add: s2_def)
  show ?case
  proof (cases r)
    case (Inl e)
    with body s1 c1 show ?thesis by (auto intro: calm_steady)
  next
    case (Inr u)
    consider (bad) e where "x = Received (Inl e)" | (news) m where "x = Received (Inr m)"
      | (gone) "x = Recv_Disconnected" | (quiet) "x = Recv_Timeout"
      by (cases x; cases "case x of Received y \<Rightarrow> y") auto
    then show ?thesis
    proof cases
      case bad
      with body s1 Inr clock x c3 show ?thesis by (auto intro: calm_steady split: prod.splits)
    next
      case gone
      obtain rc t where rc: "check_cancelled s3 = (rc, t)" by fastforce
      then have "calm s t" using calm_check[of s3] c3 by (auto intro: calm_trans)
      with body s1 Inr clock x gone rc show ?thesis
        by (cases rc) (auto intro: calm_steady split: prod.splits)
    next
      case quiet
      obtain y t where y: "after_timeout i ob s3 = (y, t)" by fastforce
      note t = after_spec(1)[OF y]
      have "loop i ob t = Some p \<or> y = Some p"
        using body s1 Inr clock x quiet y by (auto split: prod.splits option.splits)
      then show ?thesis
      proof
        assume "loop i ob t = Some p"
        from steady_trans[OF calm_steady[OF calm_trans[OF c3 conjunct1[OF t]]] IH[OF this]] show ?thesis .
      next
        assume "y = Some p"
        with t c3 show ?thesis by (auto intro: calm_steady calm_trans)
      qed
    next
      case news
      obtain d u where du: "discard_abandoned m s3 = (d, u)" by fastforce
      have su: "steady s u"
        using steady_trans[OF calm_steady[OF c3] steady_discard[of s3 m]] du by simp
      obtain y t where y: "after_discard i ob u = (y, t)" by fastforce
      note t = after_spec(2)[OF y]
      have "loop i ob t = Some p \<or> y = Some p \<or> p = accept_notification m u"
        using body s1 Inr clock x news y du by (auto split: prod.splits option.splits if_splits)
      then consider "loop i ob t = Some p" | "y = Some p" | "p = accept_notification m u" by blast
      then show ?thesis
      proof cases
        case 1
        from steady_trans[OF steady_trans[OF su calm_steady[OF conjunct1[OF t]]] IH[OF this]] show ?thesis .
      next
        case 2
        with t have "calm u (snd p)" by simp
        from steady_trans[OF su calm_steady[OF this]] show ?thesis .
      next
        case 3
        from steady_trans[OF su calm_steady[OF calm_accept[of u m]]] 3 show ?thesis by simp
      qed
    qed
  qed
qed

lemma calm_inactivity: "calm s (snd (inactivity_deadline s))"
  by (simp add: inactivity_deadline_def deadline_after_def reading_defs calm_def split: option.splits)

text \<open>The two guards at the head of a poll, and what it finds once they are passed.\<close>

definition poll_head :: "nat \<Rightarrow> stdio \<Rightarrow> nat stdio_step" where
  "poll_head d s = so_then (deadline_after d s) (\<lambda>d s. so_then (check_cancelled s) (\<lambda>_ s. (Ok d, s)))"

lemma calm_poll_head: "calm s (snd (poll_head d s))"
proof -
  obtain r t where r: "deadline_after d s = (r, t)" by fastforce
  obtain r' u where r': "check_cancelled t = (r', u)" by fastforce
  from calm_trans[OF deadline_after_spec[OF r]] calm_check[of t] r' have "calm s u" by simp
  with deadline_after_spec[OF r] r r' show ?thesis
    by (cases r; cases r') (simp_all add: poll_head_def)
qed

lemma stdio_poll_notification_alt:
  "stdio_poll_notification d s =
     (case poll_head d s of
        (Inl e, s) \<Rightarrow> Some (Err e, s)
      | (Inr observation, s) \<Rightarrow>
          (case pop_pending s of
             (Some n, s) \<Rightarrow> Some (so_then (note_activity s) (\<lambda>_ s. (Ok (Some n), s)))
           | (None, s) \<Rightarrow>
               (case inactivity_deadline (snd (read_clock s)) of
                  (Inl e, t) \<Rightarrow> Some (Err e, t)
                | (Inr inactivity, t) \<Rightarrow>
                    if inactivity \<le> so_now s 0 then Some (Err Tr_TimedOut, t)
                    else notification_loop inactivity observation t)))"
  by (simp add: stdio_poll_notification_def poll_head_def read_clock_def split: prod.splits sum.splits option.splits)

lemma stdio_poll_notification_spec:
  assumes "stdio_poll_notification d s = Some p" shows "steady s (snd p)"
proof -
  obtain r s1 where s1: "poll_head d s = (r, s1)" by fastforce
  have c1: "calm s s1" using calm_poll_head[of s d] s1 by simp
  obtain n s2 where s2: "pop_pending s1 = (n, s2)" by fastforce
  have st2: "steady s s2" using steady_trans[OF calm_steady[OF c1] steady_pop[of s1]] s2 by simp
  obtain ra s3 where s3: "inactivity_deadline (snd (read_clock s2)) = (ra, s3)" by fastforce
  have c3: "calm s2 s3"
    using calm_trans[OF calm_readings(1)[of s2]] calm_inactivity[of "snd (read_clock s2)"] s3 by auto
  note st3 = steady_trans[OF st2 calm_steady[OF c3]]
  consider (head) e where "r = Inl e" "p = (Inl e, s1)"
    | (kept) x where "p = so_then (note_activity s2) (\<lambda>_ s. (Ok (Some x), s))"
    | (over) "snd p = s3"
    | (wait) i ob where "notification_loop i ob s3 = Some p"
    using assms s1 s2 s3 unfolding stdio_poll_notification_alt
    by (cases r; cases n; cases ra) (auto split: if_splits)
  then show ?thesis
  proof cases
    case head
    with c1 show ?thesis by (auto intro: calm_steady)
  next
    case kept
    obtain rn t where rn: "note_activity s2 = (rn, t)" by fastforce
    with calm_activity[of s2] have "calm s2 t" by simp
    from steady_trans[OF st2 calm_steady[OF this]] kept rn show ?thesis by (cases rn) auto
  next
    case over
    with st3 show ?thesis by simp
  next
    case wait
    from steady_trans[OF st3 notification_loop_spec[OF wait]] show ?thesis .
  qed
qed

lemma calm_notify: "calm s (snd (stdio_notify m params s))"
proof -
  obtain r t where r: "deadline_after (so_timeout s) s = (r, t)" by fastforce
  show ?thesis
  proof (cases r)
    case (Inl e)
    with r deadline_after_spec[OF r] show ?thesis by (simp add: stdio_notify_def)
  next
    case (Inr d)
    with r calm_trans[OF deadline_after_spec[OF r] calm_write] show ?thesis by (simp add: stdio_notify_def)
  qed
qed

section \<open>Any use of the transport\<close>

datatype stdio_call =
    Sc_request string Value
  | Sc_request_with_timeout string Value nat
  | Sc_notify string Value
  | Sc_next_notification
  | Sc_poll_notification nat

fun stdio_do :: "stdio_call \<Rightarrow> stdio \<Rightarrow> stdio option" where
  "stdio_do (Sc_request m v) s = map_option snd (stdio_request m v s)"
| "stdio_do (Sc_request_with_timeout m v d) s = map_option snd (stdio_request_with_timeout m v d s)"
| "stdio_do (Sc_notify m v) s = Some (snd (stdio_notify m v s))"
| "stdio_do Sc_next_notification s = map_option snd (stdio_next_notification s)"
| "stdio_do (Sc_poll_notification d) s = map_option snd (stdio_poll_notification d s)"

fun stdio_uses :: "stdio_call list \<Rightarrow> stdio \<Rightarrow> stdio option" where
  "stdio_uses [] s = Some s"
| "stdio_uses (c # cs) s = Option.bind (stdio_do c s) (stdio_uses cs)"

lemma stdio_do_ok: "stdio_do c s = Some t \<Longrightarrow> stdio_ok s \<Longrightarrow> stdio_ok t"
proof (cases c)
  case (Sc_notify m v)
  assume "stdio_do c s = Some t" "stdio_ok s"
  with Sc_notify show ?thesis using stdio_ok_calm[OF calm_notify] by auto
qed (auto simp: stdio_request_def stdio_request_with_timeout_def stdio_next_notification_def
  dest: request_inner_spec(1) stdio_poll_notification_spec simp: steady_def)

lemma stdio_uses_ok: "stdio_uses cs s = Some t \<Longrightarrow> stdio_ok s \<Longrightarrow> stdio_ok t"
  by (induction cs arbitrary: s) (auto simp: bind_eq_Some_conv intro: stdio_do_ok)

lemma stdio_spawn_ok: "stdio_spawn timeout started s = (Inr (), t) \<Longrightarrow> stdio_ok t"
proof -
  assume a: "stdio_spawn timeout started s = (Inr (), t)"
  obtain r u where r: "deadline_after timeout s = (r, u)" by fastforce
  with a show ?thesis
    by (cases r) (auto simp: stdio_spawn_def read_cancelled_def stdio_ok_def split: if_splits)
qed

section \<open>Closed for good\<close>

lemma output_failed_rejects:
  assumes "so_output_failed s"
  shows "\<exists>e t. check_cancelled s = (Inl e, t) \<and> so_output_failed t \<and> so_write t = so_write s \<and> so_pending t = so_pending s"
  using assms by (auto simp: check_cancelled_def close_then_fail_def close_child_def)

lemma deadline_after_keeps:
  "deadline_after d s = (r, t) \<Longrightarrow> so_output_failed t = so_output_failed s \<and> so_write t = so_write s"
  by (auto simp: deadline_after_def reading_defs)

lemma closed_write:
  assumes "so_output_failed s"
  shows "\<exists>e t. write_message m d s = (Inl e, t) \<and> so_output_failed t \<and> so_write t = so_write s"
  using output_failed_rejects[OF assms] by (auto simp: write_message_def)

lemma closed_request:
  assumes "so_output_failed s"
  shows "\<exists>e t. request_inner m params d abandon s = Some (Inl e, t) \<and> so_output_failed t \<and> so_write t = so_write s"
proof -
  obtain r u where r: "deadline_after d s = (r, u)" by fastforce
  note u = deadline_after_keeps[OF r]
  have "\<exists>e t. send_request m params d s = (Inl e, t) \<and> so_output_failed t \<and> so_write t = so_write s"
  proof (cases r)
    case (Inl e)
    with r u assms show ?thesis by (simp add: send_request_def)
  next
    case (Inr deadline)
    show ?thesis
    proof (cases "checked_add (so_next_request_id u) 1")
      case None
      with r Inr u assms show ?thesis by (simp add: send_request_def)
    next
      case (Some next')
      obtain e t where "write_message (request_message m (so_next_request_id u) params) deadline
          (u\<lparr>so_next_request_id := next'\<rparr>) = (Inl e, t)" "so_output_failed t" "so_write t = so_write s"
        using closed_write[of "u\<lparr>so_next_request_id := next'\<rparr>"
            "request_message m (so_next_request_id u) params" deadline] u assms by auto
      with r Inr Some show ?thesis by (simp add: send_request_def)
    qed
  qed
  then show ?thesis by (auto simp: request_inner_def)
qed

lemma closed_notify:
  assumes "so_output_failed s"
  shows "\<exists>e t. stdio_notify m params s = (Inl e, t) \<and> so_output_failed t \<and> so_write t = so_write s"
proof -
  obtain r u where r: "deadline_after (so_timeout s) s = (r, u)" by fastforce
  note u = deadline_after_keeps[OF r]
  show ?thesis
  proof (cases r)
    case (Inl e)
    with r u assms show ?thesis by (simp add: stdio_notify_def)
  next
    case (Inr d)
    with r u assms closed_write[of u _ d] show ?thesis by (simp add: stdio_notify_def)
  qed
qed

lemma closed_poll:
  assumes "so_output_failed s"
  shows "\<exists>e t. stdio_poll_notification d s = Some (Inl e, t) \<and> so_output_failed t \<and> so_write t = so_write s"
proof -
  obtain r u where r: "deadline_after d s = (r, u)" by fastforce
  note u = deadline_after_keeps[OF r]
  have "\<exists>e t. poll_head d s = (Inl e, t) \<and> so_output_failed t \<and> so_write t = so_write s"
    using output_failed_rejects[of u] r u assms by (cases r) (auto simp: poll_head_def)
  then show ?thesis by (auto simp: stdio_poll_notification_alt)
qed

lemma closed_do:
  assumes "so_output_failed s" shows "\<exists>t. stdio_do c s = Some t \<and> so_output_failed t \<and> so_write t = so_write s"
proof (cases c)
  case (Sc_request m v)
  with closed_request[OF assms, of m v "so_timeout s" False] show ?thesis by (auto simp: stdio_request_def)
next
  case (Sc_request_with_timeout m v d)
  with closed_request[OF assms, of m v d True] show ?thesis by (auto simp: stdio_request_with_timeout_def)
next
  case (Sc_notify m v)
  with closed_notify[OF assms, of m v] show ?thesis by auto
next
  case Sc_next_notification
  with closed_poll[OF assms, of "so_timeout s"] show ?thesis by (auto simp: stdio_next_notification_def)
next
  case (Sc_poll_notification d)
  with closed_poll[OF assms, of d] show ?thesis by auto
qed

lemma closed_uses:
  "so_output_failed s \<Longrightarrow> \<exists>t. stdio_uses cs s = Some t \<and> so_output_failed t \<and> so_write t = so_write s"
proof (induction cs arbitrary: s)
  case (Cons c cs)
  from closed_do[OF Cons.prems, of c] obtain u
    where "stdio_do c s = Some u" "so_output_failed u" "so_write u = so_write s" by blast
  with Cons.IH[of u] show ?case by auto
qed auto

text \<open>A refusal of the provider is one of the replies that close the transport.\<close>

definition polite :: "stdio \<Rightarrow> bool" where
  "polite s \<longleftrightarrow> (\<forall>k code r. so_recv s k \<noteq> Received (Inl (Tr_RemoteRejected code r)))"

lemma polite_later: "later (so_recv s) (so_recv t) \<Longrightarrow> polite s \<Longrightarrow> polite t"
  unfolding polite_def later_def by auto

lemma route_or_close_refused: "route_or_close m i s = (Inl e, t) \<Longrightarrow> so_output_failed t"
  by (auto simp: route_or_close_def close_then_fail_def close_child_def split: prod.splits sum.splits)

lemma check_cancelled_error: "check_cancelled s = (Inl e, t) \<Longrightarrow> e \<noteq> Tr_RemoteRejected c r"
  by (auto simp: check_cancelled_def close_then_fail_def split: prod.splits if_splits)

lemma receive_message_error:
  assumes "receive_message deadline s = Some p"
  shows "polite s \<longrightarrow> fst p \<noteq> Inl (Tr_RemoteRejected c r)"
proof (rule receive_message.raw_induct[where
    P = "\<lambda>d s p. polite s \<longrightarrow> fst p \<noteq> Inl (Tr_RemoteRejected c r)", OF _ assms], goal_cases)
  case (1 receive deadline s p)
  note IH = 1(1) and body = 1(2)
  obtain rc s1 where s1: "check_cancelled s = (rc, s1)" by fastforce
  show ?case
  proof (cases rc)
    case (Inl e)
    with body s1 check_cancelled_error[of s e s1 c r] show ?thesis by auto
  next
    case (Inr u)
    define s3 where "s3 = snd (read_message (snd (read_clock s1)))"
    have c3: "calm s s3"
      using calm_check[of s] s1 calm_trans[OF calm_readings(1) calm_readings(4)] unfolding s3_def
      by (metis calm_trans snd_conv)
    have p3: "polite s \<Longrightarrow> polite s3" using c3 by (auto simp: calm_def intro: polite_later)
    have first: "read_message (snd (read_clock s1)) = (so_recv s1 0, s3)"
      by (simp add: s3_def read_message_def read_clock_def)
    have p1: "polite s \<Longrightarrow> polite s1"
      using calm_check[of s] s1 by (auto simp: calm_def intro: polite_later)
    have activity: "note_activity s3 = (ra, t) \<Longrightarrow> ra \<noteq> Inl (Tr_RemoteRejected c r)" for ra t
      by (auto simp: note_activity_def deadline_after_def split: prod.splits if_splits)
    show ?thesis
    proof (cases "deadline < so_now s1 0")
      case True
      with body s1 Inr show ?thesis by (auto simp: read_clock_def)
    next
      case time: False
      show ?thesis
      proof (cases "so_recv s1 0")
        case (Received x)
        have "polite s \<longrightarrow> x \<noteq> Inl (Tr_RemoteRejected c r)" using p1 Received by (auto simp: polite_def)
        moreover have "p = (case x of Inl e \<Rightarrow> (Inl e, s3) | Inr m \<Rightarrow> so_then (note_activity s3) (\<lambda>_ s. (Ok m, s)))"
          using body s1 Inr first Received time by (auto simp: read_clock_def split: sum.splits)
        moreover obtain ra t where "note_activity s3 = (ra, t)" by fastforce
        ultimately show ?thesis using activity by (cases x; cases ra) auto
      next
        case Recv_Timeout
        with body s1 Inr first time have "receive deadline s3 = Some p" by (simp add: read_clock_def)
        with IH p3 show ?thesis by blast
      next
        case Recv_Disconnected
        obtain rd t where rd: "check_cancelled s3 = (rd, t)" by fastforce
        with body s1 Inr first time Recv_Disconnected check_cancelled_error[of s3 _ t c r] show ?thesis
          by (cases rd) (auto simp: read_clock_def)
      qed
    qed
  qed
qed

lemma request_loop_refused:
  assumes "request_loop i deadline abandon s = Some p"
  shows "polite s \<longrightarrow> fst p = Inl (Tr_RemoteRejected c r) \<longrightarrow> so_output_failed (snd p)"
proof (rule request_loop.raw_induct[where
    P = "\<lambda>i d a s p. polite s \<longrightarrow> fst p = Inl (Tr_RemoteRejected c r) \<longrightarrow> so_output_failed (snd p)", OF _ assms], goal_cases)
  case (1 loop i deadline abandon s p)
  note IH = 1(1) and body = 1(2)
  show ?case
  proof (intro impI)
    assume polite: "polite s" and refused: "fst p = Inl (Tr_RemoteRejected c r)"
    obtain x t where rt: "receive_message deadline s = Some (x, t)"
      using body by (cases "receive_message deadline s") auto
    obtain m where m: "x = Inr m"
      using receive_message_error[OF rt, of c r] body rt polite refused by (cases x) (auto split: if_splits)
    obtain d u where du: "discard_abandoned m t = (d, u)" by fastforce
    have st: "steady s u"
      using steady_trans[OF received_steady[OF rt] steady_discard[of t m]] du by simp
    obtain r' w where rw: "route_or_close m i u = (r', w)" by fastforce
    have sw: "steady s w" using steady_trans[OF st steady_route_or_close[of u m i]] rw by simp
    have "loop i deadline abandon u = Some p" if "d"
      using body rt m du that by simp
    moreover have "(case r' of Inl e \<Rightarrow> p = (Inl e, w) | Inr (Some v) \<Rightarrow> p = (Inr v, w)
        | Inr None \<Rightarrow> loop i deadline abandon w = Some p)" if "\<not> d"
      using body rt m du rw that by (simp split: sum.splits option.splits)
    ultimately consider "loop i deadline abandon u = Some p" | "loop i deadline abandon w = Some p"
      | e where "r' = Inl e" "p = (Inl e, w)" | v where "p = (Inr v, w)"
      by (cases d; cases r'; cases "projr r'") simp_all
    then show "so_output_failed (snd p)"
    proof cases
      case 1
      with IH polite_later polite st refused show ?thesis unfolding steady_def by blast
    next
      case 2
      with IH polite_later polite sw refused show ?thesis unfolding steady_def by blast
    next
      case 3
      with rw route_or_close_refused show ?thesis by simp
    next
      case 4
      with refused show ?thesis by simp
    qed
  qed
qed

lemma request_inner_refused:
  assumes "request_inner m params d abandon s = Some (Inl (Tr_RemoteRejected c r), t)" "polite s"
  shows "so_output_failed t"
proof -
  obtain rs u where rs: "send_request m params d s = (rs, u)" by fastforce
  have "polite u" using send_request_spec[OF rs] assms(2) by (auto intro: polite_later)
  show ?thesis
  proof (cases rs)
    case (Inl e)
    obtain rd w where rd: "deadline_after d s = (rd, w)" by fastforce
    have kinds: "e' \<noteq> Tr_RemoteRejected c r" if "write_message q n x = (Inl e', y)" for e' q n x y
      using that check_cancelled_error[of x e' _ c r]
      by (cases "check_cancelled x") (auto simp: write_message_def Let_def elim!: so_then.elims
        split: prod.splits if_splits)
    have "e \<noteq> Tr_RemoteRejected c r"
      using rs rd Inl by (cases rd)
        (auto simp: send_request_def deadline_after_def Let_def elim!: so_then.elims dest: kinds
          split: prod.splits if_splits option.splits)
    with assms(1) rs Inl show ?thesis by (simp add: request_inner_def)
  next
    case (Inr q)
    with assms(1) rs \<open>polite u\<close> request_loop_refused[of _ _ _ u "(Inl (Tr_RemoteRejected c r), t)" c r]
    show ?thesis by (cases q) (auto simp: request_inner_def)
  qed
qed

end
