(* ===== verification/Adapter_Claims.thy ===== *)
theory Adapter_Claims
  imports Agy_Receipts Codex_Receipts Conformance Adapter_Tools Codex_Transport
begin

text \<open>
  Claims about the provider adapters: the events the two adapters report, the final text, the
  receipts of changed workspaces, the conformance suite and the transport to the app server.
\<close>

section \<open>Examples of the parameters\<close>

text \<open>A package that reads a few fixed lines and prints every value as an empty object.\<close>

definition lines_codec :: "(string \<times> Value) list \<Rightarrow> json_codec" where
  "lines_codec ls = \<lparr>json_parse = map_of ((''{}'', VObject []) # ls), json_text = (\<lambda>v. ''{}'')\<rparr>"

lemma lines_codec_reads: "json_parse (lines_codec ls) (json_text (lines_codec ls) v) \<noteq> None"
  by (simp add: lines_codec_def)

section \<open>Events\<close>

text \<open>What the suite asks of the events of an observation.\<close>

lemma upt_sorted: "map (unat \<circ> nae_sequence) es = [a..<b] \<Longrightarrow> sorted_wrt (<) (map nae_sequence es)"
proof -
  assume a: "map (unat \<circ> nae_sequence) es = [a..<b]"
  have "sorted_wrt (<) (map (unat \<circ> nae_sequence) es)" unfolding a by (rule sorted_wrt_upt)
  then show ?thesis by (simp add: sorted_wrt_map word_less_nat_alt)
qed

lemma agy_types_not_blank: "x \<in> agy_event_types \<Longrightarrow> \<not> blank x"
proof -
  have "\<forall>x \<in> agy_event_types. \<not> blank x" by code_simp
  then show "x \<in> agy_event_types \<Longrightarrow> \<not> blank x" ..
qed

lemma codex_types_not_blank: "x \<in> codex_event_types \<Longrightarrow> \<not> blank x"
proof -
  have "\<forall>x \<in> codex_event_types. \<not> blank x" by code_simp
  then show "x \<in> codex_event_types \<Longrightarrow> \<not> blank x" ..
qed

lemma measured_known: "x \<in> {ProviderReported, LocallyMeasured} \<Longrightarrow> x \<noteq> UnknownEvidence"
  by auto

lemma agy_event_conforms:
  "agy_event_ok J s e \<Longrightarrow> ag_run_id s = r \<Longrightarrow> \<forall>v. json_parse J (json_text J v) \<noteq> None \<Longrightarrow> event_conforms J r e"
  by (auto simp: agy_event_ok_def event_conforms_def dest: agy_types_not_blank)

lemma codex_event_conforms:
  "codex_event_ok J s e \<Longrightarrow> cn_run_id (cs_normalizer s) = r \<Longrightarrow> \<forall>v. json_parse J (json_text J v) \<noteq> None \<Longrightarrow>
   event_conforms J r e"
  by (auto simp: codex_event_ok_def event_conforms_def dest: codex_types_not_blank)

lemma observed_events_valid:
  assumes "map (unat \<circ> nae_sequence) es = [1..<Suc (length es)]" and "\<forall>e \<in> set es. event_conforms J r e"
  shows "\<forall>c ob. cc_run_id c = r \<and> ob_events ob = es \<and> es \<noteq> [] \<and> ob_final_state ob = nae_state (last es) \<longrightarrow>
    validate_events J c ob [] = []"
  using upt_sorted[OF assms(1)] assms(2) by (simp add: events_valid_iff)

text \<open>C27. However a run of the Agy tool is driven, from a fresh stream or one that resumes a conversation,
  its events are numbered from one without gaps, an event with a settled state is the last one,
  every event carries the run, the contract version, one of ten fixed type names and the fixed
  payload, so nothing the provider wrote, and the suite accepts them as the events of the run.\<close>

theorem agy_events_well_formed:
  assumes "s = agy_new r \<or> agy_resuming r conversation = Inr s" and "emits (agy_emit J) s as = (es, t)"
    and "\<forall>v. json_parse J (json_text J v) \<noteq> None"
  shows "map (unat \<circ> nae_sequence) es = [1..<Suc (length es)] \<and>
    (\<forall>k < length es. settled_state (nae_state (es ! k)) \<longrightarrow> Suc k = length es) \<and>
    (\<forall>e \<in> set es. nae_run_id e = r \<and> nae_event_type e \<in> agy_event_types \<and> nae_provider_event_id e = None \<and>
       nae_redacted_payload_json e = json_text J agy_payload) \<and>
    (\<forall>c ob. cc_run_id c = r \<and> ob_events ob = es \<and> es \<noteq> [] \<and> ob_final_state ob = nae_state (last es) \<longrightarrow>
       validate_events J c ob [] = [])"
proof -
  have start: "ag_sequence s = 0 \<and> ag_run_id s = r"
    using assms(1) by (auto simp: agy_new_def agy_resuming_def split: if_splits)
  have ok: "\<forall>e \<in> set es. agy_event_ok J s e" using agy.all_proper[OF assms(2)] by simp
  with start have "\<forall>e \<in> set es. nae_run_id e = r \<and> nae_event_type e \<in> agy_event_types \<and>
      nae_provider_event_id e = None \<and> nae_redacted_payload_json e = json_text J agy_payload"
    by (simp add: agy_event_ok_def)
  moreover have n: "map (unat \<circ> nae_sequence) es = [1..<Suc (length es)]"
    using agy.numbered_without_gaps[OF _ assms(2)] start by (simp del: upt_Suc)
  moreover have "\<forall>k < length es. settled_state (nae_state (es ! k)) \<longrightarrow> Suc k = length es"
    using agy.settles_last[OF assms(2)] by fastforce
  moreover note observed_events_valid[OF n, of J r]
  ultimately show ?thesis using ok start assms(3) agy_event_conforms by blast
qed

definition agy_lines :: "(string \<times> Value) list" where
  "agy_lines = [(''i'', VObject [(''event'', VString ''init''), (''conversation_id'', VString ''c'')]),
     (''s'', VObject [(''event'', VString ''step_update''), (''step_update'', VObject [(''conversation_id'', VString ''c''),
        (''step_type'', VString ''agent_response''), (''text_delta'', VString ''ab'')])]),
     (''r'', VObject [(''event'', VString ''result''), (''result'', VObject [(''conversation_id'', VString ''c''),
        (''status'', VString ''SUCCESS'')])])]"

definition agy_calls :: "agy_call list" where
  "agy_calls = map (\<lambda>l. Agy_ConsumeLine l ''now'') [''i'', ''s'', ''s'', ''r'', ''r''] @ [Agy_TimedOut ''now'']"

lemmas agy_exec = agy_emit_def consume_line_def consume_init_def consume_step_def consume_result_def agy_lifecycle_def
  lifecycle_with_evidence_def agy_required_text_def get_text_def get_str_def lines_codec_def agy_lines_def agy_new_def
  agy_result_outcome_def agy_result_conversation_def require_matching_conversation_def agy_delta_def agy_retain_def
  append_if_within_limit_def MAX_FINAL_OUTPUT_BYTES_def checked_add_def agy_calls_def blank_code ascii_graphic_def agy_timed_out_def
  agy_local_terminal_def ensure_def Let_def agy_answer.simps agy_step_delta_def agy_final_output_def agy_kept_def

lemma agy_calls_emit:
  "map (\<lambda>e. (nae_state e, nae_sequence e)) (fst (emits (agy_emit (lines_codec agy_lines)) (agy_new (StableId 7)) agy_calls)) =
     [(Run_Running, 1), (Run_Succeeded, 2)]"
  by (simp add: agy_exec)

theorem agy_events_well_formed_witness:
  "\<exists>es t. emits (agy_emit (lines_codec agy_lines)) (agy_new (StableId 7)) agy_calls = (es, t) \<and> length es = 2 \<and>
     map (unat \<circ> nae_sequence) es = [1, 2] \<and>
     (\<forall>k < length es. settled_state (nae_state (es ! k)) \<longrightarrow> Suc k = length es) \<and> (\<forall>e \<in> set es. nae_run_id e = StableId 7)"
proof -
  obtain es t where run: "emits (agy_emit (lines_codec agy_lines)) (agy_new (StableId 7)) agy_calls = (es, t)" by fastforce
  with agy_calls_emit have two: "length es = 2" by (auto dest: arg_cong[where f = length])
  have "agy_new (StableId 7) = agy_new (StableId 7) \<or> agy_resuming (StableId 7) [] = Inr (agy_new (StableId 7))" by simp
  note claim = agy_events_well_formed[OF this run] 
  with lines_codec_reads[of agy_lines] two have "map (unat \<circ> nae_sequence) es = [1..<Suc 2]" by simp
  with run two claim lines_codec_reads[of agy_lines] show ?thesis by (auto simp: numeral_eq_Suc upt_rec)
qed

text \<open>C28. However the stream of a Codex turn is driven, its events are numbered from one without gaps,
  an event with a settled state is the last one, every payload names at most the turn or the
  resumed thread and one of six fixed states, every type is one of six fixed names, and the suite
  accepts them as the events of the run.\<close>

theorem codex_events_well_formed:
  assumes "codex_stream_new r turn = Inr s" and "emits (codex_emit J) s as = (es, t)"
    and "\<forall>v. json_parse J (json_text J v) \<noteq> None"
  shows "map (unat \<circ> nae_sequence) es = [1..<Suc (length es)] \<and>
    (\<forall>k < length es. settled_state (nae_state (es ! k)) \<longrightarrow> Suc k = length es) \<and>
    (\<forall>e \<in> set es. nae_run_id e = r \<and> nae_event_type e \<in> codex_event_types \<and>
       (\<exists>v. nae_redacted_payload_json e = json_text J v \<and> codex_payload_ok s (nae_provider_event_id e) v)) \<and>
    (\<forall>c ob. cc_run_id c = r \<and> ob_events ob = es \<and> es \<noteq> [] \<and> ob_final_state ob = nae_state (last es) \<longrightarrow>
       validate_events J c ob [] = [])"
proof -
  have start: "codex_last_sequence s = 0 \<and> codex_good s \<and> cn_run_id (cs_normalizer s) = r"
    using assms(1) by (auto simp: codex_stream_new_def normalizer_new_def codex_last_sequence_def codex_good_def split: if_splits)
  have ok: "\<forall>e \<in> set es. codex_event_ok J s e" using codex.all_proper[OF assms(2)] by simp
  with start have "\<forall>e \<in> set es. nae_run_id e = r \<and> nae_event_type e \<in> codex_event_types \<and>
      (\<exists>v. nae_redacted_payload_json e = json_text J v \<and> codex_payload_ok s (nae_provider_event_id e) v)"
    by (simp add: codex_event_ok_def)
  moreover have n: "map (unat \<circ> nae_sequence) es = [1..<Suc (length es)]"
    using codex.numbered_without_gaps[OF _ assms(2)] start by (simp del: upt_Suc)
  moreover have "\<forall>k < length es. settled_state (nae_state (es ! k)) \<longrightarrow> Suc k = length es"
    using codex.settles_last[OF assms(2)] by fastforce
  moreover note observed_events_valid[OF n, of J r]
  ultimately show ?thesis using ok start assms(3) codex_event_conforms by blast
qed

text \<open>Two notifications of the turn, one of another turn, and a time-out after the end.\<close>

definition turn_note :: "string \<Rightarrow> string \<Rightarrow> string \<Rightarrow> AppServerNotification" where
  "turn_note method turn status = \<lparr>nt_method = method,
     nt_params = VObject [(''turn'', VObject [(''id'', VString turn), (''status'', VString status)])]\<rparr>"

definition codex_calls :: "codex_call list" where
  "codex_calls = [Cx_Ingest (turn_note ''turn/started'' ''t'' ''inProgress'') ''now'',
     Cx_Ingest (turn_note ''turn/completed'' ''u'' ''completed'') ''now'',
     Cx_Ingest (turn_note ''turn/completed'' ''t'' ''completed'') ''now'', Cx_DeadlineExceeded ''now'']"

definition codex_start :: CodexRunStream where
  "codex_start = \<lparr>cs_provider_turn_id = ''t'', cs_normalizer = normalizer_new (StableId 7), cs_terminal = False\<rparr>"

lemma codex_start_new: "codex_stream_new (StableId 7) ''t'' = Inr codex_start"
  by (simp add: codex_stream_new_def codex_start_def blank_code ascii_graphic_def)

lemmas codex_exec = codex_emit_def codex_ingest_def with_normalizer_def normalize_notification_def turn_started_def
  turn_completed_def completed_outcome_def normalized_event_def normalizer_new_def codex_start_def codex_calls_def
  turn_note_def turn_of_def lc_required_string_def get_text_def get_str_def codex_deadline_exceeded_def
  codex_local_terminal_def ensure_def checked_add_def blank_code ascii_graphic_def lines_codec_def

lemma codex_calls_emit:
  "map (\<lambda>e. (nae_state e, nae_sequence e)) (fst (emits (codex_emit (lines_codec [])) codex_start codex_calls)) =
     [(Run_Running, 1), (Run_Succeeded, 2)]"
  by (simp add: codex_exec)

theorem codex_events_well_formed_witness:
  "\<exists>es t. emits (codex_emit (lines_codec [])) codex_start codex_calls = (es, t) \<and> length es = 2 \<and>
     map (unat \<circ> nae_sequence) es = [1, 2] \<and>
     (\<forall>k < length es. settled_state (nae_state (es ! k)) \<longrightarrow> Suc k = length es) \<and> (\<forall>e \<in> set es. nae_run_id e = StableId 7)"
proof -
  obtain es t where run: "emits (codex_emit (lines_codec [])) codex_start codex_calls = (es, t)" by fastforce
  with codex_calls_emit have two: "length es = 2" by (auto dest: arg_cong[where f = length])
  note claim = codex_events_well_formed[OF codex_start_new run]
  with lines_codec_reads[of "[]"] two have "map (unat \<circ> nae_sequence) es = [1..<Suc 2]" by simp
  with run two claim lines_codec_reads[of "[]"] show ?thesis by (auto simp: numeral_eq_Suc upt_rec)
qed

section \<open>The suite\<close>

text \<open>The suite passes exactly when every one of its ten cases is answered as described, in the state
  the adapter has reached by then.\<close>

theorem suite_passes_iff:
  "cp_passed (run_required_suite J A s) \<longleftrightarrow>
     (\<forall>k < length required_cases. case_conforms J (required_cases ! k) (ca_capabilities A)
        (fst (ca_run_case A (fold (\<lambda>c u. snd (ca_run_case A u c)) (take k required_cases) s) (required_cases ! k))))"
  by (simp add: run_required_suite_def run_cases_iff Let_def)

lemma required_cases_scenarios: "map cc_scenario required_cases = REQUIRED_SCENARIOS"
  by (simp add: required_cases_def comp_def case_prod_beta map_snd_enumerate[unfolded comp_def])

text \<open>The capabilities the two adapters declare in production leave out the operation that the case of a
  failed authentication asks for, so no adapter with these capabilities passes, whatever it does.\<close>

theorem declared_capabilities_fail_suite:
  assumes "ca_capabilities A \<in> {codex_capabilities, agy_capabilities}"
  shows "\<not> cp_passed (run_required_suite J A s)"
proof
  assume "cp_passed (run_required_suite J A s)"
  moreover have four: "(4::nat) < length required_cases"
    using arg_cong[OF required_cases_scenarios, of length] by (simp add: REQUIRED_SCENARIOS_def)
  moreover have "cc_scenario (required_cases ! 4) = Sc_AuthenticationFailure"
    using arg_cong[OF required_cases_scenarios, of "\<lambda>xs. xs ! 4"] four by (simp add: REQUIRED_SCENARIOS_def)
  ultimately have "Adp_Authenticate \<in> set (operations (ca_capabilities A))"
    by (auto simp: suite_passes_iff case_conforms_def dest: spec[of _ "4::nat"])
  with assms show False by (auto simp: codex_capabilities_def agy_capabilities_def)
qed

section \<open>The final text\<close>

lemma fold_ingest_ids:
  "fo_thread_id (snd (final_output_ingest note o')) = fo_thread_id o'"
  "fo_turn_id (snd (final_output_ingest note o')) = fo_turn_id o'"
  by (simp_all add: final_output_ingest_def split: sum.split option.split prod.split)

lemma final_answer_ids:
  "fo_thread_id o1 = fo_thread_id o2 \<Longrightarrow> fo_turn_id o1 = fo_turn_id o2 \<Longrightarrow> final_answer o1 = final_answer o2"
  by (rule ext) (simp add: final_answer_def cong: if_cong)

text \<open>The final answers among the notifications of a run.\<close>

definition codex_answers :: "CodexFinalOutput \<Rightarrow> AppServerNotification list \<Rightarrow> string list" where
  "codex_answers o' ns = concat (map (\<lambda>n. case final_answer o' n of Inr (Some t) \<Rightarrow> [t] | _ \<Rightarrow> []) ns)"

definition codex_kept :: "CodexFinalOutput \<Rightarrow> string \<times> bool" where
  "codex_kept o' = (fo_text o', fo_overflowed o')"

lemma kept_ingest:
  "codex_kept (snd (final_output_ingest n o')) =
     fold retain_text (case final_answer o' n of Inr (Some t) \<Rightarrow> [t] | _ \<Rightarrow> []) (codex_kept o')"
  by (simp add: final_output_ingest_def codex_kept_def split: sum.split option.split prod.split del: retain_text.simps)

lemma kept_notes:
  "codex_kept (fold (\<lambda>n o'. snd (final_output_ingest n o')) ns o') =
     fold retain_text (codex_answers o' ns) (codex_kept o')"
proof (induction ns arbitrary: o')
  case (Cons n ns)
  have "codex_answers (snd (final_output_ingest n o')) ns = codex_answers o' ns"
    unfolding codex_answers_def by (simp add: final_answer_ids[OF fold_ingest_ids])
  with Cons[of "snd (final_output_ingest n o')"] kept_ingest[of n o'] show ?case
    by (simp add: codex_answers_def del: retain_text.simps)
qed (simp add: codex_answers_def)

text \<open>All of a text within the limit, or nothing.\<close>

definition whole_text :: "string list \<Rightarrow> string option" where
  "whole_text ts = (if concat ts \<noteq> [] \<and> length (concat ts) \<le> 262144 then Some (concat ts) else None)"

text \<open>C32. The final text an adapter reports is exactly the answer texts of the run joined in order, when
  they are not empty and at most 256 KiB together, and otherwise none: never a part of the answer,
  for Codex whatever notifications arrive and for Agy whatever calls are made.\<close>

theorem final_text_whole_or_none:
  "(final_output_new thread turn = Inr o' \<longrightarrow>
      final_output_text (fold (\<lambda>n o'. snd (final_output_ingest n o')) ns o') = whole_text (codex_answers o' ns)) \<and>
   agy_final_output (snd (emits (agy_emit J) (agy_new r) as)) = whole_text (agy_answers J (agy_new r) as)"
proof (intro conjI impI)
  have whole: "(if \<not> overflowed \<and> kept \<noteq> [] then Some kept else None) = whole_text ts"
    if "(kept, overflowed) = fold retain_text ts ([], False)" for kept overflowed ts
    using that by (auto simp: retain_all whole_text_def MAX_FINAL_OUTPUT_BYTES_def split: if_splits)
  show "final_output_text (fold (\<lambda>n o'. snd (final_output_ingest n o')) ns o') = whole_text (codex_answers o' ns)"
    if new: "final_output_new thread turn = Inr o'"
  proof -
    have "codex_kept o' = ([], False)" using new by (auto simp: final_output_new_def codex_kept_def and_then_eq_Ok)
    with kept_notes[of ns o'] show ?thesis unfolding final_output_text_def by (intro whole) (simp add: codex_kept_def)
  qed
  obtain es t where run: "emits (agy_emit J) (agy_new r) as = (es, t)" by fastforce
  have "agy_kept (agy_new r) = ([], False)" by (simp add: agy_kept_def agy_new_def)
  with kept_run[OF run] have "(ag_final_output t, ag_final_output_overflowed t) =
      fold retain_text (agy_answers J (agy_new r) as) ([], False)" by (simp add: agy_kept_def)
  from whole[OF this] run show "agy_final_output (snd (emits (agy_emit J) (agy_new r) as)) = whole_text (agy_answers J (agy_new r) as)"
    by (simp add: agy_final_output_def)
qed

definition answer_note :: "string \<Rightarrow> string \<Rightarrow> AppServerNotification" where
  "answer_note turn text = \<lparr>nt_method = ''item/completed'', nt_params = VObject [(''threadId'', VString ''h''),
     (''turnId'', VString turn), (''item'', VObject [(''type'', VString ''agentMessage''),
       (''phase'', VString ''final_answer''), (''text'', VString text)])]\<rparr>"

definition codex_output :: CodexFinalOutput where
  "codex_output = \<lparr>fo_thread_id = ''h'', fo_turn_id = ''t'', fo_text = [], fo_overflowed = False\<rparr>"

theorem final_text_whole_or_none_witness:
  "final_output_text (fold (\<lambda>n o'. snd (final_output_ingest n o'))
       [answer_note ''t'' ''ab'', answer_note ''u'' ''x'', answer_note ''t'' ''c''] codex_output) = Some ''abc'' \<and>
   agy_final_output (snd (emits (agy_emit (lines_codec agy_lines)) (agy_new (StableId 7)) agy_calls)) = Some ''abab''"
proof -
  have new: "final_output_new ''h'' ''t'' = Inr codex_output"
    by (simp add: final_output_new_def require_text_def ensure_def codex_output_def blank_code ascii_graphic_def)
  have "codex_answers codex_output [answer_note ''t'' ''ab'', answer_note ''u'' ''x'', answer_note ''t'' ''c''] = [''ab'', ''c'']"
    by (simp add: codex_answers_def answer_note_def final_answer_def required_value_string_def get_str_def codex_output_def)
  moreover have "agy_answers (lines_codec agy_lines) (agy_new (StableId 7)) agy_calls = [''ab'', ''ab'']"
    by (simp add: agy_exec)
  ultimately show ?thesis
    using final_text_whole_or_none[of "''h''" "''t''" codex_output
      "[answer_note ''t'' ''ab'', answer_note ''u'' ''x'', answer_note ''t'' ''c'']" "lines_codec agy_lines" "StableId 7" agy_calls] new
    by (simp add: whole_text_def)
qed

section \<open>Receipts\<close>

text \<open>C24. In any sequence of calls on a run that may write (requests for its cancellation or resumption,
  blocking and bounded waits, with any answers of the app server and any state of the disk at each
  call), a succeeded, failed, cancelled or uncertain state is handed out only after a write
  receipt, or when a snapshot taken during one of the calls shows no file changed since the start.\<close>

theorem receipt_before_terminal_state:
  assumes "tracker_new r thread turn (Some before) = Inr k" and "tracker_uses E T cs k sv = Some (us, k', sv')"
    and "i < length us" and "terminal_update (us ! i)"
  shows "(\<exists>j < i. write_receipt_update (us ! j)) \<or>
    (\<exists>c \<in> set cs. \<exists>capture after. call_view c = Some capture \<and> capture (ws_root before) = Inr after \<and>
       ws_root after = ws_root before \<and> changed_files (ws_files before) (ws_files after) = 0)"
  using tracker_uses_receipt[OF assms(2) _ _ assms(3,4), of before] tracker_new_fields[OF assms(1)]
  by (auto simp: view_unchanged_def workspace_unchanged_def)

text \<open>A turn whose diff is empty again (every change was taken back) counts as a violation of the
  protocol: \<open>required_string\<close> refuses the empty text before the branch that would accept it.\<close>

theorem empty_diff_is_protocol_drift:
  assumes "matches_run c params = Ok True" and "get_str ''diff'' params = Some []"
  shows "evidence_ingest J c \<lparr>nt_method = ''turn/diff/updated'', nt_params = params\<rparr> = Err Ev_ProtocolDrift"
  using assms by (simp add: evidence_ingest_def diff_updated_def if_run_def ev_required_string_def get_text_def)

text \<open>An app server that reports the end of the turn, and a disk on which one file was added.\<close>

definition ended_transport :: "unit transport" where
  "ended_transport = \<lparr>tp_request = (\<lambda>t m v. (Err Tr_Unavailable, t)), tp_request_with_timeout = (\<lambda>t m v d. (Err Tr_Unavailable, t)),
     tp_notify = (\<lambda>t m v. (Ok (), t)), tp_next_notification = (\<lambda>t. (Ok (turn_note ''turn/completed'' ''t'' ''completed''), t)),
     tp_poll_notification = (\<lambda>t d. (Ok None, t))\<rparr>"

definition disk_before :: WorkspaceSnapshot where
  "disk_before = \<lparr>ws_root = ''/w'', ws_files = [([''a''], ''1'')]\<rparr>"

definition disk_after :: disk_view where
  "disk_after root = Ok \<lparr>ws_root = root, ws_files = [([''a''], ''1''), ([''b''], ''2'')]\<rparr>"

definition example_env :: codex_env where
  "example_env = \<lparr>cv_codec = lines_codec [], cv_models = (\<lambda>v. None), cv_thread = (\<lambda>v. None), cv_turn = (\<lambda>v. None),
     cv_absolute = (\<lambda>s. True), cv_version = ''1''\<rparr>"

definition codex_tracker :: CodexRunTracker where
  "codex_tracker = \<lparr>tk_thread_id = ''h'', tk_turn_id = ''t'', tk_stream = codex_start,
     tk_evidence = \<lparr>ce_thread_id = ''h'', ce_turn_id = ''t''\<rparr>, tk_before = Some disk_before,
     tk_provider_write_receipt = False, tk_pending_terminal = None, tk_final_output = codex_output\<rparr>"

lemma codex_tracker_new: "tracker_new (StableId 7) ''h'' ''t'' (Some disk_before) = Inr codex_tracker"
  by (simp add: tracker_new_def codex_start_new evidence_new_def final_output_new_def require_text_def ensure_def
    codex_tracker_def codex_output_def blank_code ascii_graphic_def)

lemmas receipt_exec = next_update_def next_run_update.simps next_notification_def require_initialized_def sv_use_def
  sv_try_def ended_transport_def observe_notification_def final_output_ingest_def final_answer_def tracker_view_def
  with_view_def order_update_def write_receipt_def changed_files_def disk_before_def disk_after_def example_env_def
  codex_tracker_def ensure_def tracker_uses_def

lemma tracker_uses_receipt_example:
  "\<exists>us k' sv'. tracker_uses example_env ended_transport [Rc_NextUpdate disk_after ''now'', Rc_NextUpdate disk_after ''now'']
      codex_tracker \<lparr>sv_transport = (), sv_initialized = True\<rparr> = Some (us, k', sv') \<and>
    length us = 2 \<and> \<not> terminal_update (us ! 0) \<and> terminal_update (us ! 1)"
  by (simp add: receipt_exec codex_exec)

theorem receipt_before_terminal_state_witness:
  "\<exists>us k' sv'. tracker_uses example_env ended_transport [Rc_NextUpdate disk_after ''now'', Rc_NextUpdate disk_after ''now'']
      codex_tracker \<lparr>sv_transport = (), sv_initialized = True\<rparr> = Some (us, k', sv') \<and>
    terminal_update (us ! 1) \<and> write_receipt_update (us ! 0)"
proof -
  obtain us k' sv' where run: "tracker_uses example_env ended_transport
      [Rc_NextUpdate disk_after ''now'', Rc_NextUpdate disk_after ''now'']
      codex_tracker \<lparr>sv_transport = (), sv_initialized = True\<rparr> = Some (us, k', sv')"
    and us: "length us = 2" "terminal_update (us ! 1)"
    using tracker_uses_receipt_example by blast
  from receipt_before_terminal_state[OF codex_tracker_new run, of 1] us have "write_receipt_update (us ! 0)"
    by (auto simp: disk_after_def disk_before_def changed_files_def)
  with run us show ?thesis by blast
qed

text \<open>C25. The same for the Agy tool: after a run that may write was started, whatever calls follow and
  whatever the tool prints, the state that ends the run is handed out only after a write receipt, or
  when a snapshot taken during one of the calls shows no file changed since the one taken before
  the start.\<close>

theorem agy_receipt_before_terminal_state:
  assumes "agy_spawn J w r = Inr p" and "\<not> aq_read_only r" and "process_uses J cs p = Some (us, q)"
    and "i < length us" and "agy_terminal (us ! i)"
  shows "\<exists>before. su_capture w (aq_cwd r) = Inr before \<and> ((\<exists>j < i. agy_receipt (us ! j)) \<or>
    (\<exists>c \<in> set cs. \<exists>capture after. process_view c = Some capture \<and> capture (ws_root before) = Inr after \<and>
       ws_root after = ws_root before \<and> changed_files (ws_files before) (ws_files after) = 0))"
  using process_uses_receipt[OF assms] unfolding workspace_unchanged_def by blast

text \<open>A started tool that prints the lines of one short answer, and a clock that moves on by one.\<close>

definition agy_world :: agy_process where
  "agy_world = \<lparr>ap_stream = agy_new (StableId 7), ap_timeout = 0, ap_inactivity_deadline = 0, ap_cancellation_requested = False,
     ap_pending = None, ap_pending_terminal = None, ap_before = None, ap_stdin_open = False, ap_reader_open = False,
     ap_horizon = 10 ^ 12, ap_now = id, ap_failed = (\<lambda>k. False), ap_recv = (\<lambda>k. Agy_Line (if k = 0 then ''i'' else ''r'')),
     ap_shutdown = (\<lambda>k. True)\<rparr>"

definition agy_request :: AgyRunRequest where
  "agy_request = \<lparr>aq_run_id = StableId 7, aq_model = ''m'', aq_effort = None, aq_prompt = ''p'', aq_cwd = ''/w'',
     aq_read_only = False, aq_timeout = 10 ^ 9, aq_conversation_id = None\<rparr>"

definition agy_start :: agy_startup where
  "agy_start = \<lparr>su_executable = True, su_absolute = (\<lambda>s. True), su_dir = (\<lambda>s. True), su_cwd_text = True,
     su_cancelled = (\<lambda>k. False), su_launcher = True, su_child = True, su_stdin = True, su_writer = None, su_stdout = True,
     su_reader = True, su_write = None, su_capture = (\<lambda>root. Ok disk_before), su_world = agy_world\<rparr>"

lemma letter_m: "ascii_alphanumeric CHR ''m''"
  by (simp add: ascii_alphanumeric_def ascii_lower_def Let_def)

definition agy_uses :: "process_call list" where
  "agy_uses = [Pc_NextUpdate disk_after ''now'', Pc_NextUpdate disk_after ''now'', Pc_NextUpdate disk_after ''now'']"

lemmas agy_process_exec = agy_spawn_def validate_request_def as_secs_def agy_start_def agy_request_def agy_world_def
  model_id_char_def encode_json_line_def MAX_INPUT_FRAME_BYTES_def agy_startup_error_def agy_first_def agy_started_def
  process_uses_def agy_next_update.simps agy_poll_update_def agy_poll_loop.simps process_readings agy_line_def
  on_stream_def agy_line_terminal_def agy_order_terminal_def write_receipt_def changed_files_def disk_before_def
  disk_after_def letter_m

lemma agy_uses_example:
  "\<exists>p us q. agy_spawn (lines_codec agy_lines) agy_start agy_request = Inr p \<and>
     process_uses (lines_codec agy_lines) agy_uses p = Some (us, q) \<and>
     length us = 3 \<and> agy_terminal (us ! 2) \<and> \<not> agy_receipt (us ! 0)"
  by (simp add: agy_process_exec agy_exec agy_uses_def)

theorem agy_receipt_before_terminal_state_witness:
  "\<exists>p us q. agy_spawn (lines_codec agy_lines) agy_start agy_request = Inr p \<and>
     process_uses (lines_codec agy_lines) agy_uses p = Some (us, q) \<and>
     agy_terminal (us ! 2) \<and> agy_receipt (us ! 1)"
proof -
  obtain p us q where run: "agy_spawn (lines_codec agy_lines) agy_start agy_request = Inr p"
    "process_uses (lines_codec agy_lines) agy_uses p = Some (us, q)"
    and us: "length us = 3" "agy_terminal (us ! 2)" "\<not> agy_receipt (us ! 0)"
    using agy_uses_example by blast
  have w: "\<not> aq_read_only agy_request" by (simp add: agy_request_def)
  have "\<exists>j < 2. agy_receipt (us ! j)"
    using agy_receipt_before_terminal_state[OF run(1) w run(2), of 2] us
    by (auto simp: agy_uses_def agy_start_def disk_after_def disk_before_def changed_files_def)
  then have "agy_receipt (us ! 1)" using us(3) by (auto simp: numeral_2_eq_2 less_Suc_eq)
  with us run show ?thesis by blast
qed

text \<open>C33. When both snapshots of a workspace succeed, the receipt is missing exactly when no file
  differs, and otherwise reports the number of paths whose file was added, removed or has another
  digest; a snapshot holds a digest of every file of the tree, at most 10,000 of them, and never
  succeeds on a tree with a symbolic link, a special or an unreadable file.\<close>

theorem workspace_receipt_exact:
  assumes "workspace_capture H absolute root before = Inr s1" and "workspace_capture H absolute root after = Inr s2"
    and "\<forall>es. before = Ws_Dir es \<or> after = Ws_Dir es \<longrightarrow> tree_ok es"
  shows "plain_node before \<and> plain_node after \<and> length (ws_files s1) \<le> 10000 \<and> length (ws_files s2) \<le> 10000 \<and>
    (\<exists>bs as. before = Ws_Dir (Some bs) \<and> after = Ws_Dir (Some as) \<and>
      (let file = (\<lambda>es p. map_option (H \<circ> the) (map_of (tree_files [] (sort_key fst es)) p));
           n = card {p. file bs p \<noteq> file as p} in
       write_receipt J s1 s2 = Ok (if n = 0 then None else Some (json_text J (workspace_payload n)))))"
proof -
  obtain bs where bs: "before = Ws_Dir (Some bs)" "plain_node before" "ws_root s1 = root" "distinct (map fst (ws_files s1))"
    "length (ws_files s1) \<le> MAX_FILES" "captured H (ws_files s1) (tree_files [] (sort_key fst bs))"
    using capture_Ok[OF assms(1)] assms(3) by blast
  obtain as where as: "after = Ws_Dir (Some as)" "plain_node after" "ws_root s2 = root" "distinct (map fst (ws_files s2))"
    "length (ws_files s2) \<le> MAX_FILES" "captured H (ws_files s2) (tree_files [] (sort_key fst as))"
    using capture_Ok[OF assms(2)] assms(3) by blast
  have "changed_files (ws_files s1) (ws_files s2) =
      card {p. map_option (H \<circ> the) (map_of (tree_files [] (sort_key fst bs)) p) \<noteq>
               map_option (H \<circ> the) (map_of (tree_files [] (sort_key fst as)) p)}"
    unfolding changed_files_card[OF bs(4) as(4)] map_of_captured[OF bs(6)] map_of_captured[OF as(6)] ..
  with bs as show ?thesis by (simp add: write_receipt_def Let_def MAX_FILES_def)
qed

definition one_file :: "string \<Rightarrow> (string \<times> ws_node) list" where
  "one_file content = [(''a'', Ws_File (Some 1) (Some content))]"

lemma one_file_capture:
  "workspace_capture id (\<lambda>r. True) ''/w'' (Ws_Dir (Some (one_file content))) =
     Inr \<lparr>ws_root = ''/w'', ws_files = [([''a''], content)]\<rparr>"
  by (simp add: workspace_capture_def capture_directory_def one_file_def capture_file_def hash_file_def MAX_FILES_def
    MAX_TOTAL_BYTES_def checked_add_def)

lemma one_file_tree: "tree_ok (Some (one_file content))" "tree_files [] (sort_key fst (one_file content)) = [([''a''], Some content)]"
  by (simp_all add: tree_ok_def one_file_def)

theorem workspace_receipt_exact_witness:
  "write_receipt (lines_codec []) \<lparr>ws_root = ''/w'', ws_files = [([''a''], ''1'')]\<rparr>
     \<lparr>ws_root = ''/w'', ws_files = [([''a''], ''2'')]\<rparr> = Ok (Some (json_text (lines_codec []) (workspace_payload 1))) \<and>
   plain_node (Ws_Dir (Some (one_file ''1'')))"
proof -
  have "\<forall>es. Ws_Dir (Some (one_file ''1'')) = Ws_Dir es \<or> Ws_Dir (Some (one_file ''2'')) = Ws_Dir es \<longrightarrow> tree_ok es"
    by (auto simp: one_file_tree(1))
  note claim = workspace_receipt_exact[OF one_file_capture[of "''1''"] one_file_capture[of "''2''"] this, of "lines_codec []"]
  have "{p. map_option (id \<circ> the) (map_of [([''a''], Some ''1'')] p) \<noteq> map_option (id \<circ> the) (map_of [([''a''], Some ''2'')] p)} =
      {[''a'']}" by auto
  with claim show ?thesis by (simp add: one_file_tree(2) Let_def)
qed

section \<open>The transport\<close>

text \<open>A notification, then \<open>reply\<close> over and over; a clock that moves on by one at each look.\<close>

definition pipes :: "Value \<Rightarrow> stdio" where
  "pipes reply = \<lparr>so_output_failed = False, so_stdin_open = True, so_reader_open = True, so_pending = [],
     so_pending_bytes = 0, so_next_request_id = 0, so_timeout = 50, so_notification_deadline = None, so_abandoned = [],
     so_codec = lines_codec [], so_horizon = 1000, so_now = id, so_cancelled = (\<lambda>k. False), so_failed = (\<lambda>k. False),
     so_recv = (\<lambda>k. Received (Inr (if k = 0 then VObject [(''method'', VString ''n''), (''params'', VNull)] else reply))),
     so_write = (\<lambda>k. Written), so_shutdown = (\<lambda>k. True)\<rparr>"

lemmas pipes_exec = pipes_def request_inner_def send_request_def deadline_after_def read_clock_def write_message_def
  check_cancelled_def read_failed_def read_cancelled_def read_message_def encode_json_line_def lines_codec_def
  MAX_INPUT_FRAME_BYTES_def request_loop.simps receive_message.simps note_activity_def discard_abandoned_def
  route_or_close_def route_request_message_def decode_response_def decode_notification_def get_text_def get_str_def
  blank_code ascii_graphic_def OUTPUT_QUEUE_ITEMS_def OUTPUT_QUEUE_BYTES_def checked_add_def Let_def
  decode_rejection_def close_then_fail_def close_child_def stdio_spawn_def

lemma pipes_reply:
  "\<exists>t. request_inner ''m'' VNull 20 False (pipes (VObject [(''id'', VNumber (PosInt 0)), (''result'', VBool True)])) =
     Some (Inr (VBool True), t)"
  by (simp add: pipes_exec comp_def)


text \<open>C26. A request over the pipes succeeds only with the result of a message that the app server sent
  while it was waited for, whose identifier is the number of this very request and which reports no
  error; a late answer to an earlier, given-up request is never taken for it.\<close>

theorem request_gets_own_reply:
  assumes "request_inner method params max_wait abandon s = Some (Inr v, t)"
  shows "\<exists>k m. so_recv s k = Received (Inr m) \<and> value_get ''result'' m = Some v \<and> value_get ''error'' m = None \<and>
    Option.bind (value_get ''id'' m) as_u64 = Some (so_next_request_id s)"
  using request_inner_spec(2)[OF assms refl] by (auto simp: replies_def)

theorem request_gets_own_reply_witness:
  "\<exists>t. request_inner ''m'' VNull 20 False (pipes (VObject [(''id'', VNumber (PosInt 0)), (''result'', VBool True)])) =
     Some (Inr (VBool True), t) \<and>
   (\<exists>k m. so_recv (pipes (VObject [(''id'', VNumber (PosInt 0)), (''result'', VBool True)])) k = Received (Inr m) \<and>
     value_get ''result'' m = Some (VBool True) \<and> Option.bind (value_get ''id'' m) as_u64 = Some 0)"
proof -
  obtain t where t: "request_inner ''m'' VNull 20 False (pipes (VObject [(''id'', VNumber (PosInt 0)), (''result'', VBool True)])) =
     Some (Inr (VBool True), t)" using pipes_reply by blast
  with request_gets_own_reply[OF t] show ?thesis by (auto simp: pipes_def)
qed

text \<open>C29. After the transport was opened, whatever requests and waits follow and whatever the app server
  sends: at most 128 notifications and 16 MiB of them are kept, the number of bytes kept is
  accounted exactly, at most 64 given-up requests are remembered, and all of them are earlier ones.\<close>

theorem transport_bounded:
  assumes "stdio_spawn timeout started s0 = (Inr (), s)" and "stdio_uses cs s = Some t"
  shows "length (so_pending t) \<le> 128 \<and> so_pending_bytes t = sum_list (map snd (so_pending t)) \<and>
    so_pending_bytes t \<le> 16 * 1024 * 1024 \<and> length (so_abandoned t) \<le> 64 \<and>
    (\<forall>i \<in> set (so_abandoned t). i < so_next_request_id t)"
  using stdio_uses_ok[OF assms(2) stdio_spawn_ok[OF assms(1)]]
  by (simp add: stdio_ok_def OUTPUT_QUEUE_ITEMS_def OUTPUT_QUEUE_BYTES_def MAX_ABANDONED_REQUESTS_def)

lemma pipes_spawn: "\<exists>t. stdio_spawn 50 True (pipes VNull) = (Inr (), t)"
  by (simp add: pipes_exec)

lemma pipes_uses:
  "\<exists>t. stdio_uses [Sc_request ''m'' VNull, Sc_poll_notification 1] (snd (stdio_spawn 50 True
     (pipes (VObject [(''id'', VNumber (PosInt 0)), (''result'', VBool True)])))) = Some t \<and> length (so_pending t) \<le> 128"
  by (simp add: pipes_exec stdio_request_def stdio_poll_notification_def pop_pending_def comp_def)

theorem transport_bounded_witness:
  "\<exists>s t. stdio_spawn 50 True (pipes (VObject [(''id'', VNumber (PosInt 0)), (''result'', VBool True)])) = (Inr (), s) \<and>
     stdio_uses [Sc_request ''m'' VNull, Sc_poll_notification 1] s = Some t \<and> so_pending_bytes t = sum_list (map snd (so_pending t)) \<and>
     length (so_pending t) \<le> 128 \<and> length (so_abandoned t) \<le> 64"
proof -
  obtain s where s: "stdio_spawn 50 True (pipes (VObject [(''id'', VNumber (PosInt 0)), (''result'', VBool True)])) = (Inr (), s)"
    by (simp add: pipes_exec)
  with pipes_uses obtain t where "stdio_uses [Sc_request ''m'' VNull, Sc_poll_notification 1] s = Some t" by auto
  with s transport_bounded[OF s this] show ?thesis by blast
qed

text \<open>C30. A request returns once the clock stays past its deadline, however many messages, answers to
  given-up requests and empty waits come first: no peer can hold it by talking.\<close>

theorem request_returns:
  assumes "\<forall>k \<ge> n. so_now s 0 + max_wait < so_now s k"
  shows "\<exists>r t. request_inner method params max_wait abandon s = Some (r, t)"
  using request_inner_returns[OF assms] by auto

theorem request_returns_witness:
  "\<exists>r t. request_inner ''m'' VNull 20 True (pipes VNull) = Some (r, t)"
proof -
  have "\<forall>k \<ge> 21. so_now (pipes VNull) 0 + 20 < so_now (pipes VNull) k" by (simp add: pipes_def)
  from request_returns[OF this] show ?thesis .
qed

text \<open>C31. Once the app server refuses a request, the transport is closed for good, even when the refusal
  says that it may be retried: every later request, notification and wait ends with an error and
  nothing is written to the child any more.\<close>

theorem refused_request_closes:
  assumes "request_inner method params max_wait abandon s = Some (Inl (Tr_RemoteRejected code retryable), t)"
    and "\<forall>k c r. so_recv s k \<noteq> Received (Inl (Tr_RemoteRejected c r))"
  shows "(\<exists>u. stdio_uses cs t = Some u \<and> so_output_failed u \<and> so_write u = so_write t) \<and>
    (\<exists>e u. request_inner m p d b t = Some (Inl e, u)) \<and> (\<exists>e u. stdio_notify m p t = (Inl e, u)) \<and>
    (\<exists>e u. stdio_poll_notification d t = Some (Inl e, u))"
proof -
  have "so_output_failed t" using request_inner_refused[OF assms(1)] assms(2) by (simp add: polite_def)
  with closed_uses closed_request closed_notify closed_poll show ?thesis by blast
qed

definition refusal :: Value where
  "refusal = VObject [(''id'', VNumber (PosInt 0)), (''error'', VObject [(''code'', VNumber (NegInt (-32001))),
     (''message'', VString ''busy'')])]"

lemma pipes_refusal: "\<exists>t. request_inner ''m'' VNull 20 False (pipes refusal) = Some (Inl (Tr_RemoteRejected (-32001) True), t)"
  by (simp add: pipes_exec refusal_def comp_def)

theorem refused_request_closes_witness:
  "\<exists>t. request_inner ''m'' VNull 20 False (pipes refusal) = Some (Inl (Tr_RemoteRejected (-32001) True), t) \<and>
     (\<exists>u. stdio_uses [Sc_next_notification] t = Some u \<and> so_output_failed u) \<and>
     (\<exists>e u. request_inner ''m'' VNull 20 False t = Some (Inl e, u))"
proof -
  obtain t where t: "request_inner ''m'' VNull 20 False (pipes refusal) = Some (Inl (Tr_RemoteRejected (-32001) True), t)"
    using pipes_refusal by blast
  have polite: "\<forall>k c r. so_recv (pipes refusal) k \<noteq> Received (Inl (Tr_RemoteRejected c r))" by (simp add: pipes_def)
  from t refused_request_closes[OF t polite] show ?thesis by blast
qed

end
