(* ===== verification/Http_Api.thy ===== *)
theory Http_Api
  imports Store_Executor
begin

text \<open>
  The HTTP interface of the daemon (the routes, the handlers and the statuses of errors in
  \<open>bastet-daemon/src/lib.rs\<close>). The texts of JSON bodies and UUIDs come from packages: \<open>wire\<close> holds
  their readers and writers. What a handler does to the store is one or two requests under the
  mutex; the clock and the identifiers they draw are arguments, as for the store.
\<close>

section \<open>Commands and receipts of the wire\<close>

record CreateGraphExecutionCommand =
  cge_execution :: GraphExecution

record RestartMissingOutputGraphCommand =
  rmg_expected_graph_revision :: u64

record ClaimGraphNodesCommand =
  cgn_expected_revision :: u64
  cgn_owner :: string
  cgn_limit :: nat

record ClaimGraphNodesReceipt =
  cgnr_protocol_version :: u32
  cgnr_execution_id :: GraphRunId
  cgnr_revision :: u64
  cgnr_claimed :: "GraphNodeId list"

record CompleteGraphNodeCommand =
  cpn_expected_revision :: u64
  cpn_node_id :: GraphNodeId
  cpn_owner :: string
  cpn_succeeded :: bool

record CompleteGraphNodeReceipt =
  cpnr_protocol_version :: u32
  cpnr_execution_id :: GraphRunId
  cpnr_revision :: u64

record ExecuteReadyGraphReceipt =
  ergr_protocol_version :: u32
  ergr_execution_id :: GraphRunId
  ergr_run_ids :: "RunId list"

record GraphExecutionList =
  gxl_protocol_version :: u32
  gxl_executions :: "GraphExecution list"

record CreateApprovalCommand =
  cap_request :: ApprovalRequest

record ApprovalList =
  apl_protocol_version :: u32
  apl_records :: "ApprovalRecord list"

section \<open>Texts\<close>

type_synonym 'a codec = "('a \<Rightarrow> string) \<times> (string \<Rightarrow> 'a option)"

record command_wire =
  wc_uuid :: "uuid codec"
  wc_after :: "string \<Rightarrow> u64 option"   \<comment> \<open>the query of \<open>/v1/events\<close>\<close>
  wc_rejection :: "string \<Rightarrow> nat"     \<comment> \<open>the status for a body that is not read\<close>
  wc_checkpoint :: "CheckpointCommand codec"
  wc_replace_catalog :: "ReplaceCatalogCommand codec"
  wc_replace_m3 :: "ReplaceM3CatalogCommand codec"
  wc_create_graph :: "CreateGraphExecutionCommand codec"
  wc_claim :: "ClaimGraphNodesCommand codec"
  wc_restart :: "RestartMissingOutputGraphCommand codec"
  wc_retry :: "RetryFailedGraphNodeCommand codec"
  wc_begin :: "BeginGraphNodeRunCommand codec"
  wc_execute :: "ExecuteReadyGraphCommand codec"
  wc_finish :: "FinishGraphNodeRunCommand codec"
  wc_complete :: "CompleteGraphNodeCommand codec"
  wc_prepare :: "PrepareMvpCommand codec"
  wc_accept :: "AcceptDecisionBaselineCommand codec"
  wc_document :: "CreateDocumentCommand codec"
  wc_accept_document :: "AcceptDocumentCommand codec"
  wc_prepare_delivery :: "PrepareKnowledgeDeliveryCommand codec"
  wc_complete_delivery :: "CompleteKnowledgeDeliveryCommand codec"
  wc_cost :: "RecordCostCommand codec"
  wc_create_approval :: "CreateApprovalCommand codec"
  wc_revoke :: "RevokeCredentialGrantCommand codec"
  wc_decide :: "DecideApprovalCommand codec"
  wc_cancel :: "CancelRunCommand codec"

record reply_wire =
  wr_error :: "StoreError \<Rightarrow> string"
  wr_snapshot :: "DaemonSnapshot codec"
  wr_events :: "EventEnvelope list codec"
  wr_catalog :: "CatalogSnapshot codec"
  wr_catalogreceipt :: "CatalogReceipt codec"
  wr_m3 :: "M3CatalogSnapshot codec"
  wr_graphs :: "GraphExecutionList codec"
  wr_graph :: "GraphExecutionReceipt codec"
  wr_claimed :: "ClaimGraphNodesReceipt codec"
  wr_begun :: "BeginGraphNodeRunReceipt codec"
  wr_executed :: "ExecuteReadyGraphReceipt codec"
  wr_finished :: "FinishGraphNodeRunReceipt codec"
  wr_completed :: "CompleteGraphNodeReceipt codec"
  wr_prepared :: "PrepareMvpReceipt codec"
  wr_accepted :: "AcceptDecisionBaselineReceipt codec"
  wr_document :: "DocumentReceipt codec"
  wr_delivery :: "KnowledgeDeliveryReceipt codec"
  wr_cost :: "CostReceipt codec"
  wr_approvals :: "ApprovalList codec"
  wr_approval :: "ApprovalRecord codec"
  wr_decided :: "ApprovalReceipt codec"
  wr_grant :: "CredentialGrantRecord codec"
  wr_checkpoint :: "CheckpointReceipt codec"
  wr_event :: "EventEnvelope codec"
  wr_cancelled :: "CancelRunReceipt codec"

datatype api_reply =
  Re_Snapshot DaemonSnapshot
| Re_Events "EventEnvelope list"
| Re_Catalog CatalogSnapshot
| Re_CatalogReceipt CatalogReceipt
| Re_M3 M3CatalogSnapshot
| Re_Graphs GraphExecutionList
| Re_Graph GraphExecutionReceipt
| Re_Claimed ClaimGraphNodesReceipt
| Re_Begun BeginGraphNodeRunReceipt
| Re_Executed ExecuteReadyGraphReceipt
| Re_Finished FinishGraphNodeRunReceipt
| Re_Completed CompleteGraphNodeReceipt
| Re_Prepared PrepareMvpReceipt
| Re_Accepted AcceptDecisionBaselineReceipt
| Re_Document DocumentReceipt
| Re_Delivery KnowledgeDeliveryReceipt
| Re_Cost CostReceipt
| Re_Approvals ApprovalList
| Re_Approval ApprovalRecord
| Re_Decided ApprovalReceipt
| Re_Grant CredentialGrantRecord
| Re_Checkpoint CheckpointReceipt
| Re_Event EventEnvelope
| Re_Cancelled CancelRunReceipt

fun encode_reply :: "reply_wire \<Rightarrow> api_reply \<Rightarrow> string" where
  "encode_reply R (Re_Snapshot x) = fst (wr_snapshot R) x"
| "encode_reply R (Re_Events x) = fst (wr_events R) x"
| "encode_reply R (Re_Catalog x) = fst (wr_catalog R) x"
| "encode_reply R (Re_CatalogReceipt x) = fst (wr_catalogreceipt R) x"
| "encode_reply R (Re_M3 x) = fst (wr_m3 R) x"
| "encode_reply R (Re_Graphs x) = fst (wr_graphs R) x"
| "encode_reply R (Re_Graph x) = fst (wr_graph R) x"
| "encode_reply R (Re_Claimed x) = fst (wr_claimed R) x"
| "encode_reply R (Re_Begun x) = fst (wr_begun R) x"
| "encode_reply R (Re_Executed x) = fst (wr_executed R) x"
| "encode_reply R (Re_Finished x) = fst (wr_finished R) x"
| "encode_reply R (Re_Completed x) = fst (wr_completed R) x"
| "encode_reply R (Re_Prepared x) = fst (wr_prepared R) x"
| "encode_reply R (Re_Accepted x) = fst (wr_accepted R) x"
| "encode_reply R (Re_Document x) = fst (wr_document R) x"
| "encode_reply R (Re_Delivery x) = fst (wr_delivery R) x"
| "encode_reply R (Re_Cost x) = fst (wr_cost R) x"
| "encode_reply R (Re_Approvals x) = fst (wr_approvals R) x"
| "encode_reply R (Re_Approval x) = fst (wr_approval R) x"
| "encode_reply R (Re_Decided x) = fst (wr_decided R) x"
| "encode_reply R (Re_Grant x) = fst (wr_grant R) x"
| "encode_reply R (Re_Checkpoint x) = fst (wr_checkpoint R) x"
| "encode_reply R (Re_Event x) = fst (wr_event R) x"
| "encode_reply R (Re_Cancelled x) = fst (wr_cancelled R) x"

text \<open>A call of a handler: what it has taken out of the path, the query and the body.\<close>

datatype api_call =
  Api_Health
| Api_Events u64
| Api_Catalog
| Api_ReplaceCatalog ReplaceCatalogCommand
| Api_M3
| Api_ReplaceM3 ReplaceM3CatalogCommand
| Api_Graphs
| Api_CreateGraph CreateGraphExecutionCommand
| Api_Claim GraphRunId ClaimGraphNodesCommand
| Api_RestartGraph GraphRunId RestartMissingOutputGraphCommand
| Api_RetryNode GraphRunId RetryFailedGraphNodeCommand
| Api_BeginRun GraphRunId BeginGraphNodeRunCommand
| Api_ExecuteReady GraphRunId ExecuteReadyGraphCommand
| Api_FinishRun GraphRunId FinishGraphNodeRunCommand
| Api_CompleteNode GraphRunId CompleteGraphNodeCommand
| Api_PrepareMvp PrepareMvpCommand
| Api_AcceptDecision AcceptDecisionBaselineCommand
| Api_CreateDocument CreateDocumentCommand
| Api_AcceptDocument AcceptDocumentCommand
| Api_PrepareDelivery PrepareKnowledgeDeliveryCommand
| Api_CompleteDelivery CompleteKnowledgeDeliveryCommand
| Api_RecordCost RecordCostCommand
| Api_Approvals
| Api_CreateApproval CreateApprovalCommand
| Api_GetGrant ApprovalRequestId
| Api_RevokeGrant ApprovalRequestId RevokeCredentialGrantCommand
| Api_Approval ApprovalRequestId
| Api_DecideApproval ApprovalRequestId DecideApprovalCommand
| Api_Checkpoint CheckpointCommand
| Api_Suspend CheckpointCommand
| Api_Resume CheckpointCommand
| Api_Shutdown CheckpointCommand
| Api_CancelRun RunId CancelRunCommand

section \<open>Routes\<close>

datatype http_method = GET | POST | PUT

record http_request =
  hr_method :: http_method
  hr_path :: string
  hr_query :: "string option"
  hr_body :: string

record http_response =
  hs_status :: nat
  hs_body :: string

datatype segment = Seg string | Hole

fun split_slash :: "string \<Rightarrow> string list" where
  "split_slash [] = [[]]"
| "split_slash (c # cs) =
     (if c = CHR ''/'' then [] # split_slash cs
      else case split_slash cs of [] \<Rightarrow> [[c]] | s # ss \<Rightarrow> (c # s) # ss)"

text \<open>A path begins with a slash; a hole takes one segment that is not empty.\<close>

definition path_segments :: "string \<Rightarrow> string list" where
  "path_segments p = (case p of [] \<Rightarrow> [] | c # cs \<Rightarrow> if c = CHR ''/'' then split_slash cs else [])"

fun match_path :: "segment list \<Rightarrow> string list \<Rightarrow> string list option" where
  "match_path [] [] = Some []"
| "match_path (Seg x # ps) (s # ss) = (if x = s then match_path ps ss else None)"
| "match_path (Hole # ps) (s # ss) = (if s = [] then None else map_option (Cons s) (match_path ps ss))"
| "match_path _ _ = None"

text \<open>What a handler takes: the identifier in the path first, then the body. The error is the status.\<close>

type_synonym extractor = "command_wire \<Rightarrow> string list \<Rightarrow> http_request \<Rightarrow> (nat, api_call) result"

definition take_nothing :: "api_call \<Rightarrow> extractor" where
  "take_nothing a W caps r = Ok a"

definition take_events :: extractor where
  "take_events W caps r =
     (case hr_query r of
        None \<Rightarrow> Ok (Api_Events 0)
      | Some q \<Rightarrow> (case wc_after W q of None \<Rightarrow> Err 400 | Some n \<Rightarrow> Ok (Api_Events n)))"

definition take_body :: "(command_wire \<Rightarrow> 'a codec) \<Rightarrow> ('a \<Rightarrow> api_call) \<Rightarrow> extractor" where
  "take_body field mk W caps r =
     (case snd (field W) (hr_body r) of None \<Rightarrow> Err (wc_rejection W (hr_body r)) | Some x \<Rightarrow> Ok (mk x))"

definition take_path :: "(uuid \<Rightarrow> api_call) \<Rightarrow> extractor" where
  "take_path mk W caps r = (case snd (wc_uuid W) (hd caps) of None \<Rightarrow> Err 400 | Some u \<Rightarrow> Ok (mk u))"

definition take_path_body :: "(command_wire \<Rightarrow> 'a codec) \<Rightarrow> (uuid \<Rightarrow> 'a \<Rightarrow> api_call) \<Rightarrow> extractor" where
  "take_path_body field mk W caps r =
     (case snd (wc_uuid W) (hd caps) of None \<Rightarrow> Err 400 | Some u \<Rightarrow> take_body field (mk u) W caps r)"

definition routes :: "(segment list \<times> http_method \<times> extractor) list" where
  "routes =
    [([Seg ''v1'', Seg ''health''], GET, take_nothing Api_Health),
     ([Seg ''v1'', Seg ''events''], GET, take_events),
     ([Seg ''v1'', Seg ''catalog''], GET, take_nothing Api_Catalog),
     ([Seg ''v1'', Seg ''catalog''], PUT, take_body wc_replace_catalog Api_ReplaceCatalog),
     ([Seg ''v1'', Seg ''m3''], GET, take_nothing Api_M3),
     ([Seg ''v1'', Seg ''m3''], PUT, take_body wc_replace_m3 Api_ReplaceM3),
     ([Seg ''v1'', Seg ''graphs''], GET, take_nothing Api_Graphs),
     ([Seg ''v1'', Seg ''graphs''], POST, take_body wc_create_graph Api_CreateGraph),
     ([Seg ''v1'', Seg ''graphs'', Hole, Seg ''claim''], POST, take_path_body wc_claim (\<lambda>u. Api_Claim (StableId u))),
     ([Seg ''v1'', Seg ''graphs'', Hole, Seg ''restart-missing-output''], POST, take_path_body wc_restart (\<lambda>u. Api_RestartGraph (StableId u))),
     ([Seg ''v1'', Seg ''graphs'', Hole, Seg ''retry-failed''], POST, take_path_body wc_retry (\<lambda>u. Api_RetryNode (StableId u))),
     ([Seg ''v1'', Seg ''graphs'', Hole, Seg ''runs''], POST, take_path_body wc_begin (\<lambda>u. Api_BeginRun (StableId u))),
     ([Seg ''v1'', Seg ''graphs'', Hole, Seg ''execute-ready''], POST, take_path_body wc_execute (\<lambda>u. Api_ExecuteReady (StableId u))),
     ([Seg ''v1'', Seg ''graphs'', Hole, Seg ''runs'', Seg ''finish''], POST, take_path_body wc_finish (\<lambda>u. Api_FinishRun (StableId u))),
     ([Seg ''v1'', Seg ''graphs'', Hole, Seg ''complete''], POST, take_path_body wc_complete (\<lambda>u. Api_CompleteNode (StableId u))),
     ([Seg ''v1'', Seg ''mvp'', Seg ''prepare''], POST, take_body wc_prepare Api_PrepareMvp),
     ([Seg ''v1'', Seg ''mvp'', Seg ''accept-decision''], POST, take_body wc_accept Api_AcceptDecision),
     ([Seg ''v1'', Seg ''mvp'', Seg ''document''], POST, take_body wc_document Api_CreateDocument),
     ([Seg ''v1'', Seg ''mvp'', Seg ''document'', Seg ''accept''], POST, take_body wc_accept_document Api_AcceptDocument),
     ([Seg ''v1'', Seg ''mvp'', Seg ''knowledge'', Seg ''prepare''], POST, take_body wc_prepare_delivery Api_PrepareDelivery),
     ([Seg ''v1'', Seg ''mvp'', Seg ''knowledge'', Seg ''complete''], POST, take_body wc_complete_delivery Api_CompleteDelivery),
     ([Seg ''v1'', Seg ''mvp'', Seg ''costs''], POST, take_body wc_cost Api_RecordCost),
     ([Seg ''v1'', Seg ''approvals''], GET, take_nothing Api_Approvals),
     ([Seg ''v1'', Seg ''approvals''], POST, take_body wc_create_approval Api_CreateApproval),
     ([Seg ''v1'', Seg ''credential-grants'', Hole], GET, take_path (\<lambda>u. Api_GetGrant (StableId u))),
     ([Seg ''v1'', Seg ''credential-grants'', Hole], POST, take_path_body wc_revoke (\<lambda>u. Api_RevokeGrant (StableId u))),
     ([Seg ''v1'', Seg ''approvals'', Hole], GET, take_path (\<lambda>u. Api_Approval (StableId u))),
     ([Seg ''v1'', Seg ''approvals'', Hole], POST, take_path_body wc_decide (\<lambda>u. Api_DecideApproval (StableId u))),
     ([Seg ''v1'', Seg ''checkpoints''], POST, take_body wc_checkpoint Api_Checkpoint),
     ([Seg ''v1'', Seg ''power'', Seg ''suspend''], POST, take_body wc_checkpoint Api_Suspend),
     ([Seg ''v1'', Seg ''power'', Seg ''resume''], POST, take_body wc_checkpoint Api_Resume),
     ([Seg ''v1'', Seg ''shutdown''], POST, take_body wc_checkpoint Api_Shutdown),
     ([Seg ''v1'', Seg ''runs'', Hole, Seg ''cancel''], POST, take_path_body wc_cancel (\<lambda>u. Api_CancelRun (StableId u)))]"

definition find_route :: "http_method \<Rightarrow> string list \<Rightarrow> (nat, string list \<times> extractor) result" where
  "find_route m ss =
     (case filter (\<lambda>(p, _). match_path p ss \<noteq> None) routes of
        [] \<Rightarrow> Err 404
      | rs \<Rightarrow> (case find (\<lambda>(_, n, _). n = m) rs of
          None \<Rightarrow> Err 405
        | Some (p, _, x) \<Rightarrow> Ok (the (match_path p ss), x)))"

definition route_call :: "command_wire \<Rightarrow> http_request \<Rightarrow> (nat, api_call) result" where
  "route_call W r = and_then (find_route (hr_method r) (path_segments (hr_path r))) (\<lambda>(caps, x). x W caps r)"

section \<open>Handlers\<close>

text \<open>
  What a call meets: the readings of the \<open>k\<close>-th transaction, the identifiers a project draws, the
  controller of a run, and the executor, if the daemon has one.
\<close>

record api_env =
  ae_ts :: "nat \<Rightarrow> nat \<Rightarrow> nat"
  ae_ids :: "nat \<Rightarrow> nat \<Rightarrow> uuid"
  ae_prepare :: prepare_ids
  ae_accept :: accept_ids
  ae_controller :: "RunId \<Rightarrow> bool"
  ae_executor :: "(BeginGraphNodeRunReceipt \<Rightarrow> bool) option"
  ae_settle :: "BeginGraphNodeRunReceipt \<Rightarrow> db store \<Rightarrow> db store"
  ae_active :: bool

type_synonym 'a handled = "(StoreError fault + 'a) \<times> db store"

fun reply_with :: "('a \<Rightarrow> api_reply) \<Rightarrow> 'a handled \<Rightarrow> api_reply handled" where
  "reply_with mk (Inl e, s) = (Inl e, s)"
| "reply_with mk (Inr x, s) = (Inr (mk x), s)"

text \<open>A request of one transaction, and a request of two.\<close>

definition ask :: "api_env \<Rightarrow> nat \<Rightarrow> 'a stx \<Rightarrow> db store \<Rightarrow> 'a handled" where
  "ask V k m = call m (ae_ts V k) (ae_ids V k)"

text \<open>The revision of a receipt is read in a transaction of its own.\<close>

definition claim_handler :: "externals \<Rightarrow> api_env \<Rightarrow> GraphRunId \<Rightarrow> ClaimGraphNodesCommand \<Rightarrow> db store \<Rightarrow> ClaimGraphNodesReceipt handled" where
  "claim_handler E V i c =
     call_then (ask V 0 (claim_graph_nodes E i (cgn_expected_revision c) (cgn_owner c) (cgn_limit c))) (\<lambda>claimed.
     ask V 1 (tx_bind (graph_execution E i) (\<lambda>x. tx_return
       \<lparr>cgnr_protocol_version = PROTOCOL_VERSION, cgnr_execution_id = i, cgnr_revision = exec_revision x,
        cgnr_claimed = claimed\<rparr>)))"

definition complete_handler :: "externals \<Rightarrow> api_env \<Rightarrow> GraphRunId \<Rightarrow> CompleteGraphNodeCommand \<Rightarrow> db store \<Rightarrow> CompleteGraphNodeReceipt handled" where
  "complete_handler E V i c =
     call_then (ask V 0 (complete_graph_node E i (cpn_expected_revision c) (cpn_node_id c) (cpn_owner c) (cpn_succeeded c))) (\<lambda>_.
     ask V 1 (tx_bind (graph_execution E i) (\<lambda>x. tx_return
       \<lparr>cpnr_protocol_version = PROTOCOL_VERSION, cpnr_execution_id = i, cpnr_revision = exec_revision x\<rparr>)))"

definition decide_handler :: "externals \<Rightarrow> api_env \<Rightarrow> ApprovalRequestId \<Rightarrow> DecideApprovalCommand \<Rightarrow> db store \<Rightarrow> ApprovalReceipt handled" where
  "decide_handler E V i c s =
     (if dec_request_id (dac_decision c) \<noteq> i then (Inl (Returned (St_InvalidApproval Ap_HashMismatch)), s)
      else ask V 0 (decide_approval E c) s)"

definition shutdown_handler :: "api_env \<Rightarrow> CheckpointCommand \<Rightarrow> db store \<Rightarrow> CheckpointReceipt handled" where
  "shutdown_handler V c s =
     (if ae_executor V \<noteq> None \<and> ae_active V then (Inl (Returned St_ProviderRunsActive), s) else ask V 0 (shutdown c) s)"

definition execute_handler :: "externals \<Rightarrow> api_env \<Rightarrow> GraphRunId \<Rightarrow> ExecuteReadyGraphCommand \<Rightarrow> db store \<Rightarrow> ExecuteReadyGraphReceipt handled" where
  "execute_handler E V i c s =
     (case execute_ready_graph E (ae_executor V) (ae_settle V) i c (ae_ts V) (ae_ids V) s of
        (Inl e, t) \<Rightarrow> (Inl e, t)
      | (Inr ids, t) \<Rightarrow> (Inr \<lparr>ergr_protocol_version = PROTOCOL_VERSION, ergr_execution_id = i, ergr_run_ids = ids\<rparr>, t))"

fun handle :: "externals \<Rightarrow> api_env \<Rightarrow> api_call \<Rightarrow> db store \<Rightarrow> api_reply handled" where
  "handle E V Api_Health s = reply_with Re_Snapshot (ask V 0 snapshot s)"
| "handle E V (Api_Events n) s = reply_with Re_Events (ask V 0 (events_after n) s)"
| "handle E V Api_Catalog s = reply_with Re_Catalog (ask V 0 read_catalog s)"
| "handle E V (Api_ReplaceCatalog c) s = reply_with Re_CatalogReceipt (ask V 0 (replace_catalog E c) s)"
| "handle E V Api_M3 s = reply_with Re_M3 (ask V 0 (read_m3_catalog E) s)"
| "handle E V (Api_ReplaceM3 c) s = reply_with Re_CatalogReceipt (ask V 0 (replace_m3_catalog E c) s)"
| "handle E V Api_Graphs s = reply_with (\<lambda>xs. Re_Graphs \<lparr>gxl_protocol_version = PROTOCOL_VERSION, gxl_executions = xs\<rparr>) (ask V 0 (list_graph_executions E) s)"
| "handle E V (Api_CreateGraph c) s = reply_with Re_Graph (ask V 0 (create_graph_execution E (cge_execution c)) s)"
| "handle E V (Api_Claim i c) s = reply_with Re_Claimed (claim_handler E V i c s)"
| "handle E V (Api_RestartGraph i c) s = reply_with Re_Graph (ask V 0 (restart_missing_output_graph E i (rmg_expected_graph_revision c)) s)"
| "handle E V (Api_RetryNode i c) s = reply_with Re_Graph (ask V 0 (retry_failed_graph_node E i c) s)"
| "handle E V (Api_BeginRun i c) s = reply_with Re_Begun (ask V 0 (begin_graph_node_run E i c) s)"
| "handle E V (Api_ExecuteReady i c) s = reply_with Re_Executed (execute_handler E V i c s)"
| "handle E V (Api_FinishRun i c) s = reply_with Re_Finished (ask V 0 (finish_graph_node_run E i c) s)"
| "handle E V (Api_CompleteNode i c) s = reply_with Re_Completed (complete_handler E V i c s)"
| "handle E V (Api_PrepareMvp c) s = reply_with Re_Prepared (ask V 0 (store_prepare_mvp E (ae_prepare V) c) s)"
| "handle E V (Api_AcceptDecision c) s = reply_with Re_Accepted (ask V 0 (store_accept_mvp_decision E (ae_accept V) c) s)"
| "handle E V (Api_CreateDocument c) s = reply_with Re_Document (ask V 0 (create_mvp_document E c) s)"
| "handle E V (Api_AcceptDocument c) s = reply_with Re_Document (ask V 0 (accept_mvp_document E c) s)"
| "handle E V (Api_PrepareDelivery c) s = reply_with Re_Delivery (ask V 0 (prepare_knowledge_delivery E c) s)"
| "handle E V (Api_CompleteDelivery c) s = reply_with Re_Delivery (ask V 0 (complete_knowledge_delivery E c) s)"
| "handle E V (Api_RecordCost c) s = reply_with Re_Cost (ask V 0 (record_cost E c) s)"
| "handle E V Api_Approvals s = reply_with (\<lambda>xs. Re_Approvals \<lparr>apl_protocol_version = PROTOCOL_VERSION, apl_records = xs\<rparr>) (approvals E (ae_ts V 0) (ae_ids V 0) s)"
| "handle E V (Api_CreateApproval c) s = reply_with Re_Decided (ask V 0 (create_approval E (cap_request c)) s)"
| "handle E V (Api_GetGrant i) s = reply_with Re_Grant (ask V 0 (credential_grant E i) s)"
| "handle E V (Api_RevokeGrant i c) s = reply_with Re_Grant (ask V 0 (revoke_credential_grant E i c) s)"
| "handle E V (Api_Approval i) s = reply_with Re_Approval (approval E i (ae_ts V 0) (ae_ids V 0) s)"
| "handle E V (Api_DecideApproval i c) s = reply_with Re_Decided (decide_handler E V i c s)"
| "handle E V (Api_Checkpoint c) s = reply_with Re_Checkpoint (ask V 0 (checkpoint c) s)"
| "handle E V (Api_Suspend c) s = reply_with Re_Checkpoint (ask V 0 (suspend c) s)"
| "handle E V (Api_Resume c) s = reply_with Re_Event (ask V 0 (resume c) s)"
| "handle E V (Api_Shutdown c) s = reply_with Re_Checkpoint (shutdown_handler V c s)"
| "handle E V (Api_CancelRun i c) s = reply_with Re_Cancelled (cancel_run E (ae_controller V) i c (ae_ts V 0) (ae_ids V 0) (ae_ts V 1) (ae_ids V 1) s)"

section \<open>Answers\<close>

fun error_status :: "StoreError \<Rightarrow> nat" where
  "error_status (St_RevisionConflict expected actual) = 409"
| "error_status (St_InvalidLifecycle expected actual) = 409"
| "error_status St_ApprovalConflict = 409"
| "error_status St_CredentialGrantRejected = 409"
| "error_status St_GraphConflict = 409"
| "error_status (St_InvalidRunState t) = 409"
| "error_status St_ProviderRunsActive = 409"
| "error_status St_ApprovalNotFound = 404"
| "error_status St_RunNotFound = 404"
| "error_status St_GraphNotFound = 404"
| "error_status St_CredentialGrantNotFound = 404"
| "error_status St_RunControlRejected = 503"
| "error_status (St_InvalidCatalog e) = 400"
| "error_status (St_InvalidApproval e) = 400"
| "error_status (St_InvalidGraph e) = 400"
| "error_status (St_InvalidM3 t) = 400"
| "error_status (St_InvalidMvp t) = 400"
| "error_status (St_InvalidDocument t) = 400"
| "error_status (St_InvalidCost t) = 400"
| "error_status St_Serialization = 400"
| "error_status _ = 500"

text \<open>A handler that panics or does not end sends nothing; a request that is not routed changes nothing.\<close>

fun answer :: "reply_wire \<Rightarrow> StoreError fault + api_reply \<Rightarrow> http_response option" where
  "answer R (Inr reply) = Some \<lparr>hs_status = 200, hs_body = encode_reply R reply\<rparr>"
| "answer R (Inl (Returned e)) = Some \<lparr>hs_status = error_status e, hs_body = wr_error R e\<rparr>"
| "answer R (Inl _) = None"

definition serve :: "command_wire \<Rightarrow> reply_wire \<Rightarrow> externals \<Rightarrow> api_env \<Rightarrow> http_request \<Rightarrow> db store \<Rightarrow> http_response option \<times> db store" where
  "serve W R E V r s =
     (case route_call W r of
        Inl status \<Rightarrow> (Some \<lparr>hs_status = status, hs_body = []\<rparr>, s)
      | Inr a \<Rightarrow> (case handle E V a s of (x, t) \<Rightarrow> (answer R x, t)))"

text \<open>The daemon is told to stop once a shutdown has been recorded.\<close>

definition signals_shutdown :: "api_call \<Rightarrow> StoreError fault + api_reply \<Rightarrow> bool" where
  "signals_shutdown a x \<longleftrightarrow> (case a of Api_Shutdown c \<Rightarrow> (case x of Inr _ \<Rightarrow> True | Inl _ \<Rightarrow> False) | _ \<Rightarrow> False)"

end
