(* ===== verification/Client.thy ===== *)
theory Client
  imports Http_Api
begin

text \<open>
  The client of the daemon (\<open>bastet-client/src/lib.rs\<close> and \<open>transport.rs\<close>): one method per request,
  each with its method, path, body and the receipt it expects, and what becomes of the answer of
  the local transport. The test-only HTTP transport is left out. What the daemon and the connection
  answer to a request is the argument \<open>peer\<close>.
\<close>

section \<open>Requests\<close>

record client_request =
  cq_http :: http_request
  cq_read :: "reply_wire \<Rightarrow> string \<Rightarrow> (api_reply \<times> u32) option"   \<comment> \<open>the receipt and its protocol version\<close>

definition reading :: "(reply_wire \<Rightarrow> 'a codec) \<Rightarrow> ('a \<Rightarrow> api_reply) \<Rightarrow> ('a \<Rightarrow> u32) \<Rightarrow> reply_wire \<Rightarrow> string \<Rightarrow> (api_reply \<times> u32) option" where
  "reading field mk version R body = map_option (\<lambda>x. (mk x, version x)) (snd (field R) body)"

definition client_get :: "string \<Rightarrow> (reply_wire \<Rightarrow> string \<Rightarrow> (api_reply \<times> u32) option) \<Rightarrow> client_request" where
  "client_get path read = \<lparr>cq_http = \<lparr>hr_method = GET, hr_path = path, hr_query = None, hr_body = []\<rparr>, cq_read = read\<rparr>"

definition client_json ::
  "http_method \<Rightarrow> string \<Rightarrow> 'a codec \<Rightarrow> 'a \<Rightarrow> (reply_wire \<Rightarrow> string \<Rightarrow> (api_reply \<times> u32) option) \<Rightarrow> client_request" where
  "client_json m path c x read =
     \<lparr>cq_http = \<lparr>hr_method = m, hr_path = path, hr_query = None, hr_body = fst c x\<rparr>, cq_read = read\<rparr>"

definition path_text :: "command_wire \<Rightarrow> 'a stable_id \<Rightarrow> string" where
  "path_text W i = fst (wc_uuid W) (id_value i)"

section \<open>Methods\<close>

definition client_snapshot :: "command_wire \<Rightarrow> client_request" where
  "client_snapshot W =
     client_get ''/v1/health'' (reading wr_snapshot Re_Snapshot snap_protocol_version)"

definition client_checkpoint :: "command_wire \<Rightarrow> u64 \<Rightarrow> string \<Rightarrow> client_request" where
  "client_checkpoint W expected reason =
     client_json POST ''/v1/checkpoints'' (wc_checkpoint W)
       \<lparr>ck_expected_revision = expected, ck_reason = reason\<rparr> (reading wr_checkpoint Re_Checkpoint ckr_protocol_version)"

definition client_catalog :: "command_wire \<Rightarrow> client_request" where
  "client_catalog W =
     client_get ''/v1/catalog'' (reading wr_catalog Re_Catalog cs_protocol_version)"

definition client_replace_catalog :: "command_wire \<Rightarrow> u64 \<Rightarrow> IdentityCatalog \<Rightarrow> client_request" where
  "client_replace_catalog W expected catalog =
     client_json PUT ''/v1/catalog'' (wc_replace_catalog W)
       \<lparr>rc_expected_revision = expected, rc_catalog = catalog\<rparr> (reading wr_catalogreceipt Re_CatalogReceipt crc_protocol_version)"

definition client_m3_catalog :: "command_wire \<Rightarrow> client_request" where
  "client_m3_catalog W =
     client_get ''/v1/m3'' (reading wr_m3 Re_M3 ms_protocol_version)"

definition client_execute_ready_graph :: "command_wire \<Rightarrow> GraphRunId \<Rightarrow> ExecuteReadyGraphCommand \<Rightarrow> client_request" where
  "client_execute_ready_graph W i command =
     client_json POST (''/v1/graphs/'' @ path_text W i @ ''/execute-ready'') (wc_execute W)
       command (reading wr_executed Re_Executed ergr_protocol_version)"

definition client_graph_executions :: "command_wire \<Rightarrow> client_request" where
  "client_graph_executions W =
     client_get ''/v1/graphs'' (reading wr_graphs Re_Graphs gxl_protocol_version)"

definition client_create_graph_execution :: "command_wire \<Rightarrow> CreateGraphExecutionCommand \<Rightarrow> client_request" where
  "client_create_graph_execution W command =
     client_json POST ''/v1/graphs'' (wc_create_graph W)
       command (reading wr_graph Re_Graph ger_protocol_version)"

definition client_restart_missing_output_graph :: "command_wire \<Rightarrow> GraphRunId \<Rightarrow> RestartMissingOutputGraphCommand \<Rightarrow> client_request" where
  "client_restart_missing_output_graph W i command =
     client_json POST (''/v1/graphs/'' @ path_text W i @ ''/restart-missing-output'') (wc_restart W)
       command (reading wr_graph Re_Graph ger_protocol_version)"

definition client_retry_failed_graph_node :: "command_wire \<Rightarrow> GraphRunId \<Rightarrow> RetryFailedGraphNodeCommand \<Rightarrow> client_request" where
  "client_retry_failed_graph_node W i command =
     client_json POST (''/v1/graphs/'' @ path_text W i @ ''/retry-failed'') (wc_retry W)
       command (reading wr_graph Re_Graph ger_protocol_version)"

definition client_prepare_mvp :: "command_wire \<Rightarrow> PrepareMvpCommand \<Rightarrow> client_request" where
  "client_prepare_mvp W command =
     client_json POST ''/v1/mvp/prepare'' (wc_prepare W)
       command (reading wr_prepared Re_Prepared pmr_protocol_version)"

definition client_accept_mvp_decision :: "command_wire \<Rightarrow> AcceptDecisionBaselineCommand \<Rightarrow> client_request" where
  "client_accept_mvp_decision W command =
     client_json POST ''/v1/mvp/accept-decision'' (wc_accept W)
       command (reading wr_accepted Re_Accepted abr_protocol_version)"

definition client_claim_graph_nodes :: "command_wire \<Rightarrow> GraphRunId \<Rightarrow> ClaimGraphNodesCommand \<Rightarrow> client_request" where
  "client_claim_graph_nodes W i command =
     client_json POST (''/v1/graphs/'' @ path_text W i @ ''/claim'') (wc_claim W)
       command (reading wr_claimed Re_Claimed cgnr_protocol_version)"

definition client_begin_graph_node_run :: "command_wire \<Rightarrow> GraphRunId \<Rightarrow> BeginGraphNodeRunCommand \<Rightarrow> client_request" where
  "client_begin_graph_node_run W i command =
     client_json POST (''/v1/graphs/'' @ path_text W i @ ''/runs'') (wc_begin W)
       command (reading wr_begun Re_Begun bgr_protocol_version)"

definition client_finish_graph_node_run :: "command_wire \<Rightarrow> GraphRunId \<Rightarrow> FinishGraphNodeRunCommand \<Rightarrow> client_request" where
  "client_finish_graph_node_run W i command =
     client_json POST (''/v1/graphs/'' @ path_text W i @ ''/runs/finish'') (wc_finish W)
       command (reading wr_finished Re_Finished fgr_protocol_version)"

definition client_complete_graph_node :: "command_wire \<Rightarrow> GraphRunId \<Rightarrow> CompleteGraphNodeCommand \<Rightarrow> client_request" where
  "client_complete_graph_node W i command =
     client_json POST (''/v1/graphs/'' @ path_text W i @ ''/complete'') (wc_complete W)
       command (reading wr_completed Re_Completed cpnr_protocol_version)"

definition client_create_mvp_document :: "command_wire \<Rightarrow> CreateDocumentCommand \<Rightarrow> client_request" where
  "client_create_mvp_document W command =
     client_json POST ''/v1/mvp/document'' (wc_document W)
       command (reading wr_document Re_Document dr_protocol_version)"

definition client_accept_mvp_document :: "command_wire \<Rightarrow> AcceptDocumentCommand \<Rightarrow> client_request" where
  "client_accept_mvp_document W command =
     client_json POST ''/v1/mvp/document/accept'' (wc_accept_document W)
       command (reading wr_document Re_Document dr_protocol_version)"

definition client_prepare_knowledge_delivery :: "command_wire \<Rightarrow> PrepareKnowledgeDeliveryCommand \<Rightarrow> client_request" where
  "client_prepare_knowledge_delivery W command =
     client_json POST ''/v1/mvp/knowledge/prepare'' (wc_prepare_delivery W)
       command (reading wr_delivery Re_Delivery kdr_protocol_version)"

definition client_complete_knowledge_delivery :: "command_wire \<Rightarrow> CompleteKnowledgeDeliveryCommand \<Rightarrow> client_request" where
  "client_complete_knowledge_delivery W command =
     client_json POST ''/v1/mvp/knowledge/complete'' (wc_complete_delivery W)
       command (reading wr_delivery Re_Delivery kdr_protocol_version)"

definition client_record_cost :: "command_wire \<Rightarrow> RecordCostCommand \<Rightarrow> client_request" where
  "client_record_cost W command =
     client_json POST ''/v1/mvp/costs'' (wc_cost W)
       command (reading wr_cost Re_Cost cor_protocol_version)"

definition client_replace_m3_catalog :: "command_wire \<Rightarrow> ReplaceM3CatalogCommand \<Rightarrow> client_request" where
  "client_replace_m3_catalog W command =
     client_json PUT ''/v1/m3'' (wc_replace_m3 W)
       command (reading wr_catalogreceipt Re_CatalogReceipt crc_protocol_version)"

definition client_create_approval :: "command_wire \<Rightarrow> ApprovalRequest \<Rightarrow> client_request" where
  "client_create_approval W request =
     client_json POST ''/v1/approvals'' (wc_create_approval W)
       \<lparr>cap_request = request\<rparr> (reading wr_decided Re_Decided arc_protocol_version)"

definition client_approval :: "command_wire \<Rightarrow> ApprovalRequestId \<Rightarrow> client_request" where
  "client_approval W i =
     client_get (''/v1/approvals/'' @ path_text W i) (reading wr_approval Re_Approval apr_protocol_version)"

definition client_approvals :: "command_wire \<Rightarrow> client_request" where
  "client_approvals W =
     client_get ''/v1/approvals'' (reading wr_approvals Re_Approvals apl_protocol_version)"

definition client_decide_approval_with_scope_review :: "command_wire \<Rightarrow> ApprovalDecision \<Rightarrow> bool \<Rightarrow> client_request" where
  "client_decide_approval_with_scope_review W decision acknowledged =
     client_json POST (''/v1/approvals/'' @ path_text W (dec_request_id decision)) (wc_decide W)
       \<lparr>dac_decision = decision, dac_credential_scope_acknowledged = acknowledged\<rparr> (reading wr_decided Re_Decided arc_protocol_version)"

definition client_decide_approval :: "command_wire \<Rightarrow> ApprovalDecision \<Rightarrow> client_request" where
  "client_decide_approval W decision = client_decide_approval_with_scope_review W decision False"

definition client_credential_grant :: "command_wire \<Rightarrow> ApprovalRequestId \<Rightarrow> client_request" where
  "client_credential_grant W i =
     client_get (''/v1/credential-grants/'' @ path_text W i) (reading wr_grant Re_Grant cgr_protocol_version)"

definition client_revoke_credential_grant :: "command_wire \<Rightarrow> ApprovalRequestId \<Rightarrow> string \<Rightarrow> client_request" where
  "client_revoke_credential_grant W i by_whom =
     client_json POST (''/v1/credential-grants/'' @ path_text W i) (wc_revoke W)
       \<lparr>rvk_actor = by_whom\<rparr> (reading wr_grant Re_Grant cgr_protocol_version)"

definition client_cancel_run :: "command_wire \<Rightarrow> RunId \<Rightarrow> u64 \<Rightarrow> client_request" where
  "client_cancel_run W i expected =
     client_json POST (''/v1/runs/'' @ path_text W i @ ''/cancel'') (wc_cancel W)
       \<lparr>crn_run_id = i, crn_expected_catalog_revision = expected\<rparr> (reading wr_cancelled Re_Cancelled cr_protocol_version)"

definition client_shutdown :: "command_wire \<Rightarrow> u64 \<Rightarrow> string \<Rightarrow> client_request" where
  "client_shutdown W expected reason =
     client_json POST ''/v1/shutdown'' (wc_checkpoint W)
       \<lparr>ck_expected_revision = expected, ck_reason = reason\<rparr> (reading wr_checkpoint Re_Checkpoint ckr_protocol_version)"

definition post_checkpoint :: "command_wire \<Rightarrow> string \<Rightarrow> u64 \<Rightarrow> string \<Rightarrow> client_request" where
  "post_checkpoint W path expected reason =
     client_json POST path (wc_checkpoint W) \<lparr>ck_expected_revision = expected, ck_reason = reason\<rparr>
       (reading wr_checkpoint Re_Checkpoint ckr_protocol_version)"

definition client_suspend :: "command_wire \<Rightarrow> u64 \<Rightarrow> string \<Rightarrow> client_request" where
  "client_suspend W expected reason =
     post_checkpoint W ''/v1/power/suspend'' expected reason"

definition client_resume :: "command_wire \<Rightarrow> u64 \<Rightarrow> string \<Rightarrow> client_request" where
  "client_resume W expected reason =
     client_json POST ''/v1/power/resume'' (wc_checkpoint W)
       \<lparr>ck_expected_revision = expected, ck_reason = reason\<rparr> (reading wr_event Re_Event ev_protocol_version)"

text \<open>The method that makes a call; there is none for the journal.\<close>

fun client_of :: "command_wire \<Rightarrow> api_call \<Rightarrow> client_request option" where
  "client_of W Api_Health = Some (client_snapshot W)"
| "client_of W (Api_Checkpoint c) = Some (client_checkpoint W (ck_expected_revision c) (ck_reason c))"
| "client_of W Api_Catalog = Some (client_catalog W)"
| "client_of W (Api_ReplaceCatalog c) = Some (client_replace_catalog W (rc_expected_revision c) (rc_catalog c))"
| "client_of W Api_M3 = Some (client_m3_catalog W)"
| "client_of W (Api_ExecuteReady i c) = Some (client_execute_ready_graph W i c)"
| "client_of W Api_Graphs = Some (client_graph_executions W)"
| "client_of W (Api_CreateGraph c) = Some (client_create_graph_execution W c)"
| "client_of W (Api_RestartGraph i c) = Some (client_restart_missing_output_graph W i c)"
| "client_of W (Api_RetryNode i c) = Some (client_retry_failed_graph_node W i c)"
| "client_of W (Api_PrepareMvp c) = Some (client_prepare_mvp W c)"
| "client_of W (Api_AcceptDecision c) = Some (client_accept_mvp_decision W c)"
| "client_of W (Api_Claim i c) = Some (client_claim_graph_nodes W i c)"
| "client_of W (Api_BeginRun i c) = Some (client_begin_graph_node_run W i c)"
| "client_of W (Api_FinishRun i c) = Some (client_finish_graph_node_run W i c)"
| "client_of W (Api_CompleteNode i c) = Some (client_complete_graph_node W i c)"
| "client_of W (Api_CreateDocument c) = Some (client_create_mvp_document W c)"
| "client_of W (Api_AcceptDocument c) = Some (client_accept_mvp_document W c)"
| "client_of W (Api_PrepareDelivery c) = Some (client_prepare_knowledge_delivery W c)"
| "client_of W (Api_CompleteDelivery c) = Some (client_complete_knowledge_delivery W c)"
| "client_of W (Api_RecordCost c) = Some (client_record_cost W c)"
| "client_of W (Api_ReplaceM3 c) = Some (client_replace_m3_catalog W c)"
| "client_of W (Api_CreateApproval c) = Some (client_create_approval W (cap_request c))"
| "client_of W (Api_Approval i) = Some (client_approval W i)"
| "client_of W Api_Approvals = Some (client_approvals W)"
| "client_of W (Api_DecideApproval i c) = Some (client_decide_approval_with_scope_review W (dac_decision c) (dac_credential_scope_acknowledged c))"
| "client_of W (Api_GetGrant i) = Some (client_credential_grant W i)"
| "client_of W (Api_RevokeGrant i c) = Some (client_revoke_credential_grant W i (rvk_actor c))"
| "client_of W (Api_CancelRun i c) = Some (client_cancel_run W i (crn_expected_catalog_revision c))"
| "client_of W (Api_Shutdown c) = Some (client_shutdown W (ck_expected_revision c) (ck_reason c))"
| "client_of W (Api_Suspend c) = Some (client_suspend W (ck_expected_revision c) (ck_reason c))"
| "client_of W (Api_Resume c) = Some (client_resume W (ck_expected_revision c) (ck_reason c))"
| "client_of W (Api_Events n) = None"

text \<open>The two methods whose path and body name the same thing.\<close>

definition client_made :: "api_call \<Rightarrow> bool" where
  "client_made a \<longleftrightarrow> (case a of Api_CancelRun i c \<Rightarrow> crn_run_id c = i
     | Api_DecideApproval i c \<Rightarrow> dec_request_id (dac_decision c) = i | _ \<Rightarrow> True)"

section \<open>The local transport\<close>

datatype LocalTransportError =
  Lt_EndpointUnavailable | Lt_ConnectTimedOut | Lt_RequestTimedOut | Lt_ConnectionFailed | Lt_InvalidHttpResponse
| Lt_ResponseTooLarge | Lt_ResponseBodyFailed | Lt_InvalidTarget

datatype ClientError =
  Cl_LocalTransport LocalTransportError | Cl_LocalStatus nat | Cl_InvalidResponse | Cl_ProtocolMismatch u32 u32

definition MAX_RESPONSE_BYTES :: nat where "MAX_RESPONSE_BYTES = 16 * 1024 * 1024"
definition LOCAL_HTTP_ORIGIN :: string where "LOCAL_HTTP_ORIGIN = ''http://bastet.local''"

text \<open>A response, with its body in the frames it arrives in, or what went wrong on the way.\<close>

type_synonym peer = "http_request \<Rightarrow> (LocalTransportError, nat \<times> string list) result"

definition local_target :: "string \<Rightarrow> string option" where
  "local_target url =
     (let n = length LOCAL_HTTP_ORIGIN; path = drop n url in
      if take n url = LOCAL_HTTP_ORIGIN \<and> path \<noteq> [] \<and> hd path = CHR ''/'' then Some path else None)"

fun collect_body :: "string \<Rightarrow> string list \<Rightarrow> string option" where
  "collect_body bytes [] = Some bytes"
| "collect_body bytes (d # ds) =
     (if MAX_RESPONSE_BYTES < length bytes + length d then None else collect_body (bytes @ d) ds)"

definition local_send :: "peer \<Rightarrow> string \<Rightarrow> http_request \<Rightarrow> (LocalTransportError, nat \<times> string) result" where
  "local_send peer url r =
     (case local_target url of
        None \<Rightarrow> Err Lt_InvalidTarget
      | Some path \<Rightarrow> and_then (peer (r\<lparr>hr_path := path\<rparr>)) (\<lambda>(status, frames).
          case collect_body [] frames of None \<Rightarrow> Err Lt_ResponseTooLarge | Some b \<Rightarrow> Ok (status, b)))"

definition require_protocol :: "u32 \<Rightarrow> (ClientError, unit) result" where
  "require_protocol actual =
     (if actual = PROTOCOL_VERSION then Ok () else Err (Cl_ProtocolMismatch PROTOCOL_VERSION actual))"

definition client_do :: "reply_wire \<Rightarrow> peer \<Rightarrow> client_request \<Rightarrow> (ClientError, api_reply) result" where
  "client_do R peer q =
     and_then (map_err Cl_LocalTransport (local_send peer (LOCAL_HTTP_ORIGIN @ hr_path (cq_http q)) (cq_http q))) (\<lambda>(status, body).
     if status < 200 \<or> 300 \<le> status then Err (Cl_LocalStatus status)
     else case cq_read q R body of
       None \<Rightarrow> Err Cl_InvalidResponse
     | Some (reply, version) \<Rightarrow> and_then (require_protocol version) (\<lambda>_. Ok reply))"

section \<open>What is asked of the packages\<close>

definition reads_back :: "'a codec \<Rightarrow> 'a \<Rightarrow> bool" where
  "reads_back c x \<longleftrightarrow> snd c (fst c x) = Some x"

text \<open>The text of a UUID is read back, is not empty and has no slash; the command that is sent is read back.\<close>

definition uuids_read :: "command_wire \<Rightarrow> bool" where
  "uuids_read W \<longleftrightarrow> (\<forall>u. reads_back (wc_uuid W) u \<and> fst (wc_uuid W) u \<noteq> [] \<and> CHR ''/'' \<notin> set (fst (wc_uuid W) u))"

fun command_read :: "command_wire \<Rightarrow> api_call \<Rightarrow> bool" where
  "command_read W (Api_ReplaceCatalog c) = reads_back (wc_replace_catalog W) c"
| "command_read W (Api_ReplaceM3 c) = reads_back (wc_replace_m3 W) c"
| "command_read W (Api_CreateGraph c) = reads_back (wc_create_graph W) c"
| "command_read W (Api_Claim i c) = reads_back (wc_claim W) c"
| "command_read W (Api_RestartGraph i c) = reads_back (wc_restart W) c"
| "command_read W (Api_RetryNode i c) = reads_back (wc_retry W) c"
| "command_read W (Api_BeginRun i c) = reads_back (wc_begin W) c"
| "command_read W (Api_ExecuteReady i c) = reads_back (wc_execute W) c"
| "command_read W (Api_FinishRun i c) = reads_back (wc_finish W) c"
| "command_read W (Api_CompleteNode i c) = reads_back (wc_complete W) c"
| "command_read W (Api_PrepareMvp c) = reads_back (wc_prepare W) c"
| "command_read W (Api_AcceptDecision c) = reads_back (wc_accept W) c"
| "command_read W (Api_CreateDocument c) = reads_back (wc_document W) c"
| "command_read W (Api_AcceptDocument c) = reads_back (wc_accept_document W) c"
| "command_read W (Api_PrepareDelivery c) = reads_back (wc_prepare_delivery W) c"
| "command_read W (Api_CompleteDelivery c) = reads_back (wc_complete_delivery W) c"
| "command_read W (Api_RecordCost c) = reads_back (wc_cost W) c"
| "command_read W (Api_CreateApproval c) = reads_back (wc_create_approval W) c"
| "command_read W (Api_RevokeGrant i c) = reads_back (wc_revoke W) c"
| "command_read W (Api_DecideApproval i c) = reads_back (wc_decide W) c"
| "command_read W (Api_Checkpoint c) = reads_back (wc_checkpoint W) c"
| "command_read W (Api_Suspend c) = reads_back (wc_checkpoint W) c"
| "command_read W (Api_Resume c) = reads_back (wc_checkpoint W) c"
| "command_read W (Api_Shutdown c) = reads_back (wc_checkpoint W) c"
| "command_read W (Api_CancelRun i c) = reads_back (wc_cancel W) c"
| "command_read W _ = True"

fun reply_read :: "reply_wire \<Rightarrow> api_reply \<Rightarrow> bool" where
  "reply_read R (Re_Snapshot x) = reads_back (wr_snapshot R) x"
| "reply_read R (Re_Events x) = reads_back (wr_events R) x"
| "reply_read R (Re_Catalog x) = reads_back (wr_catalog R) x"
| "reply_read R (Re_CatalogReceipt x) = reads_back (wr_catalogreceipt R) x"
| "reply_read R (Re_M3 x) = reads_back (wr_m3 R) x"
| "reply_read R (Re_Graphs x) = reads_back (wr_graphs R) x"
| "reply_read R (Re_Graph x) = reads_back (wr_graph R) x"
| "reply_read R (Re_Claimed x) = reads_back (wr_claimed R) x"
| "reply_read R (Re_Begun x) = reads_back (wr_begun R) x"
| "reply_read R (Re_Executed x) = reads_back (wr_executed R) x"
| "reply_read R (Re_Finished x) = reads_back (wr_finished R) x"
| "reply_read R (Re_Completed x) = reads_back (wr_completed R) x"
| "reply_read R (Re_Prepared x) = reads_back (wr_prepared R) x"
| "reply_read R (Re_Accepted x) = reads_back (wr_accepted R) x"
| "reply_read R (Re_Document x) = reads_back (wr_document R) x"
| "reply_read R (Re_Delivery x) = reads_back (wr_delivery R) x"
| "reply_read R (Re_Cost x) = reads_back (wr_cost R) x"
| "reply_read R (Re_Approvals x) = reads_back (wr_approvals R) x"
| "reply_read R (Re_Approval x) = reads_back (wr_approval R) x"
| "reply_read R (Re_Decided x) = reads_back (wr_decided R) x"
| "reply_read R (Re_Grant x) = reads_back (wr_grant R) x"
| "reply_read R (Re_Checkpoint x) = reads_back (wr_checkpoint R) x"
| "reply_read R (Re_Event x) = reads_back (wr_event R) x"
| "reply_read R (Re_Cancelled x) = reads_back (wr_cancelled R) x"

text \<open>The version a receipt carries; the journal is a plain list.\<close>

fun reply_protocol :: "api_reply \<Rightarrow> u32" where
  "reply_protocol (Re_Snapshot x) = snap_protocol_version x"
| "reply_protocol (Re_Catalog x) = cs_protocol_version x"
| "reply_protocol (Re_CatalogReceipt x) = crc_protocol_version x"
| "reply_protocol (Re_M3 x) = ms_protocol_version x"
| "reply_protocol (Re_Graphs x) = gxl_protocol_version x"
| "reply_protocol (Re_Graph x) = ger_protocol_version x"
| "reply_protocol (Re_Claimed x) = cgnr_protocol_version x"
| "reply_protocol (Re_Begun x) = bgr_protocol_version x"
| "reply_protocol (Re_Executed x) = ergr_protocol_version x"
| "reply_protocol (Re_Finished x) = fgr_protocol_version x"
| "reply_protocol (Re_Completed x) = cpnr_protocol_version x"
| "reply_protocol (Re_Prepared x) = pmr_protocol_version x"
| "reply_protocol (Re_Accepted x) = abr_protocol_version x"
| "reply_protocol (Re_Document x) = dr_protocol_version x"
| "reply_protocol (Re_Delivery x) = kdr_protocol_version x"
| "reply_protocol (Re_Cost x) = cor_protocol_version x"
| "reply_protocol (Re_Approvals x) = apl_protocol_version x"
| "reply_protocol (Re_Approval x) = apr_protocol_version x"
| "reply_protocol (Re_Decided x) = arc_protocol_version x"
| "reply_protocol (Re_Grant x) = cgr_protocol_version x"
| "reply_protocol (Re_Checkpoint x) = ckr_protocol_version x"
| "reply_protocol (Re_Event x) = ev_protocol_version x"
| "reply_protocol (Re_Cancelled x) = cr_protocol_version x"
| "reply_protocol (Re_Events xs) = PROTOCOL_VERSION"

text \<open>The daemon at the other end: \<open>chunks\<close> is how the connection cuts a body into frames.\<close>

definition daemon_peer ::
  "command_wire \<Rightarrow> reply_wire \<Rightarrow> externals \<Rightarrow> api_env \<Rightarrow> (string \<Rightarrow> string list) \<Rightarrow> db store \<Rightarrow> peer" where
  "daemon_peer W R E V chunks s r =
     (case fst (serve W R E V r s) of
        None \<Rightarrow> Err Lt_InvalidHttpResponse
      | Some resp \<Rightarrow> Ok (hs_status resp, chunks (hs_body resp)))"

section \<open>Lemmas on paths and bodies\<close>

lemma split_text: "CHR ''/'' \<notin> set t \<Longrightarrow> split_slash t = [t]"
  by (induction t) auto

lemma split_text_append: "CHR ''/'' \<notin> set t \<Longrightarrow> split_slash (t @ CHR ''/'' # r) = t # split_slash r"
  by (induction t) auto

lemma collect_all:
  "collect_body b ds = (if ds = [] \<or> length b + length (concat ds) \<le> MAX_RESPONSE_BYTES then Some (b @ concat ds) else None)"
proof (induction ds arbitrary: b)
  case (Cons d ds)
  then show ?case by (cases "ds = []") auto
qed simp

lemma target_of_path: "local_target (LOCAL_HTTP_ORIGIN @ CHR ''/'' # p) = Some (CHR ''/'' # p)"
  by (simp add: local_target_def Let_def)

lemma reply_with_ok [simp]: "reply_with mk x = (Inr reply, t) \<longleftrightarrow> (\<exists>y. x = (Inr y, t) \<and> reply = mk y)"
proof -
  obtain r s where "x = (r, s)" by fastforce
  then show ?thesis by (cases r) auto
qed

end
