(* ===== verification/Http_Claims.thy ===== *)
theory Http_Claims
  imports Client
begin






lemma whole_commands [simp]:
  "\<lparr>ck_expected_revision = ck_expected_revision ck, ck_reason = ck_reason ck\<rparr> = ck"
  "\<lparr>rc_expected_revision = rc_expected_revision rc, rc_catalog = rc_catalog rc\<rparr> = rc"
  "\<lparr>cap_request = cap_request cap\<rparr> = cap"
  "\<lparr>dac_decision = dac_decision dac, dac_credential_scope_acknowledged = dac_credential_scope_acknowledged dac\<rparr> = dac"
  "\<lparr>rvk_actor = rvk_actor rvk\<rparr> = rvk"
  "\<lparr>crn_run_id = crn_run_id crn, crn_expected_catalog_revision = crn_expected_catalog_revision crn\<rparr> = crn"
  by simp_all












end
