(* ===== verification/Sandbox.thy ===== *)
theory Sandbox
  imports Bastet_Prelude
begin

text \<open>
  The sandbox a provider is started in (\<open>bastet-daemon/src/sandbox.rs\<close> and \<open>sandbox_linux.rs\<close>): a
  profile is checked and turned into the command line of Bubblewrap on Linux or of
  \<open>sandbox-exec\<close> on macOS. What these two programs make of their arguments is the specification:
  \<open>bwrap_grants\<close> reads the options of Bubblewrap and \<open>seatbelt_grants\<close> the profile language, as
  they document them. Paths are texts of absolute Unix paths.
\<close>

section \<open>Paths\<close>

text \<open>The text without the separators and the \<open>.\<close> components at its end; on the reversed text.\<close>

fun trim_rev :: "string \<Rightarrow> string" where
  "trim_rev (c # d # cs) =
     (if c = CHR ''/'' then trim_rev (d # cs)
      else if c = CHR ''.'' \<and> d = CHR ''/'' then trim_rev (d # cs)
      else c # d # cs)"
| "trim_rev cs = cs"

text \<open>\<open>Path::parent\<close>: there is none for the root.\<close>

definition path_parent :: "string \<Rightarrow> string option" where
  "path_parent p =
     (let r = trim_rev (rev p) in
      if r = ''/'' \<or> r = [] then None else Some (rev (trim_rev (dropWhile (\<lambda>c. c \<noteq> CHR ''/'') r))))"

lemma trim_rev_length: "length (trim_rev cs) \<le> length cs"
  by (induction cs rule: trim_rev.induct) auto

lemma trim_rev_set: "set (trim_rev cs) \<subseteq> set cs"
  by (induction cs rule: trim_rev.induct) auto

lemma path_parent_shorter: "path_parent p = Some q \<Longrightarrow> length q < length p"
proof -
  assume a: "path_parent p = Some q"
  define r where "r = trim_rev (rev p)"
  have r: "r \<noteq> []" "q = rev (trim_rev (dropWhile (\<lambda>c. c \<noteq> CHR ''/'') r))" "r \<noteq> ''/''"
    using a by (auto simp: path_parent_def r_def[symmetric] Let_def split: if_splits)
  have len: "length r \<le> length p" unfolding r_def using trim_rev_length[of "rev p"] by simp
  show ?thesis
  proof (cases "hd r = CHR ''/''")
    case False
    then have "length (dropWhile (\<lambda>c. c \<noteq> CHR ''/'') r) < length r" using r(1)
      by (cases r) (auto simp: le_imp_less_Suc length_dropWhile_le)
    with r(2) len trim_rev_length[of "dropWhile (\<lambda>c. c \<noteq> CHR ''/'') r"] show ?thesis by simp
  next
    case True
    have "trim_rev cs \<noteq> CHR ''/'' # c # ds" for cs c ds by (induction cs rule: trim_rev.induct) auto
    with True r(1,3) show ?thesis unfolding r_def by (metis list.collapse)
  qed
qed

function path_ancestors :: "string \<Rightarrow> string list" where
  "path_ancestors p = p # (case path_parent p of None \<Rightarrow> [] | Some q \<Rightarrow> path_ancestors q)"
  by pat_completeness auto
termination by (relation "measure length") (auto dest: path_parent_shorter)

declare path_ancestors.simps [simp del]

fun split_path :: "string \<Rightarrow> string list" where
  "split_path [] = [[]]"
| "split_path (c # cs) =
     (if c = CHR ''/'' then [] # split_path cs
      else case split_path cs of [] \<Rightarrow> [[c]] | s # ss \<Rightarrow> (c # s) # ss)"

text \<open>\<open>Path::components\<close> without the root.\<close>

definition path_components :: "string \<Rightarrow> string list" where
  "path_components p = filter (\<lambda>s. s \<noteq> [] \<and> s \<noteq> ''.'') (split_path p)"

definition path_absolute :: "string \<Rightarrow> bool" where
  "path_absolute p \<longleftrightarrow> (case p of [] \<Rightarrow> False | c # cs \<Rightarrow> c = CHR ''/'')"

section \<open>The launch plan\<close>

datatype SandboxPlatform = MacosSeatbelt | LinuxBubblewrap | WindowsAppContainer

record SandboxProfile =
  workspace_root_path :: string
  read_only_roots :: "string list"
  allow_workspace_write :: bool
  allow_network :: bool

datatype SandboxError = Sb_NonAbsoluteWorkspace | Sb_UnsafeWorkspace | Sb_EnforcerUnavailable string

text \<open>What is asked of the file system, and whether a path is Unicode.\<close>

record sandbox_os =
  os_canonical :: "string \<Rightarrow> string option"
  os_unicode :: "string \<Rightarrow> bool"
  os_is_file :: "string \<Rightarrow> bool"

text \<open>A command: program, arguments and the directory it starts in.\<close>

record launch_plan =
  lp_program :: string
  lp_args :: "string list"
  lp_dir :: string

definition QUOTE :: char where "QUOTE = CHR 0x22"
definition BACKSLASH :: char where "BACKSLASH = CHR 0x5C"

definition read_paths :: "SandboxProfile \<Rightarrow> string list" where
  "read_paths p = workspace_root_path p # read_only_roots p"

definition unsafe_char :: "char \<Rightarrow> bool" where
  "unsafe_char c \<longleftrightarrow> c \<in> {CHR 0x00, CHR 0x0A, CHR 0x0D, QUOTE}"

definition unsafe_path :: "sandbox_os \<Rightarrow> string \<Rightarrow> bool" where
  "unsafe_path os p \<longleftrightarrow> path_parent p = None \<or>
     (case os_canonical os p of None \<Rightarrow> False | Some q \<Rightarrow> path_parent q = None) \<or>
     ''..'' \<in> set (path_components p) \<or> \<not> os_unicode os p \<or>
     list_ex unsafe_char p"

definition sandbox_validate :: "sandbox_os \<Rightarrow> SandboxProfile \<Rightarrow> (SandboxError, unit) result" where
  "sandbox_validate os p =
     (if \<exists>r \<in> set (read_paths p). \<not> path_absolute r then Err Sb_NonAbsoluteWorkspace
      else if \<exists>r \<in> set (read_paths p). unsafe_path os r then Err Sb_UnsafeWorkspace
      else Ok ())"

definition quoted_text :: "string \<Rightarrow> string" where
  "quoted_text t = QUOTE # t @ [QUOTE]"

definition read_rules :: "string \<Rightarrow> string" where
  "read_rules root = '' (allow file-read* (subpath '' @ quoted_text root @ ''))'' @
     concat (map (\<lambda>parent. '' (allow file-read* (literal '' @ quoted_text parent @ ''))'') (tl (path_ancestors root)))"

definition macos_profile :: "SandboxProfile \<Rightarrow> string" where
  "macos_profile p =
     ''(version 1) (deny default) (allow process*) (allow sysctl-read) (allow mach-lookup)'' @
     concat (map read_rules (read_paths p)) @
     (if allow_workspace_write p then '' (allow file-write* (subpath '' @ quoted_text (workspace_root_path p) @ ''))'' else []) @
     (if allow_network p then '' (allow network*)'' else [])"

definition bwrap_args :: "SandboxProfile \<Rightarrow> string \<Rightarrow> string list" where
  "bwrap_args p executable =
     [''--unshare-user'', ''--die-with-parent'', ''--new-session'', ''--unshare-pid'', ''--unshare-ipc'', ''--unshare-uts''] @
     concat (map (\<lambda>root. [''--ro-bind'', root, root]) (read_only_roots p)) @
     [if allow_workspace_write p then ''--bind'' else ''--ro-bind'', workspace_root_path p, workspace_root_path p] @
     (if \<not> allow_network p then [''--unshare-net''] else []) @ [''--'', executable]"

definition require_executable :: "sandbox_os \<Rightarrow> string \<Rightarrow> string \<Rightarrow> (SandboxError, unit) result" where
  "require_executable os path name = (if os_is_file os path then Ok () else Err (Sb_EnforcerUnavailable name))"

definition launch_command ::
  "sandbox_os \<Rightarrow> SandboxProfile \<Rightarrow> SandboxPlatform \<Rightarrow> string \<Rightarrow> string list \<Rightarrow> (SandboxError, launch_plan) result" where
  "launch_command os p platform executable arguments =
     and_then (sandbox_validate os p) (\<lambda>_.
     case platform of
       MacosSeatbelt \<Rightarrow>
         if \<exists>r \<in> set (read_paths p). BACKSLASH \<in> set r then Err Sb_UnsafeWorkspace
         else and_then (require_executable os ''/usr/bin/sandbox-exec'' ''sandbox-exec'') (\<lambda>_.
           Ok \<lparr>lp_program = ''/usr/bin/sandbox-exec'',
             lp_args = [''-p'', macos_profile p, ''--'', executable] @ arguments, lp_dir = workspace_root_path p\<rparr>)
     | LinuxBubblewrap \<Rightarrow>
         and_then (require_executable os ''/usr/bin/bwrap'' ''bubblewrap'') (\<lambda>_.
           Ok \<lparr>lp_program = ''/usr/bin/bwrap'', lp_args = bwrap_args p executable @ arguments,
             lp_dir = workspace_root_path p\<rparr>)
     | WindowsAppContainer \<Rightarrow> Err (Sb_EnforcerUnavailable ''Windows AppContainer broker''))"

section \<open>What the enforcers understand\<close>

datatype grant =
  Read_Tree string | Read_Only string   \<comment> \<open>a directory with all below it; a single path\<close>
| Write_Tree string | Use_Network

text \<open>Bubblewrap: options up to \<open>--\<close>, then the command; a mount is at the path it comes from.\<close>

datatype bwrap_option = Opt_End | Opt_NoNet | Opt_RoBind | Opt_Bind | Opt_Flag | Opt_Unknown

definition bwrap_option :: "string \<Rightarrow> bwrap_option" where
  "bwrap_option a =
     (if a = ''--'' then Opt_End
      else if a = ''--unshare-net'' then Opt_NoNet
      else if a = ''--ro-bind'' then Opt_RoBind
      else if a = ''--bind'' then Opt_Bind
      else if a \<in> {''--unshare-user'', ''--die-with-parent'', ''--new-session'', ''--unshare-pid'', ''--unshare-ipc'',
          ''--unshare-uts''} then Opt_Flag
      else Opt_Unknown)"

fun bwrap_options :: "string list \<Rightarrow> grant list \<Rightarrow> bool \<Rightarrow> (grant list \<times> bool \<times> string list) option" where
  "bwrap_options [] gs net = None"
| "bwrap_options (a # as) gs net =
     (case bwrap_option a of
        Opt_End \<Rightarrow> Some (gs, net, as)
      | Opt_NoNet \<Rightarrow> bwrap_options as gs False
      | Opt_Flag \<Rightarrow> bwrap_options as gs net
      | Opt_Unknown \<Rightarrow> None
      | bind \<Rightarrow>
          (case as of
             s # d # rest \<Rightarrow>
               if s \<noteq> d then None
               else bwrap_options rest (gs @ (if bind = Opt_Bind then [Read_Tree s, Write_Tree s] else [Read_Tree s])) net
           | _ \<Rightarrow> None))"

definition bwrap_grants :: "string list \<Rightarrow> (grant list \<times> string list) option" where
  "bwrap_grants args = map_option (\<lambda>(gs, net, as). (gs @ (if net then [Use_Network] else []), as)) (bwrap_options args [] True)"

text \<open>The profile language of macOS: parentheses, symbols, and quoted strings with escapes.\<close>

datatype seatbelt_token = Tk_Open | Tk_Close | Tk_Symbol string | Tk_String string
datatype sexp = Symbol string | Quoted string | Form "sexp list"

fun lex_string :: "string \<Rightarrow> (string \<times> string) option" where
  "lex_string [] = None"
| "lex_string (c # cs) =
     (if c = QUOTE then Some ([], cs)
      else if c = BACKSLASH then (case cs of [] \<Rightarrow> None | d # ds \<Rightarrow> map_option (apfst (Cons d)) (lex_string ds))
      else map_option (apfst (Cons c)) (lex_string cs))"

definition symbol_char :: "char \<Rightarrow> bool" where
  "symbol_char c \<longleftrightarrow> c \<notin> {CHR '' '', CHR ''('', CHR '')'', QUOTE}"

lemma lex_string_shorter: "lex_string cs = Some (t, rest) \<Longrightarrow> length rest < length cs"
  by (induction cs arbitrary: t rest rule: lex_string.induct) (fastforce split: if_splits list.splits)+

function lex_profile :: "string \<Rightarrow> seatbelt_token list option" where
  "lex_profile [] = Some []"
| "lex_profile (c # cs) =
     (if c = CHR '' '' then lex_profile cs
      else if c = CHR ''('' then map_option (Cons Tk_Open) (lex_profile cs)
      else if c = CHR '')'' then map_option (Cons Tk_Close) (lex_profile cs)
      else if c = QUOTE then
        (case lex_string cs of None \<Rightarrow> None | Some (t, rest) \<Rightarrow> map_option (Cons (Tk_String t)) (lex_profile rest))
      else map_option (Cons (Tk_Symbol (c # takeWhile symbol_char cs))) (lex_profile (dropWhile symbol_char cs)))"
  by pat_completeness auto
termination
  by (relation "measure length") (auto dest: lex_string_shorter simp: le_imp_less_Suc length_dropWhile_le)

fun parse_forms :: "seatbelt_token list \<Rightarrow> sexp list list \<Rightarrow> sexp list option" where
  "parse_forms [] [xs] = Some (rev xs)"
| "parse_forms (Tk_Open # ts) stack = parse_forms ts ([] # stack)"
| "parse_forms (Tk_Close # ts) (xs # ys # stack) = parse_forms ts ((Form (rev xs) # ys) # stack)"
| "parse_forms (Tk_Symbol s # ts) (xs # stack) = parse_forms ts ((Symbol s # xs) # stack)"
| "parse_forms (Tk_String s # ts) (xs # stack) = parse_forms ts ((Quoted s # xs) # stack)"
| "parse_forms _ _ = None"

text \<open>What a form allows; any other form is not understood.\<close>

definition form_grants :: "sexp \<Rightarrow> grant list option" where
  "form_grants f =
     (if f \<in> {Form [Symbol ''version'', Symbol ''1''], Form [Symbol ''deny'', Symbol ''default''],
         Form [Symbol ''allow'', Symbol ''process*''], Form [Symbol ''allow'', Symbol ''sysctl-read''],
         Form [Symbol ''allow'', Symbol ''mach-lookup'']} then Some []
      else case f of
        Form [Symbol a, Symbol x, Form [Symbol k, Quoted path]] \<Rightarrow>
          if a \<noteq> ''allow'' then None
          else if x = ''file-read*'' \<and> k = ''subpath'' then Some [Read_Tree path]
          else if x = ''file-read*'' \<and> k = ''literal'' then Some [Read_Only path]
          else if x = ''file-write*'' \<and> k = ''subpath'' then Some [Write_Tree path]
          else None
      | Form [Symbol a, Symbol x] \<Rightarrow> if a = ''allow'' \<and> x = ''network*'' then Some [Use_Network] else None
      | _ \<Rightarrow> None)"

fun all_grants :: "sexp list \<Rightarrow> grant list option" where
  "all_grants [] = Some []"
| "all_grants (f # fs) = Option.bind (form_grants f) (\<lambda>gs. map_option ((@) gs) (all_grants fs))"

text \<open>A profile must deny by default, or it confines nothing.\<close>

definition seatbelt_grants :: "string \<Rightarrow> grant list option" where
  "seatbelt_grants profile =
     Option.bind (lex_profile profile) (\<lambda>ts. Option.bind (parse_forms ts [[]]) (\<lambda>fs.
       if Form [Symbol ''deny'', Symbol ''default''] \<in> set fs then all_grants fs else None))"

end
