(* ===== verification/Sandbox_Claims.thy ===== *)
theory Sandbox_Claims
  imports Sandbox
begin

text \<open>
  That the enforcers understand a launch plan exactly as the profile means it: no path can be
  written so that it adds a rule or an option.
\<close>

section \<open>Bubblewrap\<close>

lemma bwrap_binds:
  "bwrap_options (concat (map (\<lambda>r. [''--ro-bind'', r, r]) roots) @ as) gs net =
     bwrap_options as (gs @ map Read_Tree roots) net"
  by (induction roots arbitrary: gs) (simp_all add: bwrap_option_def)

definition linux_grants :: "SandboxProfile \<Rightarrow> grant list" where
  "linux_grants p = map Read_Tree (read_only_roots p) @ Read_Tree (workspace_root_path p) #
     (if allow_workspace_write p then [Write_Tree (workspace_root_path p)] else []) @ (if allow_network p then [Use_Network] else [])"

lemma bwrap_reads: "bwrap_grants (bwrap_args p executable @ arguments) = Some (linux_grants p, executable # arguments)"
  by (cases "allow_network p"; cases "allow_workspace_write p") (simp_all add: bwrap_grants_def bwrap_args_def bwrap_option_def[of "''--''"] bwrap_option_def[of "''--unshare-user''"]
    bwrap_option_def[of "''--die-with-parent''"] bwrap_option_def[of "''--new-session''"] bwrap_option_def[of "''--unshare-pid''"]
    bwrap_option_def[of "''--unshare-ipc''"] bwrap_option_def[of "''--unshare-uts''"] bwrap_option_def[of "''--unshare-net''"]
    bwrap_option_def[of "''--bind''"] bwrap_option_def[of "''--ro-bind''"] bwrap_binds linux_grants_def)

section \<open>The profile language\<close>

text \<open>The tokens of a form, and texts that are read as a list of forms whatever follows.\<close>

fun form_tokens :: "sexp \<Rightarrow> seatbelt_token list" where
  "form_tokens (Symbol s) = [Tk_Symbol s]"
| "form_tokens (Quoted s) = [Tk_String s]"
| "form_tokens (Form fs) = Tk_Open # concat (map form_tokens fs) @ [Tk_Close]"

definition lexes :: "string \<Rightarrow> sexp list \<Rightarrow> bool" where
  "lexes t fs \<longleftrightarrow> (\<forall>rest. lex_profile (t @ rest) = map_option (\<lambda>ts. concat (map form_tokens fs) @ ts) (lex_profile rest))"

lemma lexes_append: "lexes t fs \<Longrightarrow> lexes u gs \<Longrightarrow> lexes (t @ u) (fs @ gs)"
  by (simp add: lexes_def option.map_comp comp_def)

lemma lexes_Nil: "lexes [] []"
  by (simp add: lexes_def option.map_ident)

lemma lexes_concat: "(\<And>x. x \<in> set xs \<Longrightarrow> lexes (f x) (g x)) \<Longrightarrow> lexes (concat (map f xs)) (concat (map g xs))"
  by (induction xs) (auto intro: lexes_append lexes_Nil)

lemma parse_form:
  "parse_forms (form_tokens f @ ts) (xs # stack) = parse_forms ts ((f # xs) # stack)"
proof (induction f arbitrary: ts xs stack)
  case (Form fs)
  have "parse_forms (concat (map form_tokens gs) @ us) (ys # st) = parse_forms us ((rev gs @ ys) # st)"
    if "set gs \<subseteq> set fs" for gs us ys st
    using that by (induction gs arbitrary: ys) (simp_all add: Form)
  then show ?case by simp
qed simp_all

lemma parse_all: "parse_forms (concat (map form_tokens fs)) [xs] = Some (rev xs @ fs)"
  by (induction fs arbitrary: xs) (simp_all add: parse_form)

definition plain_text :: "string \<Rightarrow> bool" where
  "plain_text t \<longleftrightarrow> QUOTE \<notin> set t \<and> BACKSLASH \<notin> set t"

lemma lex_string_plain: "plain_text t \<Longrightarrow> lex_string (t @ QUOTE # rest) = Some (t, rest)"
  by (induction t) (auto simp: plain_text_def)

lemmas lex_exec = lexes_def quoted_text_def symbol_char_def QUOTE_def lex_string_plain[unfolded QUOTE_def] option.map_comp comp_def

definition read_form :: "string \<Rightarrow> string \<Rightarrow> sexp" where
  "read_form k path = Form [Symbol ''allow'', Symbol ''file-read*'', Form [Symbol k, Quoted path]]"

lemma lexes_subpath: "plain_text r \<Longrightarrow> lexes ('' (allow file-read* (subpath '' @ quoted_text r @ ''))'') [read_form ''subpath'' r]"
  by (simp add: lex_exec read_form_def)

lemma lexes_literal: "plain_text r \<Longrightarrow> lexes ('' (allow file-read* (literal '' @ quoted_text r @ ''))'') [read_form ''literal'' r]"
  by (simp add: lex_exec read_form_def)

section \<open>The whole profile\<close>

definition profile_forms :: "SandboxProfile \<Rightarrow> sexp list" where
  "profile_forms p =
     [Form [Symbol ''version'', Symbol ''1''], Form [Symbol ''deny'', Symbol ''default''],
      Form [Symbol ''allow'', Symbol ''process*''], Form [Symbol ''allow'', Symbol ''sysctl-read''],
      Form [Symbol ''allow'', Symbol ''mach-lookup'']] @
     concat (map (\<lambda>r. read_form ''subpath'' r # map (read_form ''literal'') (tl (path_ancestors r))) (read_paths p)) @
     (if allow_workspace_write p
      then [Form [Symbol ''allow'', Symbol ''file-write*'', Form [Symbol ''subpath'', Quoted (workspace_root_path p)]]] else []) @
     (if allow_network p then [Form [Symbol ''allow'', Symbol ''network*'']] else [])"

definition macos_grants :: "SandboxProfile \<Rightarrow> grant list" where
  "macos_grants p = concat (map (\<lambda>r. Read_Tree r # map Read_Only (tl (path_ancestors r))) (read_paths p)) @
     (if allow_workspace_write p then [Write_Tree (workspace_root_path p)] else []) @ (if allow_network p then [Use_Network] else [])"

lemma path_parent_set: "path_parent p = Some q \<Longrightarrow> set q \<subseteq> set p"
proof -
  assume "path_parent p = Some q"
  then have "set q \<subseteq> set (dropWhile (\<lambda>c. c \<noteq> CHR ''/'') (trim_rev (rev p)))"
    by (auto simp: path_parent_def Let_def dest!: subsetD[OF trim_rev_set] split: if_splits)
  also have "\<dots> \<subseteq> set p" using set_dropWhileD trim_rev_set[of "rev p"] by fastforce
  finally show ?thesis .
qed

lemma path_ancestors_set: "q \<in> set (path_ancestors p) \<Longrightarrow> set q \<subseteq> set p"
proof (induction p rule: path_ancestors.induct)
  case (1 p)
  show ?case
  proof (cases "path_parent p")
    case None
    with 1(2) show ?thesis by (simp add: path_ancestors.simps[of p])
  next
    case (Some r)
    with 1 path_parent_set[OF Some] show ?thesis by (auto simp: path_ancestors.simps[of p])
  qed
qed

lemma plain_ancestors: "plain_text p \<Longrightarrow> q \<in> set (tl (path_ancestors p)) \<Longrightarrow> plain_text q"
  using path_ancestors_set[of q p] list.set_sel(2)[of "path_ancestors p" q]
  by (cases "path_ancestors p") (auto simp: plain_text_def)

lemma lexes_read_rules:
  assumes "plain_text r"
  shows "lexes (read_rules r) (read_form ''subpath'' r # map (read_form ''literal'') (tl (path_ancestors r)))"
proof -
  have "lexes (concat (map (\<lambda>q. '' (allow file-read* (literal '' @ quoted_text q @ ''))'') (tl (path_ancestors r))))
      (concat (map (\<lambda>q. [read_form ''literal'' q]) (tl (path_ancestors r))))"
    using plain_ancestors[OF assms] by (intro lexes_concat lexes_literal)
  from lexes_append[OF lexes_subpath[OF assms] this] show ?thesis by (simp add: read_rules_def concat_map_singleton)
qed

lemma lexes_profile:
  assumes "\<forall>r \<in> set (read_paths p). plain_text r"
  shows "lexes (macos_profile p) (profile_forms p)"
proof -
  have base: "lexes ''(version 1) (deny default) (allow process*) (allow sysctl-read) (allow mach-lookup)''
     [Form [Symbol ''version'', Symbol ''1''], Form [Symbol ''deny'', Symbol ''default''],
      Form [Symbol ''allow'', Symbol ''process*''], Form [Symbol ''allow'', Symbol ''sysctl-read''],
      Form [Symbol ''allow'', Symbol ''mach-lookup'']]" by (simp add: lex_exec)
  have reads: "lexes (concat (map read_rules (read_paths p)))
      (concat (map (\<lambda>r. read_form ''subpath'' r # map (read_form ''literal'') (tl (path_ancestors r))) (read_paths p)))"
    using assms by (intro lexes_concat lexes_read_rules) simp
  have root: "plain_text (workspace_root_path p)" using assms by (simp add: read_paths_def)
  have writes: "lexes (if allow_workspace_write p then '' (allow file-write* (subpath '' @ quoted_text (workspace_root_path p) @ ''))'' else [])
      (if allow_workspace_write p
       then [Form [Symbol ''allow'', Symbol ''file-write*'', Form [Symbol ''subpath'', Quoted (workspace_root_path p)]]] else [])"
    using root by (simp add: lex_exec lexes_Nil[unfolded lexes_def] option.map_ident)
  have net: "lexes (if allow_network p then '' (allow network*)'' else [])
      (if allow_network p then [Form [Symbol ''allow'', Symbol ''network*'']] else [])"
    by (simp add: lex_exec option.map_ident)
  show ?thesis unfolding macos_profile_def profile_forms_def
    by (intro lexes_append base reads writes net)
qed

lemma all_grants_append:
  "all_grants (fs @ gs) = Option.bind (all_grants fs) (\<lambda>xs. map_option ((@) xs) (all_grants gs))"
proof (induction fs)
  case Nil
  show ?case by (cases "all_grants gs") simp_all
next
  case (Cons f fs)
  then show ?case by (cases "all_grants gs"; cases "all_grants fs"; cases "form_grants f") simp_all
qed

lemma form_grants_read [simp]:
  "form_grants (read_form ''subpath'' r) = Some [Read_Tree r]" "form_grants (read_form ''literal'' r) = Some [Read_Only r]"
  by (simp_all add: form_grants_def read_form_def)

lemma grants_reads:
  "all_grants (map (read_form ''literal'') ds) = Some (map Read_Only ds)"
  "all_grants (concat (map (\<lambda>r. read_form ''subpath'' r # map (read_form ''literal'') (tl (path_ancestors r))) rs)) =
     Some (concat (map (\<lambda>r. Read_Tree r # map Read_Only (tl (path_ancestors r))) rs))"
proof -
  show one: "all_grants (map (read_form ''literal'') ds) = Some (map Read_Only ds)" for ds
    by (induction ds) simp_all
  show "all_grants (concat (map (\<lambda>r. read_form ''subpath'' r # map (read_form ''literal'') (tl (path_ancestors r))) rs)) =
     Some (concat (map (\<lambda>r. Read_Tree r # map Read_Only (tl (path_ancestors r))) rs))"
    by (induction rs) (simp_all add: all_grants_append one)
qed

lemma seatbelt_reads:
  assumes "\<forall>r \<in> set (read_paths p). plain_text r"
  shows "seatbelt_grants (macos_profile p) = Some (macos_grants p)"
proof -
  have "lex_profile (macos_profile p) = Some (concat (map form_tokens (profile_forms p)))"
    using lexes_profile[OF assms, unfolded lexes_def, rule_format, of "[]"] by simp
  moreover have "all_grants (profile_forms p) = Some (macos_grants p)"
    by (simp add: profile_forms_def macos_grants_def all_grants_append grants_reads form_grants_def)
  moreover have "Form [Symbol ''deny'', Symbol ''default''] \<in> set (profile_forms p)" by (simp add: profile_forms_def)
  ultimately show ?thesis by (simp add: seatbelt_grants_def parse_all)
qed

section \<open>The claim\<close>

lemma safe_path:
  assumes "\<not> unsafe_path os r"
  shows "path_parent r \<noteq> None" and "''..'' \<notin> set (path_components r)" and "QUOTE \<notin> set r"
proof -
  note safe = assms[unfolded unsafe_path_def, simplified de_Morgan_disj]
  show "path_parent r \<noteq> None" using safe by (rule conjunct1)
  show "''..'' \<notin> set (path_components r)" using safe by (elim conjE)
  from safe have "\<not> list_ex unsafe_char r" by (elim conjE)
  moreover have "unsafe_char QUOTE" by (simp add: unsafe_char_def)
  ultimately show "QUOTE \<notin> set r" by (auto simp: list_ex_iff)
qed

text \<open>C14. A launch plan grants exactly what its profile says, as the enforcer itself reads it: whatever
  characters the paths hold, the command that Bubblewrap or \<open>sandbox-exec\<close> runs is the provider with
  its arguments, the readable trees are the workspace and the read-only roots, the workspace alone
  is writable and only if the profile allows it, the network is there only if it does, and on macOS
  the ancestors of these paths may be opened themselves; no path is the root, is relative or goes up,
  and a platform without an enforcer gets no plan at all.\<close>

theorem sandbox_grants_exactly:
  assumes "launch_command os p platform executable arguments = Ok plan"
  shows "lp_dir plan = workspace_root_path p \<and>
    (\<exists>gs. (platform = LinuxBubblewrap \<and> lp_program plan = ''/usr/bin/bwrap'' \<and>
           bwrap_grants (lp_args plan) = Some (gs, executable # arguments) \<or>
         platform = MacosSeatbelt \<and> lp_program plan = ''/usr/bin/sandbox-exec'' \<and>
           (\<exists>profile. lp_args plan = [''-p'', profile, ''--'', executable] @ arguments \<and> seatbelt_grants profile = Some gs)) \<and>
       {r. Read_Tree r \<in> set gs} = set (read_paths p) \<and>
       {r. Write_Tree r \<in> set gs} = (if allow_workspace_write p then {workspace_root_path p} else {}) \<and>
       (Use_Network \<in> set gs \<longleftrightarrow> allow_network p) \<and>
       {d. Read_Only d \<in> set gs} = (if platform = MacosSeatbelt then \<Union>r \<in> set (read_paths p). set (tl (path_ancestors r)) else {})) \<and>
    (\<forall>r \<in> set (read_paths p). path_absolute r \<and> path_parent r \<noteq> None \<and> ''..'' \<notin> set (path_components r))"
proof -
  have valid: "sandbox_validate os p = Ok ()" using assms by (auto simp: launch_command_def and_then_eq_Ok)
  then have paths: "\<forall>r \<in> set (read_paths p). path_absolute r \<and> \<not> unsafe_path os r"
    by (auto simp: sandbox_validate_def split: if_splits)
  have safe: "\<forall>r \<in> set (read_paths p). path_absolute r \<and> path_parent r \<noteq> None \<and> ''..'' \<notin> set (path_components r)"
    using paths safe_path(1,2) by blast
  show ?thesis
  proof (cases platform)
    case LinuxBubblewrap
    with assms valid have plan: "lp_args plan = bwrap_args p executable @ arguments" "lp_program plan = ''/usr/bin/bwrap''"
      "lp_dir plan = workspace_root_path p" by (auto simp: launch_command_def and_then_eq_Ok)
    have "{r. Read_Tree r \<in> set (linux_grants p)} = set (read_paths p)"
      "{r. Write_Tree r \<in> set (linux_grants p)} = (if allow_workspace_write p then {workspace_root_path p} else {})"
      "Use_Network \<in> set (linux_grants p) \<longleftrightarrow> allow_network p" "{d. Read_Only d \<in> set (linux_grants p)} = {}"
      by (auto simp: linux_grants_def read_paths_def)
    then show ?thesis using plan bwrap_reads[of p executable arguments] safe LinuxBubblewrap
      by (intro conjI exI[of _ "linux_grants p"] disjI1) simp_all
  next
    case MacosSeatbelt
    with assms valid have plan: "lp_args plan = [''-p'', macos_profile p, ''--'', executable] @ arguments"
      "lp_program plan = ''/usr/bin/sandbox-exec''" "lp_dir plan = workspace_root_path p"
      and backslash: "\<forall>r \<in> set (read_paths p). BACKSLASH \<notin> set r"
      by (auto simp: launch_command_def and_then_eq_Ok split: if_splits)
    have "\<forall>r \<in> set (read_paths p). plain_text r" using paths backslash safe_path(3) unfolding plain_text_def by blast
    note reads = seatbelt_reads[OF this]
    have "{r. Read_Tree r \<in> set (macos_grants p)} = set (read_paths p)"
      "{r. Write_Tree r \<in> set (macos_grants p)} = (if allow_workspace_write p then {workspace_root_path p} else {})"
      "Use_Network \<in> set (macos_grants p) \<longleftrightarrow> allow_network p"
      "{d. Read_Only d \<in> set (macos_grants p)} = (\<Union>r \<in> set (read_paths p). set (tl (path_ancestors r)))"
      by (auto simp: macos_grants_def)
    then show ?thesis using plan reads safe MacosSeatbelt
      by (intro conjI exI[of _ "macos_grants p"] disjI2 exI[of _ "macos_profile p"]) simp_all
  next
    case WindowsAppContainer
    with assms valid show ?thesis by (simp add: launch_command_def)
  qed
qed

definition sample_os :: sandbox_os where
  "sample_os = \<lparr>os_canonical = (\<lambda>p. None), os_unicode = (\<lambda>p. True), os_is_file = (\<lambda>p. True)\<rparr>"

definition sample_profile :: SandboxProfile where
  "sample_profile = \<lparr>workspace_root_path = ''/w (x)'', read_only_roots = [''/usr/lib/''], allow_workspace_write = True,
     allow_network = False\<rparr>"

lemmas sandbox_exec = launch_command_def sandbox_validate_def unsafe_path_def sample_os_def sample_profile_def
  read_paths_def unsafe_char_def path_absolute_def path_parent_def path_components_def QUOTE_def BACKSLASH_def require_executable_def Let_def

theorem sandbox_grants_exactly_witness:
  "\<exists>plan profile gs. launch_command sample_os sample_profile MacosSeatbelt ''/p'' [''a''] = Ok plan \<and>
     lp_args plan = [''-p'', profile, ''--'', ''/p'', ''a''] \<and> seatbelt_grants profile = Some gs \<and>
     {r. Write_Tree r \<in> set gs} = {''/w (x)''} \<and> {r. Read_Tree r \<in> set gs} = {''/w (x)'', ''/usr/lib/''} \<and> Use_Network \<notin> set gs"
proof -
  have "\<exists>plan. launch_command sample_os sample_profile MacosSeatbelt ''/p'' [''a''] = Ok plan"
    by (simp add: sandbox_exec)
  then obtain plan where plan: "launch_command sample_os sample_profile MacosSeatbelt ''/p'' [''a''] = Ok plan" ..
  from sandbox_grants_exactly[OF this] plan show ?thesis
    by (auto simp: sample_profile_def read_paths_def)
qed

end
