(* ===== verification/Spec2Isabelle.thy ===== *)
theory Spec2Isabelle
  imports Graph_Claims Approval_Claims Project_Claims Process_Claims Store_Claims
    Adapter_Claims Http_Claims Sandbox_Claims
begin

text \<open>
  Bastet Workstation runs command line coding agents for a project under an authority that a
  person keeps. This library models the Rust crates that decide what happens: \<open>bastet-core\<close>
  (policies, the identity catalog, workflow graphs, approvals, meetings, deliverables, process
  plumbing, workspace snapshots), \<open>bastet-protocol\<close> (the commands and receipts), \<open>bastet-daemon\<close>
  (the store that executes the commands in transactions, launches providers and recovers after a
  restart, and the HTTP interface to it), \<open>bastet-client\<close>, the two provider adapters
  \<open>bastet-adapter-codex\<close> and \<open>bastet-adapter-agy\<close>, and the suite \<open>bastet-adapter-conformance\<close> that
  adapters are measured by.

  \<^bold>\<open>How the parts work together.\<close> A project is prepared (\<open>mvp.rs\<close>), its meeting ends in a
  sealed decision baseline (\<open>meeting.rs\<close>), and accepting the decision starts an execution of a
  workflow graph (\<open>graph.rs\<close>). The daemon hands out ready nodes as runs, freezes a launch plan
  for each (\<open>provider_launch.rs\<close>), and, where an account with a credential is selected, stages
  the launch until an approval is decided (\<open>approval.rs\<close>, \<open>staged_launches.rs\<close>). An approved
  request yields a credential grant that is used once, by an explicit consumption or by a dispatch
  claim (\<open>credential_grants.rs\<close>, \<open>credential_dispatch.rs\<close>). The executor (\<open>provider_executor.rs\<close>)
  starts an adapter, turns what the provider did into an outcome and persists it; finished nodes
  make their dependents ready, their outputs become document versions, costs and deliveries
  (\<open>deliverable.rs\<close>). After a crash the daemon marks what was in flight as uncertain. An adapter
  owns a child process: its input goes through a writer thread (\<open>process_input.rs\<close>), its output
  through a line decoder and a bounded queue (\<open>process_output.rs\<close>, \<open>process_queue.rs\<close>), and what it
  says becomes numbered events without anything the provider wrote, a bounded final text and, where
  the workspace changed, a receipt ahead of the terminal state. Everything a person does arrives
  through the client's methods and the daemon's routes.

  \<^bold>\<open>Where to find what.\<close>
  \<^item> \<open>Bastet_Prelude\<close>: results, panics as values, guarded sequences, trimming of UTF-8 strings,
    fixed-width integers, first-match updates, and the locale of a transition system with an
    invariant that every component with a state instantiates.
  \<^item> \<open>Policy\<close>, \<open>Identity\<close>, \<open>Catalog\<close>: \<open>policy.rs\<close>, \<open>identity.rs\<close> and \<open>catalog.rs\<close>.
  \<^item> \<open>Graph_Model\<close>: every operation of \<open>graph.rs\<close>. \<open>Graph_Validate\<close> proves its depth-first search,
    \<open>Graph_Execution\<close> the behaviour of each operation, \<open>Graph_Steps\<close> that each moves every node
    along an abstract node machine, \<open>Graph_Schedule\<close> that all executions reachable by operations
    keep the invariant, \<open>Graph_Evidence\<close> that outputs and terminal states survive, and
    \<open>Graph_Claims\<close> states the properties.
  \<^item> \<open>Approval\<close>, \<open>Approval_Claims\<close>: \<open>approval.rs\<close>, with the panic of \<open>expect\<close> as a value.
  \<^item> \<open>Office\<close>, \<open>Meeting\<close>, \<open>Deliverable\<close>, \<open>M3\<close>, \<open>Mvp\<close>, \<open>Project_Claims\<close>: the project catalog
    and the set-up of a project; each validator is proved equal to a declarative description.
  \<^item> \<open>Line_Decoder\<close>, \<open>Process_Queue\<close>, \<open>Process_Input\<close>, \<open>Windows_Encoding\<close>, \<open>Windows_Environment\<close>,
    \<open>Process_Claims\<close>: \<open>process_output.rs\<close>, \<open>process_queue.rs\<close> and \<open>process_input.rs\<close> (both at the
    granularity of their accesses to shared state, so that the two threads interleave),
    \<open>windows_launch_encoding.rs\<close> and \<open>process_environment.rs\<close>.
  \<^item> \<open>Store_Monad\<close>: transactions over a world of database, clock readings, random identifiers and
    the poison flag of the mutex; \<open>call\<close> runs one request: commit, roll back, or poison.
    \<open>Protocol\<close>: the records of \<open>bastet-protocol\<close>. \<open>Store_Tables\<close>: the tables as lists of rows, the
    SQL statements, the journal, the conversions of integers to SQL. \<open>Store_Catalog\<close>,
    \<open>Store_Project\<close>, \<open>Store_Graph\<close>, \<open>Store_Plan\<close>, \<open>Store_Staged\<close>, \<open>Store_Approval\<close>, \<open>Store_Run\<close>,
    \<open>Store_Recovery\<close>, \<open>Store_Executor\<close>: the requests of \<open>lib.rs\<close> and its sibling modules, one
    definition per method of \<open>Store\<close>.
  \<^item> \<open>Store_Logic\<close> gives the rules for what a successful transaction did; \<open>Store_Invariant\<close> the
    invariant of the database and the relation in which a later database stands to an earlier one;
    \<open>Store_Writes\<close>, \<open>Store_Operations\<close>, \<open>Store_Launches\<close>, \<open>Store_Runs\<close>, \<open>Store_Restart\<close> prove both
    for every statement and then for every request and for recovery; \<open>Store_System\<close> collects the
    requests in one datatype and instantiates the locale of a system with a history.
    \<open>Store_Sample\<close> runs a concrete store, \<open>Store_Guarantees\<close> derives what clients rely on, and
    \<open>Store_Claims\<close> states the properties.
  \<^item> \<open>Http_Api\<close>: the routes, handlers and statuses of \<open>bastet-daemon/src/lib.rs\<close>; \<open>Client\<close>: the
    methods of \<open>bastet-client\<close> and its local transport; \<open>Http_Claims\<close>: that they fit together.
  \<^item> \<open>Sandbox\<close>, \<open>Sandbox_Claims\<close>: \<open>sandbox.rs\<close> and \<open>sandbox_linux.rs\<close>, the launch plans for
    Bubblewrap and \<open>sandbox-exec\<close>, and what these two read in them.
  \<^item> \<open>Adapter\<close>: JSON values, events, failures and costs that both adapters share, and the locale of
    a source of events. \<open>Agy_Stream\<close> (\<open>stream.rs\<close>), \<open>Agy_Events\<close> (its calls as an event source and the
    final text), \<open>Agy_Process\<close> (\<open>process.rs\<close>: the start, observation under two deadlines,
    cancellation) and \<open>Agy_Receipts\<close> (any sequence of calls). \<open>Codex_Stream\<close> (\<open>lifecycle.rs\<close>,
    \<open>evidence.rs\<close>), \<open>Codex_Events\<close>, \<open>Codex_Server\<close> (\<open>app_server.rs\<close>), \<open>Codex_Run\<close> and
    \<open>Codex_Receipts\<close> (\<open>run.rs\<close>), \<open>Codex_Stdio\<close> and \<open>Codex_Transport\<close> (\<open>stdio.rs\<close> and what it keeps).
    \<open>Receipt_Order\<close> is the contract by which both put a receipt before the terminal state.
    \<open>Adapter_Tools\<close>: discovery, versions, models and capabilities of the two tools; \<open>Workspace\<close>:
    \<open>workspace.rs\<close>; \<open>Conformance\<close>: the suite; \<open>Adapter_Claims\<close> states the properties.

  \<^bold>\<open>What stands for the world outside.\<close> SHA-256, the JSON text of a value, the display of a
  UUID, the file system test of a path and the native credential reader are arguments
  (\<open>externals\<close>, \<open>reader\<close>); nothing is assumed of them, and the samples use concrete functions.
  Clock readings and random identifiers are streams that a request consumes; a clash of an
  identifier with a primary key is the database error it causes. A column of JSON text holds the
  value it decodes to (or \<open>Malformed\<close> where the code reads rows that others may have written).
  The readers and writers of JSON are \<open>json_codec\<close> and \<open>codex_env\<close> for the adapters, \<open>command_wire\<close> and
  \<open>reply_wire\<close> for the daemon; where a property needs that they read back what they write, it says
  so. A pipe, a clock, a cancellation token and a child process are streams of what each look at
  them answers; a workspace on disk is a tree that says what every system call on it answers.
  Every request of the store takes the mutex around its whole transaction, so requests are steps of
  an interleaving; requests that take it twice are two steps in a row. A failed request leaves
  the database as it was; a panic under the mutex poisons it.

  \<^bold>\<open>Bounds and fuel.\<close> Revisions and sequence numbers are 64-bit words; a statement with a value
  above the signed range fails as SQLite's binding does, and the properties show that no unchecked
  increment wraps. \<open>retry_failed\<close> and \<open>block_dependents\<close> iterate to a fixed point with proofs that
  they return; \<open>persist_loop\<close>, which need not end, has fuel, and running out of it is a value of its
  own. The loops of the adapters that wait for a child (\<open>receive_message\<close>, \<open>request_loop\<close>,
  \<open>notification_loop\<close>, \<open>next_run_update\<close>, \<open>agy_poll_loop\<close>, \<open>agy_next_update\<close>) are partial functions,
  where not returning is the value \<open>None\<close>; that a request and a bounded wait return once the clock
  has passed their deadline is proved. Nothing else needs fuel.

  \<^bold>\<open>What the groups of lemmas show.\<close> That validators accept exactly the described states; that
  graph operations keep executions valid, respect dependencies and approvals, block and
  reopen the nodes they should and make progress; that a grant is used at most once and
  only with authority; that concurrent catalog edits are not lost, the journal is complete and numbered
  without gaps, and history only grows; that after recovery nothing is left running; that encoders,
  decoders and queues lose nothing, and that a child's input holds whole frames or ends with one
  broken frame for good; that adapters number their events without gaps, close with the terminal
  state, publish nothing the provider wrote, hand out a receipt before the end of a run that changed
  files, match replies to requests and stay within their bounds; that a client's call reaches its
  handler and brings back what the handler returned; that a sandboxed child gets exactly what its
  profile grants. Where the code does not do what it means to,
  a theorem says so: a request that poisons the store, a worker that then never ends, retrying
  that reopens unrelated nodes, a successful run with a blank answer that is never settled,
  capabilities that cannot pass the suite, and an empty diff taken for a violation of the protocol.

  \<^bold>\<open>Not modelled.\<close> The migrations from older schemas, the command line, logging and start-up of the
  daemon, the native credential stores, process groups and job objects, the polling
  thread of the output reader, local sockets and named pipes, and the desktop application: calls
  into the operating system or into frameworks, whose effect a model would have to invent. The
  readings of pipes and clocks above are where they would be attached.
\<close>

section \<open>From the decision to the running graph\<close>

lemma ready_nodes_init:
  assumes "exec_init x" and "wf_execution H x"
  shows "ready_nodes x = map gn_id (filter (\<lambda>n. gn_needs n = []) (graph_nodes (exec_graph x)))"
proof -
  let ?g = "exec_graph x"
  note g = wf_executionD[OF assms(2)]
  have none: "state_of x d \<noteq> Some Succeeded" for d using exec_init_pending[OF assms(1), of d] by auto
  have "ready x (gn_id n) \<longleftrightarrow> gn_needs n = []" if "n \<in> set (graph_nodes ?g)" for n
  proof -
    have "find (\<lambda>m. gn_id m = gn_id n) (graph_nodes ?g) = Some n"
      using find_key_Some[where key = gn_id, OF g(4)] that by simp
    from needs_ready[OF assms(2) this] none show ?thesis by (cases "gn_needs n") auto
  qed
  then have "filter (\<lambda>n. ready x (gn_id n)) (graph_nodes ?g) = filter (\<lambda>n. gn_needs n = []) (graph_nodes ?g)"
    by (intro filter_cong) auto
  then show ?thesis
    by (simp add: ready_nodes_def exec_initD(2)[OF assms(1)] filter_map comp_def fresh_node_def)
qed

text \<open>Accepting the decision of a prepared project starts a graph whose first claim, with room
  for at least two nodes, hands out exactly the two research nodes; the join waits for both.\<close>

theorem accepted_project_starts_with_research:
  assumes "fresh_prepare_ids pids" and "fresh_accept_ids aids" and "\<not> blank name" and "\<not> blank root"
    and "\<not> blank codex" and "\<not> blank agy" and "\<not> blank content" and "\<not> blank human" and "\<not> blank at"
    and "\<not> blank owner" and "2 \<le> limit"
  shows "\<exists>x d y. accept_decision H aids (mvp_draft pids name root codex agy) content human at = (Ok x, d) \<and>
    claim_ready owner limit x = Ok ([new_left aids, new_right aids], y) \<and>
    state_of y (new_join aids) = Some Pending"
proof -
  from accept_Ok[OF assms(1-9), of H] obtain x d where
    x: "accept_decision H aids (mvp_draft pids name root codex agy) content human at = (Inr x, d)"
      "exec_init x"
      "exec_graph x = mvp_graph aids (new_research_a pids) (new_research_b pids) (new_integrator pids)"
    by (elim exE conjE) (rule that)
  have wf: "wf_execution H x" using exec_init_inv[OF x(2)] by (simp add: exec_inv_def)
  have ready: "take limit (ready_nodes x) = [new_left aids, new_right aids]"
    unfolding ready_nodes_init[OF x(2) wf] using assms(11) by (simp add: x(3) mvp_graph_def)
  have limit: "limit \<noteq> 0" using assms(11) by simp
  from claim_ready_spec[OF wf assms(10) limit refl] obtain y where
    y: "claim_ready owner limit x = Inr ([new_left aids, new_right aids], y)" unfolding ready by blast
  have "new_join aids \<in> node_ids (exec_graph x)" by (simp add: x(3) mvp_graph_def)
  with known_state[OF wf] exec_init_pending[OF x(2)] have "state_of x (new_join aids) = Some Pending" by blast
  with claim_ready_states[OF y wf] assms(2) have "state_of y (new_join aids) = Some Pending"
    by (auto simp: fresh_accept_ids_def)
  with x(1) y show ?thesis by blast
qed

theorem accepted_project_starts_with_research_witness:
  "\<exists>x d y. accept_decision id sample_accept_ids (mvp_draft sample_prepare_ids ''MVP'' ''/work'' ''m1'' ''m2'')
      ''decide'' ''me'' ''now'' = (Ok x, d) \<and>
    claim_ready ''w'' 2 x = Ok ([StableId 2, StableId 3], y) \<and> state_of y (StableId 4) = Some Pending"
proof -
  have "fresh_prepare_ids sample_prepare_ids \<and> fresh_accept_ids sample_accept_ids \<and>
    \<not> blank ''MVP'' \<and> \<not> blank ''/work'' \<and> \<not> blank ''m1'' \<and> \<not> blank ''m2'' \<and> \<not> blank ''decide'' \<and>
    \<not> blank ''me'' \<and> \<not> blank ''now'' \<and> \<not> blank ''w''" by code_simp
  then show ?thesis
    using accepted_project_starts_with_research[of sample_prepare_ids sample_accept_ids "''MVP''" "''/work''" "''m1''" "''m2''"
        "''decide''" "''me''" "''now''" "''w''" 2 id]
    by (simp add: sample_accept_ids_def)
qed

end
